(* ===== verification/Prelude.thy ===== *)
theory Prelude
  imports Complex_Main
begin

text \<open>
  Shared vocabulary of the development: Python values as they occur in the JSON columns,
  the application errors, relational tables with the row operations that the repositories
  use, the compare-and-set update that four repositories share, and the action-keyed
  transition tables that tickets, workflow runs and releases share.

  The three locales of this theory are the interfaces the components rely on:
  \<open>row_store\<close> (what reading returns after an insert, an update or a delete),
  \<open>versioned_row\<close> (a row with a status and an optimistic-lock version) and
  \<open>action_machine\<close> (a transition table with absorbing states).
\<close>

named_theorems row_simps "row access and update equations of the tables"
named_theorems cas_simps "compare-and-set equations"

section \<open>Python values\<close>

type_synonym time = int \<comment> \<open>microseconds since the epoch (an aware \<open>datetime\<close>)\<close>

definition seconds :: "int \<Rightarrow> time" where
  "seconds n = n * 1000000"

datatype json =
    JNull
  | JBool bool
  | JInt int
  | JFloat rat
  | JStr string
  | JList "json list"
  | JObj "(string \<times> json) list"

type_synonym dict = "(string \<times> json) list"

text \<open>\<open>bool(x)\<close>: what Python takes for false.\<close>

fun truthy :: "json \<Rightarrow> bool" where
  "truthy JNull = False"
| "truthy (JBool b) = b"
| "truthy (JInt n) = (n \<noteq> 0)"
| "truthy (JFloat r) = (r \<noteq> 0)"
| "truthy (JStr s) = (s \<noteq> [])"
| "truthy (JList xs) = (xs \<noteq> [])"
| "truthy (JObj kvs) = (kvs \<noteq> [])"

definition truthy_opt :: "json option \<Rightarrow> bool" where
  "truthy_opt x = (case x of None \<Rightarrow> False | Some v \<Rightarrow> truthy v)"

definition str_truthy :: "string option \<Rightarrow> bool" where
  "str_truthy x = (case x of None \<Rightarrow> False | Some s \<Rightarrow> s \<noteq> [])"

definition int_truthy :: "int option \<Rightarrow> bool" where
  "int_truthy x = (case x of None \<Rightarrow> False | Some n \<Rightarrow> n \<noteq> 0)"

text \<open>\<open>a or b\<close> on JSON values.\<close>

definition jor :: "json \<Rightarrow> json \<Rightarrow> json" where
  "jor a b = (if truthy a then a else b)"

text \<open>\<open>d.get(k)\<close> on a dict; a missing key and an explicit \<open>null\<close> are both Python's \<open>None\<close>.\<close>

definition dget :: "dict \<Rightarrow> string \<Rightarrow> json" where
  "dget d k = (case map_of d k of None \<Rightarrow> JNull | Some v \<Rightarrow> v)"

definition dhas :: "dict \<Rightarrow> string \<Rightarrow> bool" where
  "dhas d k = (map_of d k \<noteq> None)"

text \<open>\<open>d[k] = v\<close> on a dict: an existing key keeps its place.\<close>

fun dset :: "dict \<Rightarrow> string \<Rightarrow> json \<Rightarrow> dict" where
  "dset [] k v = [(k, v)]"
| "dset ((k', v') # d) k v = (if k' = k then (k, v) # d else (k', v') # dset d k v)"

lemma map_of_dset [simp]: "map_of (dset d k v) = (map_of d)(k \<mapsto> v)"
  by (induction d k v rule: dset.induct) (auto simp: fun_upd_twist)

lemma dget_dset [simp]: "dget (dset d k v) k' = (if k' = k then v else dget d k')"
  by (simp add: dget_def)

lemma dset_same: "map_of d k = Some v \<Longrightarrow> dset d k v = d"
  by (induction d) auto

lemma dset_new: "k \<notin> fst ` set d \<Longrightarrow> dset d k v = d @ [(k, v)]"
  by (induction d) auto

text \<open>The dict under a JSON value (\<open>(x or {})\<close> where the column holds a dict or null).\<close>

definition as_dict :: "json \<Rightarrow> dict" where
  "as_dict j = (case j of JObj d \<Rightarrow> d | _ \<Rightarrow> [])"

text \<open>Iterating a JSON value with \<open>for\<close>: lists, the characters of a string, the keys of a
  dict; anything else is a \<open>TypeError\<close>.\<close>

fun py_iter :: "json \<Rightarrow> json list option" where
  "py_iter (JList xs) = Some xs"
| "py_iter (JStr s) = Some (map (\<lambda>c. JStr [c]) s)"
| "py_iter (JObj kvs) = Some (map (\<lambda>(k, _). JStr k) kvs)"
| "py_iter _ = None"

text \<open>\<open>str.lower()\<close> on the byte characters of \<open>string\<close>, and substring search (\<open>w in t\<close>).\<close>

definition lower_char :: "char \<Rightarrow> char" where
  "lower_char c = (let n = of_char c :: nat in if 65 \<le> n \<and> n \<le> 90 then char_of (n + 32) else c)"

definition lower :: "string \<Rightarrow> string" where
  "lower s = map lower_char s"

fun contains :: "string \<Rightarrow> string \<Rightarrow> bool" where
  "contains w [] = (w = [])"
| "contains w (c # cs) = (take (length w) (c # cs) = w \<or> contains w cs)"

lemma contains_iff: "contains w t \<longleftrightarrow> (\<exists>pre post. t = pre @ w @ post)"
proof (induction t)
  case Nil
  then show ?case by auto
next
  case (Cons c cs)
  show ?case
  proof
    assume "contains w (c # cs)"
    then consider "take (length w) (c # cs) = w" | "contains w cs" by auto
    then show "\<exists>pre post. c # cs = pre @ w @ post"
    proof cases
      case 1
      then have "c # cs = [] @ w @ drop (length w) (c # cs)"
        by (metis append_Nil append_take_drop_id)
      then show ?thesis by blast
    next
      case 2
      with Cons.IH obtain pre post where "cs = pre @ w @ post" by blast
      then have "c # cs = (c # pre) @ w @ post" by simp
      then show ?thesis by blast
    qed
  next
    assume "\<exists>pre post. c # cs = pre @ w @ post"
    then obtain pre post where eq: "c # cs = pre @ w @ post" by blast
    show "contains w (c # cs)"
    proof (cases pre)
      case Nil
      with eq have "take (length w) (c # cs) = w" by simp
      then show ?thesis by simp
    next
      case (Cons p ps)
      with eq have "cs = ps @ w @ post" by simp
      with Cons.IH show ?thesis by auto
    qed
  qed
qed

text \<open>SQL \<open>LIKE\<close> with the wildcards \<open>%\<close> and \<open>_\<close> and the escape character backslash.\<close>

fun sql_like :: "string \<Rightarrow> string \<Rightarrow> bool" where
  "sql_like [] s = (s = [])"
| "sql_like (p # ps) [] = (p = CHR ''%'' \<and> sql_like ps [])"
| "sql_like (p # ps) (c # cs) =
     (if p = CHR ''%'' then sql_like ps (c # cs) \<or> sql_like (p # ps) cs
      else if p = CHR ''_'' then sql_like ps cs
      else if p = CHR 0x5C then (case ps of [] \<Rightarrow> False | q # qs \<Rightarrow> q = c \<and> sql_like qs cs)
      else p = c \<and> sql_like ps cs)"

text \<open>\<open>str.replace(old, new)\<close> for a non-empty \<open>old\<close>: left to right, non-overlapping. The
  first argument is the number of characters of the current match still to be dropped.\<close>

fun replace_from :: "nat \<Rightarrow> string \<Rightarrow> string \<Rightarrow> string \<Rightarrow> string" where
  "replace_from n old new [] = []"
| "replace_from (Suc n) old new (c # cs) = replace_from n old new cs"
| "replace_from 0 old new (c # cs) =
     (if take (length old) (c # cs) = old then new @ replace_from (length old - 1) old new cs
      else c # replace_from 0 old new cs)"

definition str_replace :: "string \<Rightarrow> string \<Rightarrow> string \<Rightarrow> string" where
  "str_replace s old new = replace_from 0 old new s"

text \<open>Decimal rendering of integers (\<open>str(n)\<close>, \<open>f"{n:03d}"\<close>).\<close>

fun digits :: "nat \<Rightarrow> string" where
  "digits n = (if n < 10 then [char_of (48 + n)] else digits (n div 10) @ [char_of (48 + n mod 10)])"

declare digits.simps [simp del]

definition show_int :: "int \<Rightarrow> string" where
  "show_int n = (if n < 0 then CHR ''-'' # digits (nat (- n)) else digits (nat n))"

definition pad_int :: "nat \<Rightarrow> int \<Rightarrow> string" where
  "pad_int w n = replicate (w - length (show_int n)) CHR ''0'' @ show_int n"

text \<open>\<open>int(x)\<close> on a JSON value: \<open>None\<close> stands for \<open>TypeError\<close> or \<open>ValueError\<close>. A string may have
  surrounding white space, a sign and single underscores between digits.\<close>

definition digit_val :: "char \<Rightarrow> int option" where
  "digit_val c = (let n = of_char c :: int in if 48 \<le> n \<and> n \<le> 57 then Some (n - 48) else None)"

definition is_space :: "char \<Rightarrow> bool" where
  "is_space c = (let n = of_char c :: nat in n = 32 \<or> (9 \<le> n \<and> n \<le> 13) \<or> (28 \<le> n \<and> n \<le> 31))"

definition strip :: "string \<Rightarrow> string" where
  "strip s = rev (dropWhile is_space (rev (dropWhile is_space s)))"

text \<open>The flag tells whether the previous character was a digit.\<close>

fun parse_digits :: "bool \<Rightarrow> int \<Rightarrow> string \<Rightarrow> int option" where
  "parse_digits d acc [] = (if d then Some acc else None)"
| "parse_digits d acc (c # cs) =
     (if c = CHR ''_'' then (if d then parse_digits False acc cs else None)
      else case digit_val c of None \<Rightarrow> None | Some n \<Rightarrow> parse_digits True (10 * acc + n) cs)"

definition parse_int :: "string \<Rightarrow> int option" where
  "parse_int s = (case strip s of [] \<Rightarrow> None
     | c # cs \<Rightarrow> if c = CHR ''-'' then map_option uminus (parse_digits False 0 cs)
                else if c = CHR ''+'' then parse_digits False 0 cs
                else parse_digits False 0 (c # cs))"

definition trunc_rat :: "rat \<Rightarrow> int" where
  "trunc_rat r = (if r \<ge> 0 then \<lfloor>r\<rfloor> else \<lceil>r\<rceil>)"

fun py_int :: "json \<Rightarrow> int option" where
  "py_int (JInt n) = Some n"
| "py_int (JBool b) = Some (if b then 1 else 0)"
| "py_int (JFloat r) = Some (trunc_rat r)"
| "py_int (JStr s) = parse_int s"
| "py_int _ = None"

text \<open>Parsing what was printed.\<close>

lemma of_digit_char: "m < 10 \<Longrightarrow> of_char (char_of (48 + m) :: char) = (48 + m :: nat)"
  by (simp add: of_char_of)

lemma digit_val_char: "m < 10 \<Longrightarrow> digit_val (char_of (48 + m :: nat)) = Some (int m)"
proof -
  assume m: "m < 10"
  have "(of_char (char_of (48 + m) :: char) :: int) = int (of_char (char_of (48 + m) :: char))"
    by (rule of_nat_of_char [symmetric])
  also have "\<dots> = 48 + int m" using of_digit_char [OF m] by simp
  finally show ?thesis using m by (simp add: digit_val_def)
qed

lemma digit_char_plain:
  fixes m :: nat
  assumes "m < 10"
  shows "char_of (48 + m) \<noteq> CHR ''_''" "char_of (48 + m) \<noteq> CHR ''-''" "char_of (48 + m) \<noteq> CHR ''+''" "\<not> is_space (char_of (48 + m))"
proof -
  have n: "of_char (char_of (48 + m) :: char) = 48 + m" by (rule of_digit_char [OF assms])
  have "char_of (48 + m) \<noteq> c" if "of_char c \<noteq> 48 + m" for c using that n by auto
  moreover have "of_char CHR ''_'' \<noteq> 48 + m" "of_char CHR ''-'' \<noteq> 48 + m" "of_char CHR ''+'' \<noteq> 48 + m" using assms by simp_all
  ultimately show "char_of (48 + m) \<noteq> CHR ''_''" "char_of (48 + m) \<noteq> CHR ''-''" "char_of (48 + m) \<noteq> CHR ''+''" by blast+
  show "\<not> is_space (char_of (48 + m))" using assms by (simp add: is_space_def n)
qed

lemma parse_digits_digits:
  "parse_digits d acc (digits n @ rest) = parse_digits True (acc * 10 ^ length (digits n) + int n) rest"
proof (induction n arbitrary: d acc rest rule: digits.induct)
  case (1 n)
  show ?case
  proof (cases "n < 10")
    case True
    then show ?thesis
      using digit_char_plain [OF True] digit_val_char [OF True] by (subst (1 2) digits.simps) (simp add: mult.commute)
  next
    case False
    have m: "n mod 10 < 10" by simp
    have dg: "digits n = digits (n div 10) @ [char_of (48 + n mod 10)]" using False by (subst digits.simps) simp
    have "parse_digits d acc (digits n @ rest) =
        parse_digits True (acc * 10 ^ length (digits (n div 10)) + int (n div 10)) (char_of (48 + n mod 10) # rest)"
      using 1 [OF False, of d acc "char_of (48 + n mod 10) # rest"] by (simp add: dg)
    also have "\<dots> = parse_digits True (acc * 10 ^ length (digits n) + int n) rest"
    proof -
      have "10 * (acc * 10 ^ length (digits (n div 10)) + int (n div 10)) + int (n mod 10) = acc * 10 ^ length (digits n) + int n"
        by (simp add: dg zmod_int zdiv_int algebra_simps)
      then show ?thesis using digit_char_plain [OF m] by (simp add: digit_val_char)
    qed
    finally show ?thesis .
  qed
qed

lemma digits_plain: "c \<in> set (digits n) \<Longrightarrow> \<not> is_space c \<and> c \<noteq> CHR ''-'' \<and> c \<noteq> CHR ''+''"
proof (induction n rule: digits.induct)
  case (1 n)
  have m: "n mod 10 < 10" by simp
  from 1 digit_char_plain [of n] digit_char_plain [OF m] show ?case
    by (cases "n < 10") (auto simp: digits.simps [of n])
qed

lemma digits_Cons: obtains c cs where "digits n = c # cs"
proof -
  have "digits n \<noteq> []" by (subst digits.simps) simp
  with that show thesis by (cases "digits n") auto
qed

lemma strip_plain: "(\<And>c. c \<in> set s \<Longrightarrow> \<not> is_space c) \<Longrightarrow> strip s = s"
proof -
  assume s: "\<And>c. c \<in> set s \<Longrightarrow> \<not> is_space c"
  have d: "dropWhile is_space xs = xs" if "set xs \<subseteq> set s" for xs
    using s that by (cases xs) auto
  show ?thesis unfolding strip_def using d [of s] d [of "rev s"] by simp
qed

lemma parse_show_int [simp]: "parse_int (show_int i) = Some i"
proof -
  have st: "strip (show_int i) = show_int i"
    by (rule strip_plain) (auto simp: show_int_def is_space_def dest: digits_plain split: if_splits)
  show ?thesis
  proof (cases "i < 0")
    case True
    then show ?thesis using parse_digits_digits [of False 0 "nat (- i)" "[]"] st by (simp add: parse_int_def show_int_def)
  next
    case False
    obtain c cs where d: "digits (nat i) = c # cs" by (rule digits_Cons)
    then have "c \<noteq> CHR ''-''" "c \<noteq> CHR ''+''" using digits_plain [of c "nat i"] by auto
    with False show ?thesis using parse_digits_digits [of False 0 "nat i" "[]"] st d by (simp add: parse_int_def show_int_def)
  qed
qed

section \<open>Errors\<close>

text \<open>The application exceptions of \<open>core/exceptions.py\<close>, and the ones the framework or the
  language raises below them: a violated unique constraint and a Python type error. Both
  of these reach the client through the catch-all handler as a 500.\<close>

datatype app_error =
    BadRequestError string
  | UnauthorizedError string
  | ForbiddenError string
  | NotFoundError string
  | ConflictError string
  | ValidationError string
  | RateLimitError string
  | BusinessError string
  | IntegrityError string
  | TypeError

fun http_status :: "app_error \<Rightarrow> int" where
  "http_status (BadRequestError _) = 400"
| "http_status (UnauthorizedError _) = 401"
| "http_status (ForbiddenError _) = 403"
| "http_status (NotFoundError _) = 404"
| "http_status (ConflictError _) = 409"
| "http_status (ValidationError _) = 422"
| "http_status (RateLimitError _) = 429"
| "http_status (BusinessError _) = 400"
| "http_status (IntegrityError _) = 500"
| "http_status TypeError = 500"

fun error_code :: "app_error \<Rightarrow> int" where
  "error_code (BusinessError _) = 1001"
| "error_code e = http_status e"

type_synonym 'a res = "app_error + 'a"

text \<open>Sequencing: an error ends the handler.\<close>

lemma res_iff:
  "(case a of Inl e \<Rightarrow> Inl e | Inr x \<Rightarrow> f x) = Inr r \<longleftrightarrow> (\<exists>x. a = Inr x \<and> f x = Inr r)"
  "(if b then Inl e else c) = Inr r \<longleftrightarrow> \<not> b \<and> c = Inr r"
  by (auto split: sum.splits)

section \<open>Tables\<close>

text \<open>A table is the list of its rows in primary-key order together with the last value of
  its identity sequence; keys are handed out by the sequence, so a deleted key is never
  reused.\<close>

datatype 'r table = Table (rows: "(int \<times> 'r) list") (seq: int)

definition empty_table :: "'r table" where
  "empty_table = Table [] 0"

definition tget :: "'r table \<Rightarrow> int \<Rightarrow> 'r option" where
  "tget t i = map_of (rows t) i"

definition next_id :: "'r table \<Rightarrow> int" where
  "next_id t = seq t + 1"

definition tadd :: "'r \<Rightarrow> 'r table \<Rightarrow> 'r table" where
  "tadd r t = Table (rows t @ [(next_id t, r)]) (next_id t)"

definition tupd :: "int \<Rightarrow> ('r \<Rightarrow> 'r) \<Rightarrow> 'r table \<Rightarrow> 'r table" where
  "tupd i f t = Table (map (\<lambda>(j, r). (j, if j = i then f r else r)) (rows t)) (seq t)"

definition tdel :: "int \<Rightarrow> 'r table \<Rightarrow> 'r table" where
  "tdel i t = Table (filter (\<lambda>(j, r). j \<noteq> i) (rows t)) (seq t)"

text \<open>\<open>SELECT ... WHERE P\<close> in key order, its first row, and whether there is one.\<close>

definition tselect :: "('r \<Rightarrow> bool) \<Rightarrow> 'r table \<Rightarrow> (int \<times> 'r) list" where
  "tselect P t = filter (\<lambda>(i, r). P r) (rows t)"

definition tfirst :: "('r \<Rightarrow> bool) \<Rightarrow> 'r table \<Rightarrow> (int \<times> 'r) option" where
  "tfirst P t = (case tselect P t of [] \<Rightarrow> None | x # _ \<Rightarrow> Some x)"

definition texists :: "('r \<Rightarrow> bool) \<Rightarrow> 'r table \<Rightarrow> bool" where
  "texists P t = (\<exists>(i, r) \<in> set (rows t). P r)"

definition table_ok :: "'r table \<Rightarrow> bool" where
  "table_ok t = (distinct (map fst (rows t)) \<and> (\<forall>i \<in> fst ` set (rows t). 0 < i \<and> i \<le> seq t) \<and> 0 \<le> seq t)"

lemma texists_iff_tfirst: "texists P t \<longleftrightarrow> tfirst P t \<noteq> None"
proof -
  have "tfirst P t = None \<longleftrightarrow> tselect P t = []"
    by (simp add: tfirst_def split: list.split)
  then show ?thesis
    by (auto simp: texists_def tselect_def filter_empty_conv)
qed

lemma map_of_map_snd:
  "map_of (map (\<lambda>(j, r). (j, if j = i then f r else r)) xs) k
     = (if k = i then map_option f (map_of xs k) else map_of xs k)"
  by (induction xs) auto

lemma tget_tupd [row_simps, simp]:
  "tget (tupd i f t) k = (if k = i then map_option f (tget t k) else tget t k)"
  by (simp add: tget_def tupd_def map_of_map_snd)

lemma seq_tupd [simp]: "seq (tupd i f t) = seq t"
  by (simp add: tupd_def)

lemma next_id_tupd [simp]: "next_id (tupd i f t) = next_id t"
  by (simp add: next_id_def)

lemma fst_rows_tupd: "map fst (rows (tupd i f t)) = map fst (rows t)"
  by (auto simp: tupd_def)

lemma table_ok_tupd [simp, intro]: "table_ok t \<Longrightarrow> table_ok (tupd i f t)"
  unfolding table_ok_def by (metis fst_rows_tupd list.set_map seq_tupd)

lemma table_ok_fresh: "table_ok t \<Longrightarrow> tget t (next_id t) = None"
  by (force simp: table_ok_def tget_def next_id_def map_of_eq_None_iff)

lemma tget_tadd [row_simps]:
  assumes "table_ok t"
  shows "tget (tadd r t) k = (if k = next_id t then Some r else tget t k)"
  using table_ok_fresh [OF assms]
  by (auto simp: tadd_def tget_def map_add_def split: option.splits)

lemma tget_tadd_same: "tget t (next_id t) = None \<Longrightarrow> tget (tadd r t) (next_id t) = Some r"
  by (simp add: tadd_def tget_def map_add_def split: option.splits)

lemma table_ok_tadd [simp, intro]: "table_ok t \<Longrightarrow> table_ok (tadd r t)"
  by (force simp: table_ok_def tadd_def next_id_def)

lemma table_ok_empty [simp]: "table_ok empty_table"
  by (simp add: table_ok_def empty_table_def)

lemma tget_empty [simp]: "tget empty_table i = None"
  by (simp add: tget_def empty_table_def)

lemma tget_tdel [row_simps]: "tget (tdel i t) k = (if k = i then None else tget t k)"
proof -
  have "map_of (filter (\<lambda>(j, r). j \<noteq> i) xs) k = (if k = i then None else map_of xs k)" for xs :: "(int \<times> 'a) list"
    by (induction xs) auto
  then show ?thesis by (simp add: tget_def tdel_def)
qed

lemma table_ok_tdel [simp, intro]: "table_ok t \<Longrightarrow> table_ok (tdel i t)"
  by (force simp: table_ok_def tdel_def distinct_map_filter)

lemma tget_SomeD: "tget t i = Some r \<Longrightarrow> (i, r) \<in> set (rows t)"
  by (simp add: tget_def map_of_SomeD)

lemma tget_in_rows: "table_ok t \<Longrightarrow> (i, r) \<in> set (rows t) \<longleftrightarrow> tget t i = Some r"
  by (simp add: table_ok_def tget_def)

lemma in_tselect: "table_ok t \<Longrightarrow> (i, r) \<in> set (tselect P t) \<longleftrightarrow> tget t i = Some r \<and> P r"
  by (auto simp: tselect_def tget_in_rows)

lemma texists_iff: "table_ok t \<Longrightarrow> texists P t \<longleftrightarrow> (\<exists>i r. tget t i = Some r \<and> P r)"
  unfolding texists_def using tget_in_rows by fastforce

lemma tfirst_Some: "table_ok t \<Longrightarrow> tfirst P t = Some (i, r) \<Longrightarrow> tget t i = Some r \<and> P r"
  using in_tselect [of t i r P] by (auto simp: tfirst_def split: list.splits)

lemma tfirst_None: "tfirst P t = None \<Longrightarrow> table_ok t \<Longrightarrow> tget t i = Some r \<Longrightarrow> \<not> P r"
  using in_tselect [of t i r P] by (auto simp: tfirst_def split: list.splits)

lemma next_id_fresh_le: "table_ok t \<Longrightarrow> tget t i = Some r \<Longrightarrow> i < next_id t"
  by (force simp: table_ok_def next_id_def dest: tget_SomeD)

lemma tselect_tupd:
  assumes "\<And>r. P (f r) = P r"
  shows "tselect P (tupd i f t) = map (\<lambda>(j, r). (j, if j = i then f r else r)) (tselect P t)"
proof -
  have "filter (\<lambda>(i, r). P r) (map (\<lambda>(j, r). (j, if j = i then f r else r)) xs) =
      map (\<lambda>(j, r). (j, if j = i then f r else r)) (filter (\<lambda>(i, r). P r) xs)" for xs
  proof (induction xs)
    case (Cons x xs)
    obtain j r where x: "x = (j, r)" by fastforce
    have "P (if j = i then f r else r) = P r" by (simp add: assms)
    with Cons show ?case by (simp add: x)
  qed simp
  then show ?thesis by (simp add: tselect_def tupd_def)
qed

lemma tfirst_tupd:
  assumes "\<And>r. P (f r) = P r"
  shows "tfirst P (tupd i f t) = map_option (\<lambda>(j, r). (j, if j = i then f r else r)) (tfirst P t)"
  unfolding tfirst_def tselect_tupd [of P f, OF assms] by (cases "tselect P t") auto

lemma tfirst_tadd:
  "tfirst P (tadd r t) = (case tfirst P t of Some x \<Rightarrow> Some x | None \<Rightarrow> if P r then Some (next_id t, r) else None)"
  by (simp add: tfirst_def tselect_def tadd_def split: list.splits)

lemma tselect_tupd_out:
  assumes "tselect P t = [(i, n)]" and "\<And>r. \<not> P (f r)"
  shows "tselect P (tupd i f t) = []"
proof -
  have "j = i" if "(j, r) \<in> set (rows t)" "P r" for j r
  proof -
    have "(j, r) \<in> set (tselect P t)" using that by (simp add: tselect_def)
    with assms(1) show ?thesis by simp
  qed
  with assms(2) have "\<forall>(j, r) \<in> set (rows (tupd i f t)). \<not> P r" by (auto simp: tupd_def split: if_splits)
  then show ?thesis by (auto simp: tselect_def filter_empty_conv)
qed

lemma rows_fold_tadd:
  "rows (fold (\<lambda>n. tadd (g n)) ns t) = rows t @ zip (map (\<lambda>k. seq t + 1 + int k) [0..<length ns]) (map g ns)"
proof (induction ns arbitrary: t)
  case Nil
  then show ?case by simp
next
  case (Cons n ns)
  have idx: "map (\<lambda>k. seq t + 1 + int k) [0..<length (n # ns)] = (seq t + 1) # map (\<lambda>k. seq t + 1 + 1 + int k) [0..<length ns]"
    by (simp add: map_upt_Suc algebra_simps del: upt_Suc)
  have "seq (tadd (g n) t) = seq t + 1" "rows (tadd (g n) t) = rows t @ [(seq t + 1, g n)]"
    by (simp_all add: tadd_def next_id_def)
  with Cons.IH [of "tadd (g n) t"] show ?case unfolding idx by simp
qed

lemma fold_max_ge: "x \<in> set xs \<or> x \<le> a \<Longrightarrow> x \<le> fold max xs (a :: 'a :: linorder)"
proof (induction xs arbitrary: a)
  case (Cons y ys)
  then have "x \<in> set ys \<or> x \<le> max y a" by (auto simp: le_max_iff_disj)
  from Cons.IH [OF this] show ?case by simp
qed simp

text \<open>The interface a client of a table relies on: what a read returns after each write.\<close>

locale row_store =
  fixes get :: "'t \<Rightarrow> int \<Rightarrow> 'r option"
    and fresh :: "'t \<Rightarrow> int"
    and add :: "'r \<Rightarrow> 't \<Rightarrow> 't"
    and upd :: "int \<Rightarrow> ('r \<Rightarrow> 'r) \<Rightarrow> 't \<Rightarrow> 't"
    and del :: "int \<Rightarrow> 't \<Rightarrow> 't"
    and ok :: "'t \<Rightarrow> bool"
  assumes get_fresh: "ok t \<Longrightarrow> get t (fresh t) = None"
    and get_add: "ok t \<Longrightarrow> get (add r t) k = (if k = fresh t then Some r else get t k)"
    and get_upd: "ok t \<Longrightarrow> get (upd i f t) k = (if k = i then map_option f (get t k) else get t k)"
    and get_del: "ok t \<Longrightarrow> get (del i t) k = (if k = i then None else get t k)"
    and ok_add: "ok t \<Longrightarrow> ok (add r t)"
    and ok_upd: "ok t \<Longrightarrow> ok (upd i f t)"
    and ok_del: "ok t \<Longrightarrow> ok (del i t)"
begin

lemma add_keeps: "ok t \<Longrightarrow> get t k = Some r' \<Longrightarrow> get (add r t) k = Some r'"
  using get_fresh by (fastforce simp: get_add)

lemma add_then_upd:
  "ok t \<Longrightarrow> get (upd (fresh t) f (add r t)) (fresh t) = Some (f r)"
  by (simp add: get_upd get_add ok_add)

lemma upd_other: "ok t \<Longrightarrow> k \<noteq> i \<Longrightarrow> get (upd i f t) k = get t k"
  by (simp add: get_upd)

lemma upd_same_keys: "ok t \<Longrightarrow> get (upd i f t) k = None \<longleftrightarrow> get t k = None"
  by (simp add: get_upd)

lemma add_del: "ok t \<Longrightarrow> get (del (fresh t) (add r t)) k = get t k"
  by (simp add: get_del get_add ok_add get_fresh)

end

interpretation tbl: row_store tget next_id tadd tupd tdel table_ok
  by unfold_locales (auto simp: row_simps table_ok_fresh)

section \<open>Compare-and-set on a status and a version\<close>

text \<open>\<open>UPDATE t SET status = to, version = v + 1 WHERE id = i AND status = from AND version = v\<close>,
  the body of every \<open>optimistic_update\<close>; \<open>ok\<close> is \<open>rowcount == 1\<close>.\<close>

definition cas_matches ::
  "('r \<Rightarrow> 's) \<Rightarrow> ('r \<Rightarrow> int) \<Rightarrow> 'r table \<Rightarrow> int \<Rightarrow> 's \<Rightarrow> int \<Rightarrow> bool" where
  "cas_matches st ver t i from v =
     (case tget t i of None \<Rightarrow> False | Some r \<Rightarrow> st r = from \<and> ver r = v)"

definition cas_row ::
  "('r \<Rightarrow> 's) \<Rightarrow> ('r \<Rightarrow> int) \<Rightarrow> ('s \<Rightarrow> int \<Rightarrow> 'r \<Rightarrow> 'r) \<Rightarrow>
   'r table \<Rightarrow> int \<Rightarrow> 's \<Rightarrow> 's \<Rightarrow> int \<Rightarrow> bool \<times> 'r table" where
  "cas_row st ver put t i from to v =
     (if cas_matches st ver t i from v then (True, tupd i (put to (v + 1)) t) else (False, t))"

locale versioned_row =
  fixes st :: "'r \<Rightarrow> 's"
    and ver :: "'r \<Rightarrow> int"
    and put :: "'s \<Rightarrow> int \<Rightarrow> 'r \<Rightarrow> 'r"
  assumes st_put: "st (put s v r) = s"
    and ver_put: "ver (put s v r) = v"
begin

lemma cas_True_iff:
  "fst (cas_row st ver put t i a b v) \<longleftrightarrow> (\<exists>r. tget t i = Some r \<and> st r = a \<and> ver r = v)"
  by (auto simp: cas_row_def cas_matches_def split: option.splits)

lemma cas_row_after:
  "cas_row st ver put t i a b v = (True, t') \<Longrightarrow> tget t i = Some r \<Longrightarrow>
     tget t' i = Some (put b (v + 1) r) \<and> st (put b (v + 1) r) = b \<and> ver (put b (v + 1) r) = ver r + 1"
  by (auto simp: cas_row_def cas_matches_def st_put ver_put split: if_splits option.splits)

lemma cas_frame:
  "cas_row st ver put t i a b v = (ok, t') \<Longrightarrow> k \<noteq> i \<Longrightarrow> tget t' k = tget t k"
  by (auto simp: cas_row_def split: if_splits)

lemma cas_lost_unchanged: "cas_row st ver put t i a b v = (False, t') \<Longrightarrow> t' = t"
  by (auto simp: cas_row_def split: if_splits)

text \<open>Of two callers that read the same version, at most one wins.\<close>

lemma cas_single_winner:
  assumes "cas_row st ver put t i a b v = (True, t')"
  shows "cas_row st ver put t' i a' b' v = (False, t')"
proof -
  from assms obtain r where r: "tget t i = Some r" "ver r = v" and t': "t' = tupd i (put b (v + 1)) t"
    by (auto simp: cas_row_def cas_matches_def split: if_splits option.splits)
  then have "tget t' i = Some (put b (v + 1) r)" by simp
  then show ?thesis by (simp add: cas_row_def cas_matches_def ver_put)
qed

end

section \<open>Action-keyed transition tables\<close>

text \<open>\<open>TRANSITIONS[action] = (allowed_from, target)\<close>: the statuses an action may start from and
  the one it leads to. \<open>machine_reach\<close> is what any sequence of accepted actions reaches.\<close>

definition action_allowed :: "('a \<Rightarrow> 's list \<times> 's) \<Rightarrow> 'a \<Rightarrow> 's \<Rightarrow> bool" where
  "action_allowed tr a s = (s \<in> set (fst (tr a)))"

inductive machine_reach :: "('a \<Rightarrow> 's list \<times> 's) \<Rightarrow> 's \<Rightarrow> 's \<Rightarrow> bool" for tr where
  reach_refl: "machine_reach tr s s"
| reach_step: "machine_reach tr s s' \<Longrightarrow> action_allowed tr a s' \<Longrightarrow> machine_reach tr s (snd (tr a))"

locale action_machine =
  fixes tr :: "'a \<Rightarrow> 's list \<times> 's"
    and absorbing :: "'s \<Rightarrow> bool"
    and live :: "'s \<Rightarrow> bool"
  assumes absorbing_closed: "absorbing s \<Longrightarrow> \<not> action_allowed tr a s"
    and target_live: "action_allowed tr a s \<Longrightarrow> live s \<Longrightarrow> live (snd (tr a))"
begin

lemma reach_absorbing: "machine_reach tr s s' \<Longrightarrow> absorbing s \<Longrightarrow> s' = s"
  by (induction rule: machine_reach.induct) (auto dest: absorbing_closed)

lemma reach_live: "machine_reach tr s s' \<Longrightarrow> live s \<Longrightarrow> live s'"
  by (induction rule: machine_reach.induct) (auto dest: target_live)

lemma no_step_out: "absorbing s \<Longrightarrow> \<forall>a. s \<notin> set (fst (tr a))"
  using absorbing_closed by (auto simp: action_allowed_def)

end

section \<open>Logs that only grow\<close>

text \<open>The contract of an audit table: every step of the service leaves what is there and adds at the end.\<close>

locale append_only =
  fixes step :: "'w \<Rightarrow> 'w \<Rightarrow> bool"
    and entries :: "'w \<Rightarrow> 'r list"
  assumes step_appends: "step w w' \<Longrightarrow> \<exists>new. entries w' = entries w @ new"
begin

lemma reach_appends: "step\<^sup>*\<^sup>* w w' \<Longrightarrow> \<exists>new. entries w' = entries w @ new"
proof (induction rule: rtranclp_induct)
  case (step w1 w2)
  then show ?case using step_appends [of w1 w2] by auto
qed simp

lemma entry_kept: "step\<^sup>*\<^sup>* w w' \<Longrightarrow> x \<in> set (entries w) \<Longrightarrow> x \<in> set (entries w')"
  using reach_appends [of w w'] by auto

lemma entry_at_kept: "step\<^sup>*\<^sup>* w w' \<Longrightarrow> i < length (entries w) \<Longrightarrow> entries w' ! i = entries w ! i"
  using reach_appends [of w w'] by (auto simp: nth_append)

end

end
