(* ===== verification/Access.thy ===== *)
theory Access
  imports Prelude
begin

text \<open>
  The access layer every handler goes through: the authenticated principal and its permission
  check (\<open>api/deps.py\<close>), the configuration rules (\<open>config_rule\<close>) with the feature flags read
  from them, and the page window of the list handlers. The locale \<open>gated_op\<close> is the gate
  order the services promise: the feature flag first, for every caller, then the permission.
\<close>

section \<open>The principal\<close>

record current_user =
  uid :: int
  username :: string
  is_admin :: bool
  permissions :: "string list"
  visible_group_ids :: "int list"

definition has_perm :: "current_user \<Rightarrow> string \<Rightarrow> bool" where
  "has_perm u code = (if is_admin u then True else code \<in> set (permissions u))"

definition perm_denied :: "string \<Rightarrow> app_error" where
  "perm_denied code = ForbiddenError (''permission denied: '' @ code)"

definition require_perm :: "current_user \<Rightarrow> string \<Rightarrow> unit res" where
  "require_perm u code = (if \<not> has_perm u code then Inl (perm_denied code) else Inr ())"

definition require_group :: "current_user \<Rightarrow> int \<Rightarrow> unit res" where
  "require_group u g =
     (if is_admin u then Inr ()
      else if g \<notin> set (visible_group_ids u) then Inl (ForbiddenError ''no data permission for this host group'')
      else Inr ())"

section \<open>Configuration rules and feature flags\<close>

record sys_db =
  config_rules :: "(string \<times> dict) list"

definition by_key :: "'z sys_db_scheme \<Rightarrow> string \<Rightarrow> dict option" where
  "by_key w k = map_of (config_rules w) k"

text \<open>\<open>(rule.rule_value or {}).get("value", False) if rule else False\<close>, read as a truth value.\<close>

definition feature_on :: "'z sys_db_scheme \<Rightarrow> string \<Rightarrow> bool" where
  "feature_on w flag = (case by_key w flag of None \<Rightarrow> False | Some rv \<Rightarrow> truthy (dget rv ''value''))"

lemma feature_on_cong: "config_rules w' = config_rules w \<Longrightarrow> feature_on w' f = feature_on w f"
  by (simp add: feature_on_def by_key_def)

definition feature_disabled :: app_error where
  "feature_disabled = BadRequestError ''feature disabled''"

definition require_feature :: "'z sys_db_scheme \<Rightarrow> string \<Rightarrow> unit res" where
  "require_feature w flag = (if \<not> feature_on w flag then Inl feature_disabled else Inr ())"

section \<open>Pages\<close>

text \<open>\<open>rows[(page - 1) * size : (page - 1) * size + size]\<close> (also \<open>OFFSET ... LIMIT\<close>), for the page
  numbers from 1 that the endpoints let through.\<close>

definition page_of :: "int \<Rightarrow> int \<Rightarrow> 'a list \<Rightarrow> 'a list" where
  "page_of page sz xs = take (nat sz) (drop (nat ((page - 1) * sz)) xs)"

lemma length_page_of: "length (page_of p n xs) \<le> nat n"
  by (simp add: page_of_def)

lemma set_page_of: "set (page_of p n xs) \<subseteq> set xs"
  unfolding page_of_def by (meson order_trans set_drop_subset set_take_subset)

lemma concat_pages_take:
  assumes "0 < n"
  shows "concat (map (\<lambda>p. page_of (int p) (int n) xs) [1..<Suc k]) = take (k * n) xs"
proof (induction k)
  case 0
  then show ?case by simp
next
  case (Suc k)
  have off: "nat ((int (Suc k) - 1) * int n) = k * n"
    by (simp add: nat_mult_distrib)
  have "concat (map (\<lambda>p. page_of (int p) (int n) xs) [1..<Suc (Suc k)])
      = take (k * n) xs @ take n (drop (k * n) xs)"
    using Suc off by (simp add: page_of_def)
  also have "\<dots> = take (k * n + n) xs" by (simp add: take_add)
  finally show ?case by (simp add: add.commute)
qed

section \<open>The gate order\<close>

text \<open>A handler behind a feature flag and a permission: with the flag off every caller, an
  administrator included, gets the 400; with it on, a caller without the permission gets the
  403; only then is anything read or written.\<close>

locale gated_op =
  fixes flag :: string
    and perm :: string
    and op :: "current_user \<Rightarrow> 'z sys_db_scheme \<Rightarrow> 'o res"
  assumes gate_feature: "\<not> feature_on w flag \<Longrightarrow> op u w = Inl feature_disabled"
    and gate_perm: "feature_on w flag \<Longrightarrow> \<not> has_perm u perm \<Longrightarrow> op u w = Inl (perm_denied perm)"
begin

lemma accepted_gate: "op u w = Inr r \<Longrightarrow> feature_on w flag \<and> has_perm u perm"
  using gate_feature gate_perm by (metis Inl_Inr_False)

lemma status_of_gate:
  "\<not> (feature_on w flag \<and> has_perm u perm) \<Longrightarrow>
     \<exists>e. op u w = Inl e \<and> http_status e = (if feature_on w flag then 403 else 400)"
  by (cases "feature_on w flag")
     (simp_all add: gate_perm gate_feature perm_denied_def feature_disabled_def)

end

end
