(* ===== verification/Exec_Model.thy ===== *)
theory Exec_Model
  imports Access
begin

text \<open>
  The data of the execution domain (\<open>db/models/exec.py\<close>, \<open>schedule.py\<close>, \<open>asset.py\<close>,
  \<open>script.py\<close>, \<open>terminal.py\<close>, \<open>ai_automation.py\<close>, \<open>ai.py\<close>) and the repository operations on it.

  A column that only labels a row for display (the Chinese title and reason texts of an
  approval, timestamps no code reads) is left out; the columns the code reads or writes are
  the fields of the records. Status columns are datatypes with the model's vocabulary; the
  two spellings \<open>canceled\<close> and \<open>cancelled\<close> that guards test are one constructor.

  \<open>outbox\<close> is the trace of effects outside the database: messages to the broker and frames
  to agents. \<open>sems\<close> are the Redis counters of \<open>core/redis_helper.py\<close>.
\<close>

section \<open>Statuses\<close>

datatype exec_status =
    XCreated | XAwaitingApproval | XApproved | XRejected | XRunning
  | XSuccess | XFailed | XPartial | XCanceled | XTimedOut
  | XPending \<comment> \<open>not in \<open>EXEC_STATUSES\<close>, but tested by \<open>stop_task\<close> and the cancel core\<close>

datatype host_status = HPending | HRunning | HSuccess | HFailed | HTimedOut | HCanceled

datatype approval_status = APending | AApproved | ARejected | ACanceled

datatype terminal_status = TOpen | TAwaitingApproval | TClosed

section \<open>Rows\<close>

record host =
  h_hostname :: string
  h_ip :: string
  h_group_id :: "int option"
  h_sensitivity_level :: string
  h_connector :: string
  h_agent_id :: "string option"
  h_os_type :: string
  h_env :: string
  h_tags :: json
  h_status :: string
  h_last_heartbeat_at :: "time option"
  h_os_version :: string
  h_remark :: string

record script =
  sc_name :: string
  sc_type :: string
  sc_current_version :: int
  sc_params_def :: "dict option"

record script_version =
  sv_script_id :: int
  sv_version :: int
  sv_content :: string
  sv_params_def :: "dict option"

record exec_task =
  xt_task_no :: string
  xt_name :: string
  xt_kind :: string
  xt_script_id :: "int option"
  xt_script_version :: "int option"
  xt_command :: "string option"
  xt_params :: "(string \<times> string) list"
  xt_target_host_ids :: "int list"
  xt_mode :: string
  xt_timeout_sec :: int
  xt_retry :: int
  xt_sensitive_flag :: int
  xt_approve_required :: int
  xt_approval_id :: "int option"
  xt_status :: exec_status
  xt_created_by :: "int option"
  xt_created_at :: time
  xt_started_at :: "time option"
  xt_finished_at :: "time option"
  xt_version :: int

record exec_task_host =
  th_exec_task_id :: int
  th_host_id :: int
  th_hostname :: string
  th_ip :: string
  th_executor :: string
  th_status :: host_status
  th_exit_code :: "int option"
  th_started_at :: "time option"
  th_finished_at :: "time option"

record exec_log =
  lg_task_host_id :: int
  lg_seq :: int
  lg_level :: string
  lg_content :: string

text \<open>Why a task was found sensitive: the words hit (the first five) and the batch size against
  the threshold; \<open>sensitive_hit\<close> and the reason texts are renderings of this list.\<close>

datatype hit = SensitiveWords "string list" | BatchSize int json

record approval =
  ap_request_no :: string
  ap_biz_type :: string
  ap_biz_id :: int
  ap_requester_id :: int
  ap_sensitive_hit :: "hit list"
  ap_status :: approval_status
  ap_approval_mode :: string
  ap_policy_ref :: "int option" \<comment> \<open>\<open>remediation_policy:{id}\<close>\<close>
  ap_approver_id :: "int option"
  ap_decided_at :: "time option"
  ap_version :: int

record approval_record =
  ar_approval_id :: int
  ar_action :: string
  ar_operator_id :: int
  ar_comment :: string

record terminal_session =
  ts_session_no :: string
  ts_host_id :: int
  ts_user_id :: int
  ts_status :: terminal_status
  ts_close_reason :: string
  ts_sensitive :: int
  ts_approval_id :: "int option"
  ts_version :: int
  ts_started_at :: "time option"
  ts_finished_at :: "time option"
  ts_duration_sec :: int
  ts_bytes_out :: int
  ts_created_at :: time

record automation_level =
  al_level :: string
  al_enabled :: bool

record remediation_policy =
  rp_asset_class :: string
  rp_op_type :: string
  rp_level :: string
  rp_whitelist_ref :: "string option"
  rp_verification_ref :: "string option"
  rp_circuit_threshold :: "int option"

record automation_whitelist =
  wl_action :: string
  wl_risk_level :: string
  wl_enabled :: bool

record breaker_state =
  cb_scope :: string
  cb_state :: string
  cb_current :: int
  cb_threshold :: "int option"
  cb_last_tripped_at :: "time option"

record ai_action =
  aa_model_name :: string
  aa_trace_id :: string
  aa_actor :: int
  aa_decision :: string
  aa_approval_mode :: string
  aa_policy_ref :: "int option"

section \<open>The database of the domain and its environment\<close>

datatype sem_key = SemGlobal | SemHost int

datatype effect =
    Enqueue int \<comment> \<open>\<open>exec_dispatch.delay(task_id)\<close> accepted by the broker\<close>
  | AgentExec string int string \<comment> \<open>\<open>exec\<close> frame: agent, task host, command\<close>
  | AgentStop string int \<comment> \<open>\<open>stop\<close> frame: agent, task host\<close>
  | StartDriver int \<comment> \<open>\<open>workflow_engine.start_driver(run_id)\<close>\<close>

record exec_db = sys_db +
  hosts :: "host table"
  scripts :: "script table"
  script_versions :: "script_version table"
  exec_tasks :: "exec_task table"
  exec_task_hosts :: "exec_task_host table"
  exec_logs :: "exec_log table"
  approvals :: "approval table"
  approval_records :: "approval_record table"
  terminals :: "terminal_session table"
  auto_levels :: "automation_level table"
  policies :: "remediation_policy table"
  whitelist :: "automation_whitelist table"
  breakers :: "breaker_state table"
  ai_actions :: "ai_action table"
  seq_exec_no :: int
  seq_approval_no :: int
  sems :: "sem_key \<Rightarrow> int"
  outbox :: "effect list"

text \<open>What a handler reads from outside: the clock, the date prefix of the human-readable
  numbers, whether Redis, the Celery broker and the \<open>paramiko\<close> package are there, which
  agents have a connection in this process, the standard library's parsers of ISO timestamps
  and of floats and its \<open>repr\<close> of a float, and the token and cipher libraries.\<close>

record env =
  now :: time
  today :: string
  redis_up :: bool
  broker_up :: bool
  ssh_available :: bool
  agent_reachable :: "string \<Rightarrow> bool" \<comment> \<open>\<open>dispatch_to_agent_sync\<close> hands the frame over\<close>
  agent_online :: "string \<Rightarrow> bool" \<comment> \<open>a heartbeat younger than the timeout\<close>
  fromisoformat :: "string \<Rightarrow> time option"
  float_of_str :: "string \<Rightarrow> rat option"
  float_repr :: "rat \<Rightarrow> string"
  new_jti :: string \<comment> \<open>\<open>uuid.uuid4().hex\<close>\<close>
  jwt_encode :: "dict \<Rightarrow> string" \<comment> \<open>\<open>jose.jwt.encode\<close> under the configured key\<close>
  jwt_decode :: "string \<Rightarrow> dict option" \<comment> \<open>\<open>jose.jwt.decode\<close> at this moment; \<open>None\<close> is \<open>JWTError\<close>\<close>
  seal :: "string \<Rightarrow> string" \<comment> \<open>AES-GCM under the credential key with a new nonce, base64 of nonce and ciphertext\<close>
  unseal :: "string \<Rightarrow> string option" \<comment> \<open>its inverse; \<open>None\<close> is a malformed or unauthentic text\<close>

section \<open>Repository operations\<close>

definition put_task :: "exec_status \<Rightarrow> int \<Rightarrow> exec_task \<Rightarrow> exec_task" where
  "put_task s v r = r\<lparr>xt_status := s, xt_version := v\<rparr>"

definition put_approval :: "approval_status \<Rightarrow> int \<Rightarrow> approval \<Rightarrow> approval" where
  "put_approval s v r = r\<lparr>ap_status := s, ap_version := v\<rparr>"

definition put_terminal :: "terminal_status \<Rightarrow> int \<Rightarrow> terminal_session \<Rightarrow> terminal_session" where
  "put_terminal s v r = r\<lparr>ts_status := s, ts_version := v\<rparr>"

interpretation task_row: versioned_row xt_status xt_version put_task
  by unfold_locales (auto simp: put_task_def)

interpretation approval_row: versioned_row ap_status ap_version put_approval
  by unfold_locales (auto simp: put_approval_def)

interpretation terminal_row: versioned_row ts_status ts_version put_terminal
  by unfold_locales (auto simp: put_terminal_def)

definition exec_optimistic_update ::
  "int \<Rightarrow> exec_status \<Rightarrow> exec_status \<Rightarrow> int \<Rightarrow> 'z exec_db_scheme \<Rightarrow> bool \<times> 'z exec_db_scheme" where
  "exec_optimistic_update i from to v w =
     (let (ok, t) = cas_row xt_status xt_version put_task (exec_tasks w) i from to v
      in (ok, w\<lparr>exec_tasks := t\<rparr>))"

definition approval_optimistic_update ::
  "int \<Rightarrow> approval_status \<Rightarrow> approval_status \<Rightarrow> int \<Rightarrow> 'z exec_db_scheme \<Rightarrow> bool \<times> 'z exec_db_scheme" where
  "approval_optimistic_update i from to v w =
     (let (ok, t) = cas_row ap_status ap_version put_approval (approvals w) i from to v
      in (ok, w\<lparr>approvals := t\<rparr>))"

definition terminal_optimistic_close ::
  "int \<Rightarrow> int \<Rightarrow> 'z exec_db_scheme \<Rightarrow> bool \<times> 'z exec_db_scheme" where
  "terminal_optimistic_close i v w =
     (let (ok, t) = cas_row ts_status ts_version put_terminal (terminals w) i TOpen TClosed v
      in (ok, w\<lparr>terminals := t\<rparr>))"

text \<open>Field assignments on a loaded row.\<close>

definition upd_task :: "int \<Rightarrow> (exec_task \<Rightarrow> exec_task) \<Rightarrow> 'z exec_db_scheme \<Rightarrow> 'z exec_db_scheme" where
  "upd_task i f w = w\<lparr>exec_tasks := tupd i f (exec_tasks w)\<rparr>"

definition upd_th :: "int \<Rightarrow> (exec_task_host \<Rightarrow> exec_task_host) \<Rightarrow> 'z exec_db_scheme \<Rightarrow> 'z exec_db_scheme" where
  "upd_th i f w = w\<lparr>exec_task_hosts := tupd i f (exec_task_hosts w)\<rparr>"

definition upd_approval :: "int \<Rightarrow> (approval \<Rightarrow> approval) \<Rightarrow> 'z exec_db_scheme \<Rightarrow> 'z exec_db_scheme" where
  "upd_approval i f w = w\<lparr>approvals := tupd i f (approvals w)\<rparr>"

definition upd_terminal ::
  "int \<Rightarrow> (terminal_session \<Rightarrow> terminal_session) \<Rightarrow> 'z exec_db_scheme \<Rightarrow> 'z exec_db_scheme" where
  "upd_terminal i f w = w\<lparr>terminals := tupd i f (terminals w)\<rparr>"

definition emit :: "effect \<Rightarrow> 'z exec_db_scheme \<Rightarrow> 'z exec_db_scheme" where
  "emit e w = w\<lparr>outbox := outbox w @ [e]\<rparr>"

lemmas row_upd_defs = upd_task_def upd_th_def upd_approval_def upd_terminal_def emit_def

definition th_by_task :: "'z exec_db_scheme \<Rightarrow> int \<Rightarrow> (int \<times> exec_task_host) list" where
  "th_by_task w tid = tselect (\<lambda>r. th_exec_task_id r = tid) (exec_task_hosts w)"

definition by_script_version :: "'z exec_db_scheme \<Rightarrow> int \<Rightarrow> int \<Rightarrow> script_version option" where
  "by_script_version w sid v =
     map_option snd (tfirst (\<lambda>r. sv_script_id r = sid \<and> sv_version r = v) (script_versions w))"

text \<open>\<open>GROUP BY status\<close> over the host rows of a task: the count of one status.\<close>

definition th_stat :: "'z exec_db_scheme \<Rightarrow> int \<Rightarrow> host_status \<Rightarrow> nat" where
  "th_stat w tid s = length (filter (\<lambda>(i, r). th_status r = s) (th_by_task w tid))"

definition max_seq :: "'z exec_db_scheme \<Rightarrow> int \<Rightarrow> int" where
  "max_seq w thid = fold max (map (\<lambda>(i, r). lg_seq r) (tselect (\<lambda>r. lg_task_host_id r = thid) (exec_logs w))) 0"

definition append_log :: "int \<Rightarrow> int \<Rightarrow> string \<Rightarrow> string \<Rightarrow> 'z exec_db_scheme \<Rightarrow> 'z exec_db_scheme" where
  "append_log thid sq lvl content w = w\<lparr>exec_logs := tadd
     \<lparr>lg_task_host_id = thid, lg_seq = sq, lg_level = lvl, lg_content = content\<rparr> (exec_logs w)\<rparr>"

text \<open>Inserting an approval: \<open>biz_id\<close> is unique over the whole table, whatever the
  \<open>biz_type\<close>, so the flush of a second row for one \<open>biz_id\<close> fails.\<close>

definition add_approval :: "approval \<Rightarrow> 'z exec_db_scheme \<Rightarrow> (int \<times> 'z exec_db_scheme) res" where
  "add_approval a w =
     (if texists (\<lambda>r. ap_biz_id r = ap_biz_id a) (approvals w) then Inl (IntegrityError ''approval_request.biz_id'')
      else Inr (next_id (approvals w), w\<lparr>approvals := tadd a (approvals w)\<rparr>))"

text \<open>The numbers \<open>{date}-{n:03d}\<close> and \<open>AP-{date}-{n:04d}\<close>, drawn from their sequences.\<close>

definition task_no :: "env \<Rightarrow> 'z exec_db_scheme \<Rightarrow> string \<times> 'z exec_db_scheme" where
  "task_no e w = (let n = seq_exec_no w + 1
     in (today e @ ''-'' @ pad_int 3 n, w\<lparr>seq_exec_no := n\<rparr>))"

definition approval_no :: "env \<Rightarrow> 'z exec_db_scheme \<Rightarrow> string \<times> 'z exec_db_scheme" where
  "approval_no e w = (let n = seq_approval_no w + 1
     in (''AP-'' @ today e @ ''-'' @ pad_int 4 n, w\<lparr>seq_approval_no := n\<rparr>))"

section \<open>Well-formed databases\<close>

text \<open>Primary keys are well formed, one approval per \<open>biz_id\<close>, one row per task and host.\<close>

definition biz_unique :: "'z exec_db_scheme \<Rightarrow> bool" where
  "biz_unique w = (\<forall>i j a b. tget (approvals w) i = Some a \<longrightarrow> tget (approvals w) j = Some b \<longrightarrow>
     ap_biz_id a = ap_biz_id b \<longrightarrow> i = j)"

definition exec_tables_ok :: "'z exec_db_scheme \<Rightarrow> bool" where
  "exec_tables_ok w = (table_ok (exec_tasks w) \<and> table_ok (exec_task_hosts w) \<and> table_ok (approvals w) \<and>
     table_ok (terminals w) \<and> biz_unique w)"

lemma exec_tables_okD:
  assumes "exec_tables_ok w"
  shows "table_ok (exec_tasks w)" "table_ok (exec_task_hosts w)" "table_ok (approvals w)"
    "table_ok (terminals w)" "biz_unique w"
  using assms by (auto simp: exec_tables_ok_def)

end
