(* ===== verification/Exec_Sensitive.thy ===== *)
theory Exec_Sensitive
  imports Exec_Model
begin

text \<open>
  Sensitive-operation detection (\<open>exec_service._sensitive_rules\<close>, \<open>detect_sensitive\<close>) and the
  rendering of parameters into the command that an executor runs (\<open>exec_tasks._render_params\<close>,
  \<open>_resolve_content\<close>). Detection works on the command and the script text as submitted;
  rendering happens later, at dispatch.
\<close>

section \<open>The rules\<close>

record sens_rules =
  sr_keywords :: json
  sr_threshold :: json
  sr_global_conc :: json
  sr_host_conc :: json

definition rule_limit :: "'z sys_db_scheme \<Rightarrow> string \<Rightarrow> json \<Rightarrow> json" where
  "rule_limit w k old = (case by_key w k of None \<Rightarrow> old | Some val \<Rightarrow> dget val ''limit'')"

text \<open>The loop over the four keys, in the source's order: the last two both assign
  \<open>global_conc\<close>.\<close>

definition sensitive_rules :: "'z sys_db_scheme \<Rightarrow> sens_rules" where
  "sensitive_rules w = \<lparr>
     sr_keywords = (case by_key w ''exec_sensitive_word'' of None \<Rightarrow> JList []
        | Some val \<Rightarrow> (case map_of val ''words'' of None \<Rightarrow> JList [] | Some v \<Rightarrow> v)),
     sr_threshold = (case by_key w ''exec_batch_threshold'' of None \<Rightarrow> JNull | Some val \<Rightarrow> dget val ''threshold''),
     sr_global_conc = rule_limit w ''exec_host_concurrency'' (rule_limit w ''exec_concurrency_limit'' JNull),
     sr_host_conc = JNull \<rparr>"

section \<open>Detection\<close>

text \<open>\<open>[w for w in keywords if w and w.lower() in text]\<close>; \<open>None\<close> is the \<open>AttributeError\<close> of a
  keyword that is not a string.\<close>

fun hit_words :: "json list \<Rightarrow> string \<Rightarrow> string list option" where
  "hit_words [] t = Some []"
| "hit_words (w # ws) t =
     (if \<not> truthy w then hit_words ws t
      else case w of
             JStr s \<Rightarrow> (case hit_words ws t of None \<Rightarrow> None
                        | Some hs \<Rightarrow> Some (if contains (lower s) t then s # hs else hs))
           | _ \<Rightarrow> None)"

text \<open>\<open>host_count >= threshold\<close>; \<open>None\<close> is the \<open>TypeError\<close> of a threshold that is no number.\<close>

fun ge_num :: "int \<Rightarrow> json \<Rightarrow> bool option" where
  "ge_num c (JInt n) = Some (c \<ge> n)"
| "ge_num c (JFloat r) = Some (of_int c \<ge> r)"
| "ge_num c (JBool b) = Some (c \<ge> (if b then 1 else 0))"
| "ge_num c _ = None"

definition sens_text :: "string option \<Rightarrow> string option \<Rightarrow> string" where
  "sens_text command script_content =
     lower ((case command of None \<Rightarrow> [] | Some c \<Rightarrow> c) @ [CHR 0x0A] @
            (case script_content of None \<Rightarrow> [] | Some c \<Rightarrow> c))"

definition detect_sensitive ::
  "'z sys_db_scheme \<Rightarrow> string option \<Rightarrow> string option \<Rightarrow> int \<Rightarrow> (bool \<times> hit list) option" where
  "detect_sensitive w command script_content host_count =
     (let rules = sensitive_rules w; text = sens_text command script_content
      in case py_iter (sr_keywords rules) of None \<Rightarrow> None
         | Some ws \<Rightarrow>
        (case hit_words ws text of None \<Rightarrow> None
         | Some hw \<Rightarrow>
        (let r1 = (if hw \<noteq> [] then [SensitiveWords (take 5 hw)] else [])
         in if truthy (sr_threshold rules)
            then (case ge_num host_count (sr_threshold rules) of None \<Rightarrow> None
                  | Some big \<Rightarrow>
                      (let rs = r1 @ (if big then [BatchSize host_count (sr_threshold rules)] else [])
                       in Some (rs \<noteq> [], rs)))
            else Some (r1 \<noteq> [], r1))))"

section \<open>Rendering\<close>

text \<open>\<open>{{key}}\<close> placeholders, one parameter after the other; parameter values are held as their
  \<open>str()\<close> text.\<close>

definition render_params :: "string \<Rightarrow> (string \<times> string) list \<Rightarrow> string" where
  "render_params content params =
     (if params = [] \<or> \<not> contains ''{{'' content then content
      else fold (\<lambda>(k, v) out. str_replace out (''{{'' @ k @ ''}}'') v) params content)"

definition resolve_content :: "'z exec_db_scheme \<Rightarrow> exec_task \<Rightarrow> string" where
  "resolve_content w t =
     (let content =
        (if xt_kind t = ''script'' \<and> int_truthy (xt_script_id t)
         then (let sid = the (xt_script_id t);
                   sv1 = (case xt_script_version t of None \<Rightarrow> None | Some v \<Rightarrow> by_script_version w sid v);
                   sv = (case sv1 of Some v \<Rightarrow> Some v
                         | None \<Rightarrow> (case tget (scripts w) sid of None \<Rightarrow> None
                                    | Some s \<Rightarrow> by_script_version w sid (sc_current_version s)))
               in case sv of None \<Rightarrow> [] | Some v \<Rightarrow> sv_content v)
         else (case xt_command t of None \<Rightarrow> [] | Some c \<Rightarrow> c))
      in render_params content (xt_params t))"

section \<open>What detection computes\<close>

text \<open>A configuration is well typed when its words are strings and its threshold a number.\<close>

definition sens_words :: "'z sys_db_scheme \<Rightarrow> string list" where
  "sens_words w = (case py_iter (sr_keywords (sensitive_rules w)) of None \<Rightarrow> []
     | Some ws \<Rightarrow> concat (map (\<lambda>j. case j of JStr s \<Rightarrow> [s] | _ \<Rightarrow> []) ws))"

lemma hit_words_strings:
  "hit_words ws t = Some hs \<Longrightarrow>
     hs = filter (\<lambda>s. s \<noteq> [] \<and> contains (lower s) t) (concat (map (\<lambda>j. case j of JStr s \<Rightarrow> [s] | _ \<Rightarrow> []) ws))"
proof (induction ws arbitrary: hs)
  case Nil
  then show ?case by simp
next
  case (Cons w ws)
  then show ?case
    by (cases w) (auto split: if_splits option.splits)
qed

lemma detect_word_iff:
  assumes "detect_sensitive w cmd scr n = Some (b, rs)"
  shows "b \<longleftrightarrow> (\<exists>s \<in> set (sens_words w). s \<noteq> [] \<and> contains (lower s) (sens_text cmd scr)) \<or>
     (truthy (sr_threshold (sensitive_rules w)) \<and> ge_num n (sr_threshold (sensitive_rules w)) = Some True)"
proof -
  obtain ws hw where it: "py_iter (sr_keywords (sensitive_rules w)) = Some ws"
    and hw: "hit_words ws (sens_text cmd scr) = Some hw"
    using assms by (auto simp: detect_sensitive_def Let_def split: option.splits)
  have "hw \<noteq> [] \<longleftrightarrow> (\<exists>s \<in> set (sens_words w). s \<noteq> [] \<and> contains (lower s) (sens_text cmd scr))"
    using hit_words_strings [OF hw] it by (simp add: sens_words_def filter_empty_conv)
  with assms it hw show ?thesis
    by (auto simp: detect_sensitive_def Let_def split: if_splits option.splits)
qed

lemma detect_reasons_iff: "detect_sensitive w cmd scr n = Some (b, rs) \<Longrightarrow> b \<longleftrightarrow> rs \<noteq> []"
  by (auto simp: detect_sensitive_def Let_def split: option.splits if_splits)

lemma detect_config_only:
  "config_rules w' = config_rules w \<Longrightarrow> detect_sensitive w' cmd scr n = detect_sensitive w cmd scr n"
  by (simp add: detect_sensitive_def sensitive_rules_def rule_limit_def by_key_def)

end
