(* ===== verification/Exec_Dispatch.thy ===== *)
theory Exec_Dispatch
  imports Exec_Sensitive
begin

text \<open>
  Running a task: the counter semaphores of \<open>core/redis_helper.py\<close>, the executor registry and
  the gate sequence of \<open>services/executors\<close>, the dispatcher \<open>tasks/exec_tasks.py\<close> with its
  status aggregation and its timeout sweep, and the agent's result frames (\<open>ws/agent_ws.py\<close>).

  Every database call of a handler is one atomic step here; the mutex key of a semaphore is
  never found taken.
\<close>

section \<open>Semaphores\<close>

definition acquire_semaphore ::
  "env \<Rightarrow> sem_key \<Rightarrow> int \<Rightarrow> 'z exec_db_scheme \<Rightarrow> bool \<times> 'z exec_db_scheme" where
  "acquire_semaphore e k limit w =
     (if \<not> redis_up e then (True, w)
      else if sems w k < limit then (True, w\<lparr>sems := (sems w)(k := sems w k + 1)\<rparr>)
      else (False, w))"

definition release_semaphore :: "env \<Rightarrow> sem_key \<Rightarrow> 'z exec_db_scheme \<Rightarrow> 'z exec_db_scheme" where
  "release_semaphore e k w =
     (if \<not> redis_up e then w else w\<lparr>sems := (sems w)(k := sems w k - 1)\<rparr>)"

definition limit_of :: "'z sys_db_scheme \<Rightarrow> string \<Rightarrow> int \<Rightarrow> int option" where
  "limit_of w k dflt = (case by_key w k of None \<Rightarrow> Some dflt
     | Some rv \<Rightarrow> (case map_of rv ''limit'' of None \<Rightarrow> Some dflt | Some j \<Rightarrow> py_int j))"

text \<open>\<open>_concurrency_limits\<close> with the defaults of \<open>core/config.py\<close>; \<open>None\<close> is the exception of
  \<open>int()\<close> on a limit that is no number.\<close>

definition concurrency_limits :: "'z sys_db_scheme \<Rightarrow> (int \<times> int) option" where
  "concurrency_limits w =
     (case (limit_of w ''exec_concurrency_limit'' 50, limit_of w ''exec_host_concurrency'' 5) of
        (Some g, Some h) \<Rightarrow> Some (g, h) | _ \<Rightarrow> None)"

section \<open>Executors\<close>

definition resolve_executor :: "env \<Rightarrow> string \<Rightarrow> bool \<Rightarrow> string" where
  "resolve_executor e connector ssh_fallback =
     (if connector = ''agent'' \<and> ssh_fallback \<and> ssh_available e then ''ssh'' else connector)"

definition executor_ssh_fallback :: "'z sys_db_scheme \<Rightarrow> bool" where
  "executor_ssh_fallback w = feature_on w ''executor.ssh_fallback''"

text \<open>\<open>SSHExecutor.exec\<close>: both branches raise \<open>NotImplementedError\<close>. The left value is the
  message of an exception, the right one the result's \<open>ok\<close> and \<open>detail\<close>.\<close>

definition ssh_exec :: "env \<Rightarrow> string + (bool \<times> string)" where
  "ssh_exec e = (if \<not> ssh_available e then Inl ''ssh executor unavailable: paramiko not installed''
     else Inl ''ssh execution not implemented in skeleton'')"

definition approval_gate :: "'z exec_db_scheme \<Rightarrow> exec_task \<Rightarrow> string option" where
  "approval_gate w t =
     (if xt_approve_required t = 0 then None
      else case (if int_truthy (xt_approval_id t) then tget (approvals w) (the (xt_approval_id t)) else None) of
             Some a \<Rightarrow> if ap_status a = AApproved then None else Some ''awaiting approval''
           | None \<Rightarrow> Some ''awaiting approval'')"

fun json_text :: "env \<Rightarrow> json \<Rightarrow> string" where
  "json_text e (JInt n) = show_int n"
| "json_text e (JFloat r) = float_repr e r"
| "json_text e (JBool b) = (if b then ''True'' else ''False'')"
| "json_text e _ = []"

fun join :: "string \<Rightarrow> string list \<Rightarrow> string" where
  "join sep [] = []"
| "join sep [x] = x"
| "join sep (x # xs) = x @ sep @ join sep xs"

fun hit_text :: "env \<Rightarrow> hit \<Rightarrow> string" where
  "hit_text e (SensitiveWords ws) = ''sensitive word: '' @ join '','' ws"
| "hit_text e (BatchSize n j) = ''batch size '' @ show_int n @ '' >= threshold '' @ json_text e j"

definition reason_text :: "env \<Rightarrow> hit list \<Rightarrow> string" where
  "reason_text e rs = join ''; '' (map (hit_text e) rs)"

text \<open>\<open>_sensitivity_gate\<close>: the outer \<open>None\<close> is the exception of the detector.\<close>

definition sensitivity_gate ::
  "env \<Rightarrow> 'z exec_db_scheme \<Rightarrow> exec_task \<Rightarrow> string \<Rightarrow> int \<Rightarrow> string option option" where
  "sensitivity_gate e w t content host_count =
     (case detect_sensitive w (xt_command t) (Some content) host_count of
        None \<Rightarrow> None
      | Some (sensitive, reason) \<Rightarrow>
          Some (if sensitive then Some (''sensitive operation: '' @ reason_text e reason) else None))"

definition write_log :: "int \<Rightarrow> string \<Rightarrow> string \<Rightarrow> 'z exec_db_scheme \<Rightarrow> 'z exec_db_scheme" where
  "write_log thid lvl content w = append_log thid (max_seq w thid + 1) lvl content w"

datatype run_result = Skipped string | Ran bool

text \<open>\<open>run_exec\<close>: approval gate, sensitivity gate, executor, log. \<open>out\<close> is what the executor's
  \<open>exec\<close> does when it is called; \<open>None\<close> is an exception out of a gate.\<close>

definition run_exec ::
  "env \<Rightarrow> exec_task \<Rightarrow> int \<Rightarrow> exec_task_host \<Rightarrow> string \<Rightarrow> int \<Rightarrow> string + (bool \<times> string) \<Rightarrow>
   'z exec_db_scheme \<Rightarrow> (run_result \<times> 'z exec_db_scheme) option" where
  "run_exec e t thid th content host_count out w =
     (let tag = ''[executor:'' @ th_executor th @ ''] ''
      in case (case approval_gate w t of Some r \<Rightarrow> Some (Some r) | None \<Rightarrow> sensitivity_gate e w t content host_count) of
           None \<Rightarrow> None
         | Some (Some skip) \<Rightarrow> Some (Skipped skip, write_log thid ''warn'' (tag @ ''skipped: '' @ skip) w)
         | Some None \<Rightarrow>
             (case out of
                Inl exc \<Rightarrow> Some (Ran False, write_log thid ''error'' (tag @ exc) w)
              | Inr (ok, detail) \<Rightarrow> Some (Ran ok, write_log thid (if ok then ''info'' else ''error'') (tag @ detail) w)))"

section \<open>One host\<close>

text \<open>\<open>UPDATE exec_task_host ... WHERE id = i AND status = 'running'\<close>.\<close>

definition finish_running :: "env \<Rightarrow> int \<Rightarrow> host_status \<Rightarrow> int \<Rightarrow> 'z exec_db_scheme \<Rightarrow> 'z exec_db_scheme" where
  "finish_running e i s code w = upd_th i (\<lambda>r. if th_status r = HRunning
     then r\<lparr>th_status := s, th_exit_code := Some code, th_finished_at := Some (now e)\<rparr> else r) w"

definition execute_via_mock ::
  "env \<Rightarrow> exec_task \<Rightarrow> int \<Rightarrow> exec_task_host \<Rightarrow> string \<Rightarrow> 'z exec_db_scheme \<Rightarrow> 'z exec_db_scheme" where
  "execute_via_mock e t i th content w =
     (let shown = take 200 content;
          w1 = append_log i 1 ''info'' (''[mock-agent] task '' @ xt_task_no t @ '' started on '' @ th_hostname th) w;
          w2 = append_log i 2 ''info'' (''[mock-agent] execute: '' @ (if shown = [] then ''(script)'' else shown)) w1;
          w3 = append_log i 3 ''info'' ''[mock-agent] exit code 0'' w2
      in finish_running e i HSuccess 0 w3)"

definition run_ssh_executor ::
  "env \<Rightarrow> exec_task \<Rightarrow> int \<Rightarrow> exec_task_host \<Rightarrow> string \<Rightarrow> int \<Rightarrow> 'z exec_db_scheme \<Rightarrow> 'z exec_db_scheme option" where
  "run_ssh_executor e t i th content host_count w =
     (case run_exec e t i th content host_count (ssh_exec e) w of
        None \<Rightarrow> None
      | Some (r, w1) \<Rightarrow> (let ok = (r = Ran True)
          in Some (finish_running e i (if ok then HSuccess else HFailed) (if ok then 0 else 1) w1)))"

definition dispatch_exec_frame ::
  "env \<Rightarrow> int \<Rightarrow> exec_task_host \<Rightarrow> string \<Rightarrow> 'z exec_db_scheme \<Rightarrow> bool \<times> 'z exec_db_scheme" where
  "dispatch_exec_frame e i th content w =
     (if th_executor th \<noteq> ''agent'' then (False, w)
      else case (if th_host_id th \<noteq> 0 then tget (hosts w) (th_host_id th) else None) of
             None \<Rightarrow> (False, w)
           | Some h \<Rightarrow>
               if \<not> str_truthy (h_agent_id h) then (False, w)
               else if agent_reachable e (the (h_agent_id h))
               then (True, emit (AgentExec (the (h_agent_id h)) i content) w)
               else (False, w))"

text \<open>The body of the second loop of \<open>exec_dispatch\<close>, its \<open>finally\<close> included; the flag tells
  that it raised.\<close>

definition run_host ::
  "env \<Rightarrow> exec_task \<Rightarrow> string \<Rightarrow> int \<Rightarrow> int \<Rightarrow> 'z exec_db_scheme \<Rightarrow> bool \<times> 'z exec_db_scheme" where
  "run_host e t content host_count i w =
     (case tget (exec_task_hosts w) i of
        None \<Rightarrow> (False, w)
      | Some th \<Rightarrow>
          (let (raised, w1) =
             (if th_executor th = ''ssh''
              then (case run_ssh_executor e t i th content host_count w of None \<Rightarrow> (True, w) | Some w' \<Rightarrow> (False, w'))
              else (let (dispatched, w') = dispatch_exec_frame e i th content w
                    in (False, if dispatched then w' else execute_via_mock e t i th content w')))
           in (raised, release_semaphore e SemGlobal (release_semaphore e (SemHost (th_host_id th)) w1))))"

fun run_hosts ::
  "env \<Rightarrow> exec_task \<Rightarrow> string \<Rightarrow> int \<Rightarrow> int list \<Rightarrow> 'z exec_db_scheme \<Rightarrow> bool \<times> 'z exec_db_scheme" where
  "run_hosts e t content n [] w = (False, w)"
| "run_hosts e t content n (i # is) w =
     (let (raised, w1) = run_host e t content n i w
      in if raised then (True, w1) else run_hosts e t content n is w1)"

text \<open>The first loop: pending hosts are started while both semaphores have room.\<close>

fun start_hosts ::
  "env \<Rightarrow> int \<Rightarrow> int \<Rightarrow> (int \<times> exec_task_host) list \<Rightarrow> 'z exec_db_scheme \<Rightarrow> int list \<times> 'z exec_db_scheme" where
  "start_hosts e gl hl [] w = ([], w)"
| "start_hosts e gl hl ((i, th) # ths) w =
     (if th_status th \<noteq> HPending then start_hosts e gl hl ths w
      else (let (g, w1) = acquire_semaphore e SemGlobal gl w
            in if \<not> g then ([], w1)
               else (let (h, w2) = acquire_semaphore e (SemHost (th_host_id th)) hl w1
                     in if \<not> h then ([], release_semaphore e SemGlobal w2)
                        else (let w3 = upd_th i (\<lambda>r. r\<lparr>th_status := HRunning, th_started_at := Some (now e)\<rparr>) w2;
                                  (ss, w4) = start_hosts e gl hl ths w3
                              in (i # ss, w4)))))"

section \<open>The dispatcher\<close>

text \<open>The status a task gets from the counts of its hosts (the same text stands in
  \<open>exec_dispatch\<close> and in \<open>agent_ws._maybe_finalize_task\<close>).\<close>

definition aggregate_status :: "nat \<Rightarrow> nat \<Rightarrow> nat \<Rightarrow> nat \<Rightarrow> exec_status" where
  "aggregate_status success failed timed tot =
     (if failed = 0 \<and> timed = 0 \<and> tot > 0 \<and> success = tot then XSuccess
      else if failed = 0 \<and> timed = 0 \<and> success > 0 then XPartial
      else XFailed)"

definition new_task_status :: "'z exec_db_scheme \<Rightarrow> int \<Rightarrow> exec_status" where
  "new_task_status w tid =
     aggregate_status (th_stat w tid HSuccess) (th_stat w tid HFailed) (th_stat w tid HTimedOut)
       (length (th_by_task w tid))"

datatype dispatch_result =
    NotRunning | ConcurrencyLimit | Dispatched "exec_status option" | StateChanged | Raised

text \<open>From the re-read of the task to the aggregate under compare-and-set.\<close>

definition finish_dispatch :: "env \<Rightarrow> int \<Rightarrow> 'z exec_db_scheme \<Rightarrow> dispatch_result \<times> 'z exec_db_scheme" where
  "finish_dispatch e tid w =
     (case tget (exec_tasks w) tid of
        None \<Rightarrow> (Dispatched None, w)
      | Some t \<Rightarrow>
          if xt_status t \<noteq> XRunning then (Dispatched (Some (xt_status t)), w)
          else if th_stat w tid HRunning + th_stat w tid HPending > 0
          then (Dispatched (Some (xt_status t)),
                if th_stat w tid HPending > 0 \<and> redis_up e then emit (Enqueue tid) w else w)
          else (case exec_optimistic_update tid XRunning (new_task_status w tid) (xt_version t) w of
                  (False, _) \<Rightarrow> (StateChanged, w)
                | (True, w1) \<Rightarrow> (Dispatched (Some (new_task_status w tid)),
                                upd_task tid (\<lambda>r. r\<lparr>xt_finished_at := Some (now e)\<rparr>) w1)))"

definition exec_dispatch :: "env \<Rightarrow> int \<Rightarrow> 'z exec_db_scheme \<Rightarrow> dispatch_result \<times> 'z exec_db_scheme" where
  "exec_dispatch e tid w =
     (case tget (exec_tasks w) tid of
        None \<Rightarrow> (NotRunning, w)
      | Some t \<Rightarrow>
          if xt_status t \<noteq> XRunning then (NotRunning, w)
          else (case concurrency_limits w of
                  None \<Rightarrow> (Raised, w)
                | Some (gl, hl) \<Rightarrow>
                    (let ths = th_by_task w tid; content = resolve_content w t;
                         (started, w1) = start_hosts e gl hl ths w
                     in if started = [] then (ConcurrencyLimit, w1)
                        else (let (raised, w2) = run_hosts e t content (int (length ths)) started w1
                              in if raised then (Raised, w2) else finish_dispatch e tid w2))))"

definition task_has_inprocess_agent :: "env \<Rightarrow> 'z exec_db_scheme \<Rightarrow> int \<Rightarrow> bool" where
  "task_has_inprocess_agent e w tid =
     list_ex (\<lambda>(i, th). case (if th_host_id th \<noteq> 0 then tget (hosts w) (th_host_id th) else None) of
        None \<Rightarrow> False | Some h \<Rightarrow> str_truthy (h_agent_id h) \<and> agent_online e (the (h_agent_id h)))
       (th_by_task w tid)"

text \<open>The flag tells that the in-process run raised.\<close>

definition kick_off_exec :: "env \<Rightarrow> int \<Rightarrow> bool \<Rightarrow> 'z exec_db_scheme \<Rightarrow> bool \<times> 'z exec_db_scheme" where
  "kick_off_exec e tid in_process w =
     (if in_process \<or> task_has_inprocess_agent e w tid
      then (let (r, w') = exec_dispatch e tid w in (r = Raised, w'))
      else if broker_up e then (False, emit (Enqueue tid) w)
      else (let (r, w') = exec_dispatch e tid w in (r = Raised, w')))"

section \<open>The timeout sweep\<close>

definition time_out_hosts :: "env \<Rightarrow> int \<Rightarrow> 'z exec_db_scheme \<Rightarrow> 'z exec_db_scheme" where
  "time_out_hosts e tid w =
     fold (\<lambda>(i, th). if th_status th = HPending \<or> th_status th = HRunning
             then upd_th i (\<lambda>r. r\<lparr>th_status := HTimedOut, th_finished_at := Some (now e)\<rparr>) else id)
       (th_by_task w tid) w"

definition scan_one :: "env \<Rightarrow> int \<times> exec_task \<Rightarrow> nat \<times> 'z exec_db_scheme \<Rightarrow> nat \<times> 'z exec_db_scheme" where
  "scan_one e it st =
     (let (tid, t) = it; (n, w) = st;
          start = (case xt_started_at t of Some s \<Rightarrow> s | None \<Rightarrow> xt_created_at t)
      in if now e - start > seconds (xt_timeout_sec t)
         then (case exec_optimistic_update tid (xt_status t) XTimedOut (xt_version t) w of
                 (False, _) \<Rightarrow> (n, w)
               | (True, w1) \<Rightarrow> (Suc n, time_out_hosts e tid
                                 (upd_task tid (\<lambda>r. r\<lparr>xt_finished_at := Some (now e)\<rparr>) w1)))
         else (n, w))"

definition scan_timeouts :: "env \<Rightarrow> 'z exec_db_scheme \<Rightarrow> nat \<times> 'z exec_db_scheme" where
  "scan_timeouts e w = fold (scan_one e) (tselect (\<lambda>t. xt_status t = XRunning) (exec_tasks w)) (0, w)"

section \<open>Agent results\<close>

text \<open>The status string of an \<open>exec_result\<close> frame (\<open>success\<close> when the key is missing).\<close>

definition result_status :: "string option \<Rightarrow> host_status" where
  "result_status s =
     (let st = (case s of None \<Rightarrow> ''success'' | Some x \<Rightarrow> x)
      in if st = ''stopped'' \<or> st = ''canceled'' then HCanceled
         else if st = ''success'' then HSuccess
         else if st = ''timed_out'' then HTimedOut
         else HFailed)"

definition maybe_finalize_task :: "env \<Rightarrow> int \<Rightarrow> 'z exec_db_scheme \<Rightarrow> 'z exec_db_scheme" where
  "maybe_finalize_task e tid w =
     (case tget (exec_tasks w) tid of
        None \<Rightarrow> w
      | Some t \<Rightarrow>
          if xt_status t \<noteq> XRunning \<and> xt_status t \<noteq> XPending then w
          else if th_by_task w tid = [] then w
          else if th_stat w tid HRunning + th_stat w tid HPending > 0 then w
          else (let ns = new_task_status w tid
                in if xt_status t \<in> {ns, XCanceled, XTimedOut} then w
                   else (case exec_optimistic_update tid (xt_status t) ns (xt_version t) w of
                           (False, _) \<Rightarrow> w
                         | (True, w1) \<Rightarrow> upd_task tid (\<lambda>r. r\<lparr>xt_finished_at := Some (now e)\<rparr>) w1)))"

definition persist_result ::
  "env \<Rightarrow> int \<Rightarrow> string option \<Rightarrow> int option \<Rightarrow> 'z exec_db_scheme \<Rightarrow> 'z exec_db_scheme" where
  "persist_result e thid status code w =
     (case tget (exec_task_hosts w) thid of
        None \<Rightarrow> w
      | Some th \<Rightarrow>
          maybe_finalize_task e (th_exec_task_id th)
            (upd_th thid (\<lambda>r. r\<lparr>th_status := result_status status, th_exit_code := code,
                               th_finished_at := Some (now e)\<rparr>) w))"

definition persist_logs ::
  "(int \<times> int \<times> string \<times> string) list \<Rightarrow> 'z exec_db_scheme \<Rightarrow> 'z exec_db_scheme" where
  "persist_logs items w = fold (\<lambda>(thid, sq, lvl, content). append_log thid sq lvl content) items w"

end
