(* ===== verification/AI_Policy.thy ===== *)
theory AI_Policy
  imports Exec_Model
begin

text \<open>
  Controlled automatic remediation (\<open>ai_automation_service.py\<close>, \<open>ai_gate.py\<close>): the hit test that
  lets a sensitive task through without a human (\<open>resolve_auto_policy\<close>), the level matrix with
  its single current level, and the circuit breaker.
\<close>

section \<open>Policy resolution\<close>

definition auto_feature :: string where
  "auto_feature = ''ai.auto_remediate''"

definition L4_AUTO_RISK_LEVELS :: "string list" where
  "L4_AUTO_RISK_LEVELS = [''low'']"

definition current_level :: "'z exec_db_scheme \<Rightarrow> string" where
  "current_level w = (case tfirst al_enabled (auto_levels w) of None \<Rightarrow> ''L3'' | Some (i, r) \<Rightarrow> al_level r)"

definition breaker_row :: "'z exec_db_scheme \<Rightarrow> (int \<times> breaker_state) option" where
  "breaker_row w = tfirst (\<lambda>r. cb_scope r = ''global'') (breakers w)"

definition breaker_state_of :: "'z exec_db_scheme \<Rightarrow> string" where
  "breaker_state_of w = (case breaker_row w of None \<Rightarrow> ''closed'' | Some (i, r) \<Rightarrow> cb_state r)"

definition policy_matches :: "dict \<Rightarrow> remediation_policy \<Rightarrow> bool" where
  "policy_matches rem p =
     (dget rem ''asset_class'' = JStr (rp_asset_class p) \<and> dget rem ''op_type'' = JStr (rp_op_type p) \<and>
      rp_level p = ''L4'' \<and> rp_whitelist_ref p \<noteq> None \<and> rp_verification_ref p \<noteq> None)"

text \<open>The value is the id of the policy that \<open>policy_ref\<close> names.\<close>

definition resolve_auto_policy :: "'z exec_db_scheme \<Rightarrow> dict option \<Rightarrow> int option" where
  "resolve_auto_policy w remediation =
     (case remediation of None \<Rightarrow> None
      | Some rem \<Rightarrow>
        if rem = [] \<or> \<not> feature_on w auto_feature then None
        else if dget rem ''risk_level'' \<notin> JStr ` set L4_AUTO_RISK_LEVELS then None
        else if current_level w \<noteq> ''L4'' then None
        else if breaker_state_of w = ''open'' then None
        else (case tselect (policy_matches rem) (policies w) of
                [(pid, policy)] \<Rightarrow>
                  if dget rem ''action'' \<noteq> JStr (the (rp_whitelist_ref policy)) then None
                  else if texists (\<lambda>l. Some (wl_action l) = rp_whitelist_ref policy \<and> wl_enabled l \<and>
                                  wl_risk_level l \<in> set L4_AUTO_RISK_LEVELS) (whitelist w)
                       then Some pid else None
              | _ \<Rightarrow> None))"

section \<open>The level matrix\<close>

definition automation_levels :: "string list" where
  "automation_levels = [''L0'', ''L1'', ''L2'', ''L3'', ''L4'']"

text \<open>The new level is committed before \<open>get_level\<close> runs, whose own gate asks for \<open>ai:use\<close>; so the
  state is part of the result on that error too.\<close>

definition put_level :: "current_user \<Rightarrow> string \<Rightarrow> 'z exec_db_scheme \<Rightarrow> string res \<times> 'z exec_db_scheme" where
  "put_level u level w =
     (if \<not> feature_on w auto_feature then (Inl feature_disabled, w)
      else if \<not> has_perm u ''ai:admin'' then (Inl (perm_denied ''ai:admin''), w)
      else if level \<notin> set automation_levels then (Inl (ValidationError ''level must be one of L0..L4''), w)
      else if level = ''L4'' \<and>
              (tselect (\<lambda>p. rp_level p = ''L4'') (policies w) = [] \<or>
               texists (\<lambda>p. rp_level p = ''L4'' \<and> rp_verification_ref p = None) (policies w))
      then (Inl (ValidationError ''L4 requires governed policies with verification_ref''), w)
      else (let t = auto_levels w;
                t1 = (if texists (\<lambda>r. al_level r = level) t then t
                      else tadd \<lparr>al_level = level, al_enabled = True\<rparr> t);
                t2 = Table (map (\<lambda>(i, r). (i, r\<lparr>al_enabled := (al_level r = level)\<rparr>)) (rows t1)) (seq t1);
                w' = w\<lparr>auto_levels := t2\<rparr>
            in (if \<not> has_perm u ''ai:use'' then Inl (perm_denied ''ai:use'') else Inr (current_level w'), w')))"

section \<open>The circuit breaker\<close>

text \<open>\<open>raw\<close> is the environment override; a value that is not an integer is passed over.\<close>

definition resolve_threshold :: "string option \<Rightarrow> 'z exec_db_scheme \<Rightarrow> remediation_policy option \<Rightarrow> int" where
  "resolve_threshold raw w policy =
     (case (if str_truthy raw then parse_int (the raw) else None) of
        Some n \<Rightarrow> n
      | None \<Rightarrow>
        (case (case policy of None \<Rightarrow> None | Some p \<Rightarrow> rp_circuit_threshold p) of
           Some n \<Rightarrow> n
         | None \<Rightarrow>
           (case (case breaker_row w of None \<Rightarrow> None | Some (i, r) \<Rightarrow> cb_threshold r) of
              Some n \<Rightarrow> n
            | None \<Rightarrow> 3)))"

definition breaker_next :: "time \<Rightarrow> int \<Rightarrow> bool \<Rightarrow> breaker_state \<Rightarrow> breaker_state" where
  "breaker_next t threshold ok r =
     (if cb_state r = ''half'' then
        (if ok then r\<lparr>cb_state := ''closed'', cb_current := 0, cb_last_tripped_at := None\<rparr>
         else r\<lparr>cb_state := ''open'', cb_last_tripped_at := Some t\<rparr>)
      else if cb_state r = ''open'' then (if ok then r\<lparr>cb_state := ''half''\<rparr> else r)
      else if ok then r\<lparr>cb_current := 0\<rparr>
      else (let n = cb_current r + 1; r' = r\<lparr>cb_current := n\<rparr>
            in if n \<ge> threshold
               then r'\<lparr>cb_state := ''open'', cb_threshold := Some threshold, cb_last_tripped_at := Some t\<rparr>
               else r'))"

definition new_breaker :: breaker_state where
  "new_breaker = \<lparr>cb_scope = ''global'', cb_state = ''closed'', cb_current = 0, cb_threshold = None,
     cb_last_tripped_at = None\<rparr>"

definition record_verification_result ::
  "time \<Rightarrow> string option \<Rightarrow> remediation_policy option \<Rightarrow> bool \<Rightarrow> 'z exec_db_scheme \<Rightarrow> 'z exec_db_scheme" where
  "record_verification_result t raw policy ok w =
     (let threshold = resolve_threshold raw w policy;
          w1 = (case breaker_row w of None \<Rightarrow> w\<lparr>breakers := tadd new_breaker (breakers w)\<rparr> | Some _ \<Rightarrow> w)
      in case breaker_row w1 of None \<Rightarrow> w1
         | Some (i, r) \<Rightarrow> w1\<lparr>breakers := tupd i (breaker_next t threshold ok) (breakers w1)\<rparr>)"

section \<open>Properties\<close>

lemma resolve_auto_policy_gates:
  assumes "resolve_auto_policy w remediation = Some pid" and "table_ok (policies w)"
  shows "feature_on w auto_feature \<and> current_level w = ''L4'' \<and> breaker_state_of w \<noteq> ''open'' \<and>
    (\<exists>rem p. remediation = Some rem \<and> dget rem ''risk_level'' = JStr ''low'' \<and>
       tget (policies w) pid = Some p \<and> policy_matches rem p \<and>
       (\<forall>i q. tget (policies w) i = Some q \<longrightarrow> policy_matches rem q \<longrightarrow> i = pid) \<and>
       dget rem ''action'' = JStr (the (rp_whitelist_ref p)) \<and>
       texists (\<lambda>l. Some (wl_action l) = rp_whitelist_ref p \<and> wl_enabled l \<and> wl_risk_level l = ''low'') (whitelist w))"
proof -
  obtain rem where rem: "remediation = Some rem"
    using assms(1) by (auto simp: resolve_auto_policy_def split: option.splits)
  obtain p where sel: "tselect (policy_matches rem) (policies w) = [(pid, p)]"
    and g: "feature_on w auto_feature" "current_level w = ''L4''" "breaker_state_of w \<noteq> ''open''"
      "dget rem ''risk_level'' = JStr ''low''" "dget rem ''action'' = JStr (the (rp_whitelist_ref p))"
      "texists (\<lambda>l. Some (wl_action l) = rp_whitelist_ref p \<and> wl_enabled l \<and> wl_risk_level l = ''low'') (whitelist w)"
    using assms(1) rem
    by (auto simp: resolve_auto_policy_def L4_AUTO_RISK_LEVELS_def split: if_splits list.splits)
  have iff: "(i, q) \<in> set [(pid, p)] \<longleftrightarrow> tget (policies w) i = Some q \<and> policy_matches rem q" for i q
    using in_tselect [OF assms(2), of i q "policy_matches rem"] sel by simp
  have "tget (policies w) pid = Some p" "policy_matches rem p"
    using iff [of pid p] by auto
  moreover have "\<forall>i q. tget (policies w) i = Some q \<longrightarrow> policy_matches rem q \<longrightarrow> i = pid"
    using iff by auto
  ultimately show ?thesis using g rem by blast
qed

lemma put_level_current:
  assumes "put_level u level w = (Inr cur, w')"
  shows "cur = level \<and> (\<forall>(i, r) \<in> set (rows (auto_levels w')). al_enabled r \<longleftrightarrow> al_level r = level)"
proof -
  define t1 where "t1 = (if texists (\<lambda>r. al_level r = level) (auto_levels w) then auto_levels w
      else tadd \<lparr>al_level = level, al_enabled = True\<rparr> (auto_levels w))"
  have w': "auto_levels w' = Table (map (\<lambda>(i, r). (i, r\<lparr>al_enabled := (al_level r = level)\<rparr>)) (rows t1)) (seq t1)"
    and cur: "cur = current_level w'"
    using assms by (auto simp: put_level_def Let_def t1_def split: if_splits)
  have all: "\<forall>(i, r) \<in> set (rows (auto_levels w')). al_enabled r \<longleftrightarrow> al_level r = level"
    by (auto simp: w')
  have ex: "\<exists>(i, r) \<in> set (rows t1). al_level r = level"
    by (auto simp: t1_def texists_def tadd_def)
  then have "\<exists>(i, r) \<in> set (rows (auto_levels w')). al_enabled r"
    by (force simp: w')
  then obtain x xs where sel: "tselect al_enabled (auto_levels w') = x # xs"
    by (cases "tselect al_enabled (auto_levels w')") (auto simp: tselect_def filter_empty_conv)
  then have "x \<in> set (tselect al_enabled (auto_levels w'))" by simp
  then have "x \<in> set (rows (auto_levels w'))" "al_enabled (snd x)"
    by (auto simp: tselect_def)
  with all have "al_level (snd x) = level" by (cases x) auto
  with sel cur all show ?thesis
    by (auto simp: current_level_def tfirst_def split: prod.splits)
qed

text \<open>A closed breaker counts consecutive failures and opens at the threshold.\<close>

lemma breaker_counts:
  assumes "cb_state r = ''closed''" and "0 \<le> cb_current r" and "cb_current r < th" and "0 < n"
  shows "let r' = ((breaker_next t th False) ^^ n) r
     in if cb_current r + int n < th then cb_state r' = ''closed'' \<and> cb_current r' = cb_current r + int n
        else cb_state r' = ''open'' \<and> cb_current r' = th"
  using assms(4)
proof (induction n rule: nat_induct_non_zero)
  case 1
  with assms show ?case by (auto simp: breaker_next_def Let_def)
next
  case (Suc n)
  with assms show ?case
    by (auto simp: breaker_next_def Let_def split: if_splits)
qed

end
