(* ===== verification/Exec_Service.thy ===== *)
theory Exec_Service
  imports Exec_Dispatch AI_Policy
begin

text \<open>
  \<open>exec_service.py\<close>: creating a task (hosts, script, sensitivity, approval, executor), stopping,
  cancelling and retrying it; and the linkages of \<open>approval_service.py\<close> and
  \<open>terminal_service.py\<close> through which a decided approval acts on its task or session.

  A handler returns an error on the left with nothing changed (the session is rolled back),
  or its answer and the new database on the right. A handler that can still fail after its
  commit returns the database beside its answer.
\<close>

section \<open>Linkages of an approval\<close>

definition activate_on_approval :: "env \<Rightarrow> approval \<Rightarrow> 'z exec_db_scheme \<Rightarrow> 'z exec_db_scheme" where
  "activate_on_approval e a w =
     (if ap_biz_type a \<noteq> ''terminal'' then w
      else case tget (terminals w) (ap_biz_id a) of
             None \<Rightarrow> w
           | Some s \<Rightarrow> if ts_status s \<noteq> TAwaitingApproval then w
                       else upd_terminal (ap_biz_id a) (\<lambda>r. r\<lparr>ts_status := TOpen, ts_started_at := Some (now e)\<rparr>) w)"

definition close_on_cancel :: "env \<Rightarrow> approval \<Rightarrow> 'z exec_db_scheme \<Rightarrow> 'z exec_db_scheme" where
  "close_on_cancel e a w =
     (if ap_biz_type a \<noteq> ''terminal'' then w
      else case tget (terminals w) (ap_biz_id a) of
             None \<Rightarrow> w
           | Some s \<Rightarrow> if ts_status s \<noteq> TAwaitingApproval then w
                       else upd_terminal (ap_biz_id a) (\<lambda>r. r\<lparr>ts_status := TClosed,
                              ts_close_reason := ''canceled_before_approval'', ts_finished_at := Some (now e)\<rparr>) w)"

definition approve_exec :: "env \<Rightarrow> approval \<Rightarrow> 'z exec_db_scheme \<Rightarrow> 'z exec_db_scheme res" where
  "approve_exec e a w =
     (case tget (exec_tasks w) (ap_biz_id a) of
        None \<Rightarrow> Inl (NotFoundError ''linked exec task not found'')
      | Some t \<Rightarrow>
          (case exec_optimistic_update (ap_biz_id a) XAwaitingApproval XRunning (xt_version t) w of
             (False, _) \<Rightarrow> Inl (ConflictError ''exec task state changed concurrently'')
           | (True, w1) \<Rightarrow>
               (let w2 = upd_task (ap_biz_id a) (\<lambda>r. r\<lparr>xt_started_at := Some (now e)\<rparr>) w1
                in Inr (if broker_up e then emit (Enqueue (ap_biz_id a)) w2 else w2))))"

definition approve_linkages :: "env \<Rightarrow> approval \<Rightarrow> 'z exec_db_scheme \<Rightarrow> 'z exec_db_scheme res" where
  "approve_linkages e a w =
     (if ap_biz_type a = ''terminal'' then Inr (activate_on_approval e a w)
      else if ap_biz_type a = ''workflow'' then Inr w
      else if ap_biz_type a = ''exec'' then approve_exec e a w
      else Inl (NotFoundError ''approval biz_type has no approve linkage''))"

text \<open>The task of a refused approval: only while it still waits.\<close>

definition cancel_awaiting_task :: "env \<Rightarrow> approval \<Rightarrow> 'z exec_db_scheme \<Rightarrow> 'z exec_db_scheme" where
  "cancel_awaiting_task e a w =
     (case tget (exec_tasks w) (ap_biz_id a) of
        None \<Rightarrow> w
      | Some t \<Rightarrow>
          if xt_status t = XAwaitingApproval
          then (case exec_optimistic_update (ap_biz_id a) XAwaitingApproval XCanceled (xt_version t) w of
                  (False, _) \<Rightarrow> w
                | (True, w1) \<Rightarrow> upd_task (ap_biz_id a) (\<lambda>r. r\<lparr>xt_finished_at := Some (now e)\<rparr>) w1)
          else w)"

definition cancel_linkages :: "env \<Rightarrow> approval \<Rightarrow> 'z exec_db_scheme \<Rightarrow> 'z exec_db_scheme" where
  "cancel_linkages e a w =
     (if ap_biz_type a = ''terminal'' then close_on_cancel e a w
      else if ap_biz_type a \<noteq> ''exec'' then w
      else cancel_awaiting_task e a w)"

section \<open>Creating a task\<close>

record exec_req =
  rq_name :: string
  rq_kind :: string
  rq_target_host_ids :: "int list"
  rq_script_id :: "int option"
  rq_script_version :: "int option"
  rq_command :: "string option"
  rq_params :: "(string \<times> string) list"
  rq_mode :: string
  rq_timeout_sec :: int
  rq_retry :: int
  rq_created_by :: "int option"
  rq_requester_id :: "int option"
  rq_visible_group_ids :: "int list option"
  rq_remediation :: "dict option"

record exec_out =
  xo_id :: int
  xo_status :: exec_status
  xo_approve_required :: bool
  xo_approval_id :: "int option"

fun check_hosts :: "'z exec_db_scheme \<Rightarrow> int list option \<Rightarrow> int list \<Rightarrow> unit res" where
  "check_hosts w vis [] = Inr ()"
| "check_hosts w vis (hid # hids) =
     (case tget (hosts w) hid of
        None \<Rightarrow> Inl (NotFoundError (''host '' @ show_int hid @ '' not found''))
      | Some h \<Rightarrow>
          if vis \<noteq> None \<and> (case h_group_id h of None \<Rightarrow> True | Some g \<Rightarrow> g \<notin> set (the vis))
          then Inl (ForbiddenError (''no data permission for host '' @ show_int hid))
          else check_hosts w vis hids)"

definition or_else :: "int option \<Rightarrow> int \<Rightarrow> int" where
  "or_else x d = (case x of None \<Rightarrow> d | Some n \<Rightarrow> if n = 0 then d else n)"

definition script_text ::
  "'z exec_db_scheme \<Rightarrow> string \<Rightarrow> int option \<Rightarrow> int option \<Rightarrow> string option \<Rightarrow> string option res" where
  "script_text w kind sid ver command =
     (if kind = ''script'' then
        (if \<not> int_truthy sid then Inl (BadRequestError ''script_id required for kind=script'')
         else case tget (scripts w) (the sid) of
                None \<Rightarrow> Inl (NotFoundError ''script not found'')
              | Some s \<Rightarrow>
                  (case by_script_version w (the sid) (or_else ver (sc_current_version s)) of
                     None \<Rightarrow> Inl (NotFoundError ''script version not found'')
                   | Some v \<Rightarrow> Inr (Some (sv_content v))))
      else if kind = ''command'' then
        (if \<not> str_truthy command then Inl (BadRequestError ''command required for kind=command'') else Inr None)
      else Inl (BadRequestError ''invalid kind''))"

text \<open>One row per target; \<open>(exec_task_id, host_id)\<close> is unique, so a repeated id fails.\<close>

fun add_task_hosts ::
  "env \<Rightarrow> bool \<Rightarrow> int \<Rightarrow> int list \<Rightarrow> 'z exec_db_scheme \<Rightarrow> 'z exec_db_scheme res" where
  "add_task_hosts e fb tid [] w = Inr w"
| "add_task_hosts e fb tid (hid # hids) w =
     (case tget (hosts w) hid of
        None \<Rightarrow> Inl TypeError
      | Some h \<Rightarrow>
          if texists (\<lambda>r. th_exec_task_id r = tid \<and> th_host_id r = hid) (exec_task_hosts w)
          then Inl (IntegrityError ''exec_task_host'')
          else add_task_hosts e fb tid hids (w\<lparr>exec_task_hosts := tadd
            \<lparr>th_exec_task_id = tid, th_host_id = hid, th_hostname = h_hostname h, th_ip = h_ip h,
             th_executor = resolve_executor e (h_connector h) fb, th_status = HPending, th_exit_code = None,
             th_started_at = None, th_finished_at = None\<rparr> (exec_task_hosts w)\<rparr>))"

definition requester_of :: "exec_req \<Rightarrow> int" where
  "requester_of q = (case rq_requester_id q of Some r \<Rightarrow> r
     | None \<Rightarrow> (case rq_created_by q of None \<Rightarrow> 0 | Some c \<Rightarrow> c))"

definition new_task :: "env \<Rightarrow> exec_req \<Rightarrow> string \<Rightarrow> bool \<Rightarrow> exec_task" where
  "new_task e q no sensitive =
     \<lparr>xt_task_no = no, xt_name = rq_name q, xt_kind = rq_kind q, xt_script_id = rq_script_id q,
      xt_script_version = rq_script_version q, xt_command = rq_command q, xt_params = rq_params q,
      xt_target_host_ids = rq_target_host_ids q, xt_mode = rq_mode q, xt_timeout_sec = rq_timeout_sec q,
      xt_retry = rq_retry q, xt_sensitive_flag = (if sensitive then 1 else 0),
      xt_approve_required = (if sensitive then 1 else 0), xt_approval_id = None, xt_status = XCreated,
      xt_created_by = rq_created_by q, xt_created_at = now e, xt_started_at = None, xt_finished_at = None,
      xt_version = 0\<rparr>"

definition new_approval :: "string \<Rightarrow> string \<Rightarrow> int \<Rightarrow> int \<Rightarrow> hit list \<Rightarrow> approval" where
  "new_approval no biz_type biz_id requester reason =
     \<lparr>ap_request_no = no, ap_biz_type = biz_type, ap_biz_id = biz_id, ap_requester_id = requester,
      ap_sensitive_hit = reason, ap_status = APending, ap_approval_mode = ''manual'', ap_policy_ref = None,
      ap_approver_id = None, ap_decided_at = None, ap_version = 0\<rparr>"

text \<open>The tail of the sensitive branch: a policy hit approves the fresh row and unlocks the
  task through the same linkage a human approval uses.\<close>

definition auto_approve ::
  "env \<Rightarrow> exec_req \<Rightarrow> int \<Rightarrow> int \<Rightarrow> 'z exec_db_scheme \<Rightarrow> (exec_out \<times> 'z exec_db_scheme) res" where
  "auto_approve e q tid aid w =
     (case resolve_auto_policy w (rq_remediation q) of
        None \<Rightarrow> Inr (\<lparr>xo_id = tid, xo_status = XAwaitingApproval, xo_approve_required = True, xo_approval_id = Some aid\<rparr>, w)
      | Some pid \<Rightarrow>
          (let w1 = upd_approval aid (\<lambda>r. r\<lparr>ap_approval_mode := ''auto_policy'', ap_status := AApproved,
                       ap_policy_ref := Some pid\<rparr>) w;
               w2 = w1\<lparr>ai_actions := tadd \<lparr>aa_model_name = ''e6-auto-remediate'',
                       aa_trace_id = (case tget (exec_tasks w) tid of None \<Rightarrow> [] | Some t \<Rightarrow> xt_task_no t),
                       aa_actor = requester_of q, aa_decision = ''auto'', aa_approval_mode = ''auto_policy'',
                       aa_policy_ref = Some pid\<rparr> (ai_actions w1)\<rparr>
           in case tget (approvals w2) aid of
                None \<Rightarrow> Inl TypeError
              | Some a \<Rightarrow>
                  (case approve_linkages e a w2 of
                     Inl err \<Rightarrow> Inl err
                   | Inr w3 \<Rightarrow> Inr (\<lparr>xo_id = tid, xo_status = XRunning, xo_approve_required = True,
                                   xo_approval_id = Some aid\<rparr>, w3))))"

definition submit_for_approval ::
  "env \<Rightarrow> exec_req \<Rightarrow> int \<Rightarrow> hit list \<Rightarrow> 'z exec_db_scheme \<Rightarrow> (exec_out \<times> 'z exec_db_scheme) res" where
  "submit_for_approval e q tid reason w =
     (let (no, w1) = approval_no e w
      in case add_approval (new_approval no ''exec'' tid (requester_of q) reason) w1 of
           Inl err \<Rightarrow> Inl err
         | Inr (aid, w2) \<Rightarrow>
             (case exec_optimistic_update tid XCreated XAwaitingApproval 0
                     (upd_task tid (\<lambda>r. r\<lparr>xt_approval_id := Some aid\<rparr>) w2) of
                (False, _) \<Rightarrow> Inl (ConflictError ''task state changed concurrently'')
              | (True, w3) \<Rightarrow> auto_approve e q tid aid w3))"

text \<open>The tail of the other branch: the task runs at once.\<close>

definition start_plain :: "env \<Rightarrow> int \<Rightarrow> 'z exec_db_scheme \<Rightarrow> (exec_out \<times> 'z exec_db_scheme) res" where
  "start_plain e tid w =
     (case exec_optimistic_update tid XCreated XRunning 0 w of
        (False, _) \<Rightarrow> Inl (ConflictError ''task state changed concurrently'')
      | (True, w1) \<Rightarrow>
          Inr (\<lparr>xo_id = tid, xo_status = XRunning, xo_approve_required = False, xo_approval_id = None\<rparr>,
               upd_task tid (\<lambda>r. r\<lparr>xt_started_at := Some (now e)\<rparr>) w1))"

definition create_exec_task_record ::
  "env \<Rightarrow> exec_req \<Rightarrow> 'z exec_db_scheme \<Rightarrow> (exec_out \<times> 'z exec_db_scheme) res" where
  "create_exec_task_record e q w =
     (case check_hosts w (rq_visible_group_ids q) (rq_target_host_ids q) of
        Inl err \<Rightarrow> Inl err
      | Inr _ \<Rightarrow>
     (case script_text w (rq_kind q) (rq_script_id q) (rq_script_version q) (rq_command q) of
        Inl err \<Rightarrow> Inl err
      | Inr script_content \<Rightarrow>
     (case detect_sensitive w (rq_command q) script_content (int (length (remdups (rq_target_host_ids q)))) of
        None \<Rightarrow> Inl TypeError
      | Some (sensitive, reason) \<Rightarrow>
     (let (no, w1) = task_no e w;
          tid = next_id (exec_tasks w1);
          w2 = w1\<lparr>exec_tasks := tadd (new_task e q no sensitive) (exec_tasks w1)\<rparr>
      in case add_task_hosts e (executor_ssh_fallback w) tid (rq_target_host_ids q) w2 of
           Inl err \<Rightarrow> Inl err
         | Inr w3 \<Rightarrow>
             if sensitive then submit_for_approval e q tid reason w3
             else start_plain e tid w3))))"

text \<open>\<open>create_task\<close>: the request body's fields are in \<open>q\<close>, the principal's are filled in here.\<close>

definition user_req :: "current_user \<Rightarrow> exec_req \<Rightarrow> exec_req" where
  "user_req u q = q\<lparr>rq_created_by := Some (uid u), rq_requester_id := Some (uid u),
     rq_visible_group_ids := (if is_admin u then None else Some (visible_group_ids u)), rq_remediation := None\<rparr>"

definition create_task ::
  "env \<Rightarrow> current_user \<Rightarrow> exec_req \<Rightarrow> 'z exec_db_scheme \<Rightarrow> exec_out res \<times> 'z exec_db_scheme" where
  "create_task e u q w =
     (if \<not> has_perm u ''exec:task:run'' then (Inl (perm_denied ''exec:task:run''), w)
      else case create_exec_task_record e (user_req u q) w of
             Inl err \<Rightarrow> (Inl err, w)
           | Inr (out, w1) \<Rightarrow>
               if xo_status out = XRunning
               then (let (raised, w2) = kick_off_exec e (xo_id out) False w1
                     in (if raised then Inl TypeError else Inr out, w2))
               else (Inr out, w1))"

section \<open>Cancelling and stopping\<close>

definition exec_cancellable :: "exec_status list" where
  "exec_cancellable = [XCreated, XAwaitingApproval, XApproved, XRunning, XPending]"

definition close_orphan_approval :: "exec_task \<Rightarrow> 'z exec_db_scheme \<Rightarrow> 'z exec_db_scheme" where
  "close_orphan_approval t w =
     (if \<not> int_truthy (xt_approval_id t) then w
      else (let aid = the (xt_approval_id t)
            in case tget (approvals w) aid of
                 None \<Rightarrow> w
               | Some a \<Rightarrow> if ap_status a = APending
                           then snd (approval_optimistic_update aid APending ACanceled (ap_version a) w)
                           else w))"

definition send_agent_stop :: "env \<Rightarrow> int \<Rightarrow> exec_task_host \<Rightarrow> 'z exec_db_scheme \<Rightarrow> 'z exec_db_scheme" where
  "send_agent_stop e i th w =
     (case (if th_host_id th \<noteq> 0 then tget (hosts w) (th_host_id th) else None) of
        None \<Rightarrow> w
      | Some h \<Rightarrow> if str_truthy (h_agent_id h) \<and> agent_reachable e (the (h_agent_id h))
                  then emit (AgentStop (the (h_agent_id h)) i) w else w)"

definition cancel_one_host :: "env \<Rightarrow> int \<times> exec_task_host \<Rightarrow> 'z exec_db_scheme \<Rightarrow> 'z exec_db_scheme" where
  "cancel_one_host e it w =
     (let (i, th) = it
      in if th_status th = HPending \<or> th_status th = HRunning
         then (let w1 = upd_th i (\<lambda>r. r\<lparr>th_status := HCanceled, th_finished_at := Some (now e)\<rparr>) w
               in if th_status th = HRunning then send_agent_stop e i th w1 else w1)
         else w)"

definition cancel_exec_task_record ::
  "env \<Rightarrow> int \<Rightarrow> exec_task \<Rightarrow> 'z exec_db_scheme \<Rightarrow> bool \<times> 'z exec_db_scheme" where
  "cancel_exec_task_record e tid t w =
     (if xt_status t \<notin> set exec_cancellable then (False, w)
      else case exec_optimistic_update tid (xt_status t) XCanceled (xt_version t) w of
             (False, _) \<Rightarrow> (False, w)
           | (True, w1) \<Rightarrow>
               (let w2 = upd_task tid (\<lambda>r. r\<lparr>xt_finished_at := Some (now e)\<rparr>) w1;
                    w3 = close_orphan_approval t w2
                in (True, fold (cancel_one_host e) (th_by_task w3 tid) w3)))"

text \<open>Owner or administrator, the guard of every handler on an existing task.\<close>

definition task_guard ::
  "current_user \<Rightarrow> string \<Rightarrow> string \<Rightarrow> int \<Rightarrow> 'z exec_db_scheme \<Rightarrow> exec_task res" where
  "task_guard u perm what tid w =
     (if \<not> has_perm u perm then Inl (perm_denied perm)
      else case tget (exec_tasks w) tid of
             None \<Rightarrow> Inl (NotFoundError ''task not found'')
           | Some t \<Rightarrow> if \<not> is_admin u \<and> xt_created_by t \<noteq> Some (uid u)
                       then Inl (ForbiddenError (''no permission to '' @ what @ '' this task''))
                       else Inr t)"

definition stop_task ::
  "env \<Rightarrow> current_user \<Rightarrow> int \<Rightarrow> 'z exec_db_scheme \<Rightarrow> (exec_status \<times> 'z exec_db_scheme) res" where
  "stop_task e u tid w =
     (case task_guard u ''exec:task:stop'' ''stop'' tid w of
        Inl err \<Rightarrow> Inl err
      | Inr t \<Rightarrow>
          if xt_status t \<notin> {XRunning, XPending} then Inl (BadRequestError ''task not running'')
          else (case cancel_exec_task_record e tid t w of
                  (False, _) \<Rightarrow> Inl (ConflictError ''task state changed concurrently'')
                | (True, w1) \<Rightarrow> Inr (XCanceled, w1)))"

section \<open>Retrying\<close>

text \<open>The sensitivity re-check of \<open>retry_task\<close> on the stored task.\<close>

definition recheck_content :: "'z exec_db_scheme \<Rightarrow> exec_task \<Rightarrow> string" where
  "recheck_content w t =
     (let cmd = (case xt_command t of None \<Rightarrow> [] | Some c \<Rightarrow> c)
      in if xt_kind t = ''script'' \<and> int_truthy (xt_script_id t)
         then (case tget (scripts w) (the (xt_script_id t)) of
                 None \<Rightarrow> cmd
               | Some s \<Rightarrow>
                   (case by_script_version w (the (xt_script_id t)) (or_else (xt_script_version t) (sc_current_version s)) of
                      None \<Rightarrow> [] | Some v \<Rightarrow> sv_content v))
         else cmd)"

definition recheck_sensitive :: "'z exec_db_scheme \<Rightarrow> exec_task \<Rightarrow> (bool \<times> hit list) option" where
  "recheck_sensitive w t =
     detect_sensitive w (xt_command t) (Some (recheck_content w t)) (int (length (xt_target_host_ids t)))"

definition reset_host :: "int \<times> exec_task_host \<Rightarrow> 'z exec_db_scheme \<Rightarrow> 'z exec_db_scheme" where
  "reset_host it w =
     (let (i, th) = it
      in if th_status th \<in> {HFailed, HTimedOut, HCanceled}
         then upd_th i (\<lambda>r. r\<lparr>th_status := HPending\<rparr>) w else w)"

definition retry_sensitive ::
  "env \<Rightarrow> current_user \<Rightarrow> int \<Rightarrow> exec_task \<Rightarrow> hit list \<Rightarrow> 'z exec_db_scheme \<Rightarrow> (exec_out \<times> 'z exec_db_scheme) res" where
  "retry_sensitive e u tid t reason w =
     (case exec_optimistic_update tid (xt_status t) XAwaitingApproval (xt_version t) w of
        (False, _) \<Rightarrow> Inl (ConflictError ''task state changed concurrently'')
      | (True, w1) \<Rightarrow>
          (let (no, w2) = approval_no e (close_orphan_approval t w1)
           in case add_approval (new_approval no ''exec'' tid (uid u) reason) w2 of
                Inl err \<Rightarrow> Inl err
              | Inr (aid, w3) \<Rightarrow>
                  Inr (\<lparr>xo_id = tid, xo_status = XAwaitingApproval, xo_approve_required = True, xo_approval_id = Some aid\<rparr>,
                       upd_task tid (\<lambda>r. r\<lparr>xt_approval_id := Some aid, xt_sensitive_flag := 1\<rparr>) w3)))"

definition retry_plain ::
  "env \<Rightarrow> int \<Rightarrow> exec_task \<Rightarrow> 'z exec_db_scheme \<Rightarrow> 'z exec_db_scheme res" where
  "retry_plain e tid t w =
     (case exec_optimistic_update tid (xt_status t) XRunning (xt_version t) w of
        (False, _) \<Rightarrow> Inl (ConflictError ''task state changed concurrently'')
      | (True, w1) \<Rightarrow>
          (let w2 = upd_task tid (\<lambda>r. r\<lparr>xt_started_at := Some (now e), xt_finished_at := None\<rparr>) w1;
               w3 = close_orphan_approval t w2
           in Inr (fold reset_host (th_by_task w3 tid) w3)))"

definition retry_task ::
  "env \<Rightarrow> current_user \<Rightarrow> int \<Rightarrow> 'z exec_db_scheme \<Rightarrow> exec_out res \<times> 'z exec_db_scheme" where
  "retry_task e u tid w =
     (case task_guard u ''exec:task:retry'' ''retry'' tid w of
        Inl err \<Rightarrow> (Inl err, w)
      | Inr t \<Rightarrow>
          if xt_status t \<notin> {XFailed, XTimedOut, XCanceled} then (Inl (BadRequestError ''task not retryable''), w)
          else (case recheck_sensitive w t of
                  None \<Rightarrow> (Inl TypeError, w)
                | Some (True, reason) \<Rightarrow>
                    (case retry_sensitive e u tid t reason w of
                       Inl err \<Rightarrow> (Inl err, w) | Inr (out, w1) \<Rightarrow> (Inr out, w1))
                | Some (False, _) \<Rightarrow>
                    (case retry_plain e tid t w of
                       Inl err \<Rightarrow> (Inl err, w)
                     | Inr w1 \<Rightarrow>
                         (let (raised, w2) = kick_off_exec e tid False w1
                          in (if raised then Inl TypeError
                              else Inr \<lparr>xo_id = tid, xo_status = XRunning, xo_approve_required = False,
                                        xo_approval_id = None\<rparr>, w2)))))"

end
