(* ===== verification/Approval_Service.thy ===== *)
theory Approval_Service
  imports Exec_Service
begin

text \<open>
  \<open>approval_service.py\<close>: deciding an approval (approve, reject, cancel) and the effect of the
  decision on the linked task or terminal session; and the rule table.
\<close>

definition known_biz_types :: "string list" where
  "known_biz_types = [''exec'', ''terminal'', ''workflow'']"

text \<open>\<open>_require_pending\<close> followed by \<open>_assert_biz_type\<close>.\<close>

definition require_pending :: "int \<Rightarrow> 'z exec_db_scheme \<Rightarrow> approval res" where
  "require_pending aid w =
     (case tget (approvals w) aid of
        None \<Rightarrow> Inl (NotFoundError ''approval not found'')
      | Some a \<Rightarrow>
          if ap_status a \<noteq> APending then Inl (ConflictError ''approval already decided'')
          else if ap_biz_type a \<notin> set known_biz_types
          then Inl (NotFoundError (''unknown approval biz_type '' @ ap_biz_type a))
          else Inr a)"

definition add_record :: "int \<Rightarrow> string \<Rightarrow> int \<Rightarrow> string \<Rightarrow> 'z exec_db_scheme \<Rightarrow> 'z exec_db_scheme" where
  "add_record aid act op comment w = w\<lparr>approval_records := tadd
     \<lparr>ar_approval_id = aid, ar_action = act, ar_operator_id = op, ar_comment = comment\<rparr> (approval_records w)\<rparr>"

definition approval_lost :: app_error where
  "approval_lost = ConflictError ''approval modified concurrently, refresh and retry''"

definition approve ::
  "env \<Rightarrow> current_user \<Rightarrow> int \<Rightarrow> string \<Rightarrow> 'z exec_db_scheme \<Rightarrow> (approval_status \<times> 'z exec_db_scheme) res" where
  "approve e u aid comment w =
     (if \<not> has_perm u ''approval:approve'' then Inl (perm_denied ''approval:approve'')
      else case require_pending aid w of
             Inl err \<Rightarrow> Inl err
           | Inr a \<Rightarrow>
               (case approval_optimistic_update aid APending AApproved (ap_version a) w of
                  (False, _) \<Rightarrow> Inl approval_lost
                | (True, w1) \<Rightarrow>
                    (let w2 = upd_approval aid (\<lambda>r. r\<lparr>ap_approver_id := Some (uid u), ap_decided_at := Some (now e)\<rparr>) w1;
                         w3 = add_record aid ''approve'' (uid u) comment w2
                     in case approve_linkages e a w3 of
                          Inl err \<Rightarrow> Inl err
                        | Inr w4 \<Rightarrow> Inr (AApproved, w4))))"

definition reject ::
  "env \<Rightarrow> current_user \<Rightarrow> int \<Rightarrow> string \<Rightarrow> 'z exec_db_scheme \<Rightarrow> (approval_status \<times> 'z exec_db_scheme) res" where
  "reject e u aid comment w =
     (if \<not> has_perm u ''approval:approve'' then Inl (perm_denied ''approval:approve'')
      else case require_pending aid w of
             Inl err \<Rightarrow> Inl err
           | Inr a \<Rightarrow>
               (case approval_optimistic_update aid APending ARejected (ap_version a) w of
                  (False, _) \<Rightarrow> Inl approval_lost
                | (True, w1) \<Rightarrow>
                    (let w2 = upd_approval aid (\<lambda>r. r\<lparr>ap_approver_id := Some (uid u), ap_decided_at := Some (now e)\<rparr>) w1;
                         w3 = add_record aid ''reject'' (uid u) comment w2
                     in Inr (ARejected, if ap_biz_type a = ''exec'' then cancel_awaiting_task e a w3 else w3))))"

definition cancel ::
  "env \<Rightarrow> current_user \<Rightarrow> int \<Rightarrow> 'z exec_db_scheme \<Rightarrow> (approval_status \<times> 'z exec_db_scheme) res" where
  "cancel e u aid w =
     (case require_pending aid w of
        Inl err \<Rightarrow> Inl err
      | Inr a \<Rightarrow>
          if ap_requester_id a \<noteq> uid u \<and> \<not> is_admin u then Inl (ForbiddenError ''only requester can cancel'')
          else (case approval_optimistic_update aid APending ACanceled (ap_version a) w of
                  (False, _) \<Rightarrow> Inl approval_lost
                | (True, w1) \<Rightarrow>
                    (let w2 = upd_approval aid (\<lambda>r. r\<lparr>ap_decided_at := Some (now e)\<rparr>) w1;
                         w3 = add_record aid ''cancel'' (uid u) ''requester cancel'' w2
                     in Inr (ACanceled, cancel_linkages e a w3))))"

end
