(* ===== verification/Exec_Invariants.thy ===== *)
theory Exec_Invariants
  imports Approval_Service
begin

text \<open>
  The approval gate as an invariant of the execution domain. \<open>exec_step\<close> is one call of any
  handler, worker or agent frame that writes the domain; \<open>gate_ok\<close> says that a task that waits
  for approval is linked to its own approval row, and that a task marked as needing approval has
  started only if that approval was granted or its content no longer is sensitive; and the same for
  the terminal sessions that approvals open.
\<close>

section \<open>The invariant\<close>

definition started :: "exec_status \<Rightarrow> bool" where
  "started s = (s \<in> {XRunning, XSuccess, XPartial, XFailed, XTimedOut, XPending})"

definition linked :: "'z exec_db_scheme \<Rightarrow> int \<Rightarrow> exec_task \<Rightarrow> bool" where
  "linked w tid t = (\<exists>aid a. xt_approval_id t = Some aid \<and> tget (approvals w) aid = Some a \<and>
     ap_biz_id a = tid \<and> ap_biz_type a = ''exec'')"

definition granted :: "'z exec_db_scheme \<Rightarrow> exec_task \<Rightarrow> bool" where
  "granted w t = (\<exists>aid a. xt_approval_id t = Some aid \<and> tget (approvals w) aid = Some a \<and> ap_status a = AApproved)"

definition harmless :: "'z exec_db_scheme \<Rightarrow> exec_task \<Rightarrow> bool" where
  "harmless w t = (\<exists>rs. recheck_sensitive w t = Some (False, rs))"

definition task_good :: "'z exec_db_scheme \<Rightarrow> int \<Rightarrow> exec_task \<Rightarrow> bool" where
  "task_good w tid t =
     ((xt_status t = XAwaitingApproval \<longrightarrow> linked w tid t) \<and>
      (started (xt_status t) \<longrightarrow> xt_approve_required t \<noteq> 0 \<longrightarrow> granted w t \<or> harmless w t))"

text \<open>The same for terminal sessions: one that waits, and one on a sensitive host, belongs to its own
  approval row; on a sensitive host it is open only if that row is approved.\<close>

definition session_linked :: "'z exec_db_scheme \<Rightarrow> int \<Rightarrow> terminal_session \<Rightarrow> bool" where
  "session_linked w sid s = (\<exists>aid a. ts_approval_id s = Some aid \<and> tget (approvals w) aid = Some a \<and>
     ap_biz_id a = sid \<and> ap_biz_type a = ''terminal'')"

definition session_granted :: "'z exec_db_scheme \<Rightarrow> terminal_session \<Rightarrow> bool" where
  "session_granted w s = (\<exists>aid a. ts_approval_id s = Some aid \<and> tget (approvals w) aid = Some a \<and> ap_status a = AApproved)"

definition session_good :: "'z exec_db_scheme \<Rightarrow> int \<Rightarrow> terminal_session \<Rightarrow> bool" where
  "session_good w sid s =
     ((ts_status s = TAwaitingApproval \<or> ts_sensitive s \<noteq> 0 \<longrightarrow> session_linked w sid s) \<and>
      (ts_status s = TOpen \<longrightarrow> ts_sensitive s \<noteq> 0 \<longrightarrow> session_granted w s))"

definition sessions_ok :: "'z exec_db_scheme \<Rightarrow> bool" where
  "sessions_ok w = (\<forall>sid s. tget (terminals w) sid = Some s \<longrightarrow> session_good w sid s)"

definition gate_ok :: "int set \<Rightarrow> 'z exec_db_scheme \<Rightarrow> bool" where
  "gate_ok S w = (exec_tables_ok w \<and> sessions_ok w \<and> (\<forall>tid t. tid \<notin> S \<longrightarrow> tget (exec_tasks w) tid = Some t \<longrightarrow> task_good w tid t))"

definition task_static :: "exec_task \<Rightarrow> string \<times> int option \<times> int option \<times> string option \<times> int list \<times> int" where
  "task_static t = (xt_kind t, xt_script_id t, xt_script_version t, xt_command t, xt_target_host_ids t, xt_approve_required t)"

section \<open>Changes beside the task table\<close>

definition appr_kept :: "approval \<Rightarrow> approval \<Rightarrow> bool" where
  "appr_kept a a' = (ap_biz_id a' = ap_biz_id a \<and> ap_biz_type a' = ap_biz_type a \<and>
     (ap_status a = AApproved \<longrightarrow> ap_status a' = AApproved))"

text \<open>A session as it was, or closed.\<close>

definition session_kept :: "terminal_session \<Rightarrow> terminal_session \<Rightarrow> bool" where
  "session_kept s s' = (ts_sensitive s' = ts_sensitive s \<and> ts_approval_id s' = ts_approval_id s \<and>
     (ts_status s' = ts_status s \<or> ts_status s' = TClosed))"

definition side :: "'z exec_db_scheme \<Rightarrow> 'z exec_db_scheme \<Rightarrow> bool" where
  "side w w' = (exec_tasks w' = exec_tasks w \<and> config_rules w' = config_rules w \<and> scripts w' = scripts w \<and>
     script_versions w' = script_versions w \<and> hosts w' = hosts w \<and> exec_db.more w' = exec_db.more w \<and>
     (\<forall>i. rel_option appr_kept (tget (approvals w) i) (tget (approvals w') i)) \<and>
     (table_ok (approvals w) \<longrightarrow> table_ok (approvals w')) \<and>
     (table_ok (exec_task_hosts w) \<longrightarrow> table_ok (exec_task_hosts w')) \<and>
     (\<forall>i. rel_option session_kept (tget (terminals w) i) (tget (terminals w') i)) \<and>
     (table_ok (terminals w) \<longrightarrow> table_ok (terminals w')))"

lemma appr_kept_refl [simp]: "appr_kept a a"
  by (simp add: appr_kept_def)

lemma rel_option_kept_refl [simp]: "rel_option appr_kept x x"
  by (cases x) auto

lemma session_kept_refl [simp]: "session_kept s s"
  by (simp add: session_kept_def)

lemma rel_option_session_refl [simp]: "rel_option session_kept x x"
  by (cases x) auto

lemma side_refl [simp]: "side w w"
  by (simp add: side_def)

lemma side_trans: "side a b \<Longrightarrow> side b c \<Longrightarrow> side a c"
proof -
  assume ab: "side a b" and bc: "side b c"
  have "rel_option appr_kept (tget (approvals a) i) (tget (approvals c) i)" for i
  proof -
    have 1: "rel_option appr_kept (tget (approvals a) i) (tget (approvals b) i)"
      and 2: "rel_option appr_kept (tget (approvals b) i) (tget (approvals c) i)"
      using ab bc by (auto simp: side_def)
    show ?thesis
      using 1 2 by (cases "tget (approvals a) i"; cases "tget (approvals b) i"; cases "tget (approvals c) i")
        (auto simp: appr_kept_def)
  qed
  moreover have "rel_option session_kept (tget (terminals a) i) (tget (terminals c) i)" for i
  proof -
    have 1: "rel_option session_kept (tget (terminals a) i) (tget (terminals b) i)"
      and 2: "rel_option session_kept (tget (terminals b) i) (tget (terminals c) i)"
      using ab bc by (auto simp: side_def)
    show ?thesis
      using 1 2 by (cases "tget (terminals a) i"; cases "tget (terminals b) i"; cases "tget (terminals c) i")
        (auto simp: session_kept_def)
  qed
  ultimately show ?thesis using ab bc by (simp add: side_def)
qed

lemma side_upd_th [simp]: "side w (upd_th i f w)"
  by (simp add: side_def upd_th_def)

lemma side_emit [simp]: "side w (emit x w)"
  by (simp add: side_def emit_def)

lemma side_log [simp]: "side w (append_log i n l c w)"
  by (simp add: side_def append_log_def)

lemma side_terminal:
  assumes "\<And>s. tget (terminals w) i = Some s \<Longrightarrow> session_kept s (f s)"
  shows "side w (upd_terminal i f w)"
proof -
  have "rel_option session_kept (tget (terminals w) j) (tget (tupd i f (terminals w)) j)" for j
    using assms by (cases "tget (terminals w) j") auto
  then show ?thesis by (simp add: side_def upd_terminal_def)
qed

lemma side_record [simp]: "side w (add_record aid act op c w)"
  by (simp add: side_def add_record_def)

lemma side_acquire: "acquire_semaphore e k n w = (b, w') \<Longrightarrow> side w w'"
  by (auto simp: acquire_semaphore_def side_def split: if_splits)

lemma side_release [simp]: "side w (release_semaphore e k w)"
  by (simp add: release_semaphore_def side_def)

lemma side_upd_approval: "(\<And>a. appr_kept a (f a)) \<Longrightarrow> side w (upd_approval i f w)"
  by (auto simp: side_def upd_approval_def option.rel_map option.rel_refl)

lemma side_approval_cas:
  "approval_optimistic_update i APending s v w = (b, w') \<Longrightarrow> side w w'"
  by (auto simp: approval_optimistic_update_def cas_row_def cas_matches_def side_def Let_def option.rel_map
        appr_kept_def put_approval_def split: if_splits option.splits prod.splits)

lemma approval_cas_True:
  assumes "approval_optimistic_update i a b v w = (True, w')"
  shows "w' = upd_approval i (put_approval b (v + 1)) w \<and> (\<exists>r. tget (approvals w) i = Some r \<and> ap_status r = a \<and> ap_version r = v)"
  using assms
  by (auto simp: approval_optimistic_update_def cas_row_def cas_matches_def upd_approval_def Let_def
        split: if_splits option.splits prod.splits)

lemma task_cas_True:
  assumes "exec_optimistic_update i a b v w = (True, w')"
  shows "w' = upd_task i (put_task b (v + 1)) w \<and> (\<exists>r. tget (exec_tasks w) i = Some r \<and> xt_status r = a \<and> xt_version r = v)"
  using assms
  by (auto simp: exec_optimistic_update_def cas_row_def cas_matches_def upd_task_def Let_def
        split: if_splits option.splits prod.splits)

lemma task_cas_iff:
  "fst (exec_optimistic_update i a b v w) \<longleftrightarrow> (\<exists>r. tget (exec_tasks w) i = Some r \<and> xt_status r = a \<and> xt_version r = v)"
  by (auto simp: exec_optimistic_update_def cas_row_def cas_matches_def Let_def split: option.splits prod.splits if_splits)

lemma side_fold: "(\<And>x w. side w (f x w)) \<Longrightarrow> side w (fold f xs w)"
  by (induction xs arbitrary: w) (auto intro: side_trans)

section \<open>Preservation, piece by piece\<close>

lemma biz_unique_side:
  assumes "side w w'" and "biz_unique w"
  shows "biz_unique w'"
proof -
  have kept: "\<exists>a. tget (approvals w) i = Some a \<and> ap_biz_id a = ap_biz_id a'" if "tget (approvals w') i = Some a'" for i a'
  proof -
    have "rel_option appr_kept (tget (approvals w) i) (tget (approvals w') i)"
      using assms(1) by (simp add: side_def)
    with that show ?thesis by (cases "tget (approvals w) i") (auto simp: appr_kept_def)
  qed
  show ?thesis
    unfolding biz_unique_def by (metis assms(2) kept biz_unique_def)
qed

lemma recheck_cong:
  assumes "task_static t' = task_static t" and "config_rules w' = config_rules w" and "scripts w' = scripts w"
    and "script_versions w' = script_versions w"
  shows "recheck_sensitive w' t' = recheck_sensitive w t"
proof -
  have "recheck_content w' t' = recheck_content w t"
    using assms by (simp add: recheck_content_def task_static_def by_script_version_def Let_def cong: if_cong option.case_cong)
  then show ?thesis
    using assms(1) detect_config_only [OF assms(2)] by (simp add: recheck_sensitive_def task_static_def)
qed

lemma side_approval:
  "side w w' \<Longrightarrow> tget (approvals w) i = Some a \<Longrightarrow> \<exists>a'. tget (approvals w') i = Some a' \<and> appr_kept a a'"
  by (metis option.rel_cases option.sel option.simps(3) side_def)

lemma task_good_side:
  assumes "side w w'" and "task_good w tid t"
  shows "task_good w' tid t"
proof -
  have "recheck_sensitive w' t = recheck_sensitive w t"
    using assms(1) by (intro recheck_cong) (auto simp: side_def)
  moreover have "linked w tid t \<Longrightarrow> linked w' tid t"
    using side_approval [OF assms(1)] by (fastforce simp: linked_def appr_kept_def)
  moreover have "granted w t \<Longrightarrow> granted w' t"
    using side_approval [OF assms(1)] by (fastforce simp: granted_def appr_kept_def)
  ultimately show ?thesis using assms(2) by (auto simp: task_good_def harmless_def)
qed

lemma sessions_ok_side:
  assumes "side w w'" and "sessions_ok w"
  shows "sessions_ok w'"
  unfolding sessions_ok_def
proof (intro allI impI)
  fix sid s' assume s': "tget (terminals w') sid = Some s'"
  have "rel_option session_kept (tget (terminals w) sid) (tget (terminals w') sid)"
    using assms(1) by (simp add: side_def)
  with s' obtain s where s: "tget (terminals w) sid = Some s" and k: "session_kept s s'"
    by (cases "tget (terminals w) sid") auto
  have "session_good w sid s" using assms(2) s by (simp add: sessions_ok_def)
  moreover have "session_linked w sid s \<Longrightarrow> session_linked w' sid s'" "session_granted w s \<Longrightarrow> session_granted w' s'"
    using side_approval [OF assms(1)] k
    by (fastforce simp: session_linked_def session_granted_def appr_kept_def session_kept_def)+
  ultimately show "session_good w' sid s'" using k by (auto simp: session_good_def session_kept_def)
qed

lemma gate_side:
  assumes "side w w'" and "gate_ok S w"
  shows "gate_ok S w'"
proof -
  have "exec_tables_ok w'"
    using assms biz_unique_side [OF assms(1)] by (auto simp: gate_ok_def exec_tables_ok_def side_def)
  moreover have "exec_tasks w' = exec_tasks w" using assms(1) by (simp add: side_def)
  ultimately show ?thesis
    using assms(2) task_good_side [OF assms(1)] sessions_ok_side [OF assms(1)] by (auto simp: gate_ok_def)
qed

lemma upd_task_others [simp]:
  "approvals (upd_task i f w) = approvals w" "scripts (upd_task i f w) = scripts w"
  "script_versions (upd_task i f w) = script_versions w" "config_rules (upd_task i f w) = config_rules w"
  "exec_task_hosts (upd_task i f w) = exec_task_hosts w" "terminals (upd_task i f w) = terminals w"
  by (simp_all add: upd_task_def)

lemma task_good_upd_task [simp]: "task_good (upd_task i f w) tid t = task_good w tid t"
proof -
  have "recheck_sensitive (upd_task i f w) t = recheck_sensitive w t"
    by (rule recheck_cong) simp_all
  then show ?thesis by (simp add: task_good_def linked_def granted_def harmless_def)
qed

lemma tables_ok_upd_task: "exec_tables_ok w \<Longrightarrow> exec_tables_ok (upd_task i f w)"
  by (simp add: exec_tables_ok_def biz_unique_def upd_task_def)

lemma sessions_ok_cong:
  "terminals w' = terminals w \<Longrightarrow> approvals w' = approvals w \<Longrightarrow> sessions_ok w' = sessions_ok w"
  by (simp add: sessions_ok_def session_good_def session_linked_def session_granted_def)

lemma sessions_ok_upd_task [simp]: "sessions_ok (upd_task i f w) = sessions_ok w"
  by (rule sessions_ok_cong) simp_all

lemma gate_upd_task:
  assumes "gate_ok S w" and "\<And>t. tget (exec_tasks w) i = Some t \<Longrightarrow> i \<notin> S' \<Longrightarrow> task_good w i (f t)" and "S \<subseteq> insert i S'"
  shows "gate_ok S' (upd_task i f w)"
proof -
  have "exec_tables_ok (upd_task i f w)"
    using assms(1) by (simp add: gate_ok_def tables_ok_upd_task)
  moreover have "task_good w tid t" if "tid \<notin> S'" and g: "tget (exec_tasks (upd_task i f w)) tid = Some t" for tid t
  proof (cases "tid = i")
    case True
    with g obtain r where "tget (exec_tasks w) i = Some r" "t = f r"
      by (auto simp: upd_task_def)
    with assms(2) that True show ?thesis by simp
  next
    case False
    with g have "tget (exec_tasks w) tid = Some t" by (simp add: upd_task_def)
    with assms(1,3) that False show ?thesis by (auto simp: gate_ok_def)
  qed
  ultimately show ?thesis using assms(1) by (simp add: gate_ok_def)
qed

lemma gate_okD: "gate_ok S w \<Longrightarrow> tget (exec_tasks w) tid = Some t \<Longrightarrow> tid \<notin> S \<Longrightarrow> task_good w tid t"
  by (simp add: gate_ok_def)

text \<open>A task that had started may end; any task may be cancelled; fields the invariant does not
  read may change.\<close>

lemma task_good_evolve:
  assumes "task_good w tid t" and "task_static t' = task_static t" and "xt_approval_id t' = xt_approval_id t"
    and "xt_status t' = xt_status t \<or> xt_status t' = XCanceled \<or> started (xt_status t) \<and> started (xt_status t')"
  shows "task_good w tid t'"
proof -
  have "recheck_sensitive w t' = recheck_sensitive w t"
    using assms(2) by (rule recheck_cong) simp_all
  moreover have "\<not> started XCanceled" "\<not> started XAwaitingApproval" by (simp_all add: started_def)
  ultimately show ?thesis
    using assms by (auto simp: task_good_def linked_def granted_def harmless_def task_static_def)
qed

lemma gate_evolve:
  assumes "gate_ok S w"
    and "\<And>t. tget (exec_tasks w) i = Some t \<Longrightarrow> task_static (f t) = task_static t \<and> xt_approval_id (f t) = xt_approval_id t \<and>
      (xt_status (f t) = xt_status t \<or> xt_status (f t) = XCanceled \<or> started (xt_status t) \<and> started (xt_status (f t)))"
  shows "gate_ok S (upd_task i f w)"
  by (rule gate_upd_task [OF assms(1)]) (use assms gate_okD task_good_evolve in blast)+

lemma gate_task_cas:
  assumes "gate_ok S w" and "exec_optimistic_update i a b v w = (True, w')" and "b = XCanceled \<or> started a \<and> started b"
  shows "gate_ok S w'"
proof -
  from task_cas_True [OF assms(2)] obtain r where w': "w' = upd_task i (put_task b (v + 1)) w"
    and r: "tget (exec_tasks w) i = Some r" "xt_status r = a" by auto
  show ?thesis
    unfolding w' using assms(3) r by (intro gate_evolve [OF assms(1)]) (auto simp: put_task_def task_static_def)
qed

lemma gate_stamp:
  assumes "gate_ok S w"
    and "\<And>t. task_static (f t) = task_static t \<and> xt_approval_id (f t) = xt_approval_id t \<and> xt_status (f t) = xt_status t"
  shows "gate_ok S (upd_task i f w)"
  using assms by (intro gate_evolve) auto

lemma side_close_orphan: "side w (close_orphan_approval t w)"
  by (auto simp: close_orphan_approval_def Let_def split: option.splits)
     (metis prod.collapse side_approval_cas)

section \<open>Dispatching keeps the gate\<close>

lemma side_write_log [simp]: "side w (write_log i l c w)"
  by (simp add: write_log_def)

lemma side_finish_running [simp]: "side w (finish_running e i s c w)"
  by (simp add: finish_running_def)

lemma side_run_exec: "run_exec e t i th c n out w = Some (r, w') \<Longrightarrow> side w w'"
  by (auto simp: run_exec_def Let_def split: option.splits sum.splits prod.splits)

lemma side_ssh: "run_ssh_executor e t i th c n w = Some w' \<Longrightarrow> side w w'"
  by (auto simp: run_ssh_executor_def Let_def split: option.splits dest!: side_run_exec intro: side_trans [OF _ side_finish_running])

lemma side_mock [simp]: "side w (execute_via_mock e t i th c w)"
  unfolding execute_via_mock_def Let_def
  by (rule side_trans [OF _ side_finish_running], (rule side_trans [OF _ side_log])+) simp

lemma side_frame: "dispatch_exec_frame e i th c w = (b, w') \<Longrightarrow> side w w'"
  by (auto simp: dispatch_exec_frame_def split: if_splits option.splits)

lemma side_run_host: "run_host e t c n i w = (b, w') \<Longrightarrow> side w w'"
  by (auto simp: run_host_def Let_def split: option.splits if_splits prod.splits
      intro!: side_trans [OF _ side_release] dest: side_ssh side_frame intro: side_trans [OF _ side_mock])

lemma side_run_hosts: "run_hosts e t c n is w = (b, w') \<Longrightarrow> side w w'"
proof (induction "is" arbitrary: w)
  case Nil
  then show ?case by simp
next
  case (Cons i "is")
  then show ?case
    by (auto split: prod.splits if_splits dest: side_run_host intro: side_trans)
qed

lemma side_start_hosts: "start_hosts e gl hl ths w = (ss, w') \<Longrightarrow> side w w'"
proof (induction e gl hl ths w arbitrary: ss w' rule: start_hosts.induct)
  case (1 e gl hl w)
  then show ?case by simp
next
  case (2 e gl hl i th ths w)
  show ?case
  proof (cases "th_status th = HPending")
    case False
    with 2 show ?thesis by simp
  next
    case pending: True
    obtain g w1 where a: "acquire_semaphore e SemGlobal gl w = (g, w1)" by fastforce
    obtain h w2 where b: "acquire_semaphore e (SemHost (th_host_id th)) hl w1 = (h, w2)" by fastforce
    have ww2: "side w w1" "side w w2"
      using side_acquire [OF a] side_acquire [OF b] side_trans by blast+
    define w3 where "w3 = upd_th i (\<lambda>r. r\<lparr>th_status := HRunning, th_started_at := Some (now e)\<rparr>) w2"
    have w3: "side w w3" unfolding w3_def by (rule side_trans [OF ww2(2)]) simp
    obtain ss' w4 where c: "start_hosts e gl hl ths w3 = (ss', w4)" by fastforce
    have "side w3 w4" if g h
      using 2(2) [OF _ a [symmetric] refl] that pending b c w3_def by simp
    with 2(3) pending a b c ww2 w3 show ?thesis
      by (auto simp: w3_def [symmetric] Let_def split: if_splits intro: side_trans [OF _ side_release] side_trans)
  qed
qed

lemma started_aggregate: "started (aggregate_status a b c d)"
  by (simp add: aggregate_status_def started_def)

lemma started_XRunning [simp]: "started XRunning" "started XTimedOut" "started XPending"
  by (simp_all add: started_def)

lemma gate_finish_stamp:
  "gate_ok S w \<Longrightarrow> gate_ok S (upd_task i (\<lambda>r. r\<lparr>xt_finished_at := x\<rparr>) w)"
  by (rule gate_stamp) (simp_all add: task_static_def)

lemma gate_finish_dispatch: "gate_ok S w \<Longrightarrow> gate_ok S (snd (finish_dispatch e tid w))"
  by (auto simp: finish_dispatch_def new_task_status_def split: option.splits prod.splits bool.splits
      intro!: gate_finish_stamp intro: gate_side [OF side_emit] gate_task_cas started_aggregate)

lemma gate_exec_dispatch:
  assumes "gate_ok S w"
  shows "gate_ok S (snd (exec_dispatch e tid w))"
proof -
  have "gate_ok S w1" if "start_hosts e gl hl ths w = (ss, w1)" for gl hl ths ss w1
    using gate_side [OF side_start_hosts [OF that] assms] .
  moreover have "gate_ok S w2" if "gate_ok S w1" and "run_hosts e t c n is w1 = (b, w2)" for t c n "is" b w1 w2
    using gate_side [OF side_run_hosts [OF that(2)] that(1)] .
  ultimately show ?thesis
    using assms gate_finish_dispatch
    by (simp add: exec_dispatch_def Let_def split: option.splits prod.splits) blast
qed

lemma gate_kick_off: "gate_ok S w \<Longrightarrow> gate_ok S (snd (kick_off_exec e tid b w))"
  using gate_exec_dispatch [of S w e tid]
  by (auto simp: kick_off_exec_def Let_def split: prod.splits intro: gate_side [OF side_emit])

lemma side_time_out_hosts: "side w (time_out_hosts e tid w)"
  unfolding time_out_hosts_def by (rule side_fold) (auto split: prod.splits)

lemma gate_scan_one:
  assumes "gate_ok S (snd st)" and "xt_status (snd it) = XRunning"
  shows "gate_ok S (snd (scan_one e it st))"
proof -
  have "gate_ok S w1" if "exec_optimistic_update tid XRunning XTimedOut v (snd st) = (True, w1)" for tid v w1
    using gate_task_cas [OF assms(1) that] by simp
  with assms show ?thesis
    by (auto simp: scan_one_def Let_def split: prod.splits bool.splits
        intro!: gate_side [OF side_time_out_hosts] gate_finish_stamp)
qed

lemma gate_scan: "gate_ok S w \<Longrightarrow> gate_ok S (snd (scan_timeouts e w))"
proof -
  assume "gate_ok S w"
  have "gate_ok S (snd (fold (scan_one e) its st))"
    if "gate_ok S (snd st)" and "\<forall>it \<in> set its. xt_status (snd it) = XRunning" for its st
    using that by (induction its arbitrary: st) (simp_all add: gate_scan_one)
  from this [of "(0, w)"] \<open>gate_ok S w\<close> show ?thesis by (fastforce simp: scan_timeouts_def tselect_def)
qed

lemma gate_maybe_finalize: "gate_ok S w \<Longrightarrow> gate_ok S (maybe_finalize_task e tid w)"
  by (auto simp: maybe_finalize_task_def new_task_status_def Let_def split: option.splits prod.splits bool.splits
      intro!: gate_finish_stamp intro: gate_task_cas started_aggregate)

lemma gate_persist_result: "gate_ok S w \<Longrightarrow> gate_ok S (persist_result e i s c w)"
  by (auto simp: persist_result_def split: option.splits intro!: gate_maybe_finalize intro: gate_side [OF side_upd_th])

lemma side_persist_logs: "side w (persist_logs items w)"
  unfolding persist_logs_def by (rule side_fold) (auto split: prod.splits)

section \<open>Cancelling keeps the gate\<close>

lemma side_cancel_one_host: "side w (cancel_one_host e it w)"
proof -
  have "side v (send_agent_stop e i th v)" for i th and v :: "'a exec_db_scheme"
    by (auto simp: send_agent_stop_def split: option.splits)
  then show ?thesis
    by (auto simp: cancel_one_host_def Let_def split: prod.splits intro: side_trans [OF side_upd_th])
qed

lemma gate_cancel_core:
  assumes "gate_ok S w" and "cancel_exec_task_record e tid t w = (b, w')"
  shows "gate_ok S w'"
proof -
  have "gate_ok S w1" if "exec_optimistic_update tid (xt_status t) XCanceled (xt_version t) w = (True, w1)" for w1
    using gate_task_cas [OF assms(1) that] by simp
  with assms show ?thesis
    by (auto simp: cancel_exec_task_record_def Let_def split: if_splits prod.splits bool.splits
        intro!: gate_side [OF side_fold [OF side_cancel_one_host]] gate_side [OF side_close_orphan] gate_finish_stamp)
qed

lemma gate_cancel_awaiting: "gate_ok S w \<Longrightarrow> gate_ok S (cancel_awaiting_task e a w)"
  by (auto simp: cancel_awaiting_task_def split: option.splits prod.splits bool.splits
      intro!: gate_finish_stamp intro: gate_task_cas)

lemma side_close_on_cancel: "side w (close_on_cancel e a w)"
  by (auto simp: close_on_cancel_def session_kept_def split: option.splits intro!: side_terminal)

lemma gate_cancel_linkages: "gate_ok S w \<Longrightarrow> gate_ok S (cancel_linkages e a w)"
  by (auto simp: cancel_linkages_def intro: gate_cancel_awaiting gate_side [OF side_close_on_cancel])

section \<open>Deciding an approval keeps the gate\<close>

lemma side_decided: "side w (upd_approval i (\<lambda>r. r\<lparr>ap_approver_id := x, ap_decided_at := y\<rparr>) w)"
  "side w (upd_approval i (\<lambda>r. r\<lparr>ap_decided_at := y\<rparr>) w)"
  by (rule side_upd_approval, simp add: appr_kept_def)+

lemma gate_reject: "gate_ok S w \<Longrightarrow> reject e u aid c w = Inr (s, w') \<Longrightarrow> gate_ok S w'"
  by (auto simp: reject_def Let_def split: if_splits sum.splits prod.splits bool.splits
      intro!: gate_cancel_awaiting gate_side [OF side_record] gate_side [OF side_decided(1)]
      intro: gate_side [OF side_approval_cas])

lemma gate_cancel: "gate_ok S w \<Longrightarrow> cancel e u aid w = Inr (s, w') \<Longrightarrow> gate_ok S w'"
  by (auto simp: cancel_def Let_def split: if_splits sum.splits prod.splits bool.splits
      intro!: gate_cancel_linkages gate_side [OF side_record] gate_side [OF side_decided(2)]
      intro: gate_side [OF side_approval_cas])

text \<open>A task that waits is linked to the one approval of its \<open>biz_id\<close>; once that is granted the
  task may start.\<close>

lemma gate_approve_exec:
  assumes "gate_ok {} w" and "tget (approvals w) aid = Some a'" and "ap_status a' = AApproved"
    and "ap_biz_id a' = ap_biz_id a" and "approve_exec e a w = Inr w'"
  shows "gate_ok {} w'"
proof -
  from assms(5) obtain t w1 where t: "tget (exec_tasks w) (ap_biz_id a) = Some t"
    and cas: "exec_optimistic_update (ap_biz_id a) XAwaitingApproval XRunning (xt_version t) w = (True, w1)"
    and w': "w' = (let w2 = upd_task (ap_biz_id a) (\<lambda>r. r\<lparr>xt_started_at := Some (now e)\<rparr>) w1
                in if broker_up e then emit (Enqueue (ap_biz_id a)) w2 else w2)"
    by (auto simp: approve_exec_def Let_def split: option.splits prod.splits bool.splits)
  from task_cas_True [OF cas] t have st: "xt_status t = XAwaitingApproval"
    and w1: "w1 = upd_task (ap_biz_id a) (put_task XRunning (xt_version t + 1)) w" by auto
  have "linked w (ap_biz_id a) t"
    using gate_okD [OF assms(1) t] st by (simp add: task_good_def)
  then obtain i b where b: "xt_approval_id t = Some i" "tget (approvals w) i = Some b" "ap_biz_id b = ap_biz_id a"
    by (auto simp: linked_def)
  have "i = aid"
    using assms(1,2,4) b by (auto simp: gate_ok_def exec_tables_ok_def biz_unique_def)
  with b assms(2,3) have "granted w (put_task XRunning v t)" for v
    by (simp add: granted_def put_task_def)
  then have "gate_ok {} w1"
    unfolding w1 using t by (intro gate_upd_task [OF assms(1)]) (auto simp: task_good_def put_task_def)
  then have "gate_ok {} (upd_task (ap_biz_id a) (\<lambda>r. r\<lparr>xt_started_at := Some (now e)\<rparr>) w1)"
    by (rule gate_stamp) (simp add: task_static_def)
  then show ?thesis
    unfolding w' by (auto simp: Let_def intro: gate_side [OF side_emit])
qed

text \<open>A session that waits is linked to the one approval of its \<open>biz_id\<close>; granting that may open it.\<close>

lemma gate_activate:
  assumes "gate_ok {} w" and "tget (approvals w) aid = Some a'" and "ap_status a' = AApproved"
    and "ap_biz_id a' = ap_biz_id a"
  shows "gate_ok {} (activate_on_approval e a w)"
proof -
  let ?f = "\<lambda>r. r\<lparr>ts_status := TOpen, ts_started_at := Some (now e)\<rparr>"
  let ?w = "upd_terminal (ap_biz_id a) ?f w"
  have "gate_ok {} ?w" if s: "tget (terminals w) (ap_biz_id a) = Some s" "ts_status s = TAwaitingApproval" for s
  proof -
    have so: "sessions_ok w" and tok: "exec_tables_ok w" using assms(1) by (auto simp: gate_ok_def)
    from so s have "session_linked w (ap_biz_id a) s" by (simp add: sessions_ok_def session_good_def)
    then obtain i b where b: "ts_approval_id s = Some i" "tget (approvals w) i = Some b" "ap_biz_id b = ap_biz_id a" "ap_biz_type b = ''terminal''"
      by (auto simp: session_linked_def)
    have "i = aid" using tok assms(2,4) b by (auto simp: exec_tables_ok_def biz_unique_def)
    with b assms(2,3) have "session_good w (ap_biz_id a) (?f s)"
      by (simp add: session_good_def session_linked_def session_granted_def)
    then have "session_good w sid r" if "tget (terminals ?w) sid = Some r" for sid r
      using that s so by (auto simp: upd_terminal_def sessions_ok_def split: if_splits)
    then have "sessions_ok ?w"
      by (simp add: sessions_ok_def session_good_def session_linked_def session_granted_def upd_terminal_def)
    moreover have "recheck_sensitive ?w t = recheck_sensitive w t" for t
      by (rule recheck_cong) (simp_all add: upd_terminal_def)
    ultimately show ?thesis
      using assms(1) tok
      by (simp add: gate_ok_def exec_tables_ok_def biz_unique_def task_good_def linked_def granted_def harmless_def upd_terminal_def)
  qed
  with assms(1) show ?thesis by (auto simp: activate_on_approval_def split: option.splits)
qed

lemma gate_approve_linkages:
  assumes "gate_ok {} w" and "tget (approvals w) aid = Some a'" and "ap_status a' = AApproved"
    and "ap_biz_id a' = ap_biz_id a" and "approve_linkages e a w = Inr w'"
  shows "gate_ok {} w'"
  using assms gate_approve_exec [OF assms(1-4)] gate_activate [OF assms(1-4)]
  by (auto simp: approve_linkages_def split: if_splits)

lemma gate_approve:
  assumes "gate_ok {} w" and "approve e u aid c w = Inr (s, w')"
  shows "gate_ok {} w'"
proof -
  from assms(2) obtain a w1 w2 w3 where a: "tget (approvals w) aid = Some a"
    and cas: "approval_optimistic_update aid APending AApproved (ap_version a) w = (True, w1)"
    and w2: "w2 = upd_approval aid (\<lambda>r. r\<lparr>ap_approver_id := Some (uid u), ap_decided_at := Some (now e)\<rparr>) w1"
    and w3: "w3 = add_record aid ''approve'' (uid u) c w2" and l: "approve_linkages e a w3 = Inr w'"
    by (auto simp: approve_def require_pending_def Let_def split: if_splits sum.splits prod.splits bool.splits option.splits)
  have "side w w3"
    unfolding w3 w2 by (rule side_trans [OF side_trans [OF side_approval_cas [OF cas] side_decided(1)] side_record])
  then have g: "gate_ok {} w3" using assms(1) by (rule gate_side)
  have "\<exists>a'. tget (approvals w3) aid = Some a' \<and> ap_status a' = AApproved \<and> ap_biz_id a' = ap_biz_id a"
    using approval_cas_True [OF cas] a by (simp add: w3 w2 add_record_def upd_approval_def put_approval_def)
  with g l show ?thesis by (blast intro: gate_approve_linkages)
qed

section \<open>Creating and retrying keep the gate\<close>

lemma gate_mono: "gate_ok S w \<Longrightarrow> S \<subseteq> S' \<Longrightarrow> gate_ok S' w"
  by (auto simp: gate_ok_def)

lemma gate_add_task:
  assumes "gate_ok {} w" and "xt_status t = XCreated"
  shows "gate_ok {} (w\<lparr>exec_tasks := tadd t (exec_tasks w)\<rparr>)"
proof -
  let ?w = "w\<lparr>exec_tasks := tadd t (exec_tasks w)\<rparr>"
  have ok: "exec_tables_ok w" using assms(1) by (simp add: gate_ok_def)
  have "recheck_sensitive ?w r = recheck_sensitive w r" for r
    by (rule recheck_cong) simp_all
  then have good: "task_good ?w i r = task_good w i r" for i r
    by (simp add: task_good_def linked_def granted_def harmless_def)
  have "task_good w i t" for i
    using assms(2) by (simp add: task_good_def started_def)
  then have "task_good ?w i r" if "tget (exec_tasks ?w) i = Some r" for i r
    using that assms(1) ok by (auto simp: good gate_ok_def tget_tadd exec_tables_okD split: if_splits)
  moreover have "sessions_ok ?w = sessions_ok w" by (rule sessions_ok_cong) simp_all
  ultimately show ?thesis using ok assms(1) by (auto simp: gate_ok_def exec_tables_ok_def biz_unique_def)
qed

lemma side_add_task_hosts: "add_task_hosts e fb tid hids w = Inr w' \<Longrightarrow> side w w'"
proof (induction e fb tid hids w rule: add_task_hosts.induct)
  case (1 e fb tid w)
  then show ?case by simp
next
  case (2 e fb tid hid hids w)
  have "side w (w\<lparr>exec_task_hosts := tadd x (exec_task_hosts w)\<rparr>)" for x
    by (simp add: side_def)
  with 2 show ?case by (auto split: option.splits if_splits intro: side_trans)
qed

lemma side_approval_no: "approval_no e w = (no, w') \<Longrightarrow> side w w' \<and> exec_tasks w' = exec_tasks w"
  by (auto simp: approval_no_def Let_def side_def)

lemma side_task_no: "task_no e w = (no, w') \<Longrightarrow> side w w'"
  by (auto simp: task_no_def Let_def side_def)

lemma gate_add_approval:
  assumes "gate_ok S w" and "add_approval a w = Inr (aid, w')"
  shows "gate_ok S w' \<and> tget (approvals w') aid = Some a \<and> exec_tasks w' = exec_tasks w"
proof -
  from assms(2) have aid: "aid = next_id (approvals w)" and w': "w' = w\<lparr>approvals := tadd a (approvals w)\<rparr>"
    and new: "\<not> texists (\<lambda>r. ap_biz_id r = ap_biz_id a) (approvals w)"
    by (auto simp: add_approval_def split: if_splits)
  have ok: "exec_tables_ok w" "table_ok (approvals w)"
    using assms(1) by (auto simp: gate_ok_def exec_tables_ok_def)
  have get: "tget (approvals w') i = (if i = aid then Some a else tget (approvals w) i)" for i
    by (simp add: w' aid tget_tadd [OF ok(2)])
  have keep: "tget (approvals w) i = Some b \<Longrightarrow> tget (approvals w') i = Some b" for i b
    using tbl.add_keeps [OF ok(2)] by (simp add: w')
  have nobiz: "tget (approvals w) i = Some b \<Longrightarrow> ap_biz_id b \<noteq> ap_biz_id a" for i b
    using new texists_iff [OF ok(2)] by auto
  have "biz_unique w'"
    unfolding biz_unique_def get using exec_tables_okD(5) [OF ok(1)] nobiz
    by (auto simp: biz_unique_def) metis+
  then have "exec_tables_ok w'" using ok by (auto simp: exec_tables_ok_def w')
  moreover have "task_good w' i t" if "task_good w i t" for i t
  proof -
    have "recheck_sensitive w' t = recheck_sensitive w t"
      unfolding w' by (rule recheck_cong) simp_all
    then show ?thesis
      using that keep by (auto simp: task_good_def linked_def granted_def harmless_def)
  qed
  moreover have "session_good w' i s" if "session_good w i s" for i s
    using that keep by (auto simp: session_good_def session_linked_def session_granted_def)
  ultimately show ?thesis using assms(1) get by (auto simp: gate_ok_def sessions_ok_def w')
qed

text \<open>A task outside the invariant comes back in when it is made to wait for its own approval.\<close>

lemma gate_await:
  assumes "gate_ok {tid} w" and "tget (approvals w) aid = Some a" and "ap_biz_id a = tid" and "ap_biz_type a = ''exec''"
    and "\<And>t. tget (exec_tasks w) tid = Some t \<Longrightarrow> xt_status (f t) = XAwaitingApproval \<and> xt_approval_id (f t) = Some aid"
  shows "gate_ok {} (upd_task tid f w)"
  using assms(2-5)
  by (intro gate_upd_task [OF assms(1)]) (auto simp: task_good_def linked_def started_def)

lemma gate_auto_approve:
  assumes "gate_ok {} w" and "tget (approvals w) aid = Some a" and "auto_approve e q tid aid w = Inr (out, w')"
  shows "gate_ok {} w'"
proof (cases "resolve_auto_policy w (rq_remediation q)")
  case None
  with assms show ?thesis by (simp add: auto_approve_def)
next
  case (Some pid)
  define w1 where "w1 = upd_approval aid (\<lambda>r. r\<lparr>ap_approval_mode := ''auto_policy'', ap_status := AApproved, ap_policy_ref := Some pid\<rparr>) w"
  have s1: "side w w1" unfolding w1_def by (rule side_upd_approval) (simp add: appr_kept_def)
  have s2: "side w1 (w1\<lparr>ai_actions := x\<rparr>)" for x by (simp add: side_def)
  have g: "gate_ok {} (w1\<lparr>ai_actions := x\<rparr>)" for x
    using gate_side [OF side_trans [OF s1 s2] assms(1)] .
  obtain b where b: "tget (approvals w1) aid = Some b" "ap_status b = AApproved"
    using assms(2) by (simp add: w1_def upd_approval_def)
  from assms(3) Some b obtain x where "approve_linkages e b (w1\<lparr>ai_actions := x\<rparr>) = Inr w'"
    by (auto simp: auto_approve_def Let_def w1_def [symmetric] split: sum.splits)
  then show ?thesis using b by (intro gate_approve_linkages [OF g [of x], where aid = aid and a = b and a' = b]) simp_all
qed

lemma gate_submit:
  assumes "gate_ok {} w" and "submit_for_approval e q tid reason w = Inr (out, w')"
  shows "gate_ok {} w'"
proof -
  obtain no w1 where n: "approval_no e w = (no, w1)" by fastforce
  define a where "a = new_approval no ''exec'' tid (requester_of q) reason"
  define set_id where "set_id = (\<lambda>aid. upd_task tid (\<lambda>r. r\<lparr>xt_approval_id := Some aid\<rparr>) :: 'a exec_db_scheme \<Rightarrow> 'a exec_db_scheme)"
  from assms(2) n obtain aid w2 w3 where add: "add_approval a w1 = Inr (aid, w2)"
    and cas: "exec_optimistic_update tid XCreated XAwaitingApproval 0 (set_id aid w2) = (True, w3)"
    and auto: "auto_approve e q tid aid w3 = Inr (out, w')"
    by (auto simp: submit_for_approval_def a_def set_id_def Let_def split: sum.splits prod.splits bool.splits)
  have "gate_ok {tid} w1"
    using gate_mono [OF gate_side [OF _ assms(1)]] side_approval_no [OF n] by blast
  then have g2: "gate_ok {tid} w2" and a2: "tget (approvals w2) aid = Some a"
    using gate_add_approval [OF _ add] by blast+
  have g3: "gate_ok {tid} (set_id aid w2)"
    unfolding set_id_def using gate_upd_task [OF g2, of tid "{tid}"] by blast
  have w3: "w3 = upd_task tid (put_task XAwaitingApproval 1) (set_id aid w2)"
    using task_cas_True [OF cas] by simp
  have a3: "tget (approvals (set_id aid w2)) aid = Some a" using a2 by (simp add: set_id_def)
  have "gate_ok {} w3"
    unfolding w3 by (rule gate_await [OF g3 a3]) (auto simp: a_def new_approval_def put_task_def set_id_def upd_task_def)
  moreover have "tget (approvals w3) aid = Some a" using a3 by (simp add: w3)
  ultimately show ?thesis using auto by (rule gate_auto_approve)
qed

lemma gate_create_record:
  assumes "gate_ok {} w" and "create_exec_task_record e q w = Inr (out, w')"
  shows "gate_ok {} w'"
proof -
  obtain no w1 where n: "task_no e w = (no, w1)" by fastforce
  define tid where "tid = next_id (exec_tasks w1)"
  define w2 where "w2 = (\<lambda>s. w1\<lparr>exec_tasks := tadd (new_task e q no s) (exec_tasks w1)\<rparr>)"
  have g1: "gate_ok {} w1" using gate_side [OF side_task_no [OF n] assms(1)] .
  have ok1: "table_ok (exec_tasks w1)" using g1 by (simp add: gate_ok_def exec_tables_ok_def)
  have g2: "gate_ok {} (w2 s)" for s
    unfolding w2_def by (rule gate_add_task [OF g1]) (simp add: new_task_def)
  from assms(2) n obtain s reason w3 where h: "add_task_hosts e (executor_ssh_fallback w) tid (rq_target_host_ids q) (w2 s) = Inr w3"
    and r: "(if s then submit_for_approval e q tid reason w3 else start_plain e tid w3) = Inr (out, w')"
    by (auto simp: create_exec_task_record_def Let_def tid_def w2_def cong: if_cong split: sum.splits prod.splits option.splits)
  have s3: "side (w2 s) w3" using side_add_task_hosts [OF h] .
  have g3: "gate_ok {} w3" using gate_side [OF s3 g2] .
  show ?thesis
  proof (cases s)
    case True
    with r show ?thesis using gate_submit [OF g3] by simp
  next
    case False
    with r obtain w4 where cas: "exec_optimistic_update tid XCreated XRunning 0 w3 = (True, w4)"
      and w': "w' = upd_task tid (\<lambda>r. r\<lparr>xt_started_at := Some (now e)\<rparr>) w4"
      by (auto simp: start_plain_def split: prod.splits bool.splits)
    have "tget (exec_tasks w3) tid = Some (new_task e q no False)"
      using s3 False tget_tadd [OF ok1] by (simp add: side_def w2_def tid_def)
    then have "gate_ok {} w4"
      using task_cas_True [OF cas] by (auto intro!: gate_upd_task [OF g3] simp: task_good_def put_task_def new_task_def)
    then show ?thesis unfolding w' by (rule gate_stamp) (simp add: task_static_def)
  qed
qed

lemma gate_create_task: 
  assumes "gate_ok {} w" and "create_task e u q w = (r, w')"
  shows "gate_ok {} w'"
proof -
  have "gate_ok {} w1" if "create_exec_task_record e (user_req u q) w = Inr (out, w1)" for out w1
    using gate_create_record [OF assms(1) that] .
  moreover have "gate_ok {} w2" if "gate_ok {} w1" and "kick_off_exec e i False w1 = (b, w2)" for i b w1 w2
    using gate_kick_off [OF that(1), of e i False] that(2) by simp
  ultimately show ?thesis
    using assms by (auto simp: create_task_def Let_def split: if_splits sum.splits prod.splits)
qed

lemma gate_retry_sensitive:
  assumes "gate_ok {} w" and "retry_sensitive e u tid t reason w = Inr (out, w')"
  shows "gate_ok {} w'"
proof -
  from assms(2) obtain w1 where cas: "exec_optimistic_update tid (xt_status t) XAwaitingApproval (xt_version t) w = (True, w1)"
    by (auto simp: retry_sensitive_def split: prod.splits bool.splits)
  obtain no w2 where n: "approval_no e (close_orphan_approval t w1) = (no, w2)" by fastforce
  define a where "a = new_approval no ''exec'' tid (uid u) reason"
  from assms(2) cas n obtain aid w3 where add: "add_approval a w2 = Inr (aid, w3)"
    and w': "w' = upd_task tid (\<lambda>r. r\<lparr>xt_approval_id := Some aid, xt_sensitive_flag := 1\<rparr>) w3"
    by (auto simp: retry_sensitive_def a_def Let_def split: sum.splits)
  from task_cas_True [OF cas] obtain r where w1: "w1 = upd_task tid (put_task XAwaitingApproval (xt_version t + 1)) w"
    and r: "tget (exec_tasks w) tid = Some r" by auto
  have "gate_ok {tid} w1"
    unfolding w1 using gate_upd_task [OF assms(1), of tid "{tid}"] by blast
  then have "gate_ok {tid} w2"
    using gate_side [OF side_trans [OF side_close_orphan [of w1 t] conjunct1 [OF side_approval_no [OF n]]]] by blast
  then have g3: "gate_ok {tid} w3" and a3: "tget (approvals w3) aid = Some a" and t3: "exec_tasks w3 = exec_tasks w2"
    using gate_add_approval [OF _ add] by blast+
  have "exec_tasks w2 = exec_tasks w1"
    using side_close_orphan [of w1 t] side_approval_no [OF n] by (simp add: side_def)
  then have st: "tget (exec_tasks w3) tid = Some (put_task XAwaitingApproval (xt_version t + 1) r)"
    using r by (simp add: t3 w1 upd_task_def)
  show ?thesis
    unfolding w' by (rule gate_await [OF g3 a3]) (use st in \<open>auto simp: a_def new_approval_def put_task_def\<close>)
qed

lemma side_reset_host: "side w (reset_host it w)"
  by (auto simp: reset_host_def split: prod.splits)

lemma gate_retry_plain:
  assumes "gate_ok {} w" and "tget (exec_tasks w) tid = Some t" and "recheck_sensitive w t = Some (False, rs)"
    and "retry_plain e tid t w = Inr w'"
  shows "gate_ok {} w'"
proof -
  define f where "f = put_task XRunning (xt_version t + 1)"
  define w2 where "w2 = upd_task tid (\<lambda>r. r\<lparr>xt_started_at := Some (now e), xt_finished_at := None\<rparr>) (upd_task tid f w)"
  define w3 where "w3 = close_orphan_approval t w2"
  from assms(4) obtain w1 where cas: "exec_optimistic_update tid (xt_status t) XRunning (xt_version t) w = (True, w1)"
    by (auto simp: retry_plain_def split: prod.splits bool.splits)
  have w1: "w1 = upd_task tid f w" using task_cas_True [OF cas] by (simp add: f_def)
  have w': "w' = fold reset_host (th_by_task w3 tid) w3"
    using assms(4) cas by (simp add: retry_plain_def w1 w3_def w2_def Let_def)
  have "recheck_sensitive w (f t) = recheck_sensitive w t"
    by (rule recheck_cong) (simp_all add: f_def put_task_def task_static_def)
  with assms(3) have "task_good w tid (f t)"
    by (simp add: task_good_def harmless_def f_def put_task_def)
  then have "gate_ok {} (upd_task tid f w)"
    using assms(1,2) by (auto intro: gate_upd_task)
  then have "gate_ok {} w2"
    unfolding w2_def by (rule gate_stamp) (simp add: task_static_def)
  then show ?thesis
    unfolding w' w3_def by (intro gate_side [OF side_fold [OF side_reset_host]] gate_side [OF side_close_orphan])
qed

lemma gate_retry_task:
  assumes "gate_ok {} w" and "retry_task e u tid w = (r, w')"
  shows "gate_ok {} w'"
proof -
  have k: "gate_ok {} w2" if "gate_ok {} w1" and "kick_off_exec e i False w1 = (b, w2)" for i b w1 w2
    using gate_kick_off [OF that(1), of e i False] that(2) by simp
  have "tget (exec_tasks w) tid = Some t" if "task_guard u p x tid w = Inr t" for p x t
    using that by (auto simp: task_guard_def split: if_splits option.splits)
  then show ?thesis
    using assms gate_retry_sensitive [OF assms(1)] gate_retry_plain [OF assms(1)] k
    by (simp add: retry_task_def Let_def split: if_splits sum.splits prod.splits option.splits bool.splits) blast+
qed

section \<open>Steps of the domain\<close>

text \<open>One call of a handler, a worker task or an agent frame. The configuration rules and the
  script library are held fixed: no step of this relation writes them.\<close>

inductive exec_step :: "'z exec_db_scheme \<Rightarrow> 'z exec_db_scheme \<Rightarrow> bool" where
  step_create: "create_task e u q w = (r, w') \<Longrightarrow> exec_step w w'"
| step_record: "create_exec_task_record e q w = Inr (out, w') \<Longrightarrow> exec_step w w'"
| step_kick: "kick_off_exec e tid b w = (r, w') \<Longrightarrow> exec_step w w'"
| step_dispatch: "exec_dispatch e tid w = (d, w') \<Longrightarrow> exec_step w w'"
| step_scan: "scan_timeouts e w = (n, w') \<Longrightarrow> exec_step w w'"
| step_result: "persist_result e thid st code w = w' \<Longrightarrow> exec_step w w'"
| step_logs: "persist_logs items w = w' \<Longrightarrow> exec_step w w'"
| step_stop: "stop_task e u tid w = Inr (s, w') \<Longrightarrow> exec_step w w'"
| step_cancel_record: "tget (exec_tasks w) tid = Some t \<Longrightarrow> cancel_exec_task_record e tid t w = (b, w') \<Longrightarrow> exec_step w w'"
| step_retry: "retry_task e u tid w = (r, w') \<Longrightarrow> exec_step w w'"
| step_approve: "approve e u aid c w = Inr (s, w') \<Longrightarrow> exec_step w w'"
| step_reject: "reject e u aid c w = Inr (s, w') \<Longrightarrow> exec_step w w'"
| step_cancel: "cancel e u aid w = Inr (s, w') \<Longrightarrow> exec_step w w'"

inductive exec_reach :: "'z exec_db_scheme \<Rightarrow> 'z exec_db_scheme \<Rightarrow> bool" where
  reach_start: "exec_reach w w"
| reach_next: "exec_reach w w' \<Longrightarrow> exec_step w' w'' \<Longrightarrow> exec_reach w w''"

lemma gate_stop:
  assumes "gate_ok {} w" and "stop_task e u tid w = Inr (s, w')"
  shows "gate_ok {} w'"
  using assms(2) gate_cancel_core [OF assms(1)]
  by (auto simp: stop_task_def split: sum.splits if_splits prod.splits bool.splits)

lemma gate_step:
  assumes "exec_step w w'" and "gate_ok {} w"
  shows "gate_ok {} w'"
  using assms
proof cases
  case step_create
  with assms(2) show ?thesis by (rule gate_create_task)
next
  case step_record
  with assms(2) show ?thesis by (rule gate_create_record)
next
  case (step_kick e tid b r)
  then show ?thesis using gate_kick_off [OF assms(2), of e tid b] by simp
next
  case (step_dispatch e tid d)
  then show ?thesis using gate_exec_dispatch [OF assms(2), of e tid] by simp
next
  case (step_scan e n)
  then show ?thesis using gate_scan [OF assms(2), of e] by simp
next
  case step_result
  then show ?thesis using gate_persist_result [OF assms(2)] by blast
next
  case step_logs
  then show ?thesis using gate_side [OF side_persist_logs assms(2)] by blast
next
  case step_stop
  with assms(2) show ?thesis by (rule gate_stop)
next
  case step_cancel_record
  with assms(2) show ?thesis by (blast intro: gate_cancel_core)
next
  case step_retry
  with assms(2) show ?thesis by (rule gate_retry_task)
next
  case step_approve
  with assms(2) show ?thesis by (rule gate_approve)
next
  case step_reject
  with assms(2) show ?thesis by (blast intro: gate_reject)
next
  case step_cancel
  with assms(2) show ?thesis by (blast intro: gate_cancel)
qed

lemma gate_reach: "exec_reach w w' \<Longrightarrow> gate_ok {} w \<Longrightarrow> gate_ok {} w'"
  by (induction rule: exec_reach.induct) (auto intro: gate_step)

text \<open>Before the first request.\<close>

definition fresh_install :: "'z exec_db_scheme \<Rightarrow> bool" where
  "fresh_install w = (exec_tasks w = empty_table \<and> exec_task_hosts w = empty_table \<and> approvals w = empty_table \<and>
     terminals w = empty_table)"

lemma fresh_gate: "fresh_install w \<Longrightarrow> gate_ok {} w"
  by (simp add: fresh_install_def gate_ok_def exec_tables_ok_def biz_unique_def sessions_ok_def)

section \<open>The execution core leaves the tables of other components alone\<close>

definition exec_rest :: "'z exec_db_scheme \<Rightarrow> host table \<times> script table \<times> script_version table \<times> 'z" where
  "exec_rest w = (hosts w, scripts w, script_versions w, exec_db.more w)"

lemma exec_rest_upd [simp]:
  "exec_rest (exec_tasks_update f w) = exec_rest w" "exec_rest (exec_task_hosts_update g w) = exec_rest w"
  "exec_rest (exec_logs_update h w) = exec_rest w" "exec_rest (approvals_update a w) = exec_rest w"
  "exec_rest (approval_records_update b w) = exec_rest w" "exec_rest (terminals_update c w) = exec_rest w"
  "exec_rest (breakers_update d w) = exec_rest w" "exec_rest (ai_actions_update x w) = exec_rest w"
  "exec_rest (seq_exec_no_update k w) = exec_rest w" "exec_rest (seq_approval_no_update l w) = exec_rest w"
  "exec_rest (sems_update m w) = exec_rest w" "exec_rest (outbox_update n w) = exec_rest w"
  by (simp_all add: exec_rest_def)

lemma rest_side: "side w w' \<Longrightarrow> exec_rest w' = exec_rest w"
  by (simp add: side_def exec_rest_def)

lemma rest_upd_task [simp]: "exec_rest (upd_task i f w) = exec_rest w"
  by (simp add: upd_task_def)

lemma rest_task_cas: "exec_optimistic_update i a b v w = (ok, w') \<Longrightarrow> exec_rest w' = exec_rest w"
  by (auto simp: exec_optimistic_update_def Let_def split: prod.splits)

lemma rest_add_approval: "add_approval a w = Inr (aid, w') \<Longrightarrow> exec_rest w' = exec_rest w"
  by (auto simp: add_approval_def split: if_splits)

lemma rest_activate [simp]: "exec_rest (activate_on_approval e a w) = exec_rest w"
  by (simp add: activate_on_approval_def upd_terminal_def split: option.splits)

lemma rest_approve_linkages: "approve_linkages e a w = Inr w' \<Longrightarrow> exec_rest w' = exec_rest w"
  by (auto simp: approve_linkages_def approve_exec_def Let_def emit_def
      split: if_splits option.splits prod.splits bool.splits dest: rest_task_cas)

lemma rest_auto_approve:
  assumes "auto_approve e q tid aid w = Inr (out, w')"
  shows "exec_rest w' = exec_rest w"
  using assms rest_approve_linkages [of e]
  by (fastforce simp: auto_approve_def Let_def upd_approval_def split: option.splits sum.splits)

lemma rest_create_record:
  assumes "create_exec_task_record e q w = Inr (out, w')"
  shows "exec_rest w' = exec_rest w"
proof -
  have "exec_rest w3 = exec_rest v" if "add_task_hosts e fb tid hs v = Inr w3" for fb tid hs w3 and v :: "'a exec_db_scheme"
    using rest_side [OF side_add_task_hosts [OF that]] .
  moreover have "exec_rest w4 = exec_rest v" if "submit_for_approval e q tid rs v = Inr (out, w4)" for tid rs out w4 and v :: "'a exec_db_scheme"
    using that by (auto simp: submit_for_approval_def Let_def split: sum.splits prod.splits bool.splits
        dest!: rest_auto_approve rest_task_cas rest_add_approval side_approval_no rest_side)
  moreover have "exec_rest w4 = exec_rest v" if "start_plain e tid v = Inr (out, w4)" for tid out w4 and v :: "'a exec_db_scheme"
    using that by (auto simp: start_plain_def split: prod.splits bool.splits dest: rest_task_cas)
  moreover have "exec_rest w1 = exec_rest w" if "task_no e w = (no, w1)" for no w1
    using rest_side [OF side_task_no [OF that]] .
  ultimately show ?thesis
    using assms by (fastforce simp: create_exec_task_record_def Let_def split: sum.splits prod.splits option.splits if_splits)
qed

lemma rest_exec_dispatch: "exec_rest (snd (exec_dispatch e tid w)) = exec_rest w"
proof -
  have 1: "exec_rest (snd (finish_dispatch e tid v)) = exec_rest v" for v :: "'a exec_db_scheme"
    by (auto simp: finish_dispatch_def emit_def split: option.splits prod.splits bool.splits dest: rest_task_cas)
  have 2: "exec_rest v' = exec_rest v" if "run_hosts e t c n is v = (b, v')" for t c n "is" b and v v' :: "'a exec_db_scheme"
    using rest_side [OF side_run_hosts [OF that]] .
  have 3: "exec_rest v' = exec_rest v" if "start_hosts e g h ths v = (ss, v')" for g h ths ss and v v' :: "'a exec_db_scheme"
    using rest_side [OF side_start_hosts [OF that]] .
  show ?thesis
    by (simp add: exec_dispatch_def Let_def 1 split: option.splits prod.splits) (metis 2 3)
qed

lemma rest_kick_off: "kick_off_exec e tid b w = (r, w') \<Longrightarrow> exec_rest w' = exec_rest w"
  using rest_exec_dispatch [of e tid w]
  by (auto simp: kick_off_exec_def Let_def emit_def split: if_splits prod.splits)

lemma rest_scan_one: "exec_rest (snd (scan_one e it st)) = exec_rest (snd st)"
proof -
  have "exec_rest (time_out_hosts e i v) = exec_rest v" for i and v :: "'a exec_db_scheme"
    by (rule rest_side [OF side_time_out_hosts])
  then show ?thesis
    by (auto simp: scan_one_def Let_def split: prod.splits bool.splits dest: rest_task_cas)
qed

lemma rest_scan: "exec_rest (snd (scan_timeouts e w)) = exec_rest w"
proof -
  have "exec_rest (snd (fold (scan_one e) its st)) = exec_rest (snd st)" for its and st :: "nat \<times> 'a exec_db_scheme"
    by (induction its arbitrary: st) (simp_all add: rest_scan_one)
  then show ?thesis by (simp add: scan_timeouts_def)
qed

lemma rest_persist_result: "exec_rest (persist_result e i s c w) = exec_rest w"
proof -
  have "exec_rest (maybe_finalize_task e tid v) = exec_rest v" for tid and v :: "'a exec_db_scheme"
    by (auto simp: maybe_finalize_task_def Let_def split: option.splits prod.splits bool.splits dest: rest_task_cas)
  then show ?thesis by (simp add: persist_result_def upd_th_def split: option.splits)
qed

lemma rest_cancel_core:
  assumes "cancel_exec_task_record e tid t w = (b, w')"
  shows "exec_rest w' = exec_rest w"
proof -
  have "exec_rest (fold (cancel_one_host e) its v) = exec_rest v" "exec_rest (close_orphan_approval t v) = exec_rest v"
    for its and v :: "'a exec_db_scheme"
    by (rule rest_side, rule side_fold, rule side_cancel_one_host, rule rest_side, rule side_close_orphan)
  with assms show ?thesis
    by (auto simp: cancel_exec_task_record_def Let_def split: if_splits prod.splits bool.splits dest: rest_task_cas)
qed

lemma rest_cancel_awaiting [simp]: "exec_rest (cancel_awaiting_task e a w) = exec_rest w"
  by (auto simp: cancel_awaiting_task_def split: option.splits prod.splits bool.splits dest: rest_task_cas)

lemma rest_cancel_linkages [simp]: "exec_rest (cancel_linkages e a w) = exec_rest w"
  by (simp add: cancel_linkages_def rest_side [OF side_close_on_cancel])

lemma rest_decided [simp]: "exec_rest (add_record aid act op c w) = exec_rest w" "exec_rest (upd_approval i f w) = exec_rest w"
  by (simp_all add: add_record_def upd_approval_def)

lemma rest_approval_cas: "approval_optimistic_update i a b v w = (ok, w') \<Longrightarrow> exec_rest w' = exec_rest w"
  by (auto simp: approval_optimistic_update_def Let_def split: prod.splits)

lemma rest_decision:
  "approve e u aid c w = Inr (s, w') \<Longrightarrow> exec_rest w' = exec_rest w"
  "reject e u aid c w = Inr (s, w') \<Longrightarrow> exec_rest w' = exec_rest w"
  "cancel e u aid w = Inr (s, w') \<Longrightarrow> exec_rest w' = exec_rest w"
  by (auto simp: approve_def reject_def cancel_def Let_def split: if_splits sum.splits prod.splits bool.splits
      dest!: rest_approve_linkages rest_approval_cas)

lemma rest_retry_task:
  assumes "retry_task e u tid w = (r, w')"
  shows "exec_rest w' = exec_rest w"
proof -
  have 1: "exec_rest v' = exec_rest v" if "retry_sensitive e u tid t rs v = Inr (out, v')" for t rs out and v v' :: "'a exec_db_scheme"
  proof -
    obtain b v1 where c: "exec_optimistic_update tid (xt_status t) XAwaitingApproval (xt_version t) v = (b, v1)" by fastforce
    obtain no v2 where n: "approval_no e (close_orphan_approval t v1) = (no, v2)" by fastforce
    have "exec_rest v2 = exec_rest v"
      using rest_task_cas [OF c] rest_side [OF conjunct1 [OF side_approval_no [OF n]]] rest_side [OF side_close_orphan [of v1 t]] by simp
    then show ?thesis
      using that c n by (auto simp: retry_sensitive_def Let_def split: bool.splits sum.splits dest!: rest_add_approval)
  qed
  have 2: "exec_rest v' = exec_rest v" if "retry_plain e tid t v = Inr v'" for t and v v' :: "'a exec_db_scheme"
  proof -
    obtain b v1 where c: "exec_optimistic_update tid (xt_status t) XRunning (xt_version t) v = (b, v1)" by fastforce
    have "exec_rest (fold reset_host its x) = exec_rest x" "exec_rest (close_orphan_approval t x) = exec_rest x"
      for its and x :: "'a exec_db_scheme"
      by (rule rest_side, rule side_fold, rule side_reset_host, rule rest_side, rule side_close_orphan)
    with that c show ?thesis
      by (auto simp: retry_plain_def Let_def split: bool.splits dest: rest_task_cas)
  qed
  show ?thesis
    using assms by (auto simp: retry_task_def Let_def split: sum.splits if_splits option.splits prod.splits bool.splits
        dest!: 1 2 rest_kick_off)
qed

lemma rest_step:
  assumes "exec_step w w'"
  shows "exec_rest w' = exec_rest w"
  using assms
proof cases
  case (step_create e u q r)
  then show ?thesis
    by (auto simp: create_task_def Let_def split: if_splits sum.splits prod.splits dest!: rest_create_record rest_kick_off)
next
  case step_record
  then show ?thesis by (rule rest_create_record)
next
  case step_kick
  then show ?thesis by (rule rest_kick_off)
next
  case (step_dispatch e tid d)
  then show ?thesis using rest_exec_dispatch [of e tid w] by simp
next
  case (step_scan e n)
  then show ?thesis using rest_scan [of e w] by simp
next
  case (step_result e thid st code)
  then show ?thesis using rest_persist_result [of e thid st code w] by simp
next
  case (step_logs items)
  then show ?thesis using rest_side [OF side_persist_logs [of w items]] by simp
next
  case (step_stop e u tid s)
  then show ?thesis
    by (auto simp: stop_task_def split: sum.splits if_splits prod.splits bool.splits dest!: rest_cancel_core)
next
  case step_cancel_record
  then show ?thesis by (blast intro: rest_cancel_core)
next
  case step_retry
  then show ?thesis by (rule rest_retry_task)
qed (rule rest_decision, assumption)+

lemma more_rest: "exec_rest w' = exec_rest w \<Longrightarrow> exec_db.more w' = exec_db.more w"
  by (simp add: exec_rest_def)

lemmas more_side = rest_side [THEN more_rest]
lemmas more_upds [simp] = rest_upd_task [THEN more_rest] rest_activate [THEN more_rest] rest_decided [THEN more_rest]
lemmas more_task_cas = rest_task_cas [THEN more_rest]
lemmas more_add_approval = rest_add_approval [THEN more_rest]
lemmas more_kick_off = rest_kick_off [THEN more_rest]
lemmas more_create_record = rest_create_record [THEN more_rest]
lemmas more_step = rest_step [THEN more_rest]

end
