(* ===== verification/Workflow_Definition.thy ===== *)
theory Workflow_Definition
  imports Prelude
begin

text \<open>
  Validation of workflow definitions (\<open>workflow_service._validate_definition\<close>,
  \<open>_assert_acyclic\<close>): the JSON shape, unique keys, known references, the caps and the
  three-colour depth-first search. The recursion of \<open>visit\<close> carries fuel, one unit per nested
  call; as many units as there are keys are enough, because every nested call turns a white
  key grey. The texts of the errors are shortened.
\<close>

section \<open>Cycle detection\<close>

datatype color = White | Gray | Black

datatype dfs = Cycle | OutOfFuel | Done "string \<Rightarrow> color"

text \<open>The adjacency lists: \<open>adj[src].append(dst)\<close> over the edges.\<close>

definition adjacency :: "(string \<times> string) list \<Rightarrow> string \<Rightarrow> string list" where
  "adjacency edges n = map snd (filter (\<lambda>(s, d). s = n) edges)"

fun visit :: "nat \<Rightarrow> (string \<Rightarrow> string list) \<Rightarrow> string \<Rightarrow> (string \<Rightarrow> color) \<Rightarrow> dfs"
  and visit_all :: "nat \<Rightarrow> (string \<Rightarrow> string list) \<Rightarrow> string list \<Rightarrow> (string \<Rightarrow> color) \<Rightarrow> dfs" where
  "visit 0 adj n c = OutOfFuel"
| "visit (Suc f) adj n c =
     (case visit_all f adj (adj n) (c(n := Gray)) of Done c' \<Rightarrow> Done (c'(n := Black)) | r \<Rightarrow> r)"
| "visit_all f adj [] c = Done c"
| "visit_all f adj (x # xs) c =
     (if c x = Gray then Cycle
      else if c x = White then (case visit f adj x c of Done c' \<Rightarrow> visit_all f adj xs c' | r \<Rightarrow> r)
      else visit_all f adj xs c)"

fun visit_roots :: "nat \<Rightarrow> (string \<Rightarrow> string list) \<Rightarrow> string list \<Rightarrow> (string \<Rightarrow> color) \<Rightarrow> dfs" where
  "visit_roots f adj [] c = Done c"
| "visit_roots f adj (k # ks) c =
     (if c k = White then (case visit f adj k c of Done c' \<Rightarrow> visit_roots f adj ks c' | r \<Rightarrow> r)
      else visit_roots f adj ks c)"

text \<open>\<open>keys\<close> are listed in definition order; Python iterates a set, and the result does not
  depend on the order. Every end of an edge is a key (validated before), so \<open>color[nxt]\<close> is
  always there.\<close>

definition assert_acyclic :: "string list \<Rightarrow> (string \<times> string) list \<Rightarrow> unit res" where
  "assert_acyclic keys edges =
     (case visit_roots (length keys) (adjacency edges) keys (\<lambda>_. White) of
        Done _ \<Rightarrow> Inr ()
      | Cycle \<Rightarrow> Inl (ValidationError ''workflow definition contains a cycle'')
      | OutOfFuel \<Rightarrow> Inl TypeError)"

section \<open>The search is correct\<close>

definition edge_rel :: "(string \<Rightarrow> string list) \<Rightarrow> (string \<times> string) set" where
  "edge_rel adj = {(x, y). y \<in> set (adj x)}"

definition dfs_inv :: "(string \<Rightarrow> string list) \<Rightarrow> (string \<Rightarrow> color) \<Rightarrow> bool" where
  "dfs_inv adj c = ((\<forall>x. c x = Black \<longrightarrow> (\<forall>y \<in> set (adj x). c y = Black)) \<and>
     (\<forall>x. c x = Black \<longrightarrow> (x, x) \<notin> (edge_rel adj)\<^sup>+))"

definition grows :: "(string \<Rightarrow> color) \<Rightarrow> (string \<Rightarrow> color) \<Rightarrow> bool" where
  "grows c c' = ((\<forall>x. c' x = Gray \<longleftrightarrow> c x = Gray) \<and> (\<forall>x. c x = Black \<longrightarrow> c' x = Black))"

definition dfs_ok :: "(string \<Rightarrow> string list) \<Rightarrow> (string \<Rightarrow> color) \<Rightarrow> string set \<Rightarrow> dfs \<Rightarrow> bool" where
  "dfs_ok adj c D r = (case r of
     Done c' \<Rightarrow> dfs_inv adj c' \<and> grows c c' \<and> (\<forall>x \<in> D. c' x = Black)
   | Cycle \<Rightarrow> \<exists>x. (x, x) \<in> (edge_rel adj)\<^sup>+
   | OutOfFuel \<Rightarrow> True)"

lemma black_closed:
  assumes "dfs_inv adj c" and "(x, y) \<in> (edge_rel adj)\<^sup>+" and "c x = Black"
  shows "c y = Black"
  using assms(2,3) by (induction rule: trancl_induct) (use assms(1) in \<open>auto simp: dfs_inv_def edge_rel_def\<close>)

lemma blacken:
  assumes inv: "dfs_inv adj c" and "c n = Gray" and succ: "\<forall>y \<in> set (adj n). c y = Black"
  shows "dfs_inv adj (c(n := Black))"
proof -
  have "(n, n) \<notin> (edge_rel adj)\<^sup>+"
  proof
    assume "(n, n) \<in> (edge_rel adj)\<^sup>+"
    then obtain y where y: "(n, y) \<in> edge_rel adj" "y = n \<or> (y, n) \<in> (edge_rel adj)\<^sup>+"
      by (meson tranclD rtranclD)
    then have "c y = Black" using succ by (simp add: edge_rel_def)
    with y(2) black_closed [OF inv] have "c n = Black" by blast
    with assms(2) show False by simp
  qed
  then show ?thesis using inv succ by (auto simp: dfs_inv_def)
qed

lemma grows_trans: "grows a b \<Longrightarrow> grows b c \<Longrightarrow> grows a c"
  by (auto simp: grows_def)

lemma visit_sound:
  "dfs_inv adj c \<Longrightarrow> c n = White \<Longrightarrow> (\<forall>g. c g = Gray \<longrightarrow> (g, n) \<in> (edge_rel adj)\<^sup>+) \<Longrightarrow>
     dfs_ok adj c {n} (visit f adj n c)"
  "dfs_inv adj c \<Longrightarrow> c m = Gray \<Longrightarrow> set xs \<subseteq> set (adj m) \<Longrightarrow> (\<forall>g. c g = Gray \<longrightarrow> (g, m) \<in> (edge_rel adj)\<^sup>*) \<Longrightarrow>
     dfs_ok adj c (set xs) (visit_all f adj xs c)"
proof (induction f adj n c and f adj xs c arbitrary: and m rule: visit_visit_all.induct)
  case (1 adj n c)
  then show ?case by (simp add: dfs_ok_def)
next
  case (2 f adj n c)
  let ?c = "c(n := Gray)"
  have a: "dfs_inv adj ?c" using 2(2,3) by (auto simp: dfs_inv_def)
  have b: "\<forall>g. ?c g = Gray \<longrightarrow> (g, n) \<in> (edge_rel adj)\<^sup>*"
    using 2(4) by (auto intro: trancl_into_rtrancl)
  have ih: "dfs_ok adj ?c (set (adj n)) (visit_all f adj (adj n) ?c)"
    by (rule 2(1) [OF a _ subset_refl b]) simp
  show ?case
  proof (cases "visit_all f adj (adj n) ?c")
    case (Done c')
    with ih have c': "dfs_inv adj c'" "grows ?c c'" "\<forall>y \<in> set (adj n). c' y = Black"
      by (auto simp: dfs_ok_def)
    then have "c' n = Gray" by (simp add: grows_def)
    with c' have "dfs_inv adj (c'(n := Black))" by (intro blacken) auto
    moreover have "grows c (c'(n := Black))" using c'(2) 2(3) by (auto simp: grows_def)
    ultimately show ?thesis by (simp add: Done dfs_ok_def)
  qed (use ih in \<open>simp_all add: dfs_ok_def\<close>)
next
  case (3 f adj c)
  then show ?case by (simp add: dfs_ok_def grows_def)
next
  case (4 f adj x xs c)
  have x: "(m, x) \<in> edge_rel adj" using 4(6) by (simp add: edge_rel_def)
  show ?case
  proof (cases "c x")
    case Gray
    then have "(x, x) \<in> (edge_rel adj)\<^sup>+" using 4(7) x by (meson rtrancl_into_trancl1)
    with Gray show ?thesis by (auto simp: dfs_ok_def)
  next
    case White
    have "\<forall>g. c g = Gray \<longrightarrow> (g, x) \<in> (edge_rel adj)\<^sup>+"
      using 4(7) x by (meson rtrancl_into_trancl1)
    then have v: "dfs_ok adj c {x} (visit f adj x c)"
      using 4(1) White 4(4) by simp
    show ?thesis
    proof (cases "visit f adj x c")
      case (Done c')
      with v have c': "dfs_inv adj c'" "grows c c'" "c' x = Black" by (auto simp: dfs_ok_def)
      then have "dfs_ok adj c' (set xs) (visit_all f adj xs c')"
        using 4(2) [OF _ White Done, of m] White 4(5-7) by (auto simp: grows_def)
      with c' White Done show ?thesis
        by (auto simp: dfs_ok_def grows_def split: dfs.splits)
    qed (use v White in \<open>simp_all add: dfs_ok_def\<close>)
  next
    case Black
    then have "dfs_ok adj c (set xs) (visit_all f adj xs c)"
      using 4(3) [of m] 4(4-7) by simp
    with Black show ?thesis by (auto simp: dfs_ok_def grows_def split: dfs.splits)
  qed
qed

definition whites :: "string set \<Rightarrow> (string \<Rightarrow> color) \<Rightarrow> string set" where
  "whites K c = {x \<in> K. c x = White}"

definition shrinks :: "string set \<Rightarrow> nat \<Rightarrow> (string \<Rightarrow> color) \<Rightarrow> dfs \<Rightarrow> bool" where
  "shrinks K f c r = (r \<noteq> OutOfFuel \<and> (\<forall>c'. r = Done c' \<longrightarrow> whites K c' \<subseteq> whites K c))"

lemma visit_enough_fuel:
  "finite K \<Longrightarrow> (\<forall>x \<in> K. set (adj x) \<subseteq> K) \<Longrightarrow> n \<in> K \<Longrightarrow> c n = White \<Longrightarrow> card (whites K c) \<le> f \<Longrightarrow>
     shrinks K f c (visit f adj n c)"
  "finite K \<Longrightarrow> (\<forall>x \<in> K. set (adj x) \<subseteq> K) \<Longrightarrow> set xs \<subseteq> K \<Longrightarrow> card (whites K c) \<le> f \<Longrightarrow>
     shrinks K f c (visit_all f adj xs c)"
proof (induction f adj n c and f adj xs c rule: visit_visit_all.induct)
  case (1 adj n c)
  then have "n \<in> whites K c" "finite (whites K c)" by (auto simp: whites_def)
  with 1(5) show ?case by auto
next
  case (2 f adj n c)
  have n: "n \<in> whites K c" "finite (whites K c)" using 2(2,4,5) by (auto simp: whites_def)
  have w: "whites K (c(n := Gray)) = whites K c - {n}" by (auto simp: whites_def)
  have "card (whites K (c(n := Gray))) \<le> f"
    using 2(6) n by (simp add: w)
  then have "shrinks K f (c(n := Gray)) (visit_all f adj (adj n) (c(n := Gray)))"
    using 2(1) [OF 2(2,3)] 2(3,4) by blast
  then show ?case
    by (auto simp: shrinks_def w whites_def split: dfs.splits if_splits)
next
  case (3 f adj c)
  then show ?case by (simp add: shrinks_def)
next
  case (4 f adj x xs c)
  have fin: "finite (whites K c)" using 4(4) by (simp add: whites_def)
  show ?case
  proof (cases "c x")
    case White
    then have v: "shrinks K f c (visit f adj x c)" using 4 by simp
    show ?thesis
    proof (cases "visit f adj x c")
      case (Done c')
      with v have sub: "whites K c' \<subseteq> whites K c" by (simp add: shrinks_def)
      then have "card (whites K c') \<le> f" using card_mono [OF fin sub] 4(7) by linarith
      then have "shrinks K f c' (visit_all f adj xs c')"
        using 4(2) [OF _ White Done 4(4,5)] White 4(6) by simp
      with sub White Done show ?thesis by (auto simp: shrinks_def)
    qed (use v White in \<open>simp_all add: shrinks_def\<close>)
  next
    case Gray
    then show ?thesis by (simp add: shrinks_def)
  next
    case Black
    then show ?thesis using 4(3) [OF _ _ 4(4,5)] 4(6,7) by simp
  qed
qed

lemma visit_roots_ok:
  assumes "finite K" and "\<forall>x \<in> K. set (adj x) \<subseteq> K"
  shows "dfs_inv adj c \<Longrightarrow> (\<forall>x. c x \<noteq> Gray) \<Longrightarrow> set ks \<subseteq> K \<Longrightarrow> card (whites K c) \<le> f \<Longrightarrow>
     visit_roots f adj ks c \<noteq> OutOfFuel \<and> dfs_ok adj c (set ks) (visit_roots f adj ks c)"
proof (induction ks arbitrary: c)
  case Nil
  then show ?case by (simp add: dfs_ok_def grows_def)
next
  case (Cons k ks)
  show ?case
  proof (cases "c k")
    case White
    have v: "dfs_ok adj c {k} (visit f adj k c)"
      using visit_sound(1) [OF Cons(2) White] Cons(3) by blast
    have s: "shrinks K f c (visit f adj k c)"
      using visit_enough_fuel(1) [OF assms, of k c f] White Cons(4,5) by simp
    show ?thesis
    proof (cases "visit f adj k c")
      case (Done c')
      have fin: "finite (whites K c)" using assms(1) by (simp add: whites_def)
      from v s Done have c': "dfs_inv adj c'" "grows c c'" "c' k = Black" "whites K c' \<subseteq> whites K c"
        by (auto simp: dfs_ok_def shrinks_def)
      moreover have "card (whites K c') \<le> f" using card_mono [OF fin c'(4)] Cons(5) by linarith
      ultimately have "visit_roots f adj ks c' \<noteq> OutOfFuel \<and> dfs_ok adj c' (set ks) (visit_roots f adj ks c')"
        using Cons(3,4) by (intro Cons.IH) (auto simp: grows_def)
      with c' White Done show ?thesis
        by (auto simp: dfs_ok_def grows_def split: dfs.splits)
    qed (use v s White in \<open>simp_all add: dfs_ok_def shrinks_def\<close>)
  next
    case Gray
    with Cons(3) show ?thesis by simp
  next
    case Black
    have "visit_roots f adj ks c \<noteq> OutOfFuel \<and> dfs_ok adj c (set ks) (visit_roots f adj ks c)"
      using Cons(2-5) by (intro Cons.IH) auto
    with Black show ?thesis by (auto simp: dfs_ok_def grows_def split: dfs.splits)
  qed
qed

lemma edge_rel_adjacency: "edge_rel (adjacency edges) = set edges"
  by (force simp: edge_rel_def adjacency_def)

lemma assert_acyclic_iff:
  assumes "set edges \<subseteq> set keys \<times> set keys"
  shows "assert_acyclic keys edges =
     (if acyclic (set edges) then Inr () else Inl (ValidationError ''workflow definition contains a cycle''))"
proof -
  let ?adj = "adjacency edges" and ?r = "visit_roots (length keys) (adjacency edges) keys (\<lambda>_. White)"
  have closed: "\<forall>x \<in> set keys. set (?adj x) \<subseteq> set keys"
    using assms by (auto simp: adjacency_def)
  have "card (whites (set keys) (\<lambda>_. White)) \<le> length keys"
    by (simp add: whites_def card_length)
  then have r: "?r \<noteq> OutOfFuel \<and> dfs_ok ?adj (\<lambda>_. White) (set keys) ?r"
    by (intro visit_roots_ok [OF _ closed]) (auto simp: dfs_inv_def)
  show ?thesis
  proof (cases ?r)
    case (Done c)
    with r have c: "dfs_inv ?adj c" "\<forall>x \<in> set keys. c x = Black" by (auto simp: dfs_ok_def)
    have "(x, x) \<notin> (set edges)\<^sup>+" for x
    proof
      assume cyc: "(x, x) \<in> (set edges)\<^sup>+"
      then obtain y where "(x, y) \<in> set edges" by (meson tranclD)
      with assms c(2) have "c x = Black" by auto
      with c(1) cyc show False by (simp add: dfs_inv_def edge_rel_adjacency)
    qed
    with Done show ?thesis by (simp add: assert_acyclic_def acyclic_def)
  qed (use r in \<open>auto simp: assert_acyclic_def acyclic_def dfs_ok_def edge_rel_adjacency\<close>)
qed

section \<open>The definition\<close>

definition NODE_TYPES :: "string list" where
  "NODE_TYPES = [''exec_task'', ''manual_approval'', ''wait'', ''callback'', ''sleep'']"

definition MAX_NODES :: nat where
  "MAX_NODES = 100"

definition MAX_EDGES :: nat where
  "MAX_EDGES = 500"

text \<open>The first loop, over the nodes: \<open>keys\<close> are the ones seen so far.\<close>

fun check_nodes :: "string list \<Rightarrow> json list \<Rightarrow> string list res" where
  "check_nodes keys [] = Inr keys"
| "check_nodes keys (n # ns) =
     (case n of
        JObj d \<Rightarrow>
          (case dget d ''key'' of
             JStr key \<Rightarrow>
               if key = [] then Inl (ValidationError ''node key is required'')
               else if key \<in> set keys then Inl (ValidationError ''duplicate node key'')
               else if dget d ''type'' \<notin> JStr ` set NODE_TYPES then Inl (ValidationError ''unknown node type'')
               else check_nodes (keys @ [key]) ns
           | _ \<Rightarrow> Inl (ValidationError ''node key is required''))
      | _ \<Rightarrow> Inl (ValidationError ''node must be an object''))"

text \<open>The references of one field. A list or an object is not hashable, so \<open>ref not in keys\<close>
  raises a \<open>TypeError\<close> on it.\<close>

fun check_refs :: "string list \<Rightarrow> string \<Rightarrow> json list \<Rightarrow> (string \<times> string) list res" where
  "check_refs keys key [] = Inr []"
| "check_refs keys key (r # rs) =
     (case r of
        JList _ \<Rightarrow> Inl TypeError
      | JObj _ \<Rightarrow> Inl TypeError
      | JStr ref \<Rightarrow>
          if ref \<notin> set keys then Inl (ValidationError ''reference to unknown node'')
          else (case check_refs keys key rs of Inl err \<Rightarrow> Inl err | Inr es \<Rightarrow> Inr ((ref, key) # es))
      | _ \<Rightarrow> Inl (ValidationError ''reference to unknown node''))"

definition check_field :: "string list \<Rightarrow> string \<Rightarrow> json \<Rightarrow> (string \<times> string) list res" where
  "check_field keys key v =
     (if \<not> truthy v then Inr []
      else case v of JList refs \<Rightarrow> check_refs keys key refs | _ \<Rightarrow> Inl (ValidationError ''field must be a list''))"

definition edge_fields :: "string list" where
  "edge_fields = [''depends_on'', ''on_success'', ''on_failure'']"

fun check_fields :: "string list \<Rightarrow> string \<Rightarrow> dict \<Rightarrow> string list \<Rightarrow> (string \<times> string) list res" where
  "check_fields keys key d [] = Inr []"
| "check_fields keys key d (f # fs) =
     (case check_field keys key (dget d f) of
        Inl err \<Rightarrow> Inl err
      | Inr es \<Rightarrow> (case check_fields keys key d fs of Inl err \<Rightarrow> Inl err | Inr es' \<Rightarrow> Inr (es @ es')))"

definition node_key_of :: "json \<Rightarrow> string" where
  "node_key_of n = (case dget (as_dict n) ''key'' of JStr k \<Rightarrow> k | _ \<Rightarrow> [])"

fun check_edges :: "string list \<Rightarrow> json list \<Rightarrow> (string \<times> string) list res" where
  "check_edges keys [] = Inr []"
| "check_edges keys (n # ns) =
     (case check_fields keys (node_key_of n) (as_dict n) edge_fields of
        Inl err \<Rightarrow> Inl err
      | Inr es \<Rightarrow> (case check_edges keys ns of Inl err \<Rightarrow> Inl err | Inr es' \<Rightarrow> Inr (es @ es')))"

definition validate_definition :: "json \<Rightarrow> json res" where
  "validate_definition definition =
     (case definition of
        JObj d \<Rightarrow>
          (case dget d ''nodes'' of
             JList nodes \<Rightarrow>
               if length nodes > MAX_NODES then Inl (ValidationError ''definition exceeds node cap'')
               else (case check_nodes [] nodes of
                       Inl err \<Rightarrow> Inl err
                     | Inr keys \<Rightarrow>
                         (case check_edges keys nodes of
                            Inl err \<Rightarrow> Inl err
                          | Inr edges \<Rightarrow>
                              if length edges > MAX_EDGES then Inl (ValidationError ''definition exceeds edge cap'')
                              else (case assert_acyclic keys edges of Inl err \<Rightarrow> Inl err | Inr _ \<Rightarrow> Inr definition)))
           | _ \<Rightarrow> Inl (ValidationError ''definition.nodes must be a list''))
      | _ \<Rightarrow> Inl (ValidationError ''definition must be an object''))"

section \<open>What validation accepts\<close>

definition node_ok :: "json \<Rightarrow> bool" where
  "node_ok n = (\<exists>d k. n = JObj d \<and> dget d ''key'' = JStr k \<and> k \<noteq> [] \<and> dget d ''type'' \<in> JStr ` set NODE_TYPES)"

definition str_of :: "json \<Rightarrow> string" where
  "str_of j = (case j of JStr s \<Rightarrow> s | _ \<Rightarrow> [])"

definition refs_of :: "json \<Rightarrow> json list" where
  "refs_of v = (case v of JList rs \<Rightarrow> rs | _ \<Rightarrow> [])"

definition field_ok :: "string list \<Rightarrow> json \<Rightarrow> bool" where
  "field_ok keys v = (truthy v \<longrightarrow> (\<exists>rs. v = JList rs \<and> set rs \<subseteq> JStr ` set keys))"

definition node_edges :: "json \<Rightarrow> (string \<times> string) list" where
  "node_edges n = concat (map (\<lambda>f. map (\<lambda>r. (str_of r, node_key_of n)) (refs_of (dget (as_dict n) f))) edge_fields)"

definition def_edges :: "json list \<Rightarrow> (string \<times> string) list" where
  "def_edges nodes = concat (map node_edges nodes)"

definition wf_definition :: "json \<Rightarrow> bool" where
  "wf_definition j = (\<exists>d nodes. j = JObj d \<and> dget d ''nodes'' = JList nodes \<and> length nodes \<le> 100 \<and>
     (\<forall>n \<in> set nodes. node_ok n) \<and> distinct (map node_key_of nodes) \<and>
     (\<forall>n \<in> set nodes. \<forall>f \<in> set edge_fields. field_ok (map node_key_of nodes) (dget (as_dict n) f)) \<and>
     length (def_edges nodes) \<le> 500 \<and> acyclic (set (def_edges nodes)))"

lemma check_nodes_iff:
  "distinct keys \<Longrightarrow> check_nodes keys ns = Inr ks \<longleftrightarrow>
     (\<forall>n \<in> set ns. node_ok n) \<and> distinct (keys @ map node_key_of ns) \<and> ks = keys @ map node_key_of ns"
proof (induction keys ns rule: check_nodes.induct)
  case (1 keys)
  then show ?case by auto
next
  case (2 keys n ns)
  show ?case
  proof (cases "\<exists>d k. n = JObj d \<and> dget d ''key'' = JStr k")
    case True
    then obtain d k where n: "n = JObj d" "dget d ''key'' = JStr k" by blast
    then have nk: "node_key_of n = k" by (simp add: node_key_of_def as_dict_def)
    show ?thesis
    proof (cases "k \<noteq> [] \<and> k \<notin> set keys \<and> dget d ''type'' \<in> JStr ` set NODE_TYPES")
      case True
      with 2 n nk show ?thesis by (auto simp: node_ok_def)
    next
      case False
      with n nk show ?thesis by (auto simp: node_ok_def)
    qed
  next
    case False
    then show ?thesis
      by (auto simp: node_ok_def split: json.splits)
  qed
qed

lemma check_refs_iff:
  "check_refs keys key rs = Inr es \<longleftrightarrow> set rs \<subseteq> JStr ` set keys \<and> es = map (\<lambda>r. (str_of r, key)) rs"
proof (induction rs arbitrary: es)
  case Nil
  then show ?case by auto
next
  case (Cons r rs)
  then show ?case by (cases r) (auto simp: res_iff str_of_def)
qed

lemma check_field_iff:
  "check_field keys key v = Inr es \<longleftrightarrow> field_ok keys v \<and> es = map (\<lambda>r. (str_of r, key)) (refs_of v)"
  by (cases v) (auto simp: check_field_def field_ok_def refs_of_def check_refs_iff split: if_splits)

lemma check_fields_iff:
  "check_fields keys key d fs = Inr es \<longleftrightarrow> (\<forall>f \<in> set fs. field_ok keys (dget d f)) \<and>
     es = concat (map (\<lambda>f. map (\<lambda>r. (str_of r, key)) (refs_of (dget d f))) fs)"
  by (induction fs arbitrary: es) (auto simp: res_iff check_field_iff)

lemma check_edges_iff:
  "check_edges keys ns = Inr es \<longleftrightarrow>
     (\<forall>n \<in> set ns. \<forall>f \<in> set edge_fields. field_ok keys (dget (as_dict n) f)) \<and> es = def_edges ns"
  by (induction ns arbitrary: es) (auto simp: res_iff check_fields_iff def_edges_def node_edges_def)

lemma def_edges_within:
  assumes "\<forall>n \<in> set nodes. \<forall>f \<in> set edge_fields. field_ok (map node_key_of nodes) (dget (as_dict n) f)"
  shows "set (def_edges nodes) \<subseteq> set (map node_key_of nodes) \<times> set (map node_key_of nodes)"
proof -
  have "str_of r \<in> set (map node_key_of nodes)"
    if nf: "n \<in> set nodes" "f \<in> set edge_fields" and r: "r \<in> set (refs_of (dget (as_dict n) f))" for n f r
  proof -
    obtain rs where "dget (as_dict n) f = JList rs" "r \<in> set rs"
      using r by (cases "dget (as_dict n) f") (auto simp: refs_of_def)
    moreover from this have "truthy (dget (as_dict n) f)" by auto
    ultimately have "r \<in> JStr ` set (map node_key_of nodes)"
      using assms nf by (metis field_ok_def json.inject(5) subset_iff)
    then show ?thesis by (auto simp: str_of_def)
  qed
  then show ?thesis by (auto simp: def_edges_def node_edges_def)
qed

lemma validate_accepts_iff: "validate_definition j = Inr j' \<longleftrightarrow> wf_definition j \<and> j' = j"
proof (cases "\<exists>d nodes. j = JObj d \<and> dget d ''nodes'' = JList nodes")
  case True
  then obtain d nodes where j: "j = JObj d" "dget d ''nodes'' = JList nodes" by blast
  let ?keys = "map node_key_of nodes"
  have "validate_definition j = Inr j' \<longleftrightarrow> length nodes \<le> 100 \<and> check_nodes [] nodes = Inr ?keys \<and>
     check_edges ?keys nodes = Inr (def_edges nodes) \<and> length (def_edges nodes) \<le> 500 \<and>
     assert_acyclic ?keys (def_edges nodes) = Inr () \<and> j' = j"
    by (auto simp: validate_definition_def j MAX_NODES_def MAX_EDGES_def res_iff check_nodes_iff check_edges_iff)
  also have "\<dots> \<longleftrightarrow> wf_definition j \<and> j' = j"
    using assert_acyclic_iff [OF def_edges_within]
    by (auto simp: wf_definition_def j check_nodes_iff check_edges_iff split: if_splits)
  finally show ?thesis .
next
  case False
  then show ?thesis
    by (auto simp: validate_definition_def wf_definition_def split: json.splits)
qed

end
