(* ===== verification/Security.thy ===== *)
theory Security
  imports Exec_Model
begin

text \<open>
  Tokens and stored secrets (\<open>core/security.py\<close>). The token library and the cipher are the fields
  \<open>jwt_encode\<close>, \<open>jwt_decode\<close>, \<open>seal\<close> and \<open>unseal\<close> of the environment; what the code relies on is that
  each decoder undoes its encoder, which the theorems that need it take as a hypothesis.
\<close>

section \<open>Tokens\<close>

text \<open>\<open>iat\<close> and \<open>exp\<close> are whole seconds in the token; a key of \<open>extra\<close> replaces one of the same
  name.\<close>

definition token_claims :: "env \<Rightarrow> int \<Rightarrow> string \<Rightarrow> int \<Rightarrow> dict \<Rightarrow> dict" where
  "token_claims e subject token_type ttl_sec extra =
     fold (\<lambda>(k, v) d. dset d k v) extra
       [(''sub'', JStr (show_int subject)), (''type'', JStr token_type), (''jti'', JStr (new_jti e)),
        (''iat'', JInt (now e div 1000000)), (''exp'', JInt ((now e + seconds ttl_sec) div 1000000))]"

definition create_token :: "env \<Rightarrow> int \<Rightarrow> string \<Rightarrow> int \<Rightarrow> dict \<Rightarrow> string" where
  "create_token e subject token_type ttl_sec extra = jwt_encode e (token_claims e subject token_type ttl_sec extra)"

definition decode_token :: "env \<Rightarrow> string \<Rightarrow> string option \<Rightarrow> dict option" where
  "decode_token e token expected_type =
     (case jwt_decode e token of
        None \<Rightarrow> None
      | Some payload \<Rightarrow>
          if str_truthy expected_type \<and> dget payload ''type'' \<noteq> JStr (the expected_type) then None else Some payload)"

section \<open>Stored secrets\<close>

definition encrypt_secret :: "env \<Rightarrow> int \<Rightarrow> string \<Rightarrow> string" where
  "encrypt_secret e key_version plain = ''v'' @ show_int key_version @ '':'' @ seal e plain"

text \<open>\<open>split(":", 1)\<close>: the text before and after the first colon.\<close>

definition decrypt_secret :: "env \<Rightarrow> string \<Rightarrow> string option" where
  "decrypt_secret e encrypted =
     (if CHR '':'' \<notin> set encrypted then None
      else (let version = takeWhile (\<lambda>c. c \<noteq> CHR '':'') encrypted; payload = tl (dropWhile (\<lambda>c. c \<noteq> CHR '':'') encrypted)
            in if take 1 version \<noteq> ''v'' then None else unseal e payload))"

definition mask_secret :: "env \<Rightarrow> string option \<Rightarrow> string option" where
  "mask_secret e encrypted =
     (if \<not> str_truthy encrypted then None
      else (case decrypt_secret e (the encrypted) of
              None \<Rightarrow> Some ''***''
            | Some plain \<Rightarrow> if length plain \<le> 4 then Some ''****''
                            else Some (take 2 plain @ replicate 6 CHR ''*'' @ drop (length plain - 2) plain)))"

section \<open>Properties\<close>

lemma digits_no_colon: "CHR '':'' \<notin> set (digits n)"
proof (induction n rule: digits.induct)
  case (1 n)
  have c: "char_of (48 + m) \<noteq> CHR '':''" if "m < 10" for m :: nat
  proof
    assume "char_of (48 + m) = CHR '':''"
    then have "of_char (char_of (48 + m)) = (of_char CHR '':'' :: nat)" by simp
    with that show False by (simp add: of_char_of)
  qed
  show ?case
    using 1 c [of n] c [of "n mod 10"] by (subst digits.simps) auto
qed

lemma show_int_no_colon: "CHR '':'' \<notin> set (show_int n)"
  by (simp add: show_int_def digits_no_colon)

lemma split_colon:
  assumes "c \<notin> set xs"
  shows "takeWhile (\<lambda>x. x \<noteq> c) (xs @ c # ys) = xs" "dropWhile (\<lambda>x. x \<noteq> c) (xs @ c # ys) = c # ys"
  using assms by (induction xs) auto

lemma decrypt_encrypt:
  assumes "unseal e (seal e plain) = Some plain"
  shows "decrypt_secret e (encrypt_secret e v plain) = Some plain"
proof -
  have eq: "encrypt_secret e v plain = (''v'' @ show_int v) @ CHR '':'' # seal e plain"
    by (simp add: encrypt_secret_def)
  have no: "CHR '':'' \<notin> set (''v'' @ show_int v)" by (simp add: show_int_no_colon)
  show ?thesis
    using assms split_colon [OF no, of "seal e plain"] unfolding decrypt_secret_def eq by simp
qed

lemma mask_hides:
  assumes "decrypt_secret e s = Some plain" and "mask_secret e (Some s) = Some m" and "s \<noteq> []"
  shows "m = ''****'' \<or> (length m = 10 \<and> take 2 m = take 2 plain \<and> drop 8 m = drop (length plain - 2) plain)"
  using assms by (auto simp: mask_secret_def str_truthy_def numeral_eq_Suc split: if_splits)

end
