(* ===== verification/Workflow_Model.thy ===== *)
theory Workflow_Model
  imports Exec_Service Workflow_Definition Security
begin

text \<open>
  The rows of the workflow domain (\<open>db/models/workflow.py\<close>), its run transition table
  (\<open>WORKFLOW_TRANSITIONS\<close>) and what its handlers use of the language: \<open>json.dumps\<close>, and reading
  of a configuration value that nobody validated.
\<close>

section \<open>Rows\<close>

datatype run_status = RPending | RRunning | RSucceeded | RFailed | RCancelled

datatype node_status =
    NPending | NRunning | NSucceeded | NFailed | NSkipped | NWaiting
  | NCancelled \<comment> \<open>not in \<open>NODE_STATUSES\<close>, but tested by the engine\<close>

definition TERMINAL_RUN_STATUSES :: "run_status list" where
  "TERMINAL_RUN_STATUSES = [RSucceeded, RFailed, RCancelled]"

definition NODE_TERMINAL :: "node_status list" where
  "NODE_TERMINAL = [NSucceeded, NFailed, NSkipped, NCancelled]"

definition TRIGGER_TYPES :: "string list" where
  "TRIGGER_TYPES = [''manual'', ''ticket'', ''schedule'', ''alert'', ''release'']"

definition WORKFLOW_KINDS :: "string list" where
  "WORKFLOW_KINDS = [''workflow'', ''playbook'']"

record workflow =
  wf_name :: string
  wf_kind :: string
  wf_description :: string
  wf_current_version :: int
  wf_enabled :: int
  wf_created_by :: "int option"

record workflow_version =
  wv_workflow_id :: int
  wv_version :: int
  wv_definition :: json
  wv_editor_id :: "int option"

text \<open>\<open>trigger_ref\<close> and \<open>context\<close> are null or an object.\<close>

record workflow_run =
  wr_workflow_id :: int
  wr_workflow_version :: int
  wr_status :: run_status
  wr_trigger_type :: string
  wr_trigger_ref :: json
  wr_context :: json
  wr_started_at :: "time option"
  wr_finished_at :: "time option"
  wr_error :: "string option"
  wr_created_by :: "int option"

record node_run =
  nr_run_id :: int
  nr_node_key :: string
  nr_node_type :: string
  nr_status :: node_status
  nr_exec_task_id :: "int option"
  nr_approval_id :: "int option"
  nr_attempt :: int
  nr_output :: json
  nr_error :: "string option"
  nr_started_at :: "time option"
  nr_finished_at :: "time option"
  nr_updated_at :: time \<comment> \<open>read only while \<open>started_at\<close> is null, so its value at the insert is kept\<close>

record wf_db = exec_db +
  workflows :: "workflow table"
  wf_versions :: "workflow_version table"
  wf_runs :: "workflow_run table"
  node_runs :: "node_run table"

definition upd_run :: "int \<Rightarrow> (workflow_run \<Rightarrow> workflow_run) \<Rightarrow> 'z wf_db_scheme \<Rightarrow> 'z wf_db_scheme" where
  "upd_run i f w = w\<lparr>wf_runs := tupd i f (wf_runs w)\<rparr>"

definition upd_node :: "int \<Rightarrow> (node_run \<Rightarrow> node_run) \<Rightarrow> 'z wf_db_scheme \<Rightarrow> 'z wf_db_scheme" where
  "upd_node i f w = w\<lparr>node_runs := tupd i f (node_runs w)\<rparr>"

definition nodes_of :: "'z wf_db_scheme \<Rightarrow> int \<Rightarrow> (int \<times> node_run) list" where
  "nodes_of w rid = tselect (\<lambda>n. nr_run_id n = rid) (node_runs w)"

definition version_row :: "'z wf_db_scheme \<Rightarrow> int \<Rightarrow> int \<Rightarrow> (int \<times> workflow_version) option" where
  "version_row w wid v = tfirst (\<lambda>r. wv_workflow_id r = wid \<and> wv_version r = v) (wf_versions w)"

section \<open>Run transitions\<close>

datatype run_action = RunStart | RunSucceed | RunFail | RunCancel

fun WORKFLOW_TRANSITIONS :: "run_action \<Rightarrow> run_status list \<times> run_status" where
  "WORKFLOW_TRANSITIONS RunStart = ([RPending], RRunning)"
| "WORKFLOW_TRANSITIONS RunSucceed = ([RRunning], RSucceeded)"
| "WORKFLOW_TRANSITIONS RunFail = ([RRunning], RFailed)"
| "WORKFLOW_TRANSITIONS RunCancel = ([RPending, RRunning], RCancelled)"

interpretation run_machine: action_machine WORKFLOW_TRANSITIONS
  "\<lambda>s. s \<in> set TERMINAL_RUN_STATUSES" "\<lambda>s. True"
proof unfold_locales
  fix s a
  assume "s \<in> set TERMINAL_RUN_STATUSES"
  then show "\<not> action_allowed WORKFLOW_TRANSITIONS a s"
    by (cases a) (auto simp: action_allowed_def TERMINAL_RUN_STATUSES_def)
qed simp

definition apply_run_transition :: "workflow_run \<Rightarrow> run_action \<Rightarrow> workflow_run res" where
  "apply_run_transition run action =
     (if \<not> action_allowed WORKFLOW_TRANSITIONS action (wr_status run)
      then Inl (ConflictError ''action not allowed in the status of the run'')
      else Inr (run\<lparr>wr_status := snd (WORKFLOW_TRANSITIONS action)\<rparr>))"

section \<open>Values nobody validated\<close>

text \<open>\<open>k in x\<close>, \<open>x[k]\<close> and \<open>x.get(k)\<close> with a string \<open>k\<close>; \<open>None\<close> is the exception on a value that
  does not support it.\<close>

fun py_in :: "string \<Rightarrow> json \<Rightarrow> bool option" where
  "py_in k (JObj d) = Some (dhas d k)"
| "py_in k (JStr s) = Some (contains k s)"
| "py_in k (JList xs) = Some (JStr k \<in> set xs)"
| "py_in k _ = None"

fun py_get :: "json \<Rightarrow> string \<Rightarrow> json option" where
  "py_get (JObj d) k = Some (dget d k)"
| "py_get _ k = None"

text \<open>\<open>x or {}\<close>.\<close>

definition or_empty :: "json \<Rightarrow> json" where
  "or_empty v = (if truthy v then v else JObj [])"

text \<open>\<open>float(x)\<close>; \<open>None\<close> is \<open>TypeError\<close> or \<open>ValueError\<close>.\<close>

fun py_float :: "env \<Rightarrow> json \<Rightarrow> rat option" where
  "py_float e (JInt n) = Some (of_int n)"
| "py_float e (JFloat r) = Some r"
| "py_float e (JBool b) = Some (if b then 1 else 0)"
| "py_float e (JStr s) = float_of_str e s"
| "py_float e _ = None"

text \<open>\<open>json.dumps\<close> of the standard library, with its default separators; \<open>asc\<close> is \<open>ensure_ascii\<close>.\<close>

definition hex_digit :: "nat \<Rightarrow> char" where
  "hex_digit n = char_of (if n < 10 then 48 + n else 87 + n)"

definition json_char :: "bool \<Rightarrow> char \<Rightarrow> string" where
  "json_char asc c = (let n = of_char c :: nat in
     if n = 34 then [char_of (92::nat), char_of (34::nat)]
     else if n = 92 then [char_of (92::nat), char_of (92::nat)]
     else if n = 8 then [char_of (92::nat), CHR ''b'']
     else if n = 9 then [char_of (92::nat), CHR ''t'']
     else if n = 10 then [char_of (92::nat), CHR ''n'']
     else if n = 12 then [char_of (92::nat), CHR ''f'']
     else if n = 13 then [char_of (92::nat), CHR ''r'']
     else if n < 32 \<or> asc \<and> 128 \<le> n
     then [char_of (92::nat), CHR ''u'', CHR ''0'', CHR ''0'', hex_digit (n div 16), hex_digit (n mod 16)]
     else [c])"

definition json_quote :: "bool \<Rightarrow> string \<Rightarrow> string" where
  "json_quote asc s = char_of (34::nat) # concat (map (json_char asc) s) @ [char_of (34::nat)]"

fun json_dumps :: "bool \<Rightarrow> env \<Rightarrow> json \<Rightarrow> string" where
  "json_dumps asc e JNull = ''null''"
| "json_dumps asc e (JBool b) = (if b then ''true'' else ''false'')"
| "json_dumps asc e (JInt n) = show_int n"
| "json_dumps asc e (JFloat r) = float_repr e r"
| "json_dumps asc e (JStr s) = json_quote asc s"
| "json_dumps asc e (JList xs) = ''['' @ join '', '' (map (json_dumps asc e) xs) @ '']''"
| "json_dumps asc e (JObj kvs) = ''{'' @ join '', '' (map (\<lambda>kv. json_quote asc (fst kv) @ '': '' @ json_dumps asc e (snd kv)) kvs) @ ''}''"

end
