(* ===== verification/Workflow_Engine.thy ===== *)
theory Workflow_Engine
  imports Workflow_Model
begin

text \<open>
  The workflow driver (\<open>workflow_engine.py\<close>): one \<open>step\<close> of a run activates its ready nodes,
  advances the running and the waiting ones and finalises the run.

  A step works in one database session. What it has written so far is visible to it, but the
  shared execution core commits in the middle of a step, so an exception takes the database
  back to the last of these commits: \<open>outcome\<close> carries the session's view and the last committed
  database. The clock stands still during a step. \<open>on_run_failed\<close> is the seam of the same name.
\<close>

section \<open>Definition\<close>

definition CALLBACK_TTL_HOURS :: int where
  "CALLBACK_TTL_HOURS = 24"

definition CALLBACK_DEFAULT_TIMEOUT :: int where
  "CALLBACK_DEFAULT_TIMEOUT = 86400"

definition MAX_TIMEOUT :: int where
  "MAX_TIMEOUT = 86400"

definition WORKFLOW_APPROVAL_BIZ_OFFSET :: int where
  "WORKFLOW_APPROVAL_BIZ_OFFSET = 5000000000"

text \<open>The nodes of a stored definition by key, in its order. A stored definition was validated,
  so its keys are unique.\<close>

definition def_nodes :: "json \<Rightarrow> (string \<times> dict) list" where
  "def_nodes definition =
     concat (map (\<lambda>n. case n of JObj d \<Rightarrow> (case dget d ''key'' of JStr k \<Rightarrow> [(k, d)] | _ \<Rightarrow> []) | _ \<Rightarrow> [])
       (refs_of (dget (as_dict definition) ''nodes'')))"

definition load_definition :: "'z wf_db_scheme \<Rightarrow> workflow_run \<Rightarrow> json \<times> (string \<times> dict) list" where
  "load_definition w run =
     (let definition = (case version_row w (wr_workflow_id run) (wr_workflow_version run) of
            None \<Rightarrow> JObj [] | Some (i, r) \<Rightarrow> or_empty (wv_definition r))
      in (definition, def_nodes definition))"

definition node_of :: "(string \<times> dict) list \<Rightarrow> string \<Rightarrow> dict" where
  "node_of defnodes k = (case map_of defnodes k of None \<Rightarrow> [] | Some d \<Rightarrow> d)"

definition cfg :: "dict \<Rightarrow> json" where
  "cfg defnode = or_empty (dget defnode ''config'')"

text \<open>The outer \<open>None\<close> is an exception, the inner one no timeout.\<close>

definition clamp_timeout :: "json \<Rightarrow> int option" where
  "clamp_timeout t = (case py_int t of None \<Rightarrow> None
     | Some n \<Rightarrow> Some (if n < 0 then 0 else if n > MAX_TIMEOUT then MAX_TIMEOUT else n))"

definition timeout_sec :: "dict \<Rightarrow> json \<Rightarrow> string \<Rightarrow> int option option" where
  "timeout_sec defnode definition node_type =
     (let c = cfg defnode; dflt = or_empty (dget (as_dict definition) ''defaults'')
      in case py_in ''timeout_sec'' c of
           None \<Rightarrow> None
         | Some True \<Rightarrow> map_option clamp_timeout (py_get c ''timeout_sec'')
         | Some False \<Rightarrow>
             (case py_in ''timeout_sec'' dflt of
                None \<Rightarrow> None
              | Some True \<Rightarrow> map_option clamp_timeout (py_get dflt ''timeout_sec'')
              | Some False \<Rightarrow> Some (if node_type = ''callback'' then Some CALLBACK_DEFAULT_TIMEOUT else None)))"

definition elapsed :: "env \<Rightarrow> node_run \<Rightarrow> int" where
  "elapsed e n = now e - (case nr_started_at n of Some t \<Rightarrow> t | None \<Rightarrow> nr_updated_at n)"

text \<open>The sources whose \<open>on_success\<close> (\<open>on_failure\<close>) names a node.\<close>

definition edge_srcs :: "string \<Rightarrow> (string \<times> dict) list \<Rightarrow> string \<Rightarrow> string list" where
  "edge_srcs field defnodes target =
     map fst (filter (\<lambda>(k, d). JStr target \<in> set (refs_of (dget d field))) defnodes)"

datatype verdict = Ready | Skip | Wait

definition verdict_of ::
  "(string \<times> dict) list \<Rightarrow> (string \<Rightarrow> node_status option) \<Rightarrow> string \<Rightarrow> verdict" where
  "verdict_of defnodes status key =
     (let deps = map str_of (refs_of (dget (node_of defnodes key) ''depends_on''));
          fail_srcs = edge_srcs ''on_failure'' defnodes key;
          succ_srcs = edge_srcs ''on_success'' defnodes key
      in if \<exists>s \<in> set fail_srcs. status s = Some NFailed then Ready
         else if \<exists>s \<in> set succ_srcs. status s = Some NFailed then Skip
         else if \<exists>d \<in> set deps. status d \<in> {Some NFailed, Some NSkipped, Some NCancelled} then Skip
         else if \<exists>d \<in> set deps. status d \<noteq> Some NSucceeded then Wait
         else if \<exists>s \<in> set succ_srcs. status s \<noteq> Some NSucceeded then Wait
         else Ready)"

section \<open>Node state\<close>

definition add_output :: "dict \<Rightarrow> node_run \<Rightarrow> node_run" where
  "add_output extra n = n\<lparr>nr_output := JObj (fold (\<lambda>(k, v) d. dset d k v) extra (as_dict (nr_output n)))\<rparr>"

definition succeed_node :: "env \<Rightarrow> dict \<Rightarrow> node_run \<Rightarrow> node_run" where
  "succeed_node e extra n =
     (let n1 = n\<lparr>nr_status := NSucceeded, nr_finished_at := Some (now e), nr_error := None\<rparr>
      in if extra = [] then n1 else add_output extra n1)"

definition fail_node :: "env \<Rightarrow> string \<Rightarrow> string \<Rightarrow> node_run \<Rightarrow> node_run" where
  "fail_node e reason code n =
     (add_output [(''reason'', JStr code)] n)\<lparr>nr_status := NFailed, nr_error := Some reason, nr_finished_at := Some (now e)\<rparr>"

definition start_stamp :: "env \<Rightarrow> node_run \<Rightarrow> node_run" where
  "start_stamp e n = n\<lparr>nr_started_at := Some (case nr_started_at n of Some t \<Rightarrow> t | None \<Rightarrow> now e)\<rparr>"

text \<open>\<open>expires_at\<close> of the callback record is shown, never read, and left out.\<close>

definition pending_callback_info :: "env \<Rightarrow> int \<Rightarrow> node_run \<Rightarrow> json" where
  "pending_callback_info e rid n = JObj
     [(''token'', JStr (create_token e rid ''wf_callback'' (CALLBACK_TTL_HOURS * 3600)
          [(''run_id'', JInt rid), (''node_key'', JStr (nr_node_key n))])),
      (''url'', JStr (''/api/v1/workflow-runs/'' @ show_int rid @ ''/callback/'' @ nr_node_key n))]"

definition enter_waiting_callback :: "env \<Rightarrow> int \<Rightarrow> node_run \<Rightarrow> node_run" where
  "enter_waiting_callback e rid n =
     (add_output [(''callback'', pending_callback_info e rid n)] (start_stamp e n))\<lparr>nr_status := NWaiting\<rparr>"

datatype 'w outcome = Ok bool 'w 'w | Raise 'w

text \<open>The arguments of \<open>create_exec_task_record\<close>, at the types its columns have; \<open>None\<close> is an
  exception on a configuration that does not have them.\<close>

fun int_list :: "json list \<Rightarrow> int list option" where
  "int_list [] = Some []"
| "int_list (JInt n # xs) = map_option ((#) n) (int_list xs)"
| "int_list (_ # xs) = None"

fun opt_int :: "json \<Rightarrow> int option option" where
  "opt_int JNull = Some None"
| "opt_int (JInt n) = Some (Some n)"
| "opt_int _ = None"

fun opt_str :: "json \<Rightarrow> string option option" where
  "opt_str JNull = Some None"
| "opt_str (JStr s) = Some (Some s)"
| "opt_str _ = None"

fun opt_params :: "env \<Rightarrow> json \<Rightarrow> (string \<times> string) list option" where
  "opt_params e JNull = Some []"
| "opt_params e (JObj d) = Some (map (\<lambda>(k, v). (k, case v of JStr s \<Rightarrow> s | _ \<Rightarrow> json_text e v)) d)"
| "opt_params e _ = None"

definition exec_request :: "env \<Rightarrow> workflow_run \<Rightarrow> string \<Rightarrow> json \<Rightarrow> exec_req option" where
  "exec_request e run key c =
     (case c of
        JObj d \<Rightarrow>
          (case (case or_empty (dget d ''host_ids'') of JList xs \<Rightarrow> int_list xs | JObj [] \<Rightarrow> Some [] | _ \<Rightarrow> None,
                 opt_int (dget d ''script_id''), opt_int (dget d ''script_version''), opt_str (dget d ''command''),
                 opt_params e (dget d ''params''),
                 if truthy (dget d ''timeout_sec'') then py_int (dget d ''timeout_sec'') else Some 300,
                 if truthy (dget d ''kind'') then map_option Some (case dget d ''kind'' of JStr k \<Rightarrow> Some k | _ \<Rightarrow> None)
                 else Some None) of
             (Some hs, Some sid, Some sver, Some cmd, Some ps, Some tmo, Some kind) \<Rightarrow>
               Some \<lparr>rq_name = take 128 (''workflow:'' @ key),
                 rq_kind = (case kind of Some k \<Rightarrow> k | None \<Rightarrow> if int_truthy sid then ''script'' else ''command''),
                 rq_target_host_ids = hs, rq_script_id = sid, rq_script_version = sver, rq_command = cmd,
                 rq_params = ps, rq_mode = ''batch'', rq_timeout_sec = tmo, rq_retry = 0,
                 rq_created_by = wr_created_by run, rq_requester_id = wr_created_by run,
                 rq_visible_group_ids = None,
                 rq_remediation = (case dget (as_dict (wr_context run)) ''remediation'' of JObj r \<Rightarrow> Some r | _ \<Rightarrow> None)\<rparr>
           | _ \<Rightarrow> None)
      | _ \<Rightarrow> None)"

definition create_exec_task ::
  "env \<Rightarrow> workflow_run \<Rightarrow> int \<Rightarrow> node_run \<Rightarrow> dict \<Rightarrow> 'z wf_db_scheme \<Rightarrow> 'z wf_db_scheme \<Rightarrow> 'z wf_db_scheme outcome" where
  "create_exec_task e run nid node defnode w com =
     (case exec_request e run (nr_node_key node) (cfg defnode) of
        None \<Rightarrow> Raise com
      | Some q \<Rightarrow>
          (case create_exec_task_record e q w of
             Inl _ \<Rightarrow> Raise com
           | Inr (out, w1) \<Rightarrow>
               (let w2 = upd_node nid (\<lambda>n. n\<lparr>nr_exec_task_id := Some (xo_id out)\<rparr>) w1
                in if xo_approve_required out
                   then Ok True (upd_node nid (\<lambda>n. (start_stamp e n)\<lparr>nr_approval_id := xo_approval_id out, nr_status := NWaiting\<rparr>) w2) w1
                   else (let (raised, w3) = kick_off_exec e (xo_id out) True w2 in Ok True w3 w3))))"

definition poll_exec_task :: "env \<Rightarrow> int \<Rightarrow> node_run \<Rightarrow> 'z wf_db_scheme \<Rightarrow> bool \<times> 'z wf_db_scheme" where
  "poll_exec_task e nid node w =
     (case tget (exec_tasks w) (the (nr_exec_task_id node)) of
        None \<Rightarrow> (True, upd_node nid (fail_node e ''engine_restart'' ''engine_restart'') w)
      | Some t \<Rightarrow>
          if xt_status t \<in> {XSuccess, XPartial}
          then (True, upd_node nid (succeed_node e [(''exec_task_id'', JInt (the (nr_exec_task_id node)))]) w)
          else if xt_status t \<in> {XFailed, XTimedOut, XCanceled}
          then (True, upd_node nid (fail_node e ''exec_task_failed'' ''exec_task_failed'') w)
          else if xt_status t = XRunning \<and> nr_status node = NWaiting
          then (True, upd_node nid (\<lambda>n. n\<lparr>nr_status := NRunning\<rparr>) w)
          else (False, w))"

definition create_approval ::
  "env \<Rightarrow> workflow_run \<Rightarrow> int \<Rightarrow> 'z wf_db_scheme \<Rightarrow> 'z wf_db_scheme \<Rightarrow> 'z wf_db_scheme outcome" where
  "create_approval e run nid w com =
     (let (no, w1) = approval_no e w
      in case add_approval (new_approval no ''workflow'' (WORKFLOW_APPROVAL_BIZ_OFFSET + nid)
                (case wr_created_by run of None \<Rightarrow> 0 | Some u \<Rightarrow> u) []) w1 of
           Inl _ \<Rightarrow> Raise com
         | Inr (aid, w2) \<Rightarrow>
             Ok True (upd_node nid (\<lambda>n. (start_stamp e n)\<lparr>nr_approval_id := Some aid, nr_status := NWaiting\<rparr>) w2) com)"

section \<open>Advancing\<close>

text \<open>Whether a \<open>sleep\<close> or \<open>wait\<close> is due; \<open>None\<close> is the exception of \<open>float()\<close>. The text of a list
  or object is no timestamp, which counts as due.\<close>

definition due_reached :: "env \<Rightarrow> node_run \<Rightarrow> dict \<Rightarrow> bool option" where
  "due_reached e node d =
     (if nr_node_type node = ''wait'' \<and> truthy (dget d ''until'')
      then Some (case (case dget d ''until'' of JStr s \<Rightarrow> fromisoformat e (str_replace s ''Z'' ''+00:00'')
                         | JList _ \<Rightarrow> None | JObj _ \<Rightarrow> None
                         | v \<Rightarrow> fromisoformat e (json_text e v)) of
                   None \<Rightarrow> True | Some due \<Rightarrow> now e \<ge> due)
      else map_option (\<lambda>r. of_int (elapsed e node) \<ge> r * 1000000)
             (py_float e (if truthy (dget d ''duration_sec'') then dget d ''duration_sec'' else JInt 0)))"

definition advance_timer ::
  "env \<Rightarrow> int \<Rightarrow> node_run \<Rightarrow> dict \<Rightarrow> json \<Rightarrow> 'z wf_db_scheme \<Rightarrow> 'z wf_db_scheme \<Rightarrow> 'z wf_db_scheme outcome" where
  "advance_timer e nid node defnode definition w com =
     (case timeout_sec defnode definition (nr_node_type node) of
        None \<Rightarrow> Raise com
      | Some tmo \<Rightarrow>
          if (case tmo of None \<Rightarrow> False | Some n \<Rightarrow> elapsed e node \<ge> seconds n)
          then Ok True (upd_node nid (fail_node e ''timeout'' ''timeout'') w) com
          else (case cfg defnode of
                  JObj d \<Rightarrow> (case due_reached e node d of
                               None \<Rightarrow> Raise com
                             | Some True \<Rightarrow> Ok True (upd_node nid (succeed_node e []) w) com
                             | Some False \<Rightarrow> Ok False w com)
                | _ \<Rightarrow> Raise com))"

definition advance_running ::
  "env \<Rightarrow> int \<Rightarrow> workflow_run \<Rightarrow> json \<Rightarrow> (string \<times> dict) list \<Rightarrow> int \<Rightarrow> node_run \<Rightarrow>
   'z wf_db_scheme \<Rightarrow> 'z wf_db_scheme \<Rightarrow> 'z wf_db_scheme outcome" where
  "advance_running e rid run definition defnodes nid node w com =
     (let ntype = nr_node_type node; defnode = node_of defnodes (nr_node_key node)
      in if ntype \<in> {''sleep'', ''wait''} then advance_timer e nid node defnode definition w com
         else if ntype = ''callback'' then Ok True (upd_node nid (enter_waiting_callback e rid) w) com
         else if ntype = ''manual_approval''
         then (if nr_approval_id node = None then create_approval e run nid w com else Ok False w com)
         else if ntype = ''exec_task''
         then (if nr_exec_task_id node = None then create_exec_task e run nid node defnode w com
               else (let (p, w1) = poll_exec_task e nid node w in Ok p w1 com))
         else Ok False w com)"

text \<open>The tail of \<open>_advance_waiting\<close>: the timeout.\<close>

definition waiting_timeout ::
  "env \<Rightarrow> int \<Rightarrow> node_run \<Rightarrow> dict \<Rightarrow> json \<Rightarrow> 'z wf_db_scheme \<Rightarrow> 'z wf_db_scheme \<Rightarrow> 'z wf_db_scheme outcome" where
  "waiting_timeout e nid node defnode definition w com =
     (case timeout_sec defnode definition (nr_node_type node) of
        None \<Rightarrow> Raise com
      | Some tmo \<Rightarrow>
          if (case tmo of None \<Rightarrow> False | Some n \<Rightarrow> elapsed e node \<ge> seconds n)
          then Ok True (upd_node nid (fail_node e ''timeout'' ''timeout'') w) com
          else Ok False w com)"

definition advance_waiting ::
  "env \<Rightarrow> int \<Rightarrow> workflow_run \<Rightarrow> json \<Rightarrow> (string \<times> dict) list \<Rightarrow> int \<Rightarrow> node_run \<Rightarrow>
   'z wf_db_scheme \<Rightarrow> 'z wf_db_scheme \<Rightarrow> 'z wf_db_scheme outcome" where
  "advance_waiting e rid run definition defnodes nid node w com =
     (let defnode = node_of defnodes (nr_node_key node); tail = waiting_timeout e nid node defnode definition w com
      in if nr_node_type node = ''exec_task'' \<and> nr_exec_task_id node \<noteq> None
         then (case poll_exec_task e nid node w of (True, w1) \<Rightarrow> Ok True w1 com | (False, _) \<Rightarrow> tail)
         else if nr_node_type node = ''manual_approval'' \<and> nr_approval_id node \<noteq> None
         then (case tget (approvals w) (the (nr_approval_id node)) of
                 None \<Rightarrow> tail
               | Some a \<Rightarrow>
                   if ap_status a = AApproved then Ok True (upd_node nid (succeed_node e []) w) com
                   else if ap_status a \<in> {ARejected, ACanceled}
                   then Ok True (upd_node nid (fail_node e ''approval_rejected'' ''approval_rejected'') w) com
                   else tail)
         else tail)"

section \<open>The step\<close>

text \<open>The first loop; \<open>status\<close> is the dict it updates as it goes, \<open>acts\<close> the keys it activated.\<close>

definition activate :: "env \<Rightarrow> node_run \<Rightarrow> node_run" where
  "activate e n = n\<lparr>nr_status := NRunning, nr_attempt := nr_attempt n + 1, nr_started_at := Some (now e)\<rparr>"

definition skip_node :: "env \<Rightarrow> node_run \<Rightarrow> node_run" where
  "skip_node e n = n\<lparr>nr_status := NSkipped, nr_finished_at := Some (now e)\<rparr>"

fun activate_nodes ::
  "env \<Rightarrow> (string \<times> dict) list \<Rightarrow> (int \<times> node_run) list \<Rightarrow> (string \<Rightarrow> node_status option) \<Rightarrow>
   'z wf_db_scheme \<Rightarrow> string list \<times> bool \<times> 'z wf_db_scheme" where
  "activate_nodes e defnodes [] status w = ([], False, w)"
| "activate_nodes e defnodes ((nid, n) # ns) status w =
     (if nr_status n \<noteq> NPending then activate_nodes e defnodes ns status w
      else (case verdict_of defnodes status (nr_node_key n) of
              Ready \<Rightarrow> (let (acts, p, w1) = activate_nodes e defnodes ns (status(nr_node_key n \<mapsto> NRunning)) (upd_node nid (activate e) w)
                        in (nr_node_key n # acts, True, w1))
            | Skip \<Rightarrow> (let (acts, p, w1) = activate_nodes e defnodes ns (status(nr_node_key n \<mapsto> NSkipped)) (upd_node nid (skip_node e) w)
                       in (acts, True, w1))
            | Wait \<Rightarrow> activate_nodes e defnodes ns status w))"

text \<open>The two advancing loops: the node's fields are read when its turn comes.\<close>

fun advance_loop ::
  "(node_run \<Rightarrow> bool) \<Rightarrow> (int \<Rightarrow> node_run \<Rightarrow> 'z wf_db_scheme \<Rightarrow> 'z wf_db_scheme \<Rightarrow> 'z wf_db_scheme outcome) \<Rightarrow>
   int list \<Rightarrow> bool \<Rightarrow> 'z wf_db_scheme \<Rightarrow> 'z wf_db_scheme \<Rightarrow> 'z wf_db_scheme outcome" where
  "advance_loop sel adv [] p w com = Ok p w com"
| "advance_loop sel adv (nid # nids) p w com =
     (case tget (node_runs w) nid of
        None \<Rightarrow> advance_loop sel adv nids p w com
      | Some n \<Rightarrow>
          if \<not> sel n then advance_loop sel adv nids p w com
          else (case adv nid n w com of
                  Raise c \<Rightarrow> Raise c
                | Ok p' w' com' \<Rightarrow> advance_loop sel adv nids (p \<or> p') w' com'))"

definition finalise ::
  "(int \<Rightarrow> 'z wf_db_scheme \<Rightarrow> 'z wf_db_scheme) \<Rightarrow> env \<Rightarrow> int \<Rightarrow> bool \<Rightarrow> 'z wf_db_scheme \<Rightarrow> bool \<times> 'z wf_db_scheme" where
  "finalise on_run_failed e rid p w =
     (let nodes = map snd (nodes_of w rid)
      in if nodes \<noteq> [] \<and> (\<forall>n \<in> set nodes. nr_status n \<in> set NODE_TERMINAL)
         then (let w1 = (case filter (\<lambda>n. nr_status n = NFailed) nodes of
                           [] \<Rightarrow> upd_run rid (\<lambda>r. r\<lparr>wr_status := RSucceeded\<rparr>) w
                         | n # _ \<Rightarrow> on_run_failed rid (upd_run rid (\<lambda>r. r\<lparr>wr_status := RFailed,
                              wr_error := Some (if str_truthy (nr_error n) then the (nr_error n) else ''workflow node failed'')\<rparr>) w))
               in (True, upd_run rid (\<lambda>r. r\<lparr>wr_finished_at := Some (now e)\<rparr>) w1))
         else (p, w))"

definition begin_run :: "env \<Rightarrow> workflow_run \<Rightarrow> workflow_run" where
  "begin_run e r = (if wr_status r = RPending
     then r\<lparr>wr_status := RRunning, wr_started_at := Some (case wr_started_at r of Some t \<Rightarrow> t | None \<Rightarrow> now e)\<rparr> else r)"

definition status_map :: "(int \<times> node_run) list \<Rightarrow> string \<Rightarrow> node_status option" where
  "status_map nodes = map_of (map (\<lambda>(i, n). (nr_node_key n, nr_status n)) nodes)"

definition step ::
  "(int \<Rightarrow> 'z wf_db_scheme \<Rightarrow> 'z wf_db_scheme) \<Rightarrow> env \<Rightarrow> int \<Rightarrow> 'z wf_db_scheme \<Rightarrow> 'z wf_db_scheme outcome" where
  "step on_run_failed e rid w =
     (case tget (wf_runs w) rid of
        None \<Rightarrow> Ok False w w
      | Some run \<Rightarrow>
          if wr_status run \<in> set TERMINAL_RUN_STATUSES then Ok False w w
          else
            (let (definition, defnodes) = load_definition w run;
                 nodes = nodes_of w rid; nids = map fst nodes;
                 (acts, p, w1) = activate_nodes e defnodes nodes (status_map nodes) (upd_run rid (begin_run e) w)
             in case advance_loop (\<lambda>n. nr_status n = NRunning \<and> nr_node_key n \<notin> set acts)
                       (advance_running e rid run definition defnodes) nids (p \<or> wr_status run = RPending) w1 w of
                  Raise c \<Rightarrow> Raise c
                | Ok p2 w2 com2 \<Rightarrow>
                    (case advance_loop (\<lambda>n. nr_status n = NWaiting)
                            (advance_waiting e rid run definition defnodes) nids p2 w2 com2 of
                       Raise c \<Rightarrow> Raise c
                     | Ok p3 w3 com3 \<Rightarrow> (let (p4, w4) = finalise on_run_failed e rid p3 w3 in Ok p4 w4 w4))))"

section \<open>The driver\<close>

text \<open>One turn of the driver thread: a step in a session of its own, whose exception is logged
  and rolls the session back.\<close>

definition driver_tick ::
  "(int \<Rightarrow> 'z wf_db_scheme \<Rightarrow> 'z wf_db_scheme) \<Rightarrow> int \<Rightarrow> env \<Rightarrow> 'z wf_db_scheme \<Rightarrow> 'z wf_db_scheme" where
  "driver_tick on_run_failed rid e w =
     (case tget (wf_runs w) rid of
        None \<Rightarrow> w
      | Some run \<Rightarrow>
          if wr_status run \<in> set TERMINAL_RUN_STATUSES then w
          else (case step on_run_failed e rid w of Ok p w' c \<Rightarrow> w' | Raise c \<Rightarrow> c))"

definition driver_loop ::
  "(int \<Rightarrow> 'z wf_db_scheme \<Rightarrow> 'z wf_db_scheme) \<Rightarrow> int \<Rightarrow> env list \<Rightarrow> 'z wf_db_scheme \<Rightarrow> 'z wf_db_scheme" where
  "driver_loop on_run_failed rid ticks w = fold (driver_tick on_run_failed rid) ticks w"

definition recover_runs :: "'z wf_db_scheme \<Rightarrow> int list" where
  "recover_runs w = map fst (tselect (\<lambda>r. wr_status r = RRunning) (wf_runs w))"

end
