(* ===== verification/Workflow_Props.thy ===== *)
theory Workflow_Props
  imports Exec_Invariants Workflow_Engine
begin

text \<open>
  What a step of the workflow engine promises: finished nodes and finished runs stay as they
  are, a node is activated only when its edges allow it, a run is finalised by the statuses of
  its nodes, and a definition whose only edges are dependencies cannot get stuck.
\<close>

section \<open>The execution core leaves the workflow tables alone\<close>

lemma wf_more:
  fixes w w' :: "'z wf_db_scheme"
  assumes "exec_db.more w' = exec_db.more w"
  shows "node_runs w' = node_runs w" "wf_runs w' = wf_runs w" "wf_versions w' = wf_versions w"
  using assms by (cases w; cases w'; simp)+

section \<open>Finished nodes stay\<close>

definition node_final :: "node_run \<Rightarrow> bool" where
  "node_final n = (nr_status n \<in> set NODE_TERMINAL)"

text \<open>What the advancing loops do to the node rows: finished and pending ones stay, keys and types
  and the run of a node never change, no row comes or goes, and the run rows are kept.\<close>

definition node_kept :: "node_run \<Rightarrow> node_run \<Rightarrow> bool" where
  "node_kept n n' = (nr_run_id n' = nr_run_id n \<and> nr_node_key n' = nr_node_key n \<and> nr_node_type n' = nr_node_type n \<and>
     (node_final n \<or> nr_status n = NPending \<longrightarrow> n' = n))"

definition nodes_kept :: "'z wf_db_scheme \<Rightarrow> 'z wf_db_scheme \<Rightarrow> bool" where
  "nodes_kept w w' = ((\<forall>i. rel_option node_kept (tget (node_runs w) i) (tget (node_runs w') i)) \<and>
     (table_ok (node_runs w) \<longrightarrow> table_ok (node_runs w')) \<and> wf_runs w' = wf_runs w)"

lemma node_kept_refl [simp]: "node_kept n n"
  by (simp add: node_kept_def)

lemma node_kept_trans: "node_kept a b \<Longrightarrow> node_kept b c \<Longrightarrow> node_kept a c"
  unfolding node_kept_def by metis

lemma rel_node_kept_refl [simp]: "rel_option node_kept x x"
  by (cases x) auto

lemma nodes_kept_refl [simp]: "nodes_kept w w"
  by (simp add: nodes_kept_def)

lemma nodes_kept_trans: "nodes_kept a b \<Longrightarrow> nodes_kept b c \<Longrightarrow> nodes_kept a c"
proof -
  assume ab: "nodes_kept a b" and bc: "nodes_kept b c"
  have "rel_option node_kept (tget (node_runs a) i) (tget (node_runs c) i)" for i
    using ab bc unfolding nodes_kept_def
    by (cases "tget (node_runs a) i"; cases "tget (node_runs b) i"; cases "tget (node_runs c) i")
       (auto dest!: spec [of _ i] intro: node_kept_trans)
  with ab bc show ?thesis by (simp add: nodes_kept_def)
qed

lemma nodes_kept_more:
  fixes w w' :: "'z wf_db_scheme"
  assumes "exec_db.more w' = exec_db.more w"
  shows "nodes_kept w w'"
  using wf_more [OF assms] by (simp add: nodes_kept_def)

lemma nodes_kept_upd:
  assumes "\<And>n. tget (node_runs w) i = Some n \<Longrightarrow> node_kept n (f n)"
  shows "nodes_kept w (upd_node i f w)"
  using assms by (cases "tget (node_runs w) i") (auto simp: nodes_kept_def upd_node_def)

lemma nodes_kept_get:
  assumes "nodes_kept w w'" and "tget (node_runs w) i = Some n"
  shows "\<exists>n'. tget (node_runs w') i = Some n' \<and> node_kept n n'"
proof -
  have "rel_option node_kept (tget (node_runs w) i) (tget (node_runs w') i)"
    using assms(1) by (simp add: nodes_kept_def)
  with assms(2) show ?thesis by (cases "tget (node_runs w') i") auto
qed

text \<open>A live node: what a step may still change.\<close>

definition live_node :: "node_run \<Rightarrow> bool" where
  "live_node n = (nr_status n = NRunning \<or> nr_status n = NWaiting)"

lemma live_not_final: "live_node n \<Longrightarrow> \<not> node_final n \<and> nr_status n \<noteq> NPending"
  by (auto simp: live_node_def node_final_def NODE_TERMINAL_def)

lemma node_changes [simp]:
  "nr_run_id (succeed_node e x n) = nr_run_id n" "nr_node_key (succeed_node e x n) = nr_node_key n"
  "nr_node_type (succeed_node e x n) = nr_node_type n" "nr_status (succeed_node e x n) = NSucceeded"
  "nr_run_id (fail_node e r c n) = nr_run_id n" "nr_node_key (fail_node e r c n) = nr_node_key n"
  "nr_node_type (fail_node e r c n) = nr_node_type n" "nr_status (fail_node e r c n) = NFailed"
  "nr_run_id (start_stamp e n) = nr_run_id n" "nr_node_key (start_stamp e n) = nr_node_key n"
  "nr_node_type (start_stamp e n) = nr_node_type n" "nr_status (start_stamp e n) = nr_status n"
  "nr_run_id (enter_waiting_callback e rid n) = nr_run_id n" "nr_node_key (enter_waiting_callback e rid n) = nr_node_key n"
  "nr_node_type (enter_waiting_callback e rid n) = nr_node_type n" "nr_status (enter_waiting_callback e rid n) = NWaiting"
  by (simp_all add: succeed_node_def fail_node_def start_stamp_def enter_waiting_callback_def add_output_def Let_def)

text \<open>An update of one live node.\<close>

lemma nodes_kept_live:
  assumes "tget (node_runs w) i = Some n" and "live_node n"
    and "nr_run_id (f n) = nr_run_id n \<and> nr_node_key (f n) = nr_node_key n \<and> nr_node_type (f n) = nr_node_type n"
  shows "nodes_kept w (upd_node i f w)"
  using assms by (intro nodes_kept_upd) (auto simp: node_kept_def dest: live_not_final)

text \<open>Both databases of an outcome keep the nodes.\<close>

definition outcome_kept :: "'z wf_db_scheme \<Rightarrow> 'z wf_db_scheme \<Rightarrow> 'z wf_db_scheme outcome \<Rightarrow> bool" where
  "outcome_kept w com r = (case r of
     Ok p w' com' \<Rightarrow> nodes_kept w w' \<and> (com' = com \<or> nodes_kept w com')
   | Raise c \<Rightarrow> c = com)"

lemma kept_poll:
  assumes "tget (node_runs w) nid = Some n" and "live_node n"
    and "poll_exec_task e nid n w = (b, w')"
  shows "nodes_kept w w'"
  using nodes_kept_live [OF assms(1,2)] assms(3)
  by (auto simp: poll_exec_task_def split: option.splits if_splits)

lemma kept_create_exec_task:
  assumes n: "tget (node_runs w) nid = Some n" and live: "live_node n"
  shows "outcome_kept w com (create_exec_task e run nid n d w com)"
proof (cases "create_exec_task e run nid n d w com")
  case (Raise c)
  then show ?thesis
    by (auto simp: outcome_kept_def create_exec_task_def Let_def split: option.splits sum.splits prod.splits if_splits)
next
  case (Ok p w' com')
  then obtain q out w1 where rec: "create_exec_task_record e q w = Inr (out, w1)"
    and res: "(let w2 = upd_node nid (\<lambda>n. n\<lparr>nr_exec_task_id := Some (xo_id out)\<rparr>) w1
        in if xo_approve_required out
           then Ok True (upd_node nid (\<lambda>n. (start_stamp e n)\<lparr>nr_approval_id := xo_approval_id out, nr_status := NWaiting\<rparr>) w2) w1
           else (let (raised, w3) = kick_off_exec e (xo_id out) True w2 in Ok True w3 w3)) = Ok p w' com'"
    by (auto simp: create_exec_task_def split: option.splits sum.splits)
  have k1: "nodes_kept w w1" and n1: "tget (node_runs w1) nid = Some n"
    using nodes_kept_more [OF more_create_record [OF rec]] wf_more(1) [OF more_create_record [OF rec]] n by simp_all
  define w2 where "w2 = upd_node nid (\<lambda>n. n\<lparr>nr_exec_task_id := Some (xo_id out)\<rparr>) w1"
  have k2: "nodes_kept w w2"
    unfolding w2_def using live by (intro nodes_kept_trans [OF k1] nodes_kept_live [OF n1]) (auto simp: live_node_def)
  have n2: "tget (node_runs w2) nid = Some (n\<lparr>nr_exec_task_id := Some (xo_id out)\<rparr>)"
    by (simp add: w2_def upd_node_def n1)
  show ?thesis
  proof (cases "xo_approve_required out")
    case True
    have "nodes_kept w w'"
      using res True live
      by (auto simp: w2_def [symmetric] Let_def live_node_def intro!: nodes_kept_trans [OF k2] nodes_kept_live [OF n2])
    with res True k1 Ok show ?thesis by (simp add: outcome_kept_def Let_def)
  next
    case False
    obtain b w3 where k: "kick_off_exec e (xo_id out) True w2 = (b, w3)" by fastforce
    have "nodes_kept w w3"
      using nodes_kept_trans [OF k2 nodes_kept_more [OF more_kick_off [OF k]]] .
    with res False k Ok show ?thesis by (auto simp: outcome_kept_def w2_def [symmetric])
  qed
qed

lemma kept_create_approval:
  assumes n: "tget (node_runs w) nid = Some n" and live: "live_node n"
  shows "outcome_kept w com (create_approval e run nid w com)"
proof -
  have "nodes_kept w (upd_node nid (\<lambda>n. (start_stamp e n)\<lparr>nr_approval_id := Some aid, nr_status := NWaiting\<rparr>) w2)"
    if a: "approval_no e w = (no, w1)" and b: "add_approval x w1 = Inr (aid, w2)" for no w1 x aid w2
  proof -
    have more: "exec_db.more w2 = exec_db.more w"
      using more_add_approval [OF b] side_approval_no [OF a] more_side by metis
    have "tget (node_runs w2) nid = Some n" using wf_more(1) [OF more] n by simp
    then show ?thesis
      by (intro nodes_kept_trans [OF nodes_kept_more [OF more]] nodes_kept_live [OF _ live]) simp_all
  qed
  then show ?thesis
    by (auto simp: create_approval_def outcome_kept_def split: prod.splits sum.splits)
qed

lemma kept_advance_timer:
  assumes "tget (node_runs w) nid = Some n" and "live_node n"
  shows "outcome_kept w com (advance_timer e nid n d def w com)"
  using nodes_kept_live [OF assms]
  by (auto simp: advance_timer_def outcome_kept_def split: option.splits json.splits bool.splits)

lemma kept_advance_running:
  assumes "tget (node_runs w) nid = Some n" and "live_node n"
  shows "outcome_kept w com (advance_running e rid run def defnodes nid n w com)"
proof -
  have "outcome_kept w com (Ok True (upd_node nid (enter_waiting_callback e rid) w) com)"
    using nodes_kept_live [OF assms] by (simp add: outcome_kept_def)
  moreover have "outcome_kept w com (let (p, w1) = poll_exec_task e nid n w in Ok p w1 com)"
    using kept_poll [OF assms] by (simp add: outcome_kept_def split: prod.splits)
  ultimately show ?thesis
    using kept_advance_timer [OF assms] kept_create_approval [OF assms] kept_create_exec_task [OF assms]
    by (simp add: advance_running_def Let_def) (simp add: outcome_kept_def)
qed

lemma kept_advance_waiting:
  assumes "tget (node_runs w) nid = Some n" and "live_node n"
  shows "outcome_kept w com (advance_waiting e rid run def defnodes nid n w com)"
proof -
  have t: "outcome_kept w com (waiting_timeout e nid n d def w com)" for d
    using nodes_kept_live [OF assms] by (auto simp: waiting_timeout_def outcome_kept_def split: option.splits)
  have "outcome_kept w com (case poll_exec_task e nid n w of (True, w1) \<Rightarrow> Ok True w1 com | (False, _) \<Rightarrow> tail)"
    if "outcome_kept w com tail" for tail
    using kept_poll [OF assms] that by (simp add: outcome_kept_def split: prod.splits bool.splits)
  moreover have "outcome_kept w com (Ok True (upd_node nid (succeed_node e []) w) com)"
    "outcome_kept w com (Ok True (upd_node nid (fail_node e r c) w) com)" for r c
    using nodes_kept_live [OF assms] by (simp_all add: outcome_kept_def)
  ultimately show ?thesis
    using t by (simp add: advance_waiting_def Let_def split: option.splits)
qed

definition loop_kept :: "'z wf_db_scheme \<Rightarrow> 'z wf_db_scheme \<Rightarrow> 'z wf_db_scheme outcome \<Rightarrow> bool" where
  "loop_kept w com r = (case r of
     Ok p w' com' \<Rightarrow> nodes_kept w w' \<and> (com' = com \<or> nodes_kept w com')
   | Raise c \<Rightarrow> c = com \<or> nodes_kept w c)"

lemma kept_advance_loop:
  assumes "\<And>nid n w com. tget (node_runs w) nid = Some n \<Longrightarrow> sel n \<Longrightarrow> outcome_kept w com (adv nid n w com)"
  shows "loop_kept w com (advance_loop sel adv nids p w com)"
proof (induction nids arbitrary: p w com)
  case Nil
  then show ?case by (simp add: loop_kept_def)
next
  case (Cons nid nids)
  show ?case
  proof (cases "tget (node_runs w) nid")
    case (Some n)
    show ?thesis
    proof (cases "sel n")
      case True
      from assms [OF Some True] have a: "outcome_kept w com (adv nid n w com)" .
      show ?thesis
      proof (cases "adv nid n w com")
        case (Ok p' w' com')
        have "loop_kept w' com' (advance_loop sel adv nids (p \<or> p') w' com')" by (rule Cons.IH)
        with a Ok Some True show ?thesis
          by (auto simp: loop_kept_def outcome_kept_def split: outcome.splits intro: nodes_kept_trans)
      qed (use a Some True in \<open>simp add: loop_kept_def outcome_kept_def\<close>)
    qed (use Cons.IH Some in simp)
  qed (use Cons.IH in simp)
qed

section \<open>Activation\<close>

text \<open>When the edges of a node let it start: a source of a failure edge failed, or all its
  dependencies and all sources of success edges succeeded.\<close>

definition enabled :: "(string \<times> dict) list \<Rightarrow> (string \<Rightarrow> node_status option) \<Rightarrow> string \<Rightarrow> bool" where
  "enabled defnodes st k =
     ((\<exists>s \<in> set (edge_srcs ''on_failure'' defnodes k). st s = Some NFailed) \<or>
      (\<forall>d \<in> set (refs_of (dget (node_of defnodes k) ''depends_on'')). st (str_of d) = Some NSucceeded) \<and>
      (\<forall>s \<in> set (edge_srcs ''on_success'' defnodes k). st s = Some NSucceeded))"

lemma verdict_ready: "verdict_of defnodes st k = Ready \<Longrightarrow> enabled defnodes st k"
  by (auto simp: verdict_of_def enabled_def Let_def split: if_splits)

lemma enabled_upd: "enabled defnodes (st(k \<mapsto> v)) x \<Longrightarrow> v \<noteq> NFailed \<Longrightarrow> v \<noteq> NSucceeded \<Longrightarrow> enabled defnodes st x"
  unfolding enabled_def by (smt (verit, best) fun_upd_apply option.inject)

text \<open>\<open>A\<close> holds the keys the loop has activated.\<close>

definition activated ::
  "env \<Rightarrow> (string \<times> dict) list \<Rightarrow> string set \<Rightarrow> (string \<Rightarrow> node_status option) \<Rightarrow> node_run \<Rightarrow> node_run \<Rightarrow> bool" where
  "activated e defnodes A st n n' = (n' = n \<or> nr_status n = NPending \<and>
     (n' = activate e n \<and> nr_node_key n \<in> A \<and> enabled defnodes st (nr_node_key n) \<or> n' = skip_node e n))"

lemma activated_upd:
  "activated e defnodes A (st(k \<mapsto> v)) n n' \<Longrightarrow> v \<noteq> NFailed \<Longrightarrow> v \<noteq> NSucceeded \<Longrightarrow> activated e defnodes A st n n'"
  by (auto simp: activated_def dest: enabled_upd)

definition act_rel ::
  "env \<Rightarrow> (string \<times> dict) list \<Rightarrow> string set \<Rightarrow> (string \<Rightarrow> node_status option) \<Rightarrow> 'z wf_db_scheme \<Rightarrow> 'z wf_db_scheme \<Rightarrow> bool" where
  "act_rel e defnodes A st w w' = ((\<forall>i. rel_option (activated e defnodes A st) (tget (node_runs w) i) (tget (node_runs w') i)) \<and>
     (table_ok (node_runs w) \<longrightarrow> table_ok (node_runs w')) \<and> wf_runs w' = wf_runs w)"

text \<open>One row changed at the head, the rest by the recursive call, which does not touch it.\<close>

lemma act_rel_step:
  assumes n: "tget (node_runs w) nid = Some n" and f: "activated e defnodes A st n (f n)"
    and r: "act_rel e defnodes A (st(k \<mapsto> v)) (upd_node nid f w) w'" and v: "v \<noteq> NFailed" "v \<noteq> NSucceeded"
    and moved: "nr_status (f n) \<noteq> NPending"
  shows "act_rel e defnodes A st w w'"
proof -
  have "rel_option (activated e defnodes A st) (tget (node_runs w) i) (tget (node_runs w') i)" for i
  proof -
    have x: "rel_option (activated e defnodes A (st(k \<mapsto> v))) (tget (node_runs (upd_node nid f w)) i) (tget (node_runs w') i)"
      using r by (simp add: act_rel_def)
    then have y: "rel_option (activated e defnodes A st) (tget (node_runs (upd_node nid f w)) i) (tget (node_runs w') i)"
      by (rule option.rel_mono_strong) (use v in \<open>auto dest: activated_upd\<close>)
    show ?thesis
    proof (cases "i = nid")
      case True
      with y n have "rel_option (activated e defnodes A st) (Some (f n)) (tget (node_runs w') nid)"
        by (simp add: upd_node_def)
      with moved have "tget (node_runs w') nid = Some (f n)"
        by (cases "tget (node_runs w') nid") (auto simp: activated_def)
      with True n f show ?thesis by simp
    next
      case False
      with y show ?thesis by (simp add: upd_node_def)
    qed
  qed
  with r show ?thesis by (simp add: act_rel_def upd_node_def)
qed

lemma rel_activated_refl [simp]: "rel_option (activated e defnodes A st) x x"
  by (cases x) (auto simp: activated_def)

lemma activate_rel:
  assumes "activate_nodes e defnodes ns st w = (acts, p, w')"
    and "\<forall>(i, n) \<in> set ns. tget (node_runs w) i = Some n" and "distinct (map fst ns)" and "set acts \<subseteq> A"
  shows "act_rel e defnodes A st w w'"
  using assms
proof (induction ns arbitrary: st w acts p w')
  case Nil
  then show ?case by (simp add: act_rel_def)
next
  case (Cons x ns)
  obtain nid n where x: "x = (nid, n)" by fastforce
  have n: "tget (node_runs w) nid = Some n" using Cons(3) x by simp
  have rest: "\<forall>(i, n) \<in> set ns. tget (node_runs (upd_node nid f w)) i = Some n" for f
    using Cons(3,4) x by (force simp: upd_node_def)
  have dist: "distinct (map fst ns)" using Cons(4) by simp
  show ?case
  proof (cases "nr_status n = NPending \<and> verdict_of defnodes st (nr_node_key n) \<noteq> Wait")
    case False
    with Cons x dist show ?thesis by (auto split: if_splits verdict.splits)
  next
    case True
    show ?thesis
    proof (cases "verdict_of defnodes st (nr_node_key n)")
      case Ready
      with True Cons(2) x obtain acts' p' where
        a: "activate_nodes e defnodes ns (st(nr_node_key n \<mapsto> NRunning)) (upd_node nid (activate e) w) = (acts', p', w')"
        and sub: "set acts' \<subseteq> A" "nr_node_key n \<in> A" using Cons(5) by (auto split: prod.splits)
      then show ?thesis
        using True verdict_ready [OF Ready]
        by (intro act_rel_step [OF n _ Cons.IH [OF a rest dist sub(1)]]) (simp_all add: activated_def, simp add: activate_def)
    next
      case Skip
      with True Cons(2) x obtain acts' p' where
        a: "activate_nodes e defnodes ns (st(nr_node_key n \<mapsto> NSkipped)) (upd_node nid (skip_node e) w) = (acts', p', w')"
        and sub: "set acts' \<subseteq> A" using Cons(5) by (auto split: prod.splits)
      then show ?thesis
        using True
        by (intro act_rel_step [OF n _ Cons.IH [OF a rest dist sub]]) (simp_all add: activated_def, simp add: skip_node_def)
    qed (use True in simp)
  qed
qed

lemma activate_idle:
  assumes "activate_nodes e defnodes ns st w = (acts, False, w')" and "(i, n) \<in> set ns" and "nr_status n = NPending"
  shows "verdict_of defnodes st (nr_node_key n) = Wait"
  using assms
proof (induction ns arbitrary: w acts w')
  case (Cons x ns)
  obtain nid m where x: "x = (nid, m)" by fastforce
  show ?case
    using Cons x by (auto split: if_splits verdict.splits prod.splits)
qed simp

lemma nodes_of_get:
  assumes "table_ok (node_runs w)"
  shows "(i, n) \<in> set (nodes_of w rid) \<longleftrightarrow> tget (node_runs w) i = Some n \<and> nr_run_id n = rid"
  using in_tselect [OF assms] by (simp add: nodes_of_def)

lemma distinct_nodes_of: "table_ok (node_runs w) \<Longrightarrow> distinct (map fst (nodes_of w rid))"
  by (simp add: nodes_of_def tselect_def table_ok_def distinct_map_filter)

section \<open>What a step promises\<close>

text \<open>The seam for a failed run may write other tables, not the nodes or runs of the engine.\<close>

definition seam_ok :: "(int \<Rightarrow> 'z wf_db_scheme \<Rightarrow> 'z wf_db_scheme) \<Rightarrow> bool" where
  "seam_ok orf = (\<forall>rid w. node_runs (orf rid w) = node_runs w \<and> wf_runs (orf rid w) = wf_runs w)"

text \<open>A row before and after a step, or after the part of it that was committed.\<close>

definition step_node :: "(string \<times> dict) list \<Rightarrow> (string \<Rightarrow> node_status option) \<Rightarrow> node_run \<Rightarrow> node_run \<Rightarrow> bool" where
  "step_node defnodes st n n' = (nr_run_id n' = nr_run_id n \<and> nr_node_key n' = nr_node_key n \<and> nr_node_type n' = nr_node_type n \<and>
     (node_final n \<longrightarrow> n' = n) \<and>
     (nr_status n = NPending \<longrightarrow> n' = n \<or> nr_status n' = NSkipped \<or> enabled defnodes st (nr_node_key n)))"

definition step_nodes :: "(string \<times> dict) list \<Rightarrow> (string \<Rightarrow> node_status option) \<Rightarrow> 'z wf_db_scheme \<Rightarrow> 'z wf_db_scheme \<Rightarrow> bool" where
  "step_nodes defnodes st w w' = (\<forall>i. rel_option (step_node defnodes st) (tget (node_runs w) i) (tget (node_runs w') i))"

lemma step_nodes_refl [simp]: "step_nodes defnodes st w w"
proof -
  have "rel_option (step_node defnodes st) x x" for x
    by (cases x) (auto simp: step_node_def)
  then show ?thesis by (simp add: step_nodes_def)
qed

lemma activated_then_kept:
  assumes "activated e defnodes A st n m" and "node_kept m n'"
  shows "step_node defnodes st n n'"
proof -
  consider "m = n" | "nr_status n = NPending" "m = activate e n" "enabled defnodes st (nr_node_key n)"
    | "nr_status n = NPending" "m = skip_node e n"
    using assms(1) by (auto simp: activated_def)
  then show ?thesis
  proof cases
    case 1
    with assms(2) show ?thesis by (simp add: step_node_def node_kept_def)
  next
    case 2
    then have "\<not> node_final n" by (simp add: node_final_def NODE_TERMINAL_def)
    with 2 assms(2) show ?thesis by (simp add: step_node_def node_kept_def activate_def)
  next
    case 3
    then have "\<not> node_final n" "node_final m" by (simp_all add: node_final_def NODE_TERMINAL_def skip_node_def)
    with 3 assms(2) show ?thesis by (simp add: step_node_def node_kept_def skip_node_def)
  qed
qed

lemma act_then_kept:
  assumes a: "act_rel e defnodes A st w w1" and k: "nodes_kept w1 w2"
  shows "step_nodes defnodes st w w2"
  unfolding step_nodes_def
proof
  fix i
  have 1: "rel_option (activated e defnodes A st) (tget (node_runs w) i) (tget (node_runs w1) i)"
    using a by (simp add: act_rel_def)
  have 2: "rel_option node_kept (tget (node_runs w1) i) (tget (node_runs w2) i)"
    using k by (simp add: nodes_kept_def)
  show "rel_option (step_node defnodes st) (tget (node_runs w) i) (tget (node_runs w2) i)"
    using 1 2 by (cases "tget (node_runs w) i"; cases "tget (node_runs w1) i"; cases "tget (node_runs w2) i")
      (auto intro: activated_then_kept)
qed

lemma finalise_nodes: "seam_ok orf \<Longrightarrow> node_runs (snd (finalise orf e rid p w)) = node_runs w"
  by (auto simp: finalise_def seam_ok_def upd_run_def Let_def split: list.splits)

lemma advance_loop_progress: "advance_loop sel adv nids p w com = Ok p' w' com' \<Longrightarrow> p \<Longrightarrow> p'"
  by (induction nids arbitrary: p w com) (auto split: option.splits if_splits outcome.splits)

text \<open>A step that got past its guards: it activates nodes, and either raises, which leaves the last
  commit, or goes through to the finalisation.\<close>

definition step_head ::
  "env \<Rightarrow> int \<Rightarrow> workflow_run \<Rightarrow> (string \<times> dict) list \<Rightarrow> bool \<Rightarrow> 'z wf_db_scheme \<Rightarrow> 'z wf_db_scheme \<Rightarrow> bool" where
  "step_head e rid run defnodes p w w1 =
     (defnodes = snd (load_definition w run) \<and>
      (\<exists>acts. activate_nodes e defnodes (nodes_of w rid) (status_map (nodes_of w rid)) (upd_run rid (begin_run e) w) = (acts, p, w1) \<and>
        act_rel e defnodes (set acts) (status_map (nodes_of w rid)) (upd_run rid (begin_run e) w) w1))"

lemma step_cases:
  fixes w :: "'z wf_db_scheme"
  assumes run: "tget (wf_runs w) rid = Some run" "wr_status run \<notin> set TERMINAL_RUN_STATUSES"
    and ok: "table_ok (node_runs w)"
  obtains (raised) defnodes p w1 c where "step_head e rid run defnodes p w w1"
      and "c = w \<or> nodes_kept w1 c" and "step orf e rid w = Raise c"
    | (through) defnodes p w1 p3 w3 where "step_head e rid run defnodes p w w1"
      and "nodes_kept w1 w3" and "p \<longrightarrow> p3"
      and "step orf e rid w = (let (p4, w4) = finalise orf e rid p3 w3 in Ok p4 w4 w4)"
proof -
  let ?w = "upd_run rid (begin_run e) w" and ?st = "status_map (nodes_of w rid)" and ?nids = "map fst (nodes_of w rid)"
  obtain dfn defnodes where d: "load_definition w run = (dfn, defnodes)" by fastforce
  obtain acts p w1 where a: "activate_nodes e defnodes (nodes_of w rid) ?st ?w = (acts, p, w1)" by (metis prod_cases3)
  have "act_rel e defnodes (set acts) ?st ?w w1"
    using activate_rel [OF a] nodes_of_get [OF ok] distinct_nodes_of [OF ok] by (auto simp: upd_run_def)
  with d a have head: "step_head e rid run defnodes p w w1" by (simp add: step_head_def)
  define r1 where "r1 = advance_loop (\<lambda>n. nr_status n = NRunning \<and> nr_node_key n \<notin> set acts)
       (advance_running e rid run dfn defnodes) ?nids (p \<or> wr_status run = RPending) w1 w"
  define r2 where "r2 = (\<lambda>p2 (w2 :: 'z wf_db_scheme) com2. advance_loop (\<lambda>n. nr_status n = NWaiting)
       (advance_waiting e rid run dfn defnodes) ?nids p2 w2 com2)"
  have k1: "loop_kept w1 w r1"
    unfolding r1_def by (rule kept_advance_loop) (auto intro: kept_advance_running simp: live_node_def)
  have k2: "loop_kept w2 com2 (r2 p2 w2 com2)" for p2 w2 com2
    unfolding r2_def by (rule kept_advance_loop) (auto intro: kept_advance_waiting simp: live_node_def)
  have st: "step orf e rid w = (case r1 of Raise c \<Rightarrow> Raise c
     | Ok p2 w2 com2 \<Rightarrow> (case r2 p2 w2 com2 of Raise c \<Rightarrow> Raise c
        | Ok p3 w3 com3 \<Rightarrow> (let (p4, w4) = finalise orf e rid p3 w3 in Ok p4 w4 w4)))"
    unfolding r1_def r2_def using run d a by (simp add: step_def Let_def)
  show ?thesis
  proof (cases r1)
    case (Raise c)
    with k1 have "c = w \<or> nodes_kept w1 c" by (simp add: loop_kept_def)
    with head st Raise show ?thesis by (intro raised) auto
  next
    case (Ok p2 w2 com2)
    have p2: "p \<longrightarrow> p2" using advance_loop_progress Ok unfolding r1_def by blast
    have kw2: "nodes_kept w1 w2" "com2 = w \<or> nodes_kept w1 com2"
      using k1 Ok by (auto simp: loop_kept_def)
    show ?thesis
    proof (cases "r2 p2 w2 com2")
      case r: (Raise c)
      have "c = com2 \<or> nodes_kept w2 c" using k2 [of w2 com2 p2] r by (simp add: loop_kept_def)
      with kw2 have "c = w \<or> nodes_kept w1 c" using nodes_kept_trans by blast
      with head st Ok r show ?thesis by (intro raised) auto
    next
      case r: (Ok p3 w3 com3)
      have "nodes_kept w2 w3" using k2 [of w2 com2 p2] r by (simp add: loop_kept_def)
      with kw2 have "nodes_kept w1 w3" using nodes_kept_trans by blast
      moreover have "p2 \<longrightarrow> p3" using advance_loop_progress r unfolding r2_def by blast
      ultimately show ?thesis using p2 st Ok r by (intro through [OF head]) auto
    qed
  qed
qed

text \<open>The database a step leaves: its last commit.\<close>

definition committed :: "'w outcome \<Rightarrow> 'w" where
  "committed r = (case r of Ok p w c \<Rightarrow> w | Raise c \<Rightarrow> c)"

lemma step_keeps_nodes:
  assumes ok: "table_ok (node_runs w)" and seam: "seam_ok orf" and run: "tget (wf_runs w) rid = Some run"
  shows "step_nodes (snd (load_definition w run)) (status_map (nodes_of w rid)) w (committed (step orf e rid w))"
proof (cases "wr_status run \<in> set TERMINAL_RUN_STATUSES")
  case True
  with run show ?thesis by (simp add: step_def committed_def)
next
  case False
  let ?st = "status_map (nodes_of w rid)" and ?d = "snd (load_definition w run)"
  have sn: "step_nodes ?d ?st w v" if "step_head e rid run defnodes p w w1" "nodes_kept w1 v" for defnodes p w1 v
    using act_then_kept [of e ?d _ ?st "upd_run rid (begin_run e) w" w1 v] that
    by (auto simp: step_head_def step_nodes_def upd_run_def)
  show ?thesis
  proof (cases rule: step_cases [OF run False ok, where e = e and orf = orf])
    case (1 defnodes p w1 c)
    then show ?thesis using sn [of defnodes p w1 c] by (auto simp: committed_def)
  next
    case (2 defnodes p w1 p3 w3)
    have "step_nodes ?d ?st w (snd (finalise orf e rid p3 w3))"
      using sn [OF 2(1,2)] finalise_nodes [OF seam, of e rid p3 w3] by (simp add: step_nodes_def)
    with 2(4) show ?thesis by (simp add: committed_def split: prod.splits)
  qed
qed

text \<open>What the final status of a run says of its nodes.\<close>

lemma finalise_run:
  assumes "seam_ok orf" and "finalise orf e rid p w = (p', w')" and "tget (wf_runs w) rid = Some run"
  shows "\<exists>run'. tget (wf_runs w') rid = Some run' \<and>
    (wr_status run' = wr_status run \<or>
     nodes_of w rid \<noteq> [] \<and> (\<forall>(i, n) \<in> set (nodes_of w rid). node_final n) \<and>
       wr_status run' = (if \<exists>(i, n) \<in> set (nodes_of w rid). nr_status n = NFailed then RFailed else RSucceeded))"
proof (cases "nodes_of w rid \<noteq> [] \<and> (\<forall>(i, n) \<in> set (nodes_of w rid). node_final n)")
  case False
  then have "w' = w" using assms(2) by (auto simp: finalise_def Let_def node_final_def split: if_splits)
  with assms(3) show ?thesis by auto
next
  case True
  let ?fl = "filter (\<lambda>n. nr_status n = NFailed) (map snd (nodes_of w rid))"
  have w': "w' = upd_run rid (\<lambda>r. r\<lparr>wr_finished_at := Some (now e)\<rparr>)
     (case ?fl of [] \<Rightarrow> upd_run rid (\<lambda>r. r\<lparr>wr_status := RSucceeded\<rparr>) w
      | n # _ \<Rightarrow> orf rid (upd_run rid (\<lambda>r. r\<lparr>wr_status := RFailed,
           wr_error := Some (if str_truthy (nr_error n) then the (nr_error n) else ''workflow node failed'')\<rparr>) w))"
    using assms(2) True by (auto simp: finalise_def Let_def node_final_def split: if_splits)
  have ex: "(\<exists>(i, n) \<in> set (nodes_of w rid). nr_status n = NFailed) \<longleftrightarrow> ?fl \<noteq> []"
    by (force simp: filter_empty_conv)
  show ?thesis
    unfolding w' ex using assms(1,3) True
    by (cases ?fl) (auto simp: upd_run_def seam_ok_def)
qed

lemma step_run_status:
  assumes "step orf e rid w = Ok p w' c" and "seam_ok orf" and "table_ok (node_runs w)" and "tget (wf_runs w) rid = Some run"
    and "wr_status run \<notin> set TERMINAL_RUN_STATUSES"
  shows "\<exists>run'. tget (wf_runs w') rid = Some run' \<and>
    (wr_status run' = RRunning \<or>
     nodes_of w' rid \<noteq> [] \<and> (\<forall>(i, n) \<in> set (nodes_of w' rid). node_final n) \<and>
       wr_status run' = (if \<exists>(i, n) \<in> set (nodes_of w' rid). nr_status n = NFailed then RFailed else RSucceeded))"
proof (cases rule: step_cases [OF assms(4,5,3), where e = e and orf = orf])
  case (1 defnodes p' w1 c')
  with assms(1) show ?thesis by simp
next
  case (2 defnodes p' w1 p3 w3)
  have fin: "finalise orf e rid p3 w3 = (p, w')" using 2(4) assms(1) by (auto split: prod.splits)
  have "wf_runs w3 = wf_runs (upd_run rid (begin_run e) w)"
    using 2(1,2) by (auto simp: step_head_def act_rel_def nodes_kept_def)
  then have run3: "tget (wf_runs w3) rid = Some (begin_run e run)"
    using assms(4) by (simp add: upd_run_def)
  have "wr_status (begin_run e run) = RRunning"
    using assms(5) by (cases "wr_status run") (auto simp: begin_run_def TERMINAL_RUN_STATUSES_def)
  moreover have "nodes_of w' rid = nodes_of w3 rid"
    using finalise_nodes [OF assms(2), of e rid p3 w3] fin by (simp add: nodes_of_def)
  ultimately show ?thesis using finalise_run [OF assms(2) fin run3] by simp
qed

section \<open>Dependencies alone cannot deadlock\<close>

lemma advance_loop_idle:
  assumes "\<And>nid n. nid \<in> set nids \<Longrightarrow> tget (node_runs w) nid = Some n \<Longrightarrow> \<not> sel n"
  shows "advance_loop sel adv nids p w com = Ok p w com"
  using assms by (induction nids) (auto split: option.splits)

text \<open>The node rows of a run are those \<open>_start_run\<close> made from the definition.\<close>

definition run_matches :: "'z wf_db_scheme \<Rightarrow> int \<Rightarrow> (string \<times> dict) list \<Rightarrow> bool" where
  "run_matches w rid defnodes = (map (\<lambda>(i, n). nr_node_key n) (nodes_of w rid) = map fst defnodes)"

definition deps_only :: "(string \<times> dict) list \<Rightarrow> bool" where
  "deps_only defnodes = (\<forall>(k, d) \<in> set defnodes. refs_of (dget d ''on_success'') = [] \<and> refs_of (dget d ''on_failure'') = [])"

lemma def_nodes_wf:
  assumes "wf_definition dfn"
  obtains nodes where "def_nodes dfn = map (\<lambda>n. (node_key_of n, as_dict n)) nodes"
    and "distinct (map node_key_of nodes)" and "acyclic (set (def_edges nodes))"
    and "set (def_edges nodes) \<subseteq> set (map node_key_of nodes) \<times> set (map node_key_of nodes)"
proof -
  from assms obtain d nodes where d: "dfn = JObj d" "dget d ''nodes'' = JList nodes"
    and ok: "\<forall>n \<in> set nodes. node_ok n" and dist: "distinct (map node_key_of nodes)" and acy: "acyclic (set (def_edges nodes))"
    and fld: "\<forall>n \<in> set nodes. \<forall>f \<in> set edge_fields. field_ok (map node_key_of nodes) (dget (as_dict n) f)"
    by (auto simp: wf_definition_def)
  have "concat (map (\<lambda>n. case n of JObj d \<Rightarrow> (case dget d ''key'' of JStr k \<Rightarrow> [(k, d)] | _ \<Rightarrow> []) | _ \<Rightarrow> []) ns)
      = map (\<lambda>n. (node_key_of n, as_dict n)) ns" if "\<forall>n \<in> set ns. node_ok n" for ns
    using that by (induction ns) (auto simp: node_ok_def node_key_of_def as_dict_def)
  with ok have "def_nodes dfn = map (\<lambda>n. (node_key_of n, as_dict n)) nodes"
    by (simp add: def_nodes_def d as_dict_def refs_of_def)
  then show ?thesis using that dist acy def_edges_within [OF fld] by blast
qed

text \<open>Among the pending nodes one has no pending dependency; its verdict is not to wait.\<close>

lemma minimal_pending:
  assumes wf: "wf_definition dfn" and deps: "deps_only (def_nodes dfn)" and match: "run_matches w rid (def_nodes dfn)"
    and pend: "(i, n) \<in> set (nodes_of w rid)" "nr_status n = NPending"
    and idle: "\<forall>(j, m) \<in> set (nodes_of w rid). \<not> live_node m"
  obtains j m where "(j, m) \<in> set (nodes_of w rid)" and "nr_status m = NPending"
    and "verdict_of (def_nodes dfn) (status_map (nodes_of w rid)) (nr_node_key m) \<noteq> Wait"
proof -
  obtain nodes where dn: "def_nodes dfn = map (\<lambda>n. (node_key_of n, as_dict n)) nodes"
    and dist: "distinct (map node_key_of nodes)" and acy: "acyclic (set (def_edges nodes))"
    and within: "set (def_edges nodes) \<subseteq> set (map node_key_of nodes) \<times> set (map node_key_of nodes)"
    using def_nodes_wf [OF wf] by blast
  let ?P = "{nr_node_key m | j m. (j, m) \<in> set (nodes_of w rid) \<and> nr_status m = NPending}"
  let ?st = "status_map (nodes_of w rid)"
  have keys: "map (\<lambda>(i, n). nr_node_key n) (nodes_of w rid) = map node_key_of nodes"
    using match by (simp add: run_matches_def dn o_def)
  have st: "?st (nr_node_key m) = Some (nr_status m)" if "(j, m) \<in> set (nodes_of w rid)" for j m
  proof -
    have "distinct (map fst (map (\<lambda>(i, n). (nr_node_key n, nr_status n)) (nodes_of w rid)))"
      using dist keys by (simp add: o_def case_prod_unfold)
    with that show ?thesis unfolding status_map_def by (force intro: map_of_is_SomeI)
  qed
  have "wf (set (def_edges nodes))" using acy by (simp add: finite_acyclic_wf)
  moreover have "nr_node_key n \<in> ?P" using pend by blast
  ultimately obtain k where k: "k \<in> ?P" and min: "\<And>d. (d, k) \<in> set (def_edges nodes) \<Longrightarrow> d \<notin> ?P"
    by (erule wfE_min)
  then obtain j m where m: "(j, m) \<in> set (nodes_of w rid)" "nr_status m = NPending" "nr_node_key m = k" by blast
  have "k \<in> set (map node_key_of nodes)" using m keys by (metis (mono_tags, lifting) case_prod_conv image_eqI list.set_map)
  then obtain x where x: "x \<in> set nodes" "node_key_of x = k" by auto
  have "map_of (def_nodes dfn) k = Some (as_dict x)"
    using x dist by (auto simp: dn o_def intro!: map_of_is_SomeI)
  then have nk: "node_of (def_nodes dfn) k = as_dict x" by (simp add: node_of_def)
  have no: "edge_srcs f (def_nodes dfn) k = []" if "f = ''on_success'' \<or> f = ''on_failure''" for f
    using deps that by (fastforce simp: edge_srcs_def deps_only_def filter_empty_conv)
  have dep: "?st (str_of r) \<in> {Some NFailed, Some NSkipped, Some NCancelled, Some NSucceeded}"
    if r: "r \<in> set (refs_of (dget (as_dict x) ''depends_on''))" for r
  proof -
    have e: "(str_of r, k) \<in> set (def_edges nodes)"
      using r x by (auto simp: def_edges_def node_edges_def edge_fields_def)
    then have "str_of r \<in> set (map node_key_of nodes)" using within by blast
    then obtain j' m' where m': "(j', m') \<in> set (nodes_of w rid)" "nr_node_key m' = str_of r"
      using keys [symmetric] by auto
    have "nr_status m' \<noteq> NPending" using min [OF e] m' by force
    moreover have "\<not> live_node m'" using idle m' by blast
    ultimately show ?thesis using st [OF m'(1)] m'(2) by (cases "nr_status m'") (auto simp: live_node_def)
  qed
  have "verdict_of (def_nodes dfn) ?st k \<noteq> Wait"
    using dep by (auto simp: verdict_of_def Let_def no nk)
  with m that show ?thesis by blast
qed

lemma step_no_deadlock:
  assumes run: "tget (wf_runs w) rid = Some run" "wr_status run \<notin> set TERMINAL_RUN_STATUSES" and ok: "table_ok (node_runs w)"
    and d: "load_definition w run = (dfn, def_nodes dfn)" and wf: "wf_definition dfn" and deps: "deps_only (def_nodes dfn)"
    and match: "run_matches w rid (def_nodes dfn)"
    and pend: "(i, n) \<in> set (nodes_of w rid)" "nr_status n = NPending"
    and idle: "\<forall>(j, m) \<in> set (nodes_of w rid). \<not> live_node m"
  shows "\<exists>w'. step orf e rid w = Ok True w' w'"
proof -
  let ?w = "upd_run rid (begin_run e) w" and ?st = "status_map (nodes_of w rid)" and ?nids = "map fst (nodes_of w rid)"
  obtain acts p w1 where a: "activate_nodes e (def_nodes dfn) (nodes_of w rid) ?st ?w = (acts, p, w1)" by (metis prod_cases3)
  from minimal_pending [OF wf deps match pend idle] obtain j m where
    "(j, m) \<in> set (nodes_of w rid)" "nr_status m = NPending" "verdict_of (def_nodes dfn) ?st (nr_node_key m) \<noteq> Wait" by blast
  with a activate_idle have p: p by (metis (full_types))
  have rel: "act_rel e (def_nodes dfn) (set acts) ?st ?w w1"
    using activate_rel [OF a] nodes_of_get [OF ok] distinct_nodes_of [OF ok] by (auto simp: upd_run_def)
  have quiet: "\<not> (nr_status n' = NRunning \<and> nr_node_key n' \<notin> set acts) \<and> nr_status n' \<noteq> NWaiting"
    if i: "nid \<in> set ?nids" and n': "tget (node_runs w1) nid = Some n'" for nid n'
  proof -
    from i obtain n0 where n0: "(nid, n0) \<in> set (nodes_of w rid)" by auto
    then have "tget (node_runs w) nid = Some n0" using nodes_of_get [OF ok] by blast
    moreover have "rel_option (activated e (def_nodes dfn) (set acts) ?st) (tget (node_runs w) nid) (tget (node_runs w1) nid)"
      using rel by (simp add: act_rel_def upd_run_def)
    ultimately have "activated e (def_nodes dfn) (set acts) ?st n0 n'" using n' by simp
    with idle n0 show ?thesis by (auto simp: activated_def live_node_def activate_def skip_node_def)
  qed
  have "step orf e rid w = (let (p4, w4) = finalise orf e rid True w1 in Ok p4 w4 w4)"
    using run d a p advance_loop_idle [of ?nids w1] quiet by (simp add: step_def Let_def)
  moreover have "fst (finalise orf e rid True w1)" by (simp add: finalise_def Let_def)
  ultimately show ?thesis by (cases "finalise orf e rid True w1") auto
qed

end
