(* ===== verification/Workflow_Service.thy ===== *)
theory Workflow_Service
  imports Workflow_Props
begin

text \<open>
  The handlers of \<open>workflow_service.py\<close>: definitions and their versions, starting, cancelling and
  retrying runs, the node callback and the playbook proposal. Every handler asks for the feature
  first and then for its permission.
\<close>

definition wf_feature :: string where
  "wf_feature = ''feature.workflow''"

section \<open>Definitions and versions\<close>

record workflow_create =
  wc_name :: string
  wc_description :: string
  wc_definition :: "json option"
  wc_kind :: "string option"

record workflow_update =
  wu_name :: "string option"
  wu_description :: "string option"
  wu_enabled :: "int option"

text \<open>\<open>_workflow_out\<close>: the id, the row and the definition shown with it.\<close>

type_synonym workflow_out = "int \<times> workflow \<times> json"

definition wf_not_found :: app_error where
  "wf_not_found = NotFoundError ''workflow not found''"

definition next_version :: "'z wf_db_scheme \<Rightarrow> int \<Rightarrow> int" where
  "next_version w wid = fold max (map (\<lambda>(i, r). wv_version r) (tselect (\<lambda>r. wv_workflow_id r = wid) (wf_versions w))) 0 + 1"

definition current_definition :: "'z wf_db_scheme \<Rightarrow> int \<Rightarrow> workflow \<Rightarrow> json" where
  "current_definition w wid flow = (case version_row w wid (wf_current_version flow) of None \<Rightarrow> JNull | Some (i, r) \<Rightarrow> wv_definition r)"

definition list_workflows ::
  "current_user \<Rightarrow> string option \<Rightarrow> int option \<Rightarrow> int \<Rightarrow> int \<Rightarrow> 'z wf_db_scheme \<Rightarrow> ((int \<times> workflow) list \<times> nat) res" where
  "list_workflows u name enab page sz w =
     (if \<not> feature_on w wf_feature then Inl feature_disabled
      else if \<not> has_perm u ''workflow:list'' then Inl (perm_denied ''workflow:list'')
      else (let rs = rev (tselect (\<lambda>r. (str_truthy name \<longrightarrow> sql_like (''%'' @ the name @ ''%'') (wf_name r)) \<and>
                             (enab \<noteq> None \<longrightarrow> wf_enabled r = the enab)) (workflows w))
            in Inr (page_of page sz rs, length rs)))"

definition create_workflow ::
  "current_user \<Rightarrow> workflow_create \<Rightarrow> 'z wf_db_scheme \<Rightarrow> (workflow_out \<times> 'z wf_db_scheme) res" where
  "create_workflow u data w =
     (if \<not> feature_on w wf_feature then Inl feature_disabled
      else if \<not> has_perm u ''workflow:add'' then Inl (perm_denied ''workflow:add'')
      else if texists (\<lambda>r. wf_name r = wc_name data) (workflows w) then Inl (ConflictError ''workflow name already exists'')
      else (case validate_definition (case wc_definition data of Some d \<Rightarrow> d | None \<Rightarrow> JObj [(''nodes'', JList [])]) of
              Inl err \<Rightarrow> Inl err
            | Inr dfn \<Rightarrow>
                (let flow = \<lparr>wf_name = wc_name data, wf_kind = (if str_truthy (wc_kind data) then the (wc_kind data) else ''workflow''),
                           wf_description = wc_description data, wf_current_version = 1, wf_enabled = 1,
                           wf_created_by = Some (uid u)\<rparr>;
                     wid = next_id (workflows w)
                 in Inr ((wid, flow, dfn),
                         w\<lparr>workflows := tadd flow (workflows w),
                           wf_versions := tadd \<lparr>wv_workflow_id = wid, wv_version = 1, wv_definition = dfn,
                                               wv_editor_id = Some (uid u)\<rparr> (wf_versions w)\<rparr>))))"

definition get_workflow :: "current_user \<Rightarrow> int \<Rightarrow> 'z wf_db_scheme \<Rightarrow> workflow_out res" where
  "get_workflow u wid w =
     (if \<not> feature_on w wf_feature then Inl feature_disabled
      else if \<not> has_perm u ''workflow:view'' then Inl (perm_denied ''workflow:view'')
      else (case tget (workflows w) wid of
              None \<Rightarrow> Inl wf_not_found
            | Some flow \<Rightarrow> Inr (wid, flow, current_definition w wid flow)))"

definition update_workflow ::
  "current_user \<Rightarrow> int \<Rightarrow> workflow_update \<Rightarrow> 'z wf_db_scheme \<Rightarrow> (workflow_out \<times> 'z wf_db_scheme) res" where
  "update_workflow u wid data w =
     (if \<not> feature_on w wf_feature then Inl feature_disabled
      else if \<not> has_perm u ''workflow:edit'' then Inl (perm_denied ''workflow:edit'')
      else (case tget (workflows w) wid of
              None \<Rightarrow> Inl wf_not_found
            | Some flow \<Rightarrow>
                if wu_name data \<noteq> None \<and> the (wu_name data) \<noteq> wf_name flow \<and>
                   texists (\<lambda>r. wf_name r = the (wu_name data)) (workflows w)
                then Inl (ConflictError ''workflow name already exists'')
                else (let flow' = flow\<lparr>wf_name := (case wu_name data of None \<Rightarrow> wf_name flow | Some n \<Rightarrow> n),
                                   wf_description := (case wu_description data of None \<Rightarrow> wf_description flow | Some d \<Rightarrow> d),
                                   wf_enabled := (case wu_enabled data of None \<Rightarrow> wf_enabled flow | Some n \<Rightarrow> n)\<rparr>
                      in Inr ((wid, flow', current_definition w wid flow'), w\<lparr>workflows := tupd wid (\<lambda>_. flow') (workflows w)\<rparr>))))"

definition delete_workflow :: "current_user \<Rightarrow> int \<Rightarrow> 'z wf_db_scheme \<Rightarrow> (unit \<times> 'z wf_db_scheme) res" where
  "delete_workflow u wid w =
     (if \<not> feature_on w wf_feature then Inl feature_disabled
      else if \<not> has_perm u ''workflow:del'' then Inl (perm_denied ''workflow:del'')
      else (case tget (workflows w) wid of
              None \<Rightarrow> Inl wf_not_found
            | Some flow \<Rightarrow>
                if texists (\<lambda>r. wr_workflow_id r = wid) (wf_runs w) then Inl (ConflictError ''workflow referenced by runs'')
                else Inr ((), w\<lparr>wf_versions := fold (\<lambda>(i, r). tdel i) (tselect (\<lambda>r. wv_workflow_id r = wid) (wf_versions w)) (wf_versions w),
                               workflows := tdel wid (workflows w)\<rparr>)))"

definition create_version ::
  "current_user \<Rightarrow> int \<Rightarrow> json \<Rightarrow> 'z wf_db_scheme \<Rightarrow> (workflow_version \<times> 'z wf_db_scheme) res" where
  "create_version u wid dfn w =
     (if \<not> feature_on w wf_feature then Inl feature_disabled
      else if \<not> has_perm u ''workflow:version'' then Inl (perm_denied ''workflow:version'')
      else (case tget (workflows w) wid of
              None \<Rightarrow> Inl wf_not_found
            | Some flow \<Rightarrow>
                (case validate_definition dfn of
                   Inl err \<Rightarrow> Inl err
                 | Inr d \<Rightarrow>
                     (let v = next_version w wid;
                          row = \<lparr>wv_workflow_id = wid, wv_version = v, wv_definition = d, wv_editor_id = Some (uid u)\<rparr>
                      in Inr (row, w\<lparr>wf_versions := tadd row (wf_versions w),
                                     workflows := tupd wid (\<lambda>r. r\<lparr>wf_current_version := v\<rparr>) (workflows w)\<rparr>)))))"

text \<open>Newest version first.\<close>

definition list_versions :: "current_user \<Rightarrow> int \<Rightarrow> 'z wf_db_scheme \<Rightarrow> workflow_version list res" where
  "list_versions u wid w =
     (if \<not> feature_on w wf_feature then Inl feature_disabled
      else if \<not> has_perm u ''workflow:view'' then Inl (perm_denied ''workflow:view'')
      else (case tget (workflows w) wid of
              None \<Rightarrow> Inl wf_not_found
            | Some flow \<Rightarrow> Inr (rev (sort_key wv_version (map snd (tselect (\<lambda>r. wv_workflow_id r = wid) (wf_versions w)))))))"

definition rollback_workflow ::
  "current_user \<Rightarrow> int \<Rightarrow> int \<Rightarrow> 'z wf_db_scheme \<Rightarrow> (workflow_out \<times> 'z wf_db_scheme) res" where
  "rollback_workflow u wid v w =
     (if \<not> feature_on w wf_feature then Inl feature_disabled
      else if \<not> has_perm u ''workflow:rollback'' then Inl (perm_denied ''workflow:rollback'')
      else (case tget (workflows w) wid of
              None \<Rightarrow> Inl wf_not_found
            | Some flow \<Rightarrow>
                (case version_row w wid v of
                   None \<Rightarrow> Inl (NotFoundError ''workflow version not found'')
                 | Some (i, row) \<Rightarrow>
                     Inr ((wid, flow\<lparr>wf_current_version := v\<rparr>, wv_definition row),
                          w\<lparr>workflows := tupd wid (\<lambda>r. r\<lparr>wf_current_version := v\<rparr>) (workflows w)\<rparr>))))"

section \<open>Runs\<close>

record run_in =
  ri_trigger_type :: string
  ri_trigger_ref :: dict
  ri_context :: json

definition new_node :: "env \<Rightarrow> int \<Rightarrow> json \<Rightarrow> node_run" where
  "new_node e rid node =
     \<lparr>nr_run_id = rid, nr_node_key = str_of (dget (as_dict node) ''key''), nr_node_type = str_of (dget (as_dict node) ''type''),
      nr_status = NPending, nr_exec_task_id = None, nr_approval_id = None, nr_attempt = 0, nr_output = JNull,
      nr_error = None, nr_started_at = None, nr_finished_at = None, nr_updated_at = now e\<rparr>"

definition start_run ::
  "env \<Rightarrow> current_user \<Rightarrow> int \<Rightarrow> workflow \<Rightarrow> json \<Rightarrow> string \<Rightarrow> json \<Rightarrow> json \<Rightarrow> 'z wf_db_scheme \<Rightarrow> int \<times> 'z wf_db_scheme" where
  "start_run e u wid flow dfn trigger_type trigger_ref context w =
     (let rid = next_id (wf_runs w);
          run = \<lparr>wr_workflow_id = wid, wr_workflow_version = wf_current_version flow, wr_status = RPending,
                 wr_trigger_type = trigger_type, wr_trigger_ref = trigger_ref, wr_context = context,
                 wr_started_at = None, wr_finished_at = None, wr_error = None, wr_created_by = Some (uid u)\<rparr>;
          w1 = w\<lparr>wf_runs := tadd run (wf_runs w),
                 node_runs := fold (\<lambda>n. tadd (new_node e rid n)) (refs_of (dget (as_dict dfn) ''nodes'')) (node_runs w)\<rparr>
      in (rid, emit (StartDriver rid) w1))"

definition run_workflow ::
  "env \<Rightarrow> current_user \<Rightarrow> int \<Rightarrow> string option \<Rightarrow> run_in option \<Rightarrow> 'z wf_db_scheme \<Rightarrow> (int \<times> 'z wf_db_scheme) res" where
  "run_workflow e u wid idem data w =
     (if \<not> feature_on w wf_feature then Inl feature_disabled
      else if \<not> has_perm u ''workflow:run'' then Inl (perm_denied ''workflow:run'')
      else (case tget (workflows w) wid of
              None \<Rightarrow> Inl wf_not_found
            | Some flow \<Rightarrow>
                (case version_row w wid (wf_current_version flow) of
                   None \<Rightarrow> Inl (BadRequestError ''workflow has no definition to run'')
                 | Some (i, row) \<Rightarrow>
                     (let tt = (case data of None \<Rightarrow> ''manual'' | Some d \<Rightarrow> if ri_trigger_type d = [] then ''manual'' else ri_trigger_type d);
                          tr = (case data of None \<Rightarrow> [] | Some d \<Rightarrow> ri_trigger_ref d);
                          ctx = (case data of None \<Rightarrow> JNull | Some d \<Rightarrow> ri_context d);
                          dfn = (if truthy (wv_definition row) then wv_definition row else JObj [(''nodes'', JList [])]);
                          fresh = (\<lambda>ref. Inr (start_run e u wid flow dfn tt (if ref = [] then JNull else JObj ref) ctx w))
                      in if tt \<notin> set TRIGGER_TYPES then Inl (ValidationError ''unknown trigger_type'')
                         else if str_truthy idem
                         then (case tfirst (\<lambda>r. wr_workflow_id r = wid \<and>
                                        dget (as_dict (wr_trigger_ref r)) ''idempotency_key'' = JStr (the idem)) (wf_runs w) of
                                 Some (rid, _) \<Rightarrow> Inr (rid, w)
                               | None \<Rightarrow> fresh (dset tr ''idempotency_key'' (JStr (the idem))))
                         else fresh tr))))"

definition list_runs ::
  "current_user \<Rightarrow> int option \<Rightarrow> run_status option \<Rightarrow> int \<Rightarrow> int \<Rightarrow> 'z wf_db_scheme \<Rightarrow> ((int \<times> workflow_run) list \<times> nat) res" where
  "list_runs u wid st page sz w =
     (if \<not> feature_on w wf_feature then Inl feature_disabled
      else if \<not> has_perm u ''workflow:view'' then Inl (perm_denied ''workflow:view'')
      else (let rs = rev (tselect (\<lambda>r. (wid \<noteq> None \<longrightarrow> wr_workflow_id r = the wid) \<and> (st \<noteq> None \<longrightarrow> wr_status r = the st)) (wf_runs w))
            in Inr (page_of page sz rs, length rs)))"

definition run_not_found :: app_error where
  "run_not_found = NotFoundError ''workflow run not found''"

definition get_run :: "current_user \<Rightarrow> int \<Rightarrow> 'z wf_db_scheme \<Rightarrow> (workflow_run \<times> (int \<times> node_run) list) res" where
  "get_run u rid w =
     (if \<not> feature_on w wf_feature then Inl feature_disabled
      else if \<not> has_perm u ''workflow:view'' then Inl (perm_denied ''workflow:view'')
      else (case tget (wf_runs w) rid of None \<Rightarrow> Inl run_not_found | Some r \<Rightarrow> Inr (r, nodes_of w rid)))"

text \<open>One unfinished node of a cancelled run: its task is cancelled through the shared core, then
  it is skipped.\<close>

definition cancel_node :: "env \<Rightarrow> int \<times> node_run \<Rightarrow> 'z wf_db_scheme \<Rightarrow> 'z wf_db_scheme" where
  "cancel_node e it w =
     (let (nid, n) = it;
          w1 = (if nr_node_type n = ''exec_task'' \<and> int_truthy (nr_exec_task_id n)
                then (case tget (exec_tasks w) (the (nr_exec_task_id n)) of
                        None \<Rightarrow> w
                      | Some t \<Rightarrow> snd (cancel_exec_task_record e (the (nr_exec_task_id n)) t w))
                else w)
      in upd_node nid (\<lambda>n. n\<lparr>nr_status := NSkipped, nr_finished_at := Some (now e)\<rparr>) w1)"

definition cancel_run :: "env \<Rightarrow> current_user \<Rightarrow> int \<Rightarrow> 'z wf_db_scheme \<Rightarrow> (run_status \<times> 'z wf_db_scheme) res" where
  "cancel_run e u rid w =
     (if \<not> feature_on w wf_feature then Inl feature_disabled
      else if \<not> has_perm u ''workflow:cancel'' then Inl (perm_denied ''workflow:cancel'')
      else (case tget (wf_runs w) rid of
              None \<Rightarrow> Inl run_not_found
            | Some run \<Rightarrow>
                (case apply_run_transition run RunCancel of
                   Inl err \<Rightarrow> Inl err
                 | Inr run' \<Rightarrow>
                     Inr (wr_status run',
                          fold (cancel_node e)
                            (filter (\<lambda>(i, n). nr_status n \<in> {NPending, NRunning, NWaiting}) (nodes_of w rid))
                            (upd_run rid (\<lambda>_. run'\<lparr>wr_finished_at := Some (now e)\<rparr>) w)))))"

definition retry_run :: "env \<Rightarrow> current_user \<Rightarrow> int \<Rightarrow> 'z wf_db_scheme \<Rightarrow> (int \<times> 'z wf_db_scheme) res" where
  "retry_run e u rid w =
     (if \<not> feature_on w wf_feature then Inl feature_disabled
      else if \<not> has_perm u ''workflow:run'' then Inl (perm_denied ''workflow:run'')
      else (case tget (wf_runs w) rid of
              None \<Rightarrow> Inl run_not_found
            | Some run \<Rightarrow>
                (case tget (workflows w) (wr_workflow_id run) of
                   None \<Rightarrow> Inl wf_not_found
                 | Some flow \<Rightarrow>
                     (let dfn = (case version_row w (wr_workflow_id run) (wr_workflow_version run) of
                            Some (i, row) \<Rightarrow> wv_definition row | None \<Rightarrow> JObj [(''nodes'', JList [])])
                      in Inr (start_run e u (wr_workflow_id run) flow dfn (wr_trigger_type run)
                                (JObj [(''retry_of'', JInt rid)]) (wr_context run) w)))))"

definition run_ws_token :: "env \<Rightarrow> current_user \<Rightarrow> int \<Rightarrow> 'z wf_db_scheme \<Rightarrow> string res" where
  "run_ws_token e u rid w =
     (if \<not> feature_on w wf_feature then Inl feature_disabled
      else if \<not> has_perm u ''workflow:view'' then Inl (perm_denied ''workflow:view'')
      else (case tget (wf_runs w) rid of None \<Rightarrow> Inl run_not_found
            | Some _ \<Rightarrow> Inr (create_token e rid ''ws'' 300 [])))"

section \<open>The callback\<close>

definition MAX_CALLBACK_PAYLOAD :: int where
  "MAX_CALLBACK_PAYLOAD = 65536"

definition invalid_callback :: app_error where
  "invalid_callback = UnauthorizedError ''invalid callback token''"

definition token_bound :: "env \<Rightarrow> string \<Rightarrow> int \<Rightarrow> string \<Rightarrow> bool" where
  "token_bound e token rid key =
     (case jwt_decode e token of
        None \<Rightarrow> False
      | Some claims \<Rightarrow> dget claims ''type'' = JStr ''wf_callback'' \<and> py_int (dget claims ''run_id'') = Some rid \<and>
                       dget claims ''node_key'' = JStr key)"

text \<open>The node the conditional update hits.\<close>

definition awaits_callback :: "int \<Rightarrow> string \<Rightarrow> node_run \<Rightarrow> bool" where
  "awaits_callback rid key n = (nr_run_id n = rid \<and> nr_node_key n = key \<and> nr_node_type n = ''callback'' \<and> nr_status n = NWaiting)"

definition callback_node ::
  "env \<Rightarrow> int \<Rightarrow> string \<Rightarrow> string option \<Rightarrow> json \<Rightarrow> 'z wf_db_scheme \<Rightarrow> (node_status \<times> 'z wf_db_scheme) res" where
  "callback_node e rid key token payload w =
     (if \<not> feature_on w wf_feature then Inl feature_disabled
      else (case tget (wf_runs w) rid of
              None \<Rightarrow> Inl run_not_found
            | Some run \<Rightarrow>
                if \<not> str_truthy token then Inl (UnauthorizedError ''callback token required'')
                else if \<not> token_bound e (the token) rid key then Inl invalid_callback
                else (case tfirst (\<lambda>n. nr_run_id n = rid \<and> nr_node_key n = key) (node_runs w) of
                        None \<Rightarrow> Inl (NotFoundError ''workflow node not found'')
                      | Some (nid, node) \<Rightarrow>
                          if nr_node_type node \<noteq> ''callback'' \<or> nr_status node \<noteq> NWaiting
                          then Inl (ConflictError ''node is not awaiting callback'')
                          else if int (length (json_dumps True e payload)) > MAX_CALLBACK_PAYLOAD
                          then Inl (ValidationError ''callback_payload_too_large'')
                          else (let rs = tselect (awaits_callback rid key) (node_runs w);
                                    out = JObj (dset (as_dict (nr_output node)) ''payload'' payload)
                                in if length rs \<noteq> 1 then Inl (ConflictError ''node is not awaiting callback'')
                                   else Inr (NSucceeded, emit (StartDriver rid)
                                     (fold (\<lambda>(i, r). upd_node i (\<lambda>n. n\<lparr>nr_output := out, nr_status := NSucceeded,
                                         nr_finished_at := Some (now e), nr_error := None\<rparr>)) rs w))))))"

section \<open>The playbook proposal\<close>

text \<open>The notes and titles carry the goal; their fixed prefixes are left out.\<close>

definition playbook_node :: "string \<Rightarrow> string \<Rightarrow> dict \<Rightarrow> string list \<Rightarrow> json" where
  "playbook_node key rtype config deps = JObj
     [(''key'', JStr key), (''type'', JStr rtype), (''config'', JObj config), (''depends_on'', JList (map JStr deps)),
      (''on_success'', JList []), (''on_failure'', JList [])]"

definition playbook_definition :: "string \<Rightarrow> string \<Rightarrow> json" where
  "playbook_definition goal context = JObj [(''nodes'', JList
     [playbook_node ''diagnose'' ''wait'' [(''note'', JStr goal), (''context'', JStr context)] [],
      playbook_node ''approve'' ''manual_approval'' [(''title'', JStr goal)] [''diagnose''],
      playbook_node ''remediate'' ''exec_task'' [(''note'', JStr goal)] [''approve'']])]"

definition suggest_playbook :: "current_user \<Rightarrow> string \<Rightarrow> string \<Rightarrow> 'z sys_db_scheme \<Rightarrow> json res" where
  "suggest_playbook u goal context w =
     (if \<not> feature_on w ''ai.playbook'' then Inl feature_disabled
      else if \<not> has_perm u ''ai:use'' then Inl (perm_denied ''ai:use'')
      else validate_definition (playbook_definition goal context))"

section \<open>Gates\<close>

interpretation create_gate: gated_op wf_feature "''workflow:add''" "\<lambda>u. create_workflow u data" for data
  by unfold_locales (simp_all add: create_workflow_def)

interpretation update_gate: gated_op wf_feature "''workflow:edit''" "\<lambda>u. update_workflow u wid data" for wid data
  by unfold_locales (simp_all add: update_workflow_def)

interpretation delete_gate: gated_op wf_feature "''workflow:del''" "\<lambda>u. delete_workflow u wid" for wid
  by unfold_locales (simp_all add: delete_workflow_def)

interpretation version_gate: gated_op wf_feature "''workflow:version''" "\<lambda>u. create_version u wid dfn" for wid dfn
  by unfold_locales (simp_all add: create_version_def)

interpretation rollback_gate: gated_op wf_feature "''workflow:rollback''" "\<lambda>u. rollback_workflow u wid v" for wid v
  by unfold_locales (simp_all add: rollback_workflow_def)

interpretation run_gate: gated_op wf_feature "''workflow:run''" "\<lambda>u. run_workflow e u wid idem data" for e wid idem data
  by unfold_locales (simp_all add: run_workflow_def)

interpretation cancel_gate: gated_op wf_feature "''workflow:cancel''" "\<lambda>u. cancel_run e u rid" for e rid
  by unfold_locales (simp_all add: cancel_run_def)

interpretation retry_gate: gated_op wf_feature "''workflow:run''" "\<lambda>u. retry_run e u rid" for e rid
  by unfold_locales (simp_all add: retry_run_def)

interpretation playbook_gate: gated_op "''ai.playbook''" "''ai:use''" "\<lambda>u. suggest_playbook u goal ctx" for goal ctx
  by unfold_locales (simp_all add: suggest_playbook_def)

end
