(* ===== verification/Cicd_Service.thy ===== *)
theory Cicd_Service
  imports Workflow_Service
begin

text \<open>
  Delivery (\<open>cicd_service.py\<close>, \<open>db/models/cicd.py\<close>): providers with encrypted settings, releases
  with their transition table, the release run on the workflow engine, the seam that fails a
  release when its run fails, and the inbound webhook.
\<close>

section \<open>Rows\<close>

datatype release_status = LPending | LDeploying | LCanary | LSucceeded | LFailed | LRolledBack | LCancelled

definition CICD_PROVIDER_TYPES :: "string list" where
  "CICD_PROVIDER_TYPES = [''gitlab'', ''jenkins'', ''generic'']"

definition RELEASE_ENVS :: "string list" where
  "RELEASE_ENVS = [''dev'', ''test'', ''prod'']"

definition RELEASE_TERMINAL_STATUSES :: "release_status list" where
  "RELEASE_TERMINAL_STATUSES = [LSucceeded, LFailed, LRolledBack, LCancelled]"

record cicd_provider =
  cp_type :: string
  cp_name :: string
  cp_endpoint :: string
  cp_config_enc :: "(string \<times> string) list option"
  cp_enabled :: int
  cp_status :: string
  cp_last_heartbeat :: "time option"
  cp_created_by :: "int option"

record release =
  rl_provider_id :: int
  rl_app :: string
  rl_version :: "string option"
  rl_artifact_ref :: "string option"
  rl_env :: string
  rl_status :: release_status
  rl_workflow_run_id :: "int option"
  rl_target_host_ids :: "int list option"
  rl_rolled_back_from :: "int option"
  rl_created_by :: "int option"

record audit_log =
  au_user_id :: "int option"
  au_username :: string
  au_action :: string
  au_release_id :: int
  au_app :: string
  au_env :: string
  au_status :: release_status
  au_workflow_run_id :: "int option"

record cicd_db = wf_db +
  providers :: "cicd_provider table"
  releases :: "release table"
  audit_logs :: "audit_log table"

definition cicd_feature :: string where
  "cicd_feature = ''feature.cicd''"

definition upd_release :: "int \<Rightarrow> (release \<Rightarrow> release) \<Rightarrow> 'z cicd_db_scheme \<Rightarrow> 'z cicd_db_scheme" where
  "upd_release i f w = w\<lparr>releases := tupd i f (releases w)\<rparr>"

section \<open>Transitions\<close>

datatype release_action = DeployR | CanaryR | PromoteR | FailR | RollbackR | CancelR

fun RELEASE_TRANSITIONS :: "release_action \<Rightarrow> release_status list \<times> release_status" where
  "RELEASE_TRANSITIONS DeployR = ([LPending], LDeploying)"
| "RELEASE_TRANSITIONS CanaryR = ([LPending, LDeploying], LCanary)"
| "RELEASE_TRANSITIONS PromoteR = ([LCanary], LSucceeded)"
| "RELEASE_TRANSITIONS FailR = ([LDeploying, LCanary], LFailed)"
| "RELEASE_TRANSITIONS RollbackR = ([LDeploying, LCanary, LFailed], LRolledBack)"
| "RELEASE_TRANSITIONS CancelR = ([LPending, LDeploying, LCanary], LCancelled)"

text \<open>The statuses no action leaves; \<open>failed\<close> is not one of them.\<close>

interpretation release_machine: action_machine RELEASE_TRANSITIONS
  "\<lambda>s. s \<in> {LSucceeded, LRolledBack, LCancelled}" "\<lambda>s. s \<noteq> LPending"
proof unfold_locales
  fix s a
  assume "s \<in> {LSucceeded, LRolledBack, LCancelled}"
  then show "\<not> action_allowed RELEASE_TRANSITIONS a s"
    by (cases a) (auto simp: action_allowed_def)
next
  fix s a
  assume "action_allowed RELEASE_TRANSITIONS a s"
  show "snd (RELEASE_TRANSITIONS a) \<noteq> LPending" by (cases a) simp_all
qed

definition apply_release_transition :: "release \<Rightarrow> release_action \<Rightarrow> release res" where
  "apply_release_transition r action =
     (if \<not> action_allowed RELEASE_TRANSITIONS action (rl_status r)
      then Inl (ConflictError ''action not allowed in the status of the release'')
      else Inr (r\<lparr>rl_status := snd (RELEASE_TRANSITIONS action)\<rparr>))"

text \<open>\<open>_audit\<close>, with the row as it stands in the session.\<close>

definition audit :: "int option \<times> string \<Rightarrow> string \<Rightarrow> int \<Rightarrow> release \<Rightarrow> 'z cicd_db_scheme \<Rightarrow> 'z cicd_db_scheme" where
  "audit who action rid r w = w\<lparr>audit_logs := tadd
     \<lparr>au_user_id = fst who, au_username = snd who, au_action = action, au_release_id = rid, au_app = rl_app r,
      au_env = rl_env r, au_status = rl_status r, au_workflow_run_id = rl_workflow_run_id r\<rparr> (audit_logs w)\<rparr>"

definition who :: "current_user \<Rightarrow> int option \<times> string" where
  "who u = (Some (uid u), username u)"

text \<open>\<open>fail_release_for_run\<close>, the seam \<open>_on_run_failed\<close> of the engine.\<close>

definition fail_release_for_run :: "int \<Rightarrow> 'z cicd_db_scheme \<Rightarrow> 'z cicd_db_scheme" where
  "fail_release_for_run run_id w =
     (case tget (wf_runs w) run_id of
        None \<Rightarrow> w
      | Some run \<Rightarrow>
          if wr_trigger_type run \<noteq> ''release'' then w
          else (case tfirst (\<lambda>r. rl_workflow_run_id r = Some run_id) (releases w) of
                  None \<Rightarrow> w
                | Some (i, r) \<Rightarrow>
                    if \<not> action_allowed RELEASE_TRANSITIONS FailR (rl_status r) then w
                    else (let r' = r\<lparr>rl_status := snd (RELEASE_TRANSITIONS FailR)\<rparr>
                          in audit (None, []) ''release.fail'' i r' (upd_release i (\<lambda>_. r') w))))"

lemma seam_cicd: "seam_ok fail_release_for_run"
  by (auto simp: seam_ok_def fail_release_for_run_def audit_def upd_release_def Let_def split: option.splits)

section \<open>Providers\<close>

text \<open>A value that is not a string is stored as its JSON text.\<close>

definition encrypt_config :: "env \<Rightarrow> dict option \<Rightarrow> (string \<times> string) list option" where
  "encrypt_config e config =
     (case config of
        None \<Rightarrow> None
      | Some d \<Rightarrow> if d = [] then None
          else Some (map (\<lambda>(k, v). (k, encrypt_secret e 1 (case v of JStr s \<Rightarrow> s | _ \<Rightarrow> json_dumps False e v))) d))"

definition decrypt_config :: "env \<Rightarrow> (string \<times> string) list option \<Rightarrow> (string \<times> string) list" where
  "decrypt_config e config_enc =
     concat (map (\<lambda>(k, v). case decrypt_secret e v of None \<Rightarrow> [] | Some p \<Rightarrow> [(k, p)])
       (case config_enc of None \<Rightarrow> [] | Some d \<Rightarrow> d))"

record provider_create =
  pc_type :: string
  pc_name :: string
  pc_endpoint :: string
  pc_config :: "dict option"
  pc_enabled :: int

record provider_update =
  pu_name :: "string option"
  pu_endpoint :: "string option"
  pu_config :: "dict option"
  pu_enabled :: "int option"

text \<open>\<open>_provider_out\<close>: the row without its settings.\<close>

definition provider_out :: "cicd_provider \<Rightarrow> cicd_provider" where
  "provider_out p = p\<lparr>cp_config_enc := None\<rparr>"

definition provider_not_found :: app_error where
  "provider_not_found = NotFoundError ''cicd provider not found''"

definition list_providers ::
  "current_user \<Rightarrow> string option \<Rightarrow> string option \<Rightarrow> int \<Rightarrow> int \<Rightarrow> 'z cicd_db_scheme \<Rightarrow> ((int \<times> cicd_provider) list \<times> nat) res" where
  "list_providers u name rtype page sz w =
     (if \<not> feature_on w cicd_feature then Inl feature_disabled
      else if \<not> has_perm u ''cicd:provider:list'' then Inl (perm_denied ''cicd:provider:list'')
      else (let rs = rev (tselect (\<lambda>p. (str_truthy name \<longrightarrow> sql_like (''%'' @ the name @ ''%'') (cp_name p)) \<and>
                             (str_truthy rtype \<longrightarrow> cp_type p = the rtype)) (providers w))
            in Inr (map (\<lambda>(i, p). (i, provider_out p)) (page_of page sz rs), length rs)))"

definition create_provider ::
  "env \<Rightarrow> current_user \<Rightarrow> provider_create \<Rightarrow> 'z cicd_db_scheme \<Rightarrow> ((int \<times> cicd_provider) \<times> 'z cicd_db_scheme) res" where
  "create_provider e u data w =
     (if \<not> feature_on w cicd_feature then Inl feature_disabled
      else if \<not> has_perm u ''cicd:provider:add'' then Inl (perm_denied ''cicd:provider:add'')
      else if pc_type data \<notin> set CICD_PROVIDER_TYPES then Inl (ValidationError ''unknown provider type'')
      else (let p = \<lparr>cp_type = pc_type data, cp_name = pc_name data, cp_endpoint = pc_endpoint data,
                     cp_config_enc = encrypt_config e (pc_config data), cp_enabled = pc_enabled data,
                     cp_status = ''unknown'', cp_last_heartbeat = None, cp_created_by = Some (uid u)\<rparr>
            in Inr ((next_id (providers w), provider_out p), w\<lparr>providers := tadd p (providers w)\<rparr>)))"

definition update_provider ::
  "env \<Rightarrow> current_user \<Rightarrow> int \<Rightarrow> provider_update \<Rightarrow> 'z cicd_db_scheme \<Rightarrow> ((int \<times> cicd_provider) \<times> 'z cicd_db_scheme) res" where
  "update_provider e u pid data w =
     (if \<not> feature_on w cicd_feature then Inl feature_disabled
      else if \<not> has_perm u ''cicd:provider:edit'' then Inl (perm_denied ''cicd:provider:edit'')
      else (case tget (providers w) pid of
              None \<Rightarrow> Inl provider_not_found
            | Some p \<Rightarrow>
                (let p' = p\<lparr>cp_name := (case pu_name data of None \<Rightarrow> cp_name p | Some x \<Rightarrow> x),
                            cp_endpoint := (case pu_endpoint data of None \<Rightarrow> cp_endpoint p | Some x \<Rightarrow> x),
                            cp_enabled := (case pu_enabled data of None \<Rightarrow> cp_enabled p | Some x \<Rightarrow> x),
                            cp_config_enc := (case pu_config data of None \<Rightarrow> cp_config_enc p | Some d \<Rightarrow> encrypt_config e (Some d))\<rparr>
                 in Inr ((pid, provider_out p'), w\<lparr>providers := tupd pid (\<lambda>_. p') (providers w)\<rparr>))))"

definition delete_provider :: "current_user \<Rightarrow> int \<Rightarrow> 'z cicd_db_scheme \<Rightarrow> (unit \<times> 'z cicd_db_scheme) res" where
  "delete_provider u pid w =
     (if \<not> feature_on w cicd_feature then Inl feature_disabled
      else if \<not> has_perm u ''cicd:provider:del'' then Inl (perm_denied ''cicd:provider:del'')
      else (case tget (providers w) pid of
              None \<Rightarrow> Inl provider_not_found
            | Some p \<Rightarrow>
                if texists (\<lambda>r. rl_provider_id r = pid) (releases w) then Inl (ConflictError ''provider referenced by releases'')
                else Inr ((), w\<lparr>providers := tdel pid (providers w)\<rparr>)))"

definition test_provider :: "env \<Rightarrow> current_user \<Rightarrow> int \<Rightarrow> 'z cicd_db_scheme \<Rightarrow> (string \<times> 'z cicd_db_scheme) res" where
  "test_provider e u pid w =
     (if \<not> feature_on w cicd_feature then Inl feature_disabled
      else if \<not> has_perm u ''cicd:provider:test'' then Inl (perm_denied ''cicd:provider:test'')
      else (case tget (providers w) pid of
              None \<Rightarrow> Inl provider_not_found
            | Some p \<Rightarrow> Inr (''ok'', w\<lparr>providers := tupd pid (\<lambda>r. r\<lparr>cp_status := ''ok'', cp_last_heartbeat := Some (now e)\<rparr>) (providers w)\<rparr>)))"

section \<open>Releases\<close>

record release_create =
  rc_provider_id :: int
  rc_app :: string
  rc_version :: "string option"
  rc_artifact_ref :: "string option"
  rc_env :: string
  rc_target_host_ids :: "int list option"

definition list_releases ::
  "current_user \<Rightarrow> release_status option \<Rightarrow> string option \<Rightarrow> string option \<Rightarrow> int \<Rightarrow> int \<Rightarrow> 'z cicd_db_scheme \<Rightarrow>
   ((int \<times> release) list \<times> nat) res" where
  "list_releases u st app en page sz w =
     (if \<not> feature_on w cicd_feature then Inl feature_disabled
      else if \<not> has_perm u ''release:list'' then Inl (perm_denied ''release:list'')
      else (let rs = rev (tselect (\<lambda>r. (st \<noteq> None \<longrightarrow> rl_status r = the st) \<and> (str_truthy app \<longrightarrow> rl_app r = the app) \<and>
                             (str_truthy en \<longrightarrow> rl_env r = the en)) (releases w))
            in Inr (page_of page sz rs, length rs)))"

definition create_release ::
  "current_user \<Rightarrow> release_create \<Rightarrow> 'z cicd_db_scheme \<Rightarrow> ((int \<times> release) \<times> 'z cicd_db_scheme) res" where
  "create_release u data w =
     (if \<not> feature_on w cicd_feature then Inl feature_disabled
      else if \<not> has_perm u ''release:add'' then Inl (perm_denied ''release:add'')
      else if rc_env data \<notin> set RELEASE_ENVS then Inl (ValidationError ''unknown env'')
      else if \<not> (str_truthy (rc_version data) \<or> str_truthy (rc_artifact_ref data))
      then Inl (ValidationError ''release requires `version` or `artifact_ref`'')
      else (case tget (providers w) (rc_provider_id data) of
              None \<Rightarrow> Inl provider_not_found
            | Some p \<Rightarrow>
                (let r = \<lparr>rl_provider_id = rc_provider_id data, rl_app = rc_app data, rl_version = rc_version data,
                          rl_artifact_ref = rc_artifact_ref data, rl_env = rc_env data, rl_status = LPending,
                          rl_workflow_run_id = None,
                          rl_target_host_ids = (case rc_target_host_ids data of Some [] \<Rightarrow> None | x \<Rightarrow> x),
                          rl_rolled_back_from = None, rl_created_by = Some (uid u)\<rparr>
                 in Inr ((next_id (releases w), r), w\<lparr>releases := tadd r (releases w)\<rparr>))))"

definition get_release :: "current_user \<Rightarrow> int \<Rightarrow> 'z cicd_db_scheme \<Rightarrow> release res" where
  "get_release u rid w =
     (if \<not> feature_on w cicd_feature then Inl feature_disabled
      else if \<not> has_perm u ''release:view'' then Inl (perm_denied ''release:view'')
      else (case tget (releases w) rid of None \<Rightarrow> Inl (NotFoundError ''release not found'') | Some r \<Rightarrow> Inr r))"

definition RELEASE_WORKFLOW_NAME :: string where
  "RELEASE_WORKFLOW_NAME = ''__release_orchestration__''"

definition RELEASE_DEFINITION :: json where
  "RELEASE_DEFINITION = JObj [(''nodes'', JList [JObj
     [(''key'', JStr ''deploy''), (''type'', JStr ''callback''), (''config'', JObj []), (''depends_on'', JList []),
      (''on_success'', JList []), (''on_failure'', JList [])]])]"

definition ensure_release_workflow ::
  "current_user \<Rightarrow> 'z cicd_db_scheme \<Rightarrow> (int \<times> workflow) \<times> 'z cicd_db_scheme" where
  "ensure_release_workflow u w =
     (case tfirst (\<lambda>r. wf_name r = RELEASE_WORKFLOW_NAME) (workflows w) of
        Some x \<Rightarrow> (x, w)
      | None \<Rightarrow>
          (let flow = \<lparr>wf_name = RELEASE_WORKFLOW_NAME, wf_kind = ''workflow'', wf_description = ''P3-5 release orchestration'',
                       wf_current_version = 1, wf_enabled = 1, wf_created_by = Some (uid u)\<rparr>;
               wid = next_id (workflows w)
           in ((wid, flow), w\<lparr>workflows := tadd flow (workflows w),
                 wf_versions := tadd \<lparr>wv_workflow_id = wid, wv_version = 1, wv_definition = RELEASE_DEFINITION,
                                     wv_editor_id = Some (uid u)\<rparr> (wf_versions w)\<rparr>)))"

definition trigger_release_run ::
  "env \<Rightarrow> current_user \<Rightarrow> int \<Rightarrow> release \<Rightarrow> string \<Rightarrow> 'z cicd_db_scheme \<Rightarrow> int \<times> 'z cicd_db_scheme" where
  "trigger_release_run e u rid r action w =
     (let ((wid, flow), w1) = ensure_release_workflow u w;
          (run_id, w2) = start_run e u wid flow RELEASE_DEFINITION ''release''
            (JObj [(''release_id'', JInt rid), (''app'', JStr (rl_app r)), (''env'', JStr (rl_env r)), (''action'', JStr action)])
            (JObj [(''release_id'', JInt rid), (''action'', JStr action)]) w1
      in (run_id, upd_release rid (\<lambda>x. x\<lparr>rl_workflow_run_id := Some run_id\<rparr>) w2))"

text \<open>The gates and the transition that the release handlers share; \<open>k\<close> is what the handler does
  to the row after its transition, before the audit entry.\<close>

definition release_handler ::
  "current_user \<Rightarrow> string \<Rightarrow> release_action \<Rightarrow> string \<Rightarrow>
   (release \<Rightarrow> 'z cicd_db_scheme \<Rightarrow> release \<times> 'z cicd_db_scheme) \<Rightarrow> int \<Rightarrow> 'z cicd_db_scheme \<Rightarrow> (release \<times> 'z cicd_db_scheme) res" where
  "release_handler u perm action label k rid w =
     (if \<not> feature_on w cicd_feature then Inl feature_disabled
      else if \<not> has_perm u perm then Inl (perm_denied perm)
      else (case tget (releases w) rid of
              None \<Rightarrow> Inl (NotFoundError ''release not found'')
            | Some r \<Rightarrow>
                (case apply_release_transition r action of
                   Inl err \<Rightarrow> Inl err
                 | Inr r1 \<Rightarrow> (let (r2, w2) = k r1 (upd_release rid (\<lambda>_. r1) w) in Inr (r2, audit (who u) label rid r2 w2)))))"

definition deploy_release :: "current_user \<Rightarrow> int \<Rightarrow> 'z cicd_db_scheme \<Rightarrow> (release \<times> 'z cicd_db_scheme) res" where
  "deploy_release u = release_handler u ''release:deploy'' DeployR ''release.deploy'' Pair"

definition canary_release :: "env \<Rightarrow> current_user \<Rightarrow> int \<Rightarrow> 'z cicd_db_scheme \<Rightarrow> (release \<times> 'z cicd_db_scheme) res" where
  "canary_release e u rid = release_handler u ''release:canary'' CanaryR ''release.canary''
     (\<lambda>r w. let (run_id, w1) = trigger_release_run e u rid r ''canary'' w in (r\<lparr>rl_workflow_run_id := Some run_id\<rparr>, w1)) rid"

definition promote_release :: "current_user \<Rightarrow> int \<Rightarrow> 'z cicd_db_scheme \<Rightarrow> (release \<times> 'z cicd_db_scheme) res" where
  "promote_release u = release_handler u ''release:promote'' PromoteR ''release.promote'' Pair"

definition fail_release :: "current_user \<Rightarrow> int \<Rightarrow> 'z cicd_db_scheme \<Rightarrow> (release \<times> 'z cicd_db_scheme) res" where
  "fail_release u = release_handler u ''release:fail'' FailR ''release.fail'' Pair"

definition rollback_release :: "current_user \<Rightarrow> int \<Rightarrow> 'z cicd_db_scheme \<Rightarrow> (release \<times> 'z cicd_db_scheme) res" where
  "rollback_release u rid = release_handler u ''release:rollback'' RollbackR ''release.rollback''
     (\<lambda>r w. (r\<lparr>rl_rolled_back_from := rl_workflow_run_id r\<rparr>,
             upd_release rid (\<lambda>x. x\<lparr>rl_rolled_back_from := rl_workflow_run_id x\<rparr>) w)) rid"

definition cancel_release :: "env \<Rightarrow> current_user \<Rightarrow> int \<Rightarrow> 'z cicd_db_scheme \<Rightarrow> (release \<times> 'z cicd_db_scheme) res" where
  "cancel_release e u rid = release_handler u ''release:cancel'' CancelR ''release.cancel''
     (\<lambda>r w. (r, if \<not> int_truthy (rl_workflow_run_id r) then w
             else (case tget (wf_runs w) (the (rl_workflow_run_id r)) of
                     None \<Rightarrow> w
                   | Some run \<Rightarrow>
                       if wr_status run \<in> set TERMINAL_RUN_STATUSES then w
                       else upd_run (the (rl_workflow_run_id r))
                              (\<lambda>x. x\<lparr>wr_status := RCancelled, wr_finished_at := Some (now e)\<rparr>) w))) rid"

section \<open>The webhook\<close>

definition handle_webhook :: "env \<Rightarrow> string \<Rightarrow> string option \<Rightarrow> json \<Rightarrow> 'z cicd_db_scheme \<Rightarrow> (string \<times> json) res" where
  "handle_webhook e provider token payload w =
     (if \<not> feature_on w cicd_feature then Inl feature_disabled
      else if \<not> str_truthy token then Inl (UnauthorizedError ''provider token required'')
      else (case tfirst (\<lambda>p. cp_type p = provider \<or> cp_name p = provider) (providers w) of
              None \<Rightarrow> Inr (provider, payload)
            | Some (i, p) \<Rightarrow>
                (case map_of (decrypt_config e (cp_config_enc p)) ''token'' of
                   None \<Rightarrow> Inr (provider, payload)
                 | Some expected \<Rightarrow>
                     if expected \<noteq> the token then Inl (UnauthorizedError ''invalid provider token'')
                     else Inr (provider, payload))))"

section \<open>Gates\<close>

interpretation release_gate: gated_op cicd_feature perm "\<lambda>u. release_handler u perm action label k rid" for perm action label k rid
  by unfold_locales (simp_all add: release_handler_def)

interpretation provider_add_gate: gated_op cicd_feature "''cicd:provider:add''" "\<lambda>u. create_provider e u data" for e data
  by unfold_locales (simp_all add: create_provider_def)

interpretation provider_edit_gate: gated_op cicd_feature "''cicd:provider:edit''" "\<lambda>u. update_provider e u pid data" for e pid data
  by unfold_locales (simp_all add: update_provider_def)

interpretation provider_del_gate: gated_op cicd_feature "''cicd:provider:del''" "\<lambda>u. delete_provider u pid" for pid
  by unfold_locales (simp_all add: delete_provider_def)

interpretation release_add_gate: gated_op cicd_feature "''release:add''" "\<lambda>u. create_release u data" for data
  by unfold_locales (simp_all add: create_release_def)

end
