(* ===== verification/Ticket_Service.thy ===== *)
theory Ticket_Service
  imports Cicd_Service
begin

text \<open>
  Tickets (\<open>ticket_service.py\<close>, \<open>db/models/ticket.py\<close>): the lifecycle with its transition table,
  editing, comments, attachments and references. \<open>user_ids\<close> are the keys of the user table that the
  foreign keys of a ticket point at.
\<close>

section \<open>Rows\<close>

datatype ticket_status = KCreate | KAssign | KAccept | KProcessing | KDone | KClose | KCancel

definition TICKET_EDITABLE_STATUSES :: "ticket_status list" where
  "TICKET_EDITABLE_STATUSES = [KCreate, KAssign]"

definition TICKET_CATEGORIES :: "string list" where
  "TICKET_CATEGORIES = [''incident'', ''change'', ''request'', ''other'']"

definition TICKET_PRIORITIES :: "string list" where
  "TICKET_PRIORITIES = [''low'', ''medium'', ''high'', ''urgent'']"

definition TICKET_REF_TYPES :: "string list" where
  "TICKET_REF_TYPES = [''exec_task'', ''approval'', ''asset_host'', ''schedule'', ''kb_article'', ''script'']"

record ticket =
  tk_ticket_no :: string
  tk_title :: string
  tk_category :: string
  tk_priority :: string
  tk_status :: ticket_status
  tk_requester_id :: "int option"
  tk_assignee_id :: "int option"
  tk_description :: string
  tk_sla_due_at :: "time option"
  tk_resolved_at :: "time option"
  tk_closed_at :: "time option"
  tk_version :: int
  tk_created_at :: time

record ticket_comment =
  tc_ticket_id :: int
  tc_author_id :: "int option"
  tc_content :: string

record ticket_attachment =
  ta_ticket_id :: int
  ta_file_id :: int
  ta_filename :: string
  ta_size :: int
  ta_uploaded_by :: "int option"

record ticket_ref =
  tr_ticket_id :: int
  tr_ref_type :: string
  tr_ref_id :: int
  tr_created_by :: "int option"

record file_package =
  fp_name :: string
  fp_total_size :: int
  fp_store_path :: string
  fp_created_by :: "int option"

record ticket_db = cicd_db +
  tickets :: "ticket table"
  ticket_comments :: "ticket_comment table"
  ticket_attachments :: "ticket_attachment table"
  ticket_refs :: "ticket_ref table"
  file_packages :: "file_package table"
  user_ids :: "int list"
  seq_ticket_no :: int

definition ticket_feature :: string where
  "ticket_feature = ''feature.ticket''"

definition put_ticket :: "int \<Rightarrow> ticket \<Rightarrow> 'z ticket_db_scheme \<Rightarrow> 'z ticket_db_scheme" where
  "put_ticket i t w = w\<lparr>tickets := tupd i (\<lambda>_. t) (tickets w)\<rparr>"

section \<open>Transitions\<close>

datatype ticket_action = DoAssign | DoAccept | DoProcess | DoDone | DoClose | DoReopen | DoCancel

fun TICKET_TRANSITIONS :: "ticket_action \<Rightarrow> ticket_status list \<times> ticket_status" where
  "TICKET_TRANSITIONS DoAssign = ([KCreate, KAssign], KAssign)"
| "TICKET_TRANSITIONS DoAccept = ([KAssign], KAccept)"
| "TICKET_TRANSITIONS DoProcess = ([KAccept], KProcessing)"
| "TICKET_TRANSITIONS DoDone = ([KProcessing], KDone)"
| "TICKET_TRANSITIONS DoClose = ([KDone], KClose)"
| "TICKET_TRANSITIONS DoReopen = ([KDone, KClose], KProcessing)"
| "TICKET_TRANSITIONS DoCancel = ([KCreate, KAssign, KAccept, KProcessing], KCancel)"

text \<open>A cancelled ticket stays; once accepted, a ticket never becomes editable again.\<close>

interpretation ticket_machine: action_machine TICKET_TRANSITIONS
  "\<lambda>s. s = KCancel" "\<lambda>s. s \<notin> set TICKET_EDITABLE_STATUSES"
proof unfold_locales
  fix s a
  assume "s = KCancel"
  then show "\<not> action_allowed TICKET_TRANSITIONS a s"
    by (cases a) (auto simp: action_allowed_def)
next
  fix s a
  assume "action_allowed TICKET_TRANSITIONS a s" "s \<notin> set TICKET_EDITABLE_STATUSES"
  then show "snd (TICKET_TRANSITIONS a) \<notin> set TICKET_EDITABLE_STATUSES"
    by (cases a) (auto simp: action_allowed_def TICKET_EDITABLE_STATUSES_def)
qed

definition apply_transition :: "ticket \<Rightarrow> ticket_action \<Rightarrow> ticket res" where
  "apply_transition t action =
     (if \<not> action_allowed TICKET_TRANSITIONS action (tk_status t)
      then Inl (BadRequestError ''action not allowed in the status of the ticket'')
      else Inr (t\<lparr>tk_status := snd (TICKET_TRANSITIONS action), tk_version := tk_version t + 1\<rparr>))"

section \<open>Creating, reading and editing\<close>

record ticket_create =
  kc_title :: string
  kc_category :: string
  kc_priority :: string
  kc_description :: string
  kc_assignee_id :: "int option"
  kc_host_ids :: "int list"
  kc_due_at :: "time option"

record ticket_update =
  ku_title :: "string option"
  ku_category :: "string option"
  ku_priority :: "string option"
  ku_description :: "string option"
  ku_assignee_id :: "int option"
  ku_due_at :: "time option"

definition ticket_no :: "env \<Rightarrow> 'z ticket_db_scheme \<Rightarrow> string \<times> 'z ticket_db_scheme" where
  "ticket_no e w = (let n = seq_ticket_no w + 1
     in (''TK-'' @ today e @ ''-'' @ pad_int 3 n, w\<lparr>seq_ticket_no := n\<rparr>))"

definition fk_violation :: app_error where
  "fk_violation = IntegrityError ''ticket.assignee_id''"

definition known_user :: "'z ticket_db_scheme \<Rightarrow> int option \<Rightarrow> bool" where
  "known_user w x = (case x of None \<Rightarrow> True | Some i \<Rightarrow> i \<in> set (user_ids w))"

text \<open>Inserting a reference: \<open>(ticket_id, ref_type, ref_id)\<close> is unique.\<close>

definition insert_ref :: "int \<Rightarrow> string \<Rightarrow> int \<Rightarrow> int \<Rightarrow> 'z ticket_db_scheme \<Rightarrow> 'z ticket_db_scheme res" where
  "insert_ref tid rtype ref by_user w =
     (if texists (\<lambda>r. tr_ticket_id r = tid \<and> tr_ref_type r = rtype \<and> tr_ref_id r = ref) (ticket_refs w)
      then Inl (IntegrityError ''ticket_ref'')
      else Inr (w\<lparr>ticket_refs := tadd \<lparr>tr_ticket_id = tid, tr_ref_type = rtype, tr_ref_id = ref, tr_created_by = Some by_user\<rparr>
                    (ticket_refs w)\<rparr>))"

fun insert_host_refs :: "int \<Rightarrow> int \<Rightarrow> int list \<Rightarrow> 'z ticket_db_scheme \<Rightarrow> 'z ticket_db_scheme res" where
  "insert_host_refs tid by_user [] w = Inr w"
| "insert_host_refs tid by_user (h # hs) w =
     (case insert_ref tid ''asset_host'' h by_user w of
        Inl err \<Rightarrow> Inl err
      | Inr w' \<Rightarrow> insert_host_refs tid by_user hs w')"

definition create_ticket ::
  "env \<Rightarrow> current_user \<Rightarrow> ticket_create \<Rightarrow> 'z ticket_db_scheme \<Rightarrow> ((int \<times> ticket) \<times> 'z ticket_db_scheme) res" where
  "create_ticket e u data w =
     (if \<not> feature_on w ticket_feature then Inl feature_disabled
      else if \<not> has_perm u ''ticket:create'' then Inl (perm_denied ''ticket:create'')
      else if kc_category data \<notin> set TICKET_CATEGORIES then Inl (ValidationError ''invalid category'')
      else if kc_priority data \<notin> set TICKET_PRIORITIES then Inl (ValidationError ''invalid priority'')
      else if int_truthy (kc_assignee_id data) \<and> \<not> has_perm u ''ticket:assign'' then Inl (perm_denied ''ticket:assign'')
      else if \<not> known_user w (kc_assignee_id data) then Inl fk_violation
      else (let (no, w1) = ticket_no e w;
                t = \<lparr>tk_ticket_no = no, tk_title = kc_title data, tk_category = kc_category data, tk_priority = kc_priority data,
                     tk_status = (if int_truthy (kc_assignee_id data) then KAssign else KCreate),
                     tk_requester_id = Some (uid u), tk_assignee_id = kc_assignee_id data, tk_description = kc_description data,
                     tk_sla_due_at = kc_due_at data, tk_resolved_at = None, tk_closed_at = None, tk_version = 0,
                     tk_created_at = now e\<rparr>;
                tid = next_id (tickets w1)
            in case insert_host_refs tid (uid u) (kc_host_ids data) (w1\<lparr>tickets := tadd t (tickets w1)\<rparr>) of
                 Inl err \<Rightarrow> Inl err
               | Inr w2 \<Rightarrow> Inr ((tid, t), w2)))"

record ticket_filter =
  kf_category :: "string option"
  kf_status :: "ticket_status option"
  kf_priority :: "string option"
  kf_ticket_no :: "string option"
  kf_requester_id :: "int option"
  kf_assignee_id :: "int option"
  kf_start :: "time option"
  kf_end :: "time option"

definition ticket_matches :: "ticket_filter \<Rightarrow> ticket \<Rightarrow> bool" where
  "ticket_matches f t =
     ((str_truthy (kf_category f) \<longrightarrow> tk_category t = the (kf_category f)) \<and>
      (kf_status f \<noteq> None \<longrightarrow> tk_status t = the (kf_status f)) \<and>
      (str_truthy (kf_priority f) \<longrightarrow> tk_priority t = the (kf_priority f)) \<and>
      (str_truthy (kf_ticket_no f) \<longrightarrow> tk_ticket_no t = the (kf_ticket_no f)) \<and>
      (int_truthy (kf_requester_id f) \<longrightarrow> tk_requester_id t = kf_requester_id f) \<and>
      (int_truthy (kf_assignee_id f) \<longrightarrow> tk_assignee_id t = kf_assignee_id f) \<and>
      (kf_start f \<noteq> None \<longrightarrow> tk_created_at t \<ge> the (kf_start f)) \<and>
      (kf_end f \<noteq> None \<longrightarrow> tk_created_at t \<le> the (kf_end f)))"

definition list_tickets ::
  "current_user \<Rightarrow> ticket_filter \<Rightarrow> int \<Rightarrow> int \<Rightarrow> 'z ticket_db_scheme \<Rightarrow> ((int \<times> ticket) list \<times> nat) res" where
  "list_tickets u f page sz w =
     (if \<not> feature_on w ticket_feature then Inl feature_disabled
      else if \<not> has_perm u ''ticket:list'' then Inl (perm_denied ''ticket:list'')
      else (let rs = rev (tselect (ticket_matches f) (tickets w)) in Inr (page_of page sz rs, length rs)))"

definition ticket_not_found :: app_error where
  "ticket_not_found = NotFoundError ''ticket not found''"

definition get_ticket ::
  "current_user \<Rightarrow> int \<Rightarrow> 'z ticket_db_scheme \<Rightarrow>
   (ticket \<times> (int \<times> ticket_ref) list \<times> (int \<times> ticket_comment) list \<times> (int \<times> ticket_attachment) list) res" where
  "get_ticket u tid w =
     (if \<not> feature_on w ticket_feature then Inl feature_disabled
      else if \<not> has_perm u ''ticket:list'' then Inl (perm_denied ''ticket:list'')
      else (case tget (tickets w) tid of
              None \<Rightarrow> Inl ticket_not_found
            | Some t \<Rightarrow> Inr (t, tselect (\<lambda>r. tr_ticket_id r = tid) (ticket_refs w),
                             tselect (\<lambda>c. tc_ticket_id c = tid) (ticket_comments w),
                             tselect (\<lambda>a. ta_ticket_id a = tid) (ticket_attachments w))))"

definition set_opt :: "'a option \<Rightarrow> 'a \<Rightarrow> 'a" where
  "set_opt x old = (case x of None \<Rightarrow> old | Some v \<Rightarrow> v)"

definition edit_ticket ::
  "current_user \<Rightarrow> int \<Rightarrow> ticket_update \<Rightarrow> 'z ticket_db_scheme \<Rightarrow> (ticket \<times> 'z ticket_db_scheme) res" where
  "edit_ticket u tid data w =
     (if \<not> feature_on w ticket_feature then Inl feature_disabled
      else if \<not> has_perm u ''ticket:edit'' then Inl (perm_denied ''ticket:edit'')
      else (case tget (tickets w) tid of
              None \<Rightarrow> Inl ticket_not_found
            | Some t \<Rightarrow>
                if tk_status t \<notin> set TICKET_EDITABLE_STATUSES then Inl (BadRequestError ''ticket not editable in its status'')
                else if ku_category data \<noteq> None \<and> the (ku_category data) \<notin> set TICKET_CATEGORIES
                then Inl (ValidationError ''invalid category'')
                else if ku_priority data \<noteq> None \<and> the (ku_priority data) \<notin> set TICKET_PRIORITIES
                then Inl (ValidationError ''invalid priority'')
                else if \<not> known_user w (ku_assignee_id data) then Inl fk_violation
                else (let t' = t\<lparr>tk_title := set_opt (ku_title data) (tk_title t),
                                 tk_category := set_opt (ku_category data) (tk_category t),
                                 tk_priority := set_opt (ku_priority data) (tk_priority t),
                                 tk_description := set_opt (ku_description data) (tk_description t),
                                 tk_assignee_id := (if ku_assignee_id data = None then tk_assignee_id t else ku_assignee_id data),
                                 tk_sla_due_at := (if ku_due_at data = None then tk_sla_due_at t else ku_due_at data),
                                 tk_version := tk_version t + 1\<rparr>
                      in Inr (t', put_ticket tid t' w))))"

section \<open>Transition handlers\<close>

text \<open>The gates and the transition they share; \<open>f\<close> is what the handler sets afterwards.\<close>

definition transition_handler ::
  "current_user \<Rightarrow> string \<Rightarrow> ticket_action \<Rightarrow> (ticket \<Rightarrow> ticket) \<Rightarrow> int \<Rightarrow> 'z ticket_db_scheme \<Rightarrow> (ticket \<times> 'z ticket_db_scheme) res" where
  "transition_handler u perm action f tid w =
     (if \<not> feature_on w ticket_feature then Inl feature_disabled
      else if \<not> has_perm u perm then Inl (perm_denied perm)
      else (case tget (tickets w) tid of
              None \<Rightarrow> Inl ticket_not_found
            | Some t \<Rightarrow>
                (case apply_transition t action of
                   Inl err \<Rightarrow> Inl err
                 | Inr t' \<Rightarrow> Inr (f t', put_ticket tid (f t') w))))"

definition simple_transition ::
  "env \<Rightarrow> current_user \<Rightarrow> string \<Rightarrow> ticket_action \<Rightarrow> int \<Rightarrow> 'z ticket_db_scheme \<Rightarrow> (ticket \<times> 'z ticket_db_scheme) res" where
  "simple_transition e u perm action =
     transition_handler u perm action (\<lambda>t. if action = DoClose then t\<lparr>tk_closed_at := Some (now e)\<rparr> else t)"

definition assign_ticket :: "current_user \<Rightarrow> int \<Rightarrow> int \<Rightarrow> 'z ticket_db_scheme \<Rightarrow> (ticket \<times> 'z ticket_db_scheme) res" where
  "assign_ticket u tid assignee w =
     (case transition_handler u ''ticket:assign'' DoAssign (\<lambda>t. t\<lparr>tk_assignee_id := Some assignee\<rparr>) tid w of
        Inl err \<Rightarrow> Inl err
      | Inr r \<Rightarrow> if \<not> known_user w (Some assignee) then Inl fk_violation else Inr r)"

definition accept_ticket :: "env \<Rightarrow> current_user \<Rightarrow> int \<Rightarrow> 'z ticket_db_scheme \<Rightarrow> (ticket \<times> 'z ticket_db_scheme) res" where
  "accept_ticket e u = simple_transition e u ''ticket:accept'' DoAccept"

definition process_ticket :: "env \<Rightarrow> current_user \<Rightarrow> int \<Rightarrow> 'z ticket_db_scheme \<Rightarrow> (ticket \<times> 'z ticket_db_scheme) res" where
  "process_ticket e u = simple_transition e u ''ticket:process'' DoProcess"

definition close_ticket :: "env \<Rightarrow> current_user \<Rightarrow> int \<Rightarrow> 'z ticket_db_scheme \<Rightarrow> (ticket \<times> 'z ticket_db_scheme) res" where
  "close_ticket e u = simple_transition e u ''ticket:close'' DoClose"

definition reopen_ticket :: "env \<Rightarrow> current_user \<Rightarrow> int \<Rightarrow> 'z ticket_db_scheme \<Rightarrow> (ticket \<times> 'z ticket_db_scheme) res" where
  "reopen_ticket e u = simple_transition e u ''ticket:reopen'' DoReopen"

definition cancel_ticket :: "env \<Rightarrow> current_user \<Rightarrow> int \<Rightarrow> 'z ticket_db_scheme \<Rightarrow> (ticket \<times> 'z ticket_db_scheme) res" where
  "cancel_ticket e u = simple_transition e u ''ticket:cancel'' DoCancel"

definition done_ticket ::
  "env \<Rightarrow> current_user \<Rightarrow> int \<Rightarrow> int option \<Rightarrow> 'z ticket_db_scheme \<Rightarrow> (ticket \<times> 'z ticket_db_scheme) res" where
  "done_ticket e u tid exec_task_id w =
     (case transition_handler u ''ticket:done'' DoDone (\<lambda>t. t\<lparr>tk_resolved_at := Some (now e)\<rparr>) tid w of
        Inl err \<Rightarrow> Inl err
      | Inr (t, w1) \<Rightarrow>
          if int_truthy exec_task_id
          then (case insert_ref tid ''exec_task'' (the exec_task_id) (uid u) w1 of Inl err \<Rightarrow> Inl err | Inr w2 \<Rightarrow> Inr (t, w2))
          else Inr (t, w1))"

section \<open>Comments, attachments and references\<close>

definition add_comment :: "current_user \<Rightarrow> int \<Rightarrow> string \<Rightarrow> 'z ticket_db_scheme \<Rightarrow> (int \<times> 'z ticket_db_scheme) res" where
  "add_comment u tid content w =
     (if \<not> feature_on w ticket_feature then Inl feature_disabled
      else if \<not> has_perm u ''ticket:comment'' then Inl (perm_denied ''ticket:comment'')
      else (case tget (tickets w) tid of
              None \<Rightarrow> Inl ticket_not_found
            | Some t \<Rightarrow> Inr (next_id (ticket_comments w), w\<lparr>ticket_comments := tadd
                 \<lparr>tc_ticket_id = tid, tc_author_id = Some (uid u), tc_content = content\<rparr> (ticket_comments w)\<rparr>)))"

text \<open>\<open>name.split("/")[-1]\<close>; a name of which nothing, \<open>.\<close> or \<open>..\<close> is left names a directory, and
  writing to it raises.\<close>

definition base_name :: "string \<Rightarrow> string" where
  "base_name s = rev (takeWhile (\<lambda>c. c \<noteq> CHR ''/'') (rev (if s = [] then ''file'' else s)))"

fun store_files ::
  "string \<Rightarrow> current_user \<Rightarrow> int \<Rightarrow> (string \<times> string) list \<Rightarrow> 'z ticket_db_scheme \<Rightarrow> (int list \<times> 'z ticket_db_scheme) res" where
  "store_files dir u tid [] w = Inr ([], w)"
| "store_files dir u tid ((filename, content) # fs) w =
     (let name = base_name filename; sz = int (length content)
      in if name \<in> {[], ''.'', ''..''} then Inl TypeError
         else (let pid = next_id (file_packages w);
                   aid = next_id (ticket_attachments w);
                   w1 = w\<lparr>file_packages := tadd \<lparr>fp_name = name, fp_total_size = sz,
                            fp_store_path = dir @ ''/tickets/'' @ show_int tid @ ''/'' @ name, fp_created_by = Some (uid u)\<rparr> (file_packages w),
                          ticket_attachments := tadd \<lparr>ta_ticket_id = tid, ta_file_id = pid, ta_filename = name, ta_size = sz,
                            ta_uploaded_by = Some (uid u)\<rparr> (ticket_attachments w)\<rparr>
               in case store_files dir u tid fs w1 of Inl err \<Rightarrow> Inl err | Inr (ids, w2) \<Rightarrow> Inr (aid # ids, w2)))"

definition add_attachments ::
  "string \<Rightarrow> current_user \<Rightarrow> int \<Rightarrow> (string \<times> string) list \<Rightarrow> 'z ticket_db_scheme \<Rightarrow> (int list \<times> 'z ticket_db_scheme) res" where
  "add_attachments dir u tid files w =
     (if \<not> feature_on w ticket_feature then Inl feature_disabled
      else if \<not> has_perm u ''ticket:attachment'' then Inl (perm_denied ''ticket:attachment'')
      else (case tget (tickets w) tid of
              None \<Rightarrow> Inl ticket_not_found
            | Some t \<Rightarrow> if files = [] then Inl (BadRequestError ''files[] required'') else store_files dir u tid files w))"

definition add_ref ::
  "current_user \<Rightarrow> int \<Rightarrow> string \<Rightarrow> int \<Rightarrow> 'z ticket_db_scheme \<Rightarrow> ((int \<times> bool) \<times> 'z ticket_db_scheme) res" where
  "add_ref u tid rtype ref w =
     (if \<not> feature_on w ticket_feature then Inl feature_disabled
      else if \<not> has_perm u ''ticket:ref'' then Inl (perm_denied ''ticket:ref'')
      else (case tget (tickets w) tid of
              None \<Rightarrow> Inl ticket_not_found
            | Some t \<Rightarrow>
                if rtype \<notin> set TICKET_REF_TYPES then Inl (ValidationError ''invalid ref_type'')
                else (case tfirst (\<lambda>r. tr_ticket_id r = tid \<and> tr_ref_type r = rtype \<and> tr_ref_id r = ref) (ticket_refs w) of
                        Some (i, r) \<Rightarrow> Inr ((i, False), w)
                      | None \<Rightarrow> (case insert_ref tid rtype ref (uid u) w of
                                   Inl err \<Rightarrow> Inl err
                                 | Inr w' \<Rightarrow> Inr ((next_id (ticket_refs w), True), w')))))"

section \<open>Gates\<close>

interpretation ticket_create_gate: gated_op ticket_feature "''ticket:create''" "\<lambda>u. create_ticket e u data" for e data
  by unfold_locales (simp_all add: create_ticket_def)

interpretation transition_gate: gated_op ticket_feature perm "\<lambda>u. transition_handler u perm action f tid" for perm action f tid
  by unfold_locales (simp_all add: transition_handler_def)

interpretation ticket_edit_gate: gated_op ticket_feature "''ticket:edit''" "\<lambda>u. edit_ticket u tid data" for tid data
  by unfold_locales (simp_all add: edit_ticket_def)

interpretation ticket_ref_gate: gated_op ticket_feature "''ticket:ref''" "\<lambda>u. add_ref u tid rtype ref" for tid rtype ref
  by unfold_locales (simp_all add: add_ref_def)

end
