(* ===== verification/Samples.thy ===== *)
theory Samples
  imports Ticket_Service Approval_Service
begin

text \<open>
  A small concrete installation, on which the witnesses of the properties evaluate: two hosts, a
  script-less command task, the feature flags on and one sensitive word.
\<close>

definition sample_env :: env where
  "sample_env = \<lparr>now = 1000000, today = ''20250101'', redis_up = True, broker_up = True, ssh_available = False,
     agent_reachable = (\<lambda>_. False), agent_online = (\<lambda>_. False), fromisoformat = (\<lambda>_. None), float_of_str = (\<lambda>_. None),
     float_repr = (\<lambda>_. []), new_jti = ''jti'', jwt_encode = (\<lambda>_. ''token''),
     jwt_decode = (\<lambda>t. Some [(''type'', JStr ''wf_callback''), (''run_id'', JInt 1), (''node_key'', JStr ''deploy'')]),
     seal = (\<lambda>s. s), unseal = Some\<rparr>"

definition sample_user :: current_user where
  "sample_user = \<lparr>uid = 7, username = ''ops'', is_admin = True, permissions = [], visible_group_ids = []\<rparr>"

definition plain_user :: current_user where
  "plain_user = \<lparr>uid = 8, username = ''dev'', is_admin = False, permissions = [], visible_group_ids = []\<rparr>"

definition sample_rules :: "(string \<times> dict) list" where
  "sample_rules = [(''exec_sensitive_word'', [(''words'', JList [JStr ''rm''])]),
     (''feature.workflow'', [(''value'', JBool True)]), (''feature.cicd'', [(''value'', JBool True)]),
     (''feature.ticket'', [(''value'', JBool True)])]"

definition sample_host :: host where
  "sample_host = \<lparr>h_hostname = ''web1'', h_ip = ''10.0.0.1'', h_group_id = None, h_sensitivity_level = ''low'',
     h_connector = ''agent'', h_agent_id = Some ''a1'', h_os_type = ''linux'', h_env = ''prod'', h_tags = JNull,
     h_status = ''offline'', h_last_heartbeat_at = None, h_os_version = [], h_remark = []\<rparr>"

definition sample_db :: ticket_db where
  "sample_db = \<lparr>config_rules = sample_rules, hosts = Table [(1, sample_host), (2, sample_host)] 2,
     scripts = empty_table, script_versions = empty_table, exec_tasks = empty_table, exec_task_hosts = empty_table,
     exec_logs = empty_table, approvals = empty_table, approval_records = empty_table, terminals = empty_table,
     auto_levels = empty_table, policies = empty_table, whitelist = empty_table, breakers = empty_table,
     ai_actions = empty_table, seq_exec_no = 0, seq_approval_no = 0, sems = (\<lambda>_. 0), outbox = [],
     workflows = empty_table, wf_versions = empty_table, wf_runs = empty_table, node_runs = empty_table,
     providers = empty_table, releases = empty_table, audit_logs = empty_table,
     tickets = empty_table, ticket_comments = empty_table, ticket_attachments = empty_table,
     ticket_refs = empty_table, file_packages = empty_table, user_ids = [7, 8], seq_ticket_no = 0\<rparr>"

definition sample_req :: "string \<Rightarrow> exec_req" where
  "sample_req cmd = \<lparr>rq_name = ''job'', rq_kind = ''command'', rq_target_host_ids = [1, 2], rq_script_id = None,
     rq_script_version = None, rq_command = Some cmd, rq_params = [], rq_mode = ''batch'', rq_timeout_sec = 300,
     rq_retry = 0, rq_created_by = Some 7, rq_requester_id = Some 7, rq_visible_group_ids = None, rq_remediation = None\<rparr>"

text \<open>The database of an answer that succeeded.\<close>

definition after :: "('a \<times> 'w) res \<Rightarrow> 'w \<Rightarrow> 'w" where
  "after r w = (case r of Inl e \<Rightarrow> w | Inr (a, w') \<Rightarrow> w')"

lemma after_eq: "\<not> isl r \<Longrightarrow> r = Inr (fst (projr r), after r w)"
  by (cases r) (simp_all add: after_def split: prod.splits)

text \<open>The database after some turns of the driver in the same environment.\<close>

definition turns :: "nat \<Rightarrow> int \<Rightarrow> ticket_db \<Rightarrow> ticket_db" where
  "turns k rid w = driver_loop fail_release_for_run rid (replicate k sample_env) w"

definition flow_db :: "json \<Rightarrow> ticket_db" where
  "flow_db dfn = after (run_workflow sample_env sample_user 1 None None
     (after (create_workflow sample_user \<lparr>wc_name = ''flow'', wc_description = [], wc_definition = Some dfn, wc_kind = None\<rparr> sample_db) sample_db)) sample_db"

definition edge_node :: "string \<Rightarrow> string \<Rightarrow> dict \<Rightarrow> string list \<Rightarrow> string list \<Rightarrow> json" where
  "edge_node key rtype config deps succ = JObj
     [(''key'', JStr key), (''type'', JStr rtype), (''config'', JObj config), (''depends_on'', JList (map JStr deps)),
      (''on_success'', JList (map JStr succ)), (''on_failure'', JList [])]"

definition provider_db :: ticket_db where
  "provider_db = after (create_provider sample_env sample_user \<lparr>pc_type = ''gitlab'', pc_name = ''git'', pc_endpoint = ''https'',
       pc_config = Some [(''token'', JStr ''secret'')], pc_enabled = 1\<rparr> sample_db) sample_db"

definition release_db :: ticket_db where
  "release_db = after (create_release sample_user \<lparr>rc_provider_id = 1, rc_app = ''shop'', rc_version = Some ''1.0'', rc_artifact_ref = None,
       rc_env = ''prod'', rc_target_host_ids = None\<rparr> provider_db) provider_db"

definition canary_db :: ticket_db where
  "canary_db = after (canary_release sample_env sample_user 1 release_db) release_db"

definition ticket_new :: ticket_db where
  "ticket_new = after (create_ticket sample_env sample_user \<lparr>kc_title = ''disk full'', kc_category = ''incident'', kc_priority = ''high'',
     kc_description = [], kc_assignee_id = Some 8, kc_host_ids = [1], kc_due_at = None\<rparr> sample_db) sample_db"

end
