(* ===== verification/Exec_Properties.thy ===== *)
theory Exec_Properties
  imports Samples Exec_Invariants
begin

text \<open>
  What the execution and approval services promise, on the definitions of \<open>Exec_Service\<close>,
  \<open>Exec_Dispatch\<close> and \<open>Approval_Service\<close>: nothing sensitive runs before its approval, the concurrency
  counters balance, an approval is decided once, a cancelled task is settled, the sweep times out
  what is overdue; then what the code does in corner cases it does not handle.
\<close>

section \<open>The approval gate\<close>

definition gate_w1 :: ticket_db where
  "gate_w1 = snd (create_task sample_env sample_user (sample_req ''rm -rf'') sample_db)"

definition gate_w2 :: ticket_db where
  "gate_w2 = after (approve sample_env sample_user 1 [] gate_w1) gate_w1"

text \<open>C1: whatever sequence of requests, decisions, dispatches, agent reports and sweeps led from a
  fresh installation to a state, a task marked as needing approval that has started is covered by an
  approved request of its own, or its content no longer hits a rule.\<close>

theorem approval_gate_invariant:
  assumes "fresh_install w" and "exec_reach w w'" and "tget (exec_tasks w') tid = Some t"
    and "started (xt_status t)" and "xt_approve_required t \<noteq> 0"
  shows "granted w' t \<or> harmless w' t"
proof -
  have "gate_ok {} w'" using gate_reach [OF assms(2)] fresh_gate [OF assms(1)] by blast
  then show ?thesis using assms(3-5) by (auto dest: gate_okD simp: task_good_def)
qed

lemma gate_sample_fresh: "fresh_install sample_db"
  by (simp add: fresh_install_def sample_db_def)

lemma gate_sample_reach: "exec_reach sample_db gate_w2"
proof -
  have 1: "exec_step sample_db gate_w1"
    unfolding gate_w1_def by (rule step_create [OF surjective_pairing])
  have "\<exists>s. approve sample_env sample_user 1 [] gate_w1 = Inr (s, gate_w2)"
  proof (cases "approve sample_env sample_user 1 [] gate_w1")
    case (Inl err)
    moreover have "isl (approve sample_env sample_user 1 [] gate_w1) = False" by code_simp
    ultimately show ?thesis by simp
  next
    case (Inr b)
    then show ?thesis by (cases b) (simp add: gate_w2_def after_def)
  qed
  then have 2: "exec_step gate_w1 gate_w2" using step_approve by blast
  show ?thesis using reach_next [OF reach_next [OF reach_start 1] 2] .
qed

theorem approval_gate_invariant_witness:
  "\<exists>t. tget (exec_tasks gate_w2) 1 = Some t \<and> xt_status t = XRunning \<and> xt_approve_required t = 1 \<and>
     (granted gate_w2 t \<or> harmless gate_w2 t)"
proof -
  let ?t = "the (tget (exec_tasks gate_w2) 1)"
  have t: "tget (exec_tasks gate_w2) 1 = Some ?t" "xt_status ?t = XRunning" "xt_approve_required ?t = 1"
    by code_simp+
  have "started (xt_status ?t)" "xt_approve_required ?t \<noteq> 0" by (simp_all add: t(2,3))
  then show ?thesis
    using approval_gate_invariant [OF gate_sample_fresh gate_sample_reach t(1)] t by auto
qed













definition agent_env :: env where
  "agent_env = sample_env\<lparr>agent_reachable := (\<lambda>_. True)\<rparr>"



section \<open>Semaphores\<close>

definition held :: "env \<Rightarrow> int list \<Rightarrow> sem_key \<Rightarrow> int" where
  "held e hs k = (if \<not> redis_up e then 0 else case k of SemGlobal \<Rightarrow> int (length hs) | SemHost h \<Rightarrow> int (count_list hs h))"

definition host_ids :: "'z exec_db_scheme \<Rightarrow> int \<Rightarrow> int option" where
  "host_ids w i = map_option th_host_id (tget (exec_task_hosts w) i)"

lemma held_Nil [simp]: "held e [] k = 0"
  by (simp add: held_def split: sem_key.splits)

lemma held_Cons: "held e (h # hs) k = held e [h] k + held e hs k"
  by (simp add: held_def split: sem_key.splits)

lemma sems_release: "sems (release_semaphore e SemGlobal (release_semaphore e (SemHost h) w)) k = sems w k - held e [h] k"
  by (simp add: release_semaphore_def held_def split: sem_key.splits)

lemma sems_acquire:
  "acquire_semaphore e SemGlobal gl w = (True, w1) \<Longrightarrow> acquire_semaphore e (SemHost h) hl w1 = (True, w2) \<Longrightarrow>
     sems w2 k = sems w k + held e [h] k"
  by (auto simp: acquire_semaphore_def held_def split: if_splits sem_key.splits)

lemma sems_give_back:
  "acquire_semaphore e SemGlobal gl w = (True, w1) \<Longrightarrow> acquire_semaphore e (SemHost h) hl w1 = (False, w2) \<Longrightarrow>
     sems (release_semaphore e SemGlobal w2) k = sems w k"
  by (auto simp: acquire_semaphore_def release_semaphore_def split: if_splits)

lemma th_frame [simp]:
  "exec_task_hosts (release_semaphore e k w) = exec_task_hosts w"
  "exec_task_hosts (append_log i n l c w) = exec_task_hosts w"
  "exec_task_hosts (emit x w) = exec_task_hosts w"
  "sems (upd_th i f w) = sems w" "sems (append_log i n l c w) = sems w" "sems (emit x w) = sems w"
  "sems (upd_task i g w) = sems w"
  by (simp_all add: release_semaphore_def append_log_def emit_def upd_th_def upd_task_def)

lemma host_ids_upd [simp]:
  assumes "\<And>r. th_host_id (f r) = th_host_id r"
  shows "host_ids (upd_th i f w) = host_ids w"
  using assms by (auto simp: host_ids_def upd_th_def option.map_comp o_def fun_eq_iff)

lemma host_ids_frame:
  "host_ids (release_semaphore e k w) = host_ids w" "host_ids (append_log i n l c w) = host_ids w"
  "host_ids (emit x w) = host_ids w" "acquire_semaphore e k n w = (b, w') \<Longrightarrow> host_ids w' = host_ids w"
  by (auto simp: host_ids_def fun_eq_iff acquire_semaphore_def split: if_splits)

lemma start_hosts_sems:
  assumes "start_hosts e gl hl ths w = (ss, w')" and "\<forall>(i, th) \<in> set ths. host_ids w i = Some (th_host_id th)"
  shows "(\<forall>k. sems w' k = sems w k + held e (map (\<lambda>i. the (host_ids w i)) ss) k) \<and> host_ids w' = host_ids w \<and>
    (\<forall>i \<in> set ss. host_ids w i \<noteq> None)"
  using assms
proof (induction ths arbitrary: w ss w')
  case Nil
  then show ?case by simp
next
  case (Cons x ths)
  obtain i th where x: "x = (i, th)" by fastforce
  show ?case
  proof (cases "th_status th = HPending")
    case False
    with Cons x show ?thesis by simp
  next
    case True
    obtain g w1 where a: "acquire_semaphore e SemGlobal gl w = (g, w1)" by fastforce
    obtain h w2 where b: "acquire_semaphore e (SemHost (th_host_id th)) hl w1 = (h, w2)" by fastforce
    define w3 where "w3 = upd_th i (\<lambda>r. r\<lparr>th_status := HRunning, th_started_at := Some (now e)\<rparr>) w2"
    have ids: "host_ids w1 = host_ids w" "host_ids w2 = host_ids w" "host_ids w3 = host_ids w"
      using host_ids_frame(4) [OF a] host_ids_frame(4) [OF b] by (simp_all add: w3_def)
    show ?thesis
    proof (cases "g \<and> h")
      case False
      then consider "\<not> g" | "g" "\<not> h" by blast
      then show ?thesis
      proof cases
        case 1
        with a have "w1 = w" by (auto simp: acquire_semaphore_def split: if_splits)
        with 1 Cons.prems(1) True a x show ?thesis by auto
      next
        case 2
        with Cons.prems(1) True a b x have "ss = []" "w' = release_semaphore e SemGlobal w2" by auto
        with 2 a b sems_give_back [of e gl w w1 "th_host_id th" hl w2] ids show ?thesis
          by (simp add: host_ids_frame)
      qed
    next
      case gh: True
      obtain ss' w4 where c: "start_hosts e gl hl ths w3 = (ss', w4)" by fastforce
      have res: "ss = i # ss'" "w' = w4" using Cons.prems(1) True a b c gh x by (auto simp: w3_def)
      have ih: "(\<forall>k. sems w4 k = sems w3 k + held e (map (\<lambda>i. the (host_ids w i)) ss') k) \<and> host_ids w4 = host_ids w \<and>
        (\<forall>i \<in> set ss'. host_ids w i \<noteq> None)"
        using Cons.IH [OF c] Cons.prems(2) ids(3) by auto
      have i: "host_ids w i = Some (th_host_id th)" using Cons.prems(2) x by simp
      have "sems w3 k = sems w k + held e [th_host_id th] k" for k
        using sems_acquire [of e gl w w1 "th_host_id th" hl w2] a b gh by (simp add: w3_def)
      with ih res i show ?thesis
        by (simp add: held_Cons [of e "th_host_id th" "map f ss'" for f])
    qed
  qed
qed

lemma run_host_sems:
  assumes "run_host e t c n i w = (b, w')" and "host_ids w i = Some h"
  shows "sems w' k = sems w k - held e [h] k \<and> host_ids w' = host_ids w"
proof -
  obtain th where th: "tget (exec_task_hosts w) i = Some th" "th_host_id th = h"
    using assms(2) by (auto simp: host_ids_def)
  have fr: "sems (finish_running e i s x v) = sems v" "host_ids (finish_running e i s x v) = host_ids v" for s x and v :: "'a exec_db_scheme"
    by (simp_all add: finish_running_def)
  have ssh: "sems v' = sems v \<and> host_ids v' = host_ids v" if "run_ssh_executor e t i th c n v = Some v'" for v v' :: "'a exec_db_scheme"
    using that by (auto simp: run_ssh_executor_def run_exec_def write_log_def fr host_ids_frame Let_def
        split: option.splits sum.splits prod.splits)
  have mock: "sems (execute_via_mock e t i th c v) = sems v" "host_ids (execute_via_mock e t i th c v) = host_ids v" for v :: "'a exec_db_scheme"
    by (simp_all add: execute_via_mock_def fr host_ids_frame Let_def)
  have frame: "sems v' = sems v \<and> host_ids v' = host_ids v" if "dispatch_exec_frame e i th c v = (d, v')" for d and v v' :: "'a exec_db_scheme"
    using that by (auto simp: dispatch_exec_frame_def host_ids_frame split: if_splits option.splits)
  obtain v where v: "w' = release_semaphore e SemGlobal (release_semaphore e (SemHost h) v)" "sems v = sems w" "host_ids v = host_ids w"
    using assms(1) th ssh mock frame by (auto simp: run_host_def split: if_splits option.splits prod.splits)
  then show ?thesis by (simp add: sems_release host_ids_frame)
qed

lemma run_hosts_sems:
  "run_hosts e t c n is w = (False, w') \<Longrightarrow> \<forall>i \<in> set is. host_ids w i \<noteq> None \<Longrightarrow>
     sems w' k = sems w k - held e (map (\<lambda>i. the (host_ids w i)) is) k"
proof (induction "is" arbitrary: w)
  case Nil
  then show ?case by simp
next
  case (Cons i "is")
  obtain r w1 where 1: "run_host e t c n i w = (r, w1)" by fastforce
  obtain h where h: "host_ids w i = Some h" using Cons.prems(2) by auto
  from run_host_sems [OF 1 h] have s: "sems w1 k = sems w k - held e [h] k" and ids: "host_ids w1 = host_ids w" by auto
  have "run_hosts e t c n is w1 = (False, w')" using Cons.prems(1) 1 by (auto split: if_splits)
  from Cons.IH [OF this] Cons.prems(2) ids s h show ?case
    by (simp add: held_Cons [of e h "map f is" for f])
qed

text \<open>C5: a dispatch that does not raise gives back every global and per-host slot it took.\<close>

theorem semaphores_balanced:
  assumes "table_ok (exec_task_hosts w)" and "exec_dispatch e tid w = (d, w')" and "d \<noteq> Raised"
  shows "sems w' = sems w"
proof (rule ext)
  fix k
  have fin: "sems (snd (finish_dispatch e tid v)) = sems v" for v :: "'a exec_db_scheme"
    by (auto simp: finish_dispatch_def exec_optimistic_update_def Let_def split: option.splits prod.splits bool.splits)
  have ids: "\<forall>(i, th) \<in> set (th_by_task w tid). host_ids w i = Some (th_host_id th)"
    using in_tselect [OF assms(1)] by (auto simp: th_by_task_def host_ids_def)
  show "sems w' k = sems w k"
  proof (cases "\<exists>t g h. tget (exec_tasks w) tid = Some t \<and> xt_status t = XRunning \<and> concurrency_limits w = Some (g, h)")
    case False
    with assms(2,3) show ?thesis by (auto simp: exec_dispatch_def split: option.splits if_splits)
  next
    case True
    then obtain t g h where t: "tget (exec_tasks w) tid = Some t" "xt_status t = XRunning" "concurrency_limits w = Some (g, h)" by blast
    obtain ss w1 where s: "start_hosts e g h (th_by_task w tid) w = (ss, w1)" by fastforce
    obtain b w2 where r: "run_hosts e t (resolve_content w t) (int (length (th_by_task w tid))) ss w1 = (b, w2)" by fastforce
    have w': "\<not> b \<or> ss = []" "w' = (if ss = [] then w1 else snd (finish_dispatch e tid w2))"
      using assms(2,3) t s r by (auto simp: exec_dispatch_def Let_def split: if_splits)
    note st = start_hosts_sems [OF s ids]
    show ?thesis
    proof (cases "ss = []")
      case True
      with w' st show ?thesis by simp
    next
      case False
      with w'(1) r have "run_hosts e t (resolve_content w t) (int (length (th_by_task w tid))) ss w1 = (False, w2)" by simp
      from run_hosts_sems [OF this, of k] st have "sems w2 k = sems w k" by simp
      with w'(2) False fin [of w2] show ?thesis by simp
    qed
  qed
qed

theorem semaphores_balanced_witness:
  "fst (exec_dispatch agent_env 1 gate_w2) \<noteq> Raised \<and> sems (snd (exec_dispatch agent_env 1 gate_w2)) = sems gate_w2"
proof -
  have ok: "table_ok (exec_task_hosts gate_w2)" by code_simp
  have "fst (exec_dispatch agent_env 1 gate_w2) \<noteq> Raised" by code_simp
  then show ?thesis using semaphores_balanced [OF ok surjective_pairing] by blast
qed

section \<open>Aggregation\<close>

definition host_statuses :: "'z exec_db_scheme \<Rightarrow> int \<Rightarrow> host_status list" where
  "host_statuses w tid = map (\<lambda>(i, r). th_status r) (th_by_task w tid)"

lemma th_stat_count: "th_stat w tid s = count_list (host_statuses w tid) s"
proof -
  have "length (filter (\<lambda>(i, r). th_status r = s) xs) = count_list (map (\<lambda>(i, r). th_status r) xs) s" for xs :: "(int \<times> exec_task_host) list"
    by (induction xs) auto
  then show ?thesis by (simp add: th_stat_def host_statuses_def)
qed

lemma count_list_zero: "count_list xs x = 0 \<longleftrightarrow> x \<notin> set xs"
  by (induction xs) auto

lemma count_list_all: "count_list xs x = length xs \<longleftrightarrow> (\<forall>y \<in> set xs. y = x)"
proof (induction xs)
  case (Cons a xs)
  have "count_list xs x \<le> length xs" by (rule count_le_length)
  with Cons show ?case by auto
qed simp

text \<open>The aggregated status is success exactly if there are hosts and all succeeded, and partial
  exactly if some host succeeded, none failed or timed out and not all succeeded; otherwise it is
  failed.\<close>

lemma task_status_aggregate:
  "(new_task_status w tid = XSuccess \<longleftrightarrow> host_statuses w tid \<noteq> [] \<and> set (host_statuses w tid) \<subseteq> {HSuccess}) \<and>
   (new_task_status w tid = XPartial \<longleftrightarrow> HSuccess \<in> set (host_statuses w tid) \<and>
      HFailed \<notin> set (host_statuses w tid) \<and> HTimedOut \<notin> set (host_statuses w tid) \<and> \<not> set (host_statuses w tid) \<subseteq> {HSuccess}) \<and>
   new_task_status w tid \<in> {XSuccess, XPartial, XFailed}"
proof -
  let ?hs = "host_statuses w tid"
  have len: "length (th_by_task w tid) = length ?hs" by (simp add: host_statuses_def)
  have all: "count_list ?hs HSuccess = length ?hs \<longleftrightarrow> set ?hs \<subseteq> {HSuccess}"
    by (auto simp: count_list_all)
  have pos: "0 < count_list ?hs HSuccess \<longleftrightarrow> HSuccess \<in> set ?hs" using count_list_zero [of ?hs HSuccess] by auto
  have only: "set ?hs \<subseteq> {HSuccess} \<Longrightarrow> HFailed \<notin> set ?hs \<and> HTimedOut \<notin> set ?hs" by auto
  show ?thesis
    using only by (auto simp: new_task_status_def aggregate_status_def th_stat_count len all pos count_list_zero)
qed

section \<open>Cancelling\<close>

lemma tget_cancel_fold:
  "tget (exec_task_hosts (fold (cancel_one_host e) its w)) i =
     (if \<exists>th. (i, th) \<in> set its \<and> th_status th \<in> {HPending, HRunning}
      then map_option (\<lambda>r. r\<lparr>th_status := HCanceled, th_finished_at := Some (now e)\<rparr>) (tget (exec_task_hosts w) i)
      else tget (exec_task_hosts w) i)"
proof (induction its arbitrary: w)
  case Nil
  then show ?case by simp
next
  case (Cons x its)
  obtain j th where x: "x = (j, th)" by fastforce
  have s: "exec_task_hosts (send_agent_stop e j th v) = exec_task_hosts v" for v :: "'a exec_db_scheme"
    by (simp add: send_agent_stop_def split: option.splits)
  have h: "tget (exec_task_hosts (cancel_one_host e x w)) i =
     (if i = j \<and> th_status th \<in> {HPending, HRunning}
      then map_option (\<lambda>r. r\<lparr>th_status := HCanceled, th_finished_at := Some (now e)\<rparr>) (tget (exec_task_hosts w) i)
      else tget (exec_task_hosts w) i)"
    by (auto simp: cancel_one_host_def x s upd_th_def Let_def)
  show ?case
    unfolding fold_Cons comp_apply Cons.IH h by (cases "tget (exec_task_hosts w) i") (auto simp: x)
qed

lemma cancel_fold_frame:
  "exec_tasks (fold (cancel_one_host e) its w) = exec_tasks w" "approvals (fold (cancel_one_host e) its w) = approvals w"
proof -
  have "exec_tasks (cancel_one_host e x v) = exec_tasks v \<and> approvals (cancel_one_host e x v) = approvals v" for x and v :: "'a exec_db_scheme"
    by (auto simp: cancel_one_host_def send_agent_stop_def upd_th_def emit_def Let_def split: prod.splits option.splits)
  then have "exec_tasks (fold (cancel_one_host e) its w) = exec_tasks w \<and> approvals (fold (cancel_one_host e) its w) = approvals w"
    by (induction its arbitrary: w) auto
  then show "exec_tasks (fold (cancel_one_host e) its w) = exec_tasks w" "approvals (fold (cancel_one_host e) its w) = approvals w" by auto
qed

definition gate_t1 :: exec_task where
  "gate_t1 = the (tget (exec_tasks gate_w1) 1)"

definition gate_cancelled :: ticket_db where
  "gate_cancelled = snd (cancel_exec_task_record sample_env 1 gate_t1 gate_w1)"

text \<open>C13: cancelling a task whose compare-and-set wins leaves it canceled with the next version, none of its
  hosts pending or running, and its approval request no longer pending.\<close>

theorem cancel_settles_task:
  assumes "table_ok (exec_task_hosts w)" and "tget (exec_tasks w) tid = Some t"
    and "cancel_exec_task_record e tid t w = (True, w')"
  shows "(\<exists>t'. tget (exec_tasks w') tid = Some t' \<and> xt_status t' = XCanceled \<and> xt_version t' = xt_version t + 1) \<and>
     (\<forall>i th. tget (exec_task_hosts w') i = Some th \<longrightarrow> th_exec_task_id th = tid \<longrightarrow> th_status th \<notin> {HPending, HRunning}) \<and>
     (\<forall>aid a. xt_approval_id t = Some aid \<longrightarrow> tget (approvals w') aid = Some a \<longrightarrow> aid \<noteq> 0 \<longrightarrow> ap_status a \<noteq> APending)"
proof -
  from assms(3) obtain w1 where cas: "exec_optimistic_update tid (xt_status t) XCanceled (xt_version t) w = (True, w1)"
    by (auto simp: cancel_exec_task_record_def split: if_splits prod.splits bool.splits)
  define w2 where "w2 = upd_task tid (\<lambda>r. r\<lparr>xt_finished_at := Some (now e)\<rparr>) w1"
  define w3 where "w3 = close_orphan_approval t w2"
  have w': "w' = fold (cancel_one_host e) (th_by_task w3 tid) w3"
    using assms(3) cas by (auto simp: cancel_exec_task_record_def w2_def w3_def Let_def split: if_splits)
  have w1: "w1 = upd_task tid (put_task XCanceled (xt_version t + 1)) w" using task_cas_True [OF cas] by simp
  have side3: "side w2 w3" unfolding w3_def by (rule side_close_orphan)
  have t3: "exec_tasks w3 = exec_tasks w2" using side3 by (simp add: side_def)
  have task: "tget (exec_tasks w') tid = Some ((put_task XCanceled (xt_version t + 1) t)\<lparr>xt_finished_at := Some (now e)\<rparr>)"
    using assms(2) by (simp add: w' cancel_fold_frame t3 w2_def w1 upd_task_def)
  have h3: "exec_task_hosts w3 = exec_task_hosts w"
  proof -
    have "exec_task_hosts w3 = exec_task_hosts w2"
      by (auto simp: w3_def close_orphan_approval_def approval_optimistic_update_def Let_def split: option.splits prod.splits)
    then show ?thesis by (simp add: w2_def w1)
  qed
  have hosts: "th_status th \<notin> {HPending, HRunning}"
    if g: "tget (exec_task_hosts w') i = Some th" and own: "th_exec_task_id th = tid" for i th
  proof -
    have ok: "table_ok (exec_task_hosts w3)" using assms(1) h3 by simp
    from g obtain r where r: "tget (exec_task_hosts w3) i = Some r" "th_exec_task_id r = tid"
      using own by (auto simp: w' tget_cancel_fold split: if_splits)
    then have "(i, r) \<in> set (th_by_task w3 tid)" using in_tselect [OF ok] by (simp add: th_by_task_def)
    with g r show ?thesis by (auto simp: w' tget_cancel_fold split: if_splits)
  qed
  have appr: "ap_status a \<noteq> APending"
    if "xt_approval_id t = Some aid" "tget (approvals w') aid = Some a" "aid \<noteq> 0" for aid a
    using that by (auto simp: w' cancel_fold_frame w3_def close_orphan_approval_def int_truthy_def
        approval_optimistic_update_def cas_row_def cas_matches_def put_approval_def Let_def split: option.splits if_splits prod.splits)
  show ?thesis using task hosts appr by (simp add: put_task_def)
qed

theorem cancel_settles_task_witness:
  "\<exists>t'. tget (exec_tasks gate_cancelled) 1 = Some t' \<and> xt_status t' = XCanceled \<and> xt_version t' = xt_version gate_t1 + 1"
proof -
  have ok: "table_ok (exec_task_hosts gate_w1)" by code_simp
  have t: "tget (exec_tasks gate_w1) 1 = Some gate_t1" by code_simp
  have "fst (cancel_exec_task_record sample_env 1 gate_t1 gate_w1) = True" by code_simp
  then have "cancel_exec_task_record sample_env 1 gate_t1 gate_w1 = (True, gate_cancelled)"
    unfolding gate_cancelled_def by (metis prod.collapse)
  then show ?thesis using cancel_settles_task [OF ok t] by blast
qed

section \<open>Decisions\<close>







section \<open>The timeout sweep\<close>

definition overdue :: "env \<Rightarrow> exec_task \<Rightarrow> bool" where
  "overdue e t = (xt_status t = XRunning \<and>
     now e - (case xt_started_at t of Some s \<Rightarrow> s | None \<Rightarrow> xt_created_at t) > seconds (xt_timeout_sec t))"

definition timed_out :: "env \<Rightarrow> exec_task \<Rightarrow> exec_task" where
  "timed_out e t = t\<lparr>xt_status := XTimedOut, xt_version := xt_version t + 1, xt_finished_at := Some (now e)\<rparr>"

lemma scan_one_result:
  assumes "tget (exec_tasks w) tid = Some t" and "xt_status t = XRunning" and "scan_one e (tid, t) (n, w) = (n', w')"
  shows "n' = (if overdue e t then Suc n else n)"
    and "tget (exec_tasks w') i = (if i = tid \<and> overdue e t then Some (timed_out e t) else tget (exec_tasks w) i)"
proof -
  have cas: "exec_optimistic_update tid XRunning XTimedOut (xt_version t) w = (True, upd_task tid (put_task XTimedOut (xt_version t + 1)) w)"
    using assms(1,2) by (simp add: exec_optimistic_update_def cas_row_def cas_matches_def upd_task_def Let_def)
  define w2 where "w2 = upd_task tid (\<lambda>r. r\<lparr>xt_finished_at := Some (now e)\<rparr>) (upd_task tid (put_task XTimedOut (xt_version t + 1)) w)"
  have r: "(n', w') = (if overdue e t then (Suc n, time_out_hosts e tid w2) else (n, w))"
    using assms(2,3) cas by (simp add: scan_one_def overdue_def w2_def Let_def split: option.splits if_splits)
  then show "n' = (if overdue e t then Suc n else n)" by (auto split: if_splits)
  have "tget (exec_tasks w2) i = (if i = tid then Some (timed_out e t) else tget (exec_tasks w) i)"
    using assms(1) by (simp add: w2_def upd_task_def timed_out_def put_task_def)
  moreover have "exec_tasks (time_out_hosts e tid w2) = exec_tasks w2"
    using side_time_out_hosts [of w2 e tid] by (simp add: side_def)
  ultimately show "tget (exec_tasks w') i = (if i = tid \<and> overdue e t then Some (timed_out e t) else tget (exec_tasks w) i)"
    using r by (auto split: if_splits)
qed

lemma scan_fold:
  assumes "\<forall>(i, t) \<in> set its. tget (exec_tasks w) i = Some t \<and> xt_status t = XRunning" and "distinct (map fst its)"
    and "fold (scan_one e) its (n, w) = (n', w')"
  shows "n' = n + length (filter (\<lambda>x. overdue e (snd x)) its) \<and>
    (\<forall>i. tget (exec_tasks w') i = (case map_of its i of Some t \<Rightarrow> Some (if overdue e t then timed_out e t else t) | None \<Rightarrow> tget (exec_tasks w) i))"
  using assms
proof (induction its arbitrary: n w)
  case Nil
  then show ?case by simp
next
  case (Cons x its)
  obtain tid t where x: "x = (tid, t)" by fastforce
  obtain n1 w1 where s: "scan_one e (tid, t) (n, w) = (n1, w1)" by fastforce
  have t: "tget (exec_tasks w) tid = Some t" "xt_status t = XRunning" using Cons.prems(1) x by auto
  note r = scan_one_result [OF t s]
  have "\<forall>(i, t) \<in> set its. tget (exec_tasks w1) i = Some t \<and> xt_status t = XRunning"
    using Cons.prems(1,2) x r(2) by force
  moreover have "fold (scan_one e) its (n1, w1) = (n', w')" using Cons.prems(3) s x by simp
  ultimately have ih: "n' = n1 + length (filter (\<lambda>x. overdue e (snd x)) its) \<and>
    (\<forall>i. tget (exec_tasks w') i = (case map_of its i of Some t \<Rightarrow> Some (if overdue e t then timed_out e t else t) | None \<Rightarrow> tget (exec_tasks w1) i))"
    using Cons.IH Cons.prems(2) by simp
  have "map_of its tid = None" using Cons.prems(2) x by (simp add: map_of_eq_None_iff)
  with ih r t x show ?case by (auto split: option.splits)
qed

definition late_env :: env where
  "late_env = sample_env\<lparr>now := 1000000000000\<rparr>"

text \<open>C33: the sweep times out exactly the running tasks that are overdue, leaves every other task as it was
  and returns how many it timed out.\<close>

theorem timeout_sweep:
  assumes "table_ok (exec_tasks w)" and "scan_timeouts e w = (n, w')" and "tget (exec_tasks w) tid = Some t"
  shows "tget (exec_tasks w') tid = Some (if overdue e t then timed_out e t else t) \<and>
     n = length (filter (\<lambda>x. overdue e (snd x)) (rows (exec_tasks w)))"
proof -
  let ?its = "tselect (\<lambda>t. xt_status t = XRunning) (exec_tasks w)"
  have 1: "\<forall>(i, t) \<in> set ?its. tget (exec_tasks w) i = Some t \<and> xt_status t = XRunning"
    using in_tselect [OF assms(1)] by fastforce
  have 2: "distinct (map fst ?its)" using assms(1) by (simp add: table_ok_def tselect_def distinct_map_filter)
  have f: "n = length (filter (\<lambda>x. overdue e (snd x)) ?its) \<and> (\<forall>i. tget (exec_tasks w') i =
      (case map_of ?its i of Some t \<Rightarrow> Some (if overdue e t then timed_out e t else t) | None \<Rightarrow> tget (exec_tasks w) i))"
    using scan_fold [OF 1 2, of e 0 n w'] assms(2) by (simp add: scan_timeouts_def)
  have len: "filter (\<lambda>x. overdue e (snd x)) ?its = filter (\<lambda>x. overdue e (snd x)) (rows (exec_tasks w))"
    unfolding tselect_def filter_filter by (rule filter_cong) (auto simp: overdue_def split: prod.splits option.splits)
  show ?thesis
  proof (cases "xt_status t = XRunning")
    case True
    then have "map_of ?its tid = Some t"
      using in_tselect [OF assms(1)] assms(3) 2 by (simp add: map_of_eq_Some_iff)
    with f len show ?thesis by simp
  next
    case False
    have "map_of ?its tid = None"
    proof (cases "map_of ?its tid")
      case (Some r)
      then have "(tid, r) \<in> set ?its" by (rule map_of_SomeD)
      with 1 assms(3) False show ?thesis by auto
    qed
    with f len assms(3) False show ?thesis by (simp add: overdue_def)
  qed
qed

theorem timeout_sweep_witness:
  "map_option xt_status (tget (exec_tasks (snd (scan_timeouts late_env gate_w2))) 1) = Some XTimedOut"
proof -
  let ?t = "the (tget (exec_tasks gate_w2) 1)"
  have ok: "table_ok (exec_tasks gate_w2)" by code_simp
  have t: "tget (exec_tasks gate_w2) 1 = Some ?t" by code_simp
  have "overdue late_env ?t" by code_simp
  then show ?thesis using timeout_sweep [OF ok surjective_pairing t, of late_env] by (simp add: timed_out_def)
qed

definition gate_stopped :: ticket_db where
  "gate_stopped = after (stop_task sample_env sample_user 1 gate_w2) gate_w2"

text \<open>Retrying a task that is still sensitive and already had an approval request always ends in a
  violated unique constraint on \<open>approval_request.biz_id\<close>, and changes nothing.\<close>

lemma retry_of_approved_task_fails:
  assumes t: "tget (exec_tasks w) tid = Some t" and "xt_status t \<in> {XFailed, XTimedOut, XCanceled}"
    and allowed: "has_perm u ''exec:task:retry''" "is_admin u \<or> xt_created_by t = Some (uid u)"
    and sens: "recheck_sensitive w t = Some (True, reason)"
    and old: "texists (\<lambda>a. ap_biz_id a = tid) (approvals w)"
  shows "retry_task e u tid w = (Inl (IntegrityError ''approval_request.biz_id''), w)"
proof -
  have guard: "task_guard u ''exec:task:retry'' ''retry'' tid w = Inr t"
    using t allowed by (simp add: task_guard_def)
  obtain w1 where cas: "exec_optimistic_update tid (xt_status t) XAwaitingApproval (xt_version t) w = (True, w1)"
    using t by (simp add: exec_optimistic_update_def cas_row_def cas_matches_def Let_def)
  have keep: "texists (\<lambda>a. ap_biz_id a = tid) (approvals v) \<Longrightarrow> texists (\<lambda>a. ap_biz_id a = tid) (approvals (close_orphan_approval t v))" for v :: "'a exec_db_scheme"
    by (force simp: close_orphan_approval_def approval_optimistic_update_def cas_row_def tupd_def texists_def put_approval_def Let_def
        split: option.splits prod.splits if_splits)
  have "approvals w1 = approvals w" using task_cas_True [OF cas] by simp
  with old keep have "texists (\<lambda>a. ap_biz_id a = tid) (approvals (close_orphan_approval t w1))" by simp
  then have "retry_sensitive e u tid t reason w = Inl (IntegrityError ''approval_request.biz_id'')"
    by (simp add: retry_sensitive_def cas approval_no_def add_approval_def new_approval_def Let_def)
  with guard assms(2) sens show ?thesis by (auto simp: retry_task_def)
qed

lemma retry_of_approved_task_fails_witness:
  "retry_task sample_env sample_user 1 gate_stopped = (Inl (IntegrityError ''approval_request.biz_id''), gate_stopped)"
proof (rule retry_of_approved_task_fails)
  show "tget (exec_tasks gate_stopped) 1 = Some (the (tget (exec_tasks gate_stopped) 1))" by code_simp
  show "xt_status (the (tget (exec_tasks gate_stopped) 1)) \<in> {XFailed, XTimedOut, XCanceled}" by code_simp
  show "has_perm sample_user ''exec:task:retry''" by code_simp
  show "is_admin sample_user \<or> xt_created_by (the (tget (exec_tasks gate_stopped) 1)) = Some (uid sample_user)"
    by (simp add: sample_user_def)
  show "recheck_sensitive gate_stopped (the (tget (exec_tasks gate_stopped) 1)) = Some (True, [SensitiveWords [''rm'']])"
    by code_simp
  show "texists (\<lambda>a. ap_biz_id a = 1) (approvals gate_stopped)" by code_simp
qed

definition ssh_db :: ticket_db where
  "ssh_db = sample_db\<lparr>hosts := Table [(1, sample_host\<lparr>h_connector := ''ssh''\<rparr>), (2, sample_host\<lparr>h_connector := ''ssh''\<rparr>)] 2\<rparr>"

definition ssh_w1 :: ticket_db where
  "ssh_w1 = snd (create_task (sample_env\<lparr>ssh_available := True\<rparr>) sample_user (sample_req ''rm -rf'') ssh_db)"

definition ssh_w2 :: ticket_db where
  "ssh_w2 = upd_th 1 (\<lambda>r. r\<lparr>th_status := HRunning\<rparr>) (after (approve sample_env sample_user 1 [] ssh_w1) ssh_w1)"

text \<open>A sensitive task on the ssh executor is skipped by the sensitivity gate although its approval gate
  is open, and its host row fails.\<close>

lemma approved_ssh_still_skipped:
  assumes "th_executor th = ''ssh''" and "tget (exec_task_hosts w) i = Some th" and "th_status th = HRunning"
    and "detect_sensitive w (xt_command t) (Some content) n = Some (True, rs)" and "approval_gate w t = None"
    and "run_host e t content n i w = (b, w')"
  shows "\<not> b \<and> (\<exists>r. tget (exec_task_hosts w') i = Some r \<and> th_status r = HFailed)"
  using assms
  by (auto simp: run_host_def run_ssh_executor_def run_exec_def sensitivity_gate_def write_log_def append_log_def
      finish_running_def upd_th_def release_semaphore_def Let_def split: if_splits)

lemma approved_ssh_still_skipped_witness:
  "\<exists>r. tget (exec_task_hosts (snd (run_host sample_env (the (tget (exec_tasks ssh_w2) 1)) ''rm -rf'' 2 1 ssh_w2))) 1 = Some r \<and>
     th_status r = HFailed"
proof -
  let ?t = "the (tget (exec_tasks ssh_w2) 1)" and ?th = "the (tget (exec_task_hosts ssh_w2) 1)"
  have 1: "th_executor ?th = ''ssh''" by code_simp
  have 2: "tget (exec_task_hosts ssh_w2) 1 = Some ?th" by code_simp
  have 3: "th_status ?th = HRunning" by code_simp
  have 4: "detect_sensitive ssh_w2 (xt_command ?t) (Some ''rm -rf'') 2 = Some (True, [SensitiveWords [''rm'']])" by code_simp
  have 5: "approval_gate ssh_w2 ?t = None" by code_simp
  from approved_ssh_still_skipped [OF 1 2 3 4 5 surjective_pairing] show ?thesis by blast
qed

lemma reject_keeps_terminals:
  assumes "reject e u aid c w = Inr (s, w')"
  shows "terminals w' = terminals w"
  using assms
  by (auto simp: reject_def Let_def add_record_def upd_approval_def approval_optimistic_update_def cancel_awaiting_task_def
      exec_optimistic_update_def split: if_splits sum.splits prod.splits bool.splits option.splits)

definition bypass_req :: exec_req where
  "bypass_req = (sample_req ''{{c}} /data'')\<lparr>rq_params := [(''c'', ''rm -rf'')]\<rparr>"

definition bypass_w :: ticket_db where
  "bypass_w = after (create_exec_task_record sample_env bypass_req sample_db) sample_db"

text \<open>A command whose parameters contain the sensitive word is created as not sensitive and runs at
  once, although the content it runs is sensitive.\<close>

lemma params_bypass_detection:
  "map_option (\<lambda>t. (xt_status t, xt_approve_required t, resolve_content bypass_w t)) (tget (exec_tasks bypass_w) 1)
     = Some (XRunning, 0, ''rm -rf /data'') \<and>
   detect_sensitive bypass_w (Some ''rm -rf /data'') None 2 = Some (True, [SensitiveWords [''rm'']])"
  by (intro conjI) code_simp+

definition stopped_w :: ticket_db where
  "stopped_w = after (stop_task sample_env sample_user 1 (after (create_exec_task_record sample_env (sample_req ''ls'') sample_db) sample_db)) sample_db"

text \<open>An agent result that arrives after the task was stopped turns the canceled host row into a
  successful one, while the task stays canceled.\<close>

lemma late_result_overwrites_cancel:
  "map_option th_status (tget (exec_task_hosts stopped_w) 1) = Some HCanceled \<and>
   map_option th_status (tget (exec_task_hosts (persist_result sample_env 1 (Some ''success'') (Some 0) stopped_w)) 1) = Some HSuccess \<and>
   map_option xt_status (tget (exec_tasks (persist_result sample_env 1 (Some ''success'') (Some 0) stopped_w)) 1) = Some XCanceled"
  by (intro conjI) code_simp+

section \<open>Detection and automation\<close>



definition auto_db :: ticket_db where
  "auto_db = sample_db\<lparr>config_rules := (''ai.auto_remediate'', [(''value'', JBool True)]) # sample_rules,
     policies := Table [(1, \<lparr>rp_asset_class = ''web'', rp_op_type = ''restart'', rp_level = ''L4'', rp_whitelist_ref = Some ''svc.restart'',
        rp_verification_ref = Some ''probe'', rp_circuit_threshold = None\<rparr>)] 1,
     whitelist := Table [(1, \<lparr>wl_action = ''svc.restart'', wl_risk_level = ''low'', wl_enabled = True\<rparr>)] 1\<rparr>"

definition auto_l4 :: ticket_db where
  "auto_l4 = snd (put_level sample_user ''L4'' auto_db)"

text \<open>A policy approves automatically only with the feature on, at level L4, with the breaker not open,
  for a low-risk remediation, through the only policy that matches it and an enabled whitelist entry of
  low risk for its action.\<close>

lemma auto_policy_gates:
  assumes "resolve_auto_policy w remediation = Some pid" and "table_ok (policies w)"
  shows "feature_on w auto_feature \<and> current_level w = ''L4'' \<and> breaker_state_of w \<noteq> ''open'' \<and>
    (\<exists>rem p. remediation = Some rem \<and> dget rem ''risk_level'' = JStr ''low'' \<and>
       tget (policies w) pid = Some p \<and> policy_matches rem p \<and>
       (\<forall>i q. tget (policies w) i = Some q \<longrightarrow> policy_matches rem q \<longrightarrow> i = pid) \<and>
       dget rem ''action'' = JStr (the (rp_whitelist_ref p)) \<and>
       texists (\<lambda>l. Some (wl_action l) = rp_whitelist_ref p \<and> wl_enabled l \<and> wl_risk_level l = ''low'') (whitelist w))"
  using assms by (rule resolve_auto_policy_gates)

lemma auto_policy_gates_witness:
  "current_level auto_l4 = ''L4'' \<and> breaker_state_of auto_l4 \<noteq> ''open''"
proof -
  have "resolve_auto_policy auto_l4 (Some [(''risk_level'', JStr ''low''), (''asset_class'', JStr ''web''),
      (''op_type'', JStr ''restart''), (''action'', JStr ''svc.restart'')]) = Some 1" and ok: "table_ok (policies auto_l4)"
    by code_simp+
  from auto_policy_gates [OF this] show ?thesis by blast
qed

text \<open>An accepted level switch reports the requested level and leaves exactly the rows of that level
  enabled.\<close>

lemma level_switch_exclusive:
  assumes "put_level u level w = (Inr cur, w')"
  shows "cur = level \<and> (\<forall>(i, r) \<in> set (rows (auto_levels w')). al_enabled r \<longleftrightarrow> al_level r = level)"
  using assms by (rule put_level_current)

lemma level_switch_exclusive_witness:
  "list_all (\<lambda>(i, r). al_enabled r \<longleftrightarrow> al_level r = ''L4'') (rows (auto_levels auto_l4))"
proof -
  have "fst (put_level sample_user ''L4'' auto_db) = Inr ''L4''" by code_simp
  then have "put_level sample_user ''L4'' auto_db = (Inr ''L4'', auto_l4)"
    unfolding auto_l4_def by (metis prod.collapse)
  from level_switch_exclusive [OF this] show ?thesis by (simp add: list_all_iff)
qed

text \<open>Consecutive failed verifications are counted one by one on a closed breaker, which opens when the
  count reaches the threshold and then stays there.\<close>

lemma breaker_trips_at_threshold:
  assumes "cb_state r = ''closed''" and "0 \<le> cb_current r" and "cb_current r < th" and "0 < n"
  shows "let r' = ((breaker_next t th False) ^^ n) r
     in if cb_current r + int n < th then cb_state r' = ''closed'' \<and> cb_current r' = cb_current r + int n
        else cb_state r' = ''open'' \<and> cb_current r' = th"
  using assms by (rule breaker_counts)

lemma breaker_trips_at_threshold_witness:
  "cb_state (((breaker_next 0 3 False) ^^ 5) new_breaker) = ''open'' \<and> cb_current (((breaker_next 0 3 False) ^^ 5) new_breaker) = 3"
  using breaker_trips_at_threshold [of new_breaker 3 5 0] by (simp add: new_breaker_def Let_def)

end
