(* ===== verification/Workflow_Properties.thy ===== *)
theory Workflow_Properties
  imports Samples
begin

text \<open>
  What the workflow domain promises, on the definitions of \<open>Workflow_Definition\<close>, \<open>Workflow_Engine\<close> and
  \<open>Workflow_Service\<close>: which definitions are accepted, what a step does to the nodes and the run, when a
  run makes progress, starting, versioning, callbacks and cancelling; then the runs that never end.
\<close>

section \<open>Definitions\<close>

text \<open>C7: the validator accepts exactly the well-formed definitions (an object with at most 100 nodes with
  distinct non-empty string keys and known types, whose edge fields are lists of keys, at most 500
  edges and no cycle among them) and returns them unchanged.\<close>

theorem definition_accepted_iff: "validate_definition j = Inr j' \<longleftrightarrow> wf_definition j \<and> j' = j"
  by (rule validate_accepts_iff)

text \<open>C8: the colouring depth-first search rejects exactly the edge sets that have a cycle; the depth it is
  given, one per key, is always enough.\<close>

theorem acyclic_check_exact:
  assumes "set edges \<subseteq> set keys \<times> set keys"
  shows "assert_acyclic keys edges =
     (if acyclic (set edges) then Inr () else Inl (ValidationError ''workflow definition contains a cycle''))"
  using assms by (rule assert_acyclic_iff)

theorem acyclic_check_exact_witness:
  "assert_acyclic [''a'', ''b''] [(''a'', ''b''), (''b'', ''a'')] = Inl (ValidationError ''workflow definition contains a cycle'')"
proof -
  have "(''a'', ''a'') \<in> (set [(''a'', ''b''), (''b'', ''a'')])\<^sup>+"
    by (rule trancl_trans [of _ "''b''"]; rule r_into_trancl) simp_all
  then have "\<not> acyclic (set [(''a'', ''b''), (''b'', ''a'')])" unfolding acyclic_def by blast
  then show ?thesis using acyclic_check_exact [of "[(''a'', ''b''), (''b'', ''a'')]" "[''a'', ''b'']"] by simp
qed

section \<open>Engine\<close>

definition dep_definition :: json where
  "dep_definition = JObj [(''nodes'', JList [edge_node ''a'' ''sleep'' [] [] [], edge_node ''b'' ''sleep'' [] [''a''] []])]"

definition dep_start :: ticket_db where
  "dep_start = flow_db dep_definition"

lemma dep_facts:
  "let w = turns 2 1 dep_start; run = the (tget (wf_runs w) 1); n = the (tget (node_runs w) 2)
   in table_ok (node_runs w) \<and> tget (wf_runs w) 1 = Some run \<and> wr_status run \<notin> set TERMINAL_RUN_STATUSES \<and>
      tget (node_runs w) 2 = Some n \<and> nr_status n = NPending"
  by code_simp

text \<open>C3: one step of a run, also the committed part of a step that raised, changes no finished node, keeps
  every key, and takes a pending node only to skipped or out of pending when it is enabled: a failure
  edge fired, or all its dependencies and success sources succeeded.\<close>

theorem step_respects_nodes:
  fixes w :: "'z cicd_db_scheme"
  assumes "table_ok (node_runs w)" and "tget (wf_runs w) rid = Some run" and "tget (node_runs w) i = Some n"
  shows "\<exists>n'. tget (node_runs (committed (step fail_release_for_run e rid w))) i = Some n' \<and>
     nr_node_key n' = nr_node_key n \<and> (node_final n \<longrightarrow> n' = n) \<and>
     (nr_status n = NPending \<longrightarrow> n' = n \<or> nr_status n' = NSkipped \<or>
        enabled (snd (load_definition w run)) (status_map (nodes_of w rid)) (nr_node_key n))"
proof -
  let ?w' = "committed (step fail_release_for_run e rid w)"
  have "rel_option (step_node (snd (load_definition w run)) (status_map (nodes_of w rid))) (tget (node_runs w) i) (tget (node_runs ?w') i)"
    using step_keeps_nodes [OF assms(1) seam_cicd assms(2)] by (simp add: step_nodes_def)
  with assms(3) show ?thesis
    by (cases "tget (node_runs ?w') i") (auto simp: step_node_def)
qed

theorem step_respects_nodes_witness:
  "\<exists>n n'. tget (node_runs (turns 2 1 dep_start)) 2 = Some n \<and> nr_status n = NPending \<and>
     tget (node_runs (committed (step fail_release_for_run sample_env 1 (turns 2 1 dep_start)))) 2 = Some n' \<and>
     nr_node_key n' = nr_node_key n"
  using dep_facts [unfolded Let_def] step_respects_nodes [of "turns 2 1 dep_start" 1 _ 2] by blast

definition step_returns :: "'w outcome \<Rightarrow> bool" where
  "step_returns r = (case r of Ok p w c \<Rightarrow> True | Raise c \<Rightarrow> False)"

lemma step_returns_Ok: "step_returns r \<Longrightarrow> \<exists>p c. r = Ok p (committed r) c"
  by (cases r) (auto simp: step_returns_def committed_def)

lemma dep_returns: "step_returns (step fail_release_for_run sample_env 1 (turns 2 1 dep_start))"
  by code_simp

text \<open>C6: after a step that returns, the run is running, or it has nodes, all of them are final, and the run
  failed exactly if one of them failed.\<close>

theorem run_finalised_by_nodes:
  fixes w :: "'z cicd_db_scheme"
  assumes "step fail_release_for_run e rid w = Ok p w' c" and "table_ok (node_runs w)"
    and "tget (wf_runs w) rid = Some run" and "wr_status run \<notin> set TERMINAL_RUN_STATUSES"
  shows "\<exists>run'. tget (wf_runs w') rid = Some run' \<and>
    (wr_status run' = RRunning \<or>
     nodes_of w' rid \<noteq> [] \<and> (\<forall>(i, n) \<in> set (nodes_of w' rid). node_final n) \<and>
       wr_status run' = (if \<exists>(i, n) \<in> set (nodes_of w' rid). nr_status n = NFailed then RFailed else RSucceeded))"
  using step_run_status [OF assms(1) seam_cicd assms(2-4)] .

theorem run_finalised_by_nodes_witness:
  "\<exists>run'. tget (wf_runs (committed (step fail_release_for_run sample_env 1 (turns 2 1 dep_start)))) 1 = Some run'"
proof -
  obtain p c where "step fail_release_for_run sample_env 1 (turns 2 1 dep_start) =
      Ok p (committed (step fail_release_for_run sample_env 1 (turns 2 1 dep_start))) c"
    using step_returns_Ok [OF dep_returns] by blast
  from run_finalised_by_nodes [OF this] dep_facts [unfolded Let_def] show ?thesis by blast
qed

lemma dep_wf: "wf_definition dep_definition"
proof -
  have "isl (validate_definition dep_definition) = False" by code_simp
  then show ?thesis using validate_accepts_iff by (cases "validate_definition dep_definition") auto
qed

lemma dep_idle:
  "let w = turns 2 1 dep_start; run = the (tget (wf_runs w) 1); n = the (tget (node_runs w) 2)
   in load_definition w run = (dep_definition, def_nodes dep_definition) \<and> deps_only (def_nodes dep_definition) \<and>
      run_matches w 1 (def_nodes dep_definition) \<and> (2, n) \<in> set (nodes_of w 1) \<and>
      (\<forall>(j, m) \<in> set (nodes_of w 1). \<not> live_node m)"
  by code_simp

text \<open>C4: in a run of an accepted definition with \<open>depends_on\<close> edges only, while some node is pending and none
  is running or waiting, a step makes progress.\<close>

theorem dependencies_never_deadlock:
  fixes w :: "'z cicd_db_scheme"
  assumes "tget (wf_runs w) rid = Some run" and "wr_status run \<notin> set TERMINAL_RUN_STATUSES" and "table_ok (node_runs w)"
    and "load_definition w run = (dfn, def_nodes dfn)" and "wf_definition dfn" and "deps_only (def_nodes dfn)"
    and "run_matches w rid (def_nodes dfn)"
    and "(i, n) \<in> set (nodes_of w rid)" and "nr_status n = NPending"
    and "\<forall>(j, m) \<in> set (nodes_of w rid). \<not> live_node m"
  shows "\<exists>w'. step fail_release_for_run e rid w = Ok True w' w'"
  using step_no_deadlock [OF assms] .

theorem dependencies_never_deadlock_witness:
  "\<exists>w'. step fail_release_for_run sample_env 1 (turns 2 1 dep_start) = Ok True w' w'"
  using dep_facts [unfolded Let_def] dep_idle [unfolded Let_def] dep_wf
  by (elim conjE) (rule dependencies_never_deadlock)

lemma driver_terminal:
  assumes "tget (wf_runs w) rid = Some run" and "wr_status run \<in> set TERMINAL_RUN_STATUSES"
  shows "driver_loop orf rid ticks w = w"
  unfolding driver_loop_def using assms by (induction ticks) (auto simp: driver_tick_def)

section \<open>Starting\<close>

text \<open>The run that \<open>start_run\<close> creates has one pending node per node of the definition, with its keys in
  its order.\<close>

lemma started_run_matches_definition:
  assumes "wf_definition dfn" and "nodes_of w (next_id (wf_runs w)) = []"
    and "start_run e u wid flow dfn tt ref ctx w = (rid, w')"
  shows "run_matches w' rid (def_nodes dfn) \<and> (\<forall>(i, n) \<in> set (nodes_of w' rid). nr_status n = NPending)"
proof -
  from assms(1) obtain d nodes where d: "dfn = JObj d" "dget d ''nodes'' = JList nodes" and ok: "\<forall>n \<in> set nodes. node_ok n"
    by (auto simp: wf_definition_def)
  have rid: "rid = next_id (wf_runs w)"
    and w': "node_runs w' = fold (\<lambda>n. tadd (new_node e rid n)) nodes (node_runs w)"
    using assms(3) by (auto simp: start_run_def emit_def d as_dict_def refs_of_def Let_def)
  let ?ids = "map (\<lambda>k. seq (node_runs w) + 1 + int k) [0..<length nodes]"
  have "filter (\<lambda>(i, n). nr_run_id n = rid) (zip ?ids (map (new_node e rid) nodes)) = zip ?ids (map (new_node e rid) nodes)"
    by (rule filter_True) (auto simp: new_node_def dest!: set_zip_rightD)
  then have nodes': "nodes_of w' rid = zip ?ids (map (new_node e rid) nodes)"
    using assms(2) by (simp add: nodes_of_def tselect_def w' rows_fold_tadd rid)
  have keys: "map (\<lambda>(i, n). nr_node_key n) (zip ?ids (map (new_node e rid) nodes)) = map node_key_of nodes"
  proof -
    have "map (\<lambda>(i, n). nr_node_key n) (zip xs ys) = map nr_node_key ys" if "length xs = length ys" for xs :: "int list" and ys
      using that by (induction xs ys rule: list_induct2) auto
    from this [of ?ids "map (new_node e rid) nodes"] show ?thesis
      by (simp add: o_def new_node_def node_key_of_def str_of_def)
  qed
  obtain ns where "def_nodes dfn = map (\<lambda>n. (node_key_of n, as_dict n)) ns" "map node_key_of ns = map node_key_of nodes"
  proof -
    have "concat (map (\<lambda>n. case n of JObj d \<Rightarrow> (case dget d ''key'' of JStr k \<Rightarrow> [(k, d)] | _ \<Rightarrow> []) | _ \<Rightarrow> []) xs)
        = map (\<lambda>n. (node_key_of n, as_dict n)) xs" if "\<forall>n \<in> set xs. node_ok n" for xs
      using that by (induction xs) (auto simp: node_ok_def node_key_of_def as_dict_def)
    with ok that [of nodes] show thesis by (simp add: def_nodes_def d as_dict_def refs_of_def)
  qed
  then have "run_matches w' rid (def_nodes dfn)"
    by (simp add: run_matches_def nodes' keys o_def)
  moreover have "\<forall>(i, n) \<in> set (nodes_of w' rid). nr_status n = NPending"
    by (auto simp: nodes' new_node_def dest!: set_zip_rightD)
  ultimately show ?thesis by blast
qed

lemma started_run_matches_definition_witness:
  "run_matches (snd (start_run sample_env sample_user 1 (the (tget (workflows dep_start) 1)) dep_definition ''manual'' JNull JNull dep_start))
     2 (def_nodes dep_definition)"
proof -
  let ?r = "start_run sample_env sample_user 1 (the (tget (workflows dep_start) 1)) dep_definition ''manual'' JNull JNull dep_start"
  have fresh: "nodes_of dep_start (next_id (wf_runs dep_start)) = []" and id: "fst ?r = 2" by code_simp+
  have "?r = (2, snd ?r)" using id by (metis prod.collapse)
  from started_run_matches_definition [OF dep_wf fresh this] show ?thesis by blast
qed

lemma inr_after:
  assumes "isl r = False"
  obtains a where "r = Inr (a, after r w)"
  using assms by (cases r) (auto simp: after_def)

text \<open>Repeating an accepted run request with the same idempotency key returns the same run and changes
  nothing.\<close>

lemma run_is_idempotent:
  assumes "run_workflow e u wid (Some k) data w = Inr (rid, w')" and "k \<noteq> []"
  shows "run_workflow e2 u wid (Some k) data w' = Inr (rid, w')"
proof -
  have g: "feature_on w wf_feature" "has_perm u ''workflow:run''" using run_gate.accepted_gate [OF assms(1)] by auto
  define P where "P = (\<lambda>r :: workflow_run. wr_workflow_id r = wid \<and> dget (as_dict (wr_trigger_ref r)) ''idempotency_key'' = JStr k)"
  define tt where "tt = (case data of None \<Rightarrow> ''manual'' | Some d \<Rightarrow> if ri_trigger_type d = [] then ''manual'' else ri_trigger_type d)"
  obtain flow i row where f: "tget (workflows w) wid = Some flow" "version_row w wid (wf_current_version flow) = Some (i, row)"
    and tt: "tt \<in> set TRIGGER_TYPES"
    using assms g by (auto simp: run_workflow_def tt_def Let_def split: option.splits if_splits)
  have again: "run_workflow e2 u wid (Some k) data v = Inr (rid, v)"
    if "config_rules v = config_rules w" "workflows v = workflows w" "wf_versions v = wf_versions w"
      "tfirst P (wf_runs v) = Some (rid, r)" for v r
    using that f tt g assms(2) feature_on_cong [OF that(1)]
    by (simp add: run_workflow_def version_row_def str_truthy_def P_def tt_def Let_def)
  show ?thesis
  proof (cases "tfirst P (wf_runs w)")
    case (Some x)
    then obtain rid' r where x: "tfirst P (wf_runs w) = Some (rid', r)" by (cases x) auto
    then have "rid = rid'" "w' = w"
      using assms g f tt by (auto simp: run_workflow_def str_truthy_def P_def tt_def Let_def split: option.splits)
    with again [of w r] x show ?thesis by simp
  next
    case None
    define ref where "ref = dset (case data of None \<Rightarrow> [] | Some d \<Rightarrow> ri_trigger_ref d) ''idempotency_key'' (JStr k)"
    have ne: "ref \<noteq> []" unfolding ref_def by (cases "case data of None \<Rightarrow> [] | Some d \<Rightarrow> ri_trigger_ref d") (auto split: if_splits)
    obtain dfn ctx where "start_run e u wid flow dfn tt (JObj ref) ctx w = (rid, w')"
      using assms g f tt None ne by (auto simp: run_workflow_def str_truthy_def P_def tt_def ref_def Let_def split: option.splits if_splits)
    then have w': "config_rules w' = config_rules w" "workflows w' = workflows w" "wf_versions w' = wf_versions w"
      "\<exists>r. rid = next_id (wf_runs w) \<and> wf_runs w' = tadd r (wf_runs w) \<and> P r"
      by (auto simp: start_run_def emit_def Let_def P_def as_dict_def ref_def)
    then obtain r where "tfirst P (wf_runs w') = Some (rid, r)" using None by (auto simp: tfirst_tadd)
    with again [of w' r] w' show ?thesis by simp
  qed
qed

lemma run_is_idempotent_witness:
  "\<exists>rid. run_workflow sample_env sample_user 1 (Some ''key'') None
     (after (run_workflow sample_env sample_user 1 (Some ''key'') None dep_start) dep_start)
     = Inr (rid, after (run_workflow sample_env sample_user 1 (Some ''key'') None dep_start) dep_start)"
proof -
  have "isl (run_workflow sample_env sample_user 1 (Some ''key'') None dep_start) = False" by code_simp
  then obtain rid where "run_workflow sample_env sample_user 1 (Some ''key'') None dep_start
      = Inr (rid, after (run_workflow sample_env sample_user 1 (Some ''key'') None dep_start) dep_start)"
    by (rule inr_after)
  from run_is_idempotent [OF this] show ?thesis by blast
qed

section \<open>Versions\<close>

definition dep_second :: ticket_db where
  "dep_second = after (create_version sample_user 1 RELEASE_DEFINITION dep_start) dep_start"

text \<open>An accepted new version is a well-formed definition, larger than every earlier version of the
  workflow, appended to the table, and the one the workflow now points at.\<close>

lemma new_version_is_current:
  assumes "create_version u wid dfn w = Inr (row, w')"
  shows "wf_definition dfn \<and> (\<exists>flow. tget (workflows w') wid = Some flow \<and> wf_current_version flow = wv_version row \<and>
      current_definition w' wid flow = dfn) \<and>
    wf_versions w' = tadd row (wf_versions w) \<and>
    (\<forall>(i, r) \<in> set (rows (wf_versions w)). wv_workflow_id r = wid \<longrightarrow> wv_version r < wv_version row)"
proof -
  obtain flow where f: "tget (workflows w) wid = Some flow" and v: "validate_definition dfn = Inr dfn"
    and row: "row = \<lparr>wv_workflow_id = wid, wv_version = next_version w wid, wv_definition = dfn, wv_editor_id = Some (uid u)\<rparr>"
    and w': "w' = w\<lparr>wf_versions := tadd row (wf_versions w), workflows := tupd wid (\<lambda>r. r\<lparr>wf_current_version := next_version w wid\<rparr>) (workflows w)\<rparr>"
    using assms by (auto simp: create_version_def validate_accepts_iff Let_def split: if_splits option.splits sum.splits)
  have less: "wv_version r < next_version w wid" if "(i, r) \<in> set (rows (wf_versions w))" "wv_workflow_id r = wid" for i r
  proof -
    have "wv_version r \<in> set (map (\<lambda>(i, r). wv_version r) (tselect (\<lambda>r. wv_workflow_id r = wid) (wf_versions w)))"
      using that by (force simp: tselect_def)
    then have "wv_version r \<le> fold max (map (\<lambda>(i, r). wv_version r) (tselect (\<lambda>r. wv_workflow_id r = wid) (wf_versions w))) 0"
      by (intro fold_max_ge) simp
    then show ?thesis by (simp add: next_version_def)
  qed
  have "tfirst (\<lambda>r. wv_workflow_id r = wid \<and> wv_version r = next_version w wid) (wf_versions w) = None"
  proof -
    have "filter (\<lambda>(i, r). wv_workflow_id r = wid \<and> wv_version r = next_version w wid) (rows (wf_versions w)) = []"
      using less by (force simp: filter_empty_conv)
    then show ?thesis by (simp add: tfirst_def tselect_def)
  qed
  then have "version_row w' wid (next_version w wid) = Some (next_id (wf_versions w), row)"
    by (simp add: version_row_def w' tfirst_tadd row)
  then have "current_definition w' wid (flow\<lparr>wf_current_version := next_version w wid\<rparr>) = dfn"
    by (simp add: current_definition_def row)
  moreover have "wf_definition dfn" using v validate_accepts_iff by blast
  moreover have "\<forall>(i, r) \<in> set (rows (wf_versions w)). wv_workflow_id r = wid \<longrightarrow> wv_version r < wv_version row"
    using less by (auto simp: row)
  moreover have "tget (workflows w') wid = Some (flow\<lparr>wf_current_version := next_version w wid\<rparr>)"
    by (simp add: w' f)
  moreover have "wf_versions w' = tadd row (wf_versions w)" by (simp add: w')
  moreover have "wf_current_version (flow\<lparr>wf_current_version := next_version w wid\<rparr>) = wv_version row" by (simp add: row)
  ultimately show ?thesis by blast
qed

lemma new_version_is_current_witness:
  "\<exists>(row :: workflow_version) flow. tget (workflows dep_second) 1 = Some flow \<and> wf_current_version flow = wv_version row \<and>
     current_definition dep_second 1 flow = RELEASE_DEFINITION"
proof -
  have "isl (create_version sample_user 1 RELEASE_DEFINITION dep_start) = False" by code_simp
  then obtain row where "create_version sample_user 1 RELEASE_DEFINITION dep_start = Inr (row, dep_second)"
    unfolding dep_second_def by (rule inr_after)
  from new_version_is_current [OF this] show ?thesis by blast
qed

text \<open>A rollback makes the requested version the current one and leaves the version table as it is.\<close>

lemma rollback_restores_version:
  assumes "rollback_workflow u wid v w = Inr ((wid', flow, dfn), w')"
  shows "tget (workflows w') wid = Some flow \<and> wf_current_version flow = v \<and> current_definition w' wid flow = dfn \<and>
     wf_versions w' = wf_versions w"
  using assms
  by (auto simp: rollback_workflow_def current_definition_def version_row_def split: if_splits option.splits)

lemma rollback_restores_version_witness:
  "\<exists>flow dfn. tget (workflows (after (rollback_workflow sample_user 1 1 dep_second) dep_second)) 1 = Some flow \<and>
     wf_current_version flow = 1 \<and> current_definition (after (rollback_workflow sample_user 1 1 dep_second) dep_second) 1 flow = dfn"
proof -
  have "isl (rollback_workflow sample_user 1 1 dep_second) = False" by code_simp
  then obtain x where "rollback_workflow sample_user 1 1 dep_second = Inr (x, after (rollback_workflow sample_user 1 1 dep_second) dep_second)"
    by (rule inr_after)
  then show ?thesis using rollback_restores_version [of sample_user 1 1 dep_second] by (cases x) blast
qed

section \<open>Callbacks\<close>


definition deploy_waiting :: ticket_db where
  "deploy_waiting = turns 2 1 (flow_db RELEASE_DEFINITION)"




definition claims_env :: env where
  "claims_env = sample_env\<lparr>jwt_decode := (\<lambda>t. Some (token_claims sample_env 1 ''wf_callback'' 86400
     [(''run_id'', JInt 1), (''node_key'', JStr ''deploy'')]))\<rparr>"

text \<open>The token issued for a callback node is bound to its run and its node and to no other.\<close>

lemma callback_token_binding:
  assumes "jwt_decode e (create_token e rid ''wf_callback'' ttl [(''run_id'', JInt rid), (''node_key'', JStr key)])
     = Some (token_claims e rid ''wf_callback'' ttl [(''run_id'', JInt rid), (''node_key'', JStr key)])"
  shows "token_bound e (create_token e rid ''wf_callback'' ttl [(''run_id'', JInt rid), (''node_key'', JStr key)]) rid' key'
     \<longleftrightarrow> rid' = rid \<and> key' = key"
  using assms by (auto simp: token_bound_def token_claims_def dget_def)

lemma callback_token_binding_witness:
  "\<not> token_bound claims_env (create_token claims_env 1 ''wf_callback'' 86400 [(''run_id'', JInt 1), (''node_key'', JStr ''deploy'')])
     2 ''deploy''"
proof -
  have "jwt_decode claims_env (create_token claims_env 1 ''wf_callback'' 86400 [(''run_id'', JInt 1), (''node_key'', JStr ''deploy'')])
     = Some (token_claims claims_env 1 ''wf_callback'' 86400 [(''run_id'', JInt 1), (''node_key'', JStr ''deploy'')])"
    by (simp add: claims_env_def token_claims_def sample_env_def)
  from callback_token_binding [OF this, of 2 "''deploy''"] show ?thesis by simp
qed

section \<open>Cancelling\<close>

lemma more_cancel_record: "exec_db.more (snd (cancel_exec_task_record e tid t w)) = exec_db.more w"
proof -
  have 1: "exec_db.more (close_orphan_approval t v) = exec_db.more v" for v :: "'a exec_db_scheme"
    by (rule more_side [OF side_close_orphan])
  have 2: "exec_db.more (fold (cancel_one_host e) xs v) = exec_db.more v" for v :: "'a exec_db_scheme" and xs
    by (induction xs arbitrary: v)
       (auto simp: cancel_one_host_def send_agent_stop_def upd_th_def emit_def Let_def split: prod.splits option.splits)
  show ?thesis
    by (auto simp: cancel_exec_task_record_def Let_def 1 2 split: prod.splits bool.splits dest: more_task_cas)
qed

lemma cancel_node_effect:
  "node_runs (cancel_node e (i, n) w) = tupd i (\<lambda>n. n\<lparr>nr_status := NSkipped, nr_finished_at := Some (now e)\<rparr>) (node_runs w)"
  "wf_runs (cancel_node e (i, n) w) = wf_runs w"
  using wf_more [OF more_cancel_record, of e _ _ w]
  by (auto simp: cancel_node_def upd_node_def Let_def split: option.splits)

lemma cancel_nodes_runs: "wf_runs (fold (cancel_node e) its w) = wf_runs w"
  by (induction its arbitrary: w) (auto simp: cancel_node_effect)

lemma cancel_nodes_get:
  "tget (node_runs (fold (cancel_node e) its w)) k = (if k \<in> fst ` set its
     then map_option (\<lambda>n. n\<lparr>nr_status := NSkipped, nr_finished_at := Some (now e)\<rparr>) (tget (node_runs w) k)
     else tget (node_runs w) k)"
proof (induction its arbitrary: w)
  case (Cons x its)
  obtain i n where x: "x = (i, n)" by fastforce
  show ?case
    by (simp add: Cons.IH x cancel_node_effect option.map_comp o_def)
qed simp

text \<open>A cancelled run is cancelled, each of its nodes is final and the ones that were final are
  unchanged, and no further turn of the driver changes anything.\<close>

lemma cancel_run_settles:
  assumes "cancel_run e u rid w = Inr (s, w')" and "table_ok (node_runs w)"
  shows "s = RCancelled \<and> (\<exists>run. tget (wf_runs w') rid = Some run \<and> wr_status run = RCancelled) \<and>
    (\<forall>i n. tget (node_runs w) i = Some n \<longrightarrow> nr_run_id n = rid \<longrightarrow>
       (\<exists>n'. tget (node_runs w') i = Some n' \<and> node_final n' \<and> (node_final n \<longrightarrow> n' = n))) \<and>
    (\<forall>ticks. driver_loop fail_release_for_run rid ticks w' = w')"
proof -
  let ?its = "filter (\<lambda>(i, n). nr_status n \<in> {NPending, NRunning, NWaiting}) (nodes_of w rid)"
  obtain run where run: "tget (wf_runs w) rid = Some run" and s: "s = RCancelled"
    and w': "w' = fold (cancel_node e) ?its (upd_run rid (\<lambda>_. run\<lparr>wr_status := RCancelled, wr_finished_at := Some (now e)\<rparr>) w)"
    using assms(1) by (auto simp: cancel_run_def apply_run_transition_def split: if_splits option.splits)
  have r': "tget (wf_runs w') rid = Some (run\<lparr>wr_status := RCancelled, wr_finished_at := Some (now e)\<rparr>)"
    using run by (simp add: w' cancel_nodes_runs upd_run_def)
  have nodes: "\<exists>n'. tget (node_runs w') i = Some n' \<and> node_final n' \<and> (node_final n \<longrightarrow> n' = n)"
    if n: "tget (node_runs w) i = Some n" "nr_run_id n = rid" for i n
  proof -
    have m: "(i, m) \<in> set (nodes_of w rid) \<longleftrightarrow> m = n" for m
      using nodes_of_get [OF assms(2), of i m rid] n by auto
    have "i \<in> fst ` set ?its \<longleftrightarrow> nr_status n \<in> {NPending, NRunning, NWaiting}" using m by force
    then show ?thesis
      using n by (cases "nr_status n") (simp_all add: w' cancel_nodes_runs cancel_nodes_get upd_run_def node_final_def NODE_TERMINAL_def)
  qed
  have "driver_loop fail_release_for_run rid ticks w' = w'" for ticks
    using driver_terminal [OF r'] by (simp add: TERMINAL_RUN_STATUSES_def)
  with s r' nodes show ?thesis by auto
qed

lemma cancel_run_settles_witness:
  "\<forall>ticks. driver_loop fail_release_for_run 1 ticks (after (cancel_run sample_env sample_user 1 deploy_waiting) deploy_waiting)
     = after (cancel_run sample_env sample_user 1 deploy_waiting) deploy_waiting"
proof -
  have ok: "table_ok (node_runs deploy_waiting)" by code_simp
  have "isl (cancel_run sample_env sample_user 1 deploy_waiting) = False" by code_simp
  then obtain s where "cancel_run sample_env sample_user 1 deploy_waiting =
      Inr (s, after (cancel_run sample_env sample_user 1 deploy_waiting) deploy_waiting)"
    by (rule inr_after)
  from cancel_run_settles [OF this ok] show ?thesis by blast
qed

lemma clamp_range: "clamp_timeout t = Some n \<Longrightarrow> 0 \<le> n \<and> n \<le> 86400"
  by (auto simp: clamp_timeout_def MAX_TIMEOUT_def split: option.splits if_splits)

text \<open>The timeout in force for a node is between 0 and 86400 seconds.\<close>

lemma timeout_clamped:
  assumes "timeout_sec defnode dfn ntype = Some (Some n)"
  shows "0 \<le> n \<and> n \<le> 86400"
proof -
  have get: "0 \<le> n \<and> n \<le> 86400" if "map_option clamp_timeout x = Some (Some n)" for x
    using that clamp_range by auto
  show ?thesis
    using assms get unfolding timeout_sec_def Let_def
    by (simp add: CALLBACK_DEFAULT_TIMEOUT_def split: option.split_asm bool.split_asm if_split_asm)
qed

lemma timeout_clamped_witness:
  "\<exists>n. timeout_sec [(''config'', JObj [(''timeout_sec'', JInt 999999)])] (JObj []) ''sleep'' = Some (Some n) \<and> 0 \<le> n \<and> n \<le> 86400"
proof -
  have "timeout_sec [(''config'', JObj [(''timeout_sec'', JInt 999999)])] (JObj []) ''sleep'' = Some (Some 86400)" by code_simp
  with timeout_clamped [OF this] show ?thesis by blast
qed

section \<open>Runs that never end\<close>

lemma activate_none:
  "\<forall>(i, n) \<in> set ns. nr_status n \<noteq> NPending \<Longrightarrow> activate_nodes e defnodes ns st w = ([], False, w)"
  by (induction ns) auto

lemma activate_wait:
  "\<forall>(i, n) \<in> set ns. nr_status n = NPending \<longrightarrow> verdict_of defnodes st (nr_node_key n) = Wait \<Longrightarrow>
     activate_nodes e defnodes ns st w = ([], False, w)"
  by (induction ns) auto

lemma advance_loop_skip:
  "(\<And>nid n. nid \<in> set xs \<Longrightarrow> tget (node_runs w) nid = Some n \<Longrightarrow> \<not> sel n) \<Longrightarrow>
     advance_loop sel adv (xs @ ys) p w com = advance_loop sel adv ys p w com"
  by (induction xs) (auto split: option.splits)

lemma driver_loop_fixed: "(\<And>e. driver_tick orf rid e w = w) \<Longrightarrow> driver_loop orf rid ticks w = w"
  unfolding driver_loop_def by (induction ticks) auto

definition no_command :: "env \<Rightarrow> workflow_run \<Rightarrow> string \<Rightarrow> json \<Rightarrow> bool" where
  "no_command e run key c = (case exec_request e run key c of None \<Rightarrow> True
     | Some q \<Rightarrow> rq_kind q = ''command'' \<and> \<not> str_truthy (rq_command q))"

lemma no_command_raises:
  assumes "no_command e run (nr_node_key n) (cfg d)"
  shows "create_exec_task e run nid n d w com = Raise com"
  using assms
  by (auto simp: no_command_def create_exec_task_def create_exec_task_record_def script_text_def split: option.splits sum.splits)

text \<open>An \<open>exec_task\<close> node whose configuration gives no command makes every turn of the driver
  raise and roll back: the run stays as it is forever. The remediation node of the playbook that
  \<open>suggest_playbook\<close> proposes is such a node.\<close>

lemma unusable_exec_node_livelocks:
  fixes w :: "'z cicd_db_scheme"
  assumes run: "tget (wf_runs w) rid = Some run" and "wr_status run \<notin> set TERMINAL_RUN_STATUSES" and ok: "table_ok (node_runs w)"
    and nodes: "nodes_of w rid = pre @ (nid, n) # post" and pend: "\<forall>(i, m) \<in> set (nodes_of w rid). nr_status m \<noteq> NPending"
    and pre: "\<forall>(i, m) \<in> set pre. nr_status m \<noteq> NRunning"
    and n: "nr_status n = NRunning" "nr_node_type n = ''exec_task''" "nr_exec_task_id n = None"
    and bad: "\<forall>e. no_command e run (nr_node_key n) (cfg (node_of (snd (load_definition w run)) (nr_node_key n)))"
  shows "driver_loop fail_release_for_run rid ticks w = w"
proof (rule driver_loop_fixed)
  fix e
  obtain dfn defnodes where d: "load_definition w run = (dfn, defnodes)" by fastforce
  let ?w1 = "upd_run rid (begin_run e) w"
  have nr: "node_runs ?w1 = node_runs w" by (simp add: upd_run_def)
  have get: "tget (node_runs w) i = Some m" if "(i, m) \<in> set (nodes_of w rid)" for i m
    using nodes_of_get [OF ok] that by blast
  have act: "activate_nodes e defnodes (nodes_of w rid) (status_map (nodes_of w rid)) ?w1 = ([], False, ?w1)"
    by (rule activate_none [OF pend])
  let ?sel = "\<lambda>n. nr_status n = NRunning \<and> nr_node_key n \<notin> set []"
  have "advance_loop ?sel (advance_running e rid run dfn defnodes) (map fst pre @ nid # map fst post) p ?w1 w = Raise w" for p
  proof -
    have "\<not> ?sel m" if "i \<in> set (map fst pre)" "tget (node_runs ?w1) i = Some m" for i m
    proof -
      from that(1) obtain m' where m': "(i, m') \<in> set pre" by auto
      then have "tget (node_runs w) i = Some m'" using get nodes by simp
      with that(2) nr m' pre show ?thesis by auto
    qed
    then have "advance_loop ?sel (advance_running e rid run dfn defnodes) (map fst pre @ nid # map fst post) p ?w1 w =
        advance_loop ?sel (advance_running e rid run dfn defnodes) (nid # map fst post) p ?w1 w"
      by (rule advance_loop_skip)
    moreover have "tget (node_runs ?w1) nid = Some n" using get [of nid n] nodes nr by simp
    moreover have "create_exec_task e run nid n (node_of defnodes (nr_node_key n)) ?w1 w = Raise w"
      by (rule no_command_raises) (use bad d in simp)
    ultimately show ?thesis using n by (simp add: advance_running_def Let_def)
  qed
  then have "step fail_release_for_run e rid w = Raise w"
    using assms(2) by (simp add: step_def run d act Let_def) (simp add: nodes)
  then show "driver_tick fail_release_for_run rid e w = w" using assms(1,2) by (simp add: driver_tick_def)
qed

text \<open>A run whose pending nodes all wait while none is running or waiting stays as it is forever. A
  chain of \<open>on_success\<close> edges whose head fails ends there: the second node is skipped and the third
  waits for it.\<close>

lemma waiting_run_never_ends:
  fixes w :: "'z cicd_db_scheme"
  assumes run: "tget (wf_runs w) rid = Some run" "wr_status run = RRunning" and ok: "table_ok (node_runs w)" "table_ok (wf_runs w)"
    and idle: "\<forall>(i, m) \<in> set (nodes_of w rid). \<not> live_node m"
    and wait: "\<forall>(i, m) \<in> set (nodes_of w rid). nr_status m = NPending \<longrightarrow>
       verdict_of (snd (load_definition w run)) (status_map (nodes_of w rid)) (nr_node_key m) = Wait"
    and some: "(i, n) \<in> set (nodes_of w rid)" "nr_status n = NPending"
  shows "driver_loop fail_release_for_run rid ticks w = w"
proof (rule driver_loop_fixed)
  fix e
  obtain dfn defnodes where d: "load_definition w run = (dfn, defnodes)" by fastforce
  have "(j, r) \<in> set (rows (wf_runs w)) \<Longrightarrow> (j, if j = rid then begin_run e r else r) = (j, r)" for j r
    using tget_in_rows [OF ok(2), of j r] run by (auto simp: begin_run_def)
  then have "tupd rid (begin_run e) (wf_runs w) = wf_runs w"
    unfolding tupd_def by (cases "wf_runs w") (auto intro!: map_idI)
  then have w1: "upd_run rid (begin_run e) w = w" by (simp add: upd_run_def)
  have act: "activate_nodes e defnodes (nodes_of w rid) (status_map (nodes_of w rid)) w = ([], False, w)"
    by (rule activate_wait) (use wait d in simp)
  have dead: "\<not> live_node m" if "j \<in> set (map fst (nodes_of w rid))" "tget (node_runs w) j = Some m" for j m
    using idle nodes_of_get [OF ok(1)] that by fastforce
  have loop: "advance_loop sel adv (map fst (nodes_of w rid)) p w w = Ok p w w" if "\<And>m. sel m \<Longrightarrow> live_node m" for sel adv p
    using that dead by (intro advance_loop_idle) blast
  have fin: "finalise fail_release_for_run e rid p w = (p, w)" for p
    using some by (force simp: finalise_def NODE_TERMINAL_def)
  have "step fail_release_for_run e rid w = Ok False w w"
    using run by (simp add: step_def d w1 act loop live_node_def fin TERMINAL_RUN_STATUSES_def Let_def)
  then show "driver_tick fail_release_for_run rid e w = w" using run by (simp add: driver_tick_def TERMINAL_RUN_STATUSES_def)
qed

definition playbook_asked :: ticket_db where
  "playbook_asked = turns 4 1 (flow_db (playbook_definition ''fix'' ''disk''))"

definition playbook_stuck :: ticket_db where
  "playbook_stuck = turns 2 1 (after (approve sample_env sample_user 1 [] playbook_asked) playbook_asked)"

lemma no_command_note: "no_command e run key (JObj [(''note'', v)])"
  by (simp add: no_command_def exec_request_def dget_def or_empty_def str_truthy_def int_truthy_def)

lemma playbook_facts:
  "let w = playbook_stuck; run = the (tget (wf_runs w) 1); nodes = nodes_of w 1; n = snd (nodes ! 2)
   in tget (wf_runs w) 1 = Some run \<and> wr_status run \<notin> set TERMINAL_RUN_STATUSES \<and> table_ok (node_runs w) \<and>
      nodes = take 2 nodes @ (fst (nodes ! 2), n) # [] \<and> (\<forall>(i, m) \<in> set nodes. nr_status m \<noteq> NPending) \<and>
      (\<forall>(i, m) \<in> set (take 2 nodes). nr_status m \<noteq> NRunning) \<and> nr_status n = NRunning \<and>
      nr_node_type n = ''exec_task'' \<and> nr_exec_task_id n = None \<and>
      cfg (node_of (snd (load_definition w run)) (nr_node_key n)) = JObj [(''note'', JStr ''fix'')]"
  by code_simp

lemma unusable_exec_node_livelocks_witness:
  "\<forall>ticks. driver_loop fail_release_for_run 1 ticks playbook_stuck = playbook_stuck"
proof
  fix ticks
  note facts = playbook_facts [unfolded Let_def]
  then have "\<forall>e. no_command e (the (tget (wf_runs playbook_stuck) 1)) (nr_node_key (snd (nodes_of playbook_stuck 1 ! 2)))
      (cfg (node_of (snd (load_definition playbook_stuck (the (tget (wf_runs playbook_stuck) 1))))
        (nr_node_key (snd (nodes_of playbook_stuck 1 ! 2)))))"
    by (metis no_command_note)
  with facts show "driver_loop fail_release_for_run 1 ticks playbook_stuck = playbook_stuck"
    by (elim conjE) (rule unusable_exec_node_livelocks)
qed

definition chain_definition :: json where
  "chain_definition = JObj [(''nodes'', JList
     [edge_node ''a'' ''sleep'' [(''timeout_sec'', JInt 0)] [] [''b''], edge_node ''b'' ''sleep'' [] [] [''c''],
      edge_node ''c'' ''sleep'' [] [] []])]"

definition chain_stuck :: ticket_db where
  "chain_stuck = turns 3 1 (flow_db chain_definition)"

lemma chain_facts:
  "let w = chain_stuck; run = the (tget (wf_runs w) 1); nodes = nodes_of w 1; n = snd (nodes ! 2)
   in tget (wf_runs w) 1 = Some run \<and> wr_status run = RRunning \<and> table_ok (node_runs w) \<and> table_ok (wf_runs w) \<and>
      (\<forall>(i, m) \<in> set nodes. \<not> live_node m) \<and>
      (\<forall>(i, m) \<in> set nodes. nr_status m = NPending \<longrightarrow>
         verdict_of (snd (load_definition w run)) (status_map nodes) (nr_node_key m) = Wait) \<and>
      (fst (nodes ! 2), n) \<in> set nodes \<and> nr_status n = NPending"
  by code_simp

lemma waiting_run_never_ends_witness:
  "\<forall>ticks. driver_loop fail_release_for_run 1 ticks chain_stuck = chain_stuck"
proof
  fix ticks
  show "driver_loop fail_release_for_run 1 ticks chain_stuck = chain_stuck"
    using chain_facts [unfolded Let_def] by (elim conjE) (rule waiting_run_never_ends)
qed

text \<open>The validator records \<open>on_success\<close> edges in the wrong direction: it rejects a definition that names
  the same edge twice, as \<open>on_success\<close> and as \<open>depends_on\<close>, as a cycle, and accepts one in which two nodes
  wait for each other.\<close>

lemma edges_checked_backwards:
  "validate_definition (JObj [(''nodes'', JList [edge_node ''a'' ''sleep'' [] [] [''b''], edge_node ''b'' ''sleep'' [] [''a''] []])])
     = Inl (ValidationError ''workflow definition contains a cycle'') \<and>
   isl (validate_definition (JObj [(''nodes'', JList [edge_node ''a'' ''sleep'' [] [''b''] [''b''], edge_node ''b'' ''sleep'' [] [] []])])) = False"
  by (intro conjI) code_simp+

definition twice_definition :: json where
  "twice_definition = JObj [(''nodes'', JList
     [edge_node ''a'' ''exec_task'' [(''command'', JStr ''rm -rf''), (''host_ids'', JList [JInt 1])] [] [],
      edge_node ''b'' ''exec_task'' [] [] []])]"

text \<open>While a later node of the run keeps raising, each turn of the driver creates another execution task
  and another approval request for the same sensitive node.\<close>

lemma failing_node_repeats_tasks:
  "map (\<lambda>k. (length (rows (exec_tasks (turns k 1 (flow_db twice_definition)))),
             length (rows (approvals (turns k 1 (flow_db twice_definition)))))) [1, 2, 3, 4] = [(0, 0), (1, 1), (2, 2), (3, 3)]"
  by code_simp

end
