(* ===== verification/Delivery_Properties.thy ===== *)
theory Delivery_Properties
  imports Samples
begin

text \<open>
  What delivery and tickets promise, on the definitions of \<open>Cicd_Service\<close> and \<open>Ticket_Service\<close>: stored
  settings, the webhook, the release lifecycle and its link to the engine, the history of a ticket, its
  references and attachments, and the gate order that the handlers of all domains share.
\<close>

section \<open>Providers\<close>

definition config_text :: "env \<Rightarrow> json \<Rightarrow> string" where
  "config_text e v = (case v of JStr s \<Rightarrow> s | _ \<Rightarrow> json_dumps False e v)"

text \<open>With a cipher that opens what it sealed, the stored settings of a provider decrypt to what was
  given: the keys in order, a string as it is, any other value as its JSON text.\<close>

lemma provider_config_roundtrip:
  assumes "\<And>s. unseal e (seal e s) = Some s"
  shows "decrypt_config e (encrypt_config e (Some d)) = map (\<lambda>(k, v). (k, config_text e v)) d"
proof -
  have "concat (map (\<lambda>(k, v). case decrypt_secret e v of None \<Rightarrow> [] | Some p \<Rightarrow> [(k, p)])
      (map (\<lambda>(k, v). (k, encrypt_secret e 1 (config_text e v))) xs)) = map (\<lambda>(k, v). (k, config_text e v)) xs" for xs
    by (induction xs) (auto simp: decrypt_encrypt assms)
  then have "d \<noteq> [] \<Longrightarrow> ?thesis"
    by (simp add: encrypt_config_def decrypt_config_def flip: config_text_def)
  moreover have "d = [] \<Longrightarrow> ?thesis" by (simp add: encrypt_config_def decrypt_config_def)
  ultimately show ?thesis by blast
qed

lemma provider_config_roundtrip_witness:
  "decrypt_config sample_env (encrypt_config sample_env (Some [(''token'', JStr ''s''), (''retries'', JInt 3)]))
     = [(''token'', ''s''), (''retries'', ''3'')]"
proof -
  have "unseal sample_env (seal sample_env s) = Some s" for s by (simp add: sample_env_def)
  from provider_config_roundtrip [OF this] show ?thesis by simp code_simp
qed

text \<open>A webhook for a configured provider that has a token is accepted exactly with that token.\<close>

lemma webhook_checks_token:
  assumes "feature_on w cicd_feature" and "tok \<noteq> []"
    and "tfirst (\<lambda>p. cp_type p = provider \<or> cp_name p = provider) (providers w) = Some (i, p)"
    and "map_of (decrypt_config e (cp_config_enc p)) ''token'' = Some expected"
  shows "handle_webhook e provider (Some tok) payload w =
     (if tok = expected then Inr (provider, payload) else Inl (UnauthorizedError ''invalid provider token''))"
  using assms by (auto simp: handle_webhook_def str_truthy_def)

lemma webhook_checks_token_witness:
  "handle_webhook sample_env ''git'' (Some ''guess'') JNull provider_db = Inl (UnauthorizedError ''invalid provider token'')"
proof -
  have 1: "feature_on provider_db cicd_feature" by code_simp
  have 2: "tfirst (\<lambda>p. cp_type p = ''git'' \<or> cp_name p = ''git'') (providers provider_db) = Some (1, the (tget (providers provider_db) 1))"
    by code_simp
  have 3: "map_of (decrypt_config sample_env (cp_config_enc (the (tget (providers provider_db) 1)))) ''token'' = Some ''secret''"
    by code_simp
  from webhook_checks_token [OF 1 _ 2 3, of "''guess''" JNull] show ?thesis by simp
qed

text \<open>A webhook that names no known provider is accepted with any non-empty token.\<close>

lemma webhook_unknown_provider:
  "handle_webhook sample_env ''nobody'' (Some ''anything'') JNull sample_db = Inr (''nobody'', JNull)"
  by code_simp

section \<open>Releases\<close>

definition release_cancelled :: ticket_db where
  "release_cancelled = after (cancel_release sample_env sample_user 1 release_db) release_db"

text \<open>No handler accepts any action on a succeeded, rolled back or cancelled release, and a failing run
  does not change it.\<close>

lemma settled_release_stays:
  assumes "tget (releases w) rid = Some r" and "rl_status r \<in> {LSucceeded, LRolledBack, LCancelled}" and "table_ok (releases w)"
  shows "(\<exists>err. release_handler u perm action label k rid w = Inl err) \<and>
     tget (releases (fail_release_for_run run_id w)) rid = Some r"
proof
  have no: "\<not> action_allowed RELEASE_TRANSITIONS a (rl_status r)" for a
    using release_machine.absorbing_closed assms(2) by blast
  then show "\<exists>err. release_handler u perm action label k rid w = Inl err"
    using assms(1) by (simp add: release_handler_def apply_release_transition_def)
  show "tget (releases (fail_release_for_run run_id w)) rid = Some r"
    using assms(1) no tfirst_Some [OF assms(3)]
    by (auto simp: fail_release_for_run_def audit_def upd_release_def Let_def split: option.splits)
qed

lemma settled_release_stays_witness:
  "(\<exists>err. release_handler sample_user ''release:promote'' PromoteR [] Pair 1 release_cancelled = Inl err) \<and>
     tget (releases (fail_release_for_run 1 release_cancelled)) 1 = tget (releases release_cancelled) 1"
proof -
  have 1: "tget (releases release_cancelled) 1 = Some (the (tget (releases release_cancelled) 1))" by code_simp
  have 2: "rl_status (the (tget (releases release_cancelled) 1)) \<in> {LSucceeded, LRolledBack, LCancelled}" by code_simp
  have 3: "table_ok (releases release_cancelled)" by code_simp
  from settled_release_stays [OF 1 2 3] 1 show ?thesis by metis
qed

definition canary_failed :: ticket_db where
  "canary_failed = upd_node 1 (fail_node sample_env ''timeout'' ''timeout'') (turns 2 1 canary_db)"

lemma canary_failed_facts:
  "let w = canary_failed; run = the (tget (wf_runs w) 1); r = the (tget (releases w) 1)
   in nodes_of w 1 \<noteq> [] \<and> (\<forall>(j, n) \<in> set (nodes_of w 1). node_final n) \<and> (\<exists>(j, n) \<in> set (nodes_of w 1). nr_status n = NFailed) \<and>
      tget (wf_runs w) 1 = Some run \<and> wr_trigger_type run = ''release'' \<and> table_ok (releases w) \<and>
      tfirst (\<lambda>r. rl_workflow_run_id r = Some 1) (releases w) = Some (1, r) \<and> rl_status r \<in> {LDeploying, LCanary}"
  by code_simp

text \<open>When a release run is finalised with a failed node, its release, if deploying or in canary, becomes
  failed and an audit entry for it is written.\<close>

lemma failed_run_fails_release:
  assumes "finalise fail_release_for_run e run_id p w = (p', w')"
    and "nodes_of w run_id \<noteq> []" and "\<forall>(j, n) \<in> set (nodes_of w run_id). node_final n"
    and "\<exists>(j, n) \<in> set (nodes_of w run_id). nr_status n = NFailed"
    and "tget (wf_runs w) run_id = Some run" and "wr_trigger_type run = ''release''" and "table_ok (releases w)"
    and "tfirst (\<lambda>r. rl_workflow_run_id r = Some run_id) (releases w) = Some (i, r)" and "rl_status r \<in> {LDeploying, LCanary}"
  shows "tget (releases w') i = Some (r\<lparr>rl_status := LFailed\<rparr>) \<and>
     (\<exists>a. audit_logs w' = tadd a (audit_logs w) \<and> au_action a = ''release.fail'' \<and> au_release_id a = i)"
proof -
  obtain n where n: "n \<in> set (map snd (nodes_of w run_id))" "nr_status n = NFailed" using assms(4) by force
  then obtain x xs where x: "filter (\<lambda>n. nr_status n = NFailed) (map snd (nodes_of w run_id)) = x # xs"
    by (cases "filter (\<lambda>n. nr_status n = NFailed) (map snd (nodes_of w run_id))") (auto simp: filter_empty_conv)
  have fin: "\<forall>n \<in> set (map snd (nodes_of w run_id)). nr_status n \<in> set NODE_TERMINAL"
    using assms(3) by (auto simp: node_final_def)
  have get: "tget (releases w) i = Some r" using tfirst_Some [OF assms(7,8)] by simp
  define v where "v = upd_run run_id (\<lambda>r. r\<lparr>wr_status := RFailed,
      wr_error := Some (if str_truthy (nr_error x) then the (nr_error x) else ''workflow node failed'')\<rparr>) w"
  have w': "w' = upd_run run_id (\<lambda>r. r\<lparr>wr_finished_at := Some (now e)\<rparr>) (fail_release_for_run run_id v)"
    using assms(1,2) fin x by (simp add: finalise_def v_def Let_def)
  have "\<exists>run'. tget (wf_runs v) run_id = Some run' \<and> wr_trigger_type run' = ''release''" and "releases v = releases w" "audit_logs v = audit_logs w"
    using assms(5,6) by (simp_all add: v_def upd_run_def)
  moreover have "action_allowed RELEASE_TRANSITIONS FailR (rl_status r)"
    using assms(9) by (auto simp: action_allowed_def)
  ultimately show ?thesis
    using assms(8) get by (auto simp: w' fail_release_for_run_def upd_run_def audit_def upd_release_def Let_def)
qed

lemma failed_run_fails_release_witness:
  "\<exists>r. tget (releases (snd (finalise fail_release_for_run sample_env 1 False canary_failed))) 1 = Some r \<and> rl_status r = LFailed"
  using canary_failed_facts [unfolded Let_def]
  by (elim conjE) (drule failed_run_fails_release [OF surjective_pairing]; force)

text \<open>An accepted canary leaves the release in canary, linked to a new pending run of trigger type
  release whose driver is started.\<close>

lemma canary_starts_release_run:
  assumes "canary_release e u rid w = Inr (r, w')" and "table_ok (releases w)" and "table_ok (wf_runs w)"
  shows "rl_status r = LCanary \<and> tget (releases w') rid = Some r \<and>
     (\<exists>run_id run. rl_workflow_run_id r = Some run_id \<and> tget (wf_runs w') run_id = Some run \<and>
        wr_status run = RPending \<and> wr_trigger_type run = ''release'' \<and> StartDriver run_id \<in> set (outbox w'))"
proof -
  have g: "feature_on w cicd_feature" "has_perm u ''release:canary''"
    using release_gate.accepted_gate [OF assms(1) [unfolded canary_release_def]] by auto
  obtain r0 where r0: "tget (releases w) rid = Some r0" "action_allowed RELEASE_TRANSITIONS CanaryR (rl_status r0)"
    using assms(1) g by (auto simp: canary_release_def release_handler_def apply_release_transition_def split: option.splits if_splits sum.splits)
  define r1 where "r1 = r0\<lparr>rl_status := LCanary\<rparr>"
  define w1 where "w1 = upd_release rid (\<lambda>_. r1) w"
  obtain run_id w2 where t: "trigger_release_run e u rid r1 ''canary'' w1 = (run_id, w2)" by fastforce
  have res: "r = r1\<lparr>rl_workflow_run_id := Some run_id\<rparr>" "w' = audit (who u) ''release.canary'' rid r w2"
    using assms(1) g r0 t by (auto simp: canary_release_def release_handler_def apply_release_transition_def r1_def w1_def Let_def)
  obtain wid flow v where v: "ensure_release_workflow u w1 = ((wid, flow), v)" by (metis prod.collapse)
  have keep: "releases v = releases w1" "wf_runs v = wf_runs w" "outbox v = outbox w"
    using v by (auto simp: ensure_release_workflow_def w1_def upd_release_def Let_def split: option.splits)
  have ok: "table_ok (wf_runs v)" using assms(3) keep by simp
  have id: "run_id = next_id (wf_runs w)"
    using t v keep by (auto simp: trigger_release_run_def start_run_def Let_def)
  have w2: "tget (releases w2) rid = Some r" "StartDriver run_id \<in> set (outbox w2)"
    "\<exists>run. tget (wf_runs w2) run_id = Some run \<and> wr_status run = RPending \<and> wr_trigger_type run = ''release''"
    using t v keep r0 res ok id
    by (auto simp: trigger_release_run_def start_run_def emit_def upd_release_def w1_def Let_def tget_tadd)
  show ?thesis using w2 res by (simp add: audit_def r1_def)
qed

lemma canary_starts_release_run_witness:
  "\<exists>r. tget (releases canary_db) 1 = Some r \<and> rl_status r = LCanary"
proof -
  have ok: "table_ok (releases release_db)" "table_ok (wf_runs release_db)" by code_simp+
  have "isl (canary_release sample_env sample_user 1 release_db) = False" by code_simp
  then obtain r where "canary_release sample_env sample_user 1 release_db = Inr (r, canary_db)"
    unfolding canary_db_def by (cases "canary_release sample_env sample_user 1 release_db") (auto simp: after_def)
  from canary_starts_release_run [OF this ok] show ?thesis by blast
qed

section \<open>Tickets\<close>

text \<open>An accepted call of any handler of the service.\<close>

inductive ticket_step :: "'z ticket_db_scheme \<Rightarrow> 'z ticket_db_scheme \<Rightarrow> bool" where
  by_create: "create_ticket e u data w = Inr (x, w') \<Longrightarrow> ticket_step w w'"
| by_edit: "edit_ticket u tid upd w = Inr (t, w') \<Longrightarrow> ticket_step w w'"
| by_assign: "assign_ticket u tid asg w = Inr (t, w') \<Longrightarrow> ticket_step w w'"
| by_simple: "simple_transition e u perm action tid w = Inr (t, w') \<Longrightarrow> ticket_step w w'"
| by_done: "done_ticket e u tid x w = Inr (t, w') \<Longrightarrow> ticket_step w w'"
| by_comment: "add_comment u tid content w = Inr (i, w') \<Longrightarrow> ticket_step w w'"
| by_attach: "add_attachments dir u tid files w = Inr (is, w') \<Longrightarrow> ticket_step w w'"
| by_ref: "add_ref u tid rtype ref w = Inr (y, w') \<Longrightarrow> ticket_step w w'"

inductive ticket_reach :: "'z ticket_db_scheme \<Rightarrow> 'z ticket_db_scheme \<Rightarrow> bool" where
  tickets_start: "ticket_reach w w"
| tickets_next: "ticket_reach w w' \<Longrightarrow> ticket_step w' w'' \<Longrightarrow> ticket_reach w w''"

text \<open>How a row may change.\<close>

definition ticket_grown :: "ticket \<Rightarrow> ticket \<Rightarrow> bool" where
  "ticket_grown t t' = (machine_reach TICKET_TRANSITIONS (tk_status t) (tk_status t') \<and> tk_version t \<le> tk_version t' \<and>
     (tk_version t' = tk_version t \<longrightarrow> t' = t) \<and>
     tk_ticket_no t' = tk_ticket_no t \<and> tk_requester_id t' = tk_requester_id t \<and>
     (tk_status t \<notin> set TICKET_EDITABLE_STATUSES \<longrightarrow>
        tk_title t' = tk_title t \<and> tk_description t' = tk_description t \<and> tk_priority t' = tk_priority t))"

lemma ticket_grown_refl [simp]: "ticket_grown t t"
  by (simp add: ticket_grown_def reach_refl)

lemma machine_reach_trans:
  assumes "machine_reach tr b c" and "machine_reach tr a b"
  shows "machine_reach tr a c"
  using assms by (induction rule: machine_reach.induct) (auto intro: reach_step)

lemma ticket_grown_trans: "ticket_grown a b \<Longrightarrow> ticket_grown b c \<Longrightarrow> ticket_grown a c"
  using machine_reach_trans [of TICKET_TRANSITIONS "tk_status b" "tk_status c" "tk_status a"]
    ticket_machine.reach_live [of "tk_status a" "tk_status b"]
  unfolding ticket_grown_def by auto

lemma grown_transition:
  assumes "apply_transition t action = Inr t'"
  shows "ticket_grown t t' \<and> tk_version t' = tk_version t + 1"
  using assms reach_step [OF reach_refl, of TICKET_TRANSITIONS action "tk_status t"]
  by (auto simp: apply_transition_def ticket_grown_def split: if_splits)

lemma transition_handler_row:
  assumes "transition_handler u perm action f tid w = Inr (t', w')"
  obtains t t1 where "tget (tickets w) tid = Some t" "apply_transition t action = Inr t1" "t' = f t1"
    "tickets w' = tupd tid (\<lambda>_. f t1) (tickets w)"
  using assms by (auto simp: transition_handler_def put_ticket_def split: if_splits option.splits sum.splits)

definition tickets_grown :: "'z ticket_db_scheme \<Rightarrow> 'z ticket_db_scheme \<Rightarrow> bool" where
  "tickets_grown w w' = ((table_ok (tickets w) \<longrightarrow> table_ok (tickets w')) \<and>
     (table_ok (tickets w) \<longrightarrow> (\<forall>i t. tget (tickets w) i = Some t \<longrightarrow> (\<exists>t'. tget (tickets w') i = Some t' \<and> ticket_grown t t'))))"

lemma grown_same: "tickets w' = tickets w \<Longrightarrow> tickets_grown w w'"
  by (auto simp: tickets_grown_def)

lemma grown_upd:
  assumes "tget (tickets w) tid = Some t" and "ticket_grown t t'" and "tickets w' = tupd tid (\<lambda>_. t') (tickets w)"
  shows "tickets_grown w w'"
  using assms by (auto simp: tickets_grown_def)

lemma grown_add: "tickets w' = tadd t (tickets w) \<Longrightarrow> tickets_grown w w'"
  using tbl.add_keeps by (force simp: tickets_grown_def)

lemma tickets_insert_ref: "insert_ref tid rt r by_user w = Inr w' \<Longrightarrow> tickets w' = tickets w"
  by (auto simp: insert_ref_def split: if_splits)

lemma tickets_host_refs: "insert_host_refs tid by_user hs w = Inr w' \<Longrightarrow> tickets w' = tickets w"
  by (induction hs arbitrary: w) (auto split: sum.splits dest: tickets_insert_ref)

lemma tickets_store_files: "store_files dir u tid fs w = Inr (is, w') \<Longrightarrow> tickets w' = tickets w"
  by (induction fs arbitrary: w "is") (auto simp: Let_def split: if_splits sum.splits)

lemma grown_handler:
  assumes "transition_handler u perm action f tid w = Inr (t', w')"
    and "\<And>t. tk_status (f t) = tk_status t \<and> tk_version (f t) = tk_version t \<and> tk_ticket_no (f t) = tk_ticket_no t \<and>
      tk_requester_id (f t) = tk_requester_id t \<and> tk_title (f t) = tk_title t \<and> tk_description (f t) = tk_description t \<and>
      tk_priority (f t) = tk_priority t"
  shows "tickets_grown w w'"
  using assms(1)
proof (rule transition_handler_row)
  fix t t1
  assume t: "tget (tickets w) tid = Some t" "apply_transition t action = Inr t1" "tickets w' = tupd tid (\<lambda>_. f t1) (tickets w)"
  have "ticket_grown t (f t1)"
    using grown_transition [OF t(2)] assms(2) [of t1] unfolding ticket_grown_def by auto
  then show ?thesis by (rule grown_upd [OF t(1) _ t(3)])
qed

lemma grown_edit:
  assumes "edit_ticket u tid upd w = Inr (t', w')"
  shows "tickets_grown w w'"
proof -
  obtain t where t: "tget (tickets w) tid = Some t" "tk_status t \<in> set TICKET_EDITABLE_STATUSES"
    "tickets w' = tupd tid (\<lambda>_. t') (tickets w)" "tk_status t' = tk_status t" "tk_version t' = tk_version t + 1"
    "tk_ticket_no t' = tk_ticket_no t" "tk_requester_id t' = tk_requester_id t"
    using assms by (auto simp: edit_ticket_def Let_def put_ticket_def split: if_splits option.splits)
  then have "ticket_grown t t'" by (simp add: ticket_grown_def reach_refl)
  then show ?thesis by (rule grown_upd [OF t(1) _ t(3)])
qed

lemma grown_create:
  assumes "create_ticket e u data w = Inr (x, w')"
  shows "tickets_grown w w'"
proof -
  have "\<exists>t. tickets w' = tadd t (tickets w)"
    using assms by (auto simp: create_ticket_def ticket_no_def Let_def split: if_splits sum.splits dest!: tickets_host_refs)
  then show ?thesis using grown_add by blast
qed

lemma ticket_step_grows: "ticket_step w w' \<Longrightarrow> tickets_grown w w'"
proof (induction rule: ticket_step.induct)
  case (by_create e u data w x w')
  then show ?case by (rule grown_create)
next
  case (by_edit u tid upd w t w')
  then show ?case by (rule grown_edit)
next
  case (by_assign u tid asg w t w')
  then have "transition_handler u ''ticket:assign'' DoAssign (\<lambda>t. t\<lparr>tk_assignee_id := Some asg\<rparr>) tid w = Inr (t, w')"
    by (auto simp: assign_ticket_def split: sum.splits if_splits)
  then show ?case by (rule grown_handler) simp
next
  case (by_simple e u perm action tid w t w')
  then show ?case unfolding simple_transition_def by (rule grown_handler) simp
next
  case (by_done e u tid x w t w')
  then obtain w1 where h: "transition_handler u ''ticket:done'' DoDone (\<lambda>t. t\<lparr>tk_resolved_at := Some (now e)\<rparr>) tid w = Inr (t, w1)"
    and "tickets w' = tickets w1"
    by (auto simp: done_ticket_def split: sum.splits if_splits dest!: tickets_insert_ref)
  moreover have "tickets_grown w w1" using h by (rule grown_handler) simp
  ultimately show ?case by (simp add: tickets_grown_def)
next
  case (by_comment u tid content w i w')
  then show ?case by (intro grown_same) (auto simp: add_comment_def split: if_splits option.splits)
next
  case (by_attach dir u tid files w "is" w')
  then show ?case by (intro grown_same) (auto simp: add_attachments_def split: if_splits option.splits dest: tickets_store_files)
next
  case (by_ref u tid rtype ref w y w')
  then show ?case by (intro grown_same) (auto simp: add_ref_def split: if_splits option.splits sum.splits dest: tickets_insert_ref)
qed

definition ticket_gone :: ticket_db where
  "ticket_gone = after (cancel_ticket sample_env sample_user 1 ticket_new) ticket_new"

text \<open>C15: whatever handlers were accepted since, a ticket still exists with its number, its status was reached
  by allowed actions, its version grew unless nothing changed, a cancelled one stays cancelled, and title
  and description of an accepted one are frozen.\<close>

theorem ticket_history:
  assumes "ticket_reach w w'" and "table_ok (tickets w)" and "tget (tickets w) tid = Some t"
  shows "\<exists>t'. tget (tickets w') tid = Some t' \<and> machine_reach TICKET_TRANSITIONS (tk_status t) (tk_status t') \<and>
     tk_version t \<le> tk_version t' \<and> (tk_version t' = tk_version t \<longrightarrow> t' = t) \<and> tk_ticket_no t' = tk_ticket_no t \<and>
     (tk_status t = KCancel \<longrightarrow> tk_status t' = KCancel) \<and>
     (tk_status t \<notin> set TICKET_EDITABLE_STATUSES \<longrightarrow> tk_title t' = tk_title t \<and> tk_description t' = tk_description t)"
proof -
  have "table_ok (tickets w') \<and> (\<exists>t'. tget (tickets w') tid = Some t' \<and> ticket_grown t t')"
    using assms
  proof (induction rule: ticket_reach.induct)
    case (tickets_next w w' w'')
    then show ?case using ticket_step_grows [OF tickets_next.hyps(2)] ticket_grown_trans unfolding tickets_grown_def by blast
  qed auto
  then obtain t' where t': "tget (tickets w') tid = Some t'" "ticket_grown t t'" by blast
  then show ?thesis
    using ticket_machine.reach_absorbing [of "tk_status t" "tk_status t'"] unfolding ticket_grown_def by auto
qed

theorem ticket_history_witness:
  "\<exists>t'. tget (tickets ticket_gone) 1 = Some t' \<and> machine_reach TICKET_TRANSITIONS KAssign (tk_status t')"
proof -
  have "isl (cancel_ticket sample_env sample_user 1 ticket_new) = False" by code_simp
  then obtain t where "cancel_ticket sample_env sample_user 1 ticket_new = Inr (t, ticket_gone)"
    unfolding ticket_gone_def by (cases "cancel_ticket sample_env sample_user 1 ticket_new") (auto simp: after_def)
  then have r: "ticket_reach ticket_new ticket_gone"
    unfolding cancel_ticket_def by (intro tickets_next [OF tickets_start] by_simple)
  have ok: "table_ok (tickets ticket_new)" by code_simp
  have t: "tget (tickets ticket_new) 1 = Some (the (tget (tickets ticket_new) 1))" by code_simp
  have "tk_status (the (tget (tickets ticket_new) 1)) = KAssign" by code_simp
  with ticket_history [OF r ok t] show ?thesis by auto
qed

definition ref_db :: ticket_db where
  "ref_db = after (add_ref sample_user 1 ''script'' 4 ticket_new) ticket_new"

text \<open>Adding a reference again returns the same reference as not created and changes nothing.\<close>

lemma add_ref_idempotent:
  assumes "add_ref u tid rtype ref w = Inr ((i, c), w')"
  shows "add_ref u tid rtype ref w' = Inr ((i, False), w')"
proof -
  have g: "feature_on w ticket_feature" "has_perm u ''ticket:ref''" using ticket_ref_gate.accepted_gate [OF assms] by auto
  obtain t where t: "tget (tickets w) tid = Some t" "rtype \<in> set TICKET_REF_TYPES"
    using assms g by (auto simp: add_ref_def split: option.splits if_splits)
  let ?P = "\<lambda>r. tr_ticket_id r = tid \<and> tr_ref_type r = rtype \<and> tr_ref_id r = ref"
  show ?thesis
  proof (cases "tfirst ?P (ticket_refs w)")
    case None
    then have w': "w' = w\<lparr>ticket_refs := tadd \<lparr>tr_ticket_id = tid, tr_ref_type = rtype, tr_ref_id = ref, tr_created_by = Some (uid u)\<rparr> (ticket_refs w)\<rparr>"
      and i: "i = next_id (ticket_refs w)"
      using assms g t by (auto simp: add_ref_def insert_ref_def split: if_splits)
    have "feature_on w' ticket_feature" using g feature_on_cong [of w' w] by (simp add: w')
    then show ?thesis using g t None i by (simp add: add_ref_def w' tfirst_tadd)
  next
    case (Some x)
    then show ?thesis using assms g t by (cases x) (auto simp: add_ref_def)
  qed
qed

lemma add_ref_idempotent_witness:
  "\<exists>i. add_ref sample_user 1 ''script'' 4 ref_db = Inr ((i, False), ref_db)"
proof -
  have "isl (add_ref sample_user 1 ''script'' 4 ticket_new) = False" by code_simp
  then obtain i c where "add_ref sample_user 1 ''script'' 4 ticket_new = Inr ((i, c), ref_db)"
    unfolding ref_db_def by (cases "add_ref sample_user 1 ''script'' 4 ticket_new") (auto simp: after_def)
  from add_ref_idempotent [OF this] show ?thesis by blast
qed

lemma base_name_safe: "CHR ''/'' \<notin> set (base_name s)"
  by (auto simp: base_name_def dest: set_takeWhileD)

lemma store_files_rows:
  assumes "store_files dir u tid fs w = Inr (is, w')"
  shows "\<exists>new. rows (file_packages w') = rows (file_packages w) @ new \<and> length new = length fs \<and>
    (\<forall>(i, p) \<in> set new. fp_store_path p = dir @ ''/tickets/'' @ show_int tid @ ''/'' @ fp_name p \<and>
       CHR ''/'' \<notin> set (fp_name p) \<and> fp_name p \<notin> {[], ''.'', ''..''})"
  using assms
proof (induction fs arbitrary: w "is")
  case (Cons f fs)
  obtain fn content where f: "f = (fn, content)" by fastforce
  define p where "p = \<lparr>fp_name = base_name fn, fp_total_size = int (length content),
      fp_store_path = dir @ ''/tickets/'' @ show_int tid @ ''/'' @ base_name fn, fp_created_by = Some (uid u)\<rparr>"
  obtain v js where v: "store_files dir u tid fs v = Inr (js, w')" "file_packages v = tadd p (file_packages w)"
    and ok: "base_name fn \<notin> {[], ''.'', ''..''}"
    using Cons.prems by (auto simp: f p_def Let_def split: if_splits sum.splits)
  from Cons.IH [OF v(1)] obtain new where new: "rows (file_packages w') = rows (file_packages v) @ new" "length new = length fs"
    "\<forall>(i, p) \<in> set new. fp_store_path p = dir @ ''/tickets/'' @ show_int tid @ ''/'' @ fp_name p \<and>
       CHR ''/'' \<notin> set (fp_name p) \<and> fp_name p \<notin> {[], ''.'', ''..''}" by blast
  show ?case
  proof (intro exI conjI)
    show "rows (file_packages w') = rows (file_packages w) @ ((next_id (file_packages w), p) # new)"
      by (simp add: new(1) v(2) tadd_def)
    show "\<forall>(i, p) \<in> set ((next_id (file_packages w), p) # new). fp_store_path p = dir @ ''/tickets/'' @ show_int tid @ ''/'' @ fp_name p \<and>
       CHR ''/'' \<notin> set (fp_name p) \<and> fp_name p \<notin> {[], ''.'', ''..''}"
      using new(3) ok base_name_safe [of fn] by (simp add: p_def)
  qed (simp add: new(2))
qed simp

definition attach_db :: ticket_db where
  "attach_db = after (add_attachments ''/srv'' sample_user 1 [(''../../etc/passwd'', ''x'')] ticket_new) ticket_new"

text \<open>C40: every accepted attachment is stored directly in the directory of its ticket, under a name without a
  slash that is not a directory name.\<close>

theorem attachments_stay_inside:
  assumes "add_attachments dir u tid files w = Inr (is, w')"
  shows "\<exists>new. rows (file_packages w') = rows (file_packages w) @ new \<and> length new = length files \<and>
    (\<forall>(i, p) \<in> set new. fp_store_path p = dir @ ''/tickets/'' @ show_int tid @ ''/'' @ fp_name p \<and>
       CHR ''/'' \<notin> set (fp_name p) \<and> fp_name p \<notin> {[], ''.'', ''..''})"
proof -
  have "store_files dir u tid files w = Inr (is, w')"
    using assms by (auto simp: add_attachments_def split: if_splits option.splits)
  then show ?thesis by (rule store_files_rows)
qed

theorem attachments_stay_inside_witness:
  "\<exists>new. rows (file_packages attach_db) = rows (file_packages ticket_new) @ new \<and>
    (\<forall>(i, p) \<in> set new. fp_store_path p = ''/srv/tickets/1/'' @ fp_name p \<and> CHR ''/'' \<notin> set (fp_name p))"
proof -
  have "isl (add_attachments ''/srv'' sample_user 1 [(''../../etc/passwd'', ''x'')] ticket_new) = False" by code_simp
  then obtain js where "add_attachments ''/srv'' sample_user 1 [(''../../etc/passwd'', ''x'')] ticket_new = Inr (js, attach_db)"
    unfolding attach_db_def by (cases "add_attachments ''/srv'' sample_user 1 [(''../../etc/passwd'', ''x'')] ticket_new") (auto simp: after_def)
  moreover have "show_int 1 = ''1''" by code_simp
  ultimately show ?thesis using attachments_stay_inside [of "''/srv''" sample_user 1 _ ticket_new js attach_db] by fastforce
qed

section \<open>Corner cases\<close>

definition cancelled_db :: ticket_db where
  "cancelled_db = after (cancel_release sample_env sample_user 1 (turns 2 1 canary_db)) canary_db"

text \<open>Cancelling a release cancels its run but leaves the callback node waiting, so a callback for the
  cancelled run is still accepted.\<close>

lemma callback_after_cancelled_release:
  "map_option rl_status (tget (releases cancelled_db) 1) = Some LCancelled \<and>
   map_option wr_status (tget (wf_runs cancelled_db) 1) = Some RCancelled \<and>
   map_sum id fst (callback_node sample_env 1 ''deploy'' (Some ''token'') JNull cancelled_db) = Inr NSucceeded"
  by (intro conjI) code_simp+

definition ticket_reopened :: ticket_db where
  "ticket_reopened = (let w1 = after (accept_ticket sample_env sample_user 1 ticket_new) ticket_new;
       w2 = after (process_ticket sample_env sample_user 1 w1) w1;
       w3 = after (done_ticket sample_env sample_user 1 (Some 5) w2) w2
     in after (reopen_ticket sample_env sample_user 1 w3) w3)"

text \<open>A ticket finished with an execution task, reopened and finished with the same task again ends in a
  violated unique constraint.\<close>

lemma done_twice_with_same_task:
  "map_option tk_status (tget (tickets ticket_reopened) 1) = Some KProcessing \<and>
   map_sum id (\<lambda>_. ()) (done_ticket sample_env sample_user 1 (Some 5) ticket_reopened) = Inl (IntegrityError ''ticket_ref'')"
  by (intro conjI) code_simp+

section \<open>Gates\<close>

text \<open>With the feature off every caller gets a 400, with it on a caller without the permission gets a
  403: starting and cancelling runs, canary releases and creating tickets.\<close>

lemma gates_in_order:
  fixes w :: "'z ticket_db_scheme"
  shows "(\<not> (feature_on w wf_feature \<and> has_perm u ''workflow:run'') \<longrightarrow>
      (\<exists>err. run_workflow e u wid idem data w = Inl err \<and> http_status err = (if feature_on w wf_feature then 403 else 400))) \<and>
    (\<not> (feature_on w wf_feature \<and> has_perm u ''workflow:cancel'') \<longrightarrow>
      (\<exists>err. cancel_run e u rid w = Inl err \<and> http_status err = (if feature_on w wf_feature then 403 else 400))) \<and>
    (\<not> (feature_on w cicd_feature \<and> has_perm u ''release:canary'') \<longrightarrow>
      (\<exists>err. canary_release e u rid w = Inl err \<and> http_status err = (if feature_on w cicd_feature then 403 else 400))) \<and>
    (\<not> (feature_on w ticket_feature \<and> has_perm u ''ticket:create'') \<longrightarrow>
      (\<exists>err. create_ticket e u tdata w = Inl err \<and> http_status err = (if feature_on w ticket_feature then 403 else 400)))"
  using run_gate.status_of_gate [of w u e wid idem data] cancel_gate.status_of_gate [of w u e rid]
    release_gate.status_of_gate [of w u "''release:canary''"] ticket_create_gate.status_of_gate [of w u e tdata]
  unfolding canary_release_def by blast

lemma gates_in_order_witness:
  "\<exists>err. create_ticket sample_env plain_user \<lparr>kc_title = [], kc_category = [], kc_priority = [], kc_description = [],
     kc_assignee_id = None, kc_host_ids = [], kc_due_at = None\<rparr> sample_db = Inl err \<and> http_status err = 403"
proof -
  have "feature_on sample_db ticket_feature" "\<not> has_perm plain_user ''ticket:create''" by code_simp+
  then show ?thesis
    using gates_in_order [of sample_db plain_user sample_env 0 None None 0 "\<lparr>kc_title = [], kc_category = [], kc_priority = [],
      kc_description = [], kc_assignee_id = None, kc_host_ids = [], kc_due_at = None\<rparr>"] by auto
qed

end
