(* ===== verification/Schedule_Service.thy ===== *)
theory Schedule_Service
  imports Exec_Invariants
begin

text \<open>
  Scheduled execution (\<open>schedule_service.py\<close>): cron and interval schedules, the sweep that starts
  what is due, running and retrying by hand. A run makes its own execution task and sends it through
  the sensitivity check and the approval chain of the execution service.

  The cron library is the record \<open>croniter\<close>: which expressions it accepts and the next occurrence
  after a moment (\<open>None\<close> is an exception). The time zone and the concurrency limit of a schedule are
  stored and shown but never read, and are left out.
\<close>

section \<open>Rows\<close>

record croniter =
  cron_ok :: "string \<Rightarrow> bool"
  cron_next :: "string \<Rightarrow> time \<Rightarrow> time option"

record schedule =
  sd_name :: string
  sd_kind :: string
  sd_script_id :: "int option"
  sd_command :: "string option"
  sd_params :: "(string \<times> string) list"
  sd_trigger_type :: string
  sd_cron_expr :: "string option"
  sd_interval_sec :: "int option"
  sd_target_host_ids :: "int list"
  sd_timeout_sec :: int
  sd_retry :: int
  sd_enabled :: int
  sd_created_by :: "int option"

text \<open>\<open>run_no\<close> is the text of the schedule and the second it was made in; the pair stands for it.\<close>

record schedule_run =
  sr_schedule_id :: int
  sr_run_no :: "int \<times> int"
  sr_status :: string
  sr_task_id :: "int option"
  sr_started_at :: time
  sr_finished_at :: "time option"
  sr_error :: "app_error option"

record sched_db = exec_db +
  schedules :: "schedule table"
  schedule_runs :: "schedule_run table"

section \<open>What is due\<close>

definition last_started :: "'z sched_db_scheme \<Rightarrow> int \<Rightarrow> time option" where
  "last_started w sid = fold (\<lambda>(i, r) acc. Some (case acc of None \<Rightarrow> sr_started_at r | Some t \<Rightarrow> max t (sr_started_at r)))
     (tselect (\<lambda>r. sr_schedule_id r = sid) (schedule_runs w)) None"

definition is_due :: "croniter \<Rightarrow> env \<Rightarrow> 'z sched_db_scheme \<Rightarrow> int \<Rightarrow> schedule \<Rightarrow> bool" where
  "is_due cr e w sid s =
     (let last = last_started w sid
      in if sd_trigger_type s = ''interval''
         then (case last of None \<Rightarrow> True
               | Some l \<Rightarrow> now e - l \<ge> seconds (case sd_interval_sec s of None \<Rightarrow> 0 | Some n \<Rightarrow> n))
         else if sd_trigger_type s = ''cron''
         then (case sd_cron_expr s of
                 None \<Rightarrow> False
               | Some c \<Rightarrow>
                   (case cron_next cr c (case last of Some l \<Rightarrow> l | None \<Rightarrow> now e) of
                      None \<Rightarrow> False
                    | Some next_run \<Rightarrow> next_run \<le> now e \<and> (last = None \<or> now e \<ge> next_run)))
         else False)"

definition due_tasks :: "croniter \<Rightarrow> env \<Rightarrow> 'z sched_db_scheme \<Rightarrow> (int \<times> schedule) list" where
  "due_tasks cr e w = filter (\<lambda>(i, s). is_due cr e w i s) (tselect (\<lambda>s. sd_enabled s = 1) (schedules w))"

section \<open>Starting a run\<close>

record spawn_out =
  so_run_id :: int
  so_task_id :: int
  so_status :: exec_status
  so_approval_id :: "int option"

definition run_no :: "env \<Rightarrow> int \<Rightarrow> int \<times> int" where
  "run_no e sid = (sid, now e div 1000000)"

text \<open>Inserting a run: its number is unique.\<close>

definition add_run :: "schedule_run \<Rightarrow> 'z sched_db_scheme \<Rightarrow> (int \<times> 'z sched_db_scheme) res" where
  "add_run r w =
     (if texists (\<lambda>x. sr_run_no x = sr_run_no r) (schedule_runs w) then Inl (IntegrityError ''schedule_run.run_no'')
      else Inr (next_id (schedule_runs w), w\<lparr>schedule_runs := tadd r (schedule_runs w)\<rparr>))"

definition new_run :: "env \<Rightarrow> int \<Rightarrow> schedule_run" where
  "new_run e sid = \<lparr>sr_schedule_id = sid, sr_run_no = run_no e sid, sr_status = ''running'', sr_task_id = None,
     sr_started_at = now e, sr_finished_at = None, sr_error = None\<rparr>"

definition sched_request :: "schedule \<Rightarrow> int \<Rightarrow> string \<Rightarrow> int option \<Rightarrow> exec_req" where
  "sched_request s requester prefix version =
     \<lparr>rq_name = prefix @ '' '' @ sd_name s, rq_kind = sd_kind s, rq_target_host_ids = sd_target_host_ids s,
      rq_script_id = sd_script_id s, rq_script_version = version, rq_command = sd_command s, rq_params = sd_params s,
      rq_mode = ''batch'', rq_timeout_sec = sd_timeout_sec s, rq_retry = sd_retry s, rq_created_by = Some requester,
      rq_requester_id = Some requester, rq_visible_group_ids = None, rq_remediation = None\<rparr>"

definition sched_version :: "'z exec_db_scheme \<Rightarrow> schedule \<Rightarrow> int option" where
  "sched_version w s = (if sd_kind s = ''script'' \<and> sd_script_id s \<noteq> None
     then map_option sc_current_version (tget (scripts w) (the (sd_script_id s))) else None)"

definition sched_submit ::
  "env \<Rightarrow> int \<Rightarrow> int \<Rightarrow> int \<Rightarrow> hit list \<Rightarrow> 'z sched_db_scheme \<Rightarrow> (spawn_out \<times> 'z sched_db_scheme) res" where
  "sched_submit e rid tid requester reason w =
     (let (no, w1) = approval_no e w
      in case add_approval (new_approval no ''exec'' tid requester reason) w1 of
           Inl err \<Rightarrow> Inl err
         | Inr (aid, w2) \<Rightarrow>
             (case exec_optimistic_update tid XCreated XAwaitingApproval 0
                     (upd_task tid (\<lambda>r. r\<lparr>xt_approval_id := Some aid\<rparr>) w2) of
                (False, _) \<Rightarrow> Inl (ConflictError ''task state changed concurrently'')
              | (True, w3) \<Rightarrow> Inr (\<lparr>so_run_id = rid, so_task_id = tid, so_status = XAwaitingApproval, so_approval_id = Some aid\<rparr>, w3)))"

definition sched_start :: "env \<Rightarrow> int \<Rightarrow> int \<Rightarrow> 'z sched_db_scheme \<Rightarrow> (spawn_out \<times> 'z sched_db_scheme) res" where
  "sched_start e rid tid w =
     (case exec_optimistic_update tid XCreated XRunning 0 w of
        (False, _) \<Rightarrow> Inl (ConflictError ''task state changed concurrently'')
      | (True, w1) \<Rightarrow> Inr (\<lparr>so_run_id = rid, so_task_id = tid, so_status = XRunning, so_approval_id = None\<rparr>,
                          upd_task tid (\<lambda>r. r\<lparr>xt_started_at := Some (now e)\<rparr>) w1))"

text \<open>\<open>_spawn_run\<close> up to its commit.\<close>

definition spawn_record ::
  "env \<Rightarrow> int \<Rightarrow> schedule \<Rightarrow> int \<Rightarrow> string \<Rightarrow> 'z sched_db_scheme \<Rightarrow> (spawn_out \<times> 'z sched_db_scheme) res" where
  "spawn_record e sid s requester prefix w =
     (case check_hosts w None (sd_target_host_ids s) of
        Inl err \<Rightarrow> Inl err
      | Inr _ \<Rightarrow>
     (case script_text w (sd_kind s) (sd_script_id s) None (sd_command s) of
        Inl err \<Rightarrow> Inl err
      | Inr script_content \<Rightarrow>
     (case detect_sensitive w (sd_command s) script_content (int (length (remdups (sd_target_host_ids s)))) of
        None \<Rightarrow> Inl TypeError
      | Some (sensitive, reason) \<Rightarrow>
     (case add_run (new_run e sid) w of
        Inl err \<Rightarrow> Inl err
      | Inr (rid, w1) \<Rightarrow>
     (let tid = next_id (exec_tasks w1);
          t = new_task e (sched_request s requester prefix (sched_version w s)) (''SC-'' @ show_int rid) sensitive;
          w2 = w1\<lparr>exec_tasks := tadd t (exec_tasks w1)\<rparr>
      in case add_task_hosts e False tid (sd_target_host_ids s) w2 of
           Inl err \<Rightarrow> Inl err
         | Inr w3 \<Rightarrow>
             (let w4 = w3\<lparr>schedule_runs := tupd rid (\<lambda>r. r\<lparr>sr_task_id := Some tid\<rparr>) (schedule_runs w3)\<rparr>
              in if sensitive then sched_submit e rid tid requester reason w4 else sched_start e rid tid w4))))))"

text \<open>The dispatch comes after the commit, so its exception leaves the run in place.\<close>

definition spawn_run ::
  "env \<Rightarrow> int \<Rightarrow> schedule \<Rightarrow> int \<Rightarrow> string \<Rightarrow> 'z sched_db_scheme \<Rightarrow> spawn_out res \<times> 'z sched_db_scheme" where
  "spawn_run e sid s requester prefix w =
     (case spawn_record e sid s requester prefix w of
        Inl err \<Rightarrow> (Inl err, w)
      | Inr (out, w1) \<Rightarrow>
          if so_status out \<noteq> XRunning then (Inr out, w1)
          else (let (raised, w2) = kick_off_exec e (so_task_id out) False w1
                in (if raised then Inl TypeError else Inr out, w2)))"

section \<open>The sweep\<close>

definition failed_run :: "env \<Rightarrow> int \<Rightarrow> app_error \<Rightarrow> schedule_run" where
  "failed_run e sid err = (new_run e sid)\<lparr>sr_status := ''failed'', sr_error := Some err\<rparr>"

definition trigger_one :: "env \<Rightarrow> int \<times> schedule \<Rightarrow> nat \<times> 'z sched_db_scheme \<Rightarrow> nat \<times> 'z sched_db_scheme" where
  "trigger_one e it st =
     (let (sid, s) = it; (n, w) = st
      in case spawn_run e sid s (case sd_created_by s of None \<Rightarrow> 0 | Some u \<Rightarrow> u) ''[schedule]'' w of
           (Inr _, w1) \<Rightarrow> (Suc n, w1)
         | (Inl err, w1) \<Rightarrow> (n, case add_run (failed_run e sid err) w1 of Inl _ \<Rightarrow> w1 | Inr (_, w2) \<Rightarrow> w2))"

definition trigger_due :: "croniter \<Rightarrow> env \<Rightarrow> 'z sched_db_scheme \<Rightarrow> nat \<times> 'z sched_db_scheme" where
  "trigger_due cr e w = fold (trigger_one e) (due_tasks cr e w) (0, w)"

section \<open>Handlers\<close>

definition validate_schedule :: "croniter \<Rightarrow> schedule \<Rightarrow> unit res" where
  "validate_schedule cr d =
     (if sd_kind d = ''script'' \<and> \<not> int_truthy (sd_script_id d) then Inl (BadRequestError ''script_id required for kind=script'')
      else if sd_kind d = ''command'' \<and> \<not> str_truthy (sd_command d) then Inl (BadRequestError ''command required for kind=command'')
      else if sd_trigger_type d = ''cron'' then
        (if \<not> str_truthy (sd_cron_expr d) then Inl (BadRequestError ''cron_expr required for cron trigger'')
         else if \<not> cron_ok cr (the (sd_cron_expr d)) then Inl (BadRequestError ''invalid cron expression'')
         else Inr ())
      else if sd_trigger_type d = ''interval'' then
        (if \<not> int_truthy (sd_interval_sec d) \<or> the (sd_interval_sec d) < 1
         then Inl (BadRequestError ''interval_sec required for interval trigger'') else Inr ())
      else Inl (BadRequestError ''invalid trigger_type''))"

definition script_fk :: "'z exec_db_scheme \<Rightarrow> int option \<Rightarrow> bool" where
  "script_fk w sid = (case sid of None \<Rightarrow> True | Some i \<Rightarrow> tget (scripts w) i \<noteq> None)"

text \<open>The body of the request and the row have the same fields; the owner is the caller.\<close>

definition create_schedule ::
  "croniter \<Rightarrow> current_user \<Rightarrow> schedule \<Rightarrow> 'z sched_db_scheme \<Rightarrow> (int \<times> 'z sched_db_scheme) res" where
  "create_schedule cr u data w =
     (case validate_schedule cr data of
        Inl err \<Rightarrow> Inl err
      | Inr _ \<Rightarrow>
          if \<not> script_fk w (sd_script_id data) then Inl (IntegrityError ''schedule_task.script_id'')
          else Inr (next_id (schedules w), w\<lparr>schedules := tadd (data\<lparr>sd_created_by := Some (uid u)\<rparr>) (schedules w)\<rparr>))"

record schedule_update =
  su_name :: "string option"
  su_kind :: "string option"
  su_script_id :: "int option"
  su_command :: "string option"
  su_params :: "(string \<times> string) list option"
  su_trigger_type :: "string option"
  su_cron_expr :: "string option"
  su_interval_sec :: "int option"
  su_target_host_ids :: "int list option"
  su_timeout_sec :: "int option"
  su_retry :: "int option"

definition upd_field :: "'a option \<Rightarrow> 'a \<Rightarrow> 'a" where
  "upd_field x old = (case x of None \<Rightarrow> old | Some v \<Rightarrow> v)"

definition upd_opt :: "'a option \<Rightarrow> 'a option \<Rightarrow> 'a option" where
  "upd_opt x old = (case x of None \<Rightarrow> old | Some v \<Rightarrow> Some v)"

definition sched_not_found :: app_error where
  "sched_not_found = NotFoundError ''schedule not found''"

definition update_schedule ::
  "croniter \<Rightarrow> int \<Rightarrow> schedule_update \<Rightarrow> 'z sched_db_scheme \<Rightarrow> (unit \<times> 'z sched_db_scheme) res" where
  "update_schedule cr sid d w =
     (case tget (schedules w) sid of
        None \<Rightarrow> Inl sched_not_found
      | Some s \<Rightarrow>
          (let s' = s\<lparr>sd_name := upd_field (su_name d) (sd_name s), sd_kind := upd_field (su_kind d) (sd_kind s),
                      sd_script_id := upd_opt (su_script_id d) (sd_script_id s),
                      sd_command := upd_opt (su_command d) (sd_command s),
                      sd_params := upd_field (su_params d) (sd_params s),
                      sd_trigger_type := upd_field (su_trigger_type d) (sd_trigger_type s),
                      sd_cron_expr := upd_opt (su_cron_expr d) (sd_cron_expr s),
                      sd_interval_sec := upd_opt (su_interval_sec d) (sd_interval_sec s),
                      sd_target_host_ids := upd_field (su_target_host_ids d) (sd_target_host_ids s),
                      sd_timeout_sec := upd_field (su_timeout_sec d) (sd_timeout_sec s),
                      sd_retry := upd_field (su_retry d) (sd_retry s)\<rparr>
           in if sd_trigger_type s' = ''cron'' \<and> \<not> cron_ok cr (case sd_cron_expr s' of None \<Rightarrow> [] | Some c \<Rightarrow> c)
              then Inl (BadRequestError ''invalid cron expression'')
              else if \<not> script_fk w (sd_script_id s') then Inl (IntegrityError ''schedule_task.script_id'')
              else Inr ((), w\<lparr>schedules := tupd sid (\<lambda>_. s') (schedules w)\<rparr>)))"

text \<open>The runs go with their schedule (\<open>ondelete="CASCADE"\<close>).\<close>

definition delete_schedule :: "int \<Rightarrow> 'z sched_db_scheme \<Rightarrow> (unit \<times> 'z sched_db_scheme) res" where
  "delete_schedule sid w =
     (case tget (schedules w) sid of
        None \<Rightarrow> Inl sched_not_found
      | Some s \<Rightarrow> Inr ((), w\<lparr>schedules := tdel sid (schedules w),
            schedule_runs := fold (\<lambda>(i, r). tdel i) (tselect (\<lambda>r. sr_schedule_id r = sid) (schedule_runs w)) (schedule_runs w)\<rparr>))"

definition set_schedule_status :: "int \<Rightarrow> int \<Rightarrow> 'z sched_db_scheme \<Rightarrow> (unit \<times> 'z sched_db_scheme) res" where
  "set_schedule_status sid enabled w =
     (case tget (schedules w) sid of
        None \<Rightarrow> Inl sched_not_found
      | Some s \<Rightarrow> Inr ((), w\<lparr>schedules := tupd sid (\<lambda>r. r\<lparr>sd_enabled := enabled\<rparr>) (schedules w)\<rparr>))"

definition list_schedules ::
  "string option \<Rightarrow> int option \<Rightarrow> int \<Rightarrow> int \<Rightarrow> 'z sched_db_scheme \<Rightarrow> (int \<times> schedule) list \<times> nat" where
  "list_schedules name enabled page sz w =
     (let rs = rev (tselect (\<lambda>r. (str_truthy name \<longrightarrow> sql_like (lower (''%'' @ the name @ ''%'')) (lower (sd_name r))) \<and>
                       (enabled \<noteq> None \<longrightarrow> sd_enabled r = the enabled)) (schedules w))
      in (page_of page sz rs, length rs))"

definition run_now ::
  "env \<Rightarrow> current_user \<Rightarrow> int \<Rightarrow> 'z sched_db_scheme \<Rightarrow> spawn_out res \<times> 'z sched_db_scheme" where
  "run_now e u sid w =
     (case tget (schedules w) sid of
        None \<Rightarrow> (Inl sched_not_found, w)
      | Some s \<Rightarrow> spawn_run e sid s (uid u) ''[run-now]'' w)"

definition sched_list_runs :: "int \<Rightarrow> int \<Rightarrow> int \<Rightarrow> 'z sched_db_scheme \<Rightarrow> (int \<times> schedule_run) list \<times> nat" where
  "sched_list_runs sid page sz w =
     (let rs = rev (tselect (\<lambda>r. sr_schedule_id r = sid) (schedule_runs w)) in (page_of page sz rs, length rs))"

definition reopen_run :: "int \<Rightarrow> 'z sched_db_scheme \<Rightarrow> 'z sched_db_scheme" where
  "reopen_run rid w = w\<lparr>schedule_runs := tupd rid (\<lambda>r. r\<lparr>sr_status := ''running'', sr_finished_at := None\<rparr>) (schedule_runs w)\<rparr>"

text \<open>A run whose task ended badly is retried on the same task, like \<open>exec_service.retry_task\<close>; any
  other is run anew.\<close>

definition sched_retry_run ::
  "env \<Rightarrow> current_user \<Rightarrow> int \<Rightarrow> int \<Rightarrow> 'z sched_db_scheme \<Rightarrow> spawn_out res \<times> 'z sched_db_scheme" where
  "sched_retry_run e u sid rid w =
     (case tget (schedule_runs w) rid of
        None \<Rightarrow> (Inl (NotFoundError ''run not found''), w)
      | Some run \<Rightarrow>
          if sr_schedule_id run \<noteq> sid then (Inl (NotFoundError ''run not found''), w)
          else (case tget (schedules w) sid of
                  None \<Rightarrow> (Inl sched_not_found, w)
                | Some s \<Rightarrow>
                    (case (if int_truthy (sr_task_id run) then tget (exec_tasks w) (the (sr_task_id run)) else None) of
                       None \<Rightarrow> spawn_run e sid s (uid u) ''[retry]'' w
                     | Some t \<Rightarrow>
                         (let tid = the (sr_task_id run)
                          in if xt_status t \<notin> {XFailed, XTimedOut, XCanceled} then spawn_run e sid s (uid u) ''[retry]'' w
                             else (case recheck_sensitive w t of
                                     None \<Rightarrow> (Inl TypeError, w)
                                   | Some (True, reason) \<Rightarrow>
                                       (case retry_sensitive e u tid t reason w of
                                          Inl err \<Rightarrow> (Inl err, w)
                                        | Inr (out, w1) \<Rightarrow>
                                            (Inr \<lparr>so_run_id = rid, so_task_id = tid, so_status = XAwaitingApproval,
                                                  so_approval_id = xo_approval_id out\<rparr>, reopen_run rid w1))
                                   | Some (False, _) \<Rightarrow>
                                       (case retry_plain e tid t w of
                                          Inl err \<Rightarrow> (Inl err, w)
                                        | Inr w1 \<Rightarrow>
                                            (let (raised, w2) = kick_off_exec e tid False (reopen_run rid w1)
                                             in (if raised then Inl TypeError
                                                 else Inr \<lparr>so_run_id = rid, so_task_id = tid, so_status = XRunning,
                                                           so_approval_id = None\<rparr>, w2))))))))"

section \<open>Scheduled runs keep the approval gate\<close>

lemma gate_more:
  assumes "exec_db.truncate w' = exec_db.truncate w"
  shows "gate_ok S w' = gate_ok S w"
proof -
  have eq: "exec_tasks w' = exec_tasks w" "approvals w' = approvals w" "exec_task_hosts w' = exec_task_hosts w"
    "terminals w' = terminals w" "config_rules w' = config_rules w" "scripts w' = scripts w"
    "script_versions w' = script_versions w"
    using assms by (simp_all add: exec_db.truncate_def)
  have "recheck_sensitive w' t = recheck_sensitive w t" for t
    by (rule recheck_cong) (simp_all add: eq)
  then show ?thesis
    by (simp add: gate_ok_def exec_tables_ok_def biz_unique_def task_good_def linked_def granted_def harmless_def
        sessions_ok_def session_good_def session_linked_def session_granted_def eq)
qed

lemma gate_sched_tables [simp]:
  "gate_ok S (w\<lparr>schedule_runs := x\<rparr>) = gate_ok S w" "gate_ok S (w\<lparr>schedules := y\<rparr>) = gate_ok S w"
  by (rule gate_more, simp add: exec_db.truncate_def)+

lemma gate_reopen [simp]: "gate_ok S (reopen_run rid w) = gate_ok S w"
  by (simp add: reopen_run_def)

lemma add_run_Inr: "add_run r w = Inr (rid, w') \<Longrightarrow> w' = w\<lparr>schedule_runs := tadd r (schedule_runs w)\<rparr> \<and> rid = next_id (schedule_runs w)"
  by (auto simp: add_run_def split: if_splits)

text \<open>A fresh task outside the invariant's reach that is made to wait, and one that starts because
  nothing in it is sensitive.\<close>

lemma gate_sched_submit:
  assumes "gate_ok {} w" and "sched_submit e rid tid rq reason w = Inr (out, w')"
  shows "gate_ok {} w'"
proof -
  obtain no w1 where n: "approval_no e w = (no, w1)" by fastforce
  define a where "a = new_approval no ''exec'' tid rq reason"
  define set_id where "set_id = (\<lambda>aid. upd_task tid (\<lambda>r. r\<lparr>xt_approval_id := Some aid\<rparr>) :: 'a sched_db_scheme \<Rightarrow> 'a sched_db_scheme)"
  from assms(2) n obtain aid w2 where add: "add_approval a w1 = Inr (aid, w2)"
    and cas: "exec_optimistic_update tid XCreated XAwaitingApproval 0 (set_id aid w2) = (True, w')"
    by (auto simp: sched_submit_def a_def set_id_def Let_def split: sum.splits prod.splits bool.splits)
  have "gate_ok {tid} w1"
    using gate_mono [OF gate_side [OF _ assms(1)]] side_approval_no [OF n] by blast
  then have g2: "gate_ok {tid} w2" and a2: "tget (approvals w2) aid = Some a"
    using gate_add_approval [OF _ add] by blast+
  have g3: "gate_ok {tid} (set_id aid w2)"
    unfolding set_id_def using gate_upd_task [OF g2, of tid "{tid}"] by blast
  have w': "w' = upd_task tid (put_task XAwaitingApproval 1) (set_id aid w2)"
    using task_cas_True [OF cas] by simp
  have a3: "tget (approvals (set_id aid w2)) aid = Some a" using a2 by (simp add: set_id_def)
  show ?thesis
    unfolding w' by (rule gate_await [OF g3 a3]) (auto simp: a_def new_approval_def put_task_def set_id_def upd_task_def)
qed

lemma gate_sched_start:
  assumes "gate_ok {} w" and "tget (exec_tasks w) tid = Some t" and "xt_approve_required t = 0"
    and "sched_start e rid tid w = Inr (out, w')"
  shows "gate_ok {} w'"
proof -
  from assms(4) obtain w1 where cas: "exec_optimistic_update tid XCreated XRunning 0 w = (True, w1)"
    and w': "w' = upd_task tid (\<lambda>r. r\<lparr>xt_started_at := Some (now e)\<rparr>) w1"
    by (auto simp: sched_start_def split: prod.splits bool.splits)
  have "gate_ok {} w1"
    using task_cas_True [OF cas] assms(2,3) by (auto intro!: gate_upd_task [OF assms(1)] simp: task_good_def put_task_def)
  then show ?thesis unfolding w' by (rule gate_stamp) (simp add: task_static_def)
qed

lemma spawn_recordE:
  assumes "spawn_record e sid s rq pre w = Inr (out, w')"
  obtains sens reason rid w1 tid t w2 w3 w4 where "add_run (new_run e sid) w = Inr (rid, w1)"
    and "tid = next_id (exec_tasks w1)"
    and "t = new_task e (sched_request s rq pre (sched_version w s)) (''SC-'' @ show_int rid) sens"
    and "w2 = w1\<lparr>exec_tasks := tadd t (exec_tasks w1)\<rparr>"
    and "add_task_hosts e False tid (sd_target_host_ids s) w2 = Inr w3"
    and "w4 = w3\<lparr>schedule_runs := tupd rid (\<lambda>r. r\<lparr>sr_task_id := Some tid\<rparr>) (schedule_runs w3)\<rparr>"
    and "(if sens then sched_submit e rid tid rq reason w4 else sched_start e rid tid w4) = Inr (out, w')"
proof -
  from assms obtain sens reason rid w1 where add: "add_run (new_run e sid) w = Inr (rid, w1)"
    and rest: "(let tid = next_id (exec_tasks w1);
          t = new_task e (sched_request s rq pre (sched_version w s)) (''SC-'' @ show_int rid) sens;
          w2 = w1\<lparr>exec_tasks := tadd t (exec_tasks w1)\<rparr>
      in case add_task_hosts e False tid (sd_target_host_ids s) w2 of
           Inl err \<Rightarrow> Inl err
         | Inr w3 \<Rightarrow>
             (let w4 = w3\<lparr>schedule_runs := tupd rid (\<lambda>r. r\<lparr>sr_task_id := Some tid\<rparr>) (schedule_runs w3)\<rparr>
              in if sens then sched_submit e rid tid rq reason w4 else sched_start e rid tid w4)) = Inr (out, w')"
    unfolding spawn_record_def by (simp only: res_iff split: option.splits prod.splits) (auto split: option.splits)
  from rest show thesis
    unfolding Let_def by (simp only: res_iff) (blast intro: that [OF add refl refl refl _ refl])
qed

lemma gate_spawn_record:
  assumes "gate_ok {} w" and "spawn_record e sid s rq pre w = Inr (out, w')"
  shows "gate_ok {} w'"
  using assms(2)
proof (rule spawn_recordE)
  fix sens reason rid w1 tid t w2 w3 w4
  assume add: "add_run (new_run e sid) w = Inr (rid, w1)" and tid: "tid = next_id (exec_tasks w1)"
    and t: "t = new_task e (sched_request s rq pre (sched_version w s)) (''SC-'' @ show_int rid) sens"
    and w2: "w2 = w1\<lparr>exec_tasks := tadd t (exec_tasks w1)\<rparr>"
    and h: "add_task_hosts e False tid (sd_target_host_ids s) w2 = Inr w3"
    and w4: "w4 = w3\<lparr>schedule_runs := tupd rid (\<lambda>r. r\<lparr>sr_task_id := Some tid\<rparr>) (schedule_runs w3)\<rparr>"
    and r: "(if sens then sched_submit e rid tid rq reason w4 else sched_start e rid tid w4) = Inr (out, w')"
  have g1: "gate_ok {} w1" using assms(1) add_run_Inr [OF add] by simp
  then have ok1: "table_ok (exec_tasks w1)" by (simp add: gate_ok_def exec_tables_ok_def)
  have g2: "gate_ok {} w2" unfolding w2 by (rule gate_add_task [OF g1]) (simp add: t new_task_def)
  have s3: "side w2 w3" using side_add_task_hosts [OF h] .
  then have g4: "gate_ok {} w4" using gate_side [OF _ g2] by (simp add: w4)
  have "tget (exec_tasks w4) tid = Some t"
    using s3 tget_tadd [OF ok1] by (simp add: side_def w4 w2 tid)
  with r g4 show ?thesis
    by (cases sens) (auto intro: gate_sched_submit gate_sched_start simp: t new_task_def)
qed

lemma gate_kick: "gate_ok {} w \<Longrightarrow> kick_off_exec e i b w = (r, w') \<Longrightarrow> gate_ok {} w'"
  using gate_kick_off [of "{}" w e i b] by simp

lemma gate_spawn_run: "gate_ok {} w \<Longrightarrow> spawn_run e sid s rq pre w = (r, w') \<Longrightarrow> gate_ok {} w'"
  using gate_spawn_record [of w e sid s rq pre]
  by (auto simp: spawn_run_def Let_def split: sum.splits prod.splits if_splits intro: gate_kick)

lemma gate_trigger_one: "gate_ok {} (snd st) \<Longrightarrow> gate_ok {} (snd (trigger_one e it st))"
  using gate_spawn_run
  by (fastforce simp: trigger_one_def Let_def split: prod.splits sum.splits dest!: add_run_Inr)

lemma gate_trigger_due: "gate_ok {} w \<Longrightarrow> gate_ok {} (snd (trigger_due cr e w))"
proof -
  have "gate_ok {} (snd (fold (trigger_one e) its st))" if "gate_ok {} (snd st)" for its st
    using that by (induction its arbitrary: st) (simp_all add: gate_trigger_one)
  from this [of "(0, w)"] show "gate_ok {} w \<Longrightarrow> ?thesis" by (simp add: trigger_due_def)
qed

lemma gate_run_now: "gate_ok {} w \<Longrightarrow> run_now e u sid w = (r, w') \<Longrightarrow> gate_ok {} w'"
  by (auto simp: run_now_def split: option.splits intro: gate_spawn_run)

lemma gate_sched_retry:
  assumes "gate_ok {} w" and "sched_retry_run e u sid rid w = (r, w')"
  shows "gate_ok {} w'"
proof -
  have sens: "gate_ok {} (reopen_run rid w1)" if "retry_sensitive e u tid t rs w = Inr (out, w1)" for tid t rs out w1
    using gate_retry_sensitive [OF assms(1) that] by simp
  have plain: "gate_ok {} w2" if "tget (exec_tasks w) tid = Some t" "recheck_sensitive w t = Some (False, rs)"
    "retry_plain e tid t w = Inr w1" "kick_off_exec e tid False (reopen_run rid w1) = (b, w2)" for tid t rs w1 b w2
    using gate_kick [OF _ that(4)] gate_retry_plain [OF assms(1) that(1-3)] by simp
  show ?thesis
    using assms gate_spawn_run [OF assms(1)]
    by (simp add: sched_retry_run_def Let_def split: if_splits sum.splits prod.splits option.splits bool.splits)
      (use sens plain in blast)+
qed

section \<open>What the sweep does to the runs\<close>

definition has_run :: "env \<Rightarrow> int \<Rightarrow> 'z sched_db_scheme \<Rightarrow> bool" where
  "has_run e sid w = texists (\<lambda>r. sr_run_no r = run_no e sid) (schedule_runs w)"

text \<open>A run's number carries the schedule and the second it started in.\<close>

definition runs_stamped :: "'z sched_db_scheme \<Rightarrow> bool" where
  "runs_stamped w = (\<forall>(i, r) \<in> set (rows (schedule_runs w)). sr_run_no r = (sr_schedule_id r, sr_started_at r div 1000000))"

text \<open>What a start of schedule \<open>sid\<close> does to the run table: runs are added for that schedule only, with
  the number of this second, and the rows that were there keep their stamps.\<close>

definition run_ids :: "'z sched_db_scheme \<Rightarrow> (int \<times> (int \<times> int) \<times> time) list" where
  "run_ids w = map (\<lambda>(i, r). (sr_schedule_id r, sr_run_no r, sr_started_at r)) (rows (schedule_runs w))"

definition ran :: "env \<Rightarrow> int \<Rightarrow> 'z sched_db_scheme \<Rightarrow> 'z sched_db_scheme \<Rightarrow> bool" where
  "ran e sid w w' = (schedules w' = schedules w \<and>
     (run_ids w' = run_ids w \<or> run_ids w' = run_ids w @ [(sid, run_no e sid, now e)]))"

lemma texists_run_ids: "texists (\<lambda>r. sr_run_no r = n) (schedule_runs w) \<longleftrightarrow> n \<in> (fst \<circ> snd) ` set (run_ids w)"
  by (force simp: texists_def run_ids_def)

lemma has_run_iff: "has_run e sid w \<longleftrightarrow> run_no e sid \<in> (fst \<circ> snd) ` set (run_ids w)"
  by (simp add: has_run_def texists_run_ids)

lemma runs_stamped_iff: "runs_stamped w \<longleftrightarrow> (\<forall>(s, n, t) \<in> set (run_ids w). n = (s, t div 1000000))"
  by (force simp: runs_stamped_def run_ids_def)

lemma run_ids_more: "exec_db.more w' = exec_db.more w \<Longrightarrow> run_ids w' = run_ids (w :: 'z sched_db_scheme)"
  by (cases w; cases w') (simp add: run_ids_def)

lemma schedules_more: "exec_db.more w' = exec_db.more w \<Longrightarrow> schedules w' = schedules (w :: 'z sched_db_scheme)"
  by (cases w; cases w') simp

lemma run_ids_upd: "(\<And>r. sr_schedule_id (f r) = sr_schedule_id r \<and> sr_run_no (f r) = sr_run_no r \<and> sr_started_at (f r) = sr_started_at r)
    \<Longrightarrow> run_ids (w\<lparr>schedule_runs := tupd i f (schedule_runs w)\<rparr>) = run_ids w"
  by (auto simp: run_ids_def tupd_def)

lemma run_ids_add: "add_run r w = Inr (rid, w') \<Longrightarrow> run_ids w' = run_ids w @ [(sr_schedule_id r, sr_run_no r, sr_started_at r)]"
  by (auto simp: add_run_def run_ids_def tadd_def split: if_splits)

lemma more_sched_submit: "sched_submit e rid tid rq rs w = Inr (out, w') \<Longrightarrow> exec_db.more w' = exec_db.more w"
  by (auto simp: sched_submit_def Let_def split: sum.splits prod.splits bool.splits
      dest!: more_task_cas more_add_approval side_approval_no more_side)

lemma more_sched_start: "sched_start e rid tid w = Inr (out, w') \<Longrightarrow> exec_db.more w' = exec_db.more w"
  by (auto simp: sched_start_def split: prod.splits bool.splits dest: more_task_cas)

lemma spawn_record_runs:
  assumes "spawn_record e sid s rq pre w = Inr (out, w')"
  shows "run_ids w' = run_ids w @ [(sid, run_no e sid, now e)] \<and> schedules w' = schedules w"
  using assms
proof (rule spawn_recordE)
  fix sens reason rid w1 tid t w2 w3 w4
  assume add: "add_run (new_run e sid) w = Inr (rid, w1)" and "tid = next_id (exec_tasks w1)"
    and "t = new_task e (sched_request s rq pre (sched_version w s)) (''SC-'' @ show_int rid) sens"
    and w2: "w2 = w1\<lparr>exec_tasks := tadd t (exec_tasks w1)\<rparr>"
    and h: "add_task_hosts e False tid (sd_target_host_ids s) w2 = Inr w3"
    and w4: "w4 = w3\<lparr>schedule_runs := tupd rid (\<lambda>r. r\<lparr>sr_task_id := Some tid\<rparr>) (schedule_runs w3)\<rparr>"
    and r: "(if sens then sched_submit e rid tid rq reason w4 else sched_start e rid tid w4) = Inr (out, w')"
  have end_more: "exec_db.more w' = exec_db.more w4"
    using r by (auto split: if_splits dest: more_sched_submit more_sched_start)
  have hosts_more: "exec_db.more w3 = exec_db.more w1"
    using more_side [OF side_add_task_hosts [OF h]] by (simp add: w2)
  have "run_ids w' = run_ids w4" using end_more by (rule run_ids_more)
  also have "\<dots> = run_ids w3" unfolding w4 by (rule run_ids_upd) simp
  also have "\<dots> = run_ids w1" using hosts_more by (rule run_ids_more)
  also have "\<dots> = run_ids w @ [(sid, run_no e sid, now e)]"
    using run_ids_add [OF add] by (simp add: new_run_def)
  finally show ?thesis
    using schedules_more [OF end_more] schedules_more [OF hosts_more] add_run_Inr [OF add] by (simp add: w4)
qed

lemma ran_refl [simp]: "ran e sid w w"
  by (simp add: ran_def)

lemma ran_spawn_run: "spawn_run e sid s rq pre w = (r, w') \<Longrightarrow> ran e sid w w' \<and> (\<forall>out. r = Inr out \<longrightarrow> has_run e sid w')"
  using spawn_record_runs [of e sid s rq pre w]
  by (auto simp: spawn_run_def Let_def ran_def has_run_iff split: sum.splits prod.splits if_splits dest!: more_kick_off intro: schedules_more dest: run_ids_more schedules_more)

lemma has_run_ran: "ran e sid' w w' \<Longrightarrow> has_run e sid w \<Longrightarrow> has_run e sid w'"
  by (auto simp: ran_def has_run_iff)

lemma add_failed_run:
  "case add_run (failed_run e sid err) w of Inl err \<Rightarrow> has_run e sid w | Inr (i, w') \<Rightarrow> has_run e sid w' \<and>
     run_ids w' = run_ids w @ [(sid, run_no e sid, now e)] \<and> schedules w' = schedules w \<and> \<not> has_run e sid w"
  by (auto simp: add_run_def has_run_def failed_run_def new_run_def texists_def tadd_def run_ids_def)

lemma trigger_one_ran:
  "ran e (fst it) (snd st) (snd (trigger_one e it st)) \<and> has_run e (fst it) (snd (trigger_one e it st))"
proof -
  obtain sid s where it: "it = (sid, s)" by fastforce
  obtain n w where st: "st = (n, w)" by fastforce
  obtain r w1 where sp: "spawn_run e sid s (case sd_created_by s of None \<Rightarrow> 0 | Some u \<Rightarrow> u) ''[schedule]'' w = (r, w1)" by fastforce
  note one = ran_spawn_run [OF sp]
  show ?thesis
  proof (cases r)
    case (Inr out)
    with one sp show ?thesis by (simp add: trigger_one_def it st)
  next
    case (Inl err)
    then have eq: "snd (trigger_one e it st) = (case add_run (failed_run e sid err) w1 of Inl _ \<Rightarrow> w1 | Inr (_, w2) \<Rightarrow> w2)"
      using sp by (simp add: trigger_one_def it st)
    show ?thesis
      unfolding eq using add_failed_run [of e sid w1 err] one
      by (auto simp: it st ran_def has_run_iff split: sum.splits)
  qed
qed

inductive rans :: "env \<Rightarrow> int set \<Rightarrow> 'z sched_db_scheme \<Rightarrow> 'z sched_db_scheme \<Rightarrow> bool" for e S where
  rans_refl: "rans e S w w"
| rans_step: "rans e S w w' \<Longrightarrow> sid \<in> S \<Longrightarrow> ran e sid w' w'' \<Longrightarrow> rans e S w w''"

lemma rans_trans: "rans e S b c \<Longrightarrow> rans e S a b \<Longrightarrow> rans e S a c"
  by (induction rule: rans.induct) (auto intro: rans.intros)

lemma rans_fold: "fst ` set its \<subseteq> S \<Longrightarrow> rans e S (snd st) (snd (fold (trigger_one e) its st))"
proof (induction its arbitrary: st)
  case (Cons it its)
  have "rans e S (snd st) (snd (trigger_one e it st))"
    using Cons.prems trigger_one_ran [of e it st] by (auto intro: rans_step [OF rans_refl])
  then show ?case
    using rans_trans [OF Cons.IH [of "trigger_one e it st"]] Cons.prems by simp
qed (simp add: rans_refl)

lemma rans_keep: "rans e S w w' \<Longrightarrow> has_run e sid w \<Longrightarrow> has_run e sid w'"
  by (induction rule: rans.induct) (auto dest: has_run_ran)

lemma rans_schedules: "rans e S w w' \<Longrightarrow> schedules w' = schedules w"
  by (induction rule: rans.induct) (auto simp: ran_def)

lemma rans_stamped: "rans e S w w' \<Longrightarrow> runs_stamped w \<Longrightarrow> runs_stamped w'"
  by (induction rule: rans.induct) (auto simp: runs_stamped_iff ran_def run_no_def)

lemma rans_other: "rans e S w w' \<Longrightarrow> sid \<notin> S \<Longrightarrow> filter (\<lambda>(s, _). s = sid) (run_ids w') = filter (\<lambda>(s, _). s = sid) (run_ids w)"
  by (induction rule: rans.induct) (auto simp: ran_def)

lemma fold_has_run: "it \<in> set its \<Longrightarrow> has_run e (fst it) (snd (fold (trigger_one e) its st))"
proof (induction its arbitrary: st)
  case (Cons x its)
  have "has_run e (fst x) (snd (fold (trigger_one e) its (trigger_one e x st)))"
    using rans_keep [OF rans_fold [of its UNIV]] trigger_one_ran by blast
  with Cons.prems Cons.IH [of "trigger_one e x st"] show ?case by (cases "it = x") simp_all
qed simp

lemma sweep_rans: "rans e (fst ` set (due_tasks cr e w)) w (snd (trigger_due cr e w))"
  using rans_fold [of "due_tasks cr e w" _ e "(0, w)"] by (simp add: trigger_due_def)

lemma sweep_has_run: "(sid, s) \<in> set (due_tasks cr e w) \<Longrightarrow> has_run e sid (snd (trigger_due cr e w))"
  using fold_has_run [of "(sid, s)" "due_tasks cr e w" e "(0, w)"] by (simp add: trigger_due_def)

text \<open>The newest run of a schedule.\<close>

lemma last_started_ids:
  "last_started w sid = fold (\<lambda>(s, n, t) acc. Some (case acc of None \<Rightarrow> t | Some m \<Rightarrow> max m t))
     (filter (\<lambda>(s, _). s = sid) (run_ids w)) None"
proof -
  have "fold (\<lambda>(i, r) acc. Some (case acc of None \<Rightarrow> sr_started_at r | Some t \<Rightarrow> max t (sr_started_at r)))
      (filter (\<lambda>(i, r). sr_schedule_id r = sid) xs) a =
    fold (\<lambda>(s, n, t) acc. Some (case acc of None \<Rightarrow> t | Some m \<Rightarrow> max m t))
     (filter (\<lambda>(s, _). s = sid) (map (\<lambda>(i, r). (sr_schedule_id r, sr_run_no r, sr_started_at r)) xs)) a" for xs :: "(int \<times> schedule_run) list" and a
    by (induction xs arbitrary: a) (auto split: prod.splits)
  then show ?thesis by (simp add: last_started_def tselect_def run_ids_def)
qed

lemma last_started_None: "last_started w sid = None \<longleftrightarrow> filter (\<lambda>(s, _). s = sid) (run_ids w) = []"
proof -
  have "fold (\<lambda>(s, n, t) acc. Some (case acc of None \<Rightarrow> t | Some m \<Rightarrow> max m t)) xs (Some a) \<noteq> None" for xs :: "(int \<times> (int \<times> int) \<times> time) list" and a
    by (induction xs arbitrary: a) auto
  then show ?thesis unfolding last_started_ids by (cases "filter (\<lambda>(s, _). s = sid) (run_ids w)") auto
qed

lemma last_started_ge:
  assumes "(sid, n, t) \<in> set (run_ids w)"
  shows "\<exists>l. last_started w sid = Some l \<and> t \<le> l"
proof -
  let ?f = "fold (\<lambda>(s, n, t) acc. Some (case acc of None \<Rightarrow> t | Some m \<Rightarrow> max m t))"
  have grow: "\<exists>l. ?f xs (Some a) = Some l \<and> a \<le> l" for xs :: "(int \<times> (int \<times> int) \<times> time) list" and a
  proof (induction xs arbitrary: a)
    case (Cons x xs)
    obtain s n t where x: "x = (s, n, t)" by (cases x)
    from Cons [of "max a t"] show ?case by (auto simp: x)
  qed simp
  have "\<exists>l. ?f xs a = Some l \<and> t \<le> l" if "(s, n, t) \<in> set xs" for xs :: "(int \<times> (int \<times> int) \<times> time) list" and s a
    using that
  proof (induction xs arbitrary: a)
    case (Cons x xs)
    show ?case
    proof (cases "x = (s, n, t)")
      case True
      then show ?thesis using grow [of xs "case a of None \<Rightarrow> t | Some m \<Rightarrow> max m t"]
        by (auto split: option.splits)
    next
      case False
      with Cons show ?thesis by auto
    qed
  qed simp
  from this [of sid "filter (\<lambda>(s, _). s = sid) (run_ids w)" None] assms
  show ?thesis unfolding last_started_ids by simp
qed

end
