(* ===== verification/Schedule_Properties.thy ===== *)
theory Schedule_Properties
  imports Samples Schedule_Service
begin

text \<open>
  What the scheduler promises: a scheduled run, by the sweep or by hand, passes the same approval
  gate as a request; one broken schedule does not stop the sweep, and an interval schedule is not
  started twice within its interval; and what it does not do: start a new cron schedule.
\<close>

section \<open>Scheduled runs pass the approval gate\<close>

inductive sched_step :: "croniter \<Rightarrow> 'z sched_db_scheme \<Rightarrow> 'z sched_db_scheme \<Rightarrow> bool" for cr where
  sched_exec: "exec_step w w' \<Longrightarrow> sched_step cr w w'"
| sched_sweep: "trigger_due cr e w = (n, w') \<Longrightarrow> sched_step cr w w'"
| sched_now: "run_now e u sid w = (r, w') \<Longrightarrow> sched_step cr w w'"
| sched_retry: "sched_retry_run e u sid rid w = (r, w') \<Longrightarrow> sched_step cr w w'"
| sched_create: "create_schedule cr u data w = Inr (sid, w') \<Longrightarrow> sched_step cr w w'"
| sched_update: "update_schedule cr sid d w = Inr (x, w') \<Longrightarrow> sched_step cr w w'"
| sched_delete: "delete_schedule sid w = Inr (x, w') \<Longrightarrow> sched_step cr w w'"
| sched_status: "set_schedule_status sid on w = Inr (x, w') \<Longrightarrow> sched_step cr w w'"

inductive sched_reach :: "croniter \<Rightarrow> 'z sched_db_scheme \<Rightarrow> 'z sched_db_scheme \<Rightarrow> bool" for cr where
  sched_here: "sched_reach cr w w"
| sched_next: "sched_reach cr w w' \<Longrightarrow> sched_step cr w' w'' \<Longrightarrow> sched_reach cr w w''"

lemma gate_sched_step: "sched_step cr w w' \<Longrightarrow> gate_ok {} w \<Longrightarrow> gate_ok {} w'"
proof (induction rule: sched_step.induct)
  case (sched_sweep e w n w')
  then show ?case using gate_trigger_due [of w cr e] by simp
next
  case (sched_update sid d w x w')
  then show ?case by (auto simp: update_schedule_def Let_def split: option.splits if_splits)
next
  case (sched_create u data w sid w')
  then show ?case by (auto simp: create_schedule_def split: sum.splits if_splits)
qed (auto simp: delete_schedule_def set_schedule_status_def split: option.splits
      intro: gate_step gate_run_now gate_sched_retry)

lemma gate_sched_reach: "sched_reach cr w w' \<Longrightarrow> gate_ok {} w \<Longrightarrow> gate_ok {} w'"
  by (induction rule: sched_reach.induct) (auto intro: gate_sched_step)

definition sample_cron :: croniter where
  "sample_cron = \<lparr>cron_ok = (\<lambda>c. c \<noteq> []), cron_next = (\<lambda>c t. Some (t + 60000000))\<rparr>"

definition nightly :: "string \<Rightarrow> string \<Rightarrow> schedule" where
  "nightly trigger cmd = \<lparr>sd_name = ''clean'', sd_kind = ''command'', sd_script_id = None, sd_command = Some cmd, sd_params = [],
     sd_trigger_type = trigger, sd_cron_expr = Some ''* * * * *'', sd_interval_sec = Some 60, sd_target_host_ids = [1],
     sd_timeout_sec = 300, sd_retry = 0, sd_enabled = 1, sd_created_by = Some 7\<rparr>"

definition sched_sample :: "string \<Rightarrow> string \<Rightarrow> sched_db" where
  "sched_sample trigger cmd = \<lparr>config_rules = sample_rules, hosts = Table [(1, sample_host), (2, sample_host)] 2,
     scripts = empty_table, script_versions = empty_table, exec_tasks = empty_table, exec_task_hosts = empty_table,
     exec_logs = empty_table, approvals = empty_table, approval_records = empty_table, terminals = empty_table,
     auto_levels = empty_table, policies = empty_table, whitelist = empty_table, breakers = empty_table,
     ai_actions = empty_table, seq_exec_no = 0, seq_approval_no = 0, sems = (\<lambda>_. 0), outbox = [],
     schedules = Table [(1, nightly trigger cmd)] 1, schedule_runs = empty_table\<rparr>"

text \<open>C35: scheduling does not go round the approval gate: whatever sequence of sweeps, manual runs,
  retries, changes of schedules and calls of the execution and approval services led from a fresh
  installation to a state, a task marked as needing approval that has started is covered by an approved
  request of its own, or its content no longer hits a rule.\<close>

theorem scheduled_runs_gated:
  assumes "fresh_install w" and "sched_reach cr w w'" and "tget (exec_tasks w') tid = Some t"
    and "started (xt_status t)" and "xt_approve_required t \<noteq> 0"
  shows "granted w' t \<or> harmless w' t"
proof -
  have "gate_ok {} w'" using gate_sched_reach [OF assms(2)] fresh_gate [OF assms(1)] by blast
  then show ?thesis using assms(3-5) by (auto dest: gate_okD simp: task_good_def)
qed

definition swept :: sched_db where
  "swept = snd (trigger_due sample_cron sample_env (sched_sample ''interval'' ''rm -rf''))"

definition swept_approved :: sched_db where
  "swept_approved = after (approve sample_env sample_user 1 [] swept) swept"

lemma sched_sample_facts:
  "(let w = sched_sample ''interval'' ''rm -rf''
    in map (xt_status \<circ> snd) (rows (exec_tasks swept)) = [XAwaitingApproval] \<and>
       \<not> isl (approve sample_env sample_user 1 [] swept) \<and>
       map_option xt_status (tget (exec_tasks swept_approved) 1) = Some XRunning \<and>
       map_option xt_approve_required (tget (exec_tasks swept_approved) 1) = Some 1)"
  by code_simp

theorem scheduled_runs_gated_witness:
  "\<exists>t. tget (exec_tasks swept_approved) 1 = Some t \<and> xt_status t = XRunning \<and> (granted swept_approved t \<or> harmless swept_approved t)"
proof -
  note facts = sched_sample_facts [unfolded Let_def]
  let ?w = "sched_sample ''interval'' ''rm -rf''"
  obtain t where t: "tget (exec_tasks swept_approved) 1 = Some t" "xt_status t = XRunning" "xt_approve_required t = 1"
    using facts by auto
  have 1: "sched_step sample_cron ?w swept"
    unfolding swept_def by (rule sched_sweep [OF surjective_pairing])
  obtain s where "approve sample_env sample_user 1 [] swept = Inr (s, swept_approved)"
    using facts by (cases "approve sample_env sample_user 1 [] swept") (auto simp: swept_approved_def after_def)
  then have 2: "sched_step sample_cron swept swept_approved" by (intro sched_exec step_approve)
  have "fresh_install ?w" by (simp add: fresh_install_def sched_sample_def)
  from scheduled_runs_gated [OF this sched_next [OF sched_next [OF sched_here 1] 2] t(1)] t
  show ?thesis by (auto simp: started_def)
qed

section \<open>The sweep\<close>

text \<open>One broken schedule never aborts the sweep: after a sweep every schedule that was due has a run
  recorded under this second, started or failed; and an interval schedule is then not due again before
  its interval has passed since that second.\<close>

lemma sweep_starts_due_once:
  assumes "(sid, s) \<in> set (due_tasks cr e w)" and "runs_stamped w" and "snd (trigger_due cr e w) = w'"
  shows "has_run e sid w' \<and>
    (sd_trigger_type s = ''interval'' \<longrightarrow> sd_interval_sec s = Some n \<longrightarrow>
       now e' - (now e - now e mod 1000000) < seconds n \<longrightarrow> \<not> is_due cr e' w' sid s)"
proof -
  have run: "has_run e sid w'" using sweep_has_run [OF assms(1)] assms(3) by simp
  have "runs_stamped w'" using rans_stamped [OF sweep_rans assms(2)] assms(3) by metis
  with run obtain t where t: "(sid, run_no e sid, t) \<in> set (run_ids w')" "t div 1000000 = now e div 1000000"
    by (force simp: has_run_iff runs_stamped_iff run_no_def)
  from last_started_ge [OF t(1)] obtain l where l: "last_started w' sid = Some l" "t \<le> l" by blast
  have "now e - now e mod 1000000 \<le> t"
    using t(2) by (metis div_mult_mod_eq add_diff_cancel_right' le_add_same_cancel1 pos_mod_sign zero_less_numeral)
  with l have "now e - now e mod 1000000 \<le> l" by linarith
  then show ?thesis using run l(1) by (auto simp: is_due_def)
qed

lemma sweep_facts:
  "(let w = sched_sample ''interval'' ''ls'' in
     map fst (due_tasks sample_cron sample_env w) = [1] \<and>
     list_all (\<lambda>(i, s). sd_trigger_type s = ''interval'' \<and> sd_interval_sec s = Some 60) (due_tasks sample_cron sample_env w))"
  by code_simp

lemma sweep_starts_due_once_witness:
  "(let w' = snd (trigger_due sample_cron sample_env (sched_sample ''interval'' ''ls''))
    in has_run sample_env 1 w' \<and> \<not> is_due sample_cron (sample_env\<lparr>now := 60000000\<rparr>) w' 1 (nightly ''interval'' ''ls''))"
proof -
  have due: "(1, nightly ''interval'' ''ls'') \<in> set (due_tasks sample_cron sample_env (sched_sample ''interval'' ''ls''))"
    by (simp add: due_tasks_def is_due_def last_started_def tselect_def sched_sample_def nightly_def empty_table_def)
  have st: "runs_stamped (sched_sample ''interval'' ''ls'')"
    by (simp add: runs_stamped_def sched_sample_def empty_table_def)
  show ?thesis
    using sweep_starts_due_once [OF due st refl, of 60 "sample_env\<lparr>now := 60000000\<rparr>"]
    by (simp add: nightly_def sample_env_def seconds_def)
qed

section \<open>A new cron schedule\<close>

text \<open>The base of the cron computation of a schedule without runs is the current moment, and the next
  occurrence lies after its base: whatever sweeps happen, a cron schedule that never ran is not started
  (the documented behaviour of the library, \<open>get_next\<close> is later than its base, is the first hypothesis).\<close>

lemma new_cron_never_starts:
  assumes "\<And>c t n. cron_next cr c t = Some n \<Longrightarrow> t < n"
    and "table_ok (schedules w)" and "tget (schedules w) sid = Some s" and "sd_trigger_type s = ''cron''"
    and "last_started w sid = None"
  shows "last_started (fold (\<lambda>e w. snd (trigger_due cr e w)) es w) sid = None"
  using assms(2-5)
proof (induction es arbitrary: w)
  case (Cons e es)
  let ?w = "snd (trigger_due cr e w)"
  have "\<not> is_due cr e w sid s"
    using Cons.prems assms(1) by (fastforce simp: is_due_def split: option.splits)
  then have "sid \<notin> fst ` set (due_tasks cr e w)"
    using Cons.prems by (auto simp: due_tasks_def in_tselect)
  then have "last_started ?w sid = None"
    using rans_other [OF sweep_rans, of sid cr e w] Cons.prems(4) unfolding last_started_None by argo
  moreover have "schedules ?w = schedules w" using rans_schedules [OF sweep_rans] .
  ultimately show ?case using Cons by simp
qed simp

lemma new_cron_never_starts_witness:
  "last_started (fold (\<lambda>e w. snd (trigger_due sample_cron e w)) [sample_env, sample_env\<lparr>now := 90000000\<rparr>]
     (sched_sample ''cron'' ''ls'')) 1 = None"
proof (rule new_cron_never_starts [where s = "nightly ''cron'' ''ls''"])
  show "\<And>c t n. cron_next sample_cron c t = Some n \<Longrightarrow> t < n" by (auto simp: sample_cron_def)
qed (simp_all add: sched_sample_def nightly_def table_ok_def tget_def last_started_def tselect_def empty_table_def)

end
