(* ===== verification/Identity_Service.thy ===== *)
theory Identity_Service
  imports Security
begin

text \<open>
  Who is calling: login and its lock, the token pair and its rotation (\<open>auth_service.py\<close>), the Redis
  keys behind them (\<open>core/redis_helper.py\<close>), the principal of a request (\<open>api/deps.py\<close>), and the
  administration of users and roles (\<open>system_service.py\<close>) from which its permissions come.

  The password hash is the record \<open>pwd_context\<close> (\<open>passlib\<close>). A handler draws one token identifier for
  the access token (\<open>new_jti\<close>) and gets a second one as an argument where it also makes a refresh token.
  Redis is a map from keys to a value and the moment it expires.
\<close>

section \<open>Rows\<close>

record pwd_context =
  pw_hash :: "string \<Rightarrow> string"
  pw_verify :: "string \<Rightarrow> string \<Rightarrow> bool"

record sys_user =
  us_username :: string
  us_password_hash :: string
  us_real_name :: string
  us_phone :: string
  us_email :: string
  us_status :: int
  us_last_login_at :: "time option"
  us_is_admin :: int
  us_auth_source :: string
  us_deleted :: int

record role =
  ro_code :: string
  ro_name :: string
  ro_remark :: string

record user_role =
  ur_user_id :: int
  ur_role_id :: int

record permission =
  pm_code :: string
  pm_parent_id :: int
  pm_sort :: int

record role_permission =
  rm_role_id :: int
  rm_permission_id :: int

record role_host_group =
  rg_role_id :: int
  rg_group_id :: int

datatype redis_key =
    LoginFail string
  | LoginLock string
  | Blacklist string
  | RefreshOf int
  | RateWindow string int
  | OAuthState string

datatype redis_val = RInt int | RStr string | RObj dict \<comment> \<open>the JSON text of a dict\<close>

record id_db = sys_db +
  users :: "sys_user table"
  roles :: "role table"
  user_roles :: "user_role table"
  sys_permissions :: "permission table"
  role_permissions :: "role_permission table"
  role_groups :: "role_host_group table"
  group_ids :: "int list"
  redis :: "redis_key \<Rightarrow> (redis_val \<times> time option) option"

section \<open>Redis\<close>

text \<open>A key without a time to live, or whose time has not come, is there.\<close>

definition rget :: "env \<Rightarrow> redis_key \<Rightarrow> 'z id_db_scheme \<Rightarrow> redis_val option" where
  "rget e k w = (case redis w k of
     None \<Rightarrow> None
   | Some (v, None) \<Rightarrow> Some v
   | Some (v, Some t) \<Rightarrow> if now e < t then Some v else None)"

definition rset :: "redis_key \<Rightarrow> redis_val \<Rightarrow> time option \<Rightarrow> 'z id_db_scheme \<Rightarrow> 'z id_db_scheme" where
  "rset k v t w = w\<lparr>redis := (redis w)(k := Some (v, t))\<rparr>"

definition rdel :: "redis_key \<Rightarrow> 'z id_db_scheme \<Rightarrow> 'z id_db_scheme" where
  "rdel k w = w\<lparr>redis := (redis w)(k := None)\<rparr>"

text \<open>\<open>INCR\<close> keeps the time to live of a key that is there.\<close>

definition rincr :: "env \<Rightarrow> redis_key \<Rightarrow> 'z id_db_scheme \<Rightarrow> int \<times> 'z id_db_scheme" where
  "rincr e k w =
     (case rget e k w of
        Some (RInt n) \<Rightarrow> (n + 1, rset k (RInt (n + 1)) (snd (the (redis w k))) w)
      | _ \<Rightarrow> (1, rset k (RInt 1) None w))"

definition rexpire :: "env \<Rightarrow> redis_key \<Rightarrow> int \<Rightarrow> 'z id_db_scheme \<Rightarrow> 'z id_db_scheme" where
  "rexpire e k ttl w = (case rget e k w of None \<Rightarrow> w | Some v \<Rightarrow> rset k v (Some (now e + seconds ttl)) w)"

definition login_max_failures :: int where "login_max_failures = 5"
definition login_lock_minutes :: int where "login_lock_minutes = 10"
definition access_token_expire_minutes :: int where "access_token_expire_minutes = 120"
definition refresh_token_expire_days :: int where "refresh_token_expire_days = 7"

definition login_rate_limit :: "env \<Rightarrow> string \<Rightarrow> 'z id_db_scheme \<Rightarrow> bool" where
  "login_rate_limit e name w = (if \<not> redis_up e then True else rget e (LoginLock name) w = None)"

definition record_login_failure :: "env \<Rightarrow> string \<Rightarrow> 'z id_db_scheme \<Rightarrow> int \<times> 'z id_db_scheme" where
  "record_login_failure e name w =
     (if \<not> redis_up e then (0, w)
      else (let (count, w1) = rincr e (LoginFail name) w;
                w2 = rexpire e (LoginFail name) 60 w1
            in (count, if count \<ge> login_max_failures
                       then rset (LoginLock name) (RStr ''1'') (Some (now e + seconds (login_lock_minutes * 60))) w2 else w2)))"

definition clear_login_failures :: "env \<Rightarrow> string \<Rightarrow> 'z id_db_scheme \<Rightarrow> 'z id_db_scheme" where
  "clear_login_failures e name w = (if \<not> redis_up e then w else rdel (LoginFail name) w)"

definition blacklist_access :: "env \<Rightarrow> string \<Rightarrow> 'z id_db_scheme \<Rightarrow> 'z id_db_scheme" where
  "blacklist_access e jti w = (if \<not> redis_up e then w
     else rset (Blacklist jti) (RStr ''1'') (Some (now e + seconds (access_token_expire_minutes * 60))) w)"

definition store_refresh :: "env \<Rightarrow> int \<Rightarrow> string \<Rightarrow> 'z id_db_scheme \<Rightarrow> 'z id_db_scheme" where
  "store_refresh e user_id jti w = (if \<not> redis_up e then w
     else rset (RefreshOf user_id) (RStr jti) (Some (now e + seconds (refresh_token_expire_days * 86400))) w)"

definition validate_refresh :: "env \<Rightarrow> int \<Rightarrow> string \<Rightarrow> 'z id_db_scheme \<Rightarrow> bool" where
  "validate_refresh e user_id jti w = (if \<not> redis_up e then True
     else case rget e (RefreshOf user_id) w of
            Some (RStr cur) \<Rightarrow> cur \<noteq> [] \<and> cur = jti
          | _ \<Rightarrow> False)"

definition revoke_refresh :: "env \<Rightarrow> int \<Rightarrow> 'z id_db_scheme \<Rightarrow> 'z id_db_scheme" where
  "revoke_refresh e user_id w = (if \<not> redis_up e then w else rdel (RefreshOf user_id) w)"

text \<open>Fixed windows; \<open>//\<close> rounds down. No endpoint calls it.\<close>

definition rate_limit :: "env \<Rightarrow> string \<Rightarrow> int \<Rightarrow> int \<Rightarrow> 'z id_db_scheme \<Rightarrow> bool \<times> 'z id_db_scheme" where
  "rate_limit e key limit per_seconds w =
     (if \<not> redis_up e then (True, w)
      else (let rk = RateWindow key (now e div 1000000 div per_seconds);
                (count, w1) = rincr e rk w;
                w2 = (if count = 1 then rexpire e rk (per_seconds + 1) w1 else w1)
            in (count \<le> limit, w2)))"

section \<open>Roles and permissions of a user\<close>

definition role_ids :: "'z id_db_scheme \<Rightarrow> int \<Rightarrow> int list" where
  "role_ids w user_id = map (\<lambda>(i, r). ur_role_id r) (tselect (\<lambda>r. ur_user_id r = user_id) (user_roles w))"

text \<open>The join of the four tables, without duplicates.\<close>

definition codes_by_user :: "'z id_db_scheme \<Rightarrow> int \<Rightarrow> string list" where
  "codes_by_user w user_id = remdups (concat (map (\<lambda>(pid, p).
     concat (map (\<lambda>(i, rp).
        if rm_permission_id rp = pid \<and> tget (roles w) (rm_role_id rp) \<noteq> None \<and> rm_role_id rp \<in> set (role_ids w user_id)
        then [pm_code p] else []) (rows (role_permissions w)))) (rows (sys_permissions w))))"

definition visible_groups :: "'z id_db_scheme \<Rightarrow> int list \<Rightarrow> int list" where
  "visible_groups w rids = (if rids = [] then []
     else map (\<lambda>(i, r). rg_group_id r) (tselect (\<lambda>r. rg_role_id r \<in> set rids) (role_groups w)))"

definition roles_brief :: "'z id_db_scheme \<Rightarrow> int list \<Rightarrow> (int \<times> string \<times> string) list" where
  "roles_brief w rids = concat (map (\<lambda>rid. case tget (roles w) rid of None \<Rightarrow> [] | Some r \<Rightarrow> [(rid, ro_code r, ro_name r)]) rids)"

section \<open>Tokens\<close>

record user_brief =
  ub_id :: int
  ub_username :: string
  ub_real_name :: string
  ub_roles :: "(int \<times> string \<times> string) list"

record token_pair =
  tp_access :: string
  tp_refresh :: string
  tp_user :: user_brief

definition build_user_brief :: "'z id_db_scheme \<Rightarrow> int \<Rightarrow> sys_user \<Rightarrow> user_brief" where
  "build_user_brief w i u = \<lparr>ub_id = i, ub_username = us_username u, ub_real_name = us_real_name u,
     ub_roles = roles_brief w (role_ids w i)\<rparr>"

definition create_access_token :: "env \<Rightarrow> int \<Rightarrow> string" where
  "create_access_token e subject = create_token e subject ''access'' (access_token_expire_minutes * 60) []"

definition create_refresh_token :: "env \<Rightarrow> int \<Rightarrow> string" where
  "create_refresh_token e subject = create_token e subject ''refresh'' (refresh_token_expire_days * 86400) []"

text \<open>The tail that login and refresh share: the pair is made, the identifier of the refresh token read
  back from it and stored. \<open>payload["jti"]\<close> on a payload without it is a \<open>KeyError\<close>.\<close>

definition issue_pair :: "env \<Rightarrow> string \<Rightarrow> string option \<Rightarrow> int \<Rightarrow> sys_user \<Rightarrow> 'z id_db_scheme \<Rightarrow> (token_pair \<times> 'z id_db_scheme) res" where
  "issue_pair e jti2 expected i u w =
     (let access = create_access_token e i;
          refresh = create_refresh_token (e\<lparr>new_jti := jti2\<rparr>) i
      in case decode_token e refresh expected of
           None \<Rightarrow> Inl TypeError
         | Some payload \<Rightarrow>
             (case dget payload ''jti'' of
                JStr jti \<Rightarrow> Inr (\<lparr>tp_access = access, tp_refresh = refresh, tp_user = build_user_brief w i u\<rparr>, store_refresh e i jti w)
              | _ \<Rightarrow> Inl TypeError))"

definition issue_tokens :: "env \<Rightarrow> string \<Rightarrow> int \<Rightarrow> sys_user \<Rightarrow> 'z id_db_scheme \<Rightarrow> (token_pair \<times> 'z id_db_scheme) res" where
  "issue_tokens e jti2 i u w = issue_pair e jti2 None i u w"

definition by_username :: "'z id_db_scheme \<Rightarrow> string \<Rightarrow> (int \<times> sys_user) option" where
  "by_username w name = tfirst (\<lambda>u. us_username u = name) (users w)"

definition bad_login :: app_error where
  "bad_login = UnauthorizedError ''invalid username or password''"

text \<open>The Redis writes of a refused login stay; the database session is rolled back.\<close>

definition login ::
  "pwd_context \<Rightarrow> env \<Rightarrow> string \<Rightarrow> string \<Rightarrow> string \<Rightarrow> 'z id_db_scheme \<Rightarrow> token_pair res \<times> 'z id_db_scheme" where
  "login pw e jti2 name password w =
     (case by_username w name of
        None \<Rightarrow> (Inl bad_login, w)
      | Some (i, u) \<Rightarrow>
          if us_deleted u \<noteq> 0 \<or> us_status u \<noteq> 1 then (Inl bad_login, w)
          else if \<not> pw_verify pw password (us_password_hash u)
          then (Inl bad_login, snd (record_login_failure e name w))
          else (let w1 = clear_login_failures e name w
                in case issue_tokens e jti2 i u w1 of
                     Inl err \<Rightarrow> (Inl err, w1)
                   | Inr (out, w2) \<Rightarrow> (Inr out, w2\<lparr>users := tupd i (\<lambda>r. r\<lparr>us_last_login_at := Some (now e)\<rparr>) (users w2)\<rparr>)))"

text \<open>\<open>POST /auth/login\<close>: the lock is looked at first.\<close>

definition login_endpoint ::
  "pwd_context \<Rightarrow> env \<Rightarrow> string \<Rightarrow> string \<Rightarrow> string \<Rightarrow> 'z id_db_scheme \<Rightarrow> token_pair res \<times> 'z id_db_scheme" where
  "login_endpoint pw e jti2 name password w =
     (if \<not> login_rate_limit e name w then (Inl (RateLimitError ''too many login attempts, account locked''), w)
      else login pw e jti2 name password w)"

definition sub_of :: "dict \<Rightarrow> int option option" where
  "sub_of payload = (if \<not> dhas payload ''sub'' then None else Some (py_int (dget payload ''sub'')))"

text \<open>A missing claim is a \<open>KeyError\<close>, which the handler does not catch; a subject that is no number is
  a \<open>ValueError\<close>, which it does, after the access token has been put on the list.\<close>

definition logout :: "env \<Rightarrow> string \<Rightarrow> 'z id_db_scheme \<Rightarrow> unit res \<times> 'z id_db_scheme" where
  "logout e access_token w =
     (case decode_token e access_token (Some ''access'') of
        None \<Rightarrow> (Inl (UnauthorizedError ''invalid token''), w)
      | Some payload \<Rightarrow>
          (case dget payload ''jti'' of
             JStr jti \<Rightarrow>
               (let w1 = blacklist_access e jti w
                in case sub_of payload of
                     None \<Rightarrow> (Inl TypeError, w1)
                   | Some None \<Rightarrow> (Inl (case dget payload ''sub'' of JStr _ \<Rightarrow> UnauthorizedError ''invalid token'' | _ \<Rightarrow> TypeError), w1)
                   | Some (Some i) \<Rightarrow> (Inr (), revoke_refresh e i w1))
           | _ \<Rightarrow> (Inl TypeError, w)))"

definition usable :: "sys_user option \<Rightarrow> bool" where
  "usable x = (case x of None \<Rightarrow> False | Some u \<Rightarrow> us_status u = 1 \<and> us_deleted u = 0)"

definition refresh_tokens ::
  "env \<Rightarrow> string \<Rightarrow> string \<Rightarrow> 'z id_db_scheme \<Rightarrow> (token_pair \<times> 'z id_db_scheme) res" where
  "refresh_tokens e jti2 refresh_token w =
     (case decode_token e refresh_token (Some ''refresh'') of
        None \<Rightarrow> Inl (UnauthorizedError ''invalid token'')
      | Some payload \<Rightarrow>
          (case (sub_of payload, dget payload ''jti'') of
             (Some (Some i), JStr jti) \<Rightarrow>
               (if \<not> validate_refresh e i jti w then Inl (UnauthorizedError ''refresh token expired or reused'')
                else if \<not> usable (tget (users w) i) then Inl (UnauthorizedError ''user disabled or missing'')
                else issue_pair e jti2 (Some ''refresh'') i (the (tget (users w) i)) w)
           | _ \<Rightarrow> Inl TypeError))"

record me_out = user_brief +
  me_permissions :: "string list"
  me_visible_group_ids :: "int list"
  me_is_admin :: bool
  me_auth_source :: string

definition me :: "int \<Rightarrow> 'z id_db_scheme \<Rightarrow> me_out res" where
  "me i w =
     (case tget (users w) i of
        None \<Rightarrow> Inl (UnauthorizedError ''user not found'')
      | Some u \<Rightarrow>
          Inr \<lparr>ub_id = i, ub_username = us_username u, ub_real_name = us_real_name u, ub_roles = roles_brief w (role_ids w i),
               me_permissions = (if role_ids w i \<noteq> [] then codes_by_user w i else []),
               me_visible_group_ids = visible_groups w (role_ids w i), me_is_admin = (us_is_admin u \<noteq> 0),
               me_auth_source = (if us_auth_source u \<noteq> [] then us_auth_source u else ''local'')\<rparr>)"

definition set_hash :: "pwd_context \<Rightarrow> int \<Rightarrow> string \<Rightarrow> 'z id_db_scheme \<Rightarrow> 'z id_db_scheme" where
  "set_hash pw i password w = w\<lparr>users := tupd i (\<lambda>r. r\<lparr>us_password_hash := pw_hash pw password\<rparr>) (users w)\<rparr>"

definition change_password ::
  "pwd_context \<Rightarrow> int \<Rightarrow> string \<Rightarrow> string \<Rightarrow> 'z id_db_scheme \<Rightarrow> (unit \<times> 'z id_db_scheme) res" where
  "change_password pw i old_password new_password w =
     (case tget (users w) i of
        None \<Rightarrow> Inl (UnauthorizedError ''user not found'')
      | Some u \<Rightarrow>
          if \<not> pw_verify pw old_password (us_password_hash u) then Inl (BadRequestError ''old password incorrect'')
          else Inr ((), set_hash pw i new_password w))"

section \<open>The principal of a request\<close>

definition bearer_token :: "string option \<Rightarrow> string res" where
  "bearer_token authorization =
     (case authorization of
        None \<Rightarrow> Inl (UnauthorizedError ''missing bearer token'')
      | Some a \<Rightarrow> if lower (take 7 a) \<noteq> ''bearer '' then Inl (UnauthorizedError ''missing bearer token'')
                  else Inr (strip (drop 7 a)))"

definition token_user :: "env \<Rightarrow> dict \<Rightarrow> 'z id_db_scheme \<Rightarrow> current_user res" where
  "token_user e payload w =
     (case sub_of payload of
        Some (Some i) \<Rightarrow>
          (case tget (users w) i of
             None \<Rightarrow> Inl (UnauthorizedError ''user disabled or missing'')
           | Some u \<Rightarrow>
               if \<not> usable (Some u) then Inl (UnauthorizedError ''user disabled or missing'')
               else Inr \<lparr>uid = i, username = us_username u, is_admin = (us_is_admin u \<noteq> 0),
                         permissions = (if role_ids w i \<noteq> [] then codes_by_user w i else []),
                         visible_group_ids = visible_groups w (role_ids w i)\<rparr>)
      | _ \<Rightarrow> Inl TypeError)"

definition get_current_user :: "env \<Rightarrow> string option \<Rightarrow> 'z id_db_scheme \<Rightarrow> current_user res" where
  "get_current_user e authorization w =
     (case bearer_token authorization of
        Inl err \<Rightarrow> Inl err
      | Inr token \<Rightarrow>
          (case decode_token e token (Some ''access'') of
             None \<Rightarrow> Inl (UnauthorizedError ''invalid token'')
           | Some payload \<Rightarrow>
               if redis_up e \<and> (case dget payload ''jti'' of JStr jti \<Rightarrow> jti \<noteq> [] \<and> rget e (Blacklist jti) w \<noteq> None | _ \<Rightarrow> False)
               then Inl (UnauthorizedError ''token revoked'')
               else token_user e payload w))"

definition get_optional_user :: "env \<Rightarrow> string option \<Rightarrow> 'z id_db_scheme \<Rightarrow> current_user option res" where
  "get_optional_user e authorization w =
     (case bearer_token authorization of
        Inl _ \<Rightarrow> Inr None
      | Inr _ \<Rightarrow>
          (case get_current_user e authorization w of
             Inl (UnauthorizedError _) \<Rightarrow> Inr None
           | Inl err \<Rightarrow> Inl err
           | Inr u \<Rightarrow> Inr (Some u)))"

section \<open>Users\<close>

record user_create =
  uc_username :: string
  uc_password :: string
  uc_real_name :: string
  uc_phone :: string
  uc_email :: string
  uc_role_ids :: "int list"
  uc_status :: int

text \<open>The old links go, one new row per distinct id; the foreign key of an unknown role fails at the
  flush. (The code iterates a set, so the order of the new rows is not fixed; here it is that of the
  request.)\<close>

definition put_links :: "('r \<Rightarrow> bool) \<Rightarrow> (int \<Rightarrow> 'r) \<Rightarrow> int list \<Rightarrow> 'r table \<Rightarrow> 'r table" where
  "put_links old mk ids t = fold (\<lambda>i. tadd (mk i)) (remdups ids) (fold (\<lambda>(i, r). tdel i) (tselect old t) t)"

definition put_user_roles :: "int \<Rightarrow> int list \<Rightarrow> 'z id_db_scheme \<Rightarrow> 'z id_db_scheme res" where
  "put_user_roles i rids w =
     (if \<exists>r \<in> set rids. tget (roles w) r = None then Inl (IntegrityError ''sys_user_role.role_id'')
      else Inr (w\<lparr>user_roles := put_links (\<lambda>r. ur_user_id r = i) (\<lambda>r. \<lparr>ur_user_id = i, ur_role_id = r\<rparr>) rids (user_roles w)\<rparr>))"

definition user_not_found :: app_error where
  "user_not_found = NotFoundError ''user not found''"

definition create_user :: "pwd_context \<Rightarrow> user_create \<Rightarrow> 'z id_db_scheme \<Rightarrow> (int \<times> 'z id_db_scheme) res" where
  "create_user pw d w =
     (if by_username w (uc_username d) \<noteq> None then Inl (ConflictError ''username already exists'')
      else (let i = next_id (users w);
                u = \<lparr>us_username = uc_username d, us_password_hash = pw_hash pw (uc_password d), us_real_name = uc_real_name d,
                     us_phone = uc_phone d, us_email = uc_email d, us_status = uc_status d, us_last_login_at = None,
                     us_is_admin = 0, us_auth_source = ''local'', us_deleted = 0\<rparr>;
                w1 = w\<lparr>users := tadd u (users w)\<rparr>
            in if uc_role_ids d = [] then Inr (i, w1)
               else (case put_user_roles i (uc_role_ids d) w1 of Inl err \<Rightarrow> Inl err | Inr w2 \<Rightarrow> Inr (i, w2))))"

record user_update =
  uu_real_name :: "string option"
  uu_phone :: "string option"
  uu_email :: "string option"
  uu_status :: "int option"

definition keep :: "'a option \<Rightarrow> 'a \<Rightarrow> 'a" where
  "keep x old = (case x of None \<Rightarrow> old | Some v \<Rightarrow> v)"

definition on_user :: "int \<Rightarrow> (sys_user \<Rightarrow> sys_user) \<Rightarrow> 'z id_db_scheme \<Rightarrow> (unit \<times> 'z id_db_scheme) res" where
  "on_user i f w = (if tget (users w) i = None then Inl user_not_found else Inr ((), w\<lparr>users := tupd i f (users w)\<rparr>))"

definition update_user :: "int \<Rightarrow> user_update \<Rightarrow> 'z id_db_scheme \<Rightarrow> (unit \<times> 'z id_db_scheme) res" where
  "update_user i d w = on_user i (\<lambda>u. u\<lparr>us_real_name := keep (uu_real_name d) (us_real_name u),
     us_phone := keep (uu_phone d) (us_phone u), us_email := keep (uu_email d) (us_email u),
     us_status := keep (uu_status d) (us_status u)\<rparr>) w"

definition delete_user :: "int \<Rightarrow> int \<Rightarrow> 'z id_db_scheme \<Rightarrow> (unit \<times> 'z id_db_scheme) res" where
  "delete_user i operator_id w =
     (if i = operator_id then Inl (BadRequestError ''cannot delete yourself'') else on_user i (\<lambda>u. u\<lparr>us_deleted := 1\<rparr>) w)"

definition set_user_roles :: "int \<Rightarrow> int list \<Rightarrow> 'z id_db_scheme \<Rightarrow> (unit \<times> 'z id_db_scheme) res" where
  "set_user_roles i rids w =
     (if tget (users w) i = None then Inl user_not_found
      else case put_user_roles i rids w of Inl err \<Rightarrow> Inl err | Inr w1 \<Rightarrow> Inr ((), w1))"

definition set_user_status :: "int \<Rightarrow> int \<Rightarrow> 'z id_db_scheme \<Rightarrow> (unit \<times> 'z id_db_scheme) res" where
  "set_user_status i status w = on_user i (\<lambda>u. u\<lparr>us_status := status\<rparr>) w"

definition reset_password :: "pwd_context \<Rightarrow> int \<Rightarrow> string \<Rightarrow> 'z id_db_scheme \<Rightarrow> (unit \<times> 'z id_db_scheme) res" where
  "reset_password pw i password w = on_user i (\<lambda>u. u\<lparr>us_password_hash := pw_hash pw password\<rparr>) w"

definition ilike :: "string option \<Rightarrow> string \<Rightarrow> bool" where
  "ilike x s = (str_truthy x \<longrightarrow> sql_like (lower (''%'' @ the x @ ''%'')) (lower s))"

definition list_users ::
  "string option \<Rightarrow> string option \<Rightarrow> int option \<Rightarrow> int option \<Rightarrow> int \<Rightarrow> int \<Rightarrow> 'z id_db_scheme \<Rightarrow> (int \<times> sys_user \<times> int list) list \<times> nat" where
  "list_users name real_name status role_id page sz w =
     (let rs = rev (filter (\<lambda>(i, u). us_deleted u = 0 \<and> ilike name (us_username u) \<and> ilike real_name (us_real_name u) \<and>
                  (status \<noteq> None \<longrightarrow> us_status u = the status) \<and>
                  (int_truthy role_id \<longrightarrow> the role_id \<in> set (role_ids w i))) (rows (users w)))
      in (map (\<lambda>(i, u). (i, u, role_ids w i)) (page_of page sz rs), length rs))"

section \<open>Roles\<close>

record role_create =
  oc_code :: string
  oc_name :: string
  oc_remark :: string

definition role_not_found :: app_error where
  "role_not_found = NotFoundError ''role not found''"

definition list_roles :: "'z id_db_scheme \<Rightarrow> (int \<times> role \<times> int list \<times> int list) list" where
  "list_roles w = map (\<lambda>(i, r). (i, r, map (\<lambda>(j, x). rm_permission_id x) (tselect (\<lambda>x. rm_role_id x = i) (role_permissions w)),
     map (\<lambda>(j, x). rg_group_id x) (tselect (\<lambda>x. rg_role_id x = i) (role_groups w)))) (rows (roles w))"

definition create_role :: "role_create \<Rightarrow> 'z id_db_scheme \<Rightarrow> (int \<times> 'z id_db_scheme) res" where
  "create_role d w =
     (if tfirst (\<lambda>r. ro_code r = oc_code d) (roles w) \<noteq> None then Inl (ConflictError ''role code already exists'')
      else Inr (next_id (roles w), w\<lparr>roles := tadd \<lparr>ro_code = oc_code d, ro_name = oc_name d, ro_remark = oc_remark d\<rparr> (roles w)\<rparr>))"

definition update_role :: "int \<Rightarrow> string option \<Rightarrow> string option \<Rightarrow> 'z id_db_scheme \<Rightarrow> (unit \<times> 'z id_db_scheme) res" where
  "update_role rid name remark w =
     (if tget (roles w) rid = None then Inl role_not_found
      else Inr ((), w\<lparr>roles := tupd rid (\<lambda>r. r\<lparr>ro_name := keep name (ro_name r), ro_remark := keep remark (ro_remark r)\<rparr>) (roles w)\<rparr>))"

text \<open>The links of a deleted role go with it (\<open>ondelete="CASCADE"\<close>).\<close>

definition drop_links :: "('r \<Rightarrow> bool) \<Rightarrow> 'r table \<Rightarrow> 'r table" where
  "drop_links old t = fold (\<lambda>(i, r). tdel i) (tselect old t) t"

definition delete_role :: "int \<Rightarrow> 'z id_db_scheme \<Rightarrow> (unit \<times> 'z id_db_scheme) res" where
  "delete_role rid w =
     (if tget (roles w) rid = None then Inl role_not_found
      else if tselect (\<lambda>r. ur_role_id r = rid) (user_roles w) \<noteq> [] then Inl (ConflictError ''role in use by users'')
      else Inr ((), w\<lparr>roles := tdel rid (roles w), role_permissions := drop_links (\<lambda>r. rm_role_id r = rid) (role_permissions w),
                     role_groups := drop_links (\<lambda>r. rg_role_id r = rid) (role_groups w)\<rparr>))"

definition set_role_permissions :: "int \<Rightarrow> int list \<Rightarrow> 'z id_db_scheme \<Rightarrow> (unit \<times> 'z id_db_scheme) res" where
  "set_role_permissions rid pids w =
     (if tget (roles w) rid = None then Inl role_not_found
      else if \<exists>p \<in> set pids. tget (sys_permissions w) p = None then Inl (IntegrityError ''sys_role_permission.permission_id'')
      else Inr ((), w\<lparr>role_permissions := put_links (\<lambda>r. rm_role_id r = rid) (\<lambda>p. \<lparr>rm_role_id = rid, rm_permission_id = p\<rparr>) pids (role_permissions w)\<rparr>))"

definition set_role_groups :: "int \<Rightarrow> int list \<Rightarrow> 'z id_db_scheme \<Rightarrow> (unit \<times> 'z id_db_scheme) res" where
  "set_role_groups rid gids w =
     (if tget (roles w) rid = None then Inl role_not_found
      else if \<not> set gids \<subseteq> set (group_ids w) then Inl (IntegrityError ''role_host_group.group_id'')
      else Inr ((), w\<lparr>role_groups := put_links (\<lambda>r. rg_role_id r = rid) (\<lambda>g. \<lparr>rg_role_id = rid, rg_group_id = g\<rparr>) gids (role_groups w)\<rparr>))"

section \<open>Redis keys\<close>

lemma rget_rset [simp]: "rget e k (rset k' v t w) =
    (if k' = k then (case t of None \<Rightarrow> Some v | Some x \<Rightarrow> if now e < x then Some v else None) else rget e k w)"
  by (auto simp: rget_def rset_def split: option.splits)

lemma rget_rdel [simp]: "rget e k (rdel k' w) = (if k' = k then None else rget e k w)"
  by (simp add: rget_def rdel_def)

lemma users_redis [simp]: "users (rset k v t w) = users w" "users (rdel k w) = users w"
  by (simp_all add: rset_def rdel_def)

lemma rget_users [simp]: "rget e k (w\<lparr>users := x\<rparr>) = rget e k w"
  by (simp add: rget_def)

text \<open>The interface of a store whose keys expire, as the token lifecycle uses it.\<close>

locale ttl_store =
  fixes clock :: "'e \<Rightarrow> time"
    and get :: "'e \<Rightarrow> 'k \<Rightarrow> 'w \<Rightarrow> 'v option"
    and put :: "'k \<Rightarrow> 'v \<Rightarrow> time option \<Rightarrow> 'w \<Rightarrow> 'w"
    and del :: "'k \<Rightarrow> 'w \<Rightarrow> 'w"
  assumes get_put: "get e k (put k v (Some t) w) = (if clock e < t then Some v else None)"
    and get_put_other: "k' \<noteq> k \<Longrightarrow> get e k (put k' v (Some t) w) = get e k w"
    and get_del: "get e k (del k w) = None"
    and get_del_other: "k' \<noteq> k \<Longrightarrow> get e k (del k' w) = get e k w"
begin

lemma replaced: "v \<noteq> v' \<Longrightarrow> get e k (put k v (Some t) w) \<noteq> Some v'"
  by (simp add: get_put)

lemma alive: "clock e < t \<Longrightarrow> get e k (put k v (Some t) w) = Some v"
  by (simp add: get_put)

lemma put_del: "k' \<noteq> k \<Longrightarrow> clock e < t \<Longrightarrow> get e k (del k' (put k v (Some t) w)) = Some v"
  by (simp add: get_put get_del_other)

end

interpretation rstore: ttl_store now rget rset rdel
  by unfold_locales simp_all

section \<open>Tokens\<close>

lemma token_claims_get:
  "dget (token_claims e i ty ttl []) ''jti'' = JStr (new_jti e)" "dget (token_claims e i ty ttl []) ''type'' = JStr ty"
  "dget (token_claims e i ty ttl []) ''sub'' = JStr (show_int i)" "dhas (token_claims e i ty ttl []) ''sub''"
  "dget (token_claims e i ty ttl []) ''exp'' = JInt ((now e + seconds ttl) div 1000000)"
  by (simp_all add: token_claims_def dget_def dhas_def)

lemma token_claims_sub: "sub_of (token_claims e i ty ttl []) = Some (Some i)"
  by (simp add: sub_of_def token_claims_get)

text \<open>A pair that was issued: the refresh token carries the second identifier, which is now the stored one.\<close>

lemma issue_pair_Inr:
  assumes "issue_pair e jti2 ty i u w = Inr (out, w')"
    and "\<And>c. jwt_decode e (tp_refresh out) = Some c \<Longrightarrow> c = token_claims (e\<lparr>new_jti := jti2\<rparr>) i ''refresh'' (refresh_token_expire_days * 86400) []"
  shows "w' = store_refresh e i jti2 w"
proof -
  from assms(1) obtain p jti where d: "decode_token e (tp_refresh out) ty = Some p" and j: "dget p ''jti'' = JStr jti"
    and w': "w' = store_refresh e i jti w"
    by (auto simp: issue_pair_def Let_def split: option.splits json.splits)
  from d have "jwt_decode e (tp_refresh out) = Some p"
    by (auto simp: decode_token_def split: option.splits if_splits)
  from assms(2) [OF this] j w' show ?thesis by (simp add: token_claims_get)
qed

lemma issue_pair_tokens:
  "issue_pair e jti2 ty i u w = Inr (out, w') \<Longrightarrow> tp_refresh out = create_refresh_token (e\<lparr>new_jti := jti2\<rparr>) i \<and>
     tp_access out = create_access_token e i"
  by (auto simp: issue_pair_def Let_def split: option.splits json.splits)

lemma refresh_tokensE:
  assumes "refresh_tokens e jti2 tok w = Inr (out, w')"
  obtains p i jti u where "jwt_decode e tok = Some p" and "dget p ''type'' = JStr ''refresh''" and "sub_of p = Some (Some i)"
    and "dget p ''jti'' = JStr jti" and "validate_refresh e i jti w" and "tget (users w) i = Some u" and "usable (Some u)"
    and "issue_pair e jti2 (Some ''refresh'') i u w = Inr (out, w')"
proof -
  from assms obtain p i jti where d: "decode_token e tok (Some ''refresh'') = Some p" and s: "sub_of p = Some (Some i)"
    and j: "dget p ''jti'' = JStr jti"
    by (auto simp: refresh_tokens_def split: option.splits json.splits)
  with assms have v: "validate_refresh e i jti w" and u: "usable (tget (users w) i)"
    and r: "issue_pair e jti2 (Some ''refresh'') i (the (tget (users w) i)) w = Inr (out, w')"
    by (auto simp: refresh_tokens_def split: if_splits)
  from u obtain x where "tget (users w) i = Some x" by (cases "tget (users w) i") (simp_all add: usable_def)
  moreover from d have "jwt_decode e tok = Some p" "dget p ''type'' = JStr ''refresh''"
    by (auto simp: decode_token_def str_truthy_def split: option.splits if_splits)
  ultimately show thesis using that s j v u r by simp
qed

section \<open>Links\<close>

lemma rows_drop_links:
  assumes "table_ok t"
  shows "rows (drop_links old t) = filter (\<lambda>(i, r). \<not> old r) (rows t)"
proof -
  have fold: "rows (fold (\<lambda>(i, r). tdel i) xs t) = filter (\<lambda>(i, r). i \<notin> fst ` set xs) (rows t)" for xs :: "(int \<times> 'a) list"
  proof (induction xs arbitrary: t)
    case (Cons x xs)
    obtain k s where x: "x = (k, s)" by fastforce
    show ?case
      using Cons [of "tdel k t"] by (auto simp: x tdel_def filter_filter intro!: filter_cong)
  qed auto
  have "i \<notin> fst ` set (tselect old t) \<longleftrightarrow> \<not> old r" if "(i, r) \<in> set (rows t)" for i r
    using that in_tselect [OF assms] tget_in_rows [OF assms] by (auto simp: image_iff) (metis fst_conv option.inject)
  then show ?thesis unfolding drop_links_def fold by (auto intro!: filter_cong)
qed

lemma table_ok_drop_links [simp]: "table_ok t \<Longrightarrow> table_ok (drop_links old t)"
proof -
  have "table_ok t \<Longrightarrow> table_ok (fold (\<lambda>(i, r). tdel i) xs t)" for xs :: "(int \<times> 'a) list" and t :: "'a table"
    by (induction xs arbitrary: t) auto
  then show "table_ok t \<Longrightarrow> ?thesis" by (simp add: drop_links_def)
qed

definition links :: "'r table \<Rightarrow> 'r set" where
  "links t = snd ` set (rows t)"

lemma links_drop: "table_ok t \<Longrightarrow> links (drop_links old t) = {r \<in> links t. \<not> old r}"
  by (force simp: links_def rows_drop_links)

lemma links_put: "table_ok t \<Longrightarrow> links (put_links old mk ids t) = {r \<in> links t. \<not> old r} \<union> mk ` set ids"
proof -
  assume ok: "table_ok t"
  have "rows (put_links old mk ids t) = rows (drop_links old t) @
      zip (map (\<lambda>k. seq (drop_links old t) + 1 + int k) [0..<length (remdups ids)]) (map mk (remdups ids))"
    unfolding put_links_def drop_links_def [symmetric] by (rule rows_fold_tadd)
  then have "links (put_links old mk ids t) = links (drop_links old t) \<union> mk ` set ids"
    by (simp add: links_def image_Un flip: set_map) (simp add: links_def)
  then show ?thesis using links_drop [OF ok] by simp
qed

section \<open>Role-based access, abstractly\<close>

text \<open>Users to roles, roles to permission codes, roles to groups.\<close>

record rbac =
  ua :: "(int \<times> int) set"
  pa :: "(int \<times> string) set"
  ga :: "(int \<times> int) set"

definition authorized :: "rbac \<Rightarrow> int \<Rightarrow> string \<Rightarrow> bool" where
  "authorized a i code = (\<exists>r. (i, r) \<in> ua a \<and> (r, code) \<in> pa a)"

definition in_scope :: "rbac \<Rightarrow> int \<Rightarrow> int \<Rightarrow> bool" where
  "in_scope a i g = (\<exists>r. (i, r) \<in> ua a \<and> (r, g) \<in> ga a)"

definition code_of :: "'z id_db_scheme \<Rightarrow> int \<Rightarrow> string option" where
  "code_of w pid = map_option pm_code (tget (sys_permissions w) pid)"

definition abs_rbac :: "'z id_db_scheme \<Rightarrow> rbac" where
  "abs_rbac w = \<lparr>ua = {(ur_user_id r, ur_role_id r) | r. r \<in> links (user_roles w)},
     pa = {(rm_role_id r, c) | r c. r \<in> links (role_permissions w) \<and> code_of w (rm_permission_id r) = Some c},
     ga = {(rg_role_id r, rg_group_id r) | r. r \<in> links (role_groups w)}\<rparr>"

definition id_ok :: "'z id_db_scheme \<Rightarrow> bool" where
  "id_ok w = (table_ok (users w) \<and> table_ok (roles w) \<and> table_ok (user_roles w) \<and> table_ok (sys_permissions w) \<and>
     table_ok (role_permissions w) \<and> table_ok (role_groups w) \<and>
     (\<forall>r \<in> links (user_roles w). tget (roles w) (ur_role_id r) \<noteq> None) \<and>
     (\<forall>r \<in> links (role_permissions w). tget (roles w) (rm_role_id r) \<noteq> None))"

lemma set_role_ids: "set (role_ids w i) = {r. (i, r) \<in> ua (abs_rbac w)}"
  by (force simp: role_ids_def tselect_def abs_rbac_def links_def)

lemma codes_by_user_iff:
  "code \<in> set (codes_by_user w i) \<longleftrightarrow> (\<exists>pid p rp. (pid, p) \<in> set (rows (sys_permissions w)) \<and> rp \<in> links (role_permissions w) \<and>
     rm_permission_id rp = pid \<and> tget (roles w) (rm_role_id rp) \<noteq> None \<and> (i, rm_role_id rp) \<in> ua (abs_rbac w) \<and> code = pm_code p)"
proof -
  have inner: "code \<in> set (concat (map (\<lambda>(j, rp). if C rp then [c] else []) xs)) \<longleftrightarrow> code = c \<and> (\<exists>rp \<in> snd ` set xs. C rp)"
    for C c and xs :: "(int \<times> role_permission) list"
    by (induction xs) auto
  define g where "g = (\<lambda>(pid, p :: permission). concat (map (\<lambda>(j, rp). if rm_permission_id rp = pid \<and> tget (roles w) (rm_role_id rp) \<noteq> None \<and>
      rm_role_id rp \<in> set (role_ids w i) then [pm_code p] else []) (rows (role_permissions w))))"
  have "code \<in> set (codes_by_user w i) \<longleftrightarrow> (\<exists>pid p. (pid, p) \<in> set (rows (sys_permissions w)) \<and> code \<in> set (g (pid, p)))"
    unfolding codes_by_user_def g_def [symmetric] by auto
  moreover have "code \<in> set (g (pid, p)) \<longleftrightarrow> code = pm_code p \<and> (\<exists>rp \<in> links (role_permissions w). rm_permission_id rp = pid \<and>
      tget (roles w) (rm_role_id rp) \<noteq> None \<and> (i, rm_role_id rp) \<in> ua (abs_rbac w))" for pid p
    unfolding g_def prod.case inner set_role_ids links_def by simp
  ultimately show ?thesis by blast
qed

lemma in_codes_by_user:
  assumes "id_ok w"
  shows "code \<in> set (codes_by_user w i) \<longleftrightarrow> authorized (abs_rbac w) i code"
proof -
  have sp: "(pid, p) \<in> set (rows (sys_permissions w)) \<longleftrightarrow> tget (sys_permissions w) pid = Some p" for pid p
    using assms by (simp add: id_ok_def tget_in_rows)
  have ex: "tget (roles w) (rm_role_id rp) \<noteq> None" if "rp \<in> links (role_permissions w)" for rp
    using assms that by (simp add: id_ok_def)
  have pa: "(r, code) \<in> pa (abs_rbac w) \<longleftrightarrow> (\<exists>rp p. rp \<in> links (role_permissions w) \<and> rm_role_id rp = r \<and>
      tget (sys_permissions w) (rm_permission_id rp) = Some p \<and> code = pm_code p)" for r
    by (auto simp: abs_rbac_def code_of_def)
  show ?thesis
    unfolding codes_by_user_iff authorized_def pa sp using ex by blast
qed

lemma in_visible_groups: "g \<in> set (visible_groups w (role_ids w i)) \<longleftrightarrow> in_scope (abs_rbac w) i g"
proof -
  have ga: "(r, g) \<in> ga (abs_rbac w) \<longleftrightarrow> (\<exists>x \<in> links (role_groups w). rg_role_id x = r \<and> rg_group_id x = g)" for r
    by (auto simp: abs_rbac_def)
  have "g \<in> set (visible_groups w rids) \<longleftrightarrow> (\<exists>x \<in> links (role_groups w). rg_role_id x \<in> set rids \<and> rg_group_id x = g)" for rids
    by (force simp: visible_groups_def tselect_def links_def)
  from this [of "role_ids w i"] show ?thesis unfolding in_scope_def ga set_role_ids by auto
qed

text \<open>The administration handlers act on the abstract relations as updates of one row.\<close>

lemma abs_set_user_roles:
  assumes "id_ok w" and "set_user_roles i rids w = Inr (x, w')"
  shows "abs_rbac w' = (abs_rbac w)\<lparr>ua := {(u, r) \<in> ua (abs_rbac w). u \<noteq> i} \<union> {i} \<times> set rids\<rparr>"
proof -
  from assms(2) have w': "w' = w\<lparr>user_roles := put_links (\<lambda>r. ur_user_id r = i) (\<lambda>r. \<lparr>ur_user_id = i, ur_role_id = r\<rparr>) rids (user_roles w)\<rparr>"
    by (auto simp: set_user_roles_def put_user_roles_def split: if_splits sum.splits)
  have l: "links (user_roles w') = {r \<in> links (user_roles w). ur_user_id r \<noteq> i} \<union> (\<lambda>r. \<lparr>ur_user_id = i, ur_role_id = r\<rparr>) ` set rids"
    using assms(1) by (simp add: w' links_put id_ok_def)
  have "ua (abs_rbac w') = {(u, r) \<in> ua (abs_rbac w). u \<noteq> i} \<union> {i} \<times> set rids"
    unfolding abs_rbac_def rbac.simps l by force
  then show ?thesis by (simp add: abs_rbac_def w' code_of_def)
qed

lemma abs_set_role_permissions:
  assumes "id_ok w" and "set_role_permissions rid pids w = Inr (x, w')"
  shows "abs_rbac w' = (abs_rbac w)\<lparr>pa := {(r, c) \<in> pa (abs_rbac w). r \<noteq> rid} \<union> {rid} \<times> {c. Some c \<in> code_of w ` set pids}\<rparr>"
proof -
  from assms(2) have w': "w' = w\<lparr>role_permissions := put_links (\<lambda>r. rm_role_id r = rid) (\<lambda>p. \<lparr>rm_role_id = rid, rm_permission_id = p\<rparr>) pids (role_permissions w)\<rparr>"
    by (auto simp: set_role_permissions_def split: if_splits)
  have l: "links (role_permissions w') = {r \<in> links (role_permissions w). rm_role_id r \<noteq> rid} \<union> (\<lambda>p. \<lparr>rm_role_id = rid, rm_permission_id = p\<rparr>) ` set pids"
    using assms(1) by (simp add: w' links_put id_ok_def)
  have c: "code_of w' = code_of w" by (rule ext) (simp add: code_of_def w')
  have "pa (abs_rbac w') = {(r, c) \<in> pa (abs_rbac w). r \<noteq> rid} \<union> {rid} \<times> {c. Some c \<in> code_of w ` set pids}"
    unfolding abs_rbac_def rbac.simps l c by (force simp: image_iff)
  then show ?thesis by (simp add: abs_rbac_def w')
qed

lemma abs_set_role_groups:
  assumes "id_ok w" and "set_role_groups rid gids w = Inr (x, w')"
  shows "abs_rbac w' = (abs_rbac w)\<lparr>ga := {(r, g) \<in> ga (abs_rbac w). r \<noteq> rid} \<union> {rid} \<times> set gids\<rparr>"
proof -
  from assms(2) have w': "w' = w\<lparr>role_groups := put_links (\<lambda>r. rg_role_id r = rid) (\<lambda>g. \<lparr>rg_role_id = rid, rg_group_id = g\<rparr>) gids (role_groups w)\<rparr>"
    by (auto simp: set_role_groups_def split: if_splits)
  have l: "links (role_groups w') = {r \<in> links (role_groups w). rg_role_id r \<noteq> rid} \<union> (\<lambda>g. \<lparr>rg_role_id = rid, rg_group_id = g\<rparr>) ` set gids"
    using assms(1) by (simp add: w' links_put id_ok_def)
  have "ga (abs_rbac w') = {(r, g) \<in> ga (abs_rbac w). r \<noteq> rid} \<union> {rid} \<times> set gids"
    unfolding abs_rbac_def rbac.simps l by force
  then show ?thesis by (simp add: abs_rbac_def w' code_of_def)
qed

lemma abs_delete_role:
  assumes "id_ok w" and "delete_role rid w = Inr (x, w')"
  shows "abs_rbac w' = (abs_rbac w)\<lparr>pa := {(r, c) \<in> pa (abs_rbac w). r \<noteq> rid}, ga := {(r, g) \<in> ga (abs_rbac w). r \<noteq> rid}\<rparr>"
proof -
  from assms(2) have w': "w' = w\<lparr>roles := tdel rid (roles w), role_permissions := drop_links (\<lambda>r. rm_role_id r = rid) (role_permissions w),
      role_groups := drop_links (\<lambda>r. rg_role_id r = rid) (role_groups w)\<rparr>"
    by (auto simp: delete_role_def split: if_splits)
  have c: "code_of w' = code_of w" by (rule ext) (simp add: code_of_def w')
  have l: "links (role_permissions w') = {r \<in> links (role_permissions w). rm_role_id r \<noteq> rid}"
    "links (role_groups w') = {r \<in> links (role_groups w). rg_role_id r \<noteq> rid}"
    using assms(1) by (simp_all add: w' links_drop id_ok_def)
  show ?thesis unfolding abs_rbac_def rbac.simps rbac.update_convs l c by (auto simp: w')
qed

text \<open>The principal of a request has exactly the authorized codes and groups.\<close>

lemma token_user_abs:
  assumes "id_ok w" and "token_user e p w = Inr u"
  shows "(has_perm u code \<longleftrightarrow> is_admin u \<or> authorized (abs_rbac w) (uid u) code) \<and>
     (g \<in> set (visible_group_ids u) \<longleftrightarrow> in_scope (abs_rbac w) (uid u) g)"
proof -
  from assms(2) obtain i x where "sub_of p = Some (Some i)" "tget (users w) i = Some x"
    and u: "u = \<lparr>uid = i, username = us_username x, is_admin = (us_is_admin x \<noteq> 0),
       permissions = (if role_ids w i \<noteq> [] then codes_by_user w i else []), visible_group_ids = visible_groups w (role_ids w i)\<rparr>"
    by (auto simp: token_user_def split: option.splits if_splits)
  have "role_ids w i = [] \<Longrightarrow> \<not> authorized (abs_rbac w) i code"
    using set_role_ids [of w i] by (auto simp: authorized_def)
  then show ?thesis
    using in_codes_by_user [OF assms(1), of code i] in_visible_groups [of g w i] by (auto simp: has_perm_def u)
qed

section \<open>The lock\<close>

text \<open>After \<open>n\<close> wrong passwords, the last one at \<open>t\<close>, and before the lock.\<close>

definition failed_logins :: "string \<Rightarrow> int \<Rightarrow> time \<Rightarrow> 'z id_db_scheme \<Rightarrow> bool" where
  "failed_logins name n t w = (redis w (LoginFail name) = (if n = 0 then None else Some (RInt n, Some (t + seconds 60))) \<and>
     redis w (LoginLock name) = None)"

definition wrong_login :: "pwd_context \<Rightarrow> string \<Rightarrow> env \<times> string \<Rightarrow> 'z id_db_scheme \<Rightarrow> 'z id_db_scheme" where
  "wrong_login pw name a w = snd (login_endpoint pw (fst a) [] name (snd a) w)"

lemma wrong_login_counts:
  assumes "failed_logins name n t w" and "0 \<le> n" and "n < login_max_failures - 1" and "redis_up e"
    and "n = 0 \<or> now e < t + seconds 60"
    and "by_username w name = Some (i, u)" and "us_status u = 1" and "us_deleted u = 0" and "\<not> pw_verify pw p (us_password_hash u)"
  shows "failed_logins name (n + 1) (now e) (wrong_login pw name (e, p) w) \<and> users (wrong_login pw name (e, p) w) = users w"
  using assms
  by (auto simp: failed_logins_def wrong_login_def login_endpoint_def login_rate_limit_def rget_def login_def
      record_login_failure_def rincr_def rexpire_def rset_def Let_def login_max_failures_def seconds_def split: if_splits)

lemma wrong_login_locks:
  assumes "failed_logins name n t w" and "n = login_max_failures - 1" and "redis_up e" and "now e < t + seconds 60"
    and "by_username w name = Some (i, u)" and "us_status u = 1" and "us_deleted u = 0" and "\<not> pw_verify pw p (us_password_hash u)"
  shows "redis (wrong_login pw name (e, p) w) (LoginLock name) = Some (RStr ''1'', Some (now e + seconds (login_lock_minutes * 60)))"
  using assms
  by (simp add: failed_logins_def wrong_login_def login_endpoint_def login_rate_limit_def rget_def login_def
      record_login_failure_def rincr_def rexpire_def rset_def Let_def login_max_failures_def)

lemma by_username_users: "users w' = users w \<Longrightarrow> by_username w' name = by_username w name"
  by (simp add: by_username_def)

lemma wrong_logins:
  assumes "successively (\<lambda>a b. now (fst b) < now (fst a) + seconds 60) as" and "\<forall>a \<in> set as. redis_up (fst a) \<and> \<not> pw_verify pw (snd a) (us_password_hash u)"
    and "as \<noteq> []" and "failed_logins name n t w" and "0 \<le> n" and "n = 0 \<or> now (fst (hd as)) < t + seconds 60"
    and "n + int (length as) = login_max_failures"
    and "by_username w name = Some (i, u)" and "us_status u = 1" and "us_deleted u = 0"
  shows "redis (fold (wrong_login pw name) as w) (LoginLock name) = Some (RStr ''1'', Some (now (fst (last as)) + seconds (login_lock_minutes * 60)))"
  using assms
proof (induction as arbitrary: n t w)
  case (Cons a as)
  obtain e p where a: "a = (e, p)" by fastforce
  show ?case
  proof (cases "as = []")
    case True
    with Cons.prems have n: "n = login_max_failures - 1" by simp
    then have "n \<noteq> 0" by (simp add: login_max_failures_def)
    with wrong_login_locks [OF Cons.prems(4) n _ _ Cons.prems(8-10), of e pw p] Cons.prems True a show ?thesis by simp
  next
    case False
    then obtain b bs where as: "as = b # bs" by (cases as) auto
    from Cons.prems(7) False have n: "n < login_max_failures - 1" by (cases as) auto
    have s: "failed_logins name (n + 1) (now e) (wrong_login pw name a w) \<and> users (wrong_login pw name a w) = users w"
      unfolding a using Cons.prems a by (intro wrong_login_counts [OF Cons.prems(4,5) n _ _ Cons.prems(8-10)]) auto
    have "redis (fold (wrong_login pw name) as (wrong_login pw name a w)) (LoginLock name) = Some (RStr ''1'', Some (now (fst (last as)) + seconds (login_lock_minutes * 60)))"
      by (rule Cons.IH [of "n + 1" "now e"])
        (use Cons.prems s False as a by_username_users [of "wrong_login pw name a w" w name] in auto)
    then show ?thesis using False by simp
  qed
qed simp

end
