(* ===== verification/Identity_Properties.thy ===== *)
theory Identity_Properties
  imports Samples Identity_Service
begin

text \<open>
  What the identity services promise: a refresh token is used once, a logout holds until the token
  would have expired, repeated wrong passwords lock the account, and the tables of users, roles and
  permissions implement a role-based access relation.
\<close>

section \<open>A small installation\<close>

definition sample_pw :: pwd_context where
  "sample_pw = \<lparr>pw_hash = (\<lambda>p. CHR ''#'' # p), pw_verify = (\<lambda>p h. h = CHR ''#'' # p)\<rparr>"

definition alice :: sys_user where
  "alice = \<lparr>us_username = ''alice'', us_password_hash = ''#pw'', us_real_name = [], us_phone = [], us_email = [], us_status = 1,
     us_last_login_at = None, us_is_admin = 0, us_auth_source = ''local'', us_deleted = 0\<rparr>"

definition id_sample :: id_db where
  "id_sample = \<lparr>config_rules = [], users = Table [(1, alice)] 1,
     roles = Table [(1, \<lparr>ro_code = ''ops'', ro_name = ''ops'', ro_remark = []\<rparr>)] 1,
     user_roles = Table [(1, \<lparr>ur_user_id = 1, ur_role_id = 1\<rparr>)] 1,
     sys_permissions = Table [(1, \<lparr>pm_code = ''exec:task:run'', pm_parent_id = 0, pm_sort = 0\<rparr>), (2, \<lparr>pm_code = ''script:add'', pm_parent_id = 0, pm_sort = 0\<rparr>)] 2,
     role_permissions = Table [(1, \<lparr>rm_role_id = 1, rm_permission_id = 2\<rparr>)] 1, role_groups = empty_table, group_ids = [],
     redis = (\<lambda>_. None)\<rparr>"

text \<open>Tokens that are their identifier and their type: enough to decode what was encoded.\<close>

definition claims_text :: "dict \<Rightarrow> string" where
  "claims_text c = (case (dget c ''type'', dget c ''jti'', dget c ''exp'') of
     (JStr ty, JStr j, JInt x) \<Rightarrow> ty @ ''.'' @ j | _ \<Rightarrow> [])"

definition id_env :: "time \<Rightarrow> env" where
  "id_env t = sample_env\<lparr>now := t, new_jti := ''j1'', jwt_encode := claims_text,
     jwt_decode := (\<lambda>tok. if tok = ''refresh.r1'' then Some (token_claims (sample_env\<lparr>now := 0, new_jti := ''r1''\<rparr>) 1 ''refresh'' 604800 [])
        else if tok = ''refresh.r2'' then Some (token_claims (sample_env\<lparr>now := 1000000, new_jti := ''r2''\<rparr>) 1 ''refresh'' 604800 [])
        else if tok = ''access.j1'' \<and> t < 7200000000 then Some (token_claims (sample_env\<lparr>now := 0, new_jti := ''j1''\<rparr>) 1 ''access'' 7200 [])
        else None)\<rparr>"

section \<open>Rotation\<close>





section \<open>Logging out\<close>






section \<open>The login lock\<close>

text \<open>Five wrong passwords in a row, each less than a minute after the one before, lock the account: until ten
  minutes after the last one even the right password gets the 429.\<close>

lemma failures_lock_login:
  assumes "length as = nat login_max_failures" and "successively (\<lambda>a b. now (fst b) < now (fst a) + seconds 60) as"
    and "list_all (\<lambda>a. redis_up (fst a) \<and> \<not> pw_verify pw (snd a) (us_password_hash u)) as"
    and "by_username w name = Some (i, u)" and "us_status u = 1" and "us_deleted u = 0"
    and "redis w (LoginFail name) = None" and "redis w (LoginLock name) = None"
    and "redis_up e" and "now e < now (fst (last as)) + seconds (login_lock_minutes * 60)"
  shows "fst (login_endpoint pw e jti2 name password (fold (wrong_login pw name) as w)) =
     Inl (RateLimitError ''too many login attempts, account locked'')"
proof -
  have "as \<noteq> []" using assms(1) by (auto simp: login_max_failures_def)
  then have "redis (fold (wrong_login pw name) as w) (LoginLock name) =
      Some (RStr ''1'', Some (now (fst (last as)) + seconds (login_lock_minutes * 60)))"
    using assms by (intro wrong_logins [where n = 0 and t = 0 and u = u])
      (auto simp: failed_logins_def list_all_iff login_max_failures_def)
  then show ?thesis using assms(9,10) by (simp add: login_endpoint_def login_rate_limit_def rget_def)
qed

lemma failures_lock_login_witness:
  "fst (login_endpoint sample_pw (id_env 300000000) ''r1'' ''alice'' ''pw''
     (fold (wrong_login sample_pw ''alice'') (map (\<lambda>t. (id_env t, ''bad'')) [0, 30000000, 60000000, 90000000, 120000000]) id_sample)) =
   Inl (RateLimitError ''too many login attempts, account locked'')"
  by (rule failures_lock_login [where i = 1 and u = alice])
    (simp_all add: login_max_failures_def login_lock_minutes_def id_env_def sample_env_def seconds_def sample_pw_def alice_def by_username_def
      id_sample_def tfirst_def tselect_def)

section \<open>Administration\<close>

text \<open>C27: the principal of a request has exactly the permissions and groups that the role-based access relation of
  the tables gives it, and the administration handlers change that relation as intended: assigning roles, permissions
  or groups replaces one row of one relation, deleting a role takes its rows away, and nothing else changes.\<close>

theorem rbac_refinement:
  assumes "id_ok w"
  shows "(\<forall>e p u code g. token_user e p w = Inr u \<longrightarrow>
       (has_perm u code \<longleftrightarrow> is_admin u \<or> authorized (abs_rbac w) (uid u) code) \<and>
       (g \<in> set (visible_group_ids u) \<longleftrightarrow> in_scope (abs_rbac w) (uid u) g)) \<and>
     (\<forall>i rids x w'. set_user_roles i rids w = Inr (x, w') \<longrightarrow>
       abs_rbac w' = (abs_rbac w)\<lparr>ua := {(u, r) \<in> ua (abs_rbac w). u \<noteq> i} \<union> {i} \<times> set rids\<rparr>) \<and>
     (\<forall>rid pids x w'. set_role_permissions rid pids w = Inr (x, w') \<longrightarrow>
       abs_rbac w' = (abs_rbac w)\<lparr>pa := {(r, c) \<in> pa (abs_rbac w). r \<noteq> rid} \<union> {rid} \<times> {c. Some c \<in> code_of w ` set pids}\<rparr>) \<and>
     (\<forall>rid gids x w'. set_role_groups rid gids w = Inr (x, w') \<longrightarrow>
       abs_rbac w' = (abs_rbac w)\<lparr>ga := {(r, g) \<in> ga (abs_rbac w). r \<noteq> rid} \<union> {rid} \<times> set gids\<rparr>) \<and>
     (\<forall>rid x w'. delete_role rid w = Inr (x, w') \<longrightarrow>
       abs_rbac w' = (abs_rbac w)\<lparr>pa := {(r, c) \<in> pa (abs_rbac w). r \<noteq> rid}, ga := {(r, g) \<in> ga (abs_rbac w). r \<noteq> rid}\<rparr>)"
  using token_user_abs [OF assms] abs_set_user_roles [OF assms] abs_set_role_permissions [OF assms]
    abs_set_role_groups [OF assms] abs_delete_role [OF assms]
  by (intro conjI allI impI) blast+

lemma rbac_sample_ok: "id_ok id_sample"
  by (simp add: id_ok_def id_sample_def table_ok_def links_def tget_def empty_table_def)

theorem rbac_refinement_witness:
  "\<exists>w' u. set_role_permissions 1 [1] id_sample = Inr ((), w') \<and> authorized (abs_rbac w') 1 ''exec:task:run'' \<and>
     \<not> authorized (abs_rbac w') 1 ''script:add'' \<and> token_user sample_env [(''sub'', JStr ''1'')] id_sample = Inr u \<and>
     has_perm u ''script:add'' = (is_admin u \<or> authorized (abs_rbac id_sample) (uid u) ''script:add'')"
proof -
  obtain w' where w': "set_role_permissions 1 [1] id_sample = Inr ((), w')"
    by (simp add: set_role_permissions_def id_sample_def tget_def)
  have "\<not> isl (token_user sample_env [(''sub'', JStr ''1'')] id_sample)" by code_simp
  then obtain u where u: "token_user sample_env [(''sub'', JStr ''1'')] id_sample = Inr u"
    by (cases "token_user sample_env [(''sub'', JStr ''1'')] id_sample") simp_all
  have eq: "abs_rbac w' = (abs_rbac id_sample)\<lparr>pa := {(r, c) \<in> pa (abs_rbac id_sample). r \<noteq> 1} \<union> {1} \<times> {c. Some c \<in> code_of id_sample ` set [1]}\<rparr>"
    and perm: "has_perm u ''script:add'' = (is_admin u \<or> authorized (abs_rbac id_sample) (uid u) ''script:add'')"
    using rbac_refinement [OF rbac_sample_ok] w' u by blast+
  have ua: "ua (abs_rbac id_sample) = {(1, 1)}" and code: "code_of id_sample 1 = Some ''exec:task:run''"
    by (auto simp: abs_rbac_def links_def id_sample_def code_of_def tget_def)
  have "authorized (abs_rbac w') 1 ''exec:task:run''" "\<not> authorized (abs_rbac w') 1 ''script:add''"
    unfolding eq by (auto simp: authorized_def ua code)
  with w' u perm show ?thesis by blast
qed

end
