(* ===== verification/Notify_Service.thy ===== *)
theory Notify_Service
  imports Security
begin

text \<open>
  Notification channels and the records of what was sent (\<open>notify_service.py\<close>). Posting to a web hook is
  outside: \<open>http_post\<close> of the environment record is the message of the exception a post raises, \<open>None\<close> when it
  went through; \<open>json_dumps\<close> and \<open>json_loads\<close> are the standard library's.
\<close>

record notify_env = env +
  http_post :: "string \<Rightarrow> json \<Rightarrow> string option"
  json_dumps :: "dict \<Rightarrow> string"
  json_loads :: "string \<Rightarrow> dict option"

record notify_channel =
  nc_name :: string
  nc_type :: string
  nc_config_enc :: string
  nc_enabled :: int

record notify_record =
  nt_channel_id :: int
  nt_scene :: string
  nt_target :: string
  nt_title :: string
  nt_content :: string
  nt_status :: string
  nt_error_msg :: "string option"
  nt_sent_at :: "time option"
  nt_created_at :: time

record notify_db = sys_db +
  channels :: "notify_channel table"
  notify_records :: "notify_record table"

section \<open>Channels\<close>

definition CHANNELS :: "string list" where
  "CHANNELS = [''lark'', ''email'', ''dingtalk'', ''wecom'', ''webhook'']"

definition config_of :: "'e notify_env_scheme \<Rightarrow> notify_channel \<Rightarrow> dict" where
  "config_of e c = (case decrypt_secret (env.truncate e) (nc_config_enc c) of
     None \<Rightarrow> [] | Some s \<Rightarrow> (case json_loads e s of None \<Rightarrow> [] | Some d \<Rightarrow> d))"

text \<open>\<open>config.get(key) or target\<close>, where the configured value is a text.\<close>

definition url_of :: "dict \<Rightarrow> string \<Rightarrow> string \<Rightarrow> string" where
  "url_of config key target = (case dget config key of JStr s \<Rightarrow> if s \<noteq> [] then s else target | _ \<Rightarrow> target)"

definition lark_payload :: "string \<Rightarrow> string \<Rightarrow> json" where
  "lark_payload title content = JObj [(''msg_type'', JStr ''interactive''), (''card'', JObj
     [(''header'', JObj [(''title'', JObj [(''tag'', JStr ''plain_text''), (''content'', JStr title)])]),
      (''elements'', JList [JObj [(''tag'', JStr ''markdown''), (''content'', JStr content)]])])]"

definition text_payload :: "string \<Rightarrow> string \<Rightarrow> json" where
  "text_payload title content = JObj [(''msgtype'', JStr ''text''), (''text'', JObj [(''content'', JStr (title @ [CHR 0x0A] @ content))])]"

text \<open>\<open>channel.send\<close> by type; \<open>Some\<close> is the text of the exception it raises.\<close>

definition channel_send :: "'e notify_env_scheme \<Rightarrow> string \<Rightarrow> dict \<Rightarrow> string \<Rightarrow> string \<Rightarrow> string \<Rightarrow> string option" where
  "channel_send e ctype config target title content =
     (if ctype = ''lark'' then
        (if url_of config ''webhook'' target = [] then Some ''lark webhook not configured''
         else http_post e (url_of config ''webhook'' target) (lark_payload title content))
      else if ctype = ''email'' then
        (if \<not> truthy (dget config ''smtp_host'') then Some ''email smtp not configured''
         else Some ''smtp send delegated to production mailer'')
      else if ctype = ''webhook'' then
        http_post e (url_of config ''url'' target) (JObj [(''title'', JStr title), (''content'', JStr content)])
      else if ctype = ''dingtalk'' \<or> ctype = ''wecom'' then http_post e (url_of config ''webhook'' target) (text_payload title content)
      else Some ''unsupported channel type'')"

definition mask_config :: "dict \<Rightarrow> dict" where
  "mask_config config = map (\<lambda>(k, v). (k, case v of
     JStr s \<Rightarrow> if length s > 8 \<or> k \<in> {''webhook'', ''smtp_password''} then JStr (take 4 s @ ''****'') else JStr s | _ \<Rightarrow> v)) config"

definition list_channels :: "'e notify_env_scheme \<Rightarrow> 'z notify_db_scheme \<Rightarrow> (int \<times> string \<times> string \<times> int \<times> dict) list" where
  "list_channels e w = map (\<lambda>(i, c). (i, nc_name c, nc_type c, nc_enabled c, mask_config (config_of e c))) (rows (channels w))"

definition channel_not_found :: app_error where
  "channel_not_found = NotFoundError ''channel not found''"

definition seal_config :: "'e notify_env_scheme \<Rightarrow> dict \<Rightarrow> string" where
  "seal_config e config = encrypt_secret (env.truncate e) 1 (json_dumps e config)"

definition create_channel ::
  "'e notify_env_scheme \<Rightarrow> string \<Rightarrow> string \<Rightarrow> dict \<Rightarrow> int \<Rightarrow> 'z notify_db_scheme \<Rightarrow> (int \<times> 'z notify_db_scheme) res" where
  "create_channel e name ctype config enabled w =
     (if ctype \<notin> set CHANNELS then Inl (BadRequestError (''unsupported channel type: '' @ ctype))
      else Inr (next_id (channels w), w\<lparr>channels := tadd \<lparr>nc_name = name, nc_type = ctype, nc_config_enc = seal_config e config,
             nc_enabled = enabled\<rparr> (channels w)\<rparr>))"

definition update_channel ::
  "'e notify_env_scheme \<Rightarrow> int \<Rightarrow> string option \<Rightarrow> dict option \<Rightarrow> int option \<Rightarrow> 'z notify_db_scheme \<Rightarrow> (unit \<times> 'z notify_db_scheme) res" where
  "update_channel e cid name config enabled w =
     (if tget (channels w) cid = None then Inl channel_not_found
      else Inr ((), w\<lparr>channels := tupd cid (\<lambda>c. c\<lparr>nc_name := (if str_truthy name then the name else nc_name c),
             nc_config_enc := (case config of None \<Rightarrow> nc_config_enc c | Some d \<Rightarrow> seal_config e d),
             nc_enabled := (case enabled of None \<Rightarrow> nc_enabled c | Some n \<Rightarrow> n)\<rparr>) (channels w)\<rparr>))"

definition delete_channel :: "int \<Rightarrow> 'z notify_db_scheme \<Rightarrow> (unit \<times> 'z notify_db_scheme) res" where
  "delete_channel cid w =
     (if tget (channels w) cid = None then Inl channel_not_found else Inr ((), w\<lparr>channels := tdel cid (channels w)\<rparr>))"

definition set_channel_status :: "int \<Rightarrow> int \<Rightarrow> 'z notify_db_scheme \<Rightarrow> (unit \<times> 'z notify_db_scheme) res" where
  "set_channel_status cid enabled w =
     (if tget (channels w) cid = None then Inl channel_not_found
      else Inr ((), w\<lparr>channels := tupd cid (\<lambda>c. c\<lparr>nc_enabled := enabled\<rparr>) (channels w)\<rparr>))"

section \<open>Sending\<close>

text \<open>Every attempt leaves a record, sent or failed.\<close>

definition notify_record_of :: "'e notify_env_scheme \<Rightarrow> int \<Rightarrow> string \<Rightarrow> string \<Rightarrow> string \<Rightarrow> string \<Rightarrow> string option \<Rightarrow> time option \<Rightarrow> notify_record" where
  "notify_record_of e cid scene target title content err sent =
     \<lparr>nt_channel_id = cid, nt_scene = scene, nt_target = target, nt_title = title, nt_content = content,
      nt_status = (if err = None then ''sent'' else ''failed''), nt_error_msg = err, nt_sent_at = sent, nt_created_at = now e\<rparr>"

definition notify_send ::
  "'e notify_env_scheme \<Rightarrow> int \<Rightarrow> string \<Rightarrow> string \<Rightarrow> string \<Rightarrow> string \<Rightarrow> 'z notify_db_scheme \<Rightarrow> (bool \<times> string option) \<times> 'z notify_db_scheme" where
  "notify_send e cid scene target title content w =
     (let (err, sent) =
        (case tget (channels w) cid of
           None \<Rightarrow> (Some ''channel disabled or missing'', None)
         | Some c \<Rightarrow>
             if nc_enabled c \<noteq> 1 then (Some ''channel disabled or missing'', None)
             else (case channel_send e (nc_type c) (config_of e c) target title content of
                     None \<Rightarrow> (None, Some (now e))
                   | Some msg \<Rightarrow> (Some (take 512 msg), None)))
      in ((err = None, err), w\<lparr>notify_records := tadd (notify_record_of e cid scene target title content err sent) (notify_records w)\<rparr>))"

definition test_send :: "'e notify_env_scheme \<Rightarrow> int \<Rightarrow> string \<Rightarrow> string \<Rightarrow> 'z notify_db_scheme \<Rightarrow> (bool \<times> string option) \<times> 'z notify_db_scheme" where
  "test_send e cid title content w = notify_send e cid ''test'' [] title content w"

definition list_records ::
  "int option \<Rightarrow> string option \<Rightarrow> string option \<Rightarrow> time option \<Rightarrow> time option \<Rightarrow> int \<Rightarrow> int \<Rightarrow> 'z notify_db_scheme \<Rightarrow> (int \<times> notify_record) list \<times> nat" where
  "list_records cid scene status start stop page sz w =
     (let rs = rev (tselect (\<lambda>r. (int_truthy cid \<longrightarrow> nt_channel_id r = the cid) \<and> (str_truthy scene \<longrightarrow> nt_scene r = the scene) \<and>
                 (str_truthy status \<longrightarrow> nt_status r = the status) \<and> (start \<noteq> None \<longrightarrow> nt_created_at r \<ge> the start) \<and>
                 (stop \<noteq> None \<longrightarrow> nt_created_at r \<le> the stop)) (notify_records w))
      in (page_of page sz rs, length rs))"

definition resend :: "'e notify_env_scheme \<Rightarrow> int \<Rightarrow> 'z notify_db_scheme \<Rightarrow> ((bool \<times> string option) \<times> 'z notify_db_scheme) res" where
  "resend e rid w =
     (case tget (notify_records w) rid of
        None \<Rightarrow> Inl (NotFoundError ''record not found'')
      | Some r \<Rightarrow> Inr (notify_send e (nt_channel_id r) (nt_scene r) (nt_target r) (nt_title r) (nt_content r) w))"

lemma notify_send_one_record:
  "notify_send e cid scene target title content w = ((ok, err), w') \<Longrightarrow>
     \<exists>r. notify_records w' = tadd r (notify_records w) \<and> nt_channel_id r = cid \<and> nt_status r = (if ok then ''sent'' else ''failed'') \<and>
       channels w' = channels w"
  by (auto simp: notify_send_def notify_record_of_def Let_def split: option.splits if_splits prod.splits)

end
