(* ===== verification/Monitor_Engine.thy ===== *)
theory Monitor_Engine
  imports Notify_Service
begin

text \<open>
  The rule engine of the monitoring service (\<open>monitor_service.py\<close>): the alert rows with their event log,
  the evaluation of one event against the enabled rules, convergence, escalation, notification, and the
  sweep that advances alerts by time alone.

  An event is the dict it is in the code. An alert and its row are one: every field assignment of the code is
  an update of the row. The scope, escalation and channel lists of a rule are stored as \<open>{"ids": [...]}\<close>; here
  they are the lists. Columns that no code reads (\<open>description\<close>, \<open>escalation_severity\<close>, \<open>notify_scene\<close>, the detail of
  a log entry) are left out. Pushing to web sockets is recorded in \<open>mon_pushes\<close>.
\<close>

section \<open>Rows\<close>

datatype alert_status = LPending | LFiring | LAcknowledged | LResolved

record mon_rule =
  mr_name :: string
  mr_enabled :: int
  mr_event_source :: "string option"
  mr_event_kind :: string
  mr_metric_name :: "string option"
  mr_condition_operator :: string
  mr_condition_threshold :: rat
  mr_condition_duration_seconds :: int
  mr_scope_type :: "string option"
  mr_scope_ids :: "string list"
  mr_level :: string
  mr_cooldown_seconds :: int
  mr_converge_sec :: int
  mr_escalation_enabled :: int
  mr_escalation_after_seconds :: "int option"
  mr_escalate_levels :: "string list"
  mr_notify_channel_ids :: "int list"
  mr_deleted :: int
  mr_created_by :: "int option"

record mon_alert =
  ma_rule_id :: "int option"
  ma_rule_name :: string
  ma_entity :: dict
  ma_source :: json
  ma_status :: alert_status
  ma_severity :: string
  ma_last_value :: "rat option"
  ma_hit_count :: int
  ma_fired_at :: "time option"
  ma_resolved_at :: "time option"
  ma_last_event_at :: "time option"
  ma_pending_since :: "time option"
  ma_version :: int
  ma_created_at :: time

record alert_log =
  gl_alert_id :: int
  gl_action :: string
  gl_from_status :: "alert_status option"
  gl_to_status :: "alert_status option"
  gl_severity :: string
  gl_operator_id :: "int option"
  gl_at :: time

record mon_sample =
  sm_source :: string
  sm_metric_name :: string
  sm_entity_type :: string
  sm_entity_id :: string
  sm_value :: rat
  sm_ts :: time

record mon_daily =
  dy_source :: string
  dy_metric_name :: string
  dy_entity_type :: string
  dy_entity_id :: string
  dy_day :: int
  dy_min_value :: rat
  dy_max_value :: rat
  dy_avg_value :: rat
  dy_sample_count :: int

record mon_inbox_row =
  ib_source :: json
  ib_kind :: json
  ib_entity :: json
  ib_ts :: time
  ib_value :: "rat option"
  ib_severity :: json
  ib_labels :: json
  ib_raw :: json
  ib_fingerprint :: json
  ib_event_key :: "string option"
  ib_mapping_warning :: int
  ib_status :: string
  ib_error :: "string option"

record mon_env = notify_env +
  digest :: "json \<Rightarrow> string" \<comment> \<open>SHA-256 of the canonical JSON text\<close>
  container_str :: "json \<Rightarrow> string" \<comment> \<open>\<open>str()\<close> of a list or a dict\<close>
  isoformat :: "time \<Rightarrow> string"
  iso_date :: "string \<Rightarrow> int" \<comment> \<open>the calendar day of an ISO text, in its own offset\<close>
  fromtimestamp :: "rat \<Rightarrow> time option" \<comment> \<open>\<open>None\<close>: the number is out of the range of dates\<close>
  jsonb_text :: "json \<Rightarrow> string" \<comment> \<open>the database's text of a number, a list or a dict\<close>
  inbox_accepts :: "mon_inbox_row \<Rightarrow> bool" \<comment> \<open>the database takes the row: types and lengths of the columns\<close>

record mon_adapter =
  md_type :: string
  md_name :: string
  md_endpoint :: string
  md_config :: dict
  md_enabled :: int
  md_status :: string
  md_error_message :: "string option"
  md_created_by :: "int option"

record mon_db = notify_db +
  mon_hosts :: "host table"
  mon_rules :: "mon_rule table"
  mon_alerts :: "mon_alert table"
  mon_logs :: "alert_log table"
  mon_samples :: "mon_sample table"
  mon_dailies :: "mon_daily table"
  mon_inbox :: "mon_inbox_row table"
  mon_adapters :: "mon_adapter table"
  mon_pushes :: "(int \<times> alert_status) list"
  sweep_last :: "time option"

section \<open>Python texts and numbers\<close>

definition str_json :: "mon_env \<Rightarrow> json \<Rightarrow> string" where
  "str_json e j = (case j of JNull \<Rightarrow> ''None'' | JBool b \<Rightarrow> (if b then ''True'' else ''False'') | JInt n \<Rightarrow> show_int n
     | JFloat r \<Rightarrow> float_repr e r | JStr s \<Rightarrow> s | _ \<Rightarrow> container_str e j)"

definition to_float :: "mon_env \<Rightarrow> json \<Rightarrow> rat option" where
  "to_float e j = (case j of JBool _ \<Rightarrow> None | JInt n \<Rightarrow> Some (of_int n) | JFloat r \<Rightarrow> Some r | JStr s \<Rightarrow> float_of_str e s | _ \<Rightarrow> None)"

definition utf8 :: "nat list \<Rightarrow> string" where
  "utf8 bs = map char_of bs"

section \<open>Alerts and their log\<close>

definition put_alert :: "alert_status \<Rightarrow> int \<Rightarrow> mon_alert \<Rightarrow> mon_alert" where
  "put_alert s v r = r\<lparr>ma_status := s, ma_version := v\<rparr>"

interpretation alert_row: versioned_row ma_status ma_version put_alert
  by unfold_locales (auto simp: put_alert_def)

definition alert_optimistic_update ::
  "int \<Rightarrow> alert_status \<Rightarrow> alert_status \<Rightarrow> int \<Rightarrow> (mon_alert \<Rightarrow> mon_alert) \<Rightarrow> 'z mon_db_scheme \<Rightarrow> bool \<times> 'z mon_db_scheme" where
  "alert_optimistic_update i from to v upd w =
     (let (ok, t) = cas_row ma_status ma_version put_alert (mon_alerts w) i from to v
      in if ok then (True, w\<lparr>mon_alerts := tupd i upd t\<rparr>) else (False, w))"

definition upd_alert :: "int \<Rightarrow> (mon_alert \<Rightarrow> mon_alert) \<Rightarrow> 'z mon_db_scheme \<Rightarrow> 'z mon_db_scheme" where
  "upd_alert i f w = w\<lparr>mon_alerts := tupd i f (mon_alerts w)\<rparr>"

definition add_log ::
  "mon_env \<Rightarrow> int \<Rightarrow> string \<Rightarrow> alert_status option \<Rightarrow> alert_status option \<Rightarrow> string \<Rightarrow> int option \<Rightarrow> 'z mon_db_scheme \<Rightarrow> 'z mon_db_scheme" where
  "add_log e i action from to severity operator w = w\<lparr>mon_logs := tadd \<lparr>gl_alert_id = i, gl_action = action, gl_from_status = from,
     gl_to_status = to, gl_severity = severity, gl_operator_id = operator, gl_at = now e\<rparr> (mon_logs w)\<rparr>"

definition MON_ALERT_ACTIONS :: "string list" where
  "MON_ALERT_ACTIONS = [''fire'', ''acknowledge'', ''escalate'', ''resolve'', ''suppress'']"

definition log_alert_event ::
  "mon_env \<Rightarrow> int \<Rightarrow> string \<Rightarrow> alert_status option \<Rightarrow> alert_status option \<Rightarrow> string \<Rightarrow> 'z mon_db_scheme \<Rightarrow> 'z mon_db_scheme" where
  "log_alert_event e i action from to severity w =
     (if action \<notin> set MON_ALERT_ACTIONS then w else add_log e i action from to severity None w)"

definition timeline :: "'z mon_db_scheme \<Rightarrow> int \<Rightarrow> (int \<times> alert_log) list" where
  "timeline w i = tselect (\<lambda>r. gl_alert_id r = i) (mon_logs w)"

definition broadcast_alert :: "int \<Rightarrow> 'z mon_db_scheme \<Rightarrow> 'z mon_db_scheme" where
  "broadcast_alert i w = (case tget (mon_alerts w) i of None \<Rightarrow> w
     | Some a \<Rightarrow> w\<lparr>mon_pushes := mon_pushes w @ [(i, ma_status a)]\<rparr>)"

definition active_status :: "alert_status \<Rightarrow> bool" where
  "active_status s = (s \<in> {LPending, LFiring, LAcknowledged})"

definition tlast :: "('r \<Rightarrow> bool) \<Rightarrow> 'r table \<Rightarrow> (int \<times> 'r) option" where
  "tlast P t = (case rev (tselect P t) of [] \<Rightarrow> None | x # _ \<Rightarrow> Some x)"

definition active_by_rule_entity :: "'z mon_db_scheme \<Rightarrow> int \<Rightarrow> json \<Rightarrow> (int \<times> mon_alert) option" where
  "active_by_rule_entity w rid eid = tlast (\<lambda>a. ma_rule_id a = Some rid \<and> dget (ma_entity a) ''entity_id'' = eid \<and>
     active_status (ma_status a)) (mon_alerts w)"

definition recently_resolved :: "mon_env \<Rightarrow> 'z mon_db_scheme \<Rightarrow> int \<Rightarrow> json \<Rightarrow> int \<Rightarrow> (int \<times> mon_alert) option" where
  "recently_resolved e w rid eid window = tlast (\<lambda>a. ma_rule_id a = Some rid \<and> dget (ma_entity a) ''entity_id'' = eid \<and>
     ma_status a = LResolved \<and> (case ma_resolved_at a of None \<Rightarrow> False | Some t \<Rightarrow> t \<ge> now e - seconds (max window 0))) (mon_alerts w)"

definition enabled_rules :: "'z mon_db_scheme \<Rightarrow> (int \<times> mon_rule) list" where
  "enabled_rules w = tselect (\<lambda>r. mr_deleted r = 0 \<and> mr_enabled r = 1) (mon_rules w)"

section \<open>Notifying\<close>

definition NOTIFY_SCENE :: string where "NOTIFY_SCENE = ''alert''"

definition status_text :: "alert_status \<Rightarrow> string" where
  "status_text s = (case s of LPending \<Rightarrow> ''pending'' | LFiring \<Rightarrow> ''firing'' | LAcknowledged \<Rightarrow> ''acknowledged'' | LResolved \<Rightarrow> ''resolved'')"

text \<open>The Chinese texts of the titles and of the message body, in UTF-8.\<close>

definition title_fired :: "string \<Rightarrow> string" where
  "title_fired n = utf8 [0xe5, 0x91, 0x8a, 0xe8, 0xad, 0xa6, 0xe8, 0xa7, 0xa6, 0xe5, 0x8f, 0x91, 0xef, 0xbc, 0x9a] @ n"

definition title_resolved :: "string \<Rightarrow> string" where
  "title_resolved n = utf8 [0xe5, 0x91, 0x8a, 0xe8, 0xad, 0xa6, 0xe6, 0x81, 0xa2, 0xe5, 0xa4, 0x8d, 0xef, 0xbc, 0x9a] @ n"

definition title_escalated :: "string \<Rightarrow> string" where
  "title_escalated n = utf8 [0xe5, 0x8d, 0x87, 0xe7, 0xba, 0xa7, 0xe5, 0x91, 0x8a, 0xe8, 0xad, 0xa6, 0xe6, 0x8f, 0x90, 0xe9, 0x86, 0x92, 0xef, 0xbc, 0x9a] @ n"

definition alert_content :: "mon_env \<Rightarrow> mon_alert \<Rightarrow> string" where
  "alert_content e a =
     utf8 [0xe5, 0x91, 0x8a, 0xe8, 0xad, 0xa6, 0xe5, 0xaf, 0xb9, 0xe8, 0xb1, 0xa1, 0x3a, 0x20] @
       str_json e (jor (dget (ma_entity a) ''entity_name'') (dget (ma_entity a) ''entity_id'')) @ [CHR 0x0A] @
     utf8 [0xe7, 0xba, 0xa7, 0xe5, 0x88, 0xab, 0x3a, 0x20] @ ma_severity a @ [CHR 0x0A] @
     utf8 [0xe7, 0x8a, 0xb6, 0xe6, 0x80, 0x81, 0x3a, 0x20] @ status_text (ma_status a) @ [CHR 0x0A] @
     utf8 [0xe6, 0x9c, 0x80, 0xe8, 0xbf, 0x91, 0xe5, 0x80, 0xbc, 0x3a, 0x20] @
       str_json e (case ma_last_value a of None \<Rightarrow> JNull | Some v \<Rightarrow> JFloat v) @ [CHR 0x0A] @
     utf8 [0xe6, 0xba, 0x90, 0x3a, 0x20] @ str_json e (ma_source a)"

definition send_alert_notify :: "mon_env \<Rightarrow> int \<Rightarrow> mon_rule \<Rightarrow> (string \<Rightarrow> string) \<Rightarrow> 'z mon_db_scheme \<Rightarrow> 'z mon_db_scheme" where
  "send_alert_notify e i rule title w =
     (case tget (mon_alerts w) i of
        None \<Rightarrow> w
      | Some a \<Rightarrow> fold (\<lambda>cid w. snd (notify_send e cid NOTIFY_SCENE [] (title (ma_rule_name a)) (alert_content e a) w))
                    (mr_notify_channel_ids rule) w)"

text \<open>The gate of \<open>_maybe_notify\<close>: silent while the newest \<open>fire\<close> entry of the log is younger than the cooldown.\<close>

definition in_cooldown :: "mon_env \<Rightarrow> int \<Rightarrow> mon_rule \<Rightarrow> 'z mon_db_scheme \<Rightarrow> bool" where
  "in_cooldown e i rule w =
     (let cooldown_sec = max (mr_cooldown_seconds rule) 0;
          sends = filter (\<lambda>(j, l). gl_action l = ''fire'') (timeline w i)
      in cooldown_sec > 0 \<and> sends \<noteq> [] \<and>
         now e - fold max (map (\<lambda>(j, l). gl_at l) sends) (gl_at (snd (hd sends))) < seconds cooldown_sec)"

definition alert_now :: "'z mon_db_scheme \<Rightarrow> int \<Rightarrow> mon_alert option" where
  "alert_now w i = tget (mon_alerts w) i"

definition log_now :: "mon_env \<Rightarrow> int \<Rightarrow> string \<Rightarrow> 'z mon_db_scheme \<Rightarrow> 'z mon_db_scheme" where
  "log_now e i action w = (case alert_now w i of None \<Rightarrow> w
     | Some a \<Rightarrow> log_alert_event e i action (Some (ma_status a)) (Some (ma_status a)) (ma_severity a) w)"

definition maybe_notify :: "mon_env \<Rightarrow> int \<Rightarrow> mon_rule \<Rightarrow> 'z mon_db_scheme \<Rightarrow> string \<times> 'z mon_db_scheme" where
  "maybe_notify e i rule w =
     (if in_cooldown e i rule w then (''suppress'', log_now e i ''suppress'' w)
      else (''fire'', send_alert_notify e i rule title_fired w))"

section \<open>Escalating and resolving\<close>

fun index_of :: "'a \<Rightarrow> 'a list \<Rightarrow> nat option" where
  "index_of x [] = None"
| "index_of x (y # ys) = (if x = y then Some 0 else map_option Suc (index_of x ys))"

text \<open>The level an alert escalates to, if its time has come.\<close>

definition escalation_target :: "mon_env \<Rightarrow> mon_rule \<Rightarrow> mon_alert \<Rightarrow> string option" where
  "escalation_target e rule a =
     (if mr_escalation_enabled rule = 0 then None
      else case (mr_escalation_after_seconds rule, ma_fired_at a) of
             (Some after_sec, Some fired) \<Rightarrow>
               (if after_sec \<le> 0 then None
                else (let levels = mr_escalate_levels rule;
                          next_idx = (case index_of (ma_severity a) levels of None \<Rightarrow> 0 | Some k \<Rightarrow> Suc k)
                      in if next_idx \<ge> length levels then None
                         else if now e - fired < seconds (after_sec * (int next_idx + 1)) then None
                         else Some (levels ! next_idx)))
           | _ \<Rightarrow> None)"

definition maybe_escalate :: "mon_env \<Rightarrow> int \<Rightarrow> mon_rule \<Rightarrow> 'z mon_db_scheme \<Rightarrow> bool \<times> 'z mon_db_scheme" where
  "maybe_escalate e i rule w =
     (case alert_now w i of
        None \<Rightarrow> (False, w)
      | Some a \<Rightarrow>
          (case escalation_target e rule a of
             None \<Rightarrow> (False, w)
           | Some target \<Rightarrow>
               (True, send_alert_notify e i rule title_escalated
                        (log_now e i ''escalate'' (upd_alert i (\<lambda>r. r\<lparr>ma_severity := target\<rparr>) w)))))"

definition resolve_alert_engine :: "mon_env \<Rightarrow> int \<Rightarrow> 'z mon_db_scheme \<Rightarrow> bool \<times> 'z mon_db_scheme" where
  "resolve_alert_engine e i w =
     (case alert_now w i of
        None \<Rightarrow> (False, w)
      | Some a \<Rightarrow>
          if ma_status a = LResolved then (False, w)
          else (case alert_optimistic_update i (ma_status a) LResolved (ma_version a) (\<lambda>r. r\<lparr>ma_resolved_at := Some (now e)\<rparr>) w of
                  (False, _) \<Rightarrow> (False, w)
                | (True, w1) \<Rightarrow>
                    (let w2 = log_alert_event e i ''resolve'' (Some (ma_status a)) (Some LResolved) (ma_severity a) w1
                     in (True, case (if int_truthy (ma_rule_id a) then tget (mon_rules w2) (the (ma_rule_id a)) else None) of
                                 None \<Rightarrow> w2
                               | Some rule \<Rightarrow> send_alert_notify e i rule title_resolved w2))))"

section \<open>Evaluating an event\<close>

definition entity_key :: "dict \<Rightarrow> json" where
  "entity_key ev = dget (as_dict (dget ev ''entity'')) ''entity_id''"

text \<open>\<open>str(name).strip()\<close> of the first name that is there; \<open>unknown\<close> counts as no name.\<close>

definition resolve_metric_name :: "mon_env \<Rightarrow> dict \<Rightarrow> string option" where
  "resolve_metric_name e ev =
     (let labels = as_dict (dget ev ''labels'');
          name = jor (dget labels ''metric_name'') (jor (dget labels ''__name__'') (jor (dget ev ''metric_name'') (dget ev ''name'')))
      in if \<not> truthy name then None
         else (let s = strip (str_json e name) in if s = [] \<or> lower s = ''unknown'' then None else Some s))"

definition rule_pertains :: "mon_env \<Rightarrow> mon_rule \<Rightarrow> dict \<Rightarrow> bool" where
  "rule_pertains e rule ev =
     (dget ev ''kind'' = JStr (mr_event_kind rule) \<and>
      (str_truthy (mr_event_source rule) \<longrightarrow> dget ev ''source'' = JStr (the (mr_event_source rule))) \<and>
      (mr_event_kind rule = ''metric'' \<longrightarrow> str_truthy (mr_metric_name rule) \<longrightarrow>
         (case resolve_metric_name e ev of None \<Rightarrow> [] | Some n \<Rightarrow> n) = the (mr_metric_name rule)) \<and>
      (str_truthy (mr_scope_type rule) \<longrightarrow> mr_scope_ids rule \<noteq> [] \<longrightarrow> str_json e (entity_key ev) \<in> set (mr_scope_ids rule)))"

text \<open>A comparison with \<open>None\<close>: equality is false, inequality true, an ordering raises and counts as false.\<close>

definition check_condition :: "mon_rule \<Rightarrow> rat option \<Rightarrow> bool" where
  "check_condition rule value =
     (let thr = mr_condition_threshold rule; op = mr_condition_operator rule
      in case value of
           None \<Rightarrow> op = ''!=''
         | Some v \<Rightarrow>
             (op = ''=='' \<and> v = thr) \<or> (op = ''!='' \<and> v \<noteq> thr) \<or> (op = ''>'' \<and> v > thr) \<or> (op = ''<'' \<and> v < thr) \<or>
             (op = ''>='' \<and> v \<ge> thr) \<or> (op = ''<='' \<and> v \<le> thr))"

definition condition_met :: "mon_env \<Rightarrow> mon_rule \<Rightarrow> dict \<Rightarrow> bool" where
  "condition_met e rule ev =
     (case dget ev ''value'' of
        JNull \<Rightarrow> True
      | JBool b \<Rightarrow> check_condition rule (Some (if b then 1 else 0))
      | v \<Rightarrow> check_condition rule (to_float e v))"

definition event_value :: "mon_env \<Rightarrow> dict \<Rightarrow> rat option" where
  "event_value e ev = to_float e (dget ev ''value'')"

definition try_converge :: "mon_env \<Rightarrow> int \<Rightarrow> mon_rule \<Rightarrow> dict \<Rightarrow> 'z mon_db_scheme \<Rightarrow> 'z mon_db_scheme option" where
  "try_converge e rid rule ev w =
     (if mr_converge_sec rule \<le> 0 then None
      else case recently_resolved e w rid (entity_key ev) (mr_converge_sec rule) of
             None \<Rightarrow> None
           | Some (i, a) \<Rightarrow>
               (case alert_optimistic_update i LResolved LPending (ma_version a)
                       (\<lambda>r. r\<lparr>ma_resolved_at := None, ma_fired_at := None\<rparr>) w of
                  (False, _) \<Rightarrow> None
                | (True, w1) \<Rightarrow>
                    (let w2 = upd_alert i (\<lambda>r. r\<lparr>ma_pending_since := Some (now e), ma_last_event_at := Some (now e),
                                 ma_hit_count := ma_hit_count r + 1, ma_last_value := event_value e ev\<rparr>) w1
                     in Some (broadcast_alert i (log_alert_event e i ''fire'' (Some LResolved) (Some LPending) (ma_severity a) w2)))))"

definition fallback_entity :: dict where
  "fallback_entity = [(''entity_type'', JStr ''host''), (''entity_id'', JStr ''unknown''), (''entity_name'', JStr ''unknown'')]"

definition new_alert :: "mon_env \<Rightarrow> int \<Rightarrow> mon_rule \<Rightarrow> dict \<Rightarrow> mon_alert" where
  "new_alert e rid rule ev =
     \<lparr>ma_rule_id = Some rid, ma_rule_name = mr_name rule,
      ma_entity = (if truthy (dget ev ''entity'') then as_dict (dget ev ''entity'') else fallback_entity),
      ma_source = (if dhas ev ''source'' then dget ev ''source'' else JStr ''agent''), ma_status = LPending,
      ma_severity = (if mr_level rule \<noteq> [] then mr_level rule
                     else case jor (dget ev ''severity'') (JStr ''warning'') of JStr s \<Rightarrow> s | _ \<Rightarrow> []),
      ma_last_value = event_value e ev, ma_hit_count = 1, ma_fired_at = None, ma_resolved_at = None,
      ma_last_event_at = Some (now e), ma_pending_since = Some (now e), ma_version = 0, ma_created_at = now e\<rparr>"

definition first_hit :: "mon_env \<Rightarrow> int \<Rightarrow> mon_rule \<Rightarrow> dict \<Rightarrow> 'z mon_db_scheme \<Rightarrow> 'z mon_db_scheme" where
  "first_hit e rid rule ev w =
     (let i = next_id (mon_alerts w); a = new_alert e rid rule ev;
          w1 = w\<lparr>mon_alerts := tadd a (mon_alerts w)\<rparr>
      in broadcast_alert i (log_alert_event e i ''fire'' None (Some LPending) (ma_severity a) w1))"

definition pending_anchor :: "mon_alert \<Rightarrow> time" where
  "pending_anchor a = (case ma_pending_since a of Some t \<Rightarrow> t | None \<Rightarrow> ma_created_at a)"

text \<open>From pending to firing, by an event or by the sweep.\<close>

definition fire_alert :: "mon_env \<Rightarrow> int \<Rightarrow> mon_alert \<Rightarrow> mon_rule \<Rightarrow> 'z mon_db_scheme \<Rightarrow> (string \<times> 'z mon_db_scheme) option" where
  "fire_alert e i a rule w =
     (case alert_optimistic_update i LPending LFiring (ma_version a) (\<lambda>r. r\<lparr>ma_fired_at := Some (now e)\<rparr>) w of
        (False, _) \<Rightarrow> None
      | (True, w1) \<Rightarrow>
          (let (outcome, w2) = maybe_notify e i rule (log_alert_event e i ''fire'' (Some LPending) (Some LFiring) (ma_severity a) w1)
           in Some (outcome, broadcast_alert i w2)))"

definition eval_pending :: "mon_env \<Rightarrow> int \<Rightarrow> mon_alert \<Rightarrow> mon_rule \<Rightarrow> 'z mon_db_scheme \<Rightarrow> string option \<times> 'z mon_db_scheme" where
  "eval_pending e i a rule w =
     (if now e - pending_anchor a \<ge> seconds (mr_condition_duration_seconds rule)
      then (case fire_alert e i a rule w of None \<Rightarrow> (None, w) | Some (outcome, w1) \<Rightarrow> (Some outcome, w1))
      else (Some ''suppress'', log_alert_event e i ''suppress'' (Some LPending) (Some LPending) (ma_severity a) w))"

definition eval_firing :: "mon_env \<Rightarrow> int \<Rightarrow> mon_alert \<Rightarrow> mon_rule \<Rightarrow> 'z mon_db_scheme \<Rightarrow> string option \<times> 'z mon_db_scheme" where
  "eval_firing e i a rule w =
     (let (ok, w1) = alert_optimistic_update i (ma_status a) (ma_status a) (ma_version a) id w;
          (outcome, w2) = maybe_notify e i rule w1;
          (escalated, w3) = maybe_escalate e i rule w2;
          action = (if escalated then ''escalate'' else outcome)
      in (Some action, if action \<noteq> ''suppress'' then broadcast_alert i w3 else w3))"

definition touch_alert :: "mon_env \<Rightarrow> dict \<Rightarrow> mon_alert \<Rightarrow> mon_alert" where
  "touch_alert e ev r = r\<lparr>ma_last_event_at := Some (now e), ma_hit_count := ma_hit_count r + 1, ma_last_value := event_value e ev\<rparr>"

definition eval_rule :: "mon_env \<Rightarrow> dict \<Rightarrow> int \<times> mon_rule \<Rightarrow> 'z mon_db_scheme \<Rightarrow> string option \<times> 'z mon_db_scheme" where
  "eval_rule e ev it w =
     (let (rid, rule) = it; alert = active_by_rule_entity w rid (entity_key ev)
      in if \<not> rule_pertains e rule ev then (None, w)
         else if \<not> condition_met e rule ev
         then (case alert of None \<Rightarrow> (None, w) | Some (i, a) \<Rightarrow> (Some ''resolve'', snd (resolve_alert_engine e i w)))
         else (case alert of
                 None \<Rightarrow> (case try_converge e rid rule ev w of
                            Some w1 \<Rightarrow> (Some ''converge'', w1)
                          | None \<Rightarrow> (Some ''fire'', first_hit e rid rule ev w))
               | Some (i, a) \<Rightarrow>
                   (let w1 = upd_alert i (touch_alert e ev) w
                    in if ma_status a = LPending then eval_pending e i a rule w1 else eval_firing e i a rule w1)))"

fun eval_rules :: "mon_env \<Rightarrow> dict \<Rightarrow> (int \<times> mon_rule) list \<Rightarrow> 'z mon_db_scheme \<Rightarrow> (int \<times> string) list \<times> 'z mon_db_scheme" where
  "eval_rules e ev [] w = ([], w)"
| "eval_rules e ev (it # its) w =
     (let (out, w1) = eval_rule e ev it w; (outs, w2) = eval_rules e ev its w1
      in ((case out of None \<Rightarrow> [] | Some a \<Rightarrow> [(fst it, a)]) @ outs, w2))"

text \<open>The entity of the query must be a text or absent: comparing the text of the JSON column with anything else is an
  error of the database.\<close>

definition evaluate_event :: "mon_env \<Rightarrow> dict \<Rightarrow> 'z mon_db_scheme \<Rightarrow> ((int \<times> string) list \<times> 'z mon_db_scheme) res" where
  "evaluate_event e ev w =
     (if enabled_rules w \<noteq> [] \<and> (case entity_key ev of JStr _ \<Rightarrow> False | JNull \<Rightarrow> False | _ \<Rightarrow> True) then Inl TypeError
      else Inr (eval_rules e ev (enabled_rules w) w))"

section \<open>The sweep\<close>

definition mon_feature_enabled :: "'z sys_db_scheme \<Rightarrow> bool" where
  "mon_feature_enabled w = (case by_key w ''feature.monitor'' of None \<Rightarrow> True
     | Some rv \<Rightarrow> dget rv ''enabled'' \<notin> {JInt 0, JBool False, JFloat 0})"

definition config_seconds :: "'z sys_db_scheme \<Rightarrow> string \<Rightarrow> int \<Rightarrow> int" where
  "config_seconds w key dflt =
     (case by_key w key of
        None \<Rightarrow> dflt
      | Some rv \<Rightarrow> (case dget rv ''seconds'' of JNull \<Rightarrow> dflt | v \<Rightarrow> (case py_int v of None \<Rightarrow> dflt | Some n \<Rightarrow> n)))"

definition is_stale :: "mon_env \<Rightarrow> mon_alert \<Rightarrow> int \<Rightarrow> bool" where
  "is_stale e a freshness_sec = (case ma_last_event_at a of None \<Rightarrow> False | Some l \<Rightarrow> now e - l > seconds freshness_sec)"

definition sweep_due :: "mon_env \<Rightarrow> 'z mon_db_scheme \<Rightarrow> bool \<times> 'z mon_db_scheme" where
  "sweep_due e w =
     (let interval = config_seconds w ''monitor.sweep_interval'' 30
      in if interval \<le> 0 \<or> \<not> redis_up e then (True, w)
         else if (case sweep_last w of None \<Rightarrow> False | Some l \<Rightarrow> now e - l < seconds interval) then (False, w)
         else (True, w\<lparr>sweep_last := Some (now e)\<rparr>))"

definition sweep_one :: "mon_env \<Rightarrow> int \<Rightarrow> int \<times> mon_alert \<Rightarrow> (nat \<times> nat) \<times> 'z mon_db_scheme \<Rightarrow> (nat \<times> nat) \<times> 'z mon_db_scheme" where
  "sweep_one e freshness it st =
     (let (i, a) = it; ((fired, escalated), w) = st
      in case (if int_truthy (ma_rule_id a) then tget (mon_rules w) (the (ma_rule_id a)) else None) of
           None \<Rightarrow> st
         | Some rule \<Rightarrow>
             if mr_deleted rule \<noteq> 0 \<or> mr_enabled rule = 0 \<or> is_stale e a freshness then st
             else if ma_status a = LPending
             then (if now e - pending_anchor a \<ge> seconds (mr_condition_duration_seconds rule)
                   then (case fire_alert e i a rule w of None \<Rightarrow> st | Some (_, w1) \<Rightarrow> ((Suc fired, escalated), w1))
                   else st)
             else (case maybe_escalate e i rule w of
                     (True, w1) \<Rightarrow> ((fired, Suc escalated), broadcast_alert i w1)
                   | (False, _) \<Rightarrow> st))"

definition active_alerts :: "'z mon_db_scheme \<Rightarrow> (int \<times> mon_alert) list" where
  "active_alerts w = take 500 (tselect (\<lambda>a. active_status (ma_status a)) (mon_alerts w))"

datatype sweep_result = SweepSkipped string | Swept nat nat

definition sweep_active_alerts :: "mon_env \<Rightarrow> 'z mon_db_scheme \<Rightarrow> sweep_result \<times> 'z mon_db_scheme" where
  "sweep_active_alerts e w =
     (if \<not> mon_feature_enabled w then (SweepSkipped ''feature_disabled'', w)
      else (case sweep_due e w of
              (False, w1) \<Rightarrow> (SweepSkipped ''not_due'', w1)
            | (True, w1) \<Rightarrow>
                (let ((fired, escalated), w2) = fold (sweep_one e (config_seconds w1 ''monitor.metric_freshness_seconds'' 300))
                       (active_alerts w1) ((0, 0), w1)
                 in (Swept fired escalated, w2))))"

end
