(* ===== verification/Monitor_Ingest.thy ===== *)
theory Monitor_Ingest
  imports Monitor_Engine
begin

text \<open>
  What happens to a pushed payload (\<open>monitor_service.py\<close>, \<open>validate_event\<close> to \<open>_dead_letter\<close>): the external
  formats are normalised to events; an event is validated, checked for a repeat, stored in the inbox, kept as a
  metric sample with its daily aggregate, and run through the rules; what cannot be used is a dead letter.

  \<open>Inl TypeError\<close> is an exception that reaches the client as a 500, where the payload has a value of another
  type than the code expects. \<open>notify_service.send\<close> commits the session, so what a batch had done before such an
  exception can survive it; the model says nothing about the state after an \<open>Inl\<close> of \<open>ingest\<close>. Where the code
  builds a dict from a JSON value, an object or an empty value is taken and anything else is a type error.
\<close>

section \<open>Events\<close>

definition MON_SOURCES :: "string list" where
  "MON_SOURCES = [''agent'', ''prometheus'', ''elk'', ''skywalking'', ''alertmanager'', ''webhook'']"

definition MON_KINDS :: "string list" where
  "MON_KINDS = [''metric'', ''alert'', ''log'', ''apm'']"

definition MON_LEVELS :: "string list" where
  "MON_LEVELS = [''info'', ''warning'', ''critical'']"

definition one_of :: "json \<Rightarrow> string list \<Rightarrow> bool" where
  "one_of j ss = (case j of JStr s \<Rightarrow> s \<in> set ss | _ \<Rightarrow> False)"

definition hashable :: "json \<Rightarrow> bool" where
  "hashable j = (case j of JList _ \<Rightarrow> False | JObj _ \<Rightarrow> False | _ \<Rightarrow> True)"

definition numeric :: "json \<Rightarrow> bool" where
  "numeric j = (case j of JInt _ \<Rightarrow> True | JFloat _ \<Rightarrow> True | JBool _ \<Rightarrow> True | _ \<Rightarrow> False)"

text \<open>\<open>Inr None\<close> is a valid event, \<open>Inr (Some error)\<close> an invalid one. Asking a set for a list or a dict raises.\<close>

definition validate_event :: "mon_env \<Rightarrow> dict \<Rightarrow> string option res" where
  "validate_event e event =
     (let source = dget event ''source''; kind = dget event ''kind''; entity = dget event ''entity''
      in if \<not> hashable source then Inl TypeError
         else if \<not> one_of source MON_SOURCES then Inr (Some (''invalid source: '' @ str_json e source))
         else if \<not> hashable kind then Inl TypeError
         else if \<not> one_of kind MON_KINDS then Inr (Some (''invalid kind: '' @ str_json e kind))
         else if \<not> truthy (dget (as_dict entity) ''entity_id'') then Inr (Some ''entity.entity_id required'')
         else if \<not> truthy (dget event ''ts'') then Inr (Some ''ts required'')
         else if kind = JStr ''metric'' \<and> \<not> numeric (dget event ''value'') then Inr (Some ''metric kind requires numeric value'')
         else Inr None)"

definition build_fingerprint :: "mon_env \<Rightarrow> dict \<Rightarrow> string" where
  "build_fingerprint e event = digest e (JObj
     [(''source'', dget event ''source''), (''kind'', dget event ''kind''), (''entity'', dget event ''entity''),
      (''ts'', if truthy (dget event ''ts'') then JStr (str_json e (dget event ''ts'')) else dget event ''ts''),
      (''value'', dget event ''value''), (''severity'', dget event ''severity''), (''labels'', jor (dget event ''labels'') (JObj []))])"

definition build_event_key :: "mon_env \<Rightarrow> json \<Rightarrow> json \<Rightarrow> string option" where
  "build_event_key e source event_id =
     (if \<not> truthy event_id then None else Some (str_json e source @ '':'' @ str_json e event_id))"

section \<open>Normalisation\<close>

definition severity_from_status :: "string \<Rightarrow> string" where
  "severity_from_status status = (case map_of
     [(''critical'', ''critical''), (''error'', ''warning''), (''warning'', ''warning''), (''warn'', ''warning''), (''info'', ''info''),
      (''firing'', ''warning''), (''pending'', ''info'')] (lower status) of Some s \<Rightarrow> s | None \<Rightarrow> ''warning'')"

text \<open>The argument as a JSON value: \<open>(status or "").lower()\<close> of a value that is no text raises.\<close>

definition severity_of :: "json \<Rightarrow> string res" where
  "severity_of status = (case jor status (JStr []) of JStr s \<Rightarrow> Inr (severity_from_status s) | _ \<Rightarrow> Inl TypeError)"

definition dict_or_empty :: "json \<Rightarrow> dict res" where
  "dict_or_empty j = (if \<not> truthy j then Inr [] else case j of JObj d \<Rightarrow> Inr d | _ \<Rightarrow> Inl TypeError)"

fun map_res :: "('a \<Rightarrow> 'b res) \<Rightarrow> 'a list \<Rightarrow> 'b list res" where
  "map_res f [] = Inr []"
| "map_res f (x # xs) = (case f x of Inl err \<Rightarrow> Inl err | Inr y \<Rightarrow> (case map_res f xs of Inl err \<Rightarrow> Inl err | Inr ys \<Rightarrow> Inr (y # ys)))"

text \<open>\<open>for x in (j or [])\<close>, where each item must be a dict.\<close>

definition dicts_of :: "json \<Rightarrow> dict list res" where
  "dicts_of j = (if \<not> truthy j then Inr [] else case py_iter j of None \<Rightarrow> Inl TypeError
     | Some xs \<Rightarrow> map_res (\<lambda>x. case x of JObj d \<Rightarrow> Inr d | _ \<Rightarrow> Inl TypeError) xs)"

definition now_iso :: "mon_env \<Rightarrow> json" where
  "now_iso e = JStr (isoformat e (now e))"

definition entity_of :: "string \<Rightarrow> json \<Rightarrow> json \<Rightarrow> json" where
  "entity_of etype eid ename = JObj [(''entity_type'', JStr etype), (''entity_id'', eid), (''entity_name'', ename)]"

definition alertmanager_event :: "mon_env \<Rightarrow> dict \<Rightarrow> dict \<Rightarrow> dict res" where
  "alertmanager_event e payload alert =
     (case dict_or_empty (dget alert ''labels'') of
        Inl err \<Rightarrow> Inl err
      | Inr labels \<Rightarrow>
          (let entity_id = jor (dget labels ''instance'') (jor (dget labels ''host'') (JStr ''unknown''));
               entity_name = jor (dget labels ''hostname'') (jor (dget labels ''node'') entity_id);
               status = jor (dget payload ''status'') (jor (dget alert ''status'') (JStr ''firing''))
           in case severity_of (jor (dget labels ''severity'') status) of
                Inl err \<Rightarrow> Inl err
              | Inr severity \<Rightarrow> Inr
                  [(''source'', JStr ''alertmanager''), (''kind'', JStr ''alert''), (''entity'', entity_of ''host'' entity_id entity_name),
                   (''ts'', jor (dget alert ''startsAt'') (jor (dget payload ''now'') (now_iso e))), (''value'', JNull),
                   (''severity'', JStr severity), (''labels'', JObj labels),
                   (''raw'', JObj [(''alert'', JObj alert), (''status'', status)]),
                   (''event_id'', jor (dget labels ''alertname'') (JStr (str_json e (jor (dget alert ''fingerprint'') (JStr [])))))]))"

definition normalize_alertmanager :: "mon_env \<Rightarrow> dict \<Rightarrow> dict list res" where
  "normalize_alertmanager e payload =
     (case dicts_of (dget payload ''alerts'') of Inl err \<Rightarrow> Inl err | Inr alerts \<Rightarrow> map_res (alertmanager_event e payload) alerts)"

text \<open>A sample is a dict with \<open>ts\<close> and \<open>value\<close> or a list of the two.\<close>

definition sample_part :: "json \<Rightarrow> string \<Rightarrow> nat \<Rightarrow> json" where
  "sample_part s key i = (case s of JObj d \<Rightarrow> dget d key | JList xs \<Rightarrow> if length xs > 1 then xs ! i else JNull | _ \<Rightarrow> JNull)"

definition scrape_error :: "json \<Rightarrow> json \<Rightarrow> string" where
  "scrape_error entity_id label_name =
     (if entity_id = JStr ''unknown'' then (if truthy label_name then ''missing_instance_label'' else ''missing_instance_label,missing_metric_name'')
      else if truthy label_name then [] else ''missing_metric_name'')"

definition prometheus_events :: "mon_env \<Rightarrow> dict \<Rightarrow> dict list res" where
  "prometheus_events e series =
     (case dict_or_empty (dget series ''labels'') of
        Inl err \<Rightarrow> Inl err
      | Inr labels \<Rightarrow>
          (let values = jor (dget series ''samples'') (jor (dget series ''values'') (JList []));
               entity_id = jor (dget labels ''instance'') (JStr ''unknown'');
               entity_name = jor (dget labels ''hostname'') entity_id;
               label_name = jor (dget labels ''__name__'') (jor (dget labels ''metric_name'') (dget series ''name''));
               serr = scrape_error entity_id label_name
           in case py_iter values of
                None \<Rightarrow> Inl TypeError
              | Some ss \<Rightarrow> Inr (map (\<lambda>s.
                  [(''source'', JStr ''prometheus''), (''kind'', JStr ''metric''), (''entity'', entity_of ''host'' entity_id entity_name),
                   (''ts'', jor (sample_part s ''ts'' 0) (now_iso e)),
                   (''value'', case to_float e (sample_part s ''value'' 1) of None \<Rightarrow> JNull | Some v \<Rightarrow> JFloat v), (''severity'', JNull),
                   (''labels'', JObj (if truthy label_name then dset labels ''metric_name'' label_name else labels)),
                   (''raw'', JObj ((''job'', dget labels ''job'') # (if serr \<noteq> [] then [(''scrape_error'', JStr serr)] else []))),
                   (''event_id'', JNull)]) ss)))"

definition normalize_prometheus_remote :: "mon_env \<Rightarrow> dict \<Rightarrow> dict list res" where
  "normalize_prometheus_remote e payload =
     (case dicts_of (dget payload ''metric'') of
        Inl err \<Rightarrow> Inl err
      | Inr series \<Rightarrow> (case map_res (prometheus_events e) series of Inl err \<Rightarrow> Inl err | Inr evs \<Rightarrow> Inr (concat evs)))"

definition elk_event :: "mon_env \<Rightarrow> json \<Rightarrow> dict res" where
  "elk_event e doc =
     (let src = as_dict (dget (as_dict doc) ''_source'');
          log_level = jor (dget src ''log.level'') (jor (dget src ''level'') (JStr ''info''))
      in case log_level of
           JStr lv \<Rightarrow> Inr
             [(''source'', JStr ''elk''), (''kind'', JStr (if lower lv \<notin> {''error'', ''fatal''} then ''log'' else ''alert'')),
              (''entity'', entity_of ''host'' (jor (dget src ''host.name'') (JStr ''unknown'')) (jor (dget src ''host.name'') (JStr ''unknown''))),
              (''ts'', jor (dget src ''@timestamp'') (now_iso e)), (''value'', JNull), (''severity'', JStr (severity_from_status lv)),
              (''labels'', JObj [(''log_level'', JStr lv),
                 (''service'', case dget src ''service'' of JObj d \<Rightarrow> dget d ''name'' | s \<Rightarrow> s)]),
              (''raw'', JObj src), (''event_id'', dget src ''event_id'')]
         | _ \<Rightarrow> Inl TypeError)"

definition skywalking_event :: "mon_env \<Rightarrow> dict \<Rightarrow> dict res" where
  "skywalking_event e payload =
     (let status = jor (dget payload ''status'') (jor (dget payload ''statusCode'') (JStr ''UNKNOWN''))
      in case severity_of status of
           Inl err \<Rightarrow> Inl err
         | Inr severity \<Rightarrow>
             (case dict_or_empty (dget payload ''labels'') of
                Inl err \<Rightarrow> Inl err
              | Inr labels \<Rightarrow> Inr
                  [(''source'', JStr ''skywalking''), (''kind'', JStr ''apm''),
                   (''entity'', entity_of ''app'' (jor (dget payload ''entity'') (jor (dget payload ''service'') (JStr ''unknown'')))
                      (jor (dget payload ''service'') (jor (dget payload ''entity'') (JStr ''unknown'')))),
                   (''ts'', jor (dget payload ''ts'') (now_iso e)),
                   (''value'', case to_float e (dget payload ''value'') of None \<Rightarrow> JNull | Some v \<Rightarrow> JFloat v), (''severity'', JStr severity),
                   (''labels'', JObj (fold (\<lambda>(k, v) d. dset d k v) labels [(''statusCode'', status)])), (''raw'', JObj payload),
                   (''event_id'', dget payload ''event_id'')]))"

definition normalize_event :: "mon_env \<Rightarrow> string \<Rightarrow> dict \<Rightarrow> dict list res" where
  "normalize_event e source payload =
     (if source = ''prometheus'' then normalize_prometheus_remote e payload
      else if source \<in> {''alertmanager'', ''webhook''} \<or> dhas payload ''alerts'' then normalize_alertmanager e payload
      else if source = ''elk'' then
        (case py_iter (jor (dget payload ''hits'') (jor (dget payload ''docs'') (JList []))) of
           None \<Rightarrow> Inl TypeError | Some docs \<Rightarrow> map_res (elk_event e) docs)
      else if source = ''skywalking'' then (case skywalking_event e payload of Inl err \<Rightarrow> Inl err | Inr ev \<Rightarrow> Inr [ev])
      else Inr [])"

section \<open>Storing\<close>

text \<open>The instant of an event and its calendar day. A number above \<open>1e12\<close> is read as milliseconds; a text that does not
  parse is now.\<close>

definition coerce_ts :: "mon_env \<Rightarrow> json \<Rightarrow> (time \<times> int) option" where
  "coerce_ts e value =
     (let days = (\<lambda>t. (t, t div 86400000000));
          num = (\<lambda>r. map_option days (fromtimestamp e (if r > 1000000000000 then r / 1000 else r)));
          iso = (\<lambda>s. case fromisoformat e s of Some t \<Rightarrow> Some (t, iso_date e s) | None \<Rightarrow> Some (days (now e)))
      in case value of
           JInt n \<Rightarrow> num (of_int n) | JFloat r \<Rightarrow> num r | JBool b \<Rightarrow> num (if b then 1 else 0)
         | v \<Rightarrow> iso (str_replace (str_json e v) ''Z'' ''+00:00''))"

definition normalize_metric_name :: "mon_env \<Rightarrow> dict \<Rightarrow> dict" where
  "normalize_metric_name e raw =
     (case resolve_metric_name e raw of
        None \<Rightarrow> raw
      | Some name \<Rightarrow> dset raw ''labels'' (JObj (dset (as_dict (dget raw ''labels'')) ''metric_name'' (JStr name))))"

definition add_event :: "mon_env \<Rightarrow> mon_inbox_row \<Rightarrow> 'z mon_db_scheme \<Rightarrow> 'z mon_db_scheme res" where
  "add_event e row w =
     (if \<not> inbox_accepts e row then Inl (IntegrityError ''mon_event_inbox'') else Inr (w\<lparr>mon_inbox := tadd row (mon_inbox w)\<rparr>))"

definition by_event_key :: "'z mon_db_scheme \<Rightarrow> string \<Rightarrow> (int \<times> mon_inbox_row) option" where
  "by_event_key w k = tfirst (\<lambda>r. ib_event_key r = Some k) (mon_inbox w)"

text \<open>The write of a dead letter is under a savepoint: one that fails leaves nothing and does not raise.\<close>

definition dead_letter_row :: "mon_env \<Rightarrow> dict option \<Rightarrow> string \<Rightarrow> time \<Rightarrow> mon_inbox_row" where
  "dead_letter_row e raw text ts =
     (let d = (case raw of None \<Rightarrow> [] | Some r \<Rightarrow> r)
      in \<lparr>ib_source = (if dhas d ''source'' then dget d ''source'' else JStr ''webhook''),
          ib_kind = (if dhas d ''kind'' then dget d ''kind'' else JStr ''metric''),
          ib_entity = jor (dget d ''entity'') (JObj fallback_entity), ib_ts = ts, ib_value = event_value e d,
          ib_severity = dget d ''severity'', ib_labels = dget d ''labels'',
          ib_raw = (case raw of None \<Rightarrow> JNull | Some r \<Rightarrow> JObj r), ib_fingerprint = jor (dget d ''fingerprint'') (JStr ''dead-letter''),
          ib_event_key = None, ib_mapping_warning = 0, ib_status = ''dead_letter'', ib_error = Some text\<rparr>)"

definition dead_letter :: "mon_env \<Rightarrow> dict option \<Rightarrow> string \<Rightarrow> dict option \<Rightarrow> 'z mon_db_scheme \<Rightarrow> 'z mon_db_scheme" where
  "dead_letter e raw error detail w =
     (case (case raw of None \<Rightarrow> Some (now e, 0) | Some d \<Rightarrow> if d = [] then Some (now e, 0) else coerce_ts e (dget d ''ts'')) of
        None \<Rightarrow> w
      | Some (ts, _) \<Rightarrow>
          (case add_event e (dead_letter_row e raw
                  (case detail of None \<Rightarrow> take 512 error | Some d \<Rightarrow> take 464 error @ take 64 (json_dumps e d)) ts) w of
             Inl _ \<Rightarrow> w | Inr w1 \<Rightarrow> w1))"

definition upsert_daily :: "string \<Rightarrow> string \<Rightarrow> string \<Rightarrow> string \<Rightarrow> int \<Rightarrow> rat \<Rightarrow> 'z mon_db_scheme \<Rightarrow> 'z mon_db_scheme res" where
  "upsert_daily source entity_type entity_id metric_name day value w =
     (case tfirst (\<lambda>r. dy_source r = source \<and> dy_entity_id r = entity_id \<and> dy_entity_type r = entity_type \<and>
             dy_metric_name r = metric_name \<and> dy_day r = day) (mon_dailies w) of
        None \<Rightarrow>
          if texists (\<lambda>r. dy_source r = source \<and> dy_metric_name r = metric_name \<and> dy_entity_id r = entity_id \<and> dy_day r = day) (mon_dailies w)
          then Inl (IntegrityError ''mon_metric_daily'')
          else Inr (w\<lparr>mon_dailies := tadd \<lparr>dy_source = source, dy_metric_name = metric_name, dy_entity_type = entity_type,
                 dy_entity_id = entity_id, dy_day = day, dy_min_value = value, dy_max_value = value, dy_avg_value = value,
                 dy_sample_count = 1\<rparr> (mon_dailies w)\<rparr>)
      | Some (i, r0) \<Rightarrow> Inr (w\<lparr>mon_dailies := tupd i (\<lambda>r. let n = dy_sample_count r + 1 in
             r\<lparr>dy_sample_count := n, dy_avg_value := (dy_avg_value r * of_int (n - 1) + value) / of_int n,
               dy_max_value := max (dy_max_value r) value, dy_min_value := min (dy_min_value r) value\<rparr>) (mon_dailies w)\<rparr>))"

text \<open>Columns of a sample that no code reads (\<open>entity_name\<close>, \<open>labels\<close>, \<open>fingerprint\<close>) are left out. The daily row is looked up by
  the entity type, so one that is no text is an error of the database.\<close>

definition persist_metric_sample :: "mon_env \<Rightarrow> dict \<Rightarrow> dict \<Rightarrow> time \<times> int \<Rightarrow> string \<Rightarrow> 'z mon_db_scheme \<Rightarrow> 'z mon_db_scheme res" where
  "persist_metric_sample e raw entity ts metric_name w =
     (case event_value e raw of
        None \<Rightarrow> Inr w
      | Some value \<Rightarrow>
          (case (jor (dget entity ''entity_type'') (JStr ''host''), dget raw ''source'') of
             (JStr entity_type, JStr source) \<Rightarrow>
               (let entity_id = str_json e (jor (dget entity ''entity_id'') (JStr ''unknown''))
                in upsert_daily source entity_type entity_id metric_name (snd ts) value
                     (w\<lparr>mon_samples := tadd \<lparr>sm_source = source, sm_metric_name = metric_name, sm_entity_type = entity_type,
                        sm_entity_id = entity_id, sm_value = value, sm_ts = fst ts\<rparr> (mon_samples w)\<rparr>))
           | _ \<Rightarrow> Inl TypeError))"

section \<open>The pipeline\<close>

datatype event_result = Accepted bool | Rejected string bool \<comment> \<open>dedup; error and whether it is a dead letter already\<close>

definition store_and_evaluate ::
  "mon_env \<Rightarrow> dict \<Rightarrow> dict \<Rightarrow> string option \<Rightarrow> json \<Rightarrow> string \<Rightarrow> int \<Rightarrow> time \<times> int \<Rightarrow> string option \<Rightarrow> 'z mon_db_scheme \<Rightarrow>
   'z mon_db_scheme res" where
  "store_and_evaluate e raw entity event_key fingerprint severity warning ts metric_name w =
     (case add_event e \<lparr>ib_source = dget raw ''source'', ib_kind = dget raw ''kind'', ib_entity = JObj entity, ib_ts = fst ts,
             ib_value = event_value e raw, ib_severity = JStr severity, ib_labels = jor (dget raw ''labels'') (JObj []), ib_raw = dget raw ''raw'',
             ib_fingerprint = fingerprint, ib_event_key = event_key, ib_mapping_warning = warning, ib_status = ''pending'', ib_error = None\<rparr> w of
        Inl err \<Rightarrow> Inl err
      | Inr w1 \<Rightarrow>
          (case (case metric_name of None \<Rightarrow> Inr w1 | Some m \<Rightarrow> persist_metric_sample e raw entity ts m w1) of
             Inl err \<Rightarrow> Inl err
           | Inr w2 \<Rightarrow> (case evaluate_event e raw w2 of Inl err \<Rightarrow> Inl err | Inr (_, w3) \<Rightarrow> Inr w3)))"

definition process_event :: "mon_env \<Rightarrow> dict \<Rightarrow> 'z mon_db_scheme \<Rightarrow> (event_result \<times> 'z mon_db_scheme) res" where
  "process_event e raw0 w =
     (case validate_event e raw0 of
        Inl err \<Rightarrow> Inl err
      | Inr (Some error) \<Rightarrow> Inr (Rejected error False, w)
      | Inr None \<Rightarrow>
          (let kind = dget raw0 ''kind'';
               raw = (if kind = JStr ''metric'' then normalize_metric_name e raw0 else raw0);
               fingerprint = jor (dget raw ''fingerprint'') (JStr (build_fingerprint e raw));
               event_key = build_event_key e (dget raw ''source'') (dget raw ''event_id'');
               entity = as_dict (dget raw ''entity'')
           in if kind = JStr ''metric'' \<and> truthy (dget raw0 ''labels'') \<and> as_dict (dget raw0 ''labels'') = [] then Inl TypeError
              else if event_key \<noteq> None \<and> by_event_key w (the event_key) \<noteq> None then Inr (Accepted True, w)
              else case jor (dget raw ''severity'') (JStr ''warning'') of
                     JStr sv \<Rightarrow>
                       (let severity = (if lower sv \<in> set MON_LEVELS then lower sv else ''warning'');
                            warning = (if dget entity ''entity_id'' = JStr ''unknown'' \<or> lower sv \<notin> set MON_LEVELS then 1 else 0);
                            metric_name = (if kind = JStr ''metric'' then resolve_metric_name e raw else None)
                        in case coerce_ts e (dget raw ''ts'') of
                             None \<Rightarrow> Inl TypeError
                           | Some ts \<Rightarrow>
                               if kind = JStr ''metric'' \<and> metric_name = None
                               then Inr (Rejected ''unresolvable metric_name'' True, dead_letter e (Some raw) ''unresolvable metric_name'' None w)
                               else (case store_and_evaluate e raw entity event_key fingerprint severity warning ts metric_name w of
                                       Inl err \<Rightarrow> Inl err | Inr w1 \<Rightarrow> Inr (Accepted False, w1)))
                   | _ \<Rightarrow> Inl TypeError))"

fun ingest_events :: "mon_env \<Rightarrow> json list \<Rightarrow> 'z mon_db_scheme \<Rightarrow> ((nat \<times> nat) \<times> 'z mon_db_scheme) res" where
  "ingest_events e [] w = Inr ((0, 0), w)"
| "ingest_events e (j # js) w =
     (case j of
        JObj raw \<Rightarrow>
          (case process_event e raw w of
             Inl err \<Rightarrow> Inl err
           | Inr (result, w1) \<Rightarrow>
               (let w2 = (case result of Rejected error dead \<Rightarrow> if error \<noteq> [] \<and> \<not> dead then dead_letter e (Some raw) error None w1 else w1
                                       | Accepted _ \<Rightarrow> w1)
                in case ingest_events e js w2 of
                     Inl err \<Rightarrow> Inl err
                   | Inr ((accepted, rejected), w3) \<Rightarrow>
                       Inr ((case result of Accepted _ \<Rightarrow> (Suc accepted, rejected) | Rejected _ _ \<Rightarrow> (accepted, Suc rejected)), w3)))
      | _ \<Rightarrow> Inl TypeError)"

text \<open>The payload is a dict (the endpoint takes nothing else). A pushed event or batch is taken as it is; anything else goes
  through the normaliser of the adapter. The endpoint asks for no user.\<close>

definition pushed_events :: "mon_env \<Rightarrow> mon_adapter \<Rightarrow> dict \<Rightarrow> json list res" where
  "pushed_events e adapter payload =
     (if truthy (dget payload ''source'') \<and> dget payload ''adapter'' = JNull then
        (case dget payload ''kind'' of
           JStr _ \<Rightarrow> Inr [JObj payload]
         | _ \<Rightarrow> (let evs = dget payload ''events''
                 in if \<not> truthy evs then Inr [] else case py_iter evs of None \<Rightarrow> Inl TypeError | Some xs \<Rightarrow> Inr xs))
      else (case normalize_event e (md_type adapter) payload of Inl err \<Rightarrow> Inl err | Inr evs \<Rightarrow> Inr (map JObj evs)))"

datatype ingest_result = Unsupported string | Counted nat nat int

definition ingest :: "mon_env \<Rightarrow> int \<Rightarrow> dict \<Rightarrow> 'z mon_db_scheme \<Rightarrow> (ingest_result \<times> 'z mon_db_scheme) res" where
  "ingest e adapter_id payload w =
     (if \<not> mon_feature_enabled w then Inl (BadRequestError ''monitor feature disabled'')
      else case tget (mon_adapters w) adapter_id of
             None \<Rightarrow> Inl (NotFoundError ''adapter not found'')
           | Some adapter \<Rightarrow>
               if md_enabled adapter \<noteq> 1 then Inl (BadRequestError ''adapter disabled'')
               else (case pushed_events e adapter payload of
                       Inl err \<Rightarrow> Inl err
                     | Inr events \<Rightarrow>
                         if events = [] then
                           Inr (Unsupported ''unsupported payload shape'',
                                dead_letter e None ''unsupported payload shape'' (Some [(''adapter_id'', JInt adapter_id)]) w)
                         else (case ingest_events e events w of
                                 Inl err \<Rightarrow> Inl err
                               | Inr ((accepted, rejected), w1) \<Rightarrow> Inr (Counted accepted rejected adapter_id, w1))))"

end
