(* ===== verification/Monitor_Service.thy ===== *)
theory Monitor_Service
  imports Monitor_Ingest Access "HOL-Library.List_Lexorder" "HOL-Library.Char_ord" "HOL-Library.Product_Lexorder"
begin

text \<open>
  The handlers of the monitoring pages (\<open>monitor_service.py\<close>): what a user sees of the alerts, acknowledging and
  resolving, the rules, the adapters with their secrets, and the metric queries over the stored samples.
\<close>

section \<open>What a user sees\<close>

text \<open>The identifiers an event may use for a host: its address, its name and its number.\<close>

definition host_idents :: "int \<times> host \<Rightarrow> string list" where
  "host_idents it = (let (i, h) = it in (if h_ip h \<noteq> [] then [h_ip h] else []) @ (if h_hostname h \<noteq> [] then [h_hostname h] else []) @ [show_int i])"

definition entity_ids_in_groups :: "'z mon_db_scheme \<Rightarrow> int list \<Rightarrow> string list" where
  "entity_ids_in_groups w groups =
     remdups (concat (map host_idents (tselect (\<lambda>h. case h_group_id h of None \<Rightarrow> False | Some g \<Rightarrow> g \<in> set groups) (mon_hosts w))))"

definition visible_entity_ids :: "'z mon_db_scheme \<Rightarrow> current_user \<Rightarrow> string list option" where
  "visible_entity_ids w u = (if is_admin u then None else Some (entity_ids_in_groups w (visible_group_ids u)))"

definition entity_in_scope :: "mon_env \<Rightarrow> string list option \<Rightarrow> dict \<Rightarrow> bool" where
  "entity_in_scope e visible entity = (case visible of None \<Rightarrow> True | Some vs \<Rightarrow> str_json e (dget entity ''entity_id'') \<in> set vs)"

definition scope_metric_ids :: "'z mon_db_scheme \<Rightarrow> current_user \<Rightarrow> string list option \<Rightarrow> int option \<Rightarrow> string list option" where
  "scope_metric_ids w u entity_ids group_id =
     (let narrow = (\<lambda>ids by. case ids of None \<Rightarrow> Some by | Some xs \<Rightarrow> Some (filter (\<lambda>x. x \<in> set by) xs));
          ids1 = (if int_truthy group_id then narrow entity_ids (entity_ids_in_groups w [the group_id]) else entity_ids)
      in case visible_entity_ids w u of None \<Rightarrow> ids1 | Some vs \<Rightarrow> narrow ids1 vs)"

section \<open>Alerts\<close>

definition json_text :: "mon_env \<Rightarrow> json \<Rightarrow> string option" where
  "json_text e j = (case j of JNull \<Rightarrow> None | JStr s \<Rightarrow> Some s | JInt n \<Rightarrow> Some (show_int n)
     | JBool b \<Rightarrow> Some (if b then ''true'' else ''false'') | _ \<Rightarrow> Some (jsonb_text e j))"

record alert_filters =
  af_rule_id :: "int option"
  af_status :: "alert_status option"
  af_source :: "string option"
  af_entity_id :: "string option"
  af_start :: "time option"
  af_end :: "time option"

definition alert_matches :: "mon_env \<Rightarrow> alert_filters \<Rightarrow> string list option \<Rightarrow> mon_alert \<Rightarrow> bool" where
  "alert_matches e f entity_ids a =
     ((int_truthy (af_rule_id f) \<longrightarrow> ma_rule_id a = af_rule_id f) \<and>
      (af_status f \<noteq> None \<longrightarrow> Some (ma_status a) = af_status f) \<and>
      (str_truthy (af_source f) \<longrightarrow> ma_source a = JStr (the (af_source f))) \<and>
      (str_truthy (af_entity_id f) \<longrightarrow> json_text e (dget (ma_entity a) ''entity_id'') = af_entity_id f) \<and>
      (af_start f \<noteq> None \<longrightarrow> (case ma_fired_at a of None \<Rightarrow> False | Some t \<Rightarrow> t \<ge> the (af_start f))) \<and>
      (af_end f \<noteq> None \<longrightarrow> (case ma_fired_at a of None \<Rightarrow> False | Some t \<Rightarrow> t \<le> the (af_end f))) \<and>
      (case entity_ids of None \<Rightarrow> True
       | Some vs \<Rightarrow> (case json_text e (dget (ma_entity a) ''entity_id'') of None \<Rightarrow> False | Some s \<Rightarrow> s \<in> set vs)))"

definition list_alerts ::
  "mon_env \<Rightarrow> current_user \<Rightarrow> alert_filters \<Rightarrow> int \<Rightarrow> int \<Rightarrow> 'z mon_db_scheme \<Rightarrow> ((int \<times> mon_alert) list \<times> nat) res" where
  "list_alerts e u f page sz w =
     (case require_perm u ''monitor:alert:list'' of
        Inl err \<Rightarrow> Inl err
      | Inr _ \<Rightarrow> (let rs = rev (tselect (alert_matches e f (visible_entity_ids w u)) (mon_alerts w)) in Inr (page_of page sz rs, length rs)))"

definition alert_not_found :: app_error where
  "alert_not_found = NotFoundError ''alert not found''"

text \<open>The row of an alert the user may see.\<close>

definition visible_alert :: "mon_env \<Rightarrow> current_user \<Rightarrow> int \<Rightarrow> 'z mon_db_scheme \<Rightarrow> mon_alert res" where
  "visible_alert e u i w =
     (case tget (mon_alerts w) i of
        None \<Rightarrow> Inl alert_not_found
      | Some a \<Rightarrow> if \<not> entity_in_scope e (visible_entity_ids w u) (ma_entity a) then Inl alert_not_found else Inr a)"

definition get_alert :: "mon_env \<Rightarrow> current_user \<Rightarrow> int \<Rightarrow> 'z mon_db_scheme \<Rightarrow> (mon_alert \<times> (int \<times> alert_log) list) res" where
  "get_alert e u i w =
     (case require_perm u ''monitor:alert:view'' of
        Inl err \<Rightarrow> Inl err
      | Inr _ \<Rightarrow> (case visible_alert e u i w of Inl err \<Rightarrow> Inl err | Inr a \<Rightarrow> Inr (a, timeline w i)))"

definition alert_events :: "mon_env \<Rightarrow> current_user \<Rightarrow> int \<Rightarrow> 'z mon_db_scheme \<Rightarrow> (int \<times> alert_log) list res" where
  "alert_events e u i w =
     (case require_perm u ''monitor:alert:view'' of
        Inl err \<Rightarrow> Inl err
      | Inr _ \<Rightarrow> (case visible_alert e u i w of Inl err \<Rightarrow> Inl err | Inr a \<Rightarrow> Inr (timeline w i)))"

definition acknowledge_alert :: "mon_env \<Rightarrow> current_user \<Rightarrow> int \<Rightarrow> 'z mon_db_scheme \<Rightarrow> (unit \<times> 'z mon_db_scheme) res" where
  "acknowledge_alert e u i w =
     (case require_perm u ''monitor:alert:ack'' of
        Inl err \<Rightarrow> Inl err
      | Inr _ \<Rightarrow>
          (case visible_alert e u i w of
             Inl err \<Rightarrow> Inl err
           | Inr a \<Rightarrow>
               if ma_status a \<noteq> LFiring then Inl (BadRequestError (''alert not firing (status='' @ status_text (ma_status a) @ '')''))
               else (case alert_optimistic_update i LFiring LAcknowledged (ma_version a) id w of
                       (False, _) \<Rightarrow> Inl (ForbiddenError ''alert changed concurrently'')
                     | (True, w1) \<Rightarrow>
                         Inr ((), broadcast_alert i (add_log e i ''acknowledge'' (Some LFiring) (Some LAcknowledged) (ma_severity a)
                                    (Some (uid u)) w1)))))"

definition resolve_alert :: "mon_env \<Rightarrow> current_user \<Rightarrow> int \<Rightarrow> 'z mon_db_scheme \<Rightarrow> (unit \<times> 'z mon_db_scheme) res" where
  "resolve_alert e u i w =
     (case require_perm u ''monitor:alert:resolve'' of
        Inl err \<Rightarrow> Inl err
      | Inr _ \<Rightarrow>
          (case visible_alert e u i w of
             Inl err \<Rightarrow> Inl err
           | Inr a \<Rightarrow>
               if \<not> active_status (ma_status a) then Inl (BadRequestError (''alert already resolved (status='' @ status_text (ma_status a) @ '')''))
               else (case alert_optimistic_update i (ma_status a) LResolved (ma_version a) (\<lambda>r. r\<lparr>ma_resolved_at := Some (now e)\<rparr>) w of
                       (False, _) \<Rightarrow> Inl (ForbiddenError ''alert changed concurrently'')
                     | (True, w1) \<Rightarrow>
                         Inr ((), broadcast_alert i (add_log e i ''resolve'' (Some (ma_status a)) (Some LResolved) (ma_severity a)
                                    (Some (uid u)) w1)))))"

section \<open>Rules\<close>

definition MON_RULE_OPS :: "string list" where
  "MON_RULE_OPS = [''>'', ''<'', ''>='', ''<='', ''=='', ''!='']"

definition rule_not_found :: app_error where
  "rule_not_found = NotFoundError ''rule not found''"

definition get_rule :: "int \<Rightarrow> 'z mon_db_scheme \<Rightarrow> mon_rule res" where
  "get_rule i w = (case tget (mon_rules w) i of None \<Rightarrow> Inl rule_not_found
     | Some r \<Rightarrow> if mr_deleted r \<noteq> 0 then Inl rule_not_found else Inr r)"

definition upd_rule :: "int \<Rightarrow> (mon_rule \<Rightarrow> mon_rule) \<Rightarrow> 'z mon_db_scheme \<Rightarrow> 'z mon_db_scheme" where
  "upd_rule i f w = w\<lparr>mon_rules := tupd i f (mon_rules w)\<rparr>"

text \<open>The request carries the fields of the row; the key, the creator and the deletion mark are the service's.\<close>

definition create_rule :: "current_user \<Rightarrow> mon_rule \<Rightarrow> 'z mon_db_scheme \<Rightarrow> (int \<times> 'z mon_db_scheme) res" where
  "create_rule u data w =
     (case require_perm u ''monitor:rule:add'' of
        Inl err \<Rightarrow> Inl err
      | Inr _ \<Rightarrow>
          if \<not> mon_feature_enabled w then Inl (BadRequestError ''monitor feature disabled'')
          else if mr_condition_operator data \<notin> set MON_RULE_OPS
          then Inl (BadRequestError (''invalid operator: '' @ mr_condition_operator data))
          else Inr (next_id (mon_rules w),
                    w\<lparr>mon_rules := tadd (data\<lparr>mr_created_by := Some (uid u), mr_deleted := 0\<rparr>) (mon_rules w)\<rparr>))"

record mon_rule_update =
  ru_name :: "string option"
  ru_enabled :: "int option"
  ru_event_source :: "string option"
  ru_event_kind :: "string option"
  ru_metric_name :: "string option"
  ru_condition_operator :: "string option"
  ru_condition_threshold :: "rat option"
  ru_condition_duration_seconds :: "int option"
  ru_cooldown_seconds :: "int option"
  ru_scope_type :: "string option"
  ru_level :: "string option"
  ru_converge_sec :: "int option"
  ru_escalation_enabled :: "int option"
  ru_escalation_after_seconds :: "int option"
  ru_notify_channel_ids :: "int list option"
  ru_scope_ids :: "string list option"
  ru_escalate_levels :: "string list option"

definition if_given :: "'a option \<Rightarrow> 'a \<Rightarrow> 'a" where
  "if_given x old = (case x of None \<Rightarrow> old | Some v \<Rightarrow> v)"

definition if_some :: "'a option \<Rightarrow> 'a option \<Rightarrow> 'a option" where
  "if_some x old = (case x of None \<Rightarrow> old | Some v \<Rightarrow> Some v)"

text \<open>The operator is not checked here, unlike in \<open>create_rule\<close>.\<close>

definition apply_rule_update :: "mon_rule_update \<Rightarrow> mon_rule \<Rightarrow> mon_rule" where
  "apply_rule_update d r = r\<lparr>
     mr_name := if_given (ru_name d) (mr_name r), mr_enabled := if_given (ru_enabled d) (mr_enabled r),
     mr_event_source := if_some (ru_event_source d) (mr_event_source r), mr_event_kind := if_given (ru_event_kind d) (mr_event_kind r),
     mr_metric_name := if_some (ru_metric_name d) (mr_metric_name r),
     mr_condition_operator := if_given (ru_condition_operator d) (mr_condition_operator r),
     mr_condition_threshold := if_given (ru_condition_threshold d) (mr_condition_threshold r),
     mr_condition_duration_seconds := if_given (ru_condition_duration_seconds d) (mr_condition_duration_seconds r),
     mr_cooldown_seconds := if_given (ru_cooldown_seconds d) (mr_cooldown_seconds r),
     mr_scope_type := if_some (ru_scope_type d) (mr_scope_type r), mr_level := if_given (ru_level d) (mr_level r),
     mr_converge_sec := if_given (ru_converge_sec d) (mr_converge_sec r),
     mr_escalation_enabled := if_given (ru_escalation_enabled d) (mr_escalation_enabled r),
     mr_escalation_after_seconds := if_some (ru_escalation_after_seconds d) (mr_escalation_after_seconds r),
     mr_notify_channel_ids := if_given (ru_notify_channel_ids d) (mr_notify_channel_ids r),
     mr_scope_ids := if_given (ru_scope_ids d) (mr_scope_ids r), mr_escalate_levels := if_given (ru_escalate_levels d) (mr_escalate_levels r)\<rparr>"

definition update_rule :: "current_user \<Rightarrow> int \<Rightarrow> mon_rule_update \<Rightarrow> 'z mon_db_scheme \<Rightarrow> (unit \<times> 'z mon_db_scheme) res" where
  "update_rule u i d w =
     (case require_perm u ''monitor:rule:edit'' of
        Inl err \<Rightarrow> Inl err
      | Inr _ \<Rightarrow> (case get_rule i w of Inl err \<Rightarrow> Inl err | Inr _ \<Rightarrow> Inr ((), upd_rule i (apply_rule_update d) w)))"

definition delete_rule :: "current_user \<Rightarrow> int \<Rightarrow> 'z mon_db_scheme \<Rightarrow> (unit \<times> 'z mon_db_scheme) res" where
  "delete_rule u i w =
     (case require_perm u ''monitor:rule:del'' of
        Inl err \<Rightarrow> Inl err
      | Inr _ \<Rightarrow> (case get_rule i w of Inl err \<Rightarrow> Inl err | Inr _ \<Rightarrow> Inr ((), upd_rule i (\<lambda>r. r\<lparr>mr_deleted := 1\<rparr>) w)))"

definition set_rule_status :: "current_user \<Rightarrow> int \<Rightarrow> int \<Rightarrow> 'z mon_db_scheme \<Rightarrow> (unit \<times> 'z mon_db_scheme) res" where
  "set_rule_status u i enabled w =
     (case require_perm u ''monitor:rule:status'' of
        Inl err \<Rightarrow> Inl err
      | Inr _ \<Rightarrow> (case get_rule i w of Inl err \<Rightarrow> Inl err | Inr _ \<Rightarrow> Inr ((), upd_rule i (\<lambda>r. r\<lparr>mr_enabled := enabled\<rparr>) w)))"

section \<open>Metrics\<close>

text \<open>\<open>if entity_ids:\<close> in every query: the empty list is no filter.\<close>

definition sample_matches :: "string list option \<Rightarrow> string option \<Rightarrow> time option \<Rightarrow> time option \<Rightarrow> mon_sample \<Rightarrow> bool" where
  "sample_matches entity_ids metric_name start stop s =
     ((str_truthy metric_name \<longrightarrow> sm_metric_name s = the metric_name) \<and>
      (entity_ids \<noteq> None \<longrightarrow> the entity_ids \<noteq> [] \<longrightarrow> sm_entity_id s \<in> set (the entity_ids)) \<and>
      (start \<noteq> None \<longrightarrow> sm_ts s \<ge> the start) \<and> (stop \<noteq> None \<longrightarrow> sm_ts s \<le> the stop))"

definition newest_first :: "(int \<times> mon_sample) list \<Rightarrow> (int \<times> mon_sample) list" where
  "newest_first rs = sort_key (\<lambda>(i, s). - sm_ts s) rs"

definition query_samples ::
  "string list option \<Rightarrow> string option \<Rightarrow> time option \<Rightarrow> time option \<Rightarrow> int \<Rightarrow> int \<Rightarrow> 'z mon_db_scheme \<Rightarrow> (int \<times> mon_sample) list \<times> nat" where
  "query_samples entity_ids metric_name start stop page sz w =
     (let rs = newest_first (tselect (sample_matches entity_ids metric_name start stop) (mon_samples w)) in (page_of page sz rs, length rs))"

definition bucket_of :: "string \<Rightarrow> time \<Rightarrow> time" where
  "bucket_of agg t = (let unit = (if agg = ''5m'' then 60 else if agg = ''1d'' then 86400 else 3600) * 1000000 in t - t mod unit)"

record metric_bucket =
  mb_entity_id :: string
  mb_bucket :: time
  mb_avg :: rat
  mb_max :: rat
  mb_min :: rat
  mb_count :: nat

definition query_bucketed ::
  "string list option \<Rightarrow> string option \<Rightarrow> time option \<Rightarrow> time option \<Rightarrow> string \<Rightarrow> 'z mon_db_scheme \<Rightarrow> metric_bucket list" where
  "query_bucketed entity_ids metric_name start stop agg w =
     (let ss = map snd (tselect (sample_matches entity_ids metric_name start stop) (mon_samples w));
          key = (\<lambda>s. (sm_entity_id s, bucket_of agg (sm_ts s)))
      in map (\<lambda>k. let vs = map sm_value (filter (\<lambda>s. key s = k) ss)
                  in \<lparr>mb_entity_id = fst k, mb_bucket = snd k, mb_avg = sum_list vs / of_nat (length vs), mb_max = fold max vs (hd vs),
                      mb_min = fold min vs (hd vs), mb_count = length vs\<rparr>)
           (sort (remdups (map key ss))))"

fun first_per_key :: "('a \<Rightarrow> 'k) \<Rightarrow> 'k list \<Rightarrow> 'a list \<Rightarrow> 'a list" where
  "first_per_key key seen [] = []"
| "first_per_key key seen (x # xs) =
     (if key x \<in> set seen then first_per_key key seen xs else x # first_per_key key (key x # seen) xs)"

definition latest_by_entity :: "string list option \<Rightarrow> string option \<Rightarrow> 'z mon_db_scheme \<Rightarrow> mon_sample list" where
  "latest_by_entity entity_ids metric_name w =
     (let window = map snd (take 500 (newest_first (rows (mon_samples w))))
      in first_per_key (\<lambda>s. (sm_entity_id s, sm_metric_name s)) [] (filter (sample_matches entity_ids metric_name None None) window))"

datatype metric_answer = Bucketed "metric_bucket list" | Plain "(int \<times> mon_sample) list" nat

definition query_metrics ::
  "current_user \<Rightarrow> string list option \<Rightarrow> int option \<Rightarrow> string \<Rightarrow> time option \<Rightarrow> time option \<Rightarrow> string \<Rightarrow> int \<Rightarrow> int \<Rightarrow>
   'z mon_db_scheme \<Rightarrow> metric_answer res" where
  "query_metrics u entity_ids group_id metric_name start stop agg page sz w =
     (case require_perm u ''monitor:metric:view'' of
        Inl err \<Rightarrow> Inl err
      | Inr _ \<Rightarrow>
          (let ids = scope_metric_ids w u entity_ids group_id
           in if agg \<in> {''5m'', ''1h'', ''1d''} then Inr (Bucketed (query_bucketed ids (Some metric_name) start stop agg w))
              else (let (rs, total) = query_samples ids (Some metric_name) start stop page sz w in Inr (Plain rs total))))"

definition current_metrics :: "current_user \<Rightarrow> string list option \<Rightarrow> string option \<Rightarrow> 'z mon_db_scheme \<Rightarrow> mon_sample list res" where
  "current_metrics u entity_ids metric_name w =
     (case require_perm u ''monitor:metric:view'' of
        Inl err \<Rightarrow> Inl err
      | Inr _ \<Rightarrow> Inr (latest_by_entity (scope_metric_ids w u entity_ids None) metric_name w))"

definition test_rule :: "current_user \<Rightarrow> int \<Rightarrow> 'z mon_db_scheme \<Rightarrow> (nat \<times> nat) res" where
  "test_rule u i w =
     (case require_perm u ''monitor:rule:test'' of
        Inl err \<Rightarrow> Inl err
      | Inr _ \<Rightarrow>
          (case get_rule i w of
             Inl err \<Rightarrow> Inl err
           | Inr r \<Rightarrow> (let latest = latest_by_entity None (mr_metric_name r) w
                       in Inr (length (filter (\<lambda>s. check_condition r (Some (sm_value s))) latest), length latest))))"

section \<open>Inbox\<close>

record event_filters =
  ef_source :: "string option"
  ef_kind :: "string option"
  ef_severity :: "string option"
  ef_status :: "string option"
  ef_entity_id :: "string option"
  ef_start :: "time option"
  ef_end :: "time option"

definition event_matches :: "mon_env \<Rightarrow> event_filters \<Rightarrow> string list option \<Rightarrow> mon_inbox_row \<Rightarrow> bool" where
  "event_matches e f entity_ids r =
     (let eid = json_text e (dget (as_dict (ib_entity r)) ''entity_id'')
      in (str_truthy (ef_source f) \<longrightarrow> ib_source r = JStr (the (ef_source f))) \<and> (str_truthy (ef_kind f) \<longrightarrow> ib_kind r = JStr (the (ef_kind f))) \<and>
         (str_truthy (ef_severity f) \<longrightarrow> ib_severity r = JStr (the (ef_severity f))) \<and> (str_truthy (ef_status f) \<longrightarrow> ib_status r = the (ef_status f)) \<and>
         (str_truthy (ef_entity_id f) \<longrightarrow> eid = ef_entity_id f) \<and> (ef_start f \<noteq> None \<longrightarrow> ib_ts r \<ge> the (ef_start f)) \<and>
         (ef_end f \<noteq> None \<longrightarrow> ib_ts r \<le> the (ef_end f)) \<and>
         (case entity_ids of None \<Rightarrow> True | Some vs \<Rightarrow> (case eid of None \<Rightarrow> False | Some s \<Rightarrow> s \<in> set vs)))"

text \<open>Newest arrival first: the rows arrive in the order of their keys.\<close>

definition list_events ::
  "mon_env \<Rightarrow> current_user \<Rightarrow> event_filters \<Rightarrow> int \<Rightarrow> int \<Rightarrow> 'z mon_db_scheme \<Rightarrow> ((int \<times> mon_inbox_row) list \<times> nat) res" where
  "list_events e u f page sz w =
     (case require_perm u ''monitor:alert:view'' of
        Inl err \<Rightarrow> Inl err
      | Inr _ \<Rightarrow> (let rs = rev (tselect (event_matches e f (visible_entity_ids w u)) (mon_inbox w)) in Inr (page_of page sz rs, length rs)))"

definition get_event :: "mon_env \<Rightarrow> current_user \<Rightarrow> int \<Rightarrow> 'z mon_db_scheme \<Rightarrow> mon_inbox_row res" where
  "get_event e u i w =
     (case require_perm u ''monitor:alert:view'' of
        Inl err \<Rightarrow> Inl err
      | Inr _ \<Rightarrow>
          (case tget (mon_inbox w) i of
             None \<Rightarrow> Inl (NotFoundError ''event not found'')
           | Some r \<Rightarrow> if \<not> entity_in_scope e (visible_entity_ids w u) (as_dict (ib_entity r)) then Inl (NotFoundError ''event not found'') else Inr r))"

end
