(* ===== verification/Monitor_Adapter.thy ===== *)
theory Monitor_Adapter
  imports Monitor_Service
begin

text \<open>
  The data source adapters (\<open>monitor_service.py\<close>, \<open>list_adapters\<close> to \<open>_adapter_out\<close>): their configuration is a nested dict
  whose secrets are stored encrypted, shown masked, and kept when a form sends the mask back.
\<close>

section \<open>Secrets in a configuration\<close>

definition SECRET_KEYS :: "string list" where
  "SECRET_KEYS = [''token'', ''password'', ''api_key'', ''secret'', ''client_secret'', ''secret_key'', ''access_key'', ''app_secret'', ''access_token'']"

definition is_enc :: "string \<Rightarrow> bool" where
  "is_enc s = (take 4 s = ''enc:'')"

definition is_masked_secret :: "string \<Rightarrow> bool" where
  "is_masked_secret s = (CHR ''*'' \<in> set s)"

fun mask_val :: "env \<Rightarrow> json \<Rightarrow> json"
  and mask_adapter_config :: "env \<Rightarrow> dict \<Rightarrow> dict"
  and mask_items :: "env \<Rightarrow> json list \<Rightarrow> json list" where
  "mask_val e (JStr s) = (if is_enc s then (case mask_secret e (Some s) of None \<Rightarrow> JNull | Some m \<Rightarrow> JStr m) else JStr s)"
| "mask_val e (JObj d) = JObj (mask_adapter_config e d)"
| "mask_val e (JList xs) = JList (mask_items e xs)"
| "mask_val e v = v"
| "mask_adapter_config e [] = []"
| "mask_adapter_config e ((k, v) # d) = (k, mask_val e v) # mask_adapter_config e d"
| "mask_items e [] = []"
| "mask_items e (x # xs) = (case x of JObj d \<Rightarrow> JObj (mask_adapter_config e d) | _ \<Rightarrow> x) # mask_items e xs"

definition secret_val :: "env \<Rightarrow> string \<Rightarrow> json option \<Rightarrow> json" where
  "secret_val e s old =
     (if is_enc s \<or> is_masked_secret s then (case old of None \<Rightarrow> JStr s | Some v \<Rightarrow> v) else JStr (''enc:'' @ encrypt_secret e 1 s))"

definition old_dict :: "json option \<Rightarrow> dict" where
  "old_dict old = (case old of Some (JObj d) \<Rightarrow> d | _ \<Rightarrow> [])"

definition old_list :: "json option \<Rightarrow> json list" where
  "old_list old = (case old of Some (JList xs) \<Rightarrow> xs | _ \<Rightarrow> [])"

text \<open>\<open>merged\<close> starts as a copy of the stored configuration; \<open>enc_val\<close> is what one key of the new one puts there.\<close>

fun enc_val :: "env \<Rightarrow> string \<Rightarrow> json \<Rightarrow> json option \<Rightarrow> json"
  and encrypt_config_secrets :: "env \<Rightarrow> dict \<Rightarrow> dict \<Rightarrow> dict"
  and enc_items :: "env \<Rightarrow> json list \<Rightarrow> json list \<Rightarrow> json list" where
  "enc_val e k (JStr s) old = (if k \<in> set SECRET_KEYS then secret_val e s old else JStr s)"
| "enc_val e k (JObj d) old = JObj (encrypt_config_secrets e d (old_dict old))"
| "enc_val e k (JList xs) old = JList (enc_items e xs (old_list old))"
| "enc_val e k v old = v"
| "encrypt_config_secrets e [] merged = merged"
| "encrypt_config_secrets e ((k, v) # d) merged = encrypt_config_secrets e d (dset merged k (enc_val e k v (map_of merged k)))"
| "enc_items e [] prev = []"
| "enc_items e (x # xs) prev =
     (case x of JObj d \<Rightarrow> JObj (encrypt_config_secrets e d (case prev of [] \<Rightarrow> [] | p # _ \<Rightarrow> old_dict (Some p))) | _ \<Rightarrow> x)
     # enc_items e xs (case prev of [] \<Rightarrow> [] | _ # ps \<Rightarrow> ps)"

fun dec_val :: "env \<Rightarrow> json \<Rightarrow> json"
  and decrypted_adapter_config :: "env \<Rightarrow> dict \<Rightarrow> dict" where
  "dec_val e (JStr s) = (if is_enc s then JStr (case decrypt_secret e (drop 4 s) of None \<Rightarrow> [] | Some p \<Rightarrow> p) else JStr s)"
| "dec_val e (JObj d) = JObj (decrypted_adapter_config e d)"
| "dec_val e v = v"
| "decrypted_adapter_config e [] = []"
| "decrypted_adapter_config e ((k, v) # d) = (k, dec_val e v) # decrypted_adapter_config e d"

section \<open>Handlers\<close>

definition MON_ADAPTER_TYPES :: "string list" where
  "MON_ADAPTER_TYPES = [''prometheus'', ''elk'', ''skywalking'', ''alertmanager'', ''webhook'']"

definition adapter_not_found :: app_error where
  "adapter_not_found = NotFoundError ''adapter not found''"

definition list_adapters ::
  "env \<Rightarrow> current_user \<Rightarrow> int option \<Rightarrow> string option \<Rightarrow> int \<Rightarrow> int \<Rightarrow> 'z mon_db_scheme \<Rightarrow> ((int \<times> mon_adapter) list \<times> nat) res" where
  "list_adapters e u enabled ty page sz w =
     (case require_perm u ''monitor:rule:list'' of
        Inl err \<Rightarrow> Inl err
      | Inr _ \<Rightarrow>
          (let rs = rev (tselect (\<lambda>a. (enabled \<noteq> None \<longrightarrow> md_enabled a = the enabled) \<and> (str_truthy ty \<longrightarrow> md_type a = the ty)) (mon_adapters w))
           in Inr (map (\<lambda>(i, a). (i, a\<lparr>md_config := mask_adapter_config e (md_config a)\<rparr>)) (page_of page sz rs), length rs)))"

definition name_taken :: "string \<Rightarrow> int option \<Rightarrow> 'z mon_db_scheme \<Rightarrow> bool" where
  "name_taken name self w = (\<exists>(i, a) \<in> set (rows (mon_adapters w)). md_name a = name \<and> Some i \<noteq> self)"

definition create_adapter ::
  "env \<Rightarrow> current_user \<Rightarrow> string \<Rightarrow> string \<Rightarrow> string \<Rightarrow> dict \<Rightarrow> int \<Rightarrow> 'z mon_db_scheme \<Rightarrow> (int \<times> 'z mon_db_scheme) res" where
  "create_adapter e u name ty endpoint config enabled w =
     (case require_perm u ''monitor:rule:add'' of
        Inl err \<Rightarrow> Inl err
      | Inr _ \<Rightarrow>
          if \<not> mon_feature_enabled w then Inl (BadRequestError ''monitor feature disabled'')
          else if ty \<notin> set MON_ADAPTER_TYPES then Inl (BadRequestError (''invalid adapter type: '' @ ty))
          else if name_taken name None w then Inl (IntegrityError ''mon_adapter_name_key'')
          else Inr (next_id (mon_adapters w), w\<lparr>mon_adapters := tadd
                 \<lparr>md_type = ty, md_name = name, md_endpoint = endpoint, md_config = encrypt_config_secrets e config [], md_enabled = enabled,
                  md_status = ''healthy'', md_error_message = None, md_created_by = Some (uid u)\<rparr> (mon_adapters w)\<rparr>))"

definition upd_adapter :: "int \<Rightarrow> (mon_adapter \<Rightarrow> mon_adapter) \<Rightarrow> 'z mon_db_scheme \<Rightarrow> 'z mon_db_scheme" where
  "upd_adapter i f w = w\<lparr>mon_adapters := tupd i f (mon_adapters w)\<rparr>"

definition update_adapter ::
  "env \<Rightarrow> current_user \<Rightarrow> int \<Rightarrow> string option \<Rightarrow> string option \<Rightarrow> string option \<Rightarrow> int option \<Rightarrow> dict option \<Rightarrow>
   'z mon_db_scheme \<Rightarrow> (unit \<times> 'z mon_db_scheme) res" where
  "update_adapter e u i name ty endpoint enabled config w =
     (case require_perm u ''monitor:rule:edit'' of
        Inl err \<Rightarrow> Inl err
      | Inr _ \<Rightarrow>
          if tget (mon_adapters w) i = None then Inl adapter_not_found
          else if name \<noteq> None \<and> name_taken (the name) (Some i) w then Inl (IntegrityError ''mon_adapter_name_key'')
          else Inr ((), upd_adapter i (\<lambda>a. a\<lparr>md_name := if_given name (md_name a), md_type := if_given ty (md_type a),
                 md_endpoint := if_given endpoint (md_endpoint a), md_enabled := if_given enabled (md_enabled a),
                 md_config := (case config of None \<Rightarrow> md_config a | Some c \<Rightarrow> encrypt_config_secrets e c (md_config a))\<rparr>) w))"

definition delete_adapter :: "current_user \<Rightarrow> int \<Rightarrow> 'z mon_db_scheme \<Rightarrow> (unit \<times> 'z mon_db_scheme) res" where
  "delete_adapter u i w =
     (case require_perm u ''monitor:rule:del'' of
        Inl err \<Rightarrow> Inl err
      | Inr _ \<Rightarrow> if tget (mon_adapters w) i = None then Inl adapter_not_found else Inr ((), w\<lparr>mon_adapters := tdel i (mon_adapters w)\<rparr>))"

definition set_adapter_status :: "current_user \<Rightarrow> int \<Rightarrow> int \<Rightarrow> 'z mon_db_scheme \<Rightarrow> (unit \<times> 'z mon_db_scheme) res" where
  "set_adapter_status u i enabled w =
     (case require_perm u ''monitor:rule:status'' of
        Inl err \<Rightarrow> Inl err
      | Inr _ \<Rightarrow>
          if tget (mon_adapters w) i = None then Inl adapter_not_found
          else Inr ((), upd_adapter i (\<lambda>a. a\<lparr>md_enabled := enabled,
                 md_status := (if enabled = 0 then ''disabled'' else if md_status a = ''disabled'' then ''healthy'' else md_status a)\<rparr>) w))"

definition test_adapter :: "env \<Rightarrow> current_user \<Rightarrow> int \<Rightarrow> 'z mon_db_scheme \<Rightarrow> (string option \<times> 'z mon_db_scheme) res" where
  "test_adapter e u i w =
     (case require_perm u ''monitor:rule:test'' of
        Inl err \<Rightarrow> Inl err
      | Inr _ \<Rightarrow>
          (case tget (mon_adapters w) i of
             None \<Rightarrow> Inl adapter_not_found
           | Some a \<Rightarrow>
               (let config = decrypted_adapter_config e (md_config a);
                    endpoint = jor (dget config ''endpoint'') (jor (dget config ''url'') (dget config ''server_uri''));
                    err = (if md_type a \<in> {''prometheus'', ''elk'', ''webhook''} \<and> \<not> truthy endpoint then Some ''endpoint not configured'' else None)
                in Inr (err, upd_adapter i (\<lambda>a. a\<lparr>md_status := (if err = None then ''healthy'' else ''degraded''), md_error_message := err\<rparr>) w))))"

section \<open>Round trips\<close>

text \<open>A configuration as it comes in: the keys of every object are distinct and only a secret may look encrypted. One as it is
  stored: moreover every secret is encrypted or was refused as a mask. \<open>plain_config\<close> is one that comes in with no secret that counts
  as masked and no object inside a list.\<close>

fun stored_val :: "bool \<Rightarrow> string \<Rightarrow> json \<Rightarrow> bool" and stored_config :: "bool \<Rightarrow> dict \<Rightarrow> bool" and stored_items :: "bool \<Rightarrow> json list \<Rightarrow> bool" where
  "stored_val st k (JStr s) = (if k \<in> set SECRET_KEYS then st \<longrightarrow> is_enc s \<or> is_masked_secret s else \<not> is_enc s)"
| "stored_val st k (JObj d) = stored_config st d"
| "stored_val st k (JList xs) = stored_items st xs"
| "stored_val st k _ = True"
| "stored_config st [] = True"
| "stored_config st ((k, v) # d) = (k \<notin> fst ` set d \<and> stored_val st k v \<and> stored_config st d)"
| "stored_items st [] = True"
| "stored_items st (x # xs) = ((case x of JObj d \<Rightarrow> stored_config st d | _ \<Rightarrow> True) \<and> stored_items st xs)"

fun plain_val :: "string \<Rightarrow> json \<Rightarrow> bool" and plain_config :: "dict \<Rightarrow> bool" where
  "plain_val k (JStr s) = (\<not> is_enc s \<and> (k \<in> set SECRET_KEYS \<longrightarrow> \<not> is_masked_secret s))"
| "plain_val k (JObj d) = plain_config d"
| "plain_val k (JList xs) = (\<forall>x \<in> set xs. case x of JObj _ \<Rightarrow> False | _ \<Rightarrow> True)"
| "plain_val k _ = True"
| "plain_config [] = True"
| "plain_config ((k, v) # d) = (k \<notin> fst ` set d \<and> plain_val k v \<and> plain_config d)"

lemma mask_enc_star: "is_enc s \<Longrightarrow> \<exists>m. mask_secret e (Some s) = Some m \<and> is_masked_secret m"
  by (auto simp: mask_secret_def is_enc_def str_truthy_def is_masked_secret_def split: option.splits)

lemma stored_distinct: "stored_config st d \<Longrightarrow> distinct (map fst d)"
  by (induction d) force+

lemma mask_echo_mutual:
  "stored_val st k v \<Longrightarrow> st \<Longrightarrow> enc_val e' k (mask_val e v) (Some v) = v"
  "stored_config st d \<Longrightarrow> st \<Longrightarrow> (\<And>k v. (k, v) \<in> set d \<Longrightarrow> map_of merged k = Some v) \<Longrightarrow>
     encrypt_config_secrets e' (mask_adapter_config e d) merged = merged"
  "stored_items st xs \<Longrightarrow> st \<Longrightarrow> enc_items e' (mask_items e xs) xs = xs"
proof (induction st k v and st d and st xs arbitrary: and merged and rule: stored_val_stored_config_stored_items.induct)
  case (1 st k s)
  then show ?case using mask_enc_star [of s e] by (auto simp: secret_val_def split: option.splits if_splits)
next
  case (2 st k d)
  with stored_distinct [of st d] show ?case by (auto simp: old_dict_def)
next
  case (3 st k xs)
  then show ?case by (simp add: old_list_def)
next
  case (6 st k v d)
  have "map_of merged k = Some v" by (rule 6(5)) simp
  moreover have "encrypt_config_secrets e' (mask_adapter_config e d) merged = merged"
    using 6(3,4) by (intro 6(2) 6(5)) auto
  moreover have "enc_val e' k (mask_val e v) (Some v) = v" using 6(1,3,4) by simp
  ultimately show ?case by (simp add: dset_same)
next
  case (8 st x xs)
  with stored_distinct [of st] show ?case by (auto simp: old_dict_def split: json.splits)
qed simp_all

lemma mask_echo: "stored_config True d \<Longrightarrow> encrypt_config_secrets e' (mask_adapter_config e d) d = d"
  by (rule mask_echo_mutual(2)) (auto dest: stored_distinct)

lemma encrypt_fresh:
  "distinct (map fst d) \<Longrightarrow> fst ` set d \<inter> fst ` set merged = {} \<Longrightarrow>
     encrypt_config_secrets e d merged = merged @ map (\<lambda>(k, v). (k, enc_val e k v None)) d"
proof (induction d arbitrary: merged)
  case (Cons x d)
  obtain k v where x: "x = (k, v)" by fastforce
  have new: "k \<notin> fst ` set merged" using Cons.prems(2) by (auto simp: x)
  then have "map_of merged k = None" by (simp add: map_of_eq_None_iff)
  with Cons new show ?case by (simp add: x dset_new)
qed simp

lemma stored_config_all: "stored_config st d \<longleftrightarrow> distinct (map fst d) \<and> (\<forall>(k, v) \<in> set d. stored_val st k v)"
  by (induction d) force+

lemma encrypt_config_val:
  "distinct (map fst d) \<Longrightarrow> encrypt_config_secrets e d [] = map (\<lambda>(k, v). (k, enc_val e k v None)) d"
  using encrypt_fresh [of d "[]" e] by simp

lemma stored_encrypted_mutual:
  "stored_val st k v \<Longrightarrow> stored_val True k (enc_val e k v None)"
  "stored_config st d \<Longrightarrow> \<forall>(k, v) \<in> set d. stored_val True k (enc_val e k v None)"
  "stored_items st xs \<Longrightarrow> stored_items True (enc_items e xs [])"
proof (induction st k v and st d and st xs rule: stored_val_stored_config_stored_items.induct)
  case (1 st k s)
  then show ?case by (auto simp: secret_val_def is_enc_def split: if_splits)
next
  case (2 st k d)
  then show ?case by (auto simp: old_dict_def encrypt_config_val stored_distinct stored_config_all case_prod_unfold comp_def)
next
  case (3 st k xs)
  then show ?case by (simp add: old_list_def)
next
  case (8 st x xs)
  then show ?case by (auto simp: encrypt_config_val stored_distinct stored_config_all case_prod_unfold comp_def split: json.splits)
qed auto

lemma stored_encrypted: "stored_config st d \<Longrightarrow> stored_config True (encrypt_config_secrets e d [])"
  using stored_encrypted_mutual(2) [of st d e]
  by (auto simp: encrypt_config_val stored_distinct stored_config_all case_prod_unfold comp_def)

lemma plain_config_all: "plain_config d \<longleftrightarrow> distinct (map fst d) \<and> (\<forall>(k, v) \<in> set d. plain_val k v)"
  by (induction d) force+

lemma dec_config_map: "decrypted_adapter_config e d = map (\<lambda>(k, v). (k, dec_val e v)) d"
  by (induction d) auto

lemma enc_items_plain: "\<forall>x \<in> set xs. case x of JObj _ \<Rightarrow> False | _ \<Rightarrow> True \<Longrightarrow> enc_items e xs [] = xs"
  by (induction xs) (auto split: json.splits)

lemma dec_enc_mutual:
  assumes "\<And>p. unseal e (seal e p) = Some p"
  shows "plain_val k v \<Longrightarrow> dec_val e (enc_val e k v None) = v"
    and "plain_config d \<Longrightarrow> \<forall>(k, v) \<in> set d. dec_val e (enc_val e k v None) = v"
proof (induction k v and d rule: plain_val_plain_config.induct)
  case (1 k s)
  then show ?case using decrypt_encrypt [OF assms] by (auto simp: secret_val_def is_enc_def)
next
  case (2 k d)
  then have "distinct (map fst d)" by (simp add: plain_config_all)
  with 2 show ?case by (auto simp: old_dict_def encrypt_config_val dec_config_map case_prod_unfold intro!: map_idI)
next
  case (3 k xs)
  then show ?case by (simp add: old_list_def enc_items_plain)
qed auto

lemma dec_enc_config:
  assumes "\<And>p. unseal e (seal e p) = Some p" and "plain_config d"
  shows "decrypted_adapter_config e (encrypt_config_secrets e d []) = d"
  using dec_enc_mutual(2) [OF assms] assms(2)
  by (auto simp: encrypt_config_val plain_config_all dec_config_map case_prod_unfold intro!: map_idI)

end
