(* ===== verification/Monitor_Lifecycle.thy ===== *)
theory Monitor_Lifecycle
  imports Monitor_Adapter
begin

text \<open>
  What every operation of the monitor keeps of the alerts: the log of an alert is a path of the abstract machine \<open>legal\<close> from
  nothing to its present status, no two active alerts have the same rule and entity, and the engine resolves an alert only on an
  event of its entity that belongs to its rule and does not meet the condition. The step relation \<open>mon_step\<close> is everything that
  can happen to the tables.
\<close>

section \<open>The life of an alert\<close>

text \<open>The abstract machine an alert follows, and the path its log describes.\<close>

fun legal :: "alert_status option \<Rightarrow> alert_status option \<Rightarrow> bool" where
  "legal None t = (t = Some LPending)"
| "legal (Some s) None = False"
| "legal (Some s) (Some t) = (s = t \<or> (s, t) \<in> {(LPending, LFiring), (LFiring, LAcknowledged), (LPending, LResolved),
     (LFiring, LResolved), (LAcknowledged, LResolved), (LResolved, LPending)})"

fun follows :: "alert_status option \<Rightarrow> (alert_status option \<times> alert_status option) list \<Rightarrow> alert_status option \<Rightarrow> bool" where
  "follows s [] t = (s = t)"
| "follows s ((a, b) # ps) t = (a = s \<and> legal a b \<and> follows b ps t)"

definition path_of :: "'z mon_db_scheme \<Rightarrow> int \<Rightarrow> (alert_status option \<times> alert_status option) list" where
  "path_of w i = map (\<lambda>(j, l). (gl_from_status l, gl_to_status l)) (timeline w i)"

definition same_key :: "mon_alert \<Rightarrow> mon_alert \<Rightarrow> bool" where
  "same_key a b = (ma_rule_id a = ma_rule_id b \<and> dget (ma_entity a) ''entity_id'' = dget (ma_entity b) ''entity_id'')"

fun hist_row :: "mon_alert option \<Rightarrow> (alert_status option \<times> alert_status option) list \<Rightarrow> bool" where
  "hist_row None p = (p = [])"
| "hist_row (Some a) p = follows None p (Some (ma_status a))"

definition hist_ok :: "'z mon_db_scheme \<Rightarrow> bool" where
  "hist_ok w = (\<forall>i. hist_row (tget (mon_alerts w) i) (path_of w i))"

definition single_active :: "'z mon_db_scheme \<Rightarrow> bool" where
  "single_active w = (\<forall>i j a b. tget (mon_alerts w) i = Some a \<longrightarrow> tget (mon_alerts w) j = Some b \<longrightarrow> active_status (ma_status a) \<longrightarrow>
     active_status (ma_status b) \<longrightarrow> same_key a b \<longrightarrow> i = j)"

definition mon_inv :: "'z mon_db_scheme \<Rightarrow> bool" where
  "mon_inv w = (table_ok (mon_alerts w) \<and> hist_ok w \<and> single_active w)"

lemma follows_append: "follows s (ps @ qs) t \<longleftrightarrow> (\<exists>u. follows s ps u \<and> follows u qs t)"
  by (induction s ps t rule: follows.induct) auto

lemma follows_step: "follows s ps u \<Longrightarrow> legal u t \<Longrightarrow> follows s (ps @ [(u, t)]) t"
  by (auto simp: follows_append)

lemma path_of_cong: "mon_logs w' = mon_logs w \<Longrightarrow> path_of w' i = path_of w i"
  by (simp add: path_of_def timeline_def)

lemma mon_inv_cong: "mon_alerts w' = mon_alerts w \<Longrightarrow> mon_logs w' = mon_logs w \<Longrightarrow> mon_inv w' = mon_inv w"
  by (simp add: mon_inv_def hist_ok_def single_active_def path_of_cong [of w' w])

lemma path_add_log: "path_of (add_log e i action from to sev op w) k = path_of w k @ (if k = i then [(from, to)] else [])"
  by (simp add: path_of_def timeline_def add_log_def tselect_def tadd_def)

lemma alerts_add_log [simp]: "mon_alerts (add_log e i action from to sev op w) = mon_alerts w"
  by (simp add: add_log_def)

lemma alerts_broadcast [simp]: "mon_alerts (broadcast_alert i w) = mon_alerts w" "mon_logs (broadcast_alert i w) = mon_logs w"
  by (simp_all add: broadcast_alert_def split: option.splits)

lemma alerts_notify_send [simp]:
  "mon_alerts (snd (notify_send e cid sc tg ti co w)) = mon_alerts w" "mon_logs (snd (notify_send e cid sc tg ti co w)) = mon_logs w"
  "mon_rules (snd (notify_send e cid sc tg ti co w)) = mon_rules w"
  by (simp_all add: notify_send_def Let_def split: option.splits prod.splits if_splits)

lemma alerts_send_notify [simp]:
  "mon_alerts (send_alert_notify e i rule title w) = mon_alerts w" "mon_logs (send_alert_notify e i rule title w) = mon_logs w"
  "mon_rules (send_alert_notify e i rule title w) = mon_rules w"
proof -
  have "mon_alerts (fold (\<lambda>cid w. snd (notify_send e cid sc tg ti co w)) cs w) = mon_alerts w \<and>
    mon_logs (fold (\<lambda>cid w. snd (notify_send e cid sc tg ti co w)) cs w) = mon_logs w \<and>
    mon_rules (fold (\<lambda>cid w. snd (notify_send e cid sc tg ti co w)) cs w) = mon_rules w" for sc tg ti co cs
    by (induction cs arbitrary: w) auto
  then show "mon_alerts (send_alert_notify e i rule title w) = mon_alerts w" "mon_logs (send_alert_notify e i rule title w) = mon_logs w"
    "mon_rules (send_alert_notify e i rule title w) = mon_rules w"
    by (simp_all add: send_alert_notify_def split: option.splits)
qed

lemma mon_inv_broadcast [simp]: "mon_inv (broadcast_alert i w) = mon_inv w"
  by (rule mon_inv_cong) simp_all

lemma mon_inv_send [simp]: "mon_inv (send_alert_notify e i rule title w) = mon_inv w"
  by (rule mon_inv_cong) simp_all

lemma log_alert_event_add:
  "action \<in> set MON_ALERT_ACTIONS \<Longrightarrow> log_alert_event e i action from to sev w = add_log e i action from to sev None w"
  by (simp add: log_alert_event_def)

text \<open>An entry that records no move.\<close>

lemma mon_inv_stay:
  assumes "mon_inv w" and "tget (mon_alerts w) i = Some a"
  shows "mon_inv (add_log e i action (Some (ma_status a)) (Some (ma_status a)) sev op w)"
proof -
  have "hist_row (tget (mon_alerts w) k) (path_of w k)" for k using assms(1) by (simp add: mon_inv_def hist_ok_def)
  from this [of i] this have "hist_ok (add_log e i action (Some (ma_status a)) (Some (ma_status a)) sev op w)"
    using assms(2) by (auto simp: hist_ok_def path_add_log follows_step)
  with assms(1) show ?thesis by (simp add: mon_inv_def single_active_def)
qed

text \<open>A change of other fields of a row.\<close>

lemma mon_inv_touch:
  assumes inv: "mon_inv w" and keep: "\<And>r. tget (mon_alerts w) i = Some r \<Longrightarrow> ma_status (f r) = ma_status r \<and> same_key (f r) r"
  shows "mon_inv (upd_alert i f w)"
proof (cases "tget (mon_alerts w) i")
  case None
  then have "tget (mon_alerts (upd_alert i f w)) = tget (mon_alerts w)" by (auto simp: upd_alert_def)
  moreover have "path_of (upd_alert i f w) j = path_of w j" for j by (rule path_of_cong) (simp add: upd_alert_def)
  moreover have "table_ok (mon_alerts (upd_alert i f w))" using inv by (simp add: mon_inv_def upd_alert_def)
  ultimately show ?thesis using inv by (simp add: mon_inv_def hist_ok_def single_active_def)
next
  case (Some a)
  from keep [OF Some] have f: "ma_status (f a) = ma_status a" "same_key (f a) b = same_key a b" "same_key b (f a) = same_key b a" for b
    by (auto simp: same_key_def)
  have get: "tget (mon_alerts (upd_alert i f w)) j = (if j = i then Some (f a) else tget (mon_alerts w) j)" for j
    using Some by (simp add: upd_alert_def)
  have path: "path_of (upd_alert i f w) j = path_of w j" for j by (rule path_of_cong) (simp add: upd_alert_def)
  have "hist_row (tget (mon_alerts w) k) (path_of w k)" for k using inv by (simp add: mon_inv_def hist_ok_def)
  from this [of i] this have "hist_ok (upd_alert i f w)" unfolding hist_ok_def get path using Some f by auto
  moreover have "single_active (upd_alert i f w)" unfolding single_active_def get
    using inv Some f by (auto simp: mon_inv_def single_active_def split: if_splits)
  moreover have "table_ok (mon_alerts (upd_alert i f w))" using inv by (simp add: mon_inv_def upd_alert_def)
  ultimately show ?thesis by (simp add: mon_inv_def)
qed

text \<open>A move with its entry; \<open>single\<close> is what a move back to life needs.\<close>

lemma mon_inv_move:
  assumes inv: "mon_inv w" and cas: "alert_optimistic_update i s t v f w = (True, w1)" and leg: "legal (Some s) (Some t)"
    and keep: "\<And>r. ma_status (f r) = ma_status r \<and> same_key (f r) r"
    and single: "active_status t \<Longrightarrow> active_status s \<or>
      (\<forall>a j b. tget (mon_alerts w) i = Some a \<longrightarrow> tget (mon_alerts w) j = Some b \<longrightarrow> same_key a b \<longrightarrow> \<not> active_status (ma_status b))"
  shows "mon_inv (add_log e i action (Some s) (Some t) sev op w1)"
proof -
  from cas obtain a where a: "tget (mon_alerts w) i = Some a" "ma_status a = s" "ma_version a = v"
    and w1: "w1 = w\<lparr>mon_alerts := tupd i f (tupd i (put_alert t (v + 1)) (mon_alerts w))\<rparr>"
    by (auto simp: alert_optimistic_update_def cas_row_def cas_matches_def Let_def split: option.splits if_splits prod.splits)
  define b where "b = f (put_alert t (v + 1) a)"
  have b: "ma_status b = t" "same_key b c = same_key a c" "same_key c b = same_key c a" for c
    using keep [of "put_alert t (v + 1) a"] by (auto simp: b_def put_alert_def same_key_def)
  let ?w' = "add_log e i action (Some s) (Some t) sev op w1"
  have get: "tget (mon_alerts ?w') j = (if j = i then Some b else tget (mon_alerts w) j)" for j
    using a by (simp add: w1 b_def)
  have path: "path_of ?w' j = path_of w j @ (if j = i then [(Some s, Some t)] else [])" for j
    using path_of_cong [of w1 w j] by (simp add: path_add_log w1)
  have "hist_row (tget (mon_alerts w) k) (path_of w k)" for k using inv by (simp add: mon_inv_def hist_ok_def)
  from this [of i] this have "hist_ok ?w'" unfolding hist_ok_def get path using a leg b by (auto intro: follows_step)
  moreover have "single_active ?w'" unfolding single_active_def get
    using inv a b single by (auto simp: mon_inv_def single_active_def same_key_def split: if_splits)
  moreover have "table_ok (mon_alerts ?w')" using inv by (simp add: w1 mon_inv_def)
  ultimately show ?thesis by (simp add: mon_inv_def)
qed


text \<open>A new row with its first entry.\<close>

lemma mon_inv_new:
  assumes inv: "mon_inv w" and st: "ma_status a = LPending"
    and single: "\<And>j b. tget (mon_alerts w) j = Some b \<Longrightarrow> same_key a b \<Longrightarrow> \<not> active_status (ma_status b)"
  shows "mon_inv (add_log e (next_id (mon_alerts w)) action None (Some LPending) sev op (w\<lparr>mon_alerts := tadd a (mon_alerts w)\<rparr>))"
proof -
  let ?i = "next_id (mon_alerts w)"
  let ?w1 = "w\<lparr>mon_alerts := tadd a (mon_alerts w)\<rparr>"
  let ?w' = "add_log e ?i action None (Some LPending) sev op ?w1"
  have ok: "table_ok (mon_alerts w)" using inv by (simp add: mon_inv_def)
  have get: "tget (mon_alerts ?w') j = (if j = ?i then Some a else tget (mon_alerts w) j)" for j
    using tget_tadd [OF ok] by simp
  have fresh: "tget (mon_alerts w) ?i = None" by (rule table_ok_fresh [OF ok])
  have path: "path_of ?w' j = path_of w j @ (if j = ?i then [(None, Some LPending)] else [])" for j
    using path_of_cong [of ?w1 w j] by (simp add: path_add_log)
  have "hist_row (tget (mon_alerts w) k) (path_of w k)" for k using inv by (simp add: mon_inv_def hist_ok_def)
  from this [of ?i] this have "hist_ok ?w'" unfolding hist_ok_def get path using st fresh by auto
  moreover have "single_active ?w'" unfolding single_active_def get
    using inv single by (auto simp: mon_inv_def single_active_def same_key_def split: if_splits)
  moreover have "table_ok (mon_alerts ?w')" using ok by simp
  ultimately show ?thesis by (simp add: mon_inv_def)
qed

lemma same_key_refl [simp]: "same_key a a"
  by (simp add: same_key_def)

lemma alert_update_alerts:
  "alert_optimistic_update i s t v f w = (ok, w1) \<Longrightarrow> tget (mon_alerts w1) j = None \<longleftrightarrow> tget (mon_alerts w) j = None"
  by (auto simp: alert_optimistic_update_def cas_row_def Let_def split: if_splits prod.splits)

lemmas engine_actions = log_alert_event_add [of "''fire''"] log_alert_event_add [of "''suppress''"] log_alert_event_add [of "''escalate''"]
  log_alert_event_add [of "''resolve''"]

lemma mon_inv_log_now:
  assumes "mon_inv w"
  shows "mon_inv (log_now e i action w)"
  using assms mon_inv_stay [OF assms] by (auto simp: log_now_def alert_now_def log_alert_event_def split: option.splits)

lemma mon_inv_maybe_notify: "mon_inv w \<Longrightarrow> mon_inv (snd (maybe_notify e i rule w))"
  by (simp add: maybe_notify_def mon_inv_log_now)

lemma mon_inv_escalate:
  assumes "mon_inv w"
  shows "mon_inv (snd (maybe_escalate e i rule w))"
  using assms by (auto simp: maybe_escalate_def same_key_def intro!: mon_inv_log_now mon_inv_touch split: option.splits)

lemma convergeE:
  assumes "try_converge e rid rule ev w = Some w'"
  obtains i a w1 where "recently_resolved e w rid (entity_key ev) (mr_converge_sec rule) = Some (i, a)"
    and "alert_optimistic_update i LResolved LPending (ma_version a) (\<lambda>r. r\<lparr>ma_resolved_at := None, ma_fired_at := None\<rparr>) w = (True, w1)"
    and "w' = broadcast_alert i (log_alert_event e i ''fire'' (Some LResolved) (Some LPending) (ma_severity a)
        (upd_alert i (\<lambda>r. r\<lparr>ma_pending_since := Some (now e), ma_last_event_at := Some (now e),
                                 ma_hit_count := ma_hit_count r + 1, ma_last_value := event_value e ev\<rparr>) w1))"
  using assms by (auto simp: try_converge_def Let_def split: if_splits option.splits prod.splits bool.splits)

lemma fireE:
  assumes "fire_alert e i a rule w = Some (outcome, w')"
  obtains w1 where "alert_optimistic_update i LPending LFiring (ma_version a) (\<lambda>r. r\<lparr>ma_fired_at := Some (now e)\<rparr>) w = (True, w1)"
    and "(outcome, w') = apsnd (broadcast_alert i)
      (maybe_notify e i rule (log_alert_event e i ''fire'' (Some LPending) (Some LFiring) (ma_severity a) w1))"
  using assms by (auto simp: fire_alert_def Let_def split: prod.splits bool.splits)

lemma resolve_engineE:
  assumes "resolve_alert_engine e i w = (ok, w')"
  obtains (kept) "\<not> ok" "w' = w"
  | (moved) a w1 where "ok" "tget (mon_alerts w) i = Some a" "ma_status a \<noteq> LResolved"
    "alert_optimistic_update i (ma_status a) LResolved (ma_version a) (\<lambda>r. r\<lparr>ma_resolved_at := Some (now e)\<rparr>) w = (True, w1)"
    "mon_alerts w' = mon_alerts w1" "mon_logs w' = mon_logs (log_alert_event e i ''resolve'' (Some (ma_status a)) (Some LResolved) (ma_severity a) w1)"
  using assms by (auto simp: resolve_alert_engine_def alert_now_def Let_def log_alert_event_def split: option.splits if_splits prod.splits bool.splits)

lemma mon_inv_resolve_engine:
  assumes inv: "mon_inv w"
  shows "mon_inv (snd (resolve_alert_engine e i w))"
proof -
  obtain ok w' where r: "resolve_alert_engine e i w = (ok, w')" by fastforce
  then show ?thesis
  proof (cases rule: resolve_engineE)
    case (moved a w1)
    have "mon_inv (add_log e i ''resolve'' (Some (ma_status a)) (Some LResolved) (ma_severity a) None w1)"
      by (rule mon_inv_move [OF inv moved(4)]) (cases "ma_status a"; simp add: active_status_def same_key_def)+
    then show ?thesis using moved r mon_inv_cong [of w' "add_log e i ''resolve'' (Some (ma_status a)) (Some LResolved) (ma_severity a) None w1"]
      by (simp add: log_alert_event_def MON_ALERT_ACTIONS_def)
  qed (simp add: r inv)
qed

lemma mon_inv_fire:
  assumes inv: "mon_inv w" and "fire_alert e i a rule w = Some (outcome, w')"
  shows "mon_inv w'"
  using assms(2)
proof (cases rule: fireE)
  case (1 w1)
  have "mon_inv (log_alert_event e i ''fire'' (Some LPending) (Some LFiring) (ma_severity a) w1)"
    using mon_inv_move [OF inv 1(1)] by (simp add: log_alert_event_def MON_ALERT_ACTIONS_def active_status_def same_key_def)
  from mon_inv_maybe_notify [OF this, of e i rule] 1(2) show ?thesis by (auto simp: apsnd_def map_prod_def split: prod.splits)
qed

lemma mon_inv_refresh:
  assumes "mon_inv w" and "alert_optimistic_update i s s v id w = (ok, w1)"
  shows "mon_inv w1"
proof (cases ok)
  case True
  then have "w1 = upd_alert i (put_alert s (v + 1)) w" and "cas_matches ma_status ma_version (mon_alerts w) i s v"
    using assms(2) by (auto simp: alert_optimistic_update_def cas_row_def upd_alert_def tupd_def Let_def split: if_splits prod.splits)
  with assms(1) show ?thesis by (auto intro!: mon_inv_touch simp: same_key_def put_alert_def cas_matches_def)
next
  case False
  with assms show ?thesis by (auto simp: alert_optimistic_update_def Let_def split: if_splits prod.splits)
qed


lemma tlast_Some: "table_ok t \<Longrightarrow> tlast P t = Some (i, r) \<Longrightarrow> tget t i = Some r \<and> P r"
  using in_tselect [of t i r P] by (auto simp: tlast_def split: list.splits dest: arg_cong [of _ _ rev])

lemma tlast_None: "table_ok t \<Longrightarrow> tlast P t = None \<Longrightarrow> tget t i = Some r \<Longrightarrow> \<not> P r"
  using in_tselect [of t i r P] by (auto simp: tlast_def split: list.splits)

lemma no_active:
  "mon_inv w \<Longrightarrow> active_by_rule_entity w rid k = None \<Longrightarrow> tget (mon_alerts w) j = Some b \<Longrightarrow> ma_rule_id b = Some rid \<Longrightarrow>
     dget (ma_entity b) ''entity_id'' = k \<Longrightarrow> \<not> active_status (ma_status b)"
  using tlast_None [of "mon_alerts w" "\<lambda>a. ma_rule_id a = Some rid \<and> dget (ma_entity a) ''entity_id'' = k \<and> active_status (ma_status a)" j b]
  by (simp add: active_by_rule_entity_def mon_inv_def)

lemma mon_inv_converge:
  assumes inv: "mon_inv w" and none: "active_by_rule_entity w rid (entity_key ev) = None" and "try_converge e rid rule ev w = Some w'"
  shows "mon_inv w'"
proof -
  from assms(3) obtain i a w1 where r: "recently_resolved e w rid (entity_key ev) (mr_converge_sec rule) = Some (i, a)"
    and cas: "alert_optimistic_update i LResolved LPending (ma_version a) (\<lambda>r. r\<lparr>ma_resolved_at := None, ma_fired_at := None\<rparr>) w = (True, w1)"
    and w': "w' = broadcast_alert i (log_alert_event e i ''fire'' (Some LResolved) (Some LPending) (ma_severity a)
        (upd_alert i (\<lambda>r. r\<lparr>ma_pending_since := Some (now e), ma_last_event_at := Some (now e),
                                 ma_hit_count := ma_hit_count r + 1, ma_last_value := event_value e ev\<rparr>) w1))"
    by (rule convergeE)
  from r inv have a: "tget (mon_alerts w) i = Some a" "ma_rule_id a = Some rid" "dget (ma_entity a) ''entity_id'' = entity_key ev"
    using tlast_Some [of "mon_alerts w"] by (fastforce simp: recently_resolved_def mon_inv_def)+
  have "mon_inv (add_log e i ''fire'' (Some LResolved) (Some LPending) (ma_severity a) None w1)"
    by (rule mon_inv_move [OF inv cas]) (auto simp: same_key_def a dest: no_active [OF inv none])
  then have "mon_inv (upd_alert i (\<lambda>r. r\<lparr>ma_pending_since := Some (now e), ma_last_event_at := Some (now e), ma_hit_count := ma_hit_count r + 1,
      ma_last_value := event_value e ev\<rparr>) (add_log e i ''fire'' (Some LResolved) (Some LPending) (ma_severity a) None w1))"
    by (rule mon_inv_touch) (simp add: same_key_def)
  moreover have "upd_alert i f (add_log e i ac x y sev op w1) = add_log e i ac x y sev op (upd_alert i f w1)" for f ac x y sev op
    by (simp add: upd_alert_def add_log_def)
  ultimately show ?thesis by (simp add: w' log_alert_event_def MON_ALERT_ACTIONS_def)
qed

text \<open>What validation gives of an event: its entity is a dict with an identifier.\<close>

definition has_entity :: "dict \<Rightarrow> bool" where
  "has_entity ev = truthy (entity_key ev)"

lemma has_entity_truthy: "has_entity ev \<Longrightarrow> truthy (dget ev ''entity'')"
  by (cases "dget ev ''entity''") (auto simp: has_entity_def entity_key_def as_dict_def dget_def)

lemma mon_inv_first_hit:
  assumes inv: "mon_inv w" and none: "active_by_rule_entity w rid (entity_key ev) = None" and ev: "has_entity ev"
  shows "mon_inv (first_hit e rid rule ev w)"
proof -
  have key: "ma_rule_id (new_alert e rid rule ev) = Some rid" "dget (ma_entity (new_alert e rid rule ev)) ''entity_id'' = entity_key ev"
    "ma_status (new_alert e rid rule ev) = LPending"
    using has_entity_truthy [OF ev] by (simp_all add: new_alert_def entity_key_def)
  have "mon_inv (add_log e (next_id (mon_alerts w)) ''fire'' None (Some LPending) sev None (w\<lparr>mon_alerts := tadd (new_alert e rid rule ev) (mon_alerts w)\<rparr>))" for sev
    by (rule mon_inv_new [OF inv key(3)]) (auto simp: same_key_def key dest: no_active [OF inv none])
  then show ?thesis by (simp add: first_hit_def Let_def log_alert_event_def MON_ALERT_ACTIONS_def)
qed

lemma mon_inv_eval_pending:
  assumes "mon_inv w" and "tget (mon_alerts w) i = Some b" and "ma_status b = LPending"
  shows "mon_inv (snd (eval_pending e i a rule w))"
  using assms mon_inv_fire [OF assms(1), of e i a rule] mon_inv_stay [OF assms(1,2)]
  by (auto simp: eval_pending_def log_alert_event_def split: option.splits)

lemma mon_inv_eval_firing:
  assumes "mon_inv w"
  shows "mon_inv (snd (eval_firing e i a rule w))"
proof -
  obtain ok w1 where cas: "alert_optimistic_update i (ma_status a) (ma_status a) (ma_version a) id w = (ok, w1)" by fastforce
  have "mon_inv (snd (maybe_escalate e i rule (snd (maybe_notify e i rule w1))))"
    by (intro mon_inv_escalate mon_inv_maybe_notify mon_inv_refresh [OF assms cas])
  then show ?thesis by (simp add: eval_firing_def Let_def cas case_prod_unfold)
qed

lemma mon_inv_eval_rule:
  assumes inv: "mon_inv w" and ev: "has_entity ev"
  shows "mon_inv (snd (eval_rule e ev (rid, rule) w))"
proof (cases "active_by_rule_entity w rid (entity_key ev)")
  case None
  then show ?thesis
    using inv mon_inv_first_hit [OF inv None ev] mon_inv_converge [OF inv None] by (auto simp: eval_rule_def Let_def split: option.splits)
next
  case (Some x)
  obtain i a where x: "x = (i, a)" by fastforce
  from Some inv have a: "tget (mon_alerts w) i = Some a"
    using tlast_Some [of "mon_alerts w"] by (fastforce simp: x active_by_rule_entity_def mon_inv_def)
  have t: "mon_inv (upd_alert i (touch_alert e ev) w)" by (rule mon_inv_touch [OF inv]) (simp add: touch_alert_def same_key_def)
  have ta: "tget (mon_alerts (upd_alert i (touch_alert e ev) w)) i = Some (touch_alert e ev a)" using a by (simp add: upd_alert_def)
  show ?thesis
    using inv mon_inv_resolve_engine [OF inv] mon_inv_eval_pending [OF t ta] mon_inv_eval_firing [OF t]
    by (auto simp: eval_rule_def Let_def Some x touch_alert_def)
qed

lemma mon_inv_eval_rules: "mon_inv w \<Longrightarrow> has_entity ev \<Longrightarrow> mon_inv (snd (eval_rules e ev its w))"
proof (induction its arbitrary: w)
  case (Cons it its)
  obtain rid rule where it: "it = (rid, rule)" by fastforce
  from Cons.IH [OF mon_inv_eval_rule [OF Cons.prems]] Cons.prems(2) show ?case by (simp add: it Let_def case_prod_unfold)
qed simp

lemma mon_inv_evaluate: "evaluate_event e ev w = Inr (out, w') \<Longrightarrow> mon_inv w \<Longrightarrow> has_entity ev \<Longrightarrow> mon_inv w'"
  using mon_inv_eval_rules [of w ev e "enabled_rules w"] by (simp add: evaluate_event_def split: if_splits)

lemma mon_inv_sweep_one: "mon_inv (snd st) \<Longrightarrow> mon_inv (snd (sweep_one e fr it st))"
  using mon_inv_fire [of "snd st"] mon_inv_escalate [of "snd st"]
  by (simp add: sweep_one_def Let_def case_prod_unfold split: option.splits bool.splits)

lemma mon_inv_sweep: "mon_inv w \<Longrightarrow> mon_inv (snd (sweep_active_alerts e w))"
proof -
  assume inv: "mon_inv w"
  have "mon_inv (snd (fold (sweep_one e fr) its st))" if "mon_inv (snd st)" for fr its and st :: "(nat \<times> nat) \<times> 'a mon_db_scheme"
    using that by (induction its arbitrary: st) (auto simp: mon_inv_sweep_one)
  moreover have "mon_inv (snd (sweep_due e w))"
    using inv mon_inv_cong [of "snd (sweep_due e w)" w] by (simp add: sweep_due_def Let_def)
  ultimately show ?thesis using inv by (auto simp: sweep_active_alerts_def Let_def case_prod_unfold split: bool.splits prod.splits)
qed


section \<open>The service\<close>

lemma mon_inv_acknowledge: "acknowledge_alert e u i w = Inr (r, w') \<Longrightarrow> mon_inv w \<Longrightarrow> mon_inv w'"
  by (auto simp: acknowledge_alert_def active_status_def intro!: mon_inv_move split: sum.splits if_splits prod.splits bool.splits)

lemma mon_inv_resolve:
  assumes inv: "mon_inv w" and "resolve_alert e u i w = Inr (r, w')"
  shows "mon_inv w'"
proof -
  have "mon_inv (add_log e i ac (Some s) (Some LResolved) sev op w1)"
    if "alert_optimistic_update i s LResolved v (\<lambda>r. r\<lparr>ma_resolved_at := t\<rparr>) w = (True, w1)" for s sev w1 v t ac op
    using mon_inv_move [OF inv that] by (cases s) (simp_all add: active_status_def same_key_def inv)
  with assms(2) show ?thesis by (auto simp: resolve_alert_def split: sum.splits if_splits prod.splits bool.splits)
qed

lemma add_event_frame [simp]:
  "add_event e row w = Inr w' \<Longrightarrow> mon_alerts w' = mon_alerts w \<and> mon_logs w' = mon_logs w \<and> mon_rules w' = mon_rules w"
  by (auto simp: add_event_def split: if_splits)

lemma mon_inv_add_event: "add_event e row w = Inr w' \<Longrightarrow> mon_inv w' = mon_inv w"
  by (rule mon_inv_cong) (auto dest: add_event_frame)

lemma mon_inv_dead_letter [simp]: "mon_inv (dead_letter e raw err detail w) = mon_inv w"
  by (auto simp: dead_letter_def mon_inv_add_event split: option.splits sum.splits prod.splits if_splits)

lemma persist_frame:
  "persist_metric_sample e raw entity ts m w = Inr w' \<Longrightarrow> mon_alerts w' = mon_alerts w \<and> mon_logs w' = mon_logs w \<and> mon_rules w' = mon_rules w"
  by (auto simp: persist_metric_sample_def upsert_daily_def Let_def split: option.splits json.splits if_splits prod.splits)

lemma validated_entity: "validate_event e raw = Inr None \<Longrightarrow> has_entity raw"
  by (auto simp: validate_event_def Let_def has_entity_def entity_key_def split: if_splits)

lemma entity_normalized [simp]: "entity_key (normalize_metric_name e raw) = entity_key raw" "dget (normalize_metric_name e raw) ''entity'' = dget raw ''entity''"
  by (simp_all add: normalize_metric_name_def entity_key_def split: option.splits)

lemma has_entity_normalized [simp]: "has_entity (normalize_metric_name e raw) = has_entity raw"
  by (simp add: has_entity_def)

lemma mon_inv_store:
  assumes "store_and_evaluate e raw entity k fp sv wn ts m w = Inr w'" and "mon_inv w" and "has_entity raw"
  shows "mon_inv w'"
proof -
  have "\<exists>w2 out. mon_alerts w2 = mon_alerts w \<and> mon_logs w2 = mon_logs w \<and> evaluate_event e raw w2 = Inr (out, w')"
    using assms(1) by (fastforce simp: store_and_evaluate_def split: sum.splits option.splits dest!: add_event_frame persist_frame)
  then obtain w2 out where "mon_alerts w2 = mon_alerts w" "mon_logs w2 = mon_logs w" and ev: "evaluate_event e raw w2 = Inr (out, w')"
    by blast
  with assms(2) have "mon_inv w2" using mon_inv_cong [of w2 w] by simp
  from mon_inv_evaluate [OF ev this assms(3)] show ?thesis .
qed

lemma mon_inv_process: "process_event e raw w = Inr (r, w') \<Longrightarrow> mon_inv w \<Longrightarrow> mon_inv w'"
  by (auto simp: process_event_def Let_def split: sum.splits option.splits if_splits json.splits
      dest!: validated_entity intro: mon_inv_store)

lemma mon_inv_ingest_events: "ingest_events e js w = Inr (r, w') \<Longrightarrow> mon_inv w \<Longrightarrow> mon_inv w'"
proof (induction js arbitrary: w r)
  case (Cons j js)
  from Cons.prems(1) obtain raw res w1 r1 where p: "process_event e raw w = Inr (res, w1)"
    and rest: "ingest_events e js (case res of Rejected er dead \<Rightarrow> if er \<noteq> [] \<and> \<not> dead then dead_letter e (Some raw) er None w1 else w1 | Accepted _ \<Rightarrow> w1) = Inr (r1, w')"
    by (auto simp: Let_def split: json.splits sum.splits prod.splits)
  from mon_inv_process [OF p Cons.prems(2)] have "mon_inv (case res of Rejected er dead \<Rightarrow> if er \<noteq> [] \<and> \<not> dead then dead_letter e (Some raw) er None w1 else w1 | Accepted _ \<Rightarrow> w1)"
    by (simp split: event_result.splits)
  from Cons.IH [OF rest this] show ?case .
qed simp

lemma mon_inv_ingest: "ingest e i p w = Inr (r, w') \<Longrightarrow> mon_inv w \<Longrightarrow> mon_inv w'"
  by (auto simp: ingest_def split: if_splits option.splits sum.splits prod.splits dest: mon_inv_ingest_events)

text \<open>Everything that can happen to the tables of the monitor.\<close>

inductive mon_step :: "'z mon_db_scheme \<Rightarrow> 'z mon_db_scheme \<Rightarrow> bool" where
  ingested: "ingest e i p w = Inr (r, w') \<Longrightarrow> mon_step w w'"
| swept: "sweep_active_alerts e w = (r, w') \<Longrightarrow> mon_step w w'"
| acknowledged: "acknowledge_alert e u i w = Inr (r, w') \<Longrightarrow> mon_step w w'"
| resolved: "resolve_alert e u i w = Inr (r, w') \<Longrightarrow> mon_step w w'"
| rule_created: "create_rule u d w = Inr (r, w') \<Longrightarrow> mon_step w w'"
| rule_updated: "update_rule u i d w = Inr (r, w') \<Longrightarrow> mon_step w w'"
| rule_deleted: "delete_rule u i w = Inr (r, w') \<Longrightarrow> mon_step w w'"
| rule_switched: "set_rule_status u i n w = Inr (r, w') \<Longrightarrow> mon_step w w'"
| adapter_created: "create_adapter e u name ty ep c n w = Inr (r, w') \<Longrightarrow> mon_step w w'"
| adapter_updated: "update_adapter e u i name ty ep n c w = Inr (r, w') \<Longrightarrow> mon_step w w'"
| adapter_deleted: "delete_adapter u i w = Inr (r, w') \<Longrightarrow> mon_step w w'"
| adapter_switched: "set_adapter_status u i n w = Inr (r, w') \<Longrightarrow> mon_step w w'"
| adapter_tested: "test_adapter e u i w = Inr (r, w') \<Longrightarrow> mon_step w w'"
| channel_created: "create_channel (ne :: notify_env) name ty c n w = Inr (r, w') \<Longrightarrow> mon_step w w'"
| channel_updated: "update_channel (ne :: notify_env) i name c n w = Inr (r, w') \<Longrightarrow> mon_step w w'"
| channel_deleted: "delete_channel i w = Inr (r, w') \<Longrightarrow> mon_step w w'"
| channel_switched: "set_channel_status i n w = Inr (r, w') \<Longrightarrow> mon_step w w'"
| notified: "notify_send (ne :: notify_env) i sc tg ti co w = (r, w') \<Longrightarrow> mon_step w w'"
| resent: "resend (ne :: notify_env) i w = Inr (r, w') \<Longrightarrow> mon_step w w'"

lemma mon_inv_step: "mon_step w w' \<Longrightarrow> mon_inv w \<Longrightarrow> mon_inv w'"
proof (induction rule: mon_step.induct)
  case (swept e w r w')
  then show ?case using mon_inv_sweep [of w e] by simp
next
  case (notified ne i sc tg ti co w r w')
  then show ?case using alerts_notify_send [of ne i sc tg ti co w] mon_inv_cong [of w' w] by simp
next
  case (resent ne i w r w')
  then have "\<exists>sc tg ti co c. w' = snd (notify_send ne c sc tg ti co w)"
    by (fastforce simp: resend_def split: option.splits dest: arg_cong [of _ _ snd])
  then obtain sc tg ti co c where "w' = snd (notify_send ne c sc tg ti co w)" by blast
  then show ?case using resent(2) mon_inv_cong [of w' w] by simp
next
  case (channel_updated ne i name c n w r w')
  then show ?case using mon_inv_cong [of w' w] by (auto simp: update_channel_def split: if_splits)
next
  case (ingested e i p w r w')
  then show ?case by (rule mon_inv_ingest)
next
  case (acknowledged e u i w r w')
  then show ?case by (rule mon_inv_acknowledge)
next
  case (resolved e u i w r w')
  from mon_inv_resolve [OF resolved(2,1)] show ?case .
qed (auto simp: create_rule_def update_rule_def delete_rule_def set_rule_status_def upd_rule_def create_adapter_def update_adapter_def
         delete_adapter_def set_adapter_status_def upd_adapter_def test_adapter_def create_channel_def delete_channel_def set_channel_status_def
         Let_def elim!: mon_inv_cong [THEN iffD2, rotated 2] split: sum.splits if_splits option.splits)


text \<open>A database in which no rule was evaluated yet, and what can be reached from it.\<close>

definition fresh_monitor :: "'z mon_db_scheme \<Rightarrow> bool" where
  "fresh_monitor w = (mon_alerts w = empty_table \<and> mon_logs w = empty_table)"

lemma mon_inv_fresh: "fresh_monitor w \<Longrightarrow> mon_inv w"
  by (simp add: fresh_monitor_def mon_inv_def hist_ok_def single_active_def path_of_def timeline_def tselect_def)
     (simp add: empty_table_def)

lemma mon_inv_reach: "mon_step\<^sup>*\<^sup>* w0 w \<Longrightarrow> fresh_monitor w0 \<Longrightarrow> mon_inv w"
  by (induction rule: rtranclp_induct) (auto intro: mon_inv_step mon_inv_fresh)

section \<open>What resolves an alert\<close>

lemma alerts_log [simp]: "mon_alerts (log_alert_event e i ac x y sev w) = mon_alerts w"
  by (simp add: log_alert_event_def)

lemma alerts_log_now [simp]: "mon_alerts (log_now e i ac w) = mon_alerts w"
  by (simp add: log_now_def split: option.splits)

lemma alerts_maybe_notify [simp]: "mon_alerts (snd (maybe_notify e i rule w)) = mon_alerts w"
  by (simp add: maybe_notify_def)

definition keeps :: "(int \<Rightarrow> mon_alert \<Rightarrow> bool) \<Rightarrow> 'z mon_db_scheme \<Rightarrow> 'z mon_db_scheme \<Rightarrow> bool" where
  "keeps P w w' = (\<forall>i a. tget (mon_alerts w) i = Some a \<longrightarrow> (\<exists>b. tget (mon_alerts w') i = Some b \<and> same_key b a \<and>
     (ma_status b = LResolved \<longrightarrow> ma_status a = LResolved \<or> P i a)))"

lemma keeps_refl: "mon_alerts w' = mon_alerts w \<Longrightarrow> keeps P w w'"
  by (simp add: keeps_def)

lemma keeps_trans:
  assumes "keeps P w w1" and "keeps Q w1 w2" and "\<And>i a b. same_key b a \<Longrightarrow> Q i b \<Longrightarrow> P i a"
  shows "keeps P w w2"
  unfolding keeps_def
proof (intro allI impI)
  fix i a
  assume a: "tget (mon_alerts w) i = Some a"
  with assms(1) obtain b where b: "tget (mon_alerts w1) i = Some b" "same_key b a" "ma_status b = LResolved \<longrightarrow> ma_status a = LResolved \<or> P i a"
    by (auto simp: keeps_def)
  with assms(2) obtain c where c: "tget (mon_alerts w2) i = Some c" "same_key c b" "ma_status c = LResolved \<longrightarrow> ma_status b = LResolved \<or> Q i b"
    by (auto simp: keeps_def)
  show "\<exists>c. tget (mon_alerts w2) i = Some c \<and> same_key c a \<and> (ma_status c = LResolved \<longrightarrow> ma_status a = LResolved \<or> P i a)"
    using b c assms(3) [of b a i] by (auto simp: same_key_def)
qed

lemma keeps_upd:
  assumes "mon_alerts w' = tupd i f (mon_alerts w)"
    and "\<And>r. tget (mon_alerts w) i = Some r \<Longrightarrow> same_key (f r) r \<and> (ma_status (f r) = LResolved \<longrightarrow> ma_status r = LResolved \<or> P i r)"
  shows "keeps P w w'"
  using assms by (auto simp: keeps_def)

lemma keeps_escalate: "keeps P w (snd (maybe_escalate e i rule w))"
proof (cases "fst (maybe_escalate e i rule w)")
  case True
  then obtain target where "mon_alerts (snd (maybe_escalate e i rule w)) = tupd i (\<lambda>r. r\<lparr>ma_severity := target\<rparr>) (mon_alerts w)"
    by (auto simp: maybe_escalate_def upd_alert_def split: option.splits)
  then show ?thesis by (rule keeps_upd) (simp add: same_key_def)
next
  case False
  then show ?thesis by (intro keeps_refl) (auto simp: maybe_escalate_def split: option.splits)
qed

lemma keeps_cas:
  assumes "alert_optimistic_update i s t v f w = (ok, w1)" and "\<And>r. ma_status (f r) = ma_status r \<and> same_key (f r) r"
    and "\<And>r. tget (mon_alerts w) i = Some r \<Longrightarrow> t = LResolved \<Longrightarrow> ma_status r = LResolved \<or> P i r"
  shows "keeps P w w1"
proof (cases ok)
  case True
  with assms(1) have "mon_alerts w1 = tupd i f (tupd i (put_alert t (v + 1)) (mon_alerts w))"
    by (auto simp: alert_optimistic_update_def cas_row_def Let_def split: if_splits prod.splits)
  then have "mon_alerts w1 = tupd i (f \<circ> put_alert t (v + 1)) (mon_alerts w)"
    by (simp add: tupd_def comp_def case_prod_unfold)
  then show ?thesis
    by (rule keeps_upd) (use assms(2,3) in \<open>auto simp: put_alert_def same_key_def\<close>)
next
  case False
  with assms(1) show ?thesis by (intro keeps_refl) (auto simp: alert_optimistic_update_def Let_def split: if_splits prod.splits)
qed


text \<open>The condition of \<open>_rule_pertains\<close> and \<open>_condition_met\<close> under which an event may resolve an alert.\<close>

definition clears :: "mon_env \<Rightarrow> dict \<Rightarrow> (int \<times> mon_rule) list \<Rightarrow> int \<Rightarrow> mon_alert \<Rightarrow> bool" where
  "clears e ev its i a = (\<exists>(rid, rule) \<in> set its. ma_rule_id a = Some rid \<and> dget (ma_entity a) ''entity_id'' = entity_key ev \<and>
     rule_pertains e rule ev \<and> \<not> condition_met e rule ev)"

lemma clears_key: "same_key b a \<Longrightarrow> clears e ev its i b \<Longrightarrow> clears e ev its i a"
  by (auto simp: clears_def same_key_def)

lemma clears_mono: "clears e ev its i a \<Longrightarrow> set its \<subseteq> set its' \<Longrightarrow> clears e ev its' i a"
  by (auto simp: clears_def)

lemma keeps_resolve:
  assumes "\<And>a. tget (mon_alerts w) i = Some a \<Longrightarrow> P i a"
  shows "keeps P w (snd (resolve_alert_engine e i w))"
proof -
  obtain ok w' where r: "resolve_alert_engine e i w = (ok, w')" by fastforce
  then show ?thesis
  proof (cases rule: resolve_engineE)
    case (moved a w1)
    have "keeps P w w1" by (rule keeps_cas [OF moved(4)]) (auto simp: same_key_def assms)
    with moved(5) r show ?thesis by (simp add: keeps_def)
  qed (simp add: r keeps_refl)
qed

lemma keeps_converge:
  assumes "try_converge e rid rule ev w = Some w'"
  shows "keeps P w w'"
  using assms
proof (cases rule: convergeE)
  case (1 i a w1)
  have "keeps P w w1" by (rule keeps_cas [OF 1(2)]) (auto simp: same_key_def)
  moreover have "keeps (\<lambda>_ _. False) w1 w'" unfolding 1(3)
    by (rule keeps_upd [of _ i "\<lambda>r. r\<lparr>ma_pending_since := Some (now e), ma_last_event_at := Some (now e),
          ma_hit_count := ma_hit_count r + 1, ma_last_value := event_value e ev\<rparr>"]) (auto simp: same_key_def upd_alert_def)
  ultimately show ?thesis by (rule keeps_trans) auto
qed

lemma keeps_first_hit: "mon_inv w \<Longrightarrow> keeps P w (first_hit e rid rule ev w)"
  using table_ok_fresh [of "mon_alerts w"] by (auto simp: keeps_def first_hit_def Let_def mon_inv_def tget_tadd)

lemma keeps_touch: "keeps P w (upd_alert i (touch_alert e ev) w)"
  by (rule keeps_upd [of _ i "touch_alert e ev"]) (auto simp: upd_alert_def touch_alert_def same_key_def)

lemma keeps_fire:
  assumes "fire_alert e i a rule w = Some (out, w')"
  shows "keeps P w w'"
  using assms
proof (cases rule: fireE)
  case (1 w1)
  have "keeps P w w1" by (rule keeps_cas [OF 1(1)]) (auto simp: same_key_def)
  moreover have "mon_alerts w' = mon_alerts w1"
    using arg_cong [OF 1(2), of "\<lambda>p. mon_alerts (snd p)"] by (simp add: apsnd_def map_prod_def case_prod_unfold)
  ultimately show ?thesis by (simp add: keeps_def)
qed

lemma keeps_eval_pending: "keeps P w (snd (eval_pending e i a rule w))"
  by (auto simp: eval_pending_def keeps_refl intro: keeps_fire split: option.splits)

lemma keeps_eval_firing:
  assumes "ma_status a \<noteq> LResolved"
  shows "keeps P w (snd (eval_firing e i a rule w))"
proof -
  obtain ok w1 where cas: "alert_optimistic_update i (ma_status a) (ma_status a) (ma_version a) id w = (ok, w1)" by fastforce
  have "keeps P w w1" by (rule keeps_cas [OF cas]) (auto simp: assms)
  moreover have "keeps (\<lambda>_ _. False) w1 (snd (maybe_notify e i rule w1))" by (rule keeps_refl) simp
  ultimately have "keeps P w (snd (maybe_notify e i rule w1))" by (rule keeps_trans) auto
  moreover have "keeps (\<lambda>_ _. False) (snd (maybe_notify e i rule w1)) (snd (maybe_escalate e i rule (snd (maybe_notify e i rule w1))))"
    by (rule keeps_escalate)
  ultimately have "keeps P w (snd (maybe_escalate e i rule (snd (maybe_notify e i rule w1))))" by (rule keeps_trans) auto
  then show ?thesis by (simp add: eval_firing_def Let_def cas case_prod_unfold keeps_def)
qed

lemma keeps_eval_rule:
  assumes inv: "mon_inv w"
  shows "keeps (clears e ev [(rid, rule)]) w (snd (eval_rule e ev (rid, rule) w))"
proof (cases "active_by_rule_entity w rid (entity_key ev)")
  case None
  then show ?thesis
    using keeps_first_hit [OF inv] keeps_converge by (auto simp: eval_rule_def Let_def keeps_refl split: option.splits)
next
  case (Some x)
  obtain i a where x: "x = (i, a)" by fastforce
  from Some inv have a: "tget (mon_alerts w) i = Some a" "ma_rule_id a = Some rid" "dget (ma_entity a) ''entity_id'' = entity_key ev"
      "ma_status a \<noteq> LResolved"
    using tlast_Some [of "mon_alerts w"] by (fastforce simp: x active_by_rule_entity_def mon_inv_def active_status_def)+
  have t: "keeps (clears e ev [(rid, rule)]) w (upd_alert i (touch_alert e ev) w)" by (rule keeps_touch)
  have p: "keeps (clears e ev [(rid, rule)]) w (snd (eval_pending e i a rule (upd_alert i (touch_alert e ev) w)))"
    by (rule keeps_trans [OF t keeps_eval_pending [of "\<lambda>_ _. False"]]) simp
  have f: "keeps (clears e ev [(rid, rule)]) w (snd (eval_firing e i a rule (upd_alert i (touch_alert e ev) w)))"
    by (rule keeps_trans [OF t keeps_eval_firing [OF a(4), of "\<lambda>_ _. False"]]) simp
  have r: "keeps (clears e ev [(rid, rule)]) w (snd (resolve_alert_engine e i w))"
    if "rule_pertains e rule ev" "\<not> condition_met e rule ev"
    by (rule keeps_resolve) (use a that in \<open>simp add: clears_def\<close>)
  show ?thesis using p f r by (auto simp: eval_rule_def Let_def Some x keeps_refl)
qed

lemma keeps_eval_rules:
  "mon_inv w \<Longrightarrow> has_entity ev \<Longrightarrow> keeps (clears e ev its) w (snd (eval_rules e ev its w))"
proof (induction its arbitrary: w)
  case Nil
  then show ?case by (simp add: keeps_refl)
next
  case (Cons it its)
  obtain rid rule where it: "it = (rid, rule)" by fastforce
  let ?w1 = "snd (eval_rule e ev it w)"
  have a: "keeps (clears e ev (it # its)) w ?w1"
    using keeps_eval_rule [OF Cons.prems(1), of e ev rid rule] clears_mono [of e ev "[it]" _ _ "it # its"]
    unfolding keeps_def it by (metis (full_types) empty_set insert_mono list.simps(15) empty_subsetI)
  have b: "keeps (clears e ev its) ?w1 (snd (eval_rules e ev its ?w1))"
    using Cons.IH mon_inv_eval_rule [OF Cons.prems] Cons.prems(2) it by blast
  have "keeps (clears e ev (it # its)) w (snd (eval_rules e ev its ?w1))"
    by (rule keeps_trans [OF a b]) (use clears_key clears_mono in \<open>metis set_subset_Cons\<close>)
  then show ?case by (simp add: Let_def case_prod_unfold)
qed

end
