(* ===== verification/Monitor_Facts.thy ===== *)
theory Monitor_Facts
  imports Monitor_Lifecycle
begin

text \<open>
  Facts about the monitor the properties rest on: the cooldown of notifications, the daily aggregates, what the engine leaves
  alone, the inbox and the event log as tables that only grow (two interpretations of \<open>append_only\<close>), redelivery and dead
  letters, and the events the normalisers make.
\<close>

section \<open>Notification and cooldown\<close>

lemma timeline_add_log:
  "timeline (add_log e i ac x y sev op w) k = timeline w k @ (if k = i then
     [(next_id (mon_logs w), \<lparr>gl_alert_id = i, gl_action = ac, gl_from_status = x, gl_to_status = y, gl_severity = sev, gl_operator_id = op, gl_at = now e\<rparr>)] else [])"
  by (simp add: timeline_def add_log_def tselect_def tadd_def)

lemma just_fired_cooldown:
  assumes "0 < mr_cooldown_seconds rule"
  shows "in_cooldown e i rule (add_log e i ''fire'' x y sev op w)"
proof -
  let ?w = "add_log e i ''fire'' x y sev op w"
  let ?sends = "filter (\<lambda>(j, l). gl_action l = ''fire'') (timeline ?w i)"
  have "now e \<in> set (map (\<lambda>(j, l). gl_at l) ?sends)" by (auto simp: timeline_add_log)
  then have "now e \<le> fold max (map (\<lambda>(j, l). gl_at l) ?sends) (gl_at (snd (hd ?sends)))"
    by (intro fold_max_ge) blast
  moreover have "?sends \<noteq> []" by (auto simp: timeline_add_log)
  moreover have "0 < seconds (max (mr_cooldown_seconds rule) 0)" using assms by (simp add: seconds_def)
  ultimately show ?thesis unfolding in_cooldown_def Let_def using assms by simp
qed

lemma notify_records_simps [simp]:
  "notify_records (add_log e i ac x y sev op w) = notify_records w"
  "notify_records (broadcast_alert i w) = notify_records w"
  "notify_records (upd_alert i f w) = notify_records w"
  by (simp_all add: add_log_def broadcast_alert_def upd_alert_def split: option.splits)

lemma notify_records_cas: "alert_optimistic_update i s t v f w = (ok, w1) \<Longrightarrow> notify_records w1 = notify_records w"
  by (auto simp: alert_optimistic_update_def Let_def split: if_splits prod.splits)

lemma notify_records_log_now [simp]: "notify_records (log_now e i ac w) = notify_records w"
  by (simp add: log_now_def log_alert_event_def split: option.splits)

lemma fire_is_muted:
  assumes "fire_alert e i a rule w = Some (outcome, w')" and "0 < mr_cooldown_seconds rule"
  shows "outcome = ''suppress'' \<and> notify_records w' = notify_records w"
  using assms(1)
proof (cases rule: fireE)
  case (1 w1)
  have "in_cooldown e i rule (log_alert_event e i ''fire'' (Some LPending) (Some LFiring) (ma_severity a) w1)"
    using just_fired_cooldown [OF assms(2)] by (simp add: log_alert_event_def MON_ALERT_ACTIONS_def)
  with 1 show ?thesis by (simp add: maybe_notify_def notify_records_cas log_alert_event_def)
qed

text \<open>A notification outside the cooldown writes no \<open>fire\<close> entry, so the next event is outside the cooldown too.\<close>

lemma rows_send:
  assumes "tget (mon_alerts w) i = Some a"
  shows "length (rows (notify_records (send_alert_notify e i rule title w))) = length (rows (notify_records w)) + length (mr_notify_channel_ids rule)"
proof -
  have "length (rows (notify_records (fold (\<lambda>cid w. snd (notify_send e cid sc tg ti co w)) cs w))) = length (rows (notify_records w)) + length cs"
    for sc tg ti co cs
    by (induction cs arbitrary: w) (auto simp: notify_send_def Let_def tadd_def split: option.splits prod.splits)
  with assms show ?thesis by (simp add: send_alert_notify_def)
qed

section \<open>Daily aggregates\<close>

definition daily_key :: "string \<Rightarrow> string \<Rightarrow> string \<Rightarrow> string \<Rightarrow> int \<Rightarrow> mon_daily \<Rightarrow> bool" where
  "daily_key source ty ent name day r = (dy_source r = source \<and> dy_entity_id r = ent \<and> dy_entity_type r = ty \<and> dy_metric_name r = name \<and> dy_day r = day)"

text \<open>The values of one day, one after the other.\<close>

fun upsert_all :: "string \<Rightarrow> string \<Rightarrow> string \<Rightarrow> string \<Rightarrow> int \<Rightarrow> rat list \<Rightarrow> 'z mon_db_scheme \<Rightarrow> 'z mon_db_scheme res" where
  "upsert_all so ty en na da [] w = Inr w"
| "upsert_all so ty en na da (v # vs) w = (case upsert_daily so ty en na da v w of Inl err \<Rightarrow> Inl err | Inr w1 \<Rightarrow> upsert_all so ty en na da vs w1)"

definition summarises :: "rat list \<Rightarrow> mon_daily \<Rightarrow> bool" where
  "summarises vs r = (vs \<noteq> [] \<and> dy_sample_count r = int (length vs) \<and> dy_avg_value r = sum_list vs / of_nat (length vs) \<and>
     dy_max_value r = Max (set vs) \<and> dy_min_value r = Min (set vs))"

lemma summarises_one: "dy_sample_count r = 1 \<Longrightarrow> dy_avg_value r = v \<Longrightarrow> dy_max_value r = v \<Longrightarrow> dy_min_value r = v \<Longrightarrow> summarises [v] r"
  by (simp add: summarises_def)

lemma mean_step:
  fixes s v :: rat
  shows "n > 0 \<Longrightarrow> (s / of_nat n * of_int (int n + 1 - 1) + v) / of_int (int n + 1) = (s + v) / of_nat (Suc n)"
  by (simp add: field_simps)

lemma summarises_more:
  assumes "summarises vs r"
  shows "summarises (vs @ [v]) (let n = dy_sample_count r + 1 in r\<lparr>dy_sample_count := n,
     dy_avg_value := (dy_avg_value r * of_int (n - 1) + v) / of_int n, dy_max_value := max (dy_max_value r) v, dy_min_value := min (dy_min_value r) v\<rparr>)"
  using assms mean_step [of "length vs" "sum_list vs" v] by (auto simp: summarises_def Let_def max.commute min.commute)

lemma tfirst_tupd_first:
  assumes "tfirst P t = Some (i, r)" and "\<And>x. P (f x) = P x"
  shows "tfirst P (tupd i f t) = Some (i, f r)"
  using tfirst_tupd [of P f i t] assms by simp

lemma upsert_keeps_summary:
  assumes "tfirst (daily_key so ty en na da) (mon_dailies w) = Some (i, r)" and "summarises vs r"
    and "upsert_all so ty en na da us w = Inr w'"
  shows "\<exists>r'. tfirst (daily_key so ty en na da) (mon_dailies w') = Some (i, r') \<and> summarises (vs @ us) r'"
  using assms
proof (induction us arbitrary: w r vs)
  case (Cons u us)
  define f where "f = (\<lambda>r :: mon_daily. let n = dy_sample_count r + 1 in r\<lparr>dy_sample_count := n,
     dy_avg_value := (dy_avg_value r * of_int (n - 1) + u) / of_int n, dy_max_value := max (dy_max_value r) u, dy_min_value := min (dy_min_value r) u\<rparr>)"
  have k: "daily_key so ty en na da (f x) = daily_key so ty en na da x" for x by (simp add: f_def daily_key_def Let_def)
  have up: "upsert_daily so ty en na da u w = Inr (w\<lparr>mon_dailies := tupd i f (mon_dailies w)\<rparr>)"
    using Cons.prems(1) by (simp add: upsert_daily_def daily_key_def [abs_def] f_def)
  have "tfirst (daily_key so ty en na da) (mon_dailies (w\<lparr>mon_dailies := tupd i f (mon_dailies w)\<rparr>)) = Some (i, f r)"
    using tfirst_tupd_first [OF Cons.prems(1) k] by simp
  moreover have "summarises (vs @ [u]) (f r)" using summarises_more [OF Cons.prems(2)] by (simp add: f_def)
  moreover have "upsert_all so ty en na da us (w\<lparr>mon_dailies := tupd i f (mon_dailies w)\<rparr>) = Inr w'" using Cons.prems(3) up by simp
  ultimately show ?case using Cons.IH by fastforce
qed simp

lemma upsert_first:
  assumes "\<not> texists (\<lambda>r. dy_source r = so \<and> dy_metric_name r = na \<and> dy_entity_id r = en \<and> dy_day r = da) (mon_dailies w)"
    and "upsert_daily so ty en na da v w = Inr w'"
  shows "\<exists>i r. tfirst (daily_key so ty en na da) (mon_dailies w') = Some (i, r) \<and> summarises [v] r"
proof -
  have "tfirst (daily_key so ty en na da) (mon_dailies w) = None"
    using assms(1) texists_iff_tfirst [of "daily_key so ty en na da" "mon_dailies w"] by (auto simp: texists_def daily_key_def)
  with assms show ?thesis
    by (auto simp: upsert_daily_def daily_key_def [abs_def] tfirst_tadd summarises_def)
qed


section \<open>The inbox\<close>

text \<open>The engine touches neither the inbox nor the rules, the adapters or the samples.\<close>

definition engine_frame :: "'z mon_db_scheme \<Rightarrow> 'z mon_db_scheme \<Rightarrow> bool" where
  "engine_frame w w' = (mon_inbox w' = mon_inbox w \<and> mon_rules w' = mon_rules w \<and> mon_adapters w' = mon_adapters w \<and>
     mon_samples w' = mon_samples w \<and> mon_dailies w' = mon_dailies w)"

lemma frame_refl [simp]: "engine_frame w w"
  by (simp add: engine_frame_def)

lemma frame_trans [trans]: "engine_frame w w1 \<Longrightarrow> engine_frame w1 w2 \<Longrightarrow> engine_frame w w2"
  by (simp add: engine_frame_def)

lemma frame_send: "engine_frame w (send_alert_notify e i rule title w)"
proof -
  have "engine_frame w (fold (\<lambda>cid w. snd (notify_send e cid sc tg ti co w)) cs w)" for sc tg ti co cs
  proof (induction cs arbitrary: w)
    case (Cons c cs)
    have "engine_frame w (snd (notify_send e c sc tg ti co w))"
      by (simp add: engine_frame_def notify_send_def Let_def split: option.splits prod.splits)
    from frame_trans [OF this Cons.IH] show ?case by simp
  qed simp
  then show ?thesis by (simp add: send_alert_notify_def split: option.splits)
qed

lemma frame_simps [simp]:
  "engine_frame w (add_log e i ac x y sev op w1) = engine_frame w w1"
  "engine_frame w (broadcast_alert i w1) = engine_frame w w1"
  "engine_frame w (upd_alert i f w1) = engine_frame w w1"
  by (simp_all add: engine_frame_def add_log_def broadcast_alert_def upd_alert_def split: option.splits)

lemma frame_log [simp]:
  "engine_frame w (log_alert_event e i ac x y sev w1) = engine_frame w w1"
  "engine_frame w (log_now e i ac w1) = engine_frame w w1"
  by (simp_all add: log_alert_event_def log_now_def split: option.splits)

lemma frame_send_simp [simp]: "engine_frame w (send_alert_notify e i rule title w1) = engine_frame w w1"
  using frame_send [of w1 e i rule title] by (auto simp: engine_frame_def)

lemma frame_cas: "alert_optimistic_update i s t v f w = (ok, w1) \<Longrightarrow> engine_frame w w1"
  by (auto simp: engine_frame_def alert_optimistic_update_def Let_def split: if_splits prod.splits)

lemma frame_notify [simp]: "engine_frame w (snd (maybe_notify e i rule w1)) = engine_frame w w1"
  by (simp add: maybe_notify_def)

lemma frame_escalate [simp]: "engine_frame w (snd (maybe_escalate e i rule w1)) = engine_frame w w1"
  by (simp add: maybe_escalate_def split: option.splits)

lemma frame_resolve: "engine_frame w (snd (resolve_alert_engine e i w))"
  by (auto simp: resolve_alert_engine_def Let_def dest: frame_cas split: option.splits prod.splits bool.splits)

lemma frame_fire: "fire_alert e i a rule w = Some (out, w') \<Longrightarrow> engine_frame w w'"
  by (erule fireE) (auto simp: apsnd_def map_prod_def case_prod_unfold dest: frame_cas)

lemma frame_converge: "try_converge e rid rule ev w = Some w' \<Longrightarrow> engine_frame w w'"
  by (erule convergeE) (auto dest: frame_cas)

lemma frame_first_hit: "engine_frame w (first_hit e rid rule ev w)"
  by (simp add: first_hit_def Let_def) (simp add: engine_frame_def)

lemma frame_eval_firing: "engine_frame w (snd (eval_firing e i a rule w))"
  using frame_cas [OF prod.collapse [symmetric], of w i "ma_status a" "ma_status a" "ma_version a" id] by (simp add: eval_firing_def Let_def case_prod_unfold)

lemma frame_eval_pending: "engine_frame w (snd (eval_pending e i a rule w))"
  by (auto simp: eval_pending_def dest: frame_fire split: option.splits)

lemma frame_eval_rule: "engine_frame w (snd (eval_rule e ev it w))"
proof -
  have t: "engine_frame w (upd_alert i (touch_alert e ev) w)" for i by simp
  show ?thesis
    using frame_trans [OF t frame_eval_pending] frame_trans [OF t frame_eval_firing]
    by (auto simp: eval_rule_def Let_def case_prod_unfold frame_resolve frame_first_hit dest: frame_converge split: option.splits)
qed

lemma frame_eval_rules: "engine_frame w (snd (eval_rules e ev its w))"
proof (induction its arbitrary: w)
  case (Cons it its)
  from frame_trans [OF frame_eval_rule Cons.IH] show ?case by (simp add: Let_def case_prod_unfold)
qed simp

lemma frame_evaluate: "evaluate_event e ev w = Inr (out, w') \<Longrightarrow> engine_frame w w'"
  using frame_eval_rules [of w e ev "enabled_rules w"] by (simp add: evaluate_event_def split: if_splits)

lemma frame_sweep: "engine_frame w (snd (sweep_active_alerts e w))"
proof -
  have one: "engine_frame (snd st) (snd (sweep_one e fr it st))" for fr it and st :: "(nat \<times> nat) \<times> 'a mon_db_scheme"
    using frame_escalate [of "snd st" e _ _ "snd st"]
    by (auto simp: sweep_one_def Let_def case_prod_unfold dest: frame_fire split: option.splits bool.splits)
  have "engine_frame (snd st) (snd (fold (sweep_one e fr) its st))" for fr its and st :: "(nat \<times> nat) \<times> 'a mon_db_scheme"
  proof (induction its arbitrary: st)
    case (Cons it its)
    from frame_trans [OF one Cons.IH] show ?case by simp
  qed simp
  moreover have "engine_frame w (snd (sweep_due e w))" by (simp add: sweep_due_def Let_def) (simp add: engine_frame_def)
  ultimately show ?thesis
    using frame_trans [of w "snd (sweep_due e w)"]
    by (fastforce simp: sweep_active_alerts_def Let_def case_prod_unfold split: bool.splits prod.splits)
qed


text \<open>The inbox only grows.\<close>

definition inbox_grows :: "'z mon_db_scheme \<Rightarrow> 'z mon_db_scheme \<Rightarrow> bool" where
  "inbox_grows w w' = (\<exists>new. rows (mon_inbox w') = rows (mon_inbox w) @ new)"

lemma grows_refl [simp]: "mon_inbox w' = mon_inbox w \<Longrightarrow> inbox_grows w w'"
  by (simp add: inbox_grows_def)

lemma inbox_trans: "inbox_grows w w1 \<Longrightarrow> inbox_grows w1 w2 \<Longrightarrow> inbox_grows w w2"
  by (auto simp: inbox_grows_def)

lemma grows_key: "inbox_grows w w' \<Longrightarrow> by_event_key w k \<noteq> None \<Longrightarrow> by_event_key w' k \<noteq> None"
  unfolding by_event_key_def texists_iff_tfirst [symmetric] by (auto simp: inbox_grows_def texists_def)

lemma grows_add_event: "add_event e row w = Inr w' \<Longrightarrow> inbox_grows w w'"
  by (auto simp: add_event_def inbox_grows_def tadd_def split: if_splits)

lemma grows_dead_letter: "inbox_grows w (dead_letter e raw err detail w)"
  by (auto simp: dead_letter_def dest: grows_add_event split: option.splits sum.splits prod.splits if_splits)

lemma inbox_persist: "persist_metric_sample e raw entity ts m w = Inr w' \<Longrightarrow> mon_inbox w' = mon_inbox w"
  by (auto simp: persist_metric_sample_def upsert_daily_def Let_def split: option.splits json.splits if_splits prod.splits)

lemma store_inbox:
  assumes "store_and_evaluate e raw entity k fp sv wn ts m w = Inr w'"
  obtains row where "mon_inbox w' = tadd row (mon_inbox w)" "ib_event_key row = k" "ib_status row = ''pending''"
proof -
  from assms obtain row w1 where a: "add_event e row w = Inr w1" "ib_event_key row = k" "ib_status row = ''pending''"
    and b: "(case (case m of None \<Rightarrow> Inr w1 | Some m \<Rightarrow> persist_metric_sample e raw entity ts m w1) of Inl err \<Rightarrow> Inl err
           | Inr w2 \<Rightarrow> (case evaluate_event e raw w2 of Inl err \<Rightarrow> Inl err | Inr (_, w3) \<Rightarrow> Inr w3)) = Inr w'"
    by (auto simp: store_and_evaluate_def split: sum.splits)
  from b have "mon_inbox w' = mon_inbox w1"
    by (auto dest!: frame_evaluate inbox_persist simp: engine_frame_def split: sum.splits option.splits)
  moreover from a(1) have "mon_inbox w1 = tadd row (mon_inbox w)" by (auto simp: add_event_def split: if_splits)
  ultimately show ?thesis using that a by simp
qed

lemma grows_process: "process_event e raw w = Inr (r, w') \<Longrightarrow> inbox_grows w w'"
  by (auto simp: process_event_def Let_def inbox_grows_def tadd_def grows_dead_letter [unfolded inbox_grows_def]
      split: sum.splits option.splits if_splits json.splits elim!: store_inbox)

lemma grows_ingest_events: "ingest_events e js w = Inr (r, w') \<Longrightarrow> inbox_grows w w'"
proof (induction js arbitrary: w r)
  case (Cons j js)
  from Cons.prems obtain raw res w1 r1 where p: "process_event e raw w = Inr (res, w1)"
    and rest: "ingest_events e js (case res of Rejected er dead \<Rightarrow> if er \<noteq> [] \<and> \<not> dead then dead_letter e (Some raw) er None w1 else w1 | Accepted _ \<Rightarrow> w1) = Inr (r1, w')"
    by (auto simp: Let_def split: json.splits sum.splits prod.splits)
  have "inbox_grows w1 (case res of Rejected er dead \<Rightarrow> if er \<noteq> [] \<and> \<not> dead then dead_letter e (Some raw) er None w1 else w1 | Accepted _ \<Rightarrow> w1)"
    by (simp add: grows_dead_letter split: event_result.splits)
  from inbox_trans [OF grows_process [OF p] inbox_trans [OF this Cons.IH [OF rest]]] show ?case .
qed simp

lemma grows_ingest: "ingest e i p w = Inr (r, w') \<Longrightarrow> inbox_grows w w'"
  by (auto simp: ingest_def grows_dead_letter split: if_splits option.splits sum.splits prod.splits dest: grows_ingest_events)

lemma inbox_notify_send [simp]: "mon_inbox (snd (notify_send e cid sc tg ti co w)) = mon_inbox w"
  by (simp add: notify_send_def Let_def split: option.splits prod.splits)

lemma inbox_acknowledge: "acknowledge_alert e u i w = Inr (r, w') \<Longrightarrow> engine_frame w w'"
  by (auto simp: acknowledge_alert_def dest: frame_cas split: sum.splits if_splits prod.splits bool.splits)

lemma inbox_resolve: "resolve_alert e u i w = Inr (r, w') \<Longrightarrow> engine_frame w w'"
  by (auto simp: resolve_alert_def dest: frame_cas split: sum.splits if_splits prod.splits bool.splits)

lemma grows_step: "mon_step w w' \<Longrightarrow> inbox_grows w w'"
proof (induction rule: mon_step.induct)
  case (ingested e i p w r w')
  then show ?case by (rule grows_ingest)
next
  case (swept e w r w')
  then show ?case using frame_sweep [of w e] by (simp add: engine_frame_def)
next
  case (acknowledged e u i w r w')
  from inbox_acknowledge [OF acknowledged] show ?case by (simp add: engine_frame_def)
next
  case (resolved e u i w r w')
  from inbox_resolve [OF resolved] show ?case by (simp add: engine_frame_def)
next
  case (notified ne i sc tg ti co w r w')
  then show ?case using inbox_notify_send [of ne i sc tg ti co w] by simp
next
  case (resent ne i w r w')
  then have "\<exists>sc tg ti co c. w' = snd (notify_send ne c sc tg ti co w)"
    by (fastforce simp: resend_def split: option.splits dest: arg_cong [of _ _ snd])
  then show ?case by auto
qed (auto simp: create_rule_def update_rule_def delete_rule_def set_rule_status_def upd_rule_def create_adapter_def update_adapter_def
         delete_adapter_def set_adapter_status_def upd_adapter_def test_adapter_def create_channel_def delete_channel_def set_channel_status_def
         update_channel_def Let_def split: sum.splits if_splits option.splits)

interpretation inbox: append_only mon_step "\<lambda>w. rows (mon_inbox w)"
  by unfold_locales (use grows_step in \<open>auto simp: inbox_grows_def\<close>)

section \<open>The event log of the alerts\<close>

definition logs_grow :: "'z mon_db_scheme \<Rightarrow> 'z mon_db_scheme \<Rightarrow> bool" where
  "logs_grow w w' = (\<exists>new. rows (mon_logs w') = rows (mon_logs w) @ new)"

lemma logs_same: "mon_logs w' = mon_logs w \<Longrightarrow> logs_grow w w'"
  by (simp add: logs_grow_def)

lemma logs_trans: "logs_grow w w1 \<Longrightarrow> logs_grow w1 w2 \<Longrightarrow> logs_grow w w2"
  by (auto simp: logs_grow_def)

lemma logs_add [intro]: "logs_grow w w1 \<Longrightarrow> logs_grow w (add_log e i ac x y sev op w1)"
  by (auto simp: logs_grow_def add_log_def tadd_def)

lemma logs_log [intro]: "logs_grow w w1 \<Longrightarrow> logs_grow w (log_alert_event e i ac x y sev w1)"
  by (auto simp: log_alert_event_def)

lemma logs_log_now [intro]: "logs_grow w w1 \<Longrightarrow> logs_grow w (log_now e i ac w1)"
  by (auto simp: log_now_def split: option.splits)

lemma logs_quiet [simp]:
  "logs_grow w (broadcast_alert i w1) = logs_grow w w1" "logs_grow w (send_alert_notify e i rule title w1) = logs_grow w w1"
  "logs_grow w (upd_alert i f w1) = logs_grow w w1"
  by (simp_all add: logs_grow_def upd_alert_def)

lemma logs_refl [simp, intro]: "logs_grow w w"
  by (rule logs_same) simp

lemma logs_cas: "alert_optimistic_update i s t v f w = (ok, w1) \<Longrightarrow> logs_grow w w1"
  by (auto simp: alert_optimistic_update_def Let_def intro: logs_same split: if_splits prod.splits)

lemma logs_notify: "logs_grow w (snd (maybe_notify e i rule w))"
  by (auto simp: maybe_notify_def)

lemma logs_escalate: "logs_grow w (snd (maybe_escalate e i rule w))"
  by (auto simp: maybe_escalate_def split: option.splits)

lemma logs_fire: "fire_alert e i a rule w = Some (out, w') \<Longrightarrow> logs_grow w w'"
proof (erule fireE)
  fix w1
  assume cas: "alert_optimistic_update i LPending LFiring (ma_version a) (\<lambda>r. r\<lparr>ma_fired_at := Some (now e)\<rparr>) w = (True, w1)"
    and w': "(out, w') = apsnd (broadcast_alert i) (maybe_notify e i rule (log_alert_event e i ''fire'' (Some LPending) (Some LFiring) (ma_severity a) w1))"
  have "logs_grow w (log_alert_event e i ''fire'' (Some LPending) (Some LFiring) (ma_severity a) w1)" using logs_cas [OF cas] by blast
  from logs_trans [OF this logs_notify, of e i rule] w' show "logs_grow w w'" by (auto simp: apsnd_def map_prod_def case_prod_unfold)
qed

lemma logs_resolve: "logs_grow w (snd (resolve_alert_engine e i w))"
proof -
  obtain ok w' where r: "resolve_alert_engine e i w = (ok, w')" by fastforce
  then show ?thesis
  proof (cases rule: resolve_engineE)
    case (moved a w1)
    have "logs_grow w (log_alert_event e i ''resolve'' (Some (ma_status a)) (Some LResolved) (ma_severity a) w1)" using logs_cas [OF moved(4)] by blast
    with moved(6) r show ?thesis by (simp add: logs_grow_def)
  qed (simp add: r)
qed

lemma logs_converge: "try_converge e rid rule ev w = Some w' \<Longrightarrow> logs_grow w w'"
  by (erule convergeE) (auto intro!: logs_log intro: logs_cas)

lemma logs_first_hit: "logs_grow w (first_hit e rid rule ev w)"
  unfolding first_hit_def Let_def logs_quiet by (rule logs_log, rule logs_same) simp

lemma logs_eval_pending: "logs_grow w (snd (eval_pending e i a rule w))"
  by (auto simp: eval_pending_def dest: logs_fire split: option.splits)

lemma logs_eval_firing: "logs_grow w (snd (eval_firing e i a rule w))"
  using logs_trans [OF logs_trans [OF logs_cas [OF prod.collapse [symmetric], of w i "ma_status a" "ma_status a" "ma_version a" id] logs_notify [of _ e i rule]]
     logs_escalate [of _ e i rule]]
  by (simp add: eval_firing_def Let_def case_prod_unfold)

lemma logs_eval_rule: "logs_grow w (snd (eval_rule e ev it w))"
proof -
  have t: "logs_grow w (upd_alert i (touch_alert e ev) w)" for i by simp
  show ?thesis
    using logs_trans [OF t logs_eval_pending] logs_trans [OF t logs_eval_firing]
    by (auto simp: eval_rule_def Let_def case_prod_unfold logs_resolve logs_first_hit dest: logs_converge split: option.splits)
qed

lemma logs_eval_rules: "logs_grow w (snd (eval_rules e ev its w))"
proof (induction its arbitrary: w)
  case (Cons it its)
  from logs_trans [OF logs_eval_rule Cons.IH] show ?case by (simp add: Let_def case_prod_unfold)
qed simp

lemma logs_sweep: "logs_grow w (snd (sweep_active_alerts e w))"
proof -
  have one: "logs_grow (snd st) (snd (sweep_one e fr it st))" for fr it and st :: "(nat \<times> nat) \<times> 'a mon_db_scheme"
    using logs_escalate [of "snd st" e]
    by (auto simp: sweep_one_def Let_def case_prod_unfold dest: logs_fire split: option.splits bool.splits)
  have "logs_grow (snd st) (snd (fold (sweep_one e fr) its st))" for fr its and st :: "(nat \<times> nat) \<times> 'a mon_db_scheme"
  proof (induction its arbitrary: st)
    case (Cons it its)
    from logs_trans [OF one Cons.IH] show ?case by simp
  qed simp
  moreover have "logs_grow w (snd (sweep_due e w))" by (rule logs_same) (simp add: sweep_due_def Let_def)
  ultimately show ?thesis
    using logs_trans [of w "snd (sweep_due e w)"]
    by (fastforce simp: sweep_active_alerts_def Let_def case_prod_unfold split: bool.splits prod.splits)
qed

lemma logs_store:
  assumes "store_and_evaluate e raw entity k fp sv wn ts m w = Inr w'"
  shows "logs_grow w w'"
proof -
  have "\<exists>w2 out. mon_logs w2 = mon_logs w \<and> evaluate_event e raw w2 = Inr (out, w')"
    using assms by (fastforce simp: store_and_evaluate_def split: sum.splits option.splits dest!: add_event_frame persist_frame)
  then obtain w2 out where "mon_logs w2 = mon_logs w" and ev: "evaluate_event e raw w2 = Inr (out, w')" by blast
  moreover have "logs_grow w2 w'" using ev logs_eval_rules [of w2 e raw "enabled_rules w2"] by (simp add: evaluate_event_def split: if_splits)
  ultimately show ?thesis by (simp add: logs_grow_def)
qed

lemma logs_dead_letter [simp]: "mon_logs (dead_letter e raw err detail w) = mon_logs w"
  by (auto simp: dead_letter_def dest: add_event_frame split: option.splits sum.splits prod.splits if_splits)

lemma logs_process: "process_event e raw w = Inr (r, w') \<Longrightarrow> logs_grow w w'"
  by (auto simp: process_event_def Let_def intro: logs_same logs_store split: sum.splits option.splits if_splits json.splits)

lemma logs_ingest_events: "ingest_events e js w = Inr (r, w') \<Longrightarrow> logs_grow w w'"
proof (induction js arbitrary: w r)
  case (Cons j js)
  from Cons.prems obtain raw res w1 r1 where p: "process_event e raw w = Inr (res, w1)"
    and rest: "ingest_events e js (case res of Rejected er dead \<Rightarrow> if er \<noteq> [] \<and> \<not> dead then dead_letter e (Some raw) er None w1 else w1 | Accepted _ \<Rightarrow> w1) = Inr (r1, w')"
    by (auto simp: Let_def split: json.splits sum.splits prod.splits)
  have "logs_grow w1 (case res of Rejected er dead \<Rightarrow> if er \<noteq> [] \<and> \<not> dead then dead_letter e (Some raw) er None w1 else w1 | Accepted _ \<Rightarrow> w1)"
    by (intro logs_same) (simp split: event_result.splits)
  from logs_trans [OF logs_process [OF p] logs_trans [OF this Cons.IH [OF rest]]] show ?case .
qed simp

lemma logs_ingest: "ingest e i p w = Inr (r, w') \<Longrightarrow> logs_grow w w'"
  by (auto simp: ingest_def intro: logs_same split: if_splits option.splits sum.splits prod.splits dest: logs_ingest_events)

lemma logs_step: "mon_step w w' \<Longrightarrow> logs_grow w w'"
proof (induction rule: mon_step.induct)
  case (ingested e i p w r w')
  then show ?case by (rule logs_ingest)
next
  case (swept e w r w')
  then show ?case using logs_sweep [of w e] by simp
next
  case (acknowledged e u i w r w')
  then show ?case by (auto simp: acknowledge_alert_def intro!: logs_add intro: logs_cas split: sum.splits if_splits prod.splits bool.splits)
next
  case (resolved e u i w r w')
  then show ?case by (auto simp: resolve_alert_def intro!: logs_add intro: logs_cas split: sum.splits if_splits prod.splits bool.splits)
next
  case (notified ne i sc tg ti co w r w')
  then show ?case using alerts_notify_send(2) [of ne i sc tg ti co w] by (intro logs_same) simp
next
  case (resent ne i w r w')
  then have "\<exists>sc tg ti co c. w' = snd (notify_send ne c sc tg ti co w)"
    by (fastforce simp: resend_def split: option.splits dest: arg_cong [of _ _ snd])
  then show ?case by (auto intro: logs_same)
qed (auto intro!: logs_same simp: create_rule_def update_rule_def delete_rule_def set_rule_status_def upd_rule_def create_adapter_def update_adapter_def
         delete_adapter_def set_adapter_status_def upd_adapter_def test_adapter_def create_channel_def delete_channel_def set_channel_status_def
         update_channel_def Let_def split: sum.splits if_splits option.splits)

interpretation alert_log: append_only mon_step "\<lambda>w. rows (mon_logs w)"
  by unfold_locales (use logs_step in \<open>auto simp: logs_grow_def\<close>)


section \<open>Redelivery and dead letters\<close>

lemma str_json_now [simp]: "str_json (e\<lparr>now := t\<rparr>) = str_json e"
  by (rule ext) (simp add: str_json_def split: json.splits)

lemma clock_free [simp]:
  "validate_event (e\<lparr>now := t\<rparr>) = validate_event e"
  "resolve_metric_name (e\<lparr>now := t\<rparr>) = resolve_metric_name e"
  "normalize_metric_name (e\<lparr>now := t\<rparr>) = normalize_metric_name e"
  "build_event_key (e\<lparr>now := t\<rparr>) = build_event_key e"
  unfolding fun_eq_iff validate_event_def normalize_metric_name_def resolve_metric_name_def build_event_key_def str_json_now by simp_all

lemma accepted_key:
  assumes "process_event e raw w = Inr (Accepted d, w')" and "truthy (dget raw ''event_id'')"
  shows "process_event (e\<lparr>now := t\<rparr>) raw w'' = Inr (Accepted True, w'') \<or> by_event_key w' (the (build_event_key e (dget raw ''source'') (dget raw ''event_id''))) = None \<or>
     \<not> inbox_grows w' w''"
proof -
  have n: "dget (normalize_metric_name e raw) k = dget raw k" if "k \<noteq> ''labels''" for k
    using that by (simp add: normalize_metric_name_def split: option.splits)
  have k: "build_event_key e (dget raw ''source'') (dget raw ''event_id'') \<noteq> None" using assms(2) by (simp add: build_event_key_def)
  have v: "validate_event e raw = Inr None"
      "\<not> (dget raw ''kind'' = JStr ''metric'' \<and> truthy (dget raw ''labels'') \<and> as_dict (dget raw ''labels'') = [])"
    using assms(1) by (auto simp: process_event_def Let_def split: sum.splits option.splits if_splits)
  show ?thesis using v k n grows_key [of w' w''] by (auto simp: process_event_def Let_def)
qed

lemma accepted_in_inbox:
  assumes "process_event e raw w = Inr (Accepted d, w')" and "truthy (dget raw ''event_id'')"
  shows "by_event_key w' (the (build_event_key e (dget raw ''source'') (dget raw ''event_id''))) \<noteq> None"
proof -
  have n: "dget (normalize_metric_name e raw) k = dget raw k" if "k \<noteq> ''labels''" for k
    using that by (simp add: normalize_metric_name_def split: option.splits)
  have k: "build_event_key e (dget raw ''source'') (dget raw ''event_id'') \<noteq> None" using assms(2) by (simp add: build_event_key_def)
  have row: "\<exists>a b. by_event_key w2 y = Some (a, b)" if "mon_inbox w2 = tadd row (mon_inbox w)" "ib_event_key row = Some y" for w2 row y
  proof -
    have "by_event_key w2 y \<noteq> None"
      unfolding by_event_key_def texists_iff_tfirst [symmetric] using that by (auto simp: texists_def tadd_def)
    then show ?thesis by auto
  qed
  show ?thesis
    using assms(1) k
    by (auto simp: process_event_def Let_def n split: sum.splits option.splits if_splits json.splits elim!: store_inbox intro: row)
qed

definition dead_letters :: "'z mon_db_scheme \<Rightarrow> nat" where
  "dead_letters w = length (tselect (\<lambda>r. ib_status r = ''dead_letter'') (mon_inbox w))"

text \<open>Hypothesis on the database and the clock library: every row is taken and every number is a date.\<close>

definition takes_all :: "mon_env \<Rightarrow> bool" where
  "takes_all e = ((\<forall>r. inbox_accepts e r) \<and> (\<forall>x. fromtimestamp e x \<noteq> None))"

lemma coerce_total: "takes_all e \<Longrightarrow> coerce_ts e v \<noteq> None"
  by (auto simp: coerce_ts_def takes_all_def Let_def split: json.splits option.splits)

lemma dead_letter_counts: "takes_all e \<Longrightarrow> dead_letters (dead_letter e raw err detail w) = Suc (dead_letters w)"
  using coerce_total [of e]
  by (auto simp: dead_letter_def add_event_def takes_all_def dead_letters_def tselect_def tadd_def dead_letter_row_def Let_def split: option.splits)

lemma process_dead_letters:
  assumes "process_event e raw w = Inr (r, w')" and "takes_all e"
  shows "dead_letters w' = dead_letters w + (case r of Rejected er dead \<Rightarrow> if dead then 1 else 0 | Accepted _ \<Rightarrow> 0)"
proof -
  have "dead_letters w2 = dead_letters w" if "mon_inbox w2 = tadd row (mon_inbox w)" "ib_status row = ''pending''" for w2 row
    using that by (simp add: dead_letters_def tselect_def tadd_def)
  with assms show ?thesis
    by (auto simp: process_event_def Let_def dead_letter_counts split: sum.splits option.splits if_splits json.splits elim!: store_inbox)
qed

lemma rejection_text: "process_event e raw w = Inr (Rejected er dead, w') \<Longrightarrow> er \<noteq> []"
  by (auto simp: process_event_def validate_event_def Let_def split: sum.splits option.splits if_splits json.splits)

lemma ingest_dead_letters:
  "ingest_events e js w = Inr ((acc, rej), w') \<Longrightarrow> takes_all e \<Longrightarrow> dead_letters w' = dead_letters w + rej \<and> acc + rej = length js"
proof (induction js arbitrary: w acc rej)
  case (Cons j js)
  from Cons.prems(1) obtain raw res w1 acc1 rej1 where p: "process_event e raw w = Inr (res, w1)"
    and rest: "ingest_events e js (case res of Rejected er dead \<Rightarrow> if er \<noteq> [] \<and> \<not> dead then dead_letter e (Some raw) er None w1 else w1 | Accepted _ \<Rightarrow> w1) = Inr ((acc1, rej1), w')"
    and n: "(acc, rej) = (case res of Accepted _ \<Rightarrow> (Suc acc1, rej1) | Rejected _ _ \<Rightarrow> (acc1, Suc rej1))"
    by (auto simp: Let_def split: json.splits sum.splits prod.splits event_result.splits)
  note ih = Cons.IH [OF rest Cons.prems(2)] and one = process_dead_letters [OF p Cons.prems(2)]
  show ?case
  proof (cases res)
    case (Accepted d)
    with ih one n show ?thesis by simp
  next
    case (Rejected er dead)
    with p have "er \<noteq> []" using rejection_text by blast
    with ih one n Rejected show ?thesis by (cases dead) (simp_all add: dead_letter_counts [OF Cons.prems(2)])
  qed
qed simp

section \<open>Normalised events\<close>

lemma truthy_jor [simp]: "truthy (jor a b) \<longleftrightarrow> truthy a \<or> truthy b"
  by (simp add: jor_def)

lemma dget_Cons: "dget ((k, v) # d) k' = (if k' = k then v else dget d k')"
  by (simp add: dget_def)

lemma map_res_all: "map_res f xs = Inr ys \<Longrightarrow> \<forall>x \<in> set xs. \<forall>y. f x = Inr y \<longrightarrow> P y \<Longrightarrow> \<forall>y \<in> set ys. P y"
  by (induction xs arbitrary: ys) (auto split: sum.splits)

lemma valid_event:
  assumes "dget ev ''source'' = JStr s" "s \<in> set MON_SOURCES" "dget ev ''kind'' = JStr k" "k \<in> set MON_KINDS"
    and "dget ev ''entity'' = entity_of ty eid en" "truthy eid" "truthy (dget ev ''ts'')" "k = ''metric'' \<Longrightarrow> numeric (dget ev ''value'')"
  shows "validate_event e ev = Inr None"
  using assms by (simp add: validate_event_def one_of_def hashable_def entity_of_def as_dict_def dget_def)

lemma alertmanager_valid:
  assumes "alertmanager_event e payload alert = Inr ev" and "isoformat e (now e) \<noteq> []"
  shows "validate_event e ev = Inr None"
  using assms
  by (auto simp: alertmanager_event_def Let_def dget_def now_iso_def MON_SOURCES_def MON_KINDS_def
      intro!: valid_event split: sum.splits)


lemma elk_valid:
  assumes "elk_event e doc = Inr ev" and "isoformat e (now e) \<noteq> []"
  shows "validate_event e ev = Inr None"
proof -
  define src where "src = as_dict (dget (as_dict doc) ''_source'')"
  obtain lv where lv: "jor (dget src ''log.level'') (jor (dget src ''level'') (JStr ''info'')) = JStr lv"
    using assms(1) by (cases "jor (dget src ''log.level'') (jor (dget src ''level'') (JStr ''info''))") (auto simp: elk_event_def Let_def src_def)
  define kind where "kind = (if lower lv \<notin> {''error'', ''fatal''} then ''log'' else ''alert'')"
  have "dget ev ''source'' = JStr ''elk''" "dget ev ''kind'' = JStr kind"
    "dget ev ''entity'' = entity_of ''host'' (jor (dget src ''host.name'') (JStr ''unknown'')) (jor (dget src ''host.name'') (JStr ''unknown''))"
    "dget ev ''ts'' = jor (dget src ''@timestamp'') (now_iso e)"
    using assms(1) unfolding elk_event_def src_def [symmetric] Let_def lv kind_def by (auto simp: dget_Cons)
  then show ?thesis
    by (intro valid_event) (use assms(2) in \<open>auto simp: kind_def now_iso_def MON_SOURCES_def MON_KINDS_def split: if_splits\<close>)
qed

lemma skywalking_valid:
  assumes "skywalking_event e payload = Inr ev" and "isoformat e (now e) \<noteq> []"
  shows "validate_event e ev = Inr None"
  using assms by (auto simp: skywalking_event_def Let_def dget_def now_iso_def MON_SOURCES_def MON_KINDS_def intro!: valid_event split: sum.splits)

lemma normalized_valid:
  assumes "normalize_event e source payload = Inr evs" and "source \<noteq> ''prometheus''" and "isoformat e (now e) \<noteq> []"
  shows "\<forall>ev \<in> set evs. validate_event e ev = Inr None"
  using assms map_res_all [of "alertmanager_event e payload" _ evs "\<lambda>ev. validate_event e ev = Inr None"]
    map_res_all [of "elk_event e" _ evs "\<lambda>ev. validate_event e ev = Inr None"]
  by (auto simp: normalize_event_def normalize_alertmanager_def alertmanager_valid elk_valid skywalking_valid
      split: if_splits sum.splits option.splits)


lemma plain_stored:
  "plain_val k v \<Longrightarrow> stored_val False k v"
  "plain_config d \<Longrightarrow> stored_config False d"
proof (induction k v and d rule: plain_val_plain_config.induct)
  case (3 k xs)
  have "stored_items False ys" if "\<forall>x \<in> set ys. case x of JObj _ \<Rightarrow> False | _ \<Rightarrow> True" for ys
    using that by (induction ys) (auto split: json.splits)
  with 3 show ?case by simp
qed auto

lemma upsert_total:
  assumes "tfirst (daily_key so ty en na da) (mon_dailies w) = Some (i, r)"
  shows "\<exists>w'. upsert_all so ty en na da us w = Inr w'"
  using assms
proof (induction us arbitrary: w r)
  case (Cons u us)
  define f where "f = (\<lambda>r :: mon_daily. let n = dy_sample_count r + 1 in r\<lparr>dy_sample_count := n,
     dy_avg_value := (dy_avg_value r * of_int (n - 1) + u) / of_int n, dy_max_value := max (dy_max_value r) u, dy_min_value := min (dy_min_value r) u\<rparr>)"
  have k: "daily_key so ty en na da (f x) = daily_key so ty en na da x" for x by (simp add: f_def daily_key_def Let_def)
  have "upsert_daily so ty en na da u w = Inr (w\<lparr>mon_dailies := tupd i f (mon_dailies w)\<rparr>)"
    using Cons.prems(1) by (simp add: upsert_daily_def daily_key_def [abs_def] f_def)
  moreover have "tfirst (daily_key so ty en na da) (mon_dailies (w\<lparr>mon_dailies := tupd i f (mon_dailies w)\<rparr>)) = Some (i, f r)"
    using tfirst_tupd_first [OF Cons.prems(1) k] by simp
  ultimately show ?case using Cons.IH by simp
qed simp

end
