(* ===== verification/Monitor_Properties.thy ===== *)
theory Monitor_Properties
  imports Samples Monitor_Facts
begin

text \<open>
  What the monitor promises of its alerts, its inbox, its aggregates and its adapters, and two things it does not do.
\<close>

definition mon_sample_env :: "time \<Rightarrow> mon_env" where
  "mon_sample_env t = \<lparr>now = t, today = ''20250101'', redis_up = False, broker_up = True, ssh_available = False,
     agent_reachable = (\<lambda>_. False), agent_online = (\<lambda>_. False), fromisoformat = (\<lambda>_. Some 0), float_of_str = (\<lambda>_. None),
     float_repr = (\<lambda>_. []), new_jti = ''jti'', jwt_encode = (\<lambda>_. ''token''), jwt_decode = (\<lambda>_. None),
     seal = (\<lambda>s. s), unseal = Some, http_post = (\<lambda>_ _. None), json_dumps = (\<lambda>_. ''{}''), json_loads = (\<lambda>_. Some []),
     digest = (\<lambda>_. ''d''), container_str = (\<lambda>_. []), isoformat = (\<lambda>_. ''2025''), iso_date = (\<lambda>_. 0), fromtimestamp = (\<lambda>_. Some 0),
     jsonb_text = (\<lambda>_. []), inbox_accepts = (\<lambda>_. True)\<rparr>"

definition cpu_rule :: "int \<Rightarrow> mon_rule" where
  "cpu_rule cooldown = \<lparr>mr_name = ''cpu high'', mr_enabled = 1, mr_event_source = None, mr_event_kind = ''metric'', mr_metric_name = Some ''cpu'',
     mr_condition_operator = ''>'', mr_condition_threshold = 80, mr_condition_duration_seconds = 0, mr_scope_type = None, mr_scope_ids = [],
     mr_level = ''warning'', mr_cooldown_seconds = cooldown, mr_converge_sec = 600, mr_escalation_enabled = 0,
     mr_escalation_after_seconds = None, mr_escalate_levels = [], mr_notify_channel_ids = [1], mr_deleted = 0, mr_created_by = Some 7\<rparr>"

definition mon_sample_db :: mon_db where
  "mon_sample_db = \<lparr>config_rules = [], channels = Table [(1, \<lparr>nc_name = ''hook'', nc_type = ''webhook'', nc_config_enc = ''v1:x'', nc_enabled = 1\<rparr>)] 1,
     notify_records = empty_table, mon_hosts = empty_table, mon_rules = Table [(1, cpu_rule 300)] 1, mon_alerts = empty_table,
     mon_logs = empty_table, mon_samples = empty_table, mon_dailies = empty_table, mon_inbox = empty_table,
     mon_adapters = Table [(1, \<lparr>md_type = ''prometheus'', md_name = ''prom'', md_endpoint = [], md_config = [], md_enabled = 1,
        md_status = ''healthy'', md_error_message = None, md_created_by = Some 7\<rparr>)] 1, mon_pushes = [], sweep_last = None\<rparr>"

definition cpu_event :: "string \<Rightarrow> int \<Rightarrow> dict" where
  "cpu_event eid v = [(''source'', JStr ''agent''), (''kind'', JStr ''metric''), (''entity'', JObj [(''entity_type'', JStr ''host''), (''entity_id'', JStr ''10.0.0.1'')]),
     (''ts'', JInt 1), (''value'', JInt v), (''name'', JStr ''cpu''), (''event_id'', JStr eid)]"

text \<open>One event that opens an alert, one that makes it fire, one that resolves it.\<close>

definition mon_opened :: mon_db where
  "mon_opened = after (ingest (mon_sample_env 0) 1 (cpu_event ''a'' 90) mon_sample_db) mon_sample_db"

definition mon_fired :: mon_db where
  "mon_fired = after (ingest (mon_sample_env 1000000) 1 (cpu_event ''b'' 95) mon_opened) mon_opened"

lemma mon_steps: "mon_step mon_sample_db mon_opened" "mon_step mon_opened mon_fired"
proof -
  have "\<exists>r. ingest (mon_sample_env 0) 1 (cpu_event ''a'' 90) mon_sample_db = Inr (r, mon_opened)"
    unfolding mon_opened_def after_def by (rule exI [of _ "Counted 1 0 1"]) code_simp
  then show "mon_step mon_sample_db mon_opened" by (auto intro: mon_step.ingested)
  have "\<exists>r. ingest (mon_sample_env 1000000) 1 (cpu_event ''b'' 95) mon_opened = Inr (r, mon_fired)"
    unfolding mon_fired_def after_def by (rule exI [of _ "Counted 1 0 1"]) code_simp
  then show "mon_step mon_opened mon_fired" by (auto intro: mon_step.ingested)
qed

lemma mon_fresh: "fresh_monitor mon_sample_db"
  by (simp add: fresh_monitor_def mon_sample_db_def)

lemma mon_reached: "mon_step\<^sup>*\<^sup>* mon_sample_db mon_opened" "mon_step\<^sup>*\<^sup>* mon_sample_db mon_fired" "mon_step\<^sup>*\<^sup>* mon_opened mon_fired"
  using mon_steps by (auto intro: rtranclp.rtrancl_into_rtrancl)

section \<open>The life of an alert\<close>



lemma mon_fired_facts:
  "map_option ma_status (tget (mon_alerts mon_opened) 1) = Some LPending"
  "map_option ma_status (tget (mon_alerts mon_fired) 1) = Some LFiring"
  "path_of mon_opened 1 = [(None, Some LPending)]"
  by code_simp+


text \<open>C17: there is never more than one open alert for a rule and an entity: two alerts that are pending, firing or acknowledged
  and have the same rule and the same entity are the same row.\<close>

theorem one_active_alert:
  assumes "mon_step\<^sup>*\<^sup>* w0 w" and "fresh_monitor w0"
    and "tget (mon_alerts w) i = Some a" and "active_status (ma_status a)"
    and "tget (mon_alerts w) j = Some b" and "active_status (ma_status b)"
    and "ma_rule_id a = ma_rule_id b" and "dget (ma_entity a) ''entity_id'' = dget (ma_entity b) ''entity_id''"
  shows "i = j"
  using mon_inv_reach [OF assms(1,2)] assms(3-8) by (auto simp: mon_inv_def single_active_def same_key_def)

theorem one_active_alert_witness:
  "\<exists>a. tget (mon_alerts mon_fired) 1 = Some a \<and> active_status (ma_status a) \<and> (\<forall>j. tget (mon_alerts mon_fired) j = Some a \<longrightarrow> 1 = j)"
proof -
  obtain a where a: "tget (mon_alerts mon_fired) 1 = Some a" "ma_status a = LFiring" using mon_fired_facts(2) by auto
  then have act: "active_status (ma_status a)" by (simp add: active_status_def)
  from one_active_alert [OF mon_reached(2) mon_fresh a(1) act _ act refl refl] a(1) act show ?thesis by blast
qed

text \<open>An event resolves only the alerts it is about: an open alert that is resolved after the evaluation of a validated event
  belongs to an enabled rule to which the event pertains and whose condition it does not meet, and to the entity of the event.\<close>

lemma event_resolves_its_own:
  assumes "mon_step\<^sup>*\<^sup>* w0 w" and "fresh_monitor w0" and "validate_event e ev = Inr None" and "evaluate_event e ev w = Inr (out, w')"
    and "tget (mon_alerts w) i = Some a" and "ma_status a \<noteq> LResolved"
    and "tget (mon_alerts w') i = Some b" and "ma_status b = LResolved"
  shows "\<exists>(rid, rule) \<in> set (enabled_rules w). ma_rule_id a = Some rid \<and> dget (ma_entity a) ''entity_id'' = entity_key ev \<and>
    rule_pertains e rule ev \<and> \<not> condition_met e rule ev"
proof -
  have inv: "mon_inv w" by (rule mon_inv_reach [OF assms(1,2)])
  have "w' = snd (eval_rules e ev (enabled_rules w) w)" using assms(4) by (simp add: evaluate_event_def split: if_splits)
  with keeps_eval_rules [OF inv validated_entity [OF assms(3)], of e "enabled_rules w"]
  have "clears e ev (enabled_rules w) i a" using assms(5-8) by (fastforce simp: keeps_def)
  then show ?thesis by (simp add: clears_def)
qed

lemma calm_facts:
  "validate_event (mon_sample_env 2000000) (cpu_event ''c'' 10) = Inr None"
  "isl (evaluate_event (mon_sample_env 2000000) (cpu_event ''c'' 10) mon_fired) = False"
  "map_option ma_status (tget (mon_alerts (after (evaluate_event (mon_sample_env 2000000) (cpu_event ''c'' 10) mon_fired) mon_fired)) 1) = Some LResolved"
  by code_simp+

lemma event_resolves_its_own_witness:
  "\<exists>(rid, rule) \<in> set (enabled_rules mon_fired). rule_pertains (mon_sample_env 2000000) rule (cpu_event ''c'' 10) \<and>
     \<not> condition_met (mon_sample_env 2000000) rule (cpu_event ''c'' 10)"
proof -
  obtain out w' where ev: "evaluate_event (mon_sample_env 2000000) (cpu_event ''c'' 10) mon_fired = Inr (out, w')"
    using calm_facts(2) by (cases "evaluate_event (mon_sample_env 2000000) (cpu_event ''c'' 10) mon_fired") auto
  obtain a b where "tget (mon_alerts mon_fired) 1 = Some a" "ma_status a \<noteq> LResolved" "tget (mon_alerts w') 1 = Some b" "ma_status b = LResolved"
    using mon_fired_facts(2) calm_facts(3) by (auto simp: ev after_def)
  from event_resolves_its_own [OF mon_reached(2) mon_fresh calm_facts(1) ev this] show ?thesis by fast
qed

section \<open>Notifications\<close>

text \<open>With a cooldown, the notification that an alert fires is never sent: the entry \<open>fire\<close> that the transition from pending to
  firing writes counts as the last notification, so the transition, by an event or by the sweep, is answered with \<open>suppress\<close> and
  leaves no notification record. The default cooldown of a rule is 300 seconds.\<close>

lemma cooldown_mutes_firing:
  assumes "fire_alert e i a rule w = Some (outcome, w')" and "0 < mr_cooldown_seconds rule"
  shows "outcome = ''suppress'' \<and> notify_records w' = notify_records w"
  by (rule fire_is_muted [OF assms])

lemma cooldown_mutes_firing_witness:
  "\<exists>a w'. tget (mon_alerts mon_opened) 1 = Some a \<and> fire_alert (mon_sample_env 1000000) 1 a (cpu_rule 300) mon_opened = Some (''suppress'', w') \<and>
     notify_records w' = notify_records mon_opened"
proof -
  have "case tget (mon_alerts mon_opened) 1 of None \<Rightarrow> False | Some a \<Rightarrow>
      (case fire_alert (mon_sample_env 1000000) 1 a (cpu_rule 300) mon_opened of None \<Rightarrow> False | Some _ \<Rightarrow> True)" by code_simp
  then obtain a out w' where a: "tget (mon_alerts mon_opened) 1 = Some a" "fire_alert (mon_sample_env 1000000) 1 a (cpu_rule 300) mon_opened = Some (out, w')"
    by (auto split: option.splits)
  with cooldown_mutes_firing [OF a(2)] show ?thesis by (auto simp: cpu_rule_def)
qed


section \<open>The inbox\<close>

text \<open>A payload that is delivered again changes nothing: an accepted event with an event id is answered as a duplicate from then
  on, at any later time and after anything else the monitor did, and the database stays as it is.\<close>

lemma redelivery_is_duplicate:
  assumes "process_event e raw w = Inr (Accepted d, w1)" and "truthy (dget raw ''event_id'')" and "mon_step\<^sup>*\<^sup>* w1 w2"
  shows "process_event (e\<lparr>now := t\<rparr>) raw w2 = Inr (Accepted True, w2)"
  using accepted_key [OF assms(1,2), of t w2] accepted_in_inbox [OF assms(1,2)] inbox.reach_appends [OF assms(3)]
  by (auto simp: inbox_grows_def)

lemma delivered_facts:
  "process_event (mon_sample_env 0) (cpu_event ''a'' 90) mon_sample_db = Inr (Accepted False, mon_opened)"
  "truthy (dget (cpu_event ''a'' 90) ''event_id'')"
  by code_simp+

lemma redelivery_is_duplicate_witness:
  "process_event ((mon_sample_env 0)\<lparr>now := 5000000\<rparr>) (cpu_event ''a'' 90) mon_fired = Inr (Accepted True, mon_fired)"
  by (rule redelivery_is_duplicate [OF delivered_facts mon_reached(3)])

text \<open>No pushed event is lost without a trace: when the database takes the rows, every event of a batch is accepted or becomes
  a dead letter, and the answer counts them.\<close>

lemma rejected_are_dead_letters:
  assumes "ingest_events e events w = Inr ((accepted, rejected), w')"
    and "\<And>row. inbox_accepts e row" and "\<And>x. fromtimestamp e x \<noteq> None"
  shows "accepted + rejected = length events \<and> dead_letters w' = dead_letters w + rejected"
  using ingest_dead_letters [OF assms(1)] assms(2,3) by (simp add: takes_all_def)

lemma batch_facts:
  "map_sum id fst (ingest_events (mon_sample_env 0) [JObj (cpu_event ''a'' 90), JObj [(''source'', JStr ''nobody'')]] mon_sample_db) = Inr (1, 1)"
  by code_simp

lemma rejected_are_dead_letters_witness:
  "\<exists>w'. ingest_events (mon_sample_env 0) [JObj (cpu_event ''a'' 90), JObj [(''source'', JStr ''nobody'')]] mon_sample_db = Inr ((1, 1), w') \<and>
     dead_letters w' = dead_letters mon_sample_db + 1"
proof -
  obtain w' where w': "ingest_events (mon_sample_env 0) [JObj (cpu_event ''a'' 90), JObj [(''source'', JStr ''nobody'')]] mon_sample_db = Inr ((1, 1), w')"
    using batch_facts by (cases "ingest_events (mon_sample_env 0) [JObj (cpu_event ''a'' 90), JObj [(''source'', JStr ''nobody'')]] mon_sample_db") auto
  from rejected_are_dead_letters [OF w'] w' show ?thesis by (simp add: mon_sample_env_def)
qed



section \<open>Metrics\<close>

text \<open>The daily row of a metric is the mean, the maximum, the minimum and the number of the values of that day, although it is
  kept by running updates: the values of a new key, stored one after the other, all succeed and leave exactly that summary.\<close>

lemma daily_row_is_summary:
  assumes "vs \<noteq> []"
    and "\<not> texists (\<lambda>r. dy_source r = so \<and> dy_metric_name r = na \<and> dy_entity_id r = en \<and> dy_day r = da) (mon_dailies w)"
  shows "\<exists>w' i r. upsert_all so ty en na da vs w = Inr w' \<and> tfirst (daily_key so ty en na da) (mon_dailies w') = Some (i, r) \<and> summarises vs r"
proof -
  obtain v us where vs: "vs = v # us" using assms(1) by (cases vs) auto
  have none: "tfirst (daily_key so ty en na da) (mon_dailies w) = None"
    using assms(2) texists_iff_tfirst [of "daily_key so ty en na da" "mon_dailies w"] by (auto simp: texists_def daily_key_def)
  then obtain w1 where w1: "upsert_daily so ty en na da v w = Inr w1"
    using assms(2) by (auto simp: upsert_daily_def daily_key_def [abs_def])
  from upsert_first [OF assms(2) w1] obtain i r where r: "tfirst (daily_key so ty en na da) (mon_dailies w1) = Some (i, r)" "summarises [v] r" by blast
  from upsert_total [OF r(1)] obtain w' where w': "upsert_all so ty en na da us w1 = Inr w'" by blast
  from upsert_keeps_summary [OF r w'] w1 w' show ?thesis by (auto simp: vs)
qed

lemma daily_row_is_summary_witness:
  "\<exists>w' i r. upsert_all ''agent'' ''host'' ''h'' ''cpu'' 0 [1, 2, 6] mon_sample_db = Inr w' \<and>
     tfirst (daily_key ''agent'' ''host'' ''h'' ''cpu'' 0) (mon_dailies w') = Some (i, r) \<and> dy_avg_value r = 3 \<and> dy_max_value r = 6"
proof -
  have "\<not> texists (\<lambda>r. dy_source r = ''agent'' \<and> dy_metric_name r = ''cpu'' \<and> dy_entity_id r = ''h'' \<and> dy_day r = 0) (mon_dailies mon_sample_db)"
    by (simp add: mon_sample_db_def texists_def empty_table_def)
  from daily_row_is_summary [OF _ this, of "[1, 2, 6]" "''host''"] show ?thesis by (auto simp: summarises_def)
qed

text \<open>The empty scope is no scope: a user with the permission for metrics and no visible host is shown the current samples of
  every entity, exactly what an administrator is shown.\<close>

lemma empty_scope_sees_all:
  assumes "has_perm u ''monitor:metric:view''" and "visible_entity_ids w u = Some []" and "is_admin admin"
  shows "current_metrics u ids name w = current_metrics admin None name w"
proof -
  have "sample_matches (Some []) name None None = sample_matches None name None None" by (simp add: fun_eq_iff sample_matches_def)
  with assms show ?thesis
    by (simp add: current_metrics_def require_perm_def has_perm_def scope_metric_ids_def visible_entity_ids_def int_truthy_def Let_def
        latest_by_entity_def split: option.splits)
qed

definition viewer :: current_user where
  "viewer = \<lparr>uid = 9, username = ''guest'', is_admin = False, permissions = [''monitor:metric:view''], visible_group_ids = []\<rparr>"

lemma empty_scope_sees_all_witness:
  "current_metrics viewer None None mon_opened = current_metrics sample_user None None mon_opened \<and>
     map_sum id (map sm_entity_id) (current_metrics viewer None None mon_opened) = Inr [''10.0.0.1'']"
proof -
  have "current_metrics viewer None None mon_opened = current_metrics sample_user None None mon_opened"
    by (rule empty_scope_sees_all) (simp_all add: viewer_def has_perm_def sample_user_def visible_entity_ids_def entity_ids_in_groups_def tselect_def case_prod_unfold
       split: option.splits)
  moreover have "map_sum id (map sm_entity_id) (current_metrics viewer None None mon_opened) = Inr [''10.0.0.1'']" by code_simp
  ultimately show ?thesis by blast
qed

section \<open>Adapters\<close>




lemma starred_secret_in_clear:
  assumes "CHR ''*'' \<in> set s"
  shows "encrypt_config_secrets e [(''token'', JStr s)] [] = [(''token'', JStr s)]"
  using assms by (simp add: SECRET_KEYS_def secret_val_def is_masked_secret_def)

end
