(* ===== verification/Terminal_Service.thy ===== *)
theory Terminal_Service
  imports Exec_Invariants Security
begin

text \<open>
  The web terminal: \<open>terminal_service.py\<close> (session life cycle, approval for sensitive hosts, limits,
  encrypted recording and replay) and the message loop of \<open>ws/terminal_ws.py\<close>. What an approval does
  to its session when it is decided is in \<open>Exec_Service\<close>.

  The number of a session is made of the process id and a counter in the memory of that process; the
  counter is not rolled back with the database, so \<open>create_session\<close> returns the database beside its
  answer. A web-socket connection is a list of received messages with the times they arrive at.
\<close>

section \<open>State\<close>

record term_env = env +
  getpid :: int
  json_parse :: "string \<Rightarrow> json option" \<comment> \<open>\<open>json.loads\<close>; \<open>None\<close> is its exception\<close>

record rec_chunk =
  rc_session_id :: int
  rc_offset :: int
  rc_data_enc :: string

record term_db = exec_db +
  rec_chunks :: "rec_chunk table"
  no_counter :: "int \<Rightarrow> int" \<comment> \<open>\<open>_NO_COUNTER\<close> of each process, by process id\<close>

section \<open>Numbers and rules\<close>

fun hex_digits :: "nat \<Rightarrow> string" where
  "hex_digits n = (let d = (\<lambda>m. char_of (if m < 10 then 48 + m else 87 + m))
     in if n < 16 then [d n] else hex_digits (n div 16) @ [d (n mod 16)])"

declare hex_digits.simps [simp del]

definition pad_hex :: "nat \<Rightarrow> nat \<Rightarrow> string" where
  "pad_hex k n = replicate (k - length (hex_digits n)) CHR ''0'' @ hex_digits n"

definition unique_no_component :: "'e term_env_scheme \<Rightarrow> 'z term_db_scheme \<Rightarrow> string \<times> 'z term_db_scheme" where
  "unique_no_component e w =
     (let sq = no_counter w (getpid e) + 1
      in (hex_digits (nat (getpid e)) @ ''-'' @ pad_hex 8 (nat sq), w\<lparr>no_counter := (no_counter w)(getpid e := sq)\<rparr>))"

definition session_no :: "'e term_env_scheme \<Rightarrow> 'z term_db_scheme \<Rightarrow> string \<times> 'z term_db_scheme" where
  "session_no e w = (let (c, w1) = unique_no_component e w in (''TS-'' @ today e @ ''-'' @ c, w1))"

definition term_approval_no :: "'e term_env_scheme \<Rightarrow> 'z term_db_scheme \<Rightarrow> string \<times> 'z term_db_scheme" where
  "term_approval_no e w = (let (c, w1) = unique_no_component e w in (''AP-'' @ today e @ ''-'' @ c, w1))"

record terminal_rules =
  tr_user_limit :: int
  tr_global_limit :: int
  tr_idle_timeout_sec :: int
  tr_duration_limit_sec :: int
  tr_retention_days :: int

text \<open>One round of the loop of \<open>_rules\<close>: the configured value if it is not null, the default otherwise;
  \<open>None\<close> is the exception of \<open>int()\<close>.\<close>

definition rule_int :: "'z sys_db_scheme \<Rightarrow> string \<Rightarrow> int \<Rightarrow> int option" where
  "rule_int w key dflt = (case by_key w key of None \<Rightarrow> Some dflt
     | Some val \<Rightarrow> if dget val ''value'' = JNull then Some dflt else py_int (dget val ''value''))"

definition term_rules :: "'z sys_db_scheme \<Rightarrow> terminal_rules option" where
  "term_rules w =
     (case (rule_int w ''terminal_user_concurrency_limit'' 1, rule_int w ''terminal_global_concurrency_limit'' 100,
            rule_int w ''terminal_idle_timeout_sec'' 1800, rule_int w ''terminal_duration_limit_sec'' 14400,
            rule_int w ''terminal_retention_days'' 30) of
        (Some a, Some b, Some c, Some d, Some r) \<Rightarrow>
          Some \<lparr>tr_user_limit = a, tr_global_limit = b, tr_idle_timeout_sec = c, tr_duration_limit_sec = d, tr_retention_days = r\<rparr>
      | _ \<Rightarrow> None)"

section \<open>Repositories\<close>

definition session_live :: "terminal_session \<Rightarrow> bool" where
  "session_live s = (ts_status s \<in> {TOpen, TAwaitingApproval})"

definition count_open_by_user :: "'z exec_db_scheme \<Rightarrow> int \<Rightarrow> int" where
  "count_open_by_user w u = int (length (tselect (\<lambda>s. ts_user_id s = u \<and> session_live s) (terminals w)))"

definition count_open_global :: "'z exec_db_scheme \<Rightarrow> int" where
  "count_open_global w = int (length (tselect session_live (terminals w)))"

text \<open>\<open>search\<close>: newest first, the filters that are set.\<close>

definition search_sessions ::
  "terminal_status option \<Rightarrow> int option \<Rightarrow> int \<Rightarrow> int \<Rightarrow> 'z exec_db_scheme \<Rightarrow> (int \<times> terminal_session) list \<times> int" where
  "search_sessions st user page sz w =
     (let found = rev (tselect (\<lambda>s. (st = None \<or> Some (ts_status s) = st) \<and> (\<not> int_truthy user \<or> Some (ts_user_id s) = user)) (terminals w))
      in (page_of page sz found, int (length found)))"

definition chunks_of :: "'z term_db_scheme \<Rightarrow> int \<Rightarrow> rec_chunk list" where
  "chunks_of w sid = map snd (tselect (\<lambda>c. rc_session_id c = sid) (rec_chunks w))"

definition max_offset :: "'z term_db_scheme \<Rightarrow> int \<Rightarrow> int" where
  "max_offset w sid = fold max (map rc_offset (chunks_of w sid)) 0"

definition after_offset :: "'z term_db_scheme \<Rightarrow> int \<Rightarrow> int \<Rightarrow> int \<Rightarrow> rec_chunk list" where
  "after_offset w sid off sz = take (nat sz) (sort_key rc_offset (filter (\<lambda>c. rc_offset c > off) (chunks_of w sid)))"

section \<open>Sessions\<close>

definition host_visible :: "current_user \<Rightarrow> int \<Rightarrow> host option \<Rightarrow> host res" where
  "host_visible u hid ho =
     (case ho of None \<Rightarrow> Inl (NotFoundError ''host not found'')
      | Some h \<Rightarrow> if \<not> is_admin u \<and> (case h_group_id h of None \<Rightarrow> True | Some g \<Rightarrow> g \<notin> set (visible_group_ids u))
                  then Inl (ForbiddenError (''no data permission for host '' @ show_int hid)) else Inr h)"

record session_created =
  so_id :: int
  so_session_no :: string
  so_status :: terminal_status
  so_sensitive :: int
  so_approval_id :: "int option"

definition terminal_approval :: "string \<Rightarrow> int \<Rightarrow> int \<Rightarrow> approval" where
  "terminal_approval no sid user = new_approval no ''terminal'' sid user [SensitiveWords [''sensitive host access'']]"

text \<open>The approval of a new session: both numbers of the request are unique columns.\<close>

definition await_session_approval ::
  "'e term_env_scheme \<Rightarrow> int \<Rightarrow> int \<Rightarrow> 'z term_db_scheme \<Rightarrow> int res \<times> 'z term_db_scheme" where
  "await_session_approval e sid user w =
     (let (no, w1) = term_approval_no e w
      in if texists (\<lambda>r. ap_request_no r = no) (approvals w1) then (Inl (IntegrityError ''approval_request.request_no''), w1)
         else case add_approval (terminal_approval no sid user) w1 of
                Inl err \<Rightarrow> (Inl err, w1)
              | Inr (aid, w2) \<Rightarrow>
                  (Inr aid, upd_terminal sid (\<lambda>s. s\<lparr>ts_approval_id := Some aid, ts_status := TAwaitingApproval\<rparr>) w2))"

definition new_session :: "'e term_env_scheme \<Rightarrow> string \<Rightarrow> int \<Rightarrow> int \<Rightarrow> int \<Rightarrow> terminal_session" where
  "new_session e no hid user sens =
     \<lparr>ts_session_no = no, ts_host_id = hid, ts_user_id = user, ts_status = TOpen, ts_close_reason = [], ts_sensitive = sens,
      ts_approval_id = None, ts_version = 1, ts_started_at = Some (now e), ts_finished_at = None, ts_duration_sec = 0,
      ts_bytes_out = 0, ts_created_at = now e\<rparr>"

text \<open>The database after a roll-back keeps only the counter of the process.\<close>

definition roll_back :: "'z term_db_scheme \<Rightarrow> 'z term_db_scheme \<Rightarrow> 'z term_db_scheme" where
  "roll_back w w1 = w\<lparr>no_counter := no_counter w1\<rparr>"

definition open_session ::
  "'e term_env_scheme \<Rightarrow> current_user \<Rightarrow> int \<Rightarrow> host \<Rightarrow> 'z term_db_scheme \<Rightarrow> session_created res \<times> 'z term_db_scheme" where
  "open_session e u hid h w =
     (let (no, w1) = session_no e w; sid = next_id (terminals w1);
          sens = (if h_sensitivity_level h = ''sensitive'' then 1 else 0)
      in if texists (\<lambda>s. ts_session_no s = no) (terminals w1)
         then (Inl (IntegrityError ''terminal_session.session_no''), roll_back w w1)
         else (let w2 = w1\<lparr>terminals := tadd (new_session e no hid (uid u) sens) (terminals w1)\<rparr>
               in if h_sensitivity_level h = ''sensitive''
                  then (case await_session_approval e sid (uid u) w2 of
                          (Inl err, w3) \<Rightarrow> (Inl err, roll_back w w3)
                        | (Inr aid, w3) \<Rightarrow>
                            (Inr \<lparr>so_id = sid, so_session_no = no, so_status = TAwaitingApproval, so_sensitive = sens, so_approval_id = Some aid\<rparr>, w3))
                  else (Inr \<lparr>so_id = sid, so_session_no = no, so_status = TOpen, so_sensitive = sens, so_approval_id = None\<rparr>, w2)))"

definition create_session ::
  "'e term_env_scheme \<Rightarrow> current_user \<Rightarrow> int \<Rightarrow> 'z term_db_scheme \<Rightarrow> session_created res \<times> 'z term_db_scheme" where
  "create_session e u hid w =
     (if \<not> has_perm u ''terminal:create'' then (Inl (perm_denied ''terminal:create''), w)
      else case host_visible u hid (tget (hosts w) hid) of
             Inl err \<Rightarrow> (Inl err, w)
           | Inr h \<Rightarrow>
               (case term_rules w of
                  None \<Rightarrow> (Inl TypeError, w)
                | Some r \<Rightarrow>
                    if count_open_by_user w (uid u) \<ge> tr_user_limit r
                    then (Inl (RateLimitError ''user terminal session concurrency limit reached''), w)
                    else if count_open_global w \<ge> tr_global_limit r
                    then (Inl (RateLimitError ''global terminal session concurrency limit reached''), w)
                    else open_session e u hid h w))"

definition require_visible_session :: "current_user \<Rightarrow> int \<Rightarrow> 'z exec_db_scheme \<Rightarrow> terminal_session res" where
  "require_visible_session u sid w =
     (case tget (terminals w) sid of
        None \<Rightarrow> Inl (NotFoundError ''terminal session not found'')
      | Some s \<Rightarrow>
          if is_admin u \<or> ts_user_id s = uid u then Inr s
          else (case tget (hosts w) (ts_host_id s) of
                  None \<Rightarrow> Inl (ForbiddenError ''no permission to view this terminal session'')
                | Some h \<Rightarrow> (case h_group_id h of
                      None \<Rightarrow> Inl (ForbiddenError ''no permission to view this terminal session'')
                    | Some g \<Rightarrow> if g \<in> set (visible_group_ids u) then Inr s
                                else Inl (ForbiddenError ''no permission to view this terminal session''))))"

text \<open>A handler on one visible session, behind its permission.\<close>

definition session_guard :: "string \<Rightarrow> current_user \<Rightarrow> int \<Rightarrow> 'z exec_db_scheme \<Rightarrow> terminal_session res" where
  "session_guard perm u sid w =
     (if \<not> has_perm u perm then Inl (perm_denied perm) else require_visible_session u sid w)"

definition get_session :: "current_user \<Rightarrow> int \<Rightarrow> 'z exec_db_scheme \<Rightarrow> terminal_session res" where
  "get_session u sid w = session_guard ''terminal:view'' u sid w"

definition list_sessions ::
  "current_user \<Rightarrow> terminal_status option \<Rightarrow> int \<Rightarrow> int \<Rightarrow> 'z exec_db_scheme \<Rightarrow> ((int \<times> terminal_session) list \<times> int) res" where
  "list_sessions u st page sz w =
     (if \<not> has_perm u ''terminal:list'' then Inl (perm_denied ''terminal:list'')
      else Inr (search_sessions st (if is_admin u then None else Some (uid u)) page sz w))"

definition create_ws_token :: "'e term_env_scheme \<Rightarrow> int \<Rightarrow> string" where
  "create_ws_token e sid = create_token (env.truncate e) sid ''ws_terminal'' 300 []"

definition issue_token :: "'e term_env_scheme \<Rightarrow> current_user \<Rightarrow> int \<Rightarrow> 'z exec_db_scheme \<Rightarrow> string res" where
  "issue_token e u sid w =
     (case session_guard ''terminal:view'' u sid w of
        Inl err \<Rightarrow> Inl err
      | Inr s \<Rightarrow> if ts_status s \<noteq> TOpen then Inl (BadRequestError ''terminal session is not open'')
                 else Inr (create_ws_token e sid))"

text \<open>\<open>int(td.total_seconds())\<close>: towards zero.\<close>

definition whole_seconds :: "int \<Rightarrow> int" where
  "whole_seconds d = (if 0 \<le> d then d div 1000000 else - (- d div 1000000))"

definition stamp_closed :: "'e term_env_scheme \<Rightarrow> string \<Rightarrow> terminal_session \<Rightarrow> terminal_session" where
  "stamp_closed e reason s = s\<lparr>ts_status := TClosed, ts_close_reason := reason, ts_finished_at := Some (now e),
     ts_duration_sec := (case ts_started_at s of None \<Rightarrow> 0 | Some t \<Rightarrow> whole_seconds (now e - t))\<rparr>"

text \<open>The close of an open session in \<open>close_session\<close> and \<open>_finalize\<close>: the compare-and-set, then the
  columns it does not set.\<close>

definition close_open ::
  "'e term_env_scheme \<Rightarrow> string \<Rightarrow> int \<Rightarrow> terminal_session \<Rightarrow> 'z exec_db_scheme \<Rightarrow> 'z exec_db_scheme option" where
  "close_open e reason sid s w =
     (case terminal_optimistic_close sid (ts_version s) w of
        (False, _) \<Rightarrow> None
      | (True, w1) \<Rightarrow> Some (upd_terminal sid (stamp_closed e reason) w1))"

definition cancel_session_approval :: "terminal_session \<Rightarrow> 'z exec_db_scheme \<Rightarrow> 'z exec_db_scheme" where
  "cancel_session_approval s w =
     (case ts_approval_id s of
        None \<Rightarrow> w
      | Some aid \<Rightarrow> if aid = 0 then w else (case tget (approvals w) aid of
          None \<Rightarrow> w
        | Some a \<Rightarrow> if ap_status a = APending then snd (approval_optimistic_update aid APending ACanceled (ap_version a) w) else w))"

definition close_session ::
  "'e term_env_scheme \<Rightarrow> current_user \<Rightarrow> int \<Rightarrow> 'z exec_db_scheme \<Rightarrow> 'z exec_db_scheme res" where
  "close_session e u sid w =
     (case session_guard ''terminal:close'' u sid w of
        Inl err \<Rightarrow> Inl err
      | Inr s \<Rightarrow>
          if ts_status s \<noteq> TOpen
          then if ts_status s = TAwaitingApproval
               then Inr (upd_terminal sid (\<lambda>r. r\<lparr>ts_status := TClosed, ts_close_reason := ''canceled_before_approval'',
                           ts_finished_at := Some (now e)\<rparr>) (cancel_session_approval s w))
               else Inl (BadRequestError ''terminal session already closed'')
          else (case close_open e ''manual'' sid s w of
                  None \<Rightarrow> Inl (BadRequestError ''terminal session state changed concurrently'')
                | Some w1 \<Rightarrow> Inr w1))"

text \<open>\<open>_finalize\<close> behind the guard of \<open>mark_idle_timeout\<close> and \<open>mark_duration_limit\<close>.\<close>

definition mark_closed ::
  "'e term_env_scheme \<Rightarrow> string \<Rightarrow> int \<Rightarrow> terminal_session \<Rightarrow> 'z exec_db_scheme \<Rightarrow> 'z exec_db_scheme" where
  "mark_closed e reason sid s w =
     (if ts_status s \<noteq> TOpen then w
      else case close_open e reason sid s w of None \<Rightarrow> w | Some w1 \<Rightarrow> w1)"

section \<open>Recording and replay\<close>

definition record_output :: "'e term_env_scheme \<Rightarrow> int \<Rightarrow> string \<Rightarrow> 'z term_db_scheme \<Rightarrow> 'z term_db_scheme" where
  "record_output e sid output w =
     (if output = [] then w
      else upd_terminal sid (\<lambda>s. s\<lparr>ts_bytes_out := ts_bytes_out s + int (length output)\<rparr>)
             (w\<lparr>rec_chunks := tadd \<lparr>rc_session_id = sid, rc_offset = max_offset w sid + 1,
                 rc_data_enc = encrypt_secret (env.truncate e) 1 output\<rparr> (rec_chunks w)\<rparr>))"

definition chunk_text :: "'e term_env_scheme \<Rightarrow> rec_chunk \<Rightarrow> string" where
  "chunk_text e c = (case decrypt_secret (env.truncate e) (rc_data_enc c) of None \<Rightarrow> [] | Some plain \<Rightarrow> plain)"

record replay =
  rp_size :: int
  rp_has_more :: bool
  rp_chunks :: "(int \<times> string) list"

definition days :: "int \<Rightarrow> time" where
  "days n = seconds (86400 * n)"

definition replay_recording ::
  "'e term_env_scheme \<Rightarrow> current_user \<Rightarrow> int \<Rightarrow> int \<Rightarrow> int \<Rightarrow> 'z term_db_scheme \<Rightarrow> replay res" where
  "replay_recording e u sid off sz w =
     (case session_guard ''terminal:replay'' u sid w of
        Inl err \<Rightarrow> Inl err
      | Inr s \<Rightarrow>
          (case term_rules w of
             None \<Rightarrow> Inl TypeError
           | Some r \<Rightarrow>
               if now e - (case ts_started_at s of None \<Rightarrow> ts_created_at s | Some t \<Rightarrow> t) > days (tr_retention_days r)
               then Inl (NotFoundError ''recording expired or purged'')
               else (let cs = after_offset w sid off sz
                     in Inr \<lparr>rp_size = int (length cs),
                             rp_has_more = (max_offset w sid > off \<and> int (length cs) = sz),
                             rp_chunks = map (\<lambda>c. (rc_offset c, chunk_text e c)) cs\<rparr>)))"

section \<open>The web socket\<close>

text \<open>A subject that is neither a number nor a string raises here instead; the connection is refused
  all the same.\<close>

definition verify_ws_token :: "'e term_env_scheme \<Rightarrow> string \<Rightarrow> int \<Rightarrow> bool" where
  "verify_ws_token e token sid =
     (case jwt_decode e token of
        None \<Rightarrow> False
      | Some payload \<Rightarrow>
          dget payload ''type'' = JStr ''ws_terminal'' \<and> dhas payload ''sub'' \<and> py_int (dget payload ''sub'') = Some sid)"

text \<open>\<open>_handle_input\<close>: blank input is not recorded; \<open>None\<close> is the \<open>AttributeError\<close> of \<open>strip\<close> on
  something that is no string.\<close>

definition handle_input :: "'e term_env_scheme \<Rightarrow> int \<Rightarrow> json \<Rightarrow> 'z term_db_scheme \<Rightarrow> 'z term_db_scheme option" where
  "handle_input e sid data w =
     (if \<not> truthy data then Some w
      else case data of
             JStr s \<Rightarrow>
               if strip s = [] then Some w
               else (case tget (terminals w) sid of
                       None \<Rightarrow> Some w
                     | Some r \<Rightarrow> if ts_status r = TOpen then Some (record_output e sid (s @ [CHR 0x0A]) w) else Some w)
           | _ \<Rightarrow> None)"

definition finalize_session :: "'e term_env_scheme \<Rightarrow> int \<Rightarrow> string \<Rightarrow> 'z exec_db_scheme \<Rightarrow> 'z exec_db_scheme" where
  "finalize_session e sid reason w =
     (case tget (terminals w) sid of None \<Rightarrow> w | Some s \<Rightarrow> mark_closed e reason sid s w)"

definition input_data :: "dict \<Rightarrow> json" where
  "input_data m = (if dhas m ''data'' then dget m ''data'' else JStr [])"

datatype ws_frame = StatusFrame string | OutputFrame json | PongFrame

datatype ws_end = Closed int | Disconnected | Crashed
  \<comment> \<open>closed with a code; the client went away; an exception ended the loop\<close>

text \<open>\<open>await f(...)\<close> where \<open>f\<close> is an ordinary function that returns \<open>None\<close>: the call is made, then
  awaiting its result raises \<open>TypeError\<close>. What follows the \<open>await\<close> in the block is not reached.\<close>

fun terminal_loop ::
  "'e term_env_scheme \<Rightarrow> terminal_rules \<Rightarrow> int \<Rightarrow> time \<Rightarrow> time \<Rightarrow> (time \<times> string) list \<Rightarrow> 'z term_db_scheme \<Rightarrow>
   ws_frame list \<times> ws_end \<times> 'z term_db_scheme" where
  "terminal_loop e r sid start active [] w = ([], Disconnected, w)"
| "terminal_loop e r sid start active ((t, raw) # msgs) w =
     (let e' = e\<lparr>now := t\<rparr>
      in if tr_duration_limit_sec r \<noteq> 0 \<and> t - start \<ge> seconds (tr_duration_limit_sec r)
         then ([], Crashed, finalize_session e' sid ''duration_limit'' w)
         else if t - active > seconds (tr_idle_timeout_sec r)
         then ([], Crashed, finalize_session e' sid ''idle_timeout'' w)
         else (case json_parse e raw of
                 None \<Rightarrow> terminal_loop e r sid start t msgs w
               | Some (JObj m) \<Rightarrow>
                   if dget m ''type'' = JStr ''input''
                   then ([], Crashed, case handle_input e' sid (input_data m) w of None \<Rightarrow> w | Some w1 \<Rightarrow> w1)
                   else if dget m ''type'' = JStr ''resize''
                   then (let (fs, x, w1) = terminal_loop e r sid start t msgs w in (StatusFrame ''resized'' # fs, x, w1))
                   else if dget m ''type'' = JStr ''ping''
                   then (let (fs, x, w1) = terminal_loop e r sid start t msgs w in (PongFrame # fs, x, w1))
                   else terminal_loop e r sid start t msgs w
               | Some _ \<Rightarrow> ([], Crashed, w)))"

text \<open>The rules are read after the connection is accepted and outside the block that catches: a value
  that is no number ends the handler there.\<close>

definition ws_terminal ::
  "'e term_env_scheme \<Rightarrow> int \<Rightarrow> string \<Rightarrow> (time \<times> string) list \<Rightarrow> 'z term_db_scheme \<Rightarrow>
   ws_frame list \<times> ws_end \<times> 'z term_db_scheme" where
  "ws_terminal e sid token msgs w =
     (if \<not> verify_ws_token e token sid then ([], Closed 4401, w)
      else case tget (terminals w) sid of
             None \<Rightarrow> ([], Closed 4404, w)
           | Some s \<Rightarrow>
               if ts_status s \<noteq> TOpen then ([], Closed 4403, w)
               else (let start = (case ts_started_at s of None \<Rightarrow> now e | Some t \<Rightarrow> t)
                     in case term_rules w of
                          None \<Rightarrow> ([StatusFrame ''open''], Crashed, w)
                        | Some r \<Rightarrow>
                            (let (fs, x, w1) = terminal_loop e r sid start start msgs w
                             in (StatusFrame ''open'' # fs, x, w1))))"

end
