(* ===== verification/Terminal_Facts.thy ===== *)
theory Terminal_Facts
  imports Terminal_Service
begin

text \<open>
  Lemmas on the web terminal: every operation keeps the approval gate of \<open>Exec_Invariants\<close>, the step
  relation of the terminal on top of the execution domain, and that recordings only grow, with
  consecutive offsets.
\<close>

section \<open>The approval gate for sessions\<close>

lemma gate_frame:
  assumes "exec_tasks w' = exec_tasks w" "exec_task_hosts w' = exec_task_hosts w" "approvals w' = approvals w"
    "terminals w' = terminals w" "config_rules w' = config_rules w" "scripts w' = scripts w" "script_versions w' = script_versions w"
  shows "gate_ok S w' = gate_ok S w"
proof -
  have "recheck_sensitive w' t = recheck_sensitive w t" for t
    using assms by (intro recheck_cong) simp_all
  moreover have "sessions_ok w' = sessions_ok w" using assms by (intro sessions_ok_cong) simp_all
  ultimately show ?thesis
    using assms by (simp add: gate_ok_def exec_tables_ok_def biz_unique_def task_good_def linked_def granted_def harmless_def)
qed

text \<open>Adding a session, and changing one, under the gate.\<close>

lemma gate_terminals:
  assumes "gate_ok S w" and "table_ok t" and "\<And>sid s. tget t sid = Some s \<Longrightarrow> session_good w sid s"
  shows "gate_ok S (w\<lparr>terminals := t\<rparr>)"
proof -
  have "recheck_sensitive (w\<lparr>terminals := t\<rparr>) r = recheck_sensitive w r" for r
    by (rule recheck_cong) simp_all
  with assms show ?thesis
    by (simp add: gate_ok_def exec_tables_ok_def biz_unique_def task_good_def linked_def granted_def harmless_def
        sessions_ok_def session_good_def session_linked_def session_granted_def)
qed

lemma gate_sessions: "gate_ok S w \<Longrightarrow> tget (terminals w) sid = Some s \<Longrightarrow> session_good w sid s"
  by (simp add: gate_ok_def sessions_ok_def)

lemma gate_tables: "gate_ok S w \<Longrightarrow> table_ok (terminals w) \<and> table_ok (approvals w)"
  by (simp add: gate_ok_def exec_tables_ok_def)

lemma numbers_frame:
  "session_no e w = (no, w1) \<Longrightarrow> w1 = w\<lparr>no_counter := no_counter w1\<rparr>"
  "term_approval_no e w = (no, w1) \<Longrightarrow> w1 = w\<lparr>no_counter := no_counter w1\<rparr>"
  by (auto simp: session_no_def term_approval_no_def unique_no_component_def Let_def)

lemma gate_counter [simp]: "gate_ok S (w\<lparr>no_counter := f\<rparr>) = gate_ok S w"
  by (rule gate_frame) simp_all

lemma gate_chunks [simp]: "gate_ok S (w\<lparr>rec_chunks := f\<rparr>) = gate_ok S w"
  by (rule gate_frame) simp_all

lemma gate_await_session:
  assumes g: "gate_ok {} w" and new: "await_session_approval e sid u (w\<lparr>terminals := tadd s (terminals w)\<rparr>) = (Inr aid, w')"
    and sid: "sid = next_id (terminals w)"
  shows "gate_ok {} w'"
proof -
  let ?w = "w\<lparr>terminals := tadd s (terminals w)\<rparr>"
  let ?f = "\<lambda>s. s\<lparr>ts_approval_id := Some aid, ts_status := TAwaitingApproval\<rparr>"
  obtain no w1 where n: "term_approval_no e ?w = (no, w1)" by fastforce
  obtain c where w1: "w1 = ?w\<lparr>no_counter := c\<rparr>" using numbers_frame(2) [OF n] by blast
  define a where "a = terminal_approval no sid u"
  from new n obtain w2 where add: "add_approval a w1 = Inr (aid, w2)" and w': "w' = upd_terminal sid ?f w2"
    by (auto simp: await_session_approval_def a_def split: if_splits sum.splits)
  have add0: "add_approval a w = Inr (aid, w\<lparr>approvals := approvals w2\<rparr>)"
    using add by (auto simp: add_approval_def w1 split: if_splits)
  from gate_add_approval [OF g add0] have g2: "gate_ok {} (w\<lparr>approvals := approvals w2\<rparr>)"
    and a2: "tget (approvals w2) aid = Some a" by simp_all
  define t where "t = tupd sid ?f (tadd s (terminals w))"
  have w2: "w2 = (w\<lparr>approvals := approvals w2\<rparr>)\<lparr>terminals := tadd s (terminals w), no_counter := c\<rparr>"
    using add w1 by (auto simp: add_approval_def split: if_splits)
  have w'': "w' = (w\<lparr>approvals := approvals w2\<rparr>)\<lparr>terminals := t\<rparr>\<lparr>no_counter := c\<rparr>"
    unfolding w' t_def by (subst w2) (simp add: upd_terminal_def)
  have ok: "table_ok (terminals w)" using gate_tables [OF g] by simp
  have "session_good (w\<lparr>approvals := approvals w2\<rparr>) i r" if "tget t i = Some r" for i r
  proof (cases "i = sid")
    case True
    with that have "r = ?f s" by (simp add: t_def tget_tadd [OF ok] sid)
    with True a2 show ?thesis
      by (simp add: session_good_def session_linked_def session_granted_def a_def terminal_approval_def new_approval_def)
  next
    case False
    with that have "tget (terminals w) i = Some r" by (simp add: t_def tget_tadd [OF ok] sid)
    then show ?thesis using gate_sessions [OF g2] by simp
  qed
  moreover have "table_ok t" using ok by (simp add: t_def)
  ultimately show ?thesis unfolding w'' using gate_terminals [OF g2] by simp
qed

lemma gate_roll_back [simp]: "gate_ok S (roll_back w w1) = gate_ok S w"
  by (simp add: roll_back_def)

lemma gate_open_session:
  assumes "gate_ok {} w" and "open_session e u hid h w = (r, w')"
  shows "gate_ok {} w'"
proof -
  obtain no w1 where n: "session_no e w = (no, w1)" by fastforce
  have w1: "w1 = w\<lparr>no_counter := no_counter w1\<rparr>" using numbers_frame(1) [OF n] .
  have g1: "gate_ok {} w1" by (subst w1) (simp add: assms(1))
  have ok: "table_ok (terminals w1)" using gate_tables [OF g1] by simp
  have plain: "gate_ok {} (w1\<lparr>terminals := tadd (new_session e no hid (uid u) 0) (terminals w1)\<rparr>)"
    using ok gate_sessions [OF g1]
    by (intro gate_terminals [OF g1]) (auto simp: tget_tadd [OF ok] new_session_def session_good_def split: if_splits)
  show ?thesis
    using assms n plain
    by (auto simp: open_session_def Let_def split: if_splits prod.splits sum.splits intro: gate_await_session [OF g1])
qed

lemma gate_create_session:
  "gate_ok {} w \<Longrightarrow> create_session e u hid w = (r, w') \<Longrightarrow> gate_ok {} w'"
  by (auto simp: create_session_def split: if_splits sum.splits option.splits intro: gate_open_session)

lemma side_stamp_closed: "side w (upd_terminal sid (stamp_closed e reason) w)"
  by (rule side_terminal) (simp add: session_kept_def stamp_closed_def)

lemma side_put_closed: "side w (upd_terminal sid (put_terminal TClosed k) w)"
  by (rule side_terminal) (simp add: session_kept_def put_terminal_def)

lemma terminal_cas_True:
  assumes "terminal_optimistic_close sid v w = (True, w1)"
  shows "w1 = upd_terminal sid (put_terminal TClosed (v + 1)) w"
  using assms by (auto simp: terminal_optimistic_close_def cas_row_def upd_terminal_def split: if_splits)

lemma close_open_Some:
  assumes "close_open e reason sid s w = Some w'"
  shows "w' = upd_terminal sid (stamp_closed e reason) (upd_terminal sid (put_terminal TClosed (ts_version s + 1)) w)"
proof -
  obtain ok w1 where o: "terminal_optimistic_close sid (ts_version s) w = (ok, w1)" by fastforce
  with assms show ?thesis by (cases ok) (auto simp: close_open_def dest: terminal_cas_True)
qed

lemma side_close_open:
  assumes "close_open e reason sid s w = Some w'"
  shows "side w w'"
  unfolding close_open_Some [OF assms] by (rule side_trans [OF side_put_closed side_stamp_closed])

lemma side_cancel_session_approval: "side w (cancel_session_approval s w)"
  by (auto simp: cancel_session_approval_def split: option.splits intro: side_approval_cas [OF surjective_pairing])

lemma side_close_awaiting:
  "side w (upd_terminal sid (\<lambda>r. r\<lparr>ts_status := TClosed, ts_close_reason := c, ts_finished_at := x\<rparr>) w)"
  by (rule side_terminal) (simp add: session_kept_def)

lemma side_close_session: "close_session e u sid w = Inr w' \<Longrightarrow> side w w'"
  by (auto simp: close_session_def split: sum.splits if_splits option.splits
      intro: side_close_open side_trans [OF side_cancel_session_approval side_close_awaiting])

lemma side_mark_closed: "side w (mark_closed e reason sid s w)"
  by (auto simp: mark_closed_def split: option.splits intro: side_close_open)

lemma side_finalize_session: "side w (finalize_session e sid reason w)"
  by (auto simp: finalize_session_def split: option.splits intro: side_mark_closed)

lemma gate_record_output: "gate_ok S w \<Longrightarrow> gate_ok S (record_output e sid out w)"
  unfolding record_output_def
  by (auto intro!: gate_side [OF side_terminal] simp: session_kept_def)

lemma gate_handle_input: "handle_input e sid data w = Some w' \<Longrightarrow> gate_ok S w \<Longrightarrow> gate_ok S w'"
  by (auto simp: handle_input_def split: if_splits json.splits option.splits intro: gate_record_output)

text \<open>What a connection does to the database: at most one recording or one close.\<close>

lemma terminal_loop_cases:
  "\<exists>t reason data. snd (snd (terminal_loop e r sid st act msgs w)) \<in>
     {w, finalize_session (e\<lparr>now := t\<rparr>) sid reason w} \<union> set_option (handle_input (e\<lparr>now := t\<rparr>) sid data w)"
proof (induction msgs arbitrary: act)
  case Nil
  then show ?case by simp
next
  case (Cons m msgs)
  obtain t raw where m: "m = (t, raw)" by fastforce
  show ?case
  proof (cases "json_parse e raw")
    case None
    with Cons.IH [of t] show ?thesis by (auto simp: m Let_def)
  next
    case (Some j)
    show ?thesis
    proof (cases j)
      case (JObj d)
      show ?thesis
      proof (cases "dget d ''type'' = JStr ''input''")
        case True
        have "snd (snd (terminal_loop e r sid st act (m # msgs) w)) \<in>
          {w, finalize_session (e\<lparr>now := t\<rparr>) sid ''duration_limit'' w, finalize_session (e\<lparr>now := t\<rparr>) sid ''idle_timeout'' w} \<union>
            set_option (handle_input (e\<lparr>now := t\<rparr>) sid (input_data d) w)"
          by (auto simp: m Let_def Some JObj True split: option.split)
        then show ?thesis by blast
      next
        case False
        with Some JObj Cons.IH [of t] show ?thesis by (simp add: m Let_def split_beta) blast
      qed
    qed (use Some Cons.IH [of t] in \<open>auto simp: m Let_def\<close>)
  qed
qed

lemma gate_terminal_loop: "gate_ok S w \<Longrightarrow> gate_ok S (snd (snd (terminal_loop e r sid st act msgs w)))"
  using terminal_loop_cases [of e r sid st act msgs w]
  by (auto intro: gate_handle_input gate_side [OF side_finalize_session])

lemma ws_terminal_cases:
  "snd (snd (ws_terminal e sid tok msgs w)) = w \<or>
   (\<exists>r st. snd (snd (ws_terminal e sid tok msgs w)) = snd (snd (terminal_loop e r sid st st msgs w)))"
  by (auto simp: ws_terminal_def Let_def split: option.splits prod.splits) (metis snd_conv)+

lemma gate_ws_terminal: "gate_ok S w \<Longrightarrow> gate_ok S (snd (snd (ws_terminal e sid tok msgs w)))"
  using ws_terminal_cases [of e sid tok msgs w] gate_terminal_loop by metis

section \<open>Steps\<close>

text \<open>One call of the execution domain, of a terminal handler, one web-socket connection, or a restart
  of a process.\<close>

inductive term_step :: "'z term_db_scheme \<Rightarrow> 'z term_db_scheme \<Rightarrow> bool" where
  term_exec: "exec_step w w' \<Longrightarrow> term_step w w'"
| term_create: "create_session (e :: term_env) u hid w = (r, w') \<Longrightarrow> term_step w w'"
| term_close: "close_session (e :: term_env) u sid w = Inr w' \<Longrightarrow> term_step w w'"
| term_ws: "ws_terminal (e :: term_env) sid tok msgs w = (fs, x, w') \<Longrightarrow> term_step w w'"
| term_restart: "term_step w (w\<lparr>no_counter := (no_counter w)(pid := 0)\<rparr>)"

lemma gate_term_step: "term_step w w' \<Longrightarrow> gate_ok {} w \<Longrightarrow> gate_ok {} w'"
proof (induction rule: term_step.induct)
  case (term_ws e sid tok msgs w fs x w')
  then show ?case using gate_ws_terminal [of "{}" w e sid tok msgs] by simp
qed (auto intro: gate_step gate_create_session gate_side [OF side_close_session])

lemma gate_term_reach: "term_step\<^sup>*\<^sup>* w w' \<Longrightarrow> gate_ok {} w \<Longrightarrow> gate_ok {} w'"
  by (induction rule: rtranclp_induct) (auto intro: gate_term_step)

section \<open>Recordings only grow\<close>

definition rec_of :: "'z term_db_scheme \<Rightarrow> rec_chunk list" where
  "rec_of w = map snd (rows (rec_chunks w))"

lemma chunks_of_rec: "chunks_of w sid = filter (\<lambda>c. rc_session_id c = sid) (rec_of w)"
  by (simp add: chunks_of_def rec_of_def tselect_def filter_map comp_def case_prod_beta')

lemma rec_chunks_more: "exec_db.more w' = exec_db.more w \<Longrightarrow> rec_chunks w' = rec_chunks (w :: 'z term_db_scheme)"
  by (cases w; cases w') simp

lemma rec_await: "await_session_approval e sid i w = (x, w') \<Longrightarrow> rec_chunks w' = rec_chunks w"
  by (auto simp: await_session_approval_def term_approval_no_def unique_no_component_def add_approval_def upd_terminal_def Let_def
      split: if_splits sum.splits)

lemma rec_create_session: "create_session e u hid w = (r, w') \<Longrightarrow> rec_chunks w' = rec_chunks w"
  by (auto simp: create_session_def open_session_def session_no_def unique_no_component_def roll_back_def Let_def
      split: if_splits sum.splits option.splits prod.splits dest!: rec_await)

lemma rec_record_output:
  "rec_of (record_output e sid out w) = rec_of w @ (if out = [] then [] else
     [\<lparr>rc_session_id = sid, rc_offset = max_offset w sid + 1, rc_data_enc = encrypt_secret (env.truncate e) 1 out\<rparr>])"
  by (simp add: record_output_def rec_of_def tadd_def upd_terminal_def)

lemma rec_finalize: "rec_of (finalize_session e sid reason w) = rec_of w"
  using rec_chunks_more [OF more_side [OF side_finalize_session [of w e sid reason]]] by (simp add: rec_of_def)

lemma handle_input_cases: "handle_input e sid d w = Some w' \<Longrightarrow> w' = w \<or> (\<exists>data. w' = record_output e sid data w)"
  by (auto simp: handle_input_def split: if_splits json.splits option.splits)

text \<open>A connection leaves the recordings as they are or adds one chunk to its own.\<close>

lemma rec_terminal_loop:
  fixes e :: "'e term_env_scheme"
  shows "\<exists>(e' :: 'e term_env_scheme) data. rec_of (snd (snd (terminal_loop e r sid st st msgs w))) \<in> {rec_of w, rec_of (record_output e' sid data w)}"
proof -
  let ?w = "snd (snd (terminal_loop e r sid st st msgs w))"
  obtain t reason data where c: "?w \<in>
      {w, finalize_session (e\<lparr>now := t\<rparr>) sid reason w} \<union> set_option (handle_input (e\<lparr>now := t\<rparr>) sid data w)"
    using terminal_loop_cases [of e r sid st st msgs w] by (elim exE)
  consider "?w = w" | "?w = finalize_session (e\<lparr>now := t\<rparr>) sid reason w" | "handle_input (e\<lparr>now := t\<rparr>) sid data w = Some ?w"
    using c unfolding Un_iff insert_iff empty_iff elem_set by blast
  then show ?thesis
  proof cases
    case 3
    from handle_input_cases [OF this] show ?thesis
    proof (elim disjE exE)
      fix data' assume "?w = record_output (e\<lparr>now := t\<rparr>) sid data' w"
      then have "rec_of ?w \<in> {rec_of w, rec_of (record_output (e\<lparr>now := t\<rparr>) sid data' w)}" by simp
      then show ?thesis by (intro exI)
    qed simp
  qed (simp_all add: rec_finalize)
qed

lemma rec_ws_terminal:
  fixes e :: "'e term_env_scheme"
  shows "\<exists>(e' :: 'e term_env_scheme) data. rec_of (snd (snd (ws_terminal e sid tok msgs w))) \<in> {rec_of w, rec_of (record_output e' sid data w)}"
  using ws_terminal_cases [of e sid tok msgs w] by (elim disjE exE) (simp_all only: rec_terminal_loop, simp)

lemma rec_term_step:
  assumes "term_step w w'"
  shows "rec_of w' = rec_of w \<or> (\<exists>(e :: term_env) sid data. rec_of w' = rec_of (record_output e sid data w))"
  using assms
proof cases
  case term_exec
  from rec_chunks_more [OF more_step [OF this]] show ?thesis by (simp add: rec_of_def)
next
  case (term_create e u hid r)
  then show ?thesis using rec_create_session by (fastforce simp: rec_of_def)
next
  case (term_close e u sid)
  then show ?thesis using rec_chunks_more [OF more_side [OF side_close_session]] by (fastforce simp: rec_of_def)
next
  case (term_ws e sid tok msgs fs x)
  then show ?thesis using rec_ws_terminal [of e sid tok msgs w] by auto
qed (simp add: rec_of_def)

interpretation recordings: append_only term_step rec_of
proof unfold_locales
  fix w w' :: "'a term_db_scheme" assume "term_step w w'"
  from rec_term_step [OF this] show "\<exists>new. rec_of w' = rec_of w @ new"
    by (auto simp: rec_record_output)
qed

text \<open>The offsets of a recording are 1, 2, and so on, in the order of the chunks.\<close>

definition rec_ok :: "rec_chunk list \<Rightarrow> bool" where
  "rec_ok cs = (\<forall>sid. map rc_offset (filter (\<lambda>c. rc_session_id c = sid) cs) = map int [1..<Suc (length (filter (\<lambda>c. rc_session_id c = sid) cs))])"

lemma fold_max_upt: "fold max (map int [Suc 0..<Suc n]) 0 = int n"
proof (induction n)
  case (Suc n)
  have "map int [Suc 0..<Suc (Suc n)] = map int [Suc 0..<Suc n] @ [int (Suc n)]" by simp
  then show ?case using Suc by (simp del: upt_Suc)
qed simp

lemma max_offset_ok: "rec_ok (rec_of w) \<Longrightarrow> max_offset w sid = int (length (chunks_of w sid))"
  by (simp add: max_offset_def chunks_of_rec rec_ok_def fold_max_upt del: upt_Suc)

lemma rec_ok_record: "rec_ok (rec_of w) \<Longrightarrow> rec_ok (rec_of (record_output e sid out w))"
  by (simp add: rec_record_output max_offset_ok chunks_of_rec) (auto simp: rec_ok_def)

lemma rec_ok_reach: "term_step\<^sup>*\<^sup>* w w' \<Longrightarrow> rec_ok (rec_of w) \<Longrightarrow> rec_ok (rec_of w')"
proof (induction rule: rtranclp_induct)
  case (step w1 w2)
  with rec_term_step [of w1 w2] rec_ok_record show ?case by metis
qed simp

lemma after_offset_ok:
  assumes "rec_ok (rec_of w)"
  shows "after_offset w sid (int k) sz = take (nat sz) (drop k (chunks_of w sid))"
proof -
  let ?cs = "chunks_of w sid"
  have offs: "map rc_offset ?cs = map int [1..<Suc (length ?cs)]"
    using assms by (simp add: rec_ok_def chunks_of_rec del: upt_Suc)
  then have nth: "rc_offset (?cs ! i) = int (Suc i)" if "i < length ?cs" for i
    using that by (metis (no_types, lifting) add.commute diff_Suc_1 length_map length_upt nth_map nth_upt plus_1_eq_Suc add_less_cancel_right Suc_eq_plus1 )
  have "filter (\<lambda>c. rc_offset c > int k) (take k ?cs) = []"
    by (auto simp: filter_empty_conv in_set_conv_nth nth)
  moreover have "filter (\<lambda>c. rc_offset c > int k) (drop k ?cs) = drop k ?cs"
    by (auto simp: filter_id_conv in_set_conv_nth nth)
  ultimately have f: "filter (\<lambda>c. rc_offset c > int k) ?cs = drop k ?cs"
    by (metis append_Nil append_take_drop_id filter_append)
  have "sorted (map rc_offset (drop k ?cs))"
    by (auto simp: sorted_iff_nth_mono nth)
  then show ?thesis by (simp add: after_offset_def f sort_key_id_if_sorted)
qed

lemma chunks_fold_record:
  assumes "\<forall>x \<in> set xs. x \<noteq> []" and "rec_ok (rec_of w)"
  shows "chunks_of (fold (record_output e sid) xs w) sid = chunks_of w sid @
    map (\<lambda>(i, x). \<lparr>rc_session_id = sid, rc_offset = int (length (chunks_of w sid) + i), rc_data_enc = encrypt_secret (env.truncate e) 1 x\<rparr>)
      (enumerate 1 xs)"
  using assms
proof (induction xs arbitrary: w)
  case (Cons x xs)
  let ?w = "record_output e sid x w"
  have c: "chunks_of ?w sid = chunks_of w sid @ [\<lparr>rc_session_id = sid, rc_offset = int (length (chunks_of w sid)) + 1, rc_data_enc = encrypt_secret (env.truncate e) 1 x\<rparr>]"
    using Cons.prems max_offset_ok [of w sid] by (simp add: chunks_of_rec [of ?w] rec_record_output) (simp add: chunks_of_rec)
  have "enumerate (Suc n) ys = map (\<lambda>(i, y). (Suc i, y)) (enumerate n ys)" for n and ys :: "string list"
    by (induction ys arbitrary: n) auto
  with Cons.IH [of ?w] Cons.prems rec_ok_record [of w e sid x] show ?case
    by (simp add: c add.commute case_prod_beta' comp_def)
qed simp

end
