(* ===== verification/Terminal_Properties.thy ===== *)
theory Terminal_Properties
  imports Terminal_Facts Samples
begin

text \<open>The properties of the web terminal, each with a witness on a small installation.\<close>

section \<open>A small installation\<close>

definition term_sample_env :: term_env where
  "term_sample_env = \<lparr>now = 1000000, today = ''20250101'', redis_up = True, broker_up = True, ssh_available = False,
     agent_reachable = (\<lambda>_. False), agent_online = (\<lambda>_. False), fromisoformat = (\<lambda>_. None), float_of_str = (\<lambda>_. None),
     float_repr = (\<lambda>_. []), new_jti = ''jti'', jwt_encode = (\<lambda>_. ''token''),
     jwt_decode = (\<lambda>t. Some [(''type'', JStr ''ws_terminal''), (''sub'', JStr ''1'')]), seal = (\<lambda>s. s), unseal = Some,
     getpid = 7, json_parse = (\<lambda>s. if s = ''ping'' then Some (JObj [(''type'', JStr ''ping'')])
       else Some (JObj [(''type'', JStr ''input''), (''data'', JStr s)]))\<rparr>"

definition term_sample_db :: term_db where
  "term_sample_db = \<lparr>config_rules = [], hosts = Table [(1, sample_host), (2, sample_host\<lparr>h_sensitivity_level := ''sensitive''\<rparr>)] 2,
     scripts = empty_table, script_versions = empty_table, exec_tasks = empty_table, exec_task_hosts = empty_table,
     exec_logs = empty_table, approvals = empty_table, approval_records = empty_table, terminals = empty_table,
     auto_levels = empty_table, policies = empty_table, whitelist = empty_table, breakers = empty_table,
     ai_actions = empty_table, seq_exec_no = 0, seq_approval_no = 0, sems = (\<lambda>_. 0), outbox = [],
     rec_chunks = empty_table, no_counter = (\<lambda>_. 0)\<rparr>"

definition term_waiting :: term_db where
  "term_waiting = snd (create_session term_sample_env sample_user 2 term_sample_db)"

definition term_approved :: term_db where
  "term_approved = after (approve (env.truncate term_sample_env) sample_user 1 [] term_waiting) term_waiting"

definition term_plain :: term_db where
  "term_plain = snd (create_session term_sample_env sample_user 1 term_sample_db)"

definition plain_admin :: current_user where
  "plain_admin = sample_user\<lparr>uid := 9\<rparr>"

section \<open>Properties\<close>

text \<open>C10: whatever sequence of calls, connections and restarts led from a fresh installation to a state,
  a session on a sensitive host is open there only if it belongs to an approved request of its own.\<close>

theorem sensitive_session_gated:
  assumes "fresh_install w" and "term_step\<^sup>*\<^sup>* w w'" and "tget (terminals w') sid = Some s"
    and "ts_sensitive s \<noteq> 0" and "ts_status s = TOpen"
  shows "\<exists>aid a. ts_approval_id s = Some aid \<and> tget (approvals w') aid = Some a \<and> ap_biz_type a = ''terminal'' \<and>
    ap_biz_id a = sid \<and> ap_status a = AApproved"
proof -
  have "gate_ok {} w'" using gate_term_reach [OF assms(2) fresh_gate [OF assms(1)]] .
  then have "session_good w' sid s" using assms(3) by (rule gate_sessions)
  then show ?thesis
    using assms(4,5) by (auto simp: session_good_def session_linked_def session_granted_def)
qed

lemma term_sample_fresh: "fresh_install term_sample_db"
  by (simp add: fresh_install_def term_sample_db_def)

lemma term_sample_reach: "term_step\<^sup>*\<^sup>* term_sample_db term_approved"
proof -
  have 1: "term_step term_sample_db term_waiting"
    unfolding term_waiting_def by (rule term_create [OF surjective_pairing])
  have "isl (approve (env.truncate term_sample_env) sample_user 1 [] term_waiting) = False" by code_simp
  then obtain st where "approve (env.truncate term_sample_env) sample_user 1 [] term_waiting = Inr (st, term_approved)"
    by (cases "approve (env.truncate term_sample_env) sample_user 1 [] term_waiting") (auto simp: term_approved_def after_def)
  then have "term_step term_waiting term_approved" by (intro term_exec step_approve)
  with 1 show ?thesis by (meson rtranclp.rtrancl_into_rtrancl r_into_rtranclp)
qed

theorem sensitive_session_gated_witness:
  "\<exists>s aid a. tget (terminals term_approved) 1 = Some s \<and> ts_status s = TOpen \<and> ts_approval_id s = Some aid \<and>
     tget (approvals term_approved) aid = Some a \<and> ap_status a = AApproved"
proof -
  let ?s = "the (tget (terminals term_approved) 1)"
  have s: "tget (terminals term_approved) 1 = Some ?s" "ts_sensitive ?s = 1" "ts_status ?s = TOpen" by code_simp+
  then have "ts_sensitive ?s \<noteq> 0" by simp
  from sensitive_session_gated [OF term_sample_fresh term_sample_reach s(1) this s(3)] s show ?thesis by blast
qed

lemma tselect_new:
  assumes "table_ok t"
  shows "length (tselect P (tupd (next_id t) f (tadd r t))) \<le> Suc (length (tselect P t))"
    and "length (tselect P (tadd r t)) \<le> Suc (length (tselect P t))"
proof -
  have "map (\<lambda>(j, x). (j, if j = next_id t then f x else x)) (rows t) = rows t"
    using assms by (intro map_idI) (auto simp: table_ok_def next_id_def)
  then have "rows (tupd (next_id t) f (tadd r t)) = rows t @ [(next_id t, f r)]"
    by (simp add: tupd_def tadd_def)
  then show "length (tselect P (tupd (next_id t) f (tadd r t))) \<le> Suc (length (tselect P t))"
    by (simp add: tselect_def)
qed (simp add: tselect_def tadd_def)

lemma open_session_adds_one:
  assumes "table_ok (terminals w)" and "open_session e u hid h w = (Inr s, w')"
  shows "length (tselect P (terminals w')) \<le> Suc (length (tselect P (terminals w)))"
proof -
  have "terminals v' = tupd sid (\<lambda>s. s\<lparr>ts_approval_id := Some aid, ts_status := TAwaitingApproval\<rparr>) (terminals v)"
    if "await_session_approval e sid i v = (Inr aid, v')" for sid i aid and v v' :: "'a term_db_scheme"
    using that by (auto simp: await_session_approval_def term_approval_no_def unique_no_component_def add_approval_def upd_terminal_def Let_def
        split: if_splits sum.splits)
  note await = this
  show ?thesis
    using assms tselect_new [OF assms(1)]
    by (auto simp: open_session_def session_no_def unique_no_component_def Let_def
        split: if_splits prod.splits sum.splits dest!: await)
qed

text \<open>A request that would exceed the configured number of sessions of its user or of everybody is
  refused with 429 and changes nothing; after an accepted one both numbers are within their limits.\<close>

lemma session_limits:
  assumes "has_perm u ''terminal:create''" and "host_visible u hid (tget (hosts w) hid) = Inr h" and "term_rules w = Some r"
    and "table_ok (terminals w)"
  shows "if count_open_by_user w (uid u) \<ge> tr_user_limit r \<or> count_open_global w \<ge> tr_global_limit r
    then \<exists>m. create_session e u hid w = (Inl (RateLimitError m), w)
    else \<forall>s w'. create_session e u hid w = (Inr s, w') \<longrightarrow>
      count_open_by_user w' (uid u) \<le> tr_user_limit r \<and> count_open_global w' \<le> tr_global_limit r"
proof -
  have "count_open_by_user w' (uid u) \<le> count_open_by_user w (uid u) + 1" "count_open_global w' \<le> count_open_global w + 1"
    if "open_session e u hid h w = (Inr s, w')" for s w'
    using open_session_adds_one [OF assms(4) that, of "\<lambda>s. ts_user_id s = uid u \<and> session_live s"]
      open_session_adds_one [OF assms(4) that, of session_live]
    by (simp_all add: count_open_by_user_def count_open_global_def)
  with assms show ?thesis by (fastforce simp: create_session_def)
qed

lemma session_limits_witness:
  "(\<exists>m. create_session term_sample_env sample_user 2 term_plain = (Inl (RateLimitError m), term_plain)) \<and>
   (\<forall>s w'. create_session term_sample_env sample_user 1 term_sample_db = (Inr s, w') \<longrightarrow>
      count_open_by_user w' 7 \<le> 1 \<and> count_open_global w' \<le> 100)"
proof -
  define r where "r = \<lparr>tr_user_limit = 1, tr_global_limit = 100, tr_idle_timeout_sec = 1800, tr_duration_limit_sec = 14400, tr_retention_days = 30\<rparr>"
  have p: "has_perm sample_user ''terminal:create''" "host_visible sample_user 2 (tget (hosts term_plain) 2) = Inr (sample_host\<lparr>h_sensitivity_level := ''sensitive''\<rparr>)"
    "host_visible sample_user 1 (tget (hosts term_sample_db) 1) = Inr sample_host"
    "table_ok (terminals term_plain)" "table_ok (terminals term_sample_db)" "count_open_by_user term_plain (uid sample_user) \<ge> 1"
    "\<not> count_open_by_user term_sample_db (uid sample_user) \<ge> 1" "\<not> count_open_global term_sample_db \<ge> 100"
    by code_simp+
  have r: "term_rules term_plain = Some r" "term_rules term_sample_db = Some r" unfolding r_def by code_simp+
  show ?thesis
    using session_limits [OF p(1,2) r(1) p(4), of term_sample_env] session_limits [OF p(1,3) r(2) p(5), of term_sample_env] p(6-8)
    by (simp add: r_def sample_user_def)
qed

text \<open>C32: output that is recorded is replayed: from the end of the recording so far, a replay gives the new
  outputs in their order with consecutive offsets, a page at a time; it announces more whenever the page is full.\<close>

theorem recording_replayed:
  assumes "rec_chunks w0 = empty_table" and "term_step\<^sup>*\<^sup>* w0 w" and "\<forall>x \<in> set xs. x \<noteq> []"
    and "\<And>x. unseal e (seal e x) = Some x" and "w' = fold (record_output e sid) xs w" and "n = length (chunks_of w sid)"
    and "session_guard ''terminal:replay'' u sid w' = Inr s" and "term_rules w' = Some r"
    and "ts_started_at s = Some t" and "now e - t \<le> days (tr_retention_days r)"
  shows "replay_recording e u sid (int (n + k)) (int m) w' = Inr
    \<lparr>rp_size = int (min m (length xs - k)), rp_has_more = (k < length xs \<and> k + m \<le> length xs),
     rp_chunks = take m (drop k (zip (map (\<lambda>i. int (n + i)) [1..<Suc (length xs)]) xs))\<rparr>"
proof -
  have ok: "rec_ok (rec_of w)"
    using rec_ok_reach [OF assms(2)] assms(1) by (simp add: rec_ok_def rec_of_def empty_table_def)
  have "rec_ok (rec_of (fold (record_output e sid) ys v))" if "rec_ok (rec_of v)" for ys v
    using that by (induction ys arbitrary: v) (simp_all add: rec_ok_record)
  then have ok': "rec_ok (rec_of w')" using ok by (simp add: assms(5))
  define cs where "cs = map (\<lambda>(i, x). \<lparr>rc_session_id = sid, rc_offset = int (n + i), rc_data_enc = encrypt_secret (env.truncate e) 1 x\<rparr>) (enumerate 1 xs)"
  have chunks: "chunks_of w' sid = chunks_of w sid @ cs"
    using chunks_fold_record [OF assms(3) ok, of e sid] by (simp add: assms(5,6) cs_def)
  have "chunk_text e \<lparr>rc_session_id = sid, rc_offset = i, rc_data_enc = encrypt_secret (env.truncate e) 1 x\<rparr> = x" for i x
    using assms(4) by (simp add: chunk_text_def decrypt_encrypt env.defs)
  then have texts: "map (\<lambda>c. (rc_offset c, chunk_text e c)) cs = zip (map (\<lambda>i. int (n + i)) [1..<Suc (length xs)]) xs"
    by (simp add: cs_def comp_def case_prod_beta' enumerate_eq_zip zip_map1 del: upt_Suc)
  have ao: "after_offset w' sid (int (n + k)) (int m) = take m (drop k cs)"
    using after_offset_ok [OF ok', of sid "n + k" "int m"] by (simp add: chunks assms(6))
  have len: "length cs = length xs" by (simp add: cs_def)
  have "max_offset w' sid = int (n + length xs)" using max_offset_ok [OF ok', of sid] by (simp add: chunks len assms(6))
  then have more: "(int n + int k < max_offset w' sid \<and> min m (length xs - k) = m) = (k < length xs \<and> k + m \<le> length xs)"
    by auto
  have size: "length (take m (drop k cs)) = min m (length xs - k)" by (simp add: len)
  show ?thesis
    using assms(7-10) unfolding replay_recording_def Let_def ao texts [symmetric] size take_map drop_map by (simp add: more)
qed

theorem recording_replayed_witness:
  "replay_recording term_sample_env sample_user 1 0 1 (fold (record_output term_sample_env 1) [''ls'', ''pwd''] term_plain) =
     Inr \<lparr>rp_size = 1, rp_has_more = True, rp_chunks = [(1, ''ls'')]\<rparr>"
proof -
  let ?w = "fold (record_output term_sample_env 1) [''ls'', ''pwd''] term_plain"
  let ?s = "the (tget (terminals ?w) 1)"
  define r where "r = \<lparr>tr_user_limit = 1, tr_global_limit = 100, tr_idle_timeout_sec = 1800, tr_duration_limit_sec = 14400, tr_retention_days = 30\<rparr>"
  have 1: "rec_chunks term_sample_db = empty_table" by (simp add: term_sample_db_def)
  have 2: "term_step\<^sup>*\<^sup>* term_sample_db term_plain"
    unfolding term_plain_def by (intro r_into_rtranclp term_create [OF surjective_pairing])
  have 4: "unseal term_sample_env (seal term_sample_env x) = Some x" for x by (simp add: term_sample_env_def)
  have 6: "0 = length (chunks_of term_plain 1)" "session_guard ''terminal:replay'' sample_user 1 ?w = Inr ?s"
    "ts_started_at ?s = Some 1000000" by code_simp+
  have 7: "term_rules ?w = Some r" "now term_sample_env - 1000000 \<le> days (tr_retention_days r)" unfolding r_def by code_simp+
  show ?thesis
    using recording_replayed [OF 1 2 _ 4 refl 6(1) 6(2) 7(1) 6(3) 7(2), of 0 1] by simp
qed

text \<open>What the loop does with the first input message: nothing after it is read, nothing is echoed.\<close>

lemma loop_stops_at_input:
  assumes "json_parse e raw = Some (JObj m)" and "dget m ''type'' = JStr ''input''"
  shows "terminal_loop e r sid st act (pre @ (t, raw) # post) w = terminal_loop e r sid st act (pre @ [(t, raw)]) w"
  by (induction pre arbitrary: act) (auto simp: assms Let_def split: option.split json.split)

lemma loop_never_echoes: "OutputFrame d \<notin> set (fst (terminal_loop e r sid st act msgs w))"
  by (induction msgs arbitrary: act) (auto simp: Let_def split_beta split: if_split_asm option.split_asm json.split_asm)

text \<open>The web socket ends at the first input message: whatever the client sends after it is not
  handled, and input is never echoed, because the result of the recording is awaited although it is
  no coroutine.\<close>

lemma terminal_stops_at_input:
  assumes "json_parse e raw = Some (JObj m)" and "dget m ''type'' = JStr ''input''"
  shows "ws_terminal e sid tok (pre @ (t, raw) # post) w = ws_terminal e sid tok (pre @ [(t, raw)]) w \<and>
    OutputFrame d \<notin> set (fst (ws_terminal e sid tok (pre @ (t, raw) # post) w))"
proof -
  have "OutputFrame d \<notin> set (fst (ws_terminal e sid tok msgs w))" for msgs
    using loop_never_echoes [of d e _ sid _ _ msgs w] by (simp add: ws_terminal_def Let_def split_beta split: option.split)
  moreover have "ws_terminal e sid tok (pre @ (t, raw) # post) w = ws_terminal e sid tok (pre @ [(t, raw)]) w"
    unfolding ws_terminal_def loop_stops_at_input [OF assms, where post = post] by (rule refl)
  ultimately show ?thesis by blast
qed

lemma terminal_stops_at_input_witness:
  "ws_terminal term_sample_env 1 ''token'' [(1000000, ''ping''), (1000000, ''ls''), (1000000, ''ping'')] term_plain =
     ws_terminal term_sample_env 1 ''token'' [(1000000, ''ping''), (1000000, ''ls'')] term_plain \<and>
   fst (ws_terminal term_sample_env 1 ''token'' [(1000000, ''ping''), (1000000, ''ls''), (1000000, ''ping'')] term_plain) =
     [StatusFrame ''open'', PongFrame]"
proof -
  have j: "json_parse term_sample_env ''ls'' = Some (JObj [(''type'', JStr ''input''), (''data'', JStr ''ls'')])"
    by (simp add: term_sample_env_def)
  have "fst (ws_terminal term_sample_env 1 ''token'' [(1000000, ''ping''), (1000000, ''ls''), (1000000, ''ping'')] term_plain) =
     [StatusFrame ''open'', PongFrame]" by code_simp
  then show ?thesis
    using terminal_stops_at_input [OF j, of 1 "''token''" "[(1000000, ''ping'')]" 1000000 "[(1000000, ''ping'')]" term_plain "JNull"]
    by (simp add: dget_def)
qed

section \<open>Findings\<close>

text \<open>An approval of a task takes the number of a session on a sensitive host: the request for the session
  fails although nothing is wrong with it.\<close>

lemma session_blocked_by_task_approval:
  assumes "has_perm u ''terminal:create''" and "host_visible u hid (tget (hosts w) hid) = Inr h" and "term_rules w = Some r"
    and "count_open_by_user w (uid u) < tr_user_limit r" and "count_open_global w < tr_global_limit r"
    and "h_sensitivity_level h = ''sensitive''" and "tget (approvals w) aid = Some a" and "ap_biz_id a = next_id (terminals w)"
  shows "\<exists>m w'. create_session e u hid w = (Inl (IntegrityError m), w')"
proof -
  have "texists (\<lambda>r. ap_biz_id r = next_id (terminals w)) (approvals w)"
    using assms(7,8) tget_SomeD by (fastforce simp: texists_def)
  with assms show ?thesis
    by (auto simp: create_session_def open_session_def await_session_approval_def session_no_def term_approval_no_def
        unique_no_component_def add_approval_def terminal_approval_def new_approval_def Let_def)
qed

text \<open>A process that comes back with the same id on the same day counts from one again: its first session
  has the number of an old one.\<close>

lemma restart_repeats_number:
  "fst (create_session term_sample_env plain_admin 1 (term_plain\<lparr>no_counter := (no_counter term_plain)(7 := 0)\<rparr>)) =
     Inl (IntegrityError ''terminal_session.session_no'')"
  by code_simp

end
