(* ===== verification/Transfer_Paths.thy ===== *)
theory Transfer_Paths
  imports Exec_Dispatch "HOL-Library.Sublist"
begin

text \<open>
  Paths of the file transfer: \<open>posixpath.normpath\<close>, the containment check for pull sources and the
  store-safe names of uploaded files (\<open>path_within_whitelist\<close> and \<open>_safe_rel_path\<close> of
  \<open>transfer_service.py\<close>), with the meaning of a path as a list of components to compare them with.
\<close>

section \<open>Splitting and normalising\<close>

text \<open>\<open>s.split("/")\<close>\<close>

fun split_slash :: "string \<Rightarrow> string list" where
  "split_slash [] = [[]]"
| "split_slash (c # cs) =
     (if c = CHR ''/'' then [] # split_slash cs
      else case split_slash cs of [] \<Rightarrow> [[c]] | x # xs \<Rightarrow> (c # x) # xs)"

definition starts :: "string \<Rightarrow> string \<Rightarrow> bool" where
  "starts p s = (take (length p) s = p)"

definition initial_slashes :: "string \<Rightarrow> nat" where
  "initial_slashes s = (if \<not> starts ''/'' s then 0 else if starts ''//'' s \<and> \<not> starts ''///'' s then 2 else 1)"

text \<open>One component after the other; the components kept so far are a stack.\<close>

definition norm_comp :: "bool \<Rightarrow> string \<Rightarrow> string list \<Rightarrow> string list" where
  "norm_comp absolute c st =
     (if c = [] \<or> c = ''.'' then st
      else if c \<noteq> ''..'' \<or> (\<not> absolute \<and> st = []) \<or> (st \<noteq> [] \<and> hd st = ''..'') then c # st
      else tl st)"

definition normpath :: "string \<Rightarrow> string" where
  "normpath s =
     (if s = [] then ''.''
      else (let k = initial_slashes s;
                p = replicate k CHR ''/'' @ join ''/'' (rev (fold (norm_comp (k \<noteq> 0)) (split_slash s) []))
            in if p = [] then ''.'' else p))"

definition rstrip_slash :: "string \<Rightarrow> string" where
  "rstrip_slash s = rev (dropWhile (\<lambda>c. c = CHR ''/'') (rev s))"

definition path_within_whitelist :: "string \<Rightarrow> string list \<Rightarrow> bool" where
  "path_within_whitelist path wl =
     (if path = [] \<or> \<not> starts ''/'' path then False
      else (let p = normpath path
            in if p = ''/'' \<or> (\<exists>seg \<in> set (split_slash p). seg = ''..'' \<or> seg = ''.'') then False
               else (\<exists>w \<in> set wl. (let base = normpath w
                       in starts ''/'' base \<and> (p = base \<or> starts (rstrip_slash base @ ''/'') p)))))"

definition safe_rel_path :: "string \<Rightarrow> string res" where
  "safe_rel_path name =
     (let n = dropWhile (\<lambda>c. c = CHR ''/'') (str_replace (if name = [] then ''file'' else name) [CHR 0x5C] ''/'');
          parts = filter (\<lambda>p. p \<noteq> [] \<and> p \<noteq> ''.'') (split_slash n)
      in if ''..'' \<in> set parts \<or> parts = [] then Inl (BadRequestError ''invalid file path in upload'')
         else Inr (join ''/'' parts))"

section \<open>The meaning of a path\<close>

text \<open>The components an absolute path leads through: empty ones and \<open>.\<close> are nothing, \<open>..\<close> goes back one
  and stays at the root.\<close>

definition go :: "string \<Rightarrow> string list \<Rightarrow> string list" where
  "go c here = (if c = [] \<or> c = ''.'' then here else if c = ''..'' then butlast here else here @ [c])"

fun walk :: "string list \<Rightarrow> string list \<Rightarrow> string list" where
  "walk [] here = here"
| "walk (c # cs) here = walk cs (go c here)"

definition comps_of :: "string \<Rightarrow> string list" where
  "comps_of s = walk (split_slash s) []"

text \<open>A name that can stand between slashes and is no step.\<close>

definition plain_comp :: "string \<Rightarrow> bool" where
  "plain_comp c = (c \<noteq> [] \<and> c \<noteq> ''.'' \<and> c \<noteq> ''..'' \<and> CHR ''/'' \<notin> set c)"

lemma split_slash_comps: "c \<in> set (split_slash s) \<Longrightarrow> CHR ''/'' \<notin> set c"
proof (induction s arbitrary: c)
  case (Cons x s)
  then show ?case by (cases "split_slash s") (auto split: if_splits)
qed simp

lemma split_slash_nonempty: "split_slash s \<noteq> []"
  by (cases s) (auto split: list.splits)

lemma split_slash_append: "CHR ''/'' \<notin> set x \<Longrightarrow> split_slash (x @ CHR ''/'' # s) = x # split_slash s"
  by (induction x) auto

lemma split_slash_plain: "CHR ''/'' \<notin> set x \<Longrightarrow> split_slash x = [x]"
  by (induction x) auto

lemma split_join:
  assumes "xs \<noteq> []" and "\<forall>x \<in> set xs. CHR ''/'' \<notin> set x"
  shows "split_slash (join ''/'' xs) = xs"
  using assms
proof (induction xs)
  case (Cons x xs)
  then show ?case by (cases xs) (simp_all add: split_slash_plain split_slash_append)
qed simp

lemma go_plain: "\<forall>x \<in> set here. plain_comp x \<Longrightarrow> CHR ''/'' \<notin> set c \<Longrightarrow> x \<in> set (go c here) \<Longrightarrow> plain_comp x"
  by (auto simp: go_def plain_comp_def split: if_splits dest: in_set_butlastD)

lemma walk_plain: "\<forall>c \<in> set here. plain_comp c \<Longrightarrow> \<forall>c \<in> set cs. CHR ''/'' \<notin> set c \<Longrightarrow> c \<in> set (walk cs here) \<Longrightarrow> plain_comp c"
proof (induction cs arbitrary: here)
  case (Cons x cs)
  have "\<forall>c \<in> set (go x here). plain_comp c" using go_plain [OF Cons.prems(1), of x] Cons.prems(2) by simp
  with Cons.IH [OF this] Cons.prems show ?case by simp
qed simp

lemma comps_of_plain: "c \<in> set (comps_of s) \<Longrightarrow> plain_comp c"
  using walk_plain [of "[]" "split_slash s"] split_slash_comps by (simp add: comps_of_def)

text \<open>On an absolute path the stack of \<open>normpath\<close> is the walk.\<close>

lemma norm_comp_go:
  assumes "\<forall>x \<in> set here. plain_comp x"
  shows "norm_comp True c (rev here) = rev (go c here)"
proof (cases here rule: rev_cases)
  case Nil
  then show ?thesis by (simp add: norm_comp_def go_def)
next
  case (snoc xs x)
  then have "x \<noteq> ''..''" using assms by (auto simp: plain_comp_def)
  with snoc show ?thesis by (simp add: norm_comp_def go_def)
qed

lemma norm_fold:
  assumes "\<forall>c \<in> set here. plain_comp c" and "\<forall>c \<in> set cs. CHR ''/'' \<notin> set c"
  shows "fold (norm_comp True) cs (rev here) = rev (walk cs here)"
  using assms
proof (induction cs arbitrary: here)
  case (Cons x cs)
  have "\<forall>c \<in> set (go x here). plain_comp c" using go_plain [OF Cons.prems(1), of x] Cons.prems(2) by simp
  with Cons.IH [OF this] Cons.prems show ?case by (simp add: norm_comp_go)
qed simp

lemma norm_absolute:
  assumes "starts ''/'' s"
  shows "normpath s = replicate (initial_slashes s) CHR ''/'' @ join ''/'' (comps_of s)"
proof -
  have "fold (norm_comp True) (split_slash s) [] = rev (comps_of s)"
    using norm_fold [of "[]" "split_slash s"] split_slash_comps by (simp add: comps_of_def)
  moreover have "s \<noteq> []" "initial_slashes s \<noteq> 0" using assms by (auto simp: starts_def initial_slashes_def)
  ultimately show ?thesis by (simp add: normpath_def Let_def)
qed

lemma starts_slash: "starts ''/'' s \<longleftrightarrow> (\<exists>t. s = CHR ''/'' # t)"
  by (cases s) (auto simp: starts_def)

lemma join_relative: "\<forall>c \<in> set xs. c \<noteq> [] \<and> CHR ''/'' \<notin> set c \<Longrightarrow> \<not> starts ''/'' (join ''/'' xs)"
  by (cases xs; cases "tl xs") (auto simp: starts_slash neq_Nil_conv)

lemma norm_comps_clean:
  assumes "\<forall>c \<in> set st. c \<noteq> [] \<and> CHR ''/'' \<notin> set c" and "\<forall>c \<in> set cs. CHR ''/'' \<notin> set c"
  shows "\<forall>c \<in> set (fold (norm_comp a) cs st). c \<noteq> [] \<and> CHR ''/'' \<notin> set c"
  using assms
proof (induction cs arbitrary: st)
  case (Cons x cs)
  have "set (norm_comp a x st) \<subseteq> (if x = [] then set st else insert x (set st))"
    by (cases st) (auto simp: norm_comp_def)
  with Cons.prems have "\<forall>c \<in> set (norm_comp a x st). c \<noteq> [] \<and> CHR ''/'' \<notin> set c" by (auto split: if_splits)
  with Cons.IH [OF this] Cons.prems show ?case by simp
qed simp

lemma norm_relative:
  assumes "\<not> starts ''/'' s"
  shows "\<not> starts ''/'' (normpath s)"
proof -
  define xs where "xs = fold (norm_comp False) (split_slash s) []"
  have "\<not> starts ''/'' (join ''/'' (rev xs))"
    unfolding xs_def using norm_comps_clean [of "[]" "split_slash s" False] split_slash_comps by (intro join_relative) auto
  moreover have "\<not> starts ''/'' ''.''" by (simp add: starts_def)
  ultimately show ?thesis using assms by (simp add: normpath_def initial_slashes_def xs_def Let_def)
qed

section \<open>The check is exact\<close>

lemma starts_append: "starts p s \<longleftrightarrow> (\<exists>t. s = p @ t)"
  by (auto simp: starts_def) (metis append_take_drop_id)

lemma join_append: "xs \<noteq> [] \<Longrightarrow> ys \<noteq> [] \<Longrightarrow> join ''/'' (xs @ ys) = join ''/'' xs @ ''/'' @ join ''/'' ys"
proof (induction xs)
  case (Cons x xs)
  then show ?case by (cases xs; cases ys) simp_all
qed simp

text \<open>Text containment at a slash is containment of the lists of components.\<close>

lemma join_starts_iff:
  assumes "xs \<noteq> []" and "\<forall>c \<in> set xs. plain_comp c" and "\<forall>c \<in> set ys. plain_comp c"
  shows "starts (join ''/'' xs @ ''/'') (join ''/'' ys) \<longleftrightarrow> strict_prefix xs ys"
proof
  assume "strict_prefix xs ys"
  then obtain zs where "ys = xs @ zs" "zs \<noteq> []" by (auto simp: strict_prefix_def prefix_def)
  with assms(1) show "starts (join ''/'' xs @ ''/'') (join ''/'' ys)" by (auto simp: starts_append join_append)
next
  assume "starts (join ''/'' xs @ ''/'') (join ''/'' ys)"
  then obtain t where t: "join ''/'' ys = join ''/'' xs @ ''/'' @ t" by (auto simp: starts_append)
  have sp: "split_slash (join ''/'' zs @ CHR ''/'' # t) = zs @ split_slash t" if "zs \<noteq> []" "\<forall>c \<in> set zs. plain_comp c" for zs
    using that
  proof (induction zs)
    case (Cons z zs)
    then show ?case by (cases zs) (simp_all add: split_slash_append plain_comp_def)
  qed simp
  have "ys \<noteq> []" using t by auto
  then have "ys = split_slash (join ''/'' ys)" using split_join [of ys] assms(3) by (simp add: plain_comp_def)
  also have "\<dots> = xs @ split_slash t" using t sp [OF assms(1,2)] by simp
  finally show "strict_prefix xs ys" using split_slash_nonempty [of t] by (auto simp: strict_prefix_def)
qed

lemma join_inj:
  assumes "\<forall>c \<in> set xs. plain_comp c" and "\<forall>c \<in> set ys. plain_comp c"
  shows "join ''/'' xs = join ''/'' ys \<longleftrightarrow> xs = ys"
proof -
  have e: "join ''/'' zs = [] \<longleftrightarrow> zs = []" if "\<forall>c \<in> set zs. plain_comp c" for zs
    using that by (cases zs; cases "tl zs") (auto simp: plain_comp_def)
  have "split_slash (join ''/'' zs) = zs" if "\<forall>c \<in> set zs. plain_comp c" "zs \<noteq> []" for zs
    using that split_join [of zs] by (simp add: plain_comp_def)
  then show ?thesis using assms e by metis
qed

lemma join_no_slash_first: "\<forall>c \<in> set xs. plain_comp c \<Longrightarrow> \<not> starts ''/'' (join ''/'' xs)"
  by (rule join_relative) (simp add: plain_comp_def)

lemma join_last: "xs \<noteq> [] \<Longrightarrow> \<forall>c \<in> set xs. plain_comp c \<Longrightarrow> join ''/'' xs \<noteq> [] \<and> last (join ''/'' xs) \<noteq> CHR ''/''"
proof (induction xs)
  case (Cons x xs)
  then show ?case by (cases xs) (auto simp: plain_comp_def, metis last_in_set)
qed simp

lemma rstrip_norm:
  assumes "\<forall>c \<in> set xs. plain_comp c"
  shows "rstrip_slash (replicate k CHR ''/'' @ join ''/'' xs) = (if xs = [] then [] else replicate k CHR ''/'' @ join ''/'' xs)"
proof (cases "xs = []")
  case True
  then show ?thesis by (simp add: rstrip_slash_def)
next
  case False
  with join_last [OF False assms] obtain ys y where "join ''/'' xs = ys @ [y]" "y \<noteq> CHR ''/''"
    by (metis append_butlast_last_id)
  with False show ?thesis by (simp add: rstrip_slash_def)
qed

lemma slashes_cancel:
  assumes "\<not> starts ''/'' a" and "\<not> starts ''/'' b"
  shows "replicate m CHR ''/'' @ a = replicate n CHR ''/'' @ b \<longleftrightarrow> m = n \<and> a = b"
  using assms
proof (induction m arbitrary: n)
  case 0
  then show ?case by (cases n) (auto simp: starts_slash)
next
  case (Suc m)
  then show ?case by (cases n) (auto simp: starts_slash)
qed

lemma inside_iff:
  fixes m n :: nat
  assumes "\<forall>c \<in> set xs. plain_comp c" and "\<forall>c \<in> set ys. plain_comp c" and "0 < n"
  defines "p \<equiv> replicate n CHR ''/'' @ join ''/'' ys" and "base \<equiv> replicate m CHR ''/'' @ join ''/'' xs"
  shows "(p = base \<or> starts (rstrip_slash base @ ''/'') p) \<longleftrightarrow> xs = [] \<or> m = n \<and> prefix xs ys"
proof (cases "xs = []")
  case True
  have "starts ''/'' p" using assms(3) by (cases n) (auto simp: p_def starts_slash)
  with True show ?thesis using rstrip_norm [of xs m] assms(1) by (simp add: base_def)
next
  case False
  have eq: "p = base \<longleftrightarrow> m = n \<and> xs = ys"
    unfolding p_def base_def using slashes_cancel [OF join_no_slash_first [OF assms(2)] join_no_slash_first [OF assms(1)], of n m]
      join_inj [OF assms(1,2)] by auto
  have "starts (base @ ''/'') p \<longleftrightarrow> (\<exists>t. replicate n CHR ''/'' @ join ''/'' ys = replicate m CHR ''/'' @ (join ''/'' xs @ ''/'' @ t))"
    by (simp add: starts_append p_def base_def)
  also have "\<dots> \<longleftrightarrow> (\<exists>t. n = m \<and> join ''/'' ys = join ''/'' xs @ ''/'' @ t)"
  proof -
    have "\<not> starts ''/'' (join ''/'' xs @ ''/'' @ t)" for t
      using join_no_slash_first [OF assms(1)] join_last [OF False assms(1)] by (auto simp: starts_slash append_eq_Cons_conv)
    then show ?thesis using slashes_cancel [OF join_no_slash_first [OF assms(2)]] by blast
  qed
  also have "\<dots> \<longleftrightarrow> n = m \<and> strict_prefix xs ys"
    using join_starts_iff [OF False assms(1,2)] by (simp add: starts_append)
  finally show ?thesis
    using eq False rstrip_norm [OF assms(1), of m] by (auto simp: base_def strict_prefix_def)
qed

text \<open>The check against the meaning: the path leads below (or to) an absolute entry of the list; an entry
  that means the root admits everything. A path with exactly two leading slashes is its own root.\<close>

lemma whitelist_iff:
  "path_within_whitelist p wl \<longleftrightarrow> starts ''/'' p \<and> (comps_of p \<noteq> [] \<or> initial_slashes p = 2) \<and>
     (\<exists>b \<in> set wl. starts ''/'' b \<and> (comps_of b = [] \<or> initial_slashes b = initial_slashes p \<and> prefix (comps_of b) (comps_of p)))"
proof (cases "starts ''/'' p")
  case False
  then show ?thesis by (simp add: path_within_whitelist_def)
next
  case True
  have plain: "\<forall>c \<in> set (comps_of s). plain_comp c" for s using comps_of_plain by blast
  have n: "normpath p = replicate (initial_slashes p) CHR ''/'' @ join ''/'' (comps_of p)" by (rule norm_absolute [OF True])
  have k: "initial_slashes p = 1 \<or> initial_slashes p = 2" using True by (simp add: initial_slashes_def)
  have root: "normpath p = ''/'' \<longleftrightarrow> comps_of p = [] \<and> initial_slashes p = 1"
    using slashes_cancel [OF join_no_slash_first [OF plain [of p]], of "[]" "initial_slashes p" 1] join_inj [OF plain [of p], of "[]"]
    by (auto simp: n starts_def)
  have seg: "set (split_slash (normpath p)) \<subseteq> insert [] (set (comps_of p))"
  proof -
    have lead: "split_slash (replicate m CHR ''/'' @ s) = replicate m [] @ split_slash s" for m s by (induction m) simp_all
    have "set (split_slash (join ''/'' (comps_of p))) \<subseteq> insert [] (set (comps_of p))"
      using split_join [of "comps_of p"] plain [of p] by (cases "comps_of p = []") (auto simp: plain_comp_def)
    then show ?thesis unfolding n lead by auto
  qed
  then have nodots: "\<not> (\<exists>seg \<in> set (split_slash (normpath p)). seg = ''..'' \<or> seg = ''.'')"
    using plain [of p] by (auto simp: plain_comp_def)
  have base: "starts ''/'' (normpath b) \<and> (normpath p = normpath b \<or> starts (rstrip_slash (normpath b) @ ''/'') (normpath p)) \<longleftrightarrow>
      starts ''/'' b \<and> (comps_of b = [] \<or> initial_slashes b = initial_slashes p \<and> prefix (comps_of b) (comps_of p))" for b
  proof (cases "starts ''/'' b")
    case True
    have "0 < initial_slashes p" using k by auto
    have "starts ''/'' (normpath b)"
      using norm_absolute [OF True] True by (auto simp: initial_slashes_def starts_slash numeral_2_eq_2)
    then show ?thesis
      using inside_iff [OF plain [of b] plain [of p] \<open>0 < initial_slashes p\<close>, of "initial_slashes b"] True
      unfolding n norm_absolute [OF True] by simp
  qed (simp add: norm_relative)
  from True have "p \<noteq> []" by (auto simp: starts_def)
  then have "path_within_whitelist p wl \<longleftrightarrow> normpath p \<noteq> ''/'' \<and> (\<exists>b \<in> set wl. starts ''/'' b \<and>
      (comps_of b = [] \<or> initial_slashes b = initial_slashes p \<and> prefix (comps_of b) (comps_of p)))"
    using True nodots by (simp add: path_within_whitelist_def Let_def base)
  with True root k show ?thesis by auto
qed

section \<open>Names of uploaded files\<close>

lemma safe_rel_path_inside:
  assumes "safe_rel_path name = Inr rel"
  shows "\<exists>parts. rel = join ''/'' parts \<and> parts \<noteq> [] \<and> (\<forall>c \<in> set parts. plain_comp c)"
proof -
  define parts where "parts = filter (\<lambda>p. p \<noteq> [] \<and> p \<noteq> ''.'')
    (split_slash (dropWhile (\<lambda>c. c = CHR ''/'') (str_replace (if name = [] then ''file'' else name) [CHR 0x5C] ''/'')))"
  have "rel = join ''/'' parts" "parts \<noteq> []" "''..'' \<notin> set parts"
    using assms by (auto simp: safe_rel_path_def parts_def Let_def split: if_splits)
  moreover have "\<forall>c \<in> set parts. plain_comp c"
    using \<open>''..'' \<notin> set parts\<close> split_slash_comps by (auto simp: parts_def plain_comp_def)
  ultimately show ?thesis by blast
qed

text \<open>Joined to a directory, the name leads below it.\<close>

lemma walk_plain_append: "\<forall>c \<in> set cs. plain_comp c \<Longrightarrow> walk cs here = here @ cs"
  by (induction cs arbitrary: here) (auto simp: go_def plain_comp_def)

lemma walk_append: "walk (as @ bs) here = walk bs (walk as here)"
  by (induction as arbitrary: here) auto

lemma split_slash_mid: "split_slash (a @ CHR ''/'' # b) = split_slash a @ split_slash b"
proof (induction a)
  case (Cons c a)
  then show ?case by (cases "split_slash a") (auto simp: split_slash_nonempty)
qed simp

lemma stored_below:
  assumes "safe_rel_path name = Inr rel"
  shows "strict_prefix (comps_of dir) (comps_of (dir @ ''/'' @ rel))"
proof -
  from safe_rel_path_inside [OF assms] obtain parts where p: "rel = join ''/'' parts" "parts \<noteq> []" "\<forall>c \<in> set parts. plain_comp c" by blast
  have "split_slash rel = parts" using split_join [OF p(2)] p(1,3) by (simp add: plain_comp_def)
  then have "comps_of (dir @ ''/'' @ rel) = comps_of dir @ parts"
    using walk_plain_append [OF p(3)] by (simp add: comps_of_def split_slash_mid walk_append)
  with p(2) show ?thesis by (simp add: strict_prefix_def)
qed

end
