(* ===== verification/Transfer_Service.thy ===== *)
theory Transfer_Service
  imports Ticket_Service Transfer_Paths
begin

text \<open>
  File transfer: packages and tasks (\<open>transfer_service.py\<close>), the dispatch of a task to its hosts
  (\<open>tasks/transfer_tasks.py\<close>), the agent channel with its streaming threads
  (\<open>transfer_channels.py\<close>) and the transfer frames agents answer with (\<open>ws/agent_ws.py\<close>).

  The sessions of this program do not flush by themselves: a log row that is added is not seen by
  the query for the next sequence number until a commit. Dispatching adds several rows between two
  commits, so it is modelled over a \<open>session\<close>: the database as its own statements see it, the
  database as committed, and the log rows added since. A streaming thread is a \<open>job\<close> that a later
  step runs. Files of the platform's store are a map from paths to contents.
\<close>

section \<open>State\<close>

datatype transfer_status = FPending | FPulling | FTransferring | FVerifying | FSuccess | FFailed | FVerifyFailed | FDegraded | FCanceled

datatype transfer_task_status = FTProcessing | FTSuccess | FTPartial | FTFailed | FTCanceled

record file_item =
  fi_package_id :: int
  fi_rel_path :: string
  fi_size :: int
  fi_sha256 :: string
  fi_chunk_size :: int

record transfer_task =
  ft_task_no :: string
  ft_mode :: string
  ft_package_id :: "int option"
  ft_source_host_id :: "int option"
  ft_source_host_path :: "string option"
  ft_target_path :: string
  ft_host_ids :: "int list"
  ft_overwrite :: int
  ft_verify :: int
  ft_limit_mbps :: "int option"
  ft_status :: transfer_task_status
  ft_created_by :: "int option"
  ft_finished_at :: "time option"
  ft_version :: int

record transfer_host =
  fh_task_id :: int
  fh_host_id :: int
  fh_hostname :: string
  fh_ip :: string
  fh_status :: transfer_status
  fh_current_offset :: int
  fh_verify_sha256 :: "string option"
  fh_error :: "string option"
  fh_started_at :: "time option"
  fh_finished_at :: "time option"

record transfer_log =
  fl_host_id :: int
  fl_seq :: int
  fl_level :: string
  fl_content :: string

datatype transfer_frame =
    FileSend int int string int \<comment> \<open>transfer host, item, target path, offset\<close>
  | FileChunk int string int string \<comment> \<open>transfer host, path, offset, data\<close>
  | FileVerify int string string \<comment> \<open>transfer host, path, digest\<close>
  | FileFetch int string string int \<comment> \<open>transfer host, source path, target path, offset\<close>
  | TransferStop int

text \<open>A thread of \<open>_stream_chunks_async\<close>: agent, transfer host, item, offset to start from.\<close>

record stream_job =
  sj_agent :: string
  sj_host :: int
  sj_item :: file_item
  sj_offset :: int

record transfer_db = ticket_db +
  file_items :: "file_item table"
  transfer_tasks :: "transfer_task table"
  transfer_hosts :: "transfer_host table"
  transfer_logs :: "transfer_log table"
  seq_transfer_no :: int
  store_fs :: "string \<Rightarrow> string option"
  wire :: "(string \<times> transfer_frame) list"
  jobs :: "stream_job list"
  transfer_queue :: "int list" \<comment> \<open>tasks handed to the broker\<close>

record transfer_env = env +
  store_dir :: string \<comment> \<open>\<open>settings.transfer_store_dir\<close>\<close>
  uuid_hex :: string
  sha256_hex :: "string \<Rightarrow> string"

section \<open>Repositories\<close>

definition put_ftask :: "transfer_task_status \<Rightarrow> int \<Rightarrow> transfer_task \<Rightarrow> transfer_task" where
  "put_ftask s v r = r\<lparr>ft_status := s, ft_version := v\<rparr>"

interpretation transfer_row: versioned_row ft_status ft_version put_ftask
  by unfold_locales (auto simp: put_ftask_def)

definition transfer_optimistic_update ::
  "int \<Rightarrow> transfer_task_status \<Rightarrow> transfer_task_status \<Rightarrow> int \<Rightarrow> 'z transfer_db_scheme \<Rightarrow> bool \<times> 'z transfer_db_scheme" where
  "transfer_optimistic_update i from to v w =
     (let (ok, t) = cas_row ft_status ft_version put_ftask (transfer_tasks w) i from to v
      in (ok, w\<lparr>transfer_tasks := t\<rparr>))"

definition upd_ftask :: "int \<Rightarrow> (transfer_task \<Rightarrow> transfer_task) \<Rightarrow> 'z transfer_db_scheme \<Rightarrow> 'z transfer_db_scheme" where
  "upd_ftask i f w = w\<lparr>transfer_tasks := tupd i f (transfer_tasks w)\<rparr>"

definition upd_fhost :: "int \<Rightarrow> (transfer_host \<Rightarrow> transfer_host) \<Rightarrow> 'z transfer_db_scheme \<Rightarrow> 'z transfer_db_scheme" where
  "upd_fhost i f w = w\<lparr>transfer_hosts := tupd i f (transfer_hosts w)\<rparr>"

definition items_by_package :: "'z transfer_db_scheme \<Rightarrow> int \<Rightarrow> (int \<times> file_item) list" where
  "items_by_package w pid = tselect (\<lambda>i. fi_package_id i = pid) (file_items w)"

definition fhosts_by_task :: "'z transfer_db_scheme \<Rightarrow> int \<Rightarrow> (int \<times> transfer_host) list" where
  "fhosts_by_task w tid = tselect (\<lambda>h. fh_task_id h = tid) (transfer_hosts w)"

definition referenced_count :: "'z transfer_db_scheme \<Rightarrow> int \<Rightarrow> nat" where
  "referenced_count w pid = length (tselect (\<lambda>t. ft_package_id t = Some pid \<and> ft_status t = FTProcessing) (transfer_tasks w))"

text \<open>\<open>stats\<close>: the number of hosts of the task in one status.\<close>

definition fstat :: "'z transfer_db_scheme \<Rightarrow> int \<Rightarrow> transfer_status \<Rightarrow> nat" where
  "fstat w tid s = length (filter (\<lambda>(i, h). fh_status h = s) (fhosts_by_task w tid))"

definition fh_active :: "transfer_status \<Rightarrow> bool" where
  "fh_active s = (s \<in> {FPending, FPulling, FTransferring, FVerifying})"

definition active_count :: "'z transfer_db_scheme \<Rightarrow> int \<Rightarrow> nat" where
  "active_count w tid = length (filter (\<lambda>(i, h). fh_active (fh_status h)) (fhosts_by_task w tid))"

definition transfer_max_seq :: "'z transfer_db_scheme \<Rightarrow> int \<Rightarrow> int" where
  "transfer_max_seq w hid = fold max (map (\<lambda>(i, l). fl_seq l) (tselect (\<lambda>l. fl_host_id l = hid) (transfer_logs w))) 0"

definition transfer_logs_after :: "'z transfer_db_scheme \<Rightarrow> int \<Rightarrow> int \<Rightarrow> int \<Rightarrow> transfer_log list" where
  "transfer_logs_after w hid sq sz =
     take (nat sz) (sort_key fl_seq (map snd (tselect (\<lambda>l. fl_host_id l = hid \<and> fl_seq l > sq) (transfer_logs w))))"

section \<open>Rules\<close>

fun py_zero :: "json \<Rightarrow> bool" where
  "py_zero (JInt n) = (n = 0)"
| "py_zero (JBool b) = (\<not> b)"
| "py_zero (JFloat r) = (r = 0)"
| "py_zero _ = False"

definition transfer_enabled :: "'z sys_db_scheme \<Rightarrow> bool" where
  "transfer_enabled w = (case by_key w ''feature.transfer'' of None \<Rightarrow> True | Some rv \<Rightarrow> \<not> py_zero (dget rv ''enabled''))"

definition transfer_disabled :: app_error where
  "transfer_disabled = BadRequestError ''transfer feature disabled''"

definition DEFAULT_CHUNK_SIZE :: int where
  "DEFAULT_CHUNK_SIZE = 1048576"

definition chunk_size :: "'z sys_db_scheme \<Rightarrow> int option" where
  "chunk_size w = map_option (\<lambda>v. if v > 0 then v else DEFAULT_CHUNK_SIZE)
     (case by_key w ''transfer.chunk_size'' of None \<Rightarrow> Some DEFAULT_CHUNK_SIZE
      | Some rv \<Rightarrow> (case map_of rv ''chunk_size'' of None \<Rightarrow> Some DEFAULT_CHUNK_SIZE | Some j \<Rightarrow> py_int j))"

definition DEFAULT_PULL_WHITELIST :: "string list" where
  "DEFAULT_PULL_WHITELIST = [''/var/lib/lark-agent/outbox'']"

text \<open>\<open>str(p)\<close> of an entry that is no string does not begin with a slash and never matches; it stands as
  a dot here.\<close>

definition pull_whitelist :: "'z sys_db_scheme \<Rightarrow> string list" where
  "pull_whitelist w =
     (case by_key w ''transfer.pull_whitelist'' of
        None \<Rightarrow> DEFAULT_PULL_WHITELIST
      | Some rv \<Rightarrow>
          (case (if truthy (dget rv ''paths'') then dget rv ''paths'' else dget rv ''whitelist'') of
             JList ps \<Rightarrow> map (\<lambda>j. case j of JStr s \<Rightarrow> s | _ \<Rightarrow> ''.'') ps
           | _ \<Rightarrow> DEFAULT_PULL_WHITELIST))"

section \<open>Packages\<close>

text \<open>The upload loop: names are checked and files written one after the other; what was written before
  a bad name stays in the store.\<close>

fun write_files ::
  "'e transfer_env_scheme \<Rightarrow> string \<Rightarrow> (string \<times> string) list \<Rightarrow> (string \<Rightarrow> string option) \<Rightarrow>
   (string \<times> int \<times> string) list res \<times> (string \<Rightarrow> string option)" where
  "write_files e dir [] fs = (Inr [], fs)"
| "write_files e dir ((name, data) # files) fs =
     (case safe_rel_path (if name = [] then ''file'' else name) of
        Inl err \<Rightarrow> (Inl err, fs)
      | Inr rel \<Rightarrow>
          (case write_files e dir files (fs(dir @ ''/'' @ rel \<mapsto> data)) of
             (Inl err, fs') \<Rightarrow> (Inl err, fs')
           | (Inr items, fs') \<Rightarrow> (Inr ((rel, int (length data), sha256_hex e data) # items), fs')))"

definition new_item :: "int \<Rightarrow> int \<Rightarrow> string \<times> int \<times> string \<Rightarrow> file_item" where
  "new_item pid cs it = (case it of (rel, sz, digest) \<Rightarrow>
     \<lparr>fi_package_id = pid, fi_rel_path = rel, fi_size = sz, fi_sha256 = digest, fi_chunk_size = cs\<rparr>)"

text \<open>The name of a package defaults to one made of the date, which is only shown. Two files of one name
  violate the unique pair of package and path.\<close>

definition create_package ::
  "'e transfer_env_scheme \<Rightarrow> current_user \<Rightarrow> (string \<times> string) list \<Rightarrow> string \<Rightarrow> 'z transfer_db_scheme \<Rightarrow>
   int res \<times> 'z transfer_db_scheme" where
  "create_package e u files name w =
     (if \<not> has_perm u ''transfer:package:add'' then (Inl (perm_denied ''transfer:package:add''), w)
      else if \<not> transfer_enabled w then (Inl transfer_disabled, w)
      else if files = [] then (Inl (BadRequestError ''files[] required''), w)
      else (let dir = store_dir e @ ''/'' @ uuid_hex e
            in case write_files e dir files (store_fs w) of
                 (Inl err, fs) \<Rightarrow> (Inl err, w\<lparr>store_fs := fs\<rparr>)
               | (Inr items, fs) \<Rightarrow>
                   (case chunk_size w of
                      None \<Rightarrow> (Inl TypeError, w\<lparr>store_fs := fs\<rparr>)
                    | Some cs \<Rightarrow>
                        if \<not> distinct (map fst items) then (Inl (IntegrityError ''file_item''), w\<lparr>store_fs := fs\<rparr>)
                        else (let pid = next_id (file_packages w)
                              in (Inr pid, w\<lparr>store_fs := fs,
                                    file_packages := tadd \<lparr>fp_name = name, fp_total_size = sum_list (map (\<lambda>(rel, sz, d). sz) items),
                                      fp_store_path = dir, fp_created_by = Some (uid u)\<rparr> (file_packages w),
                                    file_items := fold (\<lambda>it. tadd (new_item pid cs it)) items (file_items w)\<rparr>)))))"

definition get_package ::
  "current_user \<Rightarrow> int \<Rightarrow> 'z transfer_db_scheme \<Rightarrow> (file_package \<times> (int \<times> file_item) list) res" where
  "get_package u pid w =
     (if \<not> has_perm u ''transfer:package:list'' then Inl (perm_denied ''transfer:package:list'')
      else case tget (file_packages w) pid of
             None \<Rightarrow> Inl (NotFoundError ''package not found'')
           | Some p \<Rightarrow> Inr (p, items_by_package w pid))"

text \<open>\<open>shutil.rmtree(path, ignore_errors=True)\<close>: everything below the directory.\<close>

definition rmtree :: "string \<Rightarrow> (string \<Rightarrow> string option) \<Rightarrow> string \<Rightarrow> string option" where
  "rmtree dir fs = (\<lambda>p. if starts (dir @ ''/'') p then None else fs p)"

text \<open>Deleting the row: its items go with it, a task that names it (in whatever status) holds it, since
  the foreign key of \<open>transfer_task\<close> has no rule for deletion.\<close>

definition delete_items :: "int \<Rightarrow> 'z transfer_db_scheme \<Rightarrow> 'z transfer_db_scheme" where
  "delete_items pid w = w\<lparr>file_items := fold (\<lambda>(i, it). tdel i) (items_by_package w pid) (file_items w)\<rparr>"

definition delete_package ::
  "current_user \<Rightarrow> int \<Rightarrow> 'z transfer_db_scheme \<Rightarrow> int res \<times> 'z transfer_db_scheme" where
  "delete_package u pid w =
     (if \<not> has_perm u ''transfer:package:del'' then (Inl (perm_denied ''transfer:package:del''), w)
      else case tget (file_packages w) pid of
             None \<Rightarrow> (Inl (NotFoundError ''package not found''), w)
           | Some p \<Rightarrow>
               if referenced_count w pid > 0 then (Inl (ConflictError ''package referenced by a running transfer task''), w)
               else (let w1 = w\<lparr>store_fs := rmtree (fp_store_path p) (store_fs w)\<rparr>
                     in if texists (\<lambda>t. ft_package_id t = Some pid) (transfer_tasks w)
                        then (Inl (IntegrityError ''transfer_task.package_id''), w1)
                        else (Inr pid, (delete_items pid w1)\<lparr>file_packages := tdel pid (file_packages w1)\<rparr>)))"

section \<open>Sessions\<close>

datatype 'w session = Session (working: 'w) (committed: 'w) (added: "transfer_log list")

definition sql :: "('w \<Rightarrow> 'w) \<Rightarrow> 'w session \<Rightarrow> 'w session" where
  "sql f s = Session (f (working s)) (committed s) (added s)"

definition begin_session :: "'w \<Rightarrow> 'w session" where
  "begin_session w = Session w w []"

text \<open>\<open>_append_log\<close>: the next number after the rows in the database, not counting those just added.\<close>

definition session_log :: "int \<Rightarrow> string \<Rightarrow> string \<Rightarrow> 'z transfer_db_scheme session \<Rightarrow> 'z transfer_db_scheme session" where
  "session_log hid lvl content s = Session (working s) (committed s)
     (added s @ [\<lparr>fl_host_id = hid, fl_seq = transfer_max_seq (working s) hid + 1, fl_level = lvl, fl_content = content\<rparr>])"

text \<open>\<open>db.commit()\<close>: the added rows get the time of the transaction, so two of one host and number
  violate the unique triple of time, host and number; the flag tells that it raised.\<close>

definition commit :: "'z transfer_db_scheme session \<Rightarrow> bool \<times> 'z transfer_db_scheme session" where
  "commit s =
     (if \<not> distinct (map (\<lambda>l. (fl_host_id l, fl_seq l)) (added s)) then (True, s)
      else (let w = (working s)\<lparr>transfer_logs := fold tadd (added s) (transfer_logs (working s))\<rparr>
            in (False, Session w w [])))"

text \<open>The end of a session: what was not committed is rolled back; frames that were sent and threads that
  were started are not.\<close>

definition close_session_db :: "'z transfer_db_scheme session \<Rightarrow> 'z transfer_db_scheme" where
  "close_session_db s = (committed s)\<lparr>wire := wire (working s), jobs := jobs (working s)\<rparr>"

section \<open>Dispatch\<close>

definition mark_host ::
  "'e transfer_env_scheme \<Rightarrow> transfer_status \<Rightarrow> int \<Rightarrow> string \<Rightarrow> string \<Rightarrow> 'z transfer_db_scheme session \<Rightarrow>
   bool \<times> 'z transfer_db_scheme session" where
  "mark_host e st hid prefix_text reason s =
     commit (session_log hid ''error'' (prefix_text @ reason)
       (sql (upd_fhost hid (\<lambda>h. h\<lparr>fh_status := st, fh_error := Some reason, fh_finished_at := Some (now e)\<rparr>)) s))"

definition mark_degraded ::
  "'e transfer_env_scheme \<Rightarrow> int \<Rightarrow> string \<Rightarrow> 'z transfer_db_scheme session \<Rightarrow> bool \<times> 'z transfer_db_scheme session" where
  "mark_degraded e hid reason s = mark_host e FDegraded hid ''channel unavailable: '' reason s"

definition mark_failed ::
  "'e transfer_env_scheme \<Rightarrow> int \<Rightarrow> string \<Rightarrow> 'z transfer_db_scheme session \<Rightarrow> bool \<times> 'z transfer_db_scheme session" where
  "mark_failed e hid err s = mark_host e FFailed hid ''failed: '' err s"

text \<open>The agent of a host, if it has one (\<open>_proc_agent\<close>, and the host part of \<open>can_handle\<close>).\<close>

definition agent_of :: "'z exec_db_scheme \<Rightarrow> int \<Rightarrow> string option" where
  "agent_of w hid = (case tget (hosts w) hid of None \<Rightarrow> None
     | Some h \<Rightarrow> if str_truthy (h_agent_id h) then h_agent_id h else None)"

text \<open>\<open>resolve_agent_channel\<close>: the agent channel if the agent is online; the SSH channel takes no host.\<close>

definition resolve_agent_channel :: "'e transfer_env_scheme \<Rightarrow> 'z exec_db_scheme \<Rightarrow> int \<Rightarrow> bool" where
  "resolve_agent_channel e w hid = (case agent_of w hid of None \<Rightarrow> False | Some a \<Rightarrow> agent_online e a)"

definition send_frame :: "string \<Rightarrow> transfer_frame \<Rightarrow> 'z transfer_db_scheme \<Rightarrow> 'z transfer_db_scheme" where
  "send_frame a f w = w\<lparr>wire := wire w @ [(a, f)]\<rparr>"

definition push ::
  "'e transfer_env_scheme \<Rightarrow> transfer_task \<Rightarrow> int \<Rightarrow> transfer_host \<Rightarrow> int \<times> file_item \<Rightarrow> 'z transfer_db_scheme \<Rightarrow>
   bool \<times> 'z transfer_db_scheme" where
  "push e t hid h it w =
     (case agent_of w (fh_host_id h) of
        None \<Rightarrow> (False, w)
      | Some a \<Rightarrow>
          if \<not> agent_reachable e a then (False, w)
          else (True, (send_frame a (FileSend hid (fst it) (ft_target_path t) (fh_current_offset h)) w)\<lparr>jobs := jobs w @
                  [\<lparr>sj_agent = a, sj_host = hid, sj_item = snd it, sj_offset = fh_current_offset h\<rparr>]\<rparr>))"

definition fetch ::
  "'e transfer_env_scheme \<Rightarrow> transfer_task \<Rightarrow> int \<Rightarrow> transfer_host \<Rightarrow> string \<Rightarrow> 'z transfer_db_scheme \<Rightarrow>
   bool \<times> 'z transfer_db_scheme" where
  "fetch e t hid h path w =
     (case agent_of w (fh_host_id h) of
        None \<Rightarrow> (False, w)
      | Some a \<Rightarrow>
          if \<not> agent_reachable e a then (False, w)
          else (True, send_frame a (FileFetch hid path (ft_target_path t) (fh_current_offset h)) w))"

fun push_items ::
  "'e transfer_env_scheme \<Rightarrow> transfer_task \<Rightarrow> int \<Rightarrow> transfer_host \<Rightarrow> (int \<times> file_item) list \<Rightarrow>
   'z transfer_db_scheme session \<Rightarrow> bool \<times> 'z transfer_db_scheme session" where
  "push_items e t hid h [] s = (False, s)"
| "push_items e t hid h (it # its) s =
     (let s1 = session_log hid ''info'' (''transfer file '' @ fi_rel_path (snd it) @ '' size='' @ show_int (fi_size (snd it)) @
                 '' verify='' @ (if ft_verify t \<noteq> 0 then ''True'' else ''False'')) s
      in case push e t hid h it (working s1) of
           (False, w) \<Rightarrow> mark_degraded e hid ''agent unreachable during dispatch'' s1
         | (True, w) \<Rightarrow> push_items e t hid h its (sql (\<lambda>_. w) s1))"

text \<open>What follows when a channel is found: the host is marked and committed, then the first log row.\<close>

definition run_transfer ::
  "'e transfer_env_scheme \<Rightarrow> transfer_task \<Rightarrow> int \<Rightarrow> transfer_host \<Rightarrow> 'z transfer_db_scheme session \<Rightarrow>
   bool \<times> 'z transfer_db_scheme session" where
  "run_transfer e t hid h s =
     (if ft_mode t = ''push''
      then (case ft_package_id t of
              None \<Rightarrow> mark_failed e hid ''push task without package'' s
            | Some pid \<Rightarrow>
                if items_by_package (working s) pid = [] then mark_failed e hid ''package has no files'' s
                else push_items e t hid h (items_by_package (working s) pid) s)
      else (case ft_source_host_path t of
              None \<Rightarrow> mark_failed e hid ''source_host_path outside pull whitelist'' s
            | Some path \<Rightarrow>
                if \<not> path_within_whitelist path (pull_whitelist (working s))
                then mark_failed e hid ''source_host_path outside pull whitelist'' s
                else (let s1 = session_log hid ''info'' (''fetch '' @ path @ '' verify='' @ (if ft_verify t \<noteq> 0 then ''True'' else ''False'')) s
                      in case fetch e t hid h path (working s1) of
                           (False, w) \<Rightarrow> mark_degraded e hid ''agent unreachable during fetch dispatch'' s1
                         | (True, w) \<Rightarrow> (False, sql (\<lambda>_. w) s1))))"

definition dispatch_host ::
  "'e transfer_env_scheme \<Rightarrow> transfer_task \<Rightarrow> int \<times> transfer_host \<Rightarrow> 'z transfer_db_scheme session \<Rightarrow>
   bool \<times> 'z transfer_db_scheme session" where
  "dispatch_host e t th s =
     (let (hid, h) = th
      in if \<not> resolve_agent_channel e (working s) (fh_host_id h)
         then mark_degraded e hid ''no agent channel available (ssh fallback not enabled in this batch)'' s
         else (case commit (sql (upd_fhost hid (\<lambda>r. r\<lparr>fh_status := FTransferring, fh_started_at := Some (now e)\<rparr>)) s) of
                 (True, s1) \<Rightarrow> (True, s1)
               | (False, s1) \<Rightarrow>
                   run_transfer e t hid h
                     (session_log hid ''info'' (''channel=agent mode='' @ ft_mode t @ '' target='' @ ft_target_path t) s1)))"

fun dispatch_hosts ::
  "'e transfer_env_scheme \<Rightarrow> transfer_task \<Rightarrow> (int \<times> transfer_host) list \<Rightarrow> 'z transfer_db_scheme session \<Rightarrow>
   bool \<times> 'z transfer_db_scheme session" where
  "dispatch_hosts e t [] s = (False, s)"
| "dispatch_hosts e t ((hid, h) # ths) s =
     (if fh_status h \<noteq> FPending then dispatch_hosts e t ths s
      else case dispatch_host e t (hid, h) s of
             (True, s1) \<Rightarrow> (True, s1)
           | (False, s1) \<Rightarrow> dispatch_hosts e t ths s1)"

definition transfer_aggregate :: "nat \<Rightarrow> nat \<Rightarrow> nat \<Rightarrow> nat \<Rightarrow> transfer_task_status" where
  "transfer_aggregate success degraded failed n =
     (if n > 0 \<and> success = n then FTSuccess
      else if success > 0 then FTPartial
      else if failed = 0 \<and> degraded > 0 then FTPartial
      else FTFailed)"

definition maybe_finalize ::
  "'e transfer_env_scheme \<Rightarrow> int \<Rightarrow> transfer_task \<Rightarrow> 'z transfer_db_scheme session \<Rightarrow> bool \<times> 'z transfer_db_scheme session" where
  "maybe_finalize e tid t s =
     (let w = working s
      in if ft_status t \<noteq> FTProcessing then (False, s)
         else if fhosts_by_task w tid = [] then (False, s)
         else if active_count w tid > 0 then (False, s)
         else (let ns = transfer_aggregate (fstat w tid FSuccess) (fstat w tid FDegraded)
                          (fstat w tid FFailed + fstat w tid FVerifyFailed + fstat w tid FCanceled) (length (fhosts_by_task w tid))
               in case transfer_optimistic_update tid FTProcessing ns (ft_version t) w of
                    (False, _) \<Rightarrow> (False, s)
                  | (True, w1) \<Rightarrow> commit (sql (\<lambda>_. upd_ftask tid (\<lambda>r. r\<lparr>ft_finished_at := Some (now e)\<rparr>) w1) s)))"

text \<open>\<open>Inl\<close> is the exception of a commit, which the caller sees.\<close>

definition transfer_dispatch ::
  "'e transfer_env_scheme \<Rightarrow> int \<Rightarrow> 'z transfer_db_scheme \<Rightarrow> bool res \<times> 'z transfer_db_scheme" where
  "transfer_dispatch e tid w =
     (case tget (transfer_tasks w) tid of
        None \<Rightarrow> (Inr False, w)
      | Some t \<Rightarrow>
          if ft_status t = FTCanceled then (Inr False, w)
          else if ft_status t \<noteq> FTProcessing then (Inr True, w)
          else (case dispatch_hosts e t (fhosts_by_task w tid) (begin_session w) of
                  (True, s) \<Rightarrow> (Inl (IntegrityError ''transfer_log''), close_session_db s)
                | (False, s) \<Rightarrow>
                    (case maybe_finalize e tid t s of
                       (True, s1) \<Rightarrow> (Inl (IntegrityError ''transfer_log''), close_session_db s1)
                     | (False, s1) \<Rightarrow> (Inr True, close_session_db s1))))"

definition task_has_inprocess_transfer :: "'e transfer_env_scheme \<Rightarrow> int \<Rightarrow> 'z transfer_db_scheme \<Rightarrow> bool" where
  "task_has_inprocess_transfer e tid w =
     (\<exists>(i, h) \<in> set (fhosts_by_task w tid). resolve_agent_channel e w (fh_host_id h))"

definition kick_off_transfer ::
  "'e transfer_env_scheme \<Rightarrow> int \<Rightarrow> 'z transfer_db_scheme \<Rightarrow> bool res \<times> 'z transfer_db_scheme" where
  "kick_off_transfer e tid w =
     (if task_has_inprocess_transfer e tid w then transfer_dispatch e tid w
      else if broker_up e then (Inr True, w\<lparr>transfer_queue := transfer_queue w @ [tid]\<rparr>)
      else transfer_dispatch e tid w)"

section \<open>Tasks\<close>

record transfer_req =
  fq_mode :: string
  fq_package_id :: "int option"
  fq_source_host_id :: "int option"
  fq_source_host_path :: "string option"
  fq_target_path :: string
  fq_host_ids :: "int list"
  fq_overwrite :: int
  fq_verify :: int
  fq_limit_mbps :: "int option"

fun transfer_check_hosts :: "current_user \<Rightarrow> int list \<Rightarrow> 'z exec_db_scheme \<Rightarrow> host list res" where
  "transfer_check_hosts u [] w = Inr []"
| "transfer_check_hosts u (hid # hids) w =
     (case tget (hosts w) hid of
        None \<Rightarrow> Inl (NotFoundError (''host '' @ show_int hid @ '' not found''))
      | Some h \<Rightarrow>
          if \<not> is_admin u \<and> (case h_group_id h of None \<Rightarrow> True | Some g \<Rightarrow> g \<notin> set (visible_group_ids u))
          then Inl (ForbiddenError (''no data permission for host '' @ show_int hid))
          else (case transfer_check_hosts u hids w of Inl err \<Rightarrow> Inl err | Inr hs \<Rightarrow> Inr (h # hs)))"

definition check_mode :: "transfer_req \<Rightarrow> 'z transfer_db_scheme \<Rightarrow> unit res" where
  "check_mode q w =
     (if fq_mode q \<noteq> ''push'' \<and> fq_mode q \<noteq> ''pull'' then Inl (BadRequestError ''invalid mode (push/pull)'')
      else if fq_mode q = ''push''
      then (case fq_package_id q of
              None \<Rightarrow> Inl (BadRequestError ''package_id required for push mode'')
            | Some pid \<Rightarrow> if tget (file_packages w) pid = None then Inl (NotFoundError ''package not found'')
                          else if items_by_package w pid = [] then Inl (BadRequestError ''package has no files'')
                          else Inr ())
      else if \<not> str_truthy (fq_source_host_path q) then Inl (BadRequestError ''source_host_path required for pull mode'')
      else if \<not> path_within_whitelist (the (fq_source_host_path q)) (pull_whitelist w)
      then Inl (BadRequestError ''source_host_path outside pull whitelist'')
      else Inr ())"

definition transfer_no :: "'e transfer_env_scheme \<Rightarrow> 'z transfer_db_scheme \<Rightarrow> string \<times> 'z transfer_db_scheme" where
  "transfer_no e w = (let n = seq_transfer_no w + 1
     in (''TF-'' @ today e @ ''-'' @ pad_int 3 n, w\<lparr>seq_transfer_no := n\<rparr>))"

definition new_ftask :: "string \<Rightarrow> current_user \<Rightarrow> transfer_req \<Rightarrow> transfer_task" where
  "new_ftask no u q =
     \<lparr>ft_task_no = no, ft_mode = fq_mode q, ft_package_id = (if fq_mode q = ''push'' then fq_package_id q else None),
      ft_source_host_id = (if fq_mode q = ''push'' then None else fq_source_host_id q),
      ft_source_host_path = (if fq_mode q = ''push'' then None else fq_source_host_path q),
      ft_target_path = fq_target_path q, ft_host_ids = fq_host_ids q, ft_overwrite = fq_overwrite q, ft_verify = fq_verify q,
      ft_limit_mbps = fq_limit_mbps q, ft_status = FTProcessing, ft_created_by = Some (uid u), ft_finished_at = None, ft_version = 0\<rparr>"

definition new_fhost :: "int \<Rightarrow> int \<times> host \<Rightarrow> transfer_host" where
  "new_fhost tid hh = (case hh of (hid, h) \<Rightarrow>
     \<lparr>fh_task_id = tid, fh_host_id = hid, fh_hostname = h_hostname h, fh_ip = h_ip h, fh_status = FPending, fh_current_offset = 0,
      fh_verify_sha256 = None, fh_error = None, fh_started_at = None, fh_finished_at = None\<rparr>)"

text \<open>One row per task and host: a host named twice fails the commit. After it, a dispatch in this process
  may still raise.\<close>

definition transfer_create_task ::
  "'e transfer_env_scheme \<Rightarrow> current_user \<Rightarrow> transfer_req \<Rightarrow> 'z transfer_db_scheme \<Rightarrow> int res \<times> 'z transfer_db_scheme" where
  "transfer_create_task e u q w =
     (if \<not> has_perm u ''transfer:task:run'' then (Inl (perm_denied ''transfer:task:run''), w)
      else if \<not> transfer_enabled w then (Inl transfer_disabled, w)
      else case transfer_check_hosts u (fq_host_ids q) w of
             Inl err \<Rightarrow> (Inl err, w)
           | Inr hs \<Rightarrow>
               (case check_mode q w of
                  Inl err \<Rightarrow> (Inl err, w)
                | Inr _ \<Rightarrow>
                    if \<not> distinct (fq_host_ids q) then (Inl (IntegrityError ''transfer_host''), w)
                    else (let (no, w1) = transfer_no e w; tid = next_id (transfer_tasks w1);
                              w2 = w1\<lparr>transfer_tasks := tadd (new_ftask no u q) (transfer_tasks w1),
                                      transfer_hosts := fold (\<lambda>hh. tadd (new_fhost tid hh)) (zip (fq_host_ids q) hs) (transfer_hosts w1)\<rparr>
                          in case kick_off_transfer e tid w2 of
                               (Inl err, w3) \<Rightarrow> (Inl err, w3)
                             | (Inr _, w3) \<Rightarrow> (Inr tid, w3))))"

definition transfer_guard :: "string \<Rightarrow> string \<Rightarrow> current_user \<Rightarrow> int \<Rightarrow> 'z transfer_db_scheme \<Rightarrow> transfer_task res" where
  "transfer_guard perm what u tid w =
     (if \<not> has_perm u perm then Inl (perm_denied perm)
      else case tget (transfer_tasks w) tid of
             None \<Rightarrow> Inl (NotFoundError ''task not found'')
           | Some t \<Rightarrow> if \<not> is_admin u \<and> ft_created_by t \<noteq> Some (uid u)
                       then Inl (ForbiddenError (''no permission to '' @ what @ '' this task'')) else Inr t)"

definition search_transfers ::
  "string option \<Rightarrow> transfer_task_status option \<Rightarrow> int option \<Rightarrow> int \<Rightarrow> int \<Rightarrow> 'z transfer_db_scheme \<Rightarrow>
   (int \<times> transfer_task) list \<times> int" where
  "search_transfers mode st owner page sz w =
     (let found = rev (tselect (\<lambda>t. (\<not> str_truthy mode \<or> Some (ft_mode t) = mode) \<and> (st = None \<or> Some (ft_status t) = st) \<and>
                    (\<not> int_truthy owner \<or> ft_created_by t = owner)) (transfer_tasks w))
      in (page_of page sz found, int (length found)))"

definition transfer_list_tasks ::
  "current_user \<Rightarrow> string option \<Rightarrow> transfer_task_status option \<Rightarrow> int \<Rightarrow> int \<Rightarrow> 'z transfer_db_scheme \<Rightarrow>
   ((int \<times> transfer_task) list \<times> int) res" where
  "transfer_list_tasks u mode st page sz w =
     (if \<not> has_perm u ''transfer:task:list'' then Inl (perm_denied ''transfer:task:list'')
      else Inr (search_transfers mode st (if is_admin u then None else Some (uid u)) page sz w))"

definition list_my_tasks ::
  "current_user \<Rightarrow> string option \<Rightarrow> transfer_task_status option \<Rightarrow> int \<Rightarrow> int \<Rightarrow> 'z transfer_db_scheme \<Rightarrow>
   (((int \<times> transfer_task) \<times> (int \<times> string) list) list \<times> int) res" where
  "list_my_tasks u mode st page sz w =
     (if \<not> has_perm u ''transfer:task:log'' then Inl (perm_denied ''transfer:task:log'')
      else (let (found, n) = search_transfers mode st (if is_admin u then None else Some (uid u)) page sz w
            in Inr (map (\<lambda>(tid, t). ((tid, t), map (\<lambda>(i, h). (i, fh_hostname h)) (fhosts_by_task w tid))) found, n)))"

record transfer_stats =
  fs_total :: nat
  fs_pending :: nat
  fs_transferring :: nat
  fs_verifying :: nat
  fs_verify_failed :: nat
  fs_success :: nat
  fs_failed :: nat

definition task_stats_internal :: "'z transfer_db_scheme \<Rightarrow> int \<Rightarrow> transfer_stats" where
  "task_stats_internal w tid =
     \<lparr>fs_total = length (fhosts_by_task w tid), fs_pending = fstat w tid FPending,
      fs_transferring = fstat w tid FTransferring + fstat w tid FPulling, fs_verifying = fstat w tid FVerifying,
      fs_verify_failed = fstat w tid FVerifyFailed, fs_success = fstat w tid FSuccess,
      fs_failed = fstat w tid FFailed + fstat w tid FCanceled + fstat w tid FDegraded\<rparr>"

definition transfer_get_task ::
  "current_user \<Rightarrow> int \<Rightarrow> 'z transfer_db_scheme \<Rightarrow> (transfer_task \<times> (int \<times> transfer_host) list \<times> transfer_stats) res" where
  "transfer_get_task u tid w =
     (case transfer_guard ''transfer:task:list'' ''view'' u tid w of
        Inl err \<Rightarrow> Inl err
      | Inr t \<Rightarrow> Inr (t, fhosts_by_task w tid, task_stats_internal w tid))"

definition transfer_task_stats :: "current_user \<Rightarrow> int \<Rightarrow> 'z transfer_db_scheme \<Rightarrow> transfer_stats res" where
  "transfer_task_stats u tid w =
     (case transfer_guard ''transfer:task:list'' ''view'' u tid w of
        Inl err \<Rightarrow> Inl err | Inr t \<Rightarrow> Inr (task_stats_internal w tid))"

definition host_of_task :: "int \<Rightarrow> int \<Rightarrow> 'z transfer_db_scheme \<Rightarrow> transfer_host res" where
  "host_of_task tid hid w =
     (case tget (transfer_hosts w) hid of
        None \<Rightarrow> Inl (NotFoundError ''task host not found'')
      | Some h \<Rightarrow> if fh_task_id h \<noteq> tid then Inl (NotFoundError ''task host not found'') else Inr h)"

definition transfer_get_logs ::
  "current_user \<Rightarrow> int \<Rightarrow> int \<Rightarrow> int \<Rightarrow> int \<Rightarrow> 'z transfer_db_scheme \<Rightarrow> (transfer_log list \<times> int) res" where
  "transfer_get_logs u tid hid after_seq sz w =
     (case transfer_guard ''transfer:task:log'' ''view'' u tid w of
        Inl err \<Rightarrow> Inl err
      | Inr t \<Rightarrow> (case host_of_task tid hid w of
            Inl err \<Rightarrow> Inl err
          | Inr h \<Rightarrow> (let ls = transfer_logs_after w hid after_seq sz in Inr (ls, after_seq + int (length ls)))))"

definition transfer_ws_token :: "'e transfer_env_scheme \<Rightarrow> current_user \<Rightarrow> int \<Rightarrow> int \<Rightarrow> 'z transfer_db_scheme \<Rightarrow> string res" where
  "transfer_ws_token e u tid hid w =
     (case transfer_guard ''transfer:task:log'' ''view'' u tid w of
        Inl err \<Rightarrow> Inl err
      | Inr t \<Rightarrow> (case host_of_task tid hid w of
            Inl err \<Rightarrow> Inl err
          | Inr h \<Rightarrow> Inr (create_token (env.truncate e) hid ''ws'' 300 [])))"

definition send_stop :: "'e transfer_env_scheme \<Rightarrow> int \<Rightarrow> transfer_host \<Rightarrow> 'z transfer_db_scheme \<Rightarrow> 'z transfer_db_scheme" where
  "send_stop e hid h w =
     (case agent_of w (fh_host_id h) of
        None \<Rightarrow> w
      | Some a \<Rightarrow> if agent_reachable e a then send_frame a (TransferStop hid) w else w)"

definition stop_one :: "'e transfer_env_scheme \<Rightarrow> int \<times> transfer_host \<Rightarrow> 'z transfer_db_scheme \<Rightarrow> 'z transfer_db_scheme" where
  "stop_one e th w =
     (let (hid, h) = th
      in if fh_active (fh_status h)
         then (let w1 = upd_fhost hid (\<lambda>r. r\<lparr>fh_status := FCanceled, fh_finished_at := Some (now e)\<rparr>) w
               in if fh_status h \<noteq> FPending then send_stop e hid h w1 else w1)
         else w)"

definition transfer_stop_task ::
  "'e transfer_env_scheme \<Rightarrow> current_user \<Rightarrow> int \<Rightarrow> 'z transfer_db_scheme \<Rightarrow> 'z transfer_db_scheme res" where
  "transfer_stop_task e u tid w =
     (case transfer_guard ''transfer:task:stop'' ''stop'' u tid w of
        Inl err \<Rightarrow> Inl err
      | Inr t \<Rightarrow>
          if ft_status t \<noteq> FTProcessing then Inl (BadRequestError ''task not processing'')
          else (case transfer_optimistic_update tid FTProcessing FTCanceled (ft_version t) w of
                  (False, _) \<Rightarrow> Inl (ConflictError ''task state changed concurrently'')
                | (True, w1) \<Rightarrow>
                    (let w2 = upd_ftask tid (\<lambda>r. r\<lparr>ft_finished_at := Some (now e)\<rparr>) w1
                     in Inr (fold (stop_one e) (fhosts_by_task w2 tid) w2))))"

definition retry_host ::
  "'e transfer_env_scheme \<Rightarrow> current_user \<Rightarrow> int \<Rightarrow> int \<Rightarrow> 'z transfer_db_scheme \<Rightarrow> int res \<times> 'z transfer_db_scheme" where
  "retry_host e u tid hid w =
     (case transfer_guard ''transfer:task:retry'' ''retry'' u tid w of
        Inl err \<Rightarrow> (Inl err, w)
      | Inr t \<Rightarrow>
          (case host_of_task tid hid w of
             Inl err \<Rightarrow> (Inl err, w)
           | Inr h \<Rightarrow>
               if fh_status h \<notin> {FFailed, FVerifyFailed, FDegraded, FCanceled} then (Inl (BadRequestError ''host not retryable''), w)
               else (let (ok, w1) = (if ft_status t \<noteq> FTProcessing
                       then (case transfer_optimistic_update tid (ft_status t) FTProcessing (ft_version t) w of
                               (b, w') \<Rightarrow> (b, upd_ftask tid (\<lambda>r. r\<lparr>ft_finished_at := None\<rparr>) w'))
                       else (True, w))
                     in if \<not> ok then (Inl (ConflictError ''task state changed concurrently''), w)
                        else (let w2 = upd_fhost hid (\<lambda>r. r\<lparr>fh_status := FPending, fh_error := None, fh_verify_sha256 := None,
                                         fh_finished_at := None\<rparr>) w1
                              in case kick_off_transfer e tid w2 of
                                   (Inl err, w3) \<Rightarrow> (Inl err, w3)
                                 | (Inr _, w3) \<Rightarrow> (Inr hid, w3)))))"

section \<open>The streaming thread\<close>

text \<open>\<open>chunk_size x 8 / (limit x 1024 x 1024) x 1000\<close> milliseconds between two chunks.\<close>

definition chunk_interval_ms :: "int \<Rightarrow> int option \<Rightarrow> rat" where
  "chunk_interval_ms cs limit =
     (case limit of None \<Rightarrow> 0
      | Some l \<Rightarrow> if l \<le> 0 then 0 else max 0 (of_int (cs * 8) / of_int (l * 1024 * 1024) * 1000))"

function file_chunks :: "nat \<Rightarrow> int \<Rightarrow> string \<Rightarrow> (int \<times> string) list" where
  "file_chunks n off data =
     (if data = [] \<or> n = 0 then []
      else (off, take n data) # file_chunks n (off + int (length (take n data))) (drop n data))"
  by pat_completeness auto

termination
  by (relation "measure (\<lambda>(n, off, data). length data)") auto

declare file_chunks.simps [simp del]

text \<open>One thread to its end while the agent stays reachable, or to its first frame when it is not. After
  the last chunk the thread reads \<open>host.agent_id\<close> of the transfer host, which has no such attribute:
  the exception is caught and no \<open>file_verify\<close> frame is sent. A negative offset fails the seek.\<close>

definition run_stream :: "'e transfer_env_scheme \<Rightarrow> stream_job \<Rightarrow> 'z transfer_db_scheme \<Rightarrow> 'z transfer_db_scheme" where
  "run_stream e j w =
     (case tget (file_packages w) (fi_package_id (sj_item j)) of
        None \<Rightarrow> w
      | Some p \<Rightarrow>
          (case store_fs w (fp_store_path p @ ''/'' @ fi_rel_path (sj_item j)) of
             None \<Rightarrow> upd_fhost (sj_host j) (\<lambda>h. h\<lparr>fh_status := FFailed\<rparr>) w
           | Some data \<Rightarrow>
               if sj_offset j < 0 \<or> \<not> agent_reachable e (sj_agent j) then w
               else w\<lparr>wire := wire w @ map (\<lambda>(off, bytes). (sj_agent j, FileChunk (sj_host j) (fi_rel_path (sj_item j)) off bytes))
                        (file_chunks (nat (fi_chunk_size (sj_item j))) (sj_offset j) (drop (nat (sj_offset j)) data))\<rparr>))"

definition run_job :: "'e transfer_env_scheme \<Rightarrow> 'z transfer_db_scheme \<Rightarrow> 'z transfer_db_scheme" where
  "run_job e w = (case jobs w of [] \<Rightarrow> w | j # js \<Rightarrow> run_stream e j (w\<lparr>jobs := js\<rparr>))"

section \<open>Frames of agents\<close>

definition transfer_chunk_ack :: "int \<Rightarrow> int \<Rightarrow> 'z transfer_db_scheme \<Rightarrow> 'z transfer_db_scheme" where
  "transfer_chunk_ack hid off w = upd_fhost hid (\<lambda>h. h\<lparr>fh_current_offset := off\<rparr>) w"

definition pull_store_path :: "'e transfer_env_scheme \<Rightarrow> int \<Rightarrow> string option \<Rightarrow> string" where
  "pull_store_path e tid src =
     store_dir e @ ''/pull/'' @ show_int tid @ ''/'' @
       (let name = strip (base_name (case src of None \<Rightarrow> ''file'' | Some s \<Rightarrow> if s = [] then ''file'' else s))
        in if name = [] then ''file'' else name)"

text \<open>Appending to the file; a name that is a step opens a directory, and the exception ends the frame.\<close>

definition transfer_pull_chunk ::
  "'e transfer_env_scheme \<Rightarrow> int \<Rightarrow> int \<Rightarrow> string \<Rightarrow> 'z transfer_db_scheme \<Rightarrow> 'z transfer_db_scheme" where
  "transfer_pull_chunk e hid off payload w =
     (case tget (transfer_hosts w) hid of
        None \<Rightarrow> w
      | Some h \<Rightarrow>
          (case tget (transfer_tasks w) (fh_task_id h) of
             None \<Rightarrow> w
           | Some t \<Rightarrow>
               if ft_mode t \<noteq> ''pull'' \<or> payload = [] then w
               else (let path = pull_store_path e (fh_task_id h) (ft_source_host_path t)
                     in if base_name path \<in> {''.'', ''..''} then w
                        else upd_fhost hid (\<lambda>h. h\<lparr>fh_current_offset := off + int (length payload)\<rparr>)
                               (w\<lparr>store_fs := (store_fs w)(path \<mapsto> (case store_fs w path of None \<Rightarrow> [] | Some d \<Rightarrow> d) @ payload)\<rparr>))))"

definition expected_sha256 :: "'z transfer_db_scheme \<Rightarrow> transfer_task \<Rightarrow> string option" where
  "expected_sha256 w t =
     (if ft_mode t = ''push'' \<and> int_truthy (ft_package_id t)
      then (case items_by_package w (the (ft_package_id t)) of [(i, it)] \<Rightarrow> Some (fi_sha256 it) | _ \<Rightarrow> None)
      else None)"

definition result_host_status :: "string \<Rightarrow> transfer_status" where
  "result_host_status s =
     (if s = ''success'' then FSuccess else if s = ''verify_failed'' then FVerifyFailed
      else if s = ''canceled'' then FCanceled else FFailed)"

text \<open>The status, digest and error a \<open>file_result\<close> frame leaves on the host.\<close>

definition judge_result ::
  "'z transfer_db_scheme \<Rightarrow> transfer_task \<Rightarrow> string option \<Rightarrow> string option \<Rightarrow> string option \<Rightarrow>
   transfer_status \<times> string option \<times> string option" where
  "judge_result w t status sha err =
     (let st = (case status of None \<Rightarrow> ''success'' | Some s \<Rightarrow> s);
          got = lower (case sha of None \<Rightarrow> [] | Some s \<Rightarrow> s);
          expected = expected_sha256 w t
      in if ft_verify t \<noteq> 0 \<and> got \<noteq> [] \<and> str_truthy expected \<and> got \<noteq> lower (the expected)
         then (FVerifyFailed, Some got, Some (''sha256 mismatch (expect '' @ the expected @ '', got '' @ got @ '')''))
         else (result_host_status st, if got = [] then None else Some got, err))"

definition transfer_result ::
  "'e transfer_env_scheme \<Rightarrow> int \<Rightarrow> string option \<Rightarrow> string option \<Rightarrow> string option \<Rightarrow> 'z transfer_db_scheme \<Rightarrow> 'z transfer_db_scheme" where
  "transfer_result e hid status sha err w =
     (case tget (transfer_hosts w) hid of
        None \<Rightarrow> w
      | Some h \<Rightarrow>
          (case tget (transfer_tasks w) (fh_task_id h) of
             None \<Rightarrow> w
           | Some t \<Rightarrow>
               (let (st, got, err') = judge_result w t status sha err;
                    s = begin_session w;
                    s1 = (if ft_mode t = ''pull'' \<and> st = FSuccess
                          then session_log hid ''info'' (''pulled to '' @ pull_store_path e (fh_task_id h) (ft_source_host_path t)) s else s);
                    (r, s2) = commit (sql (upd_fhost hid (\<lambda>x. x\<lparr>fh_status := st, fh_verify_sha256 := got, fh_error := err',
                                fh_finished_at := Some (now e)\<rparr>)) s1)
                in close_session_db (snd (maybe_finalize e (fh_task_id h) t s2)))))"

end
