(* ===== verification/Transfer_Facts.thy ===== *)
theory Transfer_Facts
  imports Transfer_Service
begin

text \<open>
  Lemmas on file transfer: the chunks of a file are its slices, a session in which two log rows
  clash can commit nothing more, and what a dispatch leaves.
\<close>


section \<open>Streaming\<close>

lemma file_chunks_Nil [simp]: "file_chunks n off [] = []"
  by (simp add: file_chunks.simps)

lemma concat_file_chunks: "0 < n \<Longrightarrow> concat (map snd (file_chunks n off data)) = data"
proof (induction n off data rule: file_chunks.induct)
  case (1 n off data)
  then show ?case by (cases "data = []") (simp_all add: file_chunks.simps [of n off data])
qed

text \<open>The chunks are the slices of the file from the offset on.\<close>

lemma file_chunks_slices:
  assumes "0 < n" and "k \<le> length data"
  shows "file_chunks n (int k) (drop k data) =
    map (\<lambda>i. (int (k + i * n), take n (drop (k + i * n) data))) [0..<(length data - k + n - 1) div n]"
  using assms(2)
proof (induction "length data - k" arbitrary: k rule: less_induct)
  case less
  show ?case
  proof (cases "k = length data")
    case True
    then show ?thesis using assms(1) by (simp add: file_chunks.simps)
  next
    case False
    with less.prems have lt: "k < length data" by simp
    let ?k = "min (k + n) (length data)"
    have step: "file_chunks n (int k) (drop k data) = (int k, take n (drop k data)) # file_chunks n (int ?k) (drop ?k data)"
      using lt assms(1) by (subst file_chunks.simps) (auto simp: min_def add.commute)
    have m: "(length data - k + n - 1) div n = Suc ((length data - ?k + n - 1) div n)"
    proof (cases "k + n \<le> length data")
      case True
      then have eq: "length data - k + n - 1 = (length data - ?k + n - 1) + n" using assms(1) by simp
      have "(x + n) div n = Suc (x div n)" for x using assms(1) by simp
      from this [of "length data - ?k + n - 1"] show ?thesis unfolding eq .
    next
      case False
      then have eq: "length data - k + n - 1 = (length data - k - 1) + n" and small: "length data - k - 1 < n" using lt by simp_all
      have "(x + n) div n = Suc 0" if "x < n" for x using that by simp
      from this [OF small] have "(length data - k + n - 1) div n = Suc 0" unfolding eq .
      moreover have "(length data - ?k + n - 1) div n = 0" using False assms(1) by simp
      ultimately show ?thesis by simp
    qed
    have "file_chunks n (int ?k) (drop ?k data) =
        map (\<lambda>i. (int (?k + i * n), take n (drop (?k + i * n) data))) [0..<(length data - ?k + n - 1) div n]"
      using less.hyps [of ?k] lt assms(1) by auto
    also have "\<dots> = map (\<lambda>i. (int (k + Suc i * n), take n (drop (k + Suc i * n) data))) [0..<(length data - ?k + n - 1) div n]"
    proof (cases "k + n \<le> length data")
      case True
      then have "?k = k + n" by simp
      then show ?thesis by (simp add: algebra_simps)
    next
      case False
      then have "(length data - ?k + n - 1) div n = 0" using assms(1) by simp
      then show ?thesis by simp
    qed
    finally show ?thesis unfolding step m by (simp add: map_upt_Suc algebra_simps del: upt_Suc)
  qed
qed

section \<open>Sessions and dispatch\<close>

definition clash :: "'w session \<Rightarrow> bool" where
  "clash s = (\<not> distinct (map (\<lambda>l. (fl_host_id l, fl_seq l)) (added s)))"

lemma commit_clash: "clash s \<Longrightarrow> commit s = (True, s)"
  by (simp add: commit_def clash_def)

lemma commit_clean: "\<not> clash s \<Longrightarrow> commit s =
    (False, begin_session ((working s)\<lparr>transfer_logs := fold tadd (added s) (transfer_logs (working s))\<rparr>))"
  by (simp add: commit_def clash_def begin_session_def Let_def)

lemma clash_sql [simp]: "clash (sql f s) = clash s"
  by (simp add: clash_def sql_def)

lemma clash_log: "clash s \<Longrightarrow> clash (session_log hid lvl c s)"
  by (simp add: clash_def session_log_def)

lemma committed_simps [simp]:
  "committed (sql f s) = committed s" "committed (session_log hid lvl c s) = committed s"
  "working (session_log hid lvl c s) = working s" "working (sql f s) = f (working s)"
  "added (sql f s) = added s" "working (begin_session w) = w" "committed (begin_session w) = w" "added (begin_session w) = []"
  by (simp_all add: sql_def session_log_def begin_session_def)

text \<open>A session in which two rows clash can commit nothing more: the next host ends the dispatch.\<close>

lemma dispatch_host_clash:
  assumes "clash s"
  shows "fst (dispatch_host e t th s) \<and> committed (snd (dispatch_host e t th s)) = committed s"
proof -
  obtain hid h where th: "th = (hid, h)" by fastforce
  have "mark_degraded e hid r s = (True, session_log hid ''error'' (''channel unavailable: '' @ r)
      (sql (upd_fhost hid (\<lambda>h. h\<lparr>fh_status := FDegraded, fh_error := Some r, fh_finished_at := Some (now e)\<rparr>)) s))" for r
    unfolding mark_degraded_def mark_host_def using assms by (simp add: commit_clash clash_log)
  then show ?thesis
    using assms by (simp add: dispatch_host_def th commit_clash)
qed

lemma push_sends:
  assumes "agent_of w (fh_host_id h) = Some a" and "agent_reachable e a"
  shows "\<exists>w'. push e t hid h it w = (True, w') \<and> hosts w' = hosts w \<and> transfer_logs w' = transfer_logs w"
  using assms by (simp add: push_def send_frame_def)

text \<open>Sending every file adds a row for each of them, all with the number of the row before.\<close>

lemma push_items_logs:
  assumes "agent_of (working s) (fh_host_id h) = Some a" and "agent_reachable e a"
  shows "\<exists>s'. push_items e t hid h its s = (False, s') \<and> committed s' = committed s \<and>
    (\<exists>new. added s' = added s @ new \<and> length new = length its \<and>
      (\<forall>l \<in> set new. fl_host_id l = hid \<and> fl_seq l = transfer_max_seq (working s) hid + 1))"
  using assms(1)
proof (induction its arbitrary: s)
  case Nil
  then show ?case by simp
next
  case (Cons it its)
  let ?c = "''transfer file '' @ fi_rel_path (snd it) @ '' size='' @ show_int (fi_size (snd it)) @
      '' verify='' @ (if ft_verify t \<noteq> 0 then ''True'' else ''False'')"
  let ?s = "session_log hid ''info'' ?c s"
  obtain w' where p: "push e t hid h it (working s) = (True, w')" and w': "hosts w' = hosts (working s)" "transfer_logs w' = transfer_logs (working s)"
    using push_sends [OF Cons.prems assms(2)] by blast
  have "agent_of (working (sql (\<lambda>_. w') ?s)) (fh_host_id h) = Some a"
    using Cons.prems w'(1) by (simp add: agent_of_def)
  from Cons.IH [OF this] obtain s' new where s': "push_items e t hid h its (sql (\<lambda>_. w') ?s) = (False, s')" "committed s' = committed s"
    and new: "added s' = added ?s @ new" "length new = length its"
      "\<forall>l \<in> set new. fl_host_id l = hid \<and> fl_seq l = transfer_max_seq w' hid + 1"
    by auto
  have "transfer_max_seq w' hid = transfer_max_seq (working s) hid" using w'(2) by (simp add: transfer_max_seq_def)
  with s' new p show ?case
    by (intro exI [of _ s']) (auto simp: session_log_def)
qed

lemma push_items_clash:
  assumes "agent_of (working s) (fh_host_id h) = Some a" and "agent_reachable e a" and "its \<noteq> []"
    and "l \<in> set (added s)" and "fl_host_id l = hid" and "fl_seq l = transfer_max_seq (working s) hid + 1"
  shows "\<exists>s'. push_items e t hid h its s = (False, s') \<and> committed s' = committed s \<and> clash s'"
proof -
  from push_items_logs [OF assms(1,2), of t hid its] obtain s' new where s': "push_items e t hid h its s = (False, s')" "committed s' = committed s"
    and new: "added s' = added s @ new" "length new = length its"
      "\<forall>l \<in> set new. fl_host_id l = hid \<and> fl_seq l = transfer_max_seq (working s) hid + 1" by blast
  from assms(3) new(2) obtain x where "x \<in> set new" by (metis length_0_conv list.set_intros(1) neq_Nil_conv)
  with new(3) assms(4-6) have "\<not> distinct (map (\<lambda>l. (fl_host_id l, fl_seq l)) (added s @ new))"
    by (auto simp: image_iff)
  with s' new(1) show ?thesis by (auto simp: clash_def)
qed

lemma begin_clean [simp]: "\<not> clash (begin_session w)"
  by (simp add: clash_def)

text \<open>The first host that is sent its files leaves a session that clashes; its own status is committed.\<close>

lemma dispatch_first:
  assumes "resolve_agent_channel e w (fh_host_id h)" and "agent_of w (fh_host_id h) = Some a" and "agent_reachable e a"
    and "ft_mode t = ''push''" and "ft_package_id t = Some pid" and "items_by_package w pid \<noteq> []"
  shows "\<exists>s. dispatch_host e t (hid, h) (begin_session w) = (False, s) \<and> clash s \<and>
    committed s = upd_fhost hid (\<lambda>r. r\<lparr>fh_status := FTransferring, fh_started_at := Some (now e)\<rparr>) w"
proof -
  let ?w = "upd_fhost hid (\<lambda>r. r\<lparr>fh_status := FTransferring, fh_started_at := Some (now e)\<rparr>) w"
  let ?s = "session_log hid ''info'' (''channel=agent mode='' @ ft_mode t @ '' target='' @ ft_target_path t) (begin_session ?w)"
  have c: "commit (sql (upd_fhost hid (\<lambda>r. r\<lparr>fh_status := FTransferring, fh_started_at := Some (now e)\<rparr>)) (begin_session w)) =
      (False, begin_session ?w)"
    by (simp add: commit_clean)
  have its: "items_by_package ?w pid = items_by_package w pid" and ag: "agent_of ?w = agent_of w"
    by (simp_all add: items_by_package_def upd_fhost_def agent_of_def fun_eq_iff)
  have "\<exists>l \<in> set (added ?s). fl_host_id l = hid \<and> fl_seq l = transfer_max_seq (working ?s) hid + 1"
    by (simp add: session_log_def)
  then obtain l where l: "l \<in> set (added ?s)" "fl_host_id l = hid" "fl_seq l = transfer_max_seq (working ?s) hid + 1" by blast
  have "agent_of (working ?s) (fh_host_id h) = Some a" using assms(2) by (simp add: ag)
  from push_items_clash [OF this assms(3,6) l, of t] obtain s where
    "push_items e t hid h (items_by_package w pid) ?s = (False, s)" "committed s = ?w" "clash s" by auto
  then show ?thesis
    using assms(1,4,5,6) c its by (auto simp: dispatch_host_def run_transfer_def)
qed

lemma dispatch_two_hosts:
  assumes "resolve_agent_channel e w (fh_host_id h)" and "agent_of w (fh_host_id h) = Some a" and "agent_reachable e a"
    and "ft_mode t = ''push''" and "ft_package_id t = Some pid" and "items_by_package w pid \<noteq> []"
    and "fh_status h = FPending" and "fh_status h' = FPending"
  shows "\<exists>s. dispatch_hosts e t ((hid, h) # (hid', h') # ths) (begin_session w) = (True, s) \<and>
    committed s = upd_fhost hid (\<lambda>r. r\<lparr>fh_status := FTransferring, fh_started_at := Some (now e)\<rparr>) w"
proof -
  from dispatch_first [OF assms(1-6), of hid] obtain s where s: "dispatch_host e t (hid, h) (begin_session w) = (False, s)" "clash s"
    "committed s = upd_fhost hid (\<lambda>r. r\<lparr>fh_status := FTransferring, fh_started_at := Some (now e)\<rparr>) w" by blast
  obtain s' where s': "dispatch_host e t (hid', h') s = (True, s')" "committed s' = committed s"
    using dispatch_host_clash [OF s(2), of e t "(hid', h')"] by (metis prod.collapse)
  show ?thesis using s s' assms(7,8) by simp
qed

section \<open>Finalising\<close>

lemma filter_length_all: "length (filter P xs) = length xs \<longleftrightarrow> (\<forall>x \<in> set xs. P x)"
  by (induction xs) (auto simp: Suc_le_eq dest: le_neq_implies_less [OF length_filter_le] intro: le_imp_less_Suc [THEN less_imp_neq])

lemma transfer_cas_hit:
  assumes "tget (transfer_tasks w) tid = Some t" and "ft_status t = from"
  shows "transfer_optimistic_update tid from to (ft_version t) w = (True, upd_ftask tid (put_ftask to (ft_version t + 1)) w)"
  using assms by (simp add: transfer_optimistic_update_def cas_row_def cas_matches_def upd_ftask_def)

end
