(* ===== verification/Transfer_Properties.thy ===== *)
theory Transfer_Properties
  imports Transfer_Facts Samples
begin

text \<open>The properties of file transfer, each with a witness on a small installation.\<close>





text \<open>A task that pushes to two or more hosts breaks off after the first: the log rows of that host clash
  when the next host is to be committed, the call fails with an integrity error, the first host stays
  in transfer with its rows lost, and the second one stays pending.\<close>

lemma multi_host_push_aborts:
  assumes "tget (transfer_tasks w) tid = Some t" and "ft_status t = FTProcessing" and "ft_mode t = ''push''"
    and "ft_package_id t = Some pid" and "items_by_package w pid \<noteq> []" and "table_ok (transfer_hosts w)"
    and "fhosts_by_task w tid = (i, h) # (i', h') # ths" and "fh_status h = FPending" and "fh_status h' = FPending"
    and "agent_of w (fh_host_id h) = Some a" and "agent_online e a" and "agent_reachable e a"
  shows "\<exists>w'. transfer_dispatch e tid w = (Inl (IntegrityError ''transfer_log''), w') \<and> transfer_logs w' = transfer_logs w \<and>
    map_option fh_status (tget (transfer_hosts w') i) = Some FTransferring \<and> tget (transfer_hosts w') i' = Some h'"
proof -
  have on: "resolve_agent_channel e w (fh_host_id h)" using assms(10,11) by (simp add: resolve_agent_channel_def)
  obtain s where s: "dispatch_hosts e t ((i, h) # (i', h') # ths) (begin_session w) = (True, s)"
    "committed s = upd_fhost i (\<lambda>r. r\<lparr>fh_status := FTransferring, fh_started_at := Some (now e)\<rparr>) w"
    using dispatch_two_hosts [OF on assms(10,12,3,4,5,8,9), of i i' ths] by blast
  have h: "tget (transfer_hosts w) i = Some h" "tget (transfer_hosts w) i' = Some h'"
    using in_tselect [OF assms(6), of _ _ "\<lambda>h. fh_task_id h = tid"] assms(7) by (metis fhosts_by_task_def list.set_intros)+
  have "distinct (map fst (fhosts_by_task w tid))"
    using assms(6) by (simp add: fhosts_by_task_def tselect_def table_ok_def distinct_map_filter)
  then have "i \<noteq> i'" using assms(7) by simp
  with s h show ?thesis
    using assms(1,2,7) by (auto simp: transfer_dispatch_def close_session_db_def upd_fhost_def)
qed

text \<open>When no host of a running task is active any more, the task is finalised: success if every host
  succeeded, failed if none did and one failed, did not verify or was cancelled, partial otherwise.\<close>

lemma transfer_finalised:
  assumes "tget (transfer_tasks w) tid = Some t" and "ft_status t = FTProcessing" and "fhosts_by_task w tid \<noteq> []"
    and "\<forall>(i, h) \<in> set (fhosts_by_task w tid). \<not> fh_active (fh_status h)"
  defines "all_ok \<equiv> \<forall>(i, h) \<in> set (fhosts_by_task w tid). fh_status h = FSuccess"
    and "none_ok \<equiv> \<forall>(i, h) \<in> set (fhosts_by_task w tid). fh_status h \<noteq> FSuccess"
    and "hard \<equiv> \<exists>(i, h) \<in> set (fhosts_by_task w tid). fh_status h \<in> {FFailed, FVerifyFailed, FCanceled}"
  shows "tget (transfer_tasks (close_session_db (snd (maybe_finalize e tid t (begin_session w))))) tid =
    Some (t\<lparr>ft_status := if all_ok then FTSuccess else if none_ok \<and> hard then FTFailed else FTPartial,
            ft_version := ft_version t + 1, ft_finished_at := Some (now e)\<rparr>)"
proof -
  let ?hs = "fhosts_by_task w tid"
  let ?n = "\<lambda>s. fstat w tid s"
  have act: "active_count w tid = 0" using assms(4) by (auto simp: active_count_def filter_empty_conv)
  have pos: "0 < ?n s \<longleftrightarrow> (\<exists>(i, h) \<in> set ?hs. fh_status h = s)" for s
    by (auto simp: fstat_def filter_empty_conv)
  have all: "?n FSuccess = length ?hs \<longleftrightarrow> all_ok" unfolding fstat_def filter_length_all all_ok_def by auto
  have none: "0 < ?n FSuccess \<longleftrightarrow> \<not> none_ok" unfolding pos none_ok_def by auto
  have fail: "?n FFailed + ?n FVerifyFailed + ?n FCanceled = 0 \<longleftrightarrow> \<not> hard"
    using pos [of FFailed] pos [of FVerifyFailed] pos [of FCanceled] by (auto simp: hard_def)
  have degr: "0 < ?n FDegraded" if "none_ok" "\<not> hard"
  proof -
    obtain i h where ih: "(i, h) \<in> set ?hs" using assms(3) by (metis list.set_intros(1) neq_Nil_conv surj_pair)
    with assms(4) that have "fh_status h = FDegraded"
      by (cases "fh_status h") (auto simp: none_ok_def hard_def fh_active_def)
    with ih pos show ?thesis by blast
  qed
  have ag: "transfer_aggregate (?n FSuccess) (?n FDegraded) (?n FFailed + ?n FVerifyFailed + ?n FCanceled) (length ?hs) =
      (if all_ok then FTSuccess else if none_ok \<and> hard then FTFailed else FTPartial)"
    using assms(3) all none fail degr by (auto simp: transfer_aggregate_def)
  show ?thesis
    using assms(1-3) act
    by (simp add: maybe_finalize_def ag transfer_cas_hit [OF assms(1,2)] commit_clean Let_def close_session_db_def upd_ftask_def put_ftask_def)
qed

definition transfer_sample_env :: transfer_env where
  "transfer_sample_env = env.extend (sample_env\<lparr>agent_reachable := (\<lambda>_. True), agent_online := (\<lambda>_. True)\<rparr>)
     (transfer_env.fields ''store'' ''u1'' (\<lambda>d. ''digest''))"

definition transfer_sample_db :: transfer_db where
  "transfer_sample_db = ticket_db.extend sample_db
     (transfer_db.fields empty_table empty_table empty_table empty_table 0 (\<lambda>_. None) [] [] [])"

definition package_db :: transfer_db where
  "package_db = snd (create_package transfer_sample_env sample_user [(''a.txt'', ''hello'')] ''p''
     (transfer_sample_db\<lparr>config_rules := [(''transfer.chunk_size'', [(''chunk_size'', JInt 2)])]\<rparr>))"

definition push_req :: transfer_req where
  "push_req = \<lparr>fq_mode = ''push'', fq_package_id = Some 1, fq_source_host_id = None, fq_source_host_path = None, fq_target_path = ''/tmp'',
     fq_host_ids = [1, 2], fq_overwrite = 0, fq_verify = 1, fq_limit_mbps = None\<rparr>"

text \<open>The task is created where no agent is connected and handed to the broker.\<close>

definition queued_db :: transfer_db where
  "queued_db = snd (transfer_create_task (transfer_sample_env\<lparr>agent_online := (\<lambda>_. False)\<rparr>) sample_user push_req package_db)"



lemma multi_host_push_aborts_witness:
  "\<exists>w'. transfer_dispatch transfer_sample_env 1 queued_db = (Inl (IntegrityError ''transfer_log''), w') \<and>
     map_option fh_status (tget (transfer_hosts w') 1) = Some FTransferring"
proof -
  let ?t = "the (tget (transfer_tasks queued_db) 1)"
  let ?h = "the (tget (transfer_hosts queued_db) 1)" and ?h' = "the (tget (transfer_hosts queued_db) 2)"
  have f: "tget (transfer_tasks queued_db) 1 = Some ?t" "ft_status ?t = FTProcessing" "ft_mode ?t = ''push''" "ft_package_id ?t = Some 1"
    "items_by_package queued_db 1 \<noteq> []" "table_ok (transfer_hosts queued_db)" "fhosts_by_task queued_db 1 = (1, ?h) # (2, ?h') # []"
    "fh_status ?h = FPending" "fh_status ?h' = FPending" "agent_of queued_db (fh_host_id ?h) = Some ''a1''"
    "agent_online transfer_sample_env ''a1''" "agent_reachable transfer_sample_env ''a1''"
    by code_simp+
  from multi_host_push_aborts [OF f] show ?thesis by blast
qed

definition ended_db :: transfer_db where
  "ended_db = upd_fhost 2 (\<lambda>h. h\<lparr>fh_status := FDegraded\<rparr>) (upd_fhost 1 (\<lambda>h. h\<lparr>fh_status := FSuccess\<rparr>) queued_db)"

lemma transfer_finalised_witness:
  "map_option ft_status (tget (transfer_tasks (close_session_db (snd (maybe_finalize transfer_sample_env 1
     (the (tget (transfer_tasks ended_db) 1)) (begin_session ended_db))))) 1) = Some FTPartial"
proof -
  let ?t = "the (tget (transfer_tasks ended_db) 1)"
  have f: "tget (transfer_tasks ended_db) 1 = Some ?t" "ft_status ?t = FTProcessing" "fhosts_by_task ended_db 1 \<noteq> []"
    "\<forall>(i, h) \<in> set (fhosts_by_task ended_db 1). \<not> fh_active (fh_status h)"
    "\<not> (\<forall>(i, h) \<in> set (fhosts_by_task ended_db 1). fh_status h = FSuccess)"
    "\<not> (\<forall>(i, h) \<in> set (fhosts_by_task ended_db 1). fh_status h \<noteq> FSuccess)" by code_simp+
  from transfer_finalised [OF f(1-4), of transfer_sample_env] f(5,6) show ?thesis by simp
qed

section \<open>Stopping\<close>

lemma stop_one_cases:
  "transfer_hosts (stop_one e (i, h) w) = (if fh_active (fh_status h)
     then tupd i (\<lambda>r. r\<lparr>fh_status := FCanceled, fh_finished_at := Some (now e)\<rparr>) (transfer_hosts w) else transfer_hosts w)"
  "transfer_tasks (stop_one e (i, h) w) = transfer_tasks w" "hosts (stop_one e (i, h) w) = hosts w"
  by (auto simp: stop_one_def send_stop_def send_frame_def upd_fhost_def Let_def split: option.splits)

definition stop_frames :: "'e transfer_env_scheme \<Rightarrow> 'z transfer_db_scheme \<Rightarrow> int \<times> transfer_host \<Rightarrow> (string \<times> transfer_frame) list" where
  "stop_frames e w th = (case th of (i, h) \<Rightarrow>
     if fh_active (fh_status h) \<and> fh_status h \<noteq> FPending
     then (case agent_of w (fh_host_id h) of None \<Rightarrow> [] | Some a \<Rightarrow> if agent_reachable e a then [(a, TransferStop i)] else []) else [])"

lemma stop_one_wire: "wire (stop_one e th w) = wire w @ stop_frames e w th"
  by (auto simp: stop_one_def stop_frames_def send_stop_def send_frame_def upd_fhost_def agent_of_def Let_def split: option.splits prod.splits)

lemma fold_stop:
  fixes w :: "'z transfer_db_scheme"
  assumes "distinct (map fst ths)" and "\<And>i h. (i, h) \<in> set ths \<Longrightarrow> tget (transfer_hosts w) i = Some h"
  shows "tget (transfer_hosts (fold (stop_one e) ths w)) k = (case tget (transfer_hosts w) k of None \<Rightarrow> None
      | Some h \<Rightarrow> Some (if (k, h) \<in> set ths \<and> fh_active (fh_status h) then h\<lparr>fh_status := FCanceled, fh_finished_at := Some (now e)\<rparr> else h))"
    "transfer_tasks (fold (stop_one e) ths w) = transfer_tasks w"
    "wire (fold (stop_one e) ths w) = wire w @ concat (map (stop_frames e w) ths)"
proof -
  show "transfer_tasks (fold (stop_one e) ths w) = transfer_tasks w"
    by (induction ths arbitrary: w) (auto simp: stop_one_cases split: prod.splits)
  have "wire (fold (stop_one e) ths v) = wire v @ concat (map (stop_frames e w) ths)" if "hosts v = hosts w" for v :: "'z transfer_db_scheme"
    using that
  proof (induction ths arbitrary: v)
    case (Cons th ths)
    obtain i h where th: "th = (i, h)" by fastforce
    have ag: "agent_of v = agent_of w" using Cons.prems by (simp add: agent_of_def fun_eq_iff)
    have "stop_frames e v th = stop_frames e w th" unfolding stop_frames_def ag by (rule refl)
    with Cons show ?case by (simp add: stop_one_wire th stop_one_cases)
  qed simp
  then show "wire (fold (stop_one e) ths w) = wire w @ concat (map (stop_frames e w) ths)" by simp
  show "tget (transfer_hosts (fold (stop_one e) ths w)) k = (case tget (transfer_hosts w) k of None \<Rightarrow> None
      | Some h \<Rightarrow> Some (if (k, h) \<in> set ths \<and> fh_active (fh_status h) then h\<lparr>fh_status := FCanceled, fh_finished_at := Some (now e)\<rparr> else h))"
    using assms
  proof (induction ths arbitrary: w)
    case Nil
    then show ?case by (simp split: option.splits)
  next
    case (Cons th ths)
    obtain i h where th: "th = (i, h)" by fastforce
    let ?w = "stop_one e (i, h) w"
    have ni: "i \<notin> fst ` set ths" and d: "distinct (map fst ths)" using Cons.prems(1) th by auto
    have hi: "tget (transfer_hosts w) i = Some h" using Cons.prems(2) th by simp
    have "tget (transfer_hosts ?w) i' = Some h'" if "(i', h') \<in> set ths" for i' h'
    proof -
      from that ni have "i' \<noteq> i" by force
      with Cons.prems(2) [of i' h'] that show ?thesis by (simp add: stop_one_cases)
    qed
    note IH = Cons.IH [OF d this]
    show ?case
    proof (cases "k = i")
      case True
      with ni have "(k, x) \<notin> set ths" for x by force
      with True show ?thesis using IH hi th by (simp add: stop_one_cases)
    next
      case False
      then show ?thesis using IH th by (simp add: stop_one_cases split: option.split)
    qed
  qed
qed

text \<open>Stopping a task settles it: the task is cancelled, each of its hosts that was active is cancelled and
  the others are left, agents that were at work are told to stop, and a later dispatch does nothing.\<close>

lemma stop_settles_transfer:
  assumes "table_ok (transfer_hosts w)" and "transfer_stop_task e u tid w = Inr w'"
  shows "(\<exists>t. tget (transfer_tasks w) tid = Some t \<and> tget (transfer_tasks w') tid = Some (t\<lparr>ft_status := FTCanceled,
        ft_version := ft_version t + 1, ft_finished_at := Some (now e)\<rparr>)) \<and>
    (\<forall>k h. tget (transfer_hosts w) k = Some h \<longrightarrow> tget (transfer_hosts w') k = Some (if fh_task_id h = tid \<and> fh_active (fh_status h)
        then h\<lparr>fh_status := FCanceled, fh_finished_at := Some (now e)\<rparr> else h)) \<and>
    wire w' = wire w @ concat (map (stop_frames e w) (fhosts_by_task w tid)) \<and>
    transfer_dispatch e' tid w' = (Inr False, w')"
proof -
  from assms(2) obtain t where t: "tget (transfer_tasks w) tid = Some t" "ft_status t = FTProcessing"
    by (auto simp: transfer_stop_task_def transfer_guard_def split: sum.splits if_splits option.splits)
  define w2 where "w2 = upd_ftask tid (\<lambda>r. r\<lparr>ft_finished_at := Some (now e)\<rparr>) (upd_ftask tid (put_ftask FTCanceled (ft_version t + 1)) w)"
  have fr: "transfer_hosts w2 = transfer_hosts w" "wire w2 = wire w" "hosts w2 = hosts w"
    by (simp_all add: w2_def upd_ftask_def)
  have byt: "fhosts_by_task w2 tid = fhosts_by_task w tid" by (simp add: fhosts_by_task_def fr)
  have w': "w' = fold (stop_one e) (fhosts_by_task w tid) w2"
    using assms(2) t by (simp add: transfer_stop_task_def transfer_guard_def transfer_cas_hit [OF t] w2_def [symmetric] byt split: if_splits)
  have d: "distinct (map fst (fhosts_by_task w tid))"
    using assms(1) by (simp add: fhosts_by_task_def tselect_def table_ok_def distinct_map_filter)
  have mem: "(i, h) \<in> set (fhosts_by_task w tid) \<longleftrightarrow> tget (transfer_hosts w) i = Some h \<and> fh_task_id h = tid" for i h
    using in_tselect [OF assms(1)] by (simp add: fhosts_by_task_def)
  have pre: "tget (transfer_hosts w2) i = Some h" if "(i, h) \<in> set (fhosts_by_task w tid)" for i h using that mem fr(1) by simp
  have ag: "agent_of w2 = agent_of w" by (simp add: agent_of_def fr fun_eq_iff)
  have sf: "stop_frames e w2 = stop_frames e w" unfolding fun_eq_iff stop_frames_def ag by (intro allI refl)
  have tasks: "tget (transfer_tasks w') tid = Some (t\<lparr>ft_status := FTCanceled, ft_version := ft_version t + 1, ft_finished_at := Some (now e)\<rparr>)"
  proof -
    have "transfer_tasks w' = transfer_tasks w2" unfolding w' by (rule fold_stop(2) [OF d pre])
    then show ?thesis using t by (simp add: w2_def upd_ftask_def put_ftask_def)
  qed
  have "transfer_dispatch e' tid w' = (Inr False, w')" using tasks by (simp add: transfer_dispatch_def)
  moreover have "tget (transfer_hosts w') k = Some (if fh_task_id h = tid \<and> fh_active (fh_status h)
        then h\<lparr>fh_status := FCanceled, fh_finished_at := Some (now e)\<rparr> else h)" if "tget (transfer_hosts w) k = Some h" for k h
    using that fold_stop(1) [OF d pre, where e = e and k = k] by (simp add: w' fr mem)
  moreover have "wire w' = wire w @ concat (map (stop_frames e w) (fhosts_by_task w tid))"
    using fold_stop(3) [OF d pre, of e] by (simp add: w' fr sf)
  ultimately show ?thesis using t tasks by blast
qed

definition stopped_db :: transfer_db where
  "stopped_db = (case transfer_stop_task transfer_sample_env sample_user 1 queued_db of Inl err \<Rightarrow> queued_db | Inr w \<Rightarrow> w)"

lemma stop_settles_transfer_witness:
  "transfer_dispatch transfer_sample_env 1 stopped_db = (Inr False, stopped_db) \<and>
   map_option fh_status (tget (transfer_hosts stopped_db) 1) = Some FCanceled \<and>
   map_option fh_status (tget (transfer_hosts stopped_db) 2) = Some FCanceled"
proof -
  let ?h = "\<lambda>k. the (tget (transfer_hosts queued_db) k)"
  have ok: "table_ok (transfer_hosts queued_db)" "\<not> isl (transfer_stop_task transfer_sample_env sample_user 1 queued_db)"
    "tget (transfer_hosts queued_db) 1 = Some (?h 1)" "tget (transfer_hosts queued_db) 2 = Some (?h 2)"
    "fh_task_id (?h 1) = 1" "fh_task_id (?h 2) = 1" "fh_active (fh_status (?h 1))" "fh_active (fh_status (?h 2))" by code_simp+
  then have s: "transfer_stop_task transfer_sample_env sample_user 1 queued_db = Inr stopped_db"
    by (cases "transfer_stop_task transfer_sample_env sample_user 1 queued_db") (simp_all add: stopped_db_def)
  have all: "transfer_dispatch transfer_sample_env 1 stopped_db = (Inr False, stopped_db)"
    "tget (transfer_hosts queued_db) k = Some h \<Longrightarrow> tget (transfer_hosts stopped_db) k = Some (if fh_task_id h = 1 \<and> fh_active (fh_status h)
        then h\<lparr>fh_status := FCanceled, fh_finished_at := Some (now transfer_sample_env)\<rparr> else h)" for k h
    using stop_settles_transfer [OF ok(1) s, of transfer_sample_env] by blast+
  show ?thesis using all(1) all(2) [OF ok(3)] all(2) [OF ok(4)] ok(5-8) by simp
qed

section \<open>Findings\<close>

text \<open>Deleting a package that a finished task names removes its files from the store and then fails: the
  row stays, and a retry of the task finds no file.\<close>

lemma delete_used_package_loses_files:
  assumes "has_perm u ''transfer:package:del''" and "tget (file_packages w) pid = Some p" and "referenced_count w pid = 0"
    and "texists (\<lambda>t. ft_package_id t = Some pid) (transfer_tasks w)"
  shows "\<exists>w'. delete_package u pid w = (Inl (IntegrityError ''transfer_task.package_id''), w') \<and>
    tget (file_packages w') pid = Some p \<and> (\<forall>rel. store_fs w' (fp_store_path p @ ''/'' @ rel) = None)"
  using assms by (simp add: delete_package_def rmtree_def starts_append Let_def)

text \<open>A result without a digest passes the verification of a task that asks for it.\<close>

lemma missing_digest_verifies: "judge_result w t (Some ''success'') None err = (FSuccess, None, err)"
  by (simp add: judge_result_def lower_def result_host_status_def)

text \<open>A host whose agent cannot be reached after it was marked stays in transfer: the row that says so
  clashes with the ones before it.\<close>

lemma unreachable_agent_raises:
  assumes "resolve_agent_channel e w (fh_host_id h)" and "agent_of w (fh_host_id h) = Some a" and "\<not> agent_reachable e a"
    and "ft_mode t = ''push''" and "ft_package_id t = Some pid" and "items_by_package w pid \<noteq> []"
  shows "fst (dispatch_host e t (hid, h) (begin_session w))"
proof -
  obtain it its where its: "items_by_package w pid = it # its" using assms(6) by (cases "items_by_package w pid") auto
  let ?w = "upd_fhost hid (\<lambda>r. r\<lparr>fh_status := FTransferring, fh_started_at := Some (now e)\<rparr>) w"
  have "items_by_package ?w pid = it # its" "agent_of ?w (fh_host_id h) = Some a"
    using its assms(2) by (simp_all add: items_by_package_def agent_of_def upd_fhost_def)
  then show ?thesis
    using assms by (simp add: dispatch_host_def run_transfer_def commit_clean push_def Let_def)
      (simp add: mark_degraded_def mark_host_def session_log_def commit_def sql_def begin_session_def)
qed

end
