(* ===== verification/Csv_Format.thy ===== *)
theory Csv_Format
  imports Prelude
begin

text \<open>
  The part of Python's \<open>csv\<close> module that the host import and export use: \<open>csv.writer\<close> and
  \<open>csv.DictReader\<close> in the default dialect over an \<open>io.StringIO\<close>. The reader is the character machine
  of the library: it sees the lines of the text one by one, each followed by an end mark
  (\<open>None\<close> below), and goes on with the next line while it is inside quotes. \<open>None\<close> as a result is
  \<open>csv.Error\<close>.
\<close>

section \<open>Writing\<close>

definition csv_special :: "char \<Rightarrow> bool" where
  "csv_special c = (c = CHR '','' \<or> c = CHR 0x22 \<or> c = CHR 0x0A \<or> c = CHR 0x0D)"

definition double_quotes :: "string \<Rightarrow> string" where
  "double_quotes s = concat (map (\<lambda>c. if c = CHR 0x22 then [c, c] else [c]) s)"

definition csv_quoted :: "string \<Rightarrow> string" where
  "csv_quoted s = [CHR 0x22] @ double_quotes s @ [CHR 0x22]"

definition csv_field :: "string \<Rightarrow> string" where
  "csv_field s = (if \<exists>c \<in> set s. csv_special c then csv_quoted s else s)"

fun join_with :: "string \<Rightarrow> string list \<Rightarrow> string" where
  "join_with sep [] = []"
| "join_with sep [s] = s"
| "join_with sep (s # t # ss) = s @ sep @ join_with sep (t # ss)"

text \<open>A row that is one empty field is written as a pair of quotes.\<close>

definition writerow :: "string list \<Rightarrow> string" where
  "writerow fs = (if fs = [[]] then csv_quoted [] else join_with '','' (map csv_field fs)) @ [CHR 0x0D, CHR 0x0A]"

section \<open>Reading\<close>

datatype csv_state = StartRecord | StartField | InField | InQuotedField | QuoteInQuotedField | EatCrnl

record csv_parse =
  cp_state :: csv_state
  cp_field :: string
  cp_fields :: "string list"

definition csv_start :: csv_parse where
  "csv_start = \<lparr>cp_state = StartRecord, cp_field = [], cp_fields = []\<rparr>"

definition save_field :: "csv_state \<Rightarrow> csv_parse \<Rightarrow> csv_parse" where
  "save_field s p = \<lparr>cp_state = s, cp_field = [], cp_fields = cp_fields p @ [cp_field p]\<rparr>"

definition add_char :: "csv_state \<Rightarrow> char \<Rightarrow> csv_parse \<Rightarrow> csv_parse" where
  "add_char s c p = p\<lparr>cp_state := s, cp_field := cp_field p @ [c]\<rparr>"

definition line_break :: "char option \<Rightarrow> bool" where
  "line_break x = (x = None \<or> x = Some (CHR 0x0A) \<or> x = Some (CHR 0x0D))"

definition after_break :: "char option \<Rightarrow> csv_state" where
  "after_break x = (if x = None then StartRecord else EatCrnl)"

definition start_field_step :: "csv_parse \<Rightarrow> char option \<Rightarrow> csv_parse" where
  "start_field_step p x =
     (if line_break x then save_field (after_break x) p
      else if x = Some (CHR 0x22) then p\<lparr>cp_state := InQuotedField\<rparr>
      else if x = Some (CHR '','') then save_field StartField p
      else add_char InField (the x) p)"

fun csv_step :: "csv_parse \<Rightarrow> char option \<Rightarrow> csv_parse option" where
  "csv_step p x =
     (case cp_state p of
        StartRecord \<Rightarrow>
          if x = None then Some p
          else if line_break x then Some (p\<lparr>cp_state := EatCrnl\<rparr>)
          else Some (start_field_step p x)
      | StartField \<Rightarrow> Some (start_field_step p x)
      | InField \<Rightarrow>
          if line_break x then Some (save_field (after_break x) p)
          else if x = Some (CHR '','') then Some (save_field StartField p)
          else Some (add_char InField (the x) p)
      | InQuotedField \<Rightarrow>
          if x = None then Some p
          else if x = Some (CHR 0x22) then Some (p\<lparr>cp_state := QuoteInQuotedField\<rparr>)
          else Some (add_char InQuotedField (the x) p)
      | QuoteInQuotedField \<Rightarrow>
          if x = Some (CHR 0x22) then Some (add_char InQuotedField (the x) p)
          else if x = Some (CHR '','') then Some (save_field StartField p)
          else if line_break x then Some (save_field (after_break x) p)
          else Some (add_char InField (the x) p)
      | EatCrnl \<Rightarrow>
          if x = None then Some (p\<lparr>cp_state := StartRecord\<rparr>)
          else if line_break x then Some p
          else None)"

declare csv_step.simps [simp del]

text \<open>The lines of the text, each with its end mark.\<close>

definition marks :: "string \<Rightarrow> char option list" where
  "marks s = concat (map (\<lambda>c. if c = CHR 0x0A then [Some c, None] else [Some c]) s)"

definition line_marks :: "string \<Rightarrow> char option list" where
  "line_marks s = marks s @ (if s = [] \<or> last s = CHR 0x0A then [] else [None])"

fun csv_run :: "csv_parse \<Rightarrow> char option list \<Rightarrow> string list list option" where
  "csv_run p [] = Some (if cp_field p \<noteq> [] \<or> cp_state p = InQuotedField then [cp_fields p @ [cp_field p]] else [])"
| "csv_run p (x # xs) =
     (case csv_step p x of
        None \<Rightarrow> None
      | Some p' \<Rightarrow> if x = None \<and> cp_state p' = StartRecord then map_option ((#) (cp_fields p')) (csv_run csv_start xs)
                  else csv_run p' xs)"

definition csv_reader :: "string \<Rightarrow> string list list option" where
  "csv_reader text = csv_run csv_start (line_marks text)"

text \<open>\<open>csv.DictReader\<close>: the first row names the columns, blank rows are left out, a later column of the
  same name wins and a short row lacks its last columns.\<close>

type_synonym csv_row = "string \<Rightarrow> string option"

definition dict_rows :: "string list list \<Rightarrow> csv_row list" where
  "dict_rows rs = (case rs of [] \<Rightarrow> [] | header # body \<Rightarrow> map (\<lambda>r. map_of (rev (zip header r))) (filter (\<lambda>r. r \<noteq> []) body))"

definition dict_reader :: "string \<Rightarrow> csv_row list option" where
  "dict_reader text = map_option dict_rows (csv_reader text)"

section \<open>Reading what was written\<close>

lemma marks_simps [simp]:
  "marks [] = []" "marks (s @ t) = marks s @ marks t"
  "marks (c # s) = (if c = CHR 0x0A then [Some c, None] else [Some c]) @ marks s"
  by (simp_all add: marks_def)

text \<open>What the machine does with each kind of character.\<close>

abbreviation parse_at :: "csv_state \<Rightarrow> string \<Rightarrow> string list \<Rightarrow> csv_parse" where
  "parse_at st f fs \<equiv> \<lparr>cp_state = st, cp_field = f, cp_fields = fs\<rparr>"

lemma step_plain:
  "\<not> csv_special c \<Longrightarrow> csv_step (parse_at InField f fs) (Some c) = Some (parse_at InField (f @ [c]) fs)"
  "\<not> csv_special c \<Longrightarrow> csv_step (parse_at StartField f fs) (Some c) = Some (parse_at InField (f @ [c]) fs)"
  "\<not> csv_special c \<Longrightarrow> csv_step (parse_at StartRecord f fs) (Some c) = Some (parse_at InField (f @ [c]) fs)"
  by (auto simp: csv_step.simps csv_special_def line_break_def add_char_def start_field_step_def)

lemma step_comma:
  "st \<in> {StartRecord, StartField, InField, QuoteInQuotedField} \<Longrightarrow>
     csv_step (parse_at st f fs) (Some (CHR '','')) = Some (parse_at StartField [] (fs @ [f]))"
  by (auto simp: csv_step.simps line_break_def save_field_def start_field_step_def)

lemma step_cr:
  "st \<in> {StartField, InField, QuoteInQuotedField} \<Longrightarrow>
     csv_step (parse_at st f fs) (Some (CHR 0x0D)) = Some (parse_at EatCrnl [] (fs @ [f]))"
  by (auto simp: csv_step.simps line_break_def save_field_def start_field_step_def after_break_def)

lemma step_eat:
  "csv_step (parse_at EatCrnl f fs) (Some (CHR 0x0A)) = Some (parse_at EatCrnl f fs)"
  "csv_step (parse_at EatCrnl f fs) None = Some (parse_at StartRecord f fs)"
  by (simp_all add: csv_step.simps line_break_def)

lemma step_quote:
  "st \<in> {StartRecord, StartField} \<Longrightarrow> csv_step (parse_at st f fs) (Some (CHR 0x22)) = Some (parse_at InQuotedField f fs)"
  "csv_step (parse_at InQuotedField f fs) (Some (CHR 0x22)) = Some (parse_at QuoteInQuotedField f fs)"
  "csv_step (parse_at QuoteInQuotedField f fs) (Some (CHR 0x22)) = Some (parse_at InQuotedField (f @ [CHR 0x22]) fs)"
  "c \<noteq> CHR 0x22 \<Longrightarrow> csv_step (parse_at InQuotedField f fs) (Some c) = Some (parse_at InQuotedField (f @ [c]) fs)"
  "csv_step (parse_at InQuotedField f fs) None = Some (parse_at InQuotedField f fs)"
  by (auto simp: csv_step.simps line_break_def start_field_step_def add_char_def)

lemmas csv_steps = step_plain step_comma step_cr step_eat step_quote

lemma run_plain:
  assumes "\<forall>c \<in> set s. \<not> csv_special c"
  shows "csv_run (parse_at InField f fs) (marks s @ rest) = csv_run (parse_at InField (f @ s) fs) rest"
  using assms
proof (induction s arbitrary: f)
  case (Cons c s)
  then have "c \<noteq> CHR 0x0A" by (auto simp: csv_special_def)
  with Cons show ?case by (simp add: csv_steps)
qed simp

lemma run_quoted:
  "csv_run (parse_at InQuotedField f fs) (marks (double_quotes s) @ rest) = csv_run (parse_at InQuotedField (f @ s) fs) rest"
proof (induction s arbitrary: f)
  case Nil
  then show ?case by (simp add: double_quotes_def)
next
  case (Cons c s)
  have d: "double_quotes (c # s) = (if c = CHR 0x22 then [c, c] else [c]) @ double_quotes s" by (simp add: double_quotes_def)
  have "csv_run (parse_at InQuotedField f fs) (marks (if c = CHR 0x22 then [c, c] else [c]) @ r) = csv_run (parse_at InQuotedField (f @ [c]) fs) r" for r
    by (simp add: csv_steps)
  with Cons.IH [of "f @ [c]"] show ?case by (simp add: d)
qed

text \<open>A field that is read from its start up to the separator or the line end after it.\<close>

lemma run_field:
  assumes s: "st = StartField \<or> st = StartRecord \<and> s \<noteq> []"
  shows "\<exists>st'. st' \<in> {StartField, InField, QuoteInQuotedField} \<and>
    (\<forall>rest. csv_run (parse_at st [] fs) (marks (csv_field s) @ rest) = csv_run (parse_at st' s fs) rest)"
proof (cases "\<exists>c \<in> set s. csv_special c")
  case True
  have "csv_run (parse_at st [] fs) (marks (csv_field s) @ rest) = csv_run (parse_at QuoteInQuotedField s fs) rest" for rest
    using True s run_quoted [of "[]" fs s "Some (CHR 0x22) # rest"] by (auto simp: csv_field_def csv_quoted_def csv_steps)
  then show ?thesis by (intro exI [of _ QuoteInQuotedField]) simp
next
  case plain: False
  show ?thesis
  proof (cases s)
    case Nil
    with s show ?thesis by (intro exI [of _ StartField]) (auto simp: csv_field_def)
  next
    case (Cons c t)
    have c: "\<not> csv_special c" "\<forall>c \<in> set t. \<not> csv_special c" "c \<noteq> CHR 0x0A" using plain Cons by (auto simp: csv_special_def)
    have st: "csv_step (parse_at st [] fs) (Some c) = Some (parse_at InField [c] fs)" using s c by (auto simp: csv_steps)
    have "csv_run (parse_at st [] fs) (marks (csv_field s) @ rest) = csv_run (parse_at InField s fs) rest" for rest
      using plain Cons c(3) st run_plain [OF c(2), of "[c]" fs rest] by (simp add: csv_field_def)
    then show ?thesis by (intro exI [of _ InField]) simp
  qed
qed

lemma run_field_comma:
  assumes "st = StartField \<or> st = StartRecord"
  shows "csv_run (parse_at st [] fs) (marks (csv_field s) @ Some (CHR '','') # rest) = csv_run (parse_at StartField [] (fs @ [s])) rest"
proof (cases "st = StartRecord \<and> s = []")
  case True
  then show ?thesis by (simp add: csv_field_def csv_steps)
next
  case False
  with assms obtain st' where "st' \<in> {StartField, InField, QuoteInQuotedField}"
    "\<forall>rest. csv_run (parse_at st [] fs) (marks (csv_field s) @ rest) = csv_run (parse_at st' s fs) rest"
    using run_field [of st s fs] by auto
  then show ?thesis by (auto simp: csv_steps)
qed

lemma run_field_cr:
  assumes "st = StartField \<or> st = StartRecord \<and> s \<noteq> []"
  shows "csv_run (parse_at st [] fs) (marks (csv_field s) @ Some (CHR 0x0D) # rest) = csv_run (parse_at EatCrnl [] (fs @ [s])) rest"
proof -
  from run_field [OF assms, of fs] obtain st' where "st' \<in> {StartField, InField, QuoteInQuotedField}"
    "\<forall>rest. csv_run (parse_at st [] fs) (marks (csv_field s) @ rest) = csv_run (parse_at st' s fs) rest" by blast
  then show ?thesis by (auto simp: csv_steps)
qed

lemma run_fields:
  assumes "st = StartField \<or> st = StartRecord \<and> fs \<noteq> [[]]" and "fs \<noteq> []"
  shows "csv_run (parse_at st [] gs) (marks (join_with '','' (map csv_field fs)) @ Some (CHR 0x0D) # rest) =
    csv_run (parse_at EatCrnl [] (gs @ fs)) rest"
  using assms
proof (induction fs arbitrary: st gs rule: induct_list012)
  case (2 f)
  then show ?case using run_field_cr [of st f] by simp
next
  case (3 f g fs)
  have "csv_run (parse_at st [] gs) (marks (join_with '','' (map csv_field (f # g # fs))) @ Some (CHR 0x0D) # rest) =
      csv_run (parse_at StartField [] (gs @ [f])) (marks (join_with '','' (map csv_field (g # fs))) @ Some (CHR 0x0D) # rest)"
    using run_field_comma [of st gs f] 3(3) by (auto simp del: csv_run.simps)
  with 3(2) [of StartField "gs @ [f]"] show ?case by simp
qed simp

lemma run_row:
  assumes "fs \<noteq> []"
  shows "csv_run csv_start (marks (writerow fs) @ rest) = map_option ((#) fs) (csv_run csv_start rest)"
proof -
  have eat: "csv_run (parse_at EatCrnl [] fs) (Some (CHR 0x0A) # None # rest) = map_option ((#) fs) (csv_run csv_start rest)"
    by (simp add: csv_steps)
  show ?thesis
  proof (cases "fs = [[]]")
    case True
    then show ?thesis by (simp add: writerow_def csv_quoted_def double_quotes_def csv_start_def csv_steps)
  next
    case False
    then have "csv_run csv_start (marks (writerow fs) @ rest) = csv_run (parse_at EatCrnl [] fs) (Some (CHR 0x0A) # None # rest)"
      using run_fields [of StartRecord fs "[]" "Some (CHR 0x0A) # None # rest"] assms by (simp add: writerow_def csv_start_def)
    then show ?thesis using eat by simp
  qed
qed

lemma last_writerow: "writerow fs \<noteq> []" "last (writerow fs) = CHR 0x0A"
  by (simp_all add: writerow_def)

lemma csv_read_written:
  assumes "\<forall>r \<in> set rs. r \<noteq> []"
  shows "csv_reader (concat (map writerow rs)) = Some rs"
proof -
  let ?t = "concat (map writerow rs)"
  have "?t = [] \<or> last ?t = CHR 0x0A"
    by (cases rs rule: rev_cases) (simp_all add: last_writerow)
  then have lm: "line_marks ?t = marks ?t" by (auto simp: line_marks_def)
  have "csv_run csv_start (marks ?t) = Some rs" using assms
  proof (induction rs)
    case Nil
    then show ?case by (simp add: csv_start_def)
  next
    case (Cons r rs)
    then show ?case by (simp add: run_row)
  qed
  with lm show ?thesis by (simp add: csv_reader_def)
qed

end
