(* ===== verification/Asset_Service.thy ===== *)
theory Asset_Service
  imports Schedule_Service Security Csv_Format
begin

text \<open>
  Host groups, hosts and host credentials (\<open>asset_service.py\<close>, \<open>GroupRepository\<close>, \<open>HostRepository\<close>,
  \<open>CredentialRepository\<close>, \<open>schemas/asset.py\<close>). Operations carry the permission their endpoint asks for
  (\<open>api/v1/endpoints/asset.py\<close>). The remark of a group, the version of an agent, the key version of a
  credential and authors are stored and shown only.
\<close>

section \<open>Rows\<close>

record asset_group =
  ag_parent_id :: int
  ag_name :: string
  ag_sort :: int

record credential =
  cd_host_id :: int
  cd_type :: string
  cd_username :: string
  cd_secret_enc :: "string option"
  cd_key_enc :: "string option"

record asset_db = sched_db +
  asset_groups :: "asset_group table"
  credentials :: "credential table"

section \<open>Groups\<close>

definition asset_perm :: "current_user \<Rightarrow> string \<Rightarrow> 'a res \<Rightarrow> 'a res" where
  "asset_perm u code r = (if \<not> has_perm u code then Inl (perm_denied code) else r)"

text \<open>\<open>ORDER BY sort, id\<close>\<close>

definition all_tree :: "'z asset_db_scheme \<Rightarrow> (int \<times> asset_group) list" where
  "all_tree w = sort_key (\<lambda>(i, g). ag_sort g) (rows (asset_groups w))"

datatype group_node = GroupNode (gn_id: int) (gn_group: asset_group) (gn_children: "group_node list")

definition child_groups :: "(int \<times> asset_group) list \<Rightarrow> int \<Rightarrow> (int \<times> asset_group) list" where
  "child_groups gs i = filter (\<lambda>(j, g). ag_parent_id g = i \<and> i \<noteq> 0) gs"

text \<open>The item of a group: the second loop of the code hangs every group under its parent's item, in the
  order of the list. Below a root the nesting is no deeper than there are groups.\<close>

fun group_item :: "nat \<Rightarrow> (int \<times> asset_group) list \<Rightarrow> int \<times> asset_group \<Rightarrow> group_node" where
  "group_item 0 gs (i, g) = GroupNode i g []"
| "group_item (Suc n) gs (i, g) = GroupNode i g (map (group_item n gs) (child_groups gs i))"

definition is_root_in :: "(int \<times> asset_group) list \<Rightarrow> int \<times> asset_group \<Rightarrow> bool" where
  "is_root_in gs x = (ag_parent_id (snd x) = 0 \<or> ag_parent_id (snd x) \<notin> set (map fst gs))"

definition group_forest :: "(int \<times> asset_group) list \<Rightarrow> group_node list" where
  "group_forest gs = map (group_item (length gs) gs) (filter (is_root_in gs) gs)"

definition groups_shown :: "current_user \<Rightarrow> 'z asset_db_scheme \<Rightarrow> (int \<times> asset_group) list" where
  "groups_shown u w = (if is_admin u then all_tree w else filter (\<lambda>(i, g). i \<in> set (visible_group_ids u)) (all_tree w))"

definition group_tree :: "current_user \<Rightarrow> 'z asset_db_scheme \<Rightarrow> group_node list res" where
  "group_tree u w = asset_perm u ''asset:group:list'' (Inr (group_forest (groups_shown u w)))"

record group_create =
  gc_parent_id :: "int option"
  gc_name :: string
  gc_sort :: int

text \<open>No parent is stored as 0, the default of the column.\<close>

definition create_group ::
  "current_user \<Rightarrow> group_create \<Rightarrow> 'z asset_db_scheme \<Rightarrow> (int \<times> 'z asset_db_scheme) res" where
  "create_group u d w = asset_perm u ''asset:group:add''
     (if int_truthy (gc_parent_id d) \<and> tget (asset_groups w) (the (gc_parent_id d)) = None
      then Inl (BadRequestError ''parent group not found'')
      else Inr (next_id (asset_groups w), w\<lparr>asset_groups := tadd
             \<lparr>ag_parent_id = (case gc_parent_id d of None \<Rightarrow> 0 | Some p \<Rightarrow> p), ag_name = gc_name d, ag_sort = gc_sort d\<rparr>
             (asset_groups w)\<rparr>))"

record group_update =
  gu_name :: "string option"
  gu_parent_id :: "int option"
  gu_sort :: "int option"

definition group_not_found :: app_error where
  "group_not_found = NotFoundError ''group not found''"

definition update_group ::
  "current_user \<Rightarrow> int \<Rightarrow> group_update \<Rightarrow> 'z asset_db_scheme \<Rightarrow> (unit \<times> 'z asset_db_scheme) res" where
  "update_group u gid d w = asset_perm u ''asset:group:edit''
     (case tget (asset_groups w) gid of
        None \<Rightarrow> Inl group_not_found
      | Some g \<Rightarrow>
          if gu_parent_id d = Some gid then Inl (BadRequestError ''cannot set self as parent'')
          else Inr ((), w\<lparr>asset_groups := tupd gid (\<lambda>g. g\<lparr>ag_parent_id := upd_field (gu_parent_id d) (ag_parent_id g),
                 ag_name := upd_field (gu_name d) (ag_name g), ag_sort := upd_field (gu_sort d) (ag_sort g)\<rparr>) (asset_groups w)\<rparr>))"

definition delete_group :: "current_user \<Rightarrow> int \<Rightarrow> 'z asset_db_scheme \<Rightarrow> (unit \<times> 'z asset_db_scheme) res" where
  "delete_group u gid w = asset_perm u ''asset:group:del''
     (if tget (asset_groups w) gid = None then Inl group_not_found
      else if texists (\<lambda>g. ag_parent_id g = gid) (asset_groups w) then Inl (ConflictError ''group has children, delete them first'')
      else if texists (\<lambda>h. h_group_id h = Some gid) (hosts w) then Inl (ConflictError ''group has hosts, move them first'')
      else Inr ((), w\<lparr>asset_groups := tdel gid (asset_groups w)\<rparr>))"

section \<open>Hosts\<close>

text \<open>A group that is named has to exist (\<open>asset_host.group_id\<close> is a foreign key).\<close>

definition group_fk :: "'z asset_db_scheme \<Rightarrow> int option \<Rightarrow> bool" where
  "group_fk w g = (case g of None \<Rightarrow> True | Some i \<Rightarrow> tget (asset_groups w) i \<noteq> None)"

definition host_by_ip :: "'z exec_db_scheme \<Rightarrow> string \<Rightarrow> (int \<times> host) option" where
  "host_by_ip w ip = tfirst (\<lambda>h. h_ip h = ip) (hosts w)"

definition asset_host_visible :: "current_user \<Rightarrow> host \<Rightarrow> bool" where
  "asset_host_visible u h = (is_admin u \<or> (case h_group_id h of None \<Rightarrow> False | Some g \<Rightarrow> g \<in> set (visible_group_ids u)))"

definition host_not_found :: app_error where
  "host_not_found = NotFoundError ''host not found''"

definition host_forbidden :: app_error where
  "host_forbidden = ForbiddenError ''no data permission for this host''"

text \<open>The host a handler works on: it exists and the caller may see it.\<close>

definition fetch_host :: "current_user \<Rightarrow> int \<Rightarrow> 'z exec_db_scheme \<Rightarrow> host res" where
  "fetch_host u hid w =
     (case tget (hosts w) hid of
        None \<Rightarrow> Inl host_not_found
      | Some h \<Rightarrow> if \<not> asset_host_visible u h then Inl host_forbidden else Inr h)"

record host_filters =
  hf_hostname :: "string option"
  hf_ip :: "string option"
  hf_os_type :: "string option"
  hf_env :: "string option"
  hf_status :: "string option"
  hf_connector :: "string option"
  hf_tag :: "string option"
  hf_group_id :: "int option"

definition no_filters :: host_filters where
  "no_filters = \<lparr>hf_hostname = None, hf_ip = None, hf_os_type = None, hf_env = None, hf_status = None, hf_connector = None,
     hf_tag = None, hf_group_id = None\<rparr>"

definition like_opt :: "string option \<Rightarrow> string \<Rightarrow> bool" where
  "like_opt x s = (str_truthy x \<longrightarrow> sql_like (lower (''%'' @ the x @ ''%'')) (lower s))"

definition eq_opt :: "string option \<Rightarrow> string \<Rightarrow> bool" where
  "eq_opt x s = (str_truthy x \<longrightarrow> s = the x)"

text \<open>\<open>group_ids\<close> is \<open>None\<close> for an administrator and the visible groups for anyone else; the text of the
  tags is the database's own rendering of the JSON column.\<close>

definition host_matches ::
  "(json \<Rightarrow> string) \<Rightarrow> host_filters \<Rightarrow> int list option \<Rightarrow> host \<Rightarrow> bool" where
  "host_matches txt f group_ids h =
     (like_opt (hf_hostname f) (h_hostname h) \<and> like_opt (hf_ip f) (h_ip h) \<and> eq_opt (hf_os_type f) (h_os_type h) \<and>
      eq_opt (hf_env f) (h_env h) \<and> eq_opt (hf_status f) (h_status h) \<and> eq_opt (hf_connector f) (h_connector h) \<and>
      (int_truthy (hf_group_id f) \<longrightarrow> h_group_id h = hf_group_id f) \<and>
      (case group_ids of None \<Rightarrow> True | Some gs \<Rightarrow> (case h_group_id h of None \<Rightarrow> False | Some g \<Rightarrow> g \<in> set gs)) \<and>
      like_opt (hf_tag f) (txt (h_tags h)))"

definition host_search ::
  "(json \<Rightarrow> string) \<Rightarrow> host_filters \<Rightarrow> int list option \<Rightarrow> int \<Rightarrow> int \<Rightarrow> 'z exec_db_scheme \<Rightarrow> (int \<times> host) list \<times> nat" where
  "host_search txt f group_ids page sz w =
     (let rs = rev (tselect (host_matches txt f group_ids) (hosts w)) in (page_of page sz rs, length rs))"

definition visible_group_filter :: "current_user \<Rightarrow> int list option" where
  "visible_group_filter u = (if is_admin u then None else Some (visible_group_ids u))"

text \<open>\<open>_normalize_tags\<close>: the strings of a JSON value, split at commas and semicolons and stripped. A number
  or a truth value makes the code call itself on the same value without end; \<open>None\<close> stands for the
  \<open>RecursionError\<close>.\<close>

fun split_at :: "char set \<Rightarrow> string \<Rightarrow> string list" where
  "split_at D [] = [[]]"
| "split_at D (c # cs) = (if c \<in> D then [] # split_at D cs else (case split_at D cs of [] \<Rightarrow> [[c]] | s # ss \<Rightarrow> (c # s) # ss))"

definition tags_of_str :: "string \<Rightarrow> string list" where
  "tags_of_str s = filter (\<lambda>t. t \<noteq> []) (map strip (split_at {CHR '','', CHR '';''} s))"

fun concat_opt :: "'a list option list \<Rightarrow> 'a list option" where
  "concat_opt [] = Some []"
| "concat_opt (None # xs) = None"
| "concat_opt (Some x # xs) = map_option ((@) x) (concat_opt xs)"

fun normalize_tags :: "json \<Rightarrow> string list option" where
  "normalize_tags JNull = Some []"
| "normalize_tags (JStr s) = Some (tags_of_str s)"
| "normalize_tags (JObj kvs) = concat_opt (map (\<lambda>(k, v). normalize_tags v) kvs)"
| "normalize_tags (JList xs) = concat_opt (map normalize_tags xs)"
| "normalize_tags (JBool _) = None"
| "normalize_tags (JInt _) = None"
| "normalize_tags (JFloat _) = None"

definition group_name :: "'z asset_db_scheme \<Rightarrow> int option \<Rightarrow> string" where
  "group_name w g = (case g of None \<Rightarrow> [] | Some i \<Rightarrow> (case tget (asset_groups w) i of None \<Rightarrow> [] | Some r \<Rightarrow> ag_name r))"

text \<open>A row on its way out: its tags are normalised by the validator of \<open>HostOut\<close>.\<close>

definition host_out :: "'z asset_db_scheme \<Rightarrow> int \<times> host \<Rightarrow> (int \<times> host \<times> string list \<times> string) res" where
  "host_out w x = (case normalize_tags (h_tags (snd x)) of
     None \<Rightarrow> Inl TypeError | Some ts \<Rightarrow> Inr (fst x, snd x, ts, group_name w (h_group_id (snd x))))"

fun all_res :: "'a res list \<Rightarrow> 'a list res" where
  "all_res [] = Inr []"
| "all_res (Inl e # xs) = Inl e"
| "all_res (Inr x # xs) = (case all_res xs of Inl e \<Rightarrow> Inl e | Inr ys \<Rightarrow> Inr (x # ys))"

definition list_hosts ::
  "(json \<Rightarrow> string) \<Rightarrow> current_user \<Rightarrow> host_filters \<Rightarrow> int \<Rightarrow> int \<Rightarrow> 'z asset_db_scheme \<Rightarrow>
   ((int \<times> host \<times> string list \<times> string) list \<times> nat) res" where
  "list_hosts txt u f page sz w = asset_perm u ''asset:host:list''
     (case host_search txt f (visible_group_filter u) page sz w of
        (rs, n) \<Rightarrow> (case all_res (map (host_out w) rs) of Inl e \<Rightarrow> Inl e | Inr os \<Rightarrow> Inr (os, n)))"

definition cred_by_host :: "'z asset_db_scheme \<Rightarrow> int \<Rightarrow> (int \<times> credential) option" where
  "cred_by_host w hid = tfirst (\<lambda>c. cd_host_id c = hid) (credentials w)"

record cred_brief =
  cb_id :: int
  cb_type :: string
  cb_username :: string
  cb_secret_mask :: "string option"
  cb_key_mask :: "string option"

definition cred_brief_of :: "env \<Rightarrow> int \<times> credential \<Rightarrow> cred_brief" where
  "cred_brief_of e x = \<lparr>cb_id = fst x, cb_type = cd_type (snd x), cb_username = cd_username (snd x),
     cb_secret_mask = mask_secret e (cd_secret_enc (snd x)), cb_key_mask = mask_secret e (cd_key_enc (snd x))\<rparr>"

definition get_host ::
  "env \<Rightarrow> current_user \<Rightarrow> int \<Rightarrow> 'z asset_db_scheme \<Rightarrow> ((int \<times> host \<times> string list \<times> string) \<times> cred_brief option) res" where
  "get_host e u hid w = asset_perm u ''asset:host:list''
     (case fetch_host u hid w of
        Inl er \<Rightarrow> Inl er
      | Inr h \<Rightarrow> (case host_out w (hid, h) of Inl er \<Rightarrow> Inl er | Inr out \<Rightarrow> Inr (out, map_option (cred_brief_of e) (cred_by_host w hid))))"

record host_create =
  hq_hostname :: string
  hq_ip :: string
  hq_os_type :: string
  hq_os_version :: string
  hq_group_id :: "int option"
  hq_env :: string
  hq_tags :: "string list option"
  hq_connector :: string
  hq_sensitivity_level :: string
  hq_remark :: string

definition tags_json :: "string list option \<Rightarrow> json" where
  "tags_json t = (case t of None \<Rightarrow> JNull | Some ts \<Rightarrow> JList (map JStr ts))"

definition new_host :: "host_create \<Rightarrow> host" where
  "new_host d = \<lparr>h_hostname = hq_hostname d, h_ip = hq_ip d, h_group_id = hq_group_id d,
     h_sensitivity_level = hq_sensitivity_level d, h_connector = hq_connector d, h_agent_id = None, h_os_type = hq_os_type d,
     h_env = hq_env d, h_tags = tags_json (hq_tags d), h_status = ''offline'', h_last_heartbeat_at = None,
     h_os_version = hq_os_version d, h_remark = hq_remark d\<rparr>"

definition create_host ::
  "current_user \<Rightarrow> host_create \<Rightarrow> 'z asset_db_scheme \<Rightarrow> (int \<times> 'z asset_db_scheme) res" where
  "create_host u d w = asset_perm u ''asset:host:add''
     (if \<not> is_admin u \<and> (case hq_group_id d of None \<Rightarrow> True | Some g \<Rightarrow> g \<notin> set (visible_group_ids u))
      then Inl (ForbiddenError ''no data permission for this host group'')
      else if host_by_ip w (hq_ip d) \<noteq> None then Inl (ConflictError ''ip already exists'')
      else if \<not> group_fk w (hq_group_id d) then Inl (IntegrityError ''asset_host.group_id'')
      else Inr (next_id (hosts w), w\<lparr>hosts := tadd (new_host d) (hosts w)\<rparr>))"

record host_update =
  hu_hostname :: "string option"
  hu_ip :: "string option"
  hu_os_type :: "string option"
  hu_os_version :: "string option"
  hu_group_id :: "int option"
  hu_env :: "string option"
  hu_tags :: "string list option"
  hu_connector :: "string option"
  hu_sensitivity_level :: "string option"
  hu_remark :: "string option"

definition apply_host_update :: "host_update \<Rightarrow> host \<Rightarrow> host" where
  "apply_host_update d h = h\<lparr>h_ip := upd_field (hu_ip d) (h_ip h), h_hostname := upd_field (hu_hostname d) (h_hostname h),
     h_os_type := upd_field (hu_os_type d) (h_os_type h), h_group_id := upd_opt (hu_group_id d) (h_group_id h),
     h_env := upd_field (hu_env d) (h_env h), h_tags := (case hu_tags d of None \<Rightarrow> h_tags h | Some ts \<Rightarrow> tags_json (Some ts)),
     h_connector := upd_field (hu_connector d) (h_connector h),
     h_sensitivity_level := upd_field (hu_sensitivity_level d) (h_sensitivity_level h),
     h_os_version := upd_field (hu_os_version d) (h_os_version h), h_remark := upd_field (hu_remark d) (h_remark h)\<rparr>"

definition update_host ::
  "current_user \<Rightarrow> int \<Rightarrow> host_update \<Rightarrow> 'z asset_db_scheme \<Rightarrow> (unit \<times> 'z asset_db_scheme) res" where
  "update_host u hid d w = asset_perm u ''asset:host:edit''
     (case fetch_host u hid w of
        Inl er \<Rightarrow> Inl er
      | Inr h \<Rightarrow>
          if (case hu_ip d of None \<Rightarrow> False | Some ip \<Rightarrow> ip \<noteq> h_ip h \<and>
                (case host_by_ip w ip of None \<Rightarrow> False | Some (j, _) \<Rightarrow> j \<noteq> hid))
          then Inl (ConflictError ''ip already exists'')
          else if \<not> group_fk w (hu_group_id d) then Inl (IntegrityError ''asset_host.group_id'')
          else Inr ((), w\<lparr>hosts := tupd hid (apply_host_update d) (hosts w)\<rparr>))"

text \<open>\<open>target_host_ids.cast(String).like("%id%")\<close>: the text of the JSON list of the targets contains the
  decimal digits of the key. The credential and the terminal sessions of the host go with it
  (\<open>ondelete="CASCADE"\<close>).\<close>

definition ids_text :: "int list \<Rightarrow> string" where
  "ids_text ids = ''['' @ concat (case map show_int ids of [] \<Rightarrow> [] | s # ss \<Rightarrow> s # map (\<lambda>t. '', '' @ t) ss) @ '']''"

definition schedule_mentions :: "int \<Rightarrow> schedule \<Rightarrow> bool" where
  "schedule_mentions hid s = sql_like (''%'' @ show_int hid @ ''%'') (ids_text (sd_target_host_ids s))"

definition drop_rows :: "('r \<Rightarrow> bool) \<Rightarrow> 'r table \<Rightarrow> 'r table" where
  "drop_rows P t = fold (\<lambda>(i, r). tdel i) (tselect P t) t"

definition delete_host :: "current_user \<Rightarrow> int \<Rightarrow> 'z asset_db_scheme \<Rightarrow> (unit \<times> 'z asset_db_scheme) res" where
  "delete_host u hid w = asset_perm u ''asset:host:del''
     (case fetch_host u hid w of
        Inl er \<Rightarrow> Inl er
      | Inr h \<Rightarrow>
          if texists (\<lambda>th. th_host_id th = hid) (exec_task_hosts w) \<or> texists (schedule_mentions hid) (schedules w)
          then Inl (ConflictError ''host referenced by tasks or schedules'')
          else Inr ((), w\<lparr>hosts := tdel hid (hosts w), credentials := drop_rows (\<lambda>c. cd_host_id c = hid) (credentials w),
                          terminals := drop_rows (\<lambda>t. ts_host_id t = hid) (terminals w)\<rparr>))"

section \<open>Import and export\<close>

text \<open>\<open>row.get(k) or ""\<close>\<close>

definition cell :: "csv_row \<Rightarrow> string \<Rightarrow> string" where
  "cell r k = (case r k of None \<Rightarrow> [] | Some s \<Rightarrow> s)"

definition or_str :: "string \<Rightarrow> string \<Rightarrow> string" where
  "or_str s d = (if s = [] then d else s)"

definition group_by_name :: "'z asset_db_scheme \<Rightarrow> string \<Rightarrow> int option" where
  "group_by_name w n = (if n = [] then None else map_option fst (tfirst (\<lambda>g. ag_name g = n) (asset_groups w)))"

text \<open>One row: the host it makes or why it is refused. The session does not flush before a query, so the
  search for the address sees the database as it was before the import.\<close>

definition import_row :: "'z asset_db_scheme \<Rightarrow> csv_row \<Rightarrow> string + host" where
  "import_row w r =
     (let ip = strip (cell r ''ip''); hostname = strip (cell r ''hostname'');
          sensitivity = or_str (strip (cell r ''sensitivity_level'')) ''normal''
      in if ip = [] \<or> hostname = [] then Inl ''ip and hostname required''
         else if host_by_ip w ip \<noteq> None then Inl ''ip already exists''
         else if sensitivity \<notin> {''normal'', ''sensitive''} then Inl ''invalid sensitivity_level, must be normal or sensitive''
         else Inr \<lparr>h_hostname = hostname, h_ip = ip, h_group_id = group_by_name w (strip (cell r ''group'')),
                   h_sensitivity_level = sensitivity, h_connector = or_str (cell r ''connector'') ''agent'', h_agent_id = None,
                   h_os_type = or_str (cell r ''os_type'') ''linux'', h_env = or_str (cell r ''env'') ''prod'',
                   h_tags = JList (map JStr (tags_of_str (cell r ''tags''))), h_status = ''offline'', h_last_heartbeat_at = None,
                   h_os_version = cell r ''os_version'', h_remark = cell r ''remark''\<rparr>)"

fun import_failed :: "nat \<Rightarrow> (string + host) list \<Rightarrow> (nat \<times> string) list" where
  "import_failed i [] = []"
| "import_failed i (Inl er # xs) = (i, er) # import_failed (Suc i) xs"
| "import_failed i (Inr h # xs) = import_failed (Suc i) xs"

fun import_new :: "(string + host) list \<Rightarrow> host list" where
  "import_new [] = []"
| "import_new (Inl er # xs) = import_new xs"
| "import_new (Inr h # xs) = h # import_new xs"

text \<open>\<open>utf-8-sig\<close> drops a byte order mark; the characters are bytes here. A malformed file ends in the
  exception of the reader; two new rows with one address end in the unique index at the commit.\<close>

definition drop_bom :: "string \<Rightarrow> string" where
  "drop_bom s = (if take 3 s = [CHR 0xEF, CHR 0xBB, CHR 0xBF] then drop 3 s else s)"

definition import_hosts ::
  "current_user \<Rightarrow> string \<Rightarrow> 'z asset_db_scheme \<Rightarrow> ((nat \<times> (nat \<times> string) list) \<times> 'z asset_db_scheme) res" where
  "import_hosts u text w = asset_perm u ''asset:host:import''
     (case dict_reader (drop_bom text) of
        None \<Rightarrow> Inl TypeError
      | Some rs \<Rightarrow>
          (let outs = map (import_row w) rs; new = import_new outs
           in if \<not> distinct (map h_ip new) then Inl (IntegrityError ''asset_host.ip'')
              else Inr ((length new, import_failed 2 outs), w\<lparr>hosts := fold tadd new (hosts w)\<rparr>)))"

definition export_header :: "string list" where
  "export_header = [''hostname'', ''ip'', ''os_type'', ''os_version'', ''env'', ''group'', ''tags'', ''sensitivity_level'', ''status'', ''connector'', ''remark'']"

definition export_row :: "'z asset_db_scheme \<Rightarrow> host \<Rightarrow> string list res" where
  "export_row w h = (case normalize_tags (h_tags h) of
     None \<Rightarrow> Inl TypeError
   | Some ts \<Rightarrow> Inr [h_hostname h, h_ip h, h_os_type h, h_os_version h, h_env h, group_name w (h_group_id h), join_with '';'' ts,
                    or_str (h_sensitivity_level h) ''normal'', h_status h, h_connector h, h_remark h])"

definition export_hosts :: "current_user \<Rightarrow> 'z asset_db_scheme \<Rightarrow> string res" where
  "export_hosts u w = asset_perm u ''asset:host:export''
     (case all_res (map (\<lambda>(i, h). export_row w h) (fst (host_search (\<lambda>_. []) no_filters (visible_group_filter u) 1 100000 w))) of
        Inl er \<Rightarrow> Inl er
      | Inr rs \<Rightarrow> Inr (concat (map writerow (export_header # rs))))"

section \<open>Statistics, connectivity and executors\<close>

fun count_into :: "(string \<times> nat) list \<Rightarrow> string \<Rightarrow> (string \<times> nat) list" where
  "count_into [] k = [(k, 1)]"
| "count_into ((k', n) # d) k = (if k' = k then (k', n + 1) # d else (k', n) # count_into d k)"

record host_stats_out =
  hs_total :: nat
  hs_online :: nat
  hs_offline :: nat
  hs_by_env :: "(string \<times> nat) list"

definition stats_of :: "host list \<Rightarrow> host_stats_out" where
  "stats_of hs = (let online = length (filter (\<lambda>h. h_status h = ''online'') hs)
     in \<lparr>hs_total = length hs, hs_online = online, hs_offline = length hs - online,
         hs_by_env = fold (\<lambda>h d. count_into d (h_env h)) hs []\<rparr>)"

definition host_stats :: "current_user \<Rightarrow> 'z asset_db_scheme \<Rightarrow> host_stats_out res" where
  "host_stats u w = asset_perm u ''asset:host:list''
     (Inr (stats_of (map snd (tselect (\<lambda>h. case visible_group_filter u of None \<Rightarrow> True
        | Some gs \<Rightarrow> (case h_group_id h of None \<Rightarrow> False | Some g \<Rightarrow> g \<in> set gs)) (hosts w)))))"

record check_out =
  ck_ok :: bool
  ck_latency_ms :: "int option"
  ck_detail :: string

text \<open>\<open>int(age)\<close> of the age in seconds: truncation towards zero.\<close>

definition age_seconds :: "time \<Rightarrow> int" where
  "age_seconds t = (if 0 \<le> t then t div 1000000 else - ((- t) div 1000000))"

definition agent_check :: "env \<Rightarrow> host \<Rightarrow> check_out" where
  "agent_check e h = (case h_last_heartbeat_at h of
     None \<Rightarrow> \<lparr>ck_ok = False, ck_latency_ms = Some 0, ck_detail = ''no agent''\<rparr>
   | Some t \<Rightarrow>
       if now e - t \<le> seconds 90
       then \<lparr>ck_ok = True, ck_latency_ms = Some 0, ck_detail = ''agent online, heartbeat '' @ show_int (age_seconds (now e - t)) @ ''s ago''\<rparr>
       else \<lparr>ck_ok = False, ck_latency_ms = Some 0, ck_detail = ''agent stale, last heartbeat '' @ show_int (age_seconds (now e - t)) @ ''s ago''\<rparr>)"

definition ssh_check :: "env \<Rightarrow> host \<Rightarrow> check_out" where
  "ssh_check e h = \<lparr>ck_ok = False, ck_latency_ms = None,
     ck_detail = (if \<not> ssh_available e then ''ssh connector unavailable: paramiko not installed'' else ''ssh check not implemented'')\<rparr>"

definition connectivity_check ::
  "env \<Rightarrow> current_user \<Rightarrow> int \<Rightarrow> 'z asset_db_scheme \<Rightarrow> (check_out \<times> 'z asset_db_scheme) res" where
  "connectivity_check e u hid w = asset_perm u ''asset:host:conn''
     (case fetch_host u hid w of
        Inl er \<Rightarrow> Inl er
      | Inr h \<Rightarrow>
          (let r = (if h_connector h = ''ssh'' then ssh_check e h
                    else if h_connector h = ''agent'' then agent_check e h
                    else \<lparr>ck_ok = False, ck_latency_ms = Some 0, ck_detail = ''no agent''\<rparr>)
           in Inr (r, w\<lparr>hosts := tupd hid (\<lambda>h. h\<lparr>h_status := (if ck_ok r then ''online'' else ''offline'')\<rparr>) (hosts w)\<rparr>)))"

record executors_out =
  xo_available :: "string list"
  xo_active :: string
  xo_reason :: "string option"

definition executor_reason :: "env \<Rightarrow> string \<Rightarrow> string option" where
  "executor_reason e name = (if name = ''ssh'' \<and> \<not> ssh_available e then Some ''paramiko not installed'' else None)"

definition available_executors :: "env \<Rightarrow> string list" where
  "available_executors e = filter (\<lambda>n. executor_reason e n = None) [''agent'', ''ssh'']"

definition host_executors :: "env \<Rightarrow> current_user \<Rightarrow> int \<Rightarrow> 'z asset_db_scheme \<Rightarrow> executors_out res" where
  "host_executors e u hid w = asset_perm u ''asset:host:edit''
     (case fetch_host u hid w of
        Inl er \<Rightarrow> Inl er
      | Inr h \<Rightarrow>
          (let r = resolve_executor e (h_connector h) (executor_ssh_fallback w); active = (if r \<notin> {''agent'', ''ssh''} then ''agent'' else r)
           in Inr \<lparr>xo_available = available_executors e, xo_active = active, xo_reason = executor_reason e active\<rparr>))"

definition update_connector ::
  "current_user \<Rightarrow> int \<Rightarrow> string \<Rightarrow> 'z asset_db_scheme \<Rightarrow> (unit \<times> 'z asset_db_scheme) res" where
  "update_connector u hid connector w =
     (if connector \<notin> {''agent'', ''ssh''} then Inl (ValidationError ''connector'')
      else asset_perm u ''asset:host:edit''
        (case fetch_host u hid w of
           Inl er \<Rightarrow> Inl er
         | Inr h \<Rightarrow> Inr ((), w\<lparr>hosts := tupd hid (\<lambda>h. h\<lparr>h_connector := connector\<rparr>) (hosts w)\<rparr>)))"

section \<open>Credentials\<close>

text \<open>The empty string counts as absent.\<close>

definition given :: "string option \<Rightarrow> string option" where
  "given x = (case x of None \<Rightarrow> None | Some s \<Rightarrow> if s = [] then None else Some s)"

definition list_credentials :: "env \<Rightarrow> current_user \<Rightarrow> 'z asset_db_scheme \<Rightarrow> (int \<times> cred_brief) list res" where
  "list_credentials e u w = asset_perm u ''asset:cred:list''
     (Inr (map (\<lambda>(i, c). (cd_host_id c, cred_brief_of e (i, c)))
        (tselect (\<lambda>c. case tget (hosts w) (cd_host_id c) of None \<Rightarrow> True | Some h \<Rightarrow> asset_host_visible u h) (credentials w))))"

record credential_create =
  cq_host_id :: int
  cq_type :: string
  cq_username :: string
  cq_secret :: "string option"
  cq_key :: "string option"
  cq_passphrase :: "string option"

text \<open>Which fields go with which type, and the two encrypted columns they make.\<close>

definition cred_columns ::
  "env \<Rightarrow> string \<Rightarrow> string option \<Rightarrow> string option \<Rightarrow> string option \<Rightarrow> (string option \<times> string option) res" where
  "cred_columns e ctype secret key passphrase =
     (if ctype = ''password''
      then (if secret = None then Inl (BadRequestError ''secret required for password credential'')
            else if key \<noteq> None then Inl (BadRequestError ''key not allowed for password credential'')
            else if passphrase \<noteq> None then Inl (BadRequestError ''passphrase not allowed for password credential'')
            else Inr (map_option (encrypt_secret e 1) secret, None))
      else (if key = None then Inl (BadRequestError ''key required for key credential'')
            else if secret \<noteq> None then Inl (BadRequestError ''secret not allowed for key credential'')
            else Inr (map_option (encrypt_secret e 1) passphrase, map_option (encrypt_secret e 1) key)))"

definition create_credential ::
  "env \<Rightarrow> current_user \<Rightarrow> credential_create \<Rightarrow> 'z asset_db_scheme \<Rightarrow> (int \<times> 'z asset_db_scheme) res" where
  "create_credential e u d w = asset_perm u ''asset:cred:add''
     (case fetch_host u (cq_host_id d) w of
        Inl er \<Rightarrow> Inl er
      | Inr h \<Rightarrow>
          if cred_by_host w (cq_host_id d) \<noteq> None then Inl (ConflictError ''credential already exists for this host'')
          else (let ctype = or_str (cq_type d) ''password''
                in if ctype \<notin> {''password'', ''key''} then Inl (BadRequestError ''unsupported credential type'')
                   else case cred_columns e ctype (given (cq_secret d)) (given (cq_key d)) (given (cq_passphrase d)) of
                          Inl er \<Rightarrow> Inl er
                        | Inr (secret_enc, key_enc) \<Rightarrow>
                            Inr (next_id (credentials w), w\<lparr>credentials := tadd
                              \<lparr>cd_host_id = cq_host_id d, cd_type = ctype, cd_username = cq_username d,
                               cd_secret_enc = secret_enc, cd_key_enc = key_enc\<rparr> (credentials w)\<rparr>)))"

record credential_update =
  cu_type :: "string option"
  cu_username :: "string option"
  cu_secret :: "string option"
  cu_key :: "string option"
  cu_passphrase :: "string option"

text \<open>The columns after an update: a change of the type clears the column that no longer applies, an update
  within the type replaces what it brings.\<close>

definition changed_columns ::
  "env \<Rightarrow> string \<Rightarrow> string \<Rightarrow> string option \<Rightarrow> string option \<Rightarrow> string option \<Rightarrow> credential \<Rightarrow> (string option \<times> string option) res" where
  "changed_columns e old_type ty secret key passphrase c =
     (if ty \<noteq> old_type
      then (if ty = ''key''
            then (if key = None then Inl (BadRequestError ''key required when switching to key credential'')
                  else Inr (map_option (encrypt_secret e 1) passphrase, map_option (encrypt_secret e 1) key))
            else (if secret = None then Inl (BadRequestError ''secret required when switching to password credential'')
                  else Inr (map_option (encrypt_secret e 1) secret, None)))
      else if ty = ''key''
      then Inr (case passphrase of None \<Rightarrow> cd_secret_enc c | Some p \<Rightarrow> Some (encrypt_secret e 1 p),
                case key of None \<Rightarrow> cd_key_enc c | Some k \<Rightarrow> Some (encrypt_secret e 1 k))
      else Inr (case secret of None \<Rightarrow> cd_secret_enc c | Some s \<Rightarrow> Some (encrypt_secret e 1 s), cd_key_enc c))"

definition fields_allowed :: "string \<Rightarrow> string option \<Rightarrow> string option \<Rightarrow> string option \<Rightarrow> unit res" where
  "fields_allowed ty secret key passphrase =
     (if ty = ''password''
      then (if passphrase \<noteq> None then Inl (BadRequestError ''passphrase not allowed for password credential'')
            else if key \<noteq> None then Inl (BadRequestError ''key not allowed for password credential'')
            else Inr ())
      else if secret \<noteq> None then Inl (BadRequestError ''secret not allowed for key credential'')
      else Inr ())"

text \<open>The host of the credential is looked up for the visibility only.\<close>

definition fetch_cred :: "current_user \<Rightarrow> int \<Rightarrow> 'z asset_db_scheme \<Rightarrow> credential res" where
  "fetch_cred u cid w =
     (case tget (credentials w) cid of
        None \<Rightarrow> Inl (NotFoundError ''credential not found'')
      | Some c \<Rightarrow> if (case tget (hosts w) (cd_host_id c) of None \<Rightarrow> False | Some h \<Rightarrow> \<not> asset_host_visible u h)
                 then Inl host_forbidden else Inr c)"

definition update_credential ::
  "env \<Rightarrow> current_user \<Rightarrow> int \<Rightarrow> credential_update \<Rightarrow> 'z asset_db_scheme \<Rightarrow> (unit \<times> 'z asset_db_scheme) res" where
  "update_credential e u cid d w = asset_perm u ''asset:cred:edit''
     (case fetch_cred u cid w of
        Inl er \<Rightarrow> Inl er
      | Inr c \<Rightarrow>
          (let new_type = given (cu_type d); ty = (case new_type of None \<Rightarrow> cd_type c | Some t \<Rightarrow> t);
               secret = given (cu_secret d); key = given (cu_key d); passphrase = given (cu_passphrase d)
           in if new_type \<noteq> None \<and> the new_type \<notin> {''password'', ''key''} then Inl (BadRequestError ''unsupported credential type'')
              else case fields_allowed ty secret key passphrase of
                     Inl er \<Rightarrow> Inl er
                   | Inr _ \<Rightarrow>
                       (case changed_columns e (cd_type c) ty secret key passphrase c of
                          Inl er \<Rightarrow> Inl er
                        | Inr (secret_enc, key_enc) \<Rightarrow>
                            Inr ((), w\<lparr>credentials := tupd cid (\<lambda>c. c\<lparr>cd_type := ty,
                              cd_username := (case given (cu_username d) of None \<Rightarrow> cd_username c | Some n \<Rightarrow> n),
                              cd_secret_enc := secret_enc, cd_key_enc := key_enc\<rparr>) (credentials w)\<rparr>))))"

definition delete_credential :: "current_user \<Rightarrow> int \<Rightarrow> 'z asset_db_scheme \<Rightarrow> (unit \<times> 'z asset_db_scheme) res" where
  "delete_credential u cid w = asset_perm u ''asset:cred:del''
     (case fetch_cred u cid w of
        Inl er \<Rightarrow> Inl er
      | Inr c \<Rightarrow> Inr ((), w\<lparr>credentials := tdel cid (credentials w)\<rparr>))"

definition asset_options :: "current_user \<Rightarrow> 'z asset_db_scheme \<Rightarrow> group_node list \<times> string list \<times> string list" where
  "asset_options u w =
     (group_forest (groups_shown u w),
      map (\<lambda>(i, h). h_hostname h) (fst (host_search (\<lambda>_. []) no_filters (visible_group_filter u) 1 100000 w)),
      [''dev'', ''test'', ''prod''])"

end
