(* ===== verification/Agent_Gateway.thy ===== *)
theory Agent_Gateway
  imports Asset_Service
begin

text \<open>
  The gateway of the host agents (\<open>ws/agent_ws.py\<close>): who may connect, the registry \<open>_agents\<close> of live
  connections, the binding of a host by the first \<open>hello\<close>, and the heartbeat that keeps a host online.
  The registry has one entry per agent, while the process may hold several connections of one
  agent at a time; a state is the registry, the open connections and the database, and a step is
  one connection attempt, one frame or one disconnect.

  The hash of the token is a parameter, the frames are the ones of the protocol with their text
  fields; the file frames are handled by the transfer service on tables of their own.
\<close>

section \<open>State\<close>

record agent_info =
  ai_hostname :: "string option"
  ai_ip :: "string option"
  ai_os_type :: "string option"
  ai_os_version :: "string option"

datatype agent_frame =
    Unparsed
  | Hello agent_info
  | Heartbeat agent_info
  | ExecLog "(int \<times> int \<times> string \<times> string) list"
  | ExecResult int "string option" "int option"
  | FileFrame
  | Pong

record 'w gateway =
  gw_agents :: "string \<Rightarrow> (int \<times> time) option" \<comment> \<open>\<open>_agents\<close>: the connection and its last heartbeat\<close>
  gw_open :: "(int \<times> string) list" \<comment> \<open>the handlers that run: connection and agent\<close>
  gw_seq :: int
  gw_db :: 'w

record token_rule =
  tk_secret :: string
  tk_sha256 :: "string \<Rightarrow> string" \<comment> \<open>\<open>hashlib.sha256(...).hexdigest()\<close>\<close>

section \<open>Hosts and agents\<close>

definition host_of_agent :: "'z exec_db_scheme \<Rightarrow> string \<Rightarrow> (int \<times> host) option" where
  "host_of_agent w a = tfirst (\<lambda>h. h_agent_id h = Some a) (hosts w)"

definition agent_token :: "token_rule \<Rightarrow> string \<Rightarrow> string" where
  "agent_token k a = take 32 (tk_sha256 k (a @ '':'' @ tk_secret k))"

definition agent_authenticated :: "token_rule \<Rightarrow> 'z exec_db_scheme \<Rightarrow> string \<Rightarrow> string \<Rightarrow> bool" where
  "agent_authenticated k w a token =
     (case host_of_agent w a of None \<Rightarrow> token = tk_secret k | Some _ \<Rightarrow> token = agent_token k a)"

definition info_text :: "string option \<Rightarrow> string" where
  "info_text x = (case x of None \<Rightarrow> [] | Some s \<Rightarrow> strip s)"

definition bind_candidates :: "agent_info \<Rightarrow> 'z exec_db_scheme \<Rightarrow> (int \<times> host) list" where
  "bind_candidates d w =
     (let hostname = info_text (ai_hostname d); ip = info_text (ai_ip d)
      in tselect (\<lambda>h. h_agent_id h = None \<and> (ip \<noteq> [] \<and> h_ip h = ip \<or> hostname \<noteq> [] \<and> h_hostname h = hostname)) (hosts w))"

definition bind_host :: "string \<Rightarrow> agent_info \<Rightarrow> 'z exec_db_scheme \<Rightarrow> 'z exec_db_scheme" where
  "bind_host a d w =
     (if info_text (ai_hostname d) = [] \<and> info_text (ai_ip d) = [] then w
      else if texists (\<lambda>h. h_agent_id h = Some a) (hosts w) then w
      else case bind_candidates d w of
             [(i, h)] \<Rightarrow> w\<lparr>hosts := tupd i (\<lambda>h. h\<lparr>h_agent_id := Some a\<rparr>) (hosts w)\<rparr>
           | _ \<Rightarrow> w)"

definition mark_online :: "env \<Rightarrow> string \<Rightarrow> agent_info \<Rightarrow> 'z exec_db_scheme \<Rightarrow> 'z exec_db_scheme" where
  "mark_online e a d w =
     (case host_of_agent w a of
        None \<Rightarrow> w
      | Some (i, _) \<Rightarrow> w\<lparr>hosts := tupd i (\<lambda>h. h\<lparr>h_status := ''online'', h_last_heartbeat_at := Some (now e),
            h_os_type := (if str_truthy (ai_os_type d) then the (ai_os_type d) else h_os_type h),
            h_os_version := (if str_truthy (ai_os_version d) then the (ai_os_version d) else h_os_version h)\<rparr>) (hosts w)\<rparr>)"

definition mark_offline :: "string \<Rightarrow> 'z exec_db_scheme \<Rightarrow> 'z exec_db_scheme" where
  "mark_offline a w =
     (case host_of_agent w a of
        None \<Rightarrow> w
      | Some (i, _) \<Rightarrow> w\<lparr>hosts := tupd i (\<lambda>h. h\<lparr>h_status := ''offline''\<rparr>) (hosts w)\<rparr>)"

section \<open>Connections\<close>

text \<open>\<open>agent_online\<close>: a registered heartbeat not older than the timeout (in seconds).\<close>

definition gateway_online :: "env \<Rightarrow> int \<Rightarrow> 'w gateway \<Rightarrow> string \<Rightarrow> bool" where
  "gateway_online e timeout s a =
     (case gw_agents s a of None \<Rightarrow> False | Some (c, t) \<Rightarrow> now e - t \<le> seconds timeout)"

definition gw_connect ::
  "env \<Rightarrow> token_rule \<Rightarrow> string \<Rightarrow> string \<Rightarrow> 'z exec_db_scheme gateway \<Rightarrow> int option \<times> 'z exec_db_scheme gateway" where
  "gw_connect e k a token s =
     (if \<not> agent_authenticated k (gw_db s) a token then (None, s)
      else let c = gw_seq s + 1
           in (Some c, s\<lparr>gw_agents := (gw_agents s)(a := Some (c, now e)), gw_open := gw_open s @ [(c, a)], gw_seq := c\<rparr>))"

text \<open>\<open>finally\<close>: the entry of the agent goes, whichever connection it belongs to.\<close>

definition gw_close :: "int \<Rightarrow> string \<Rightarrow> 'z exec_db_scheme gateway \<Rightarrow> 'z exec_db_scheme gateway" where
  "gw_close c a s = s\<lparr>gw_agents := (gw_agents s)(a := None), gw_open := filter (\<lambda>(d, b). d \<noteq> c) (gw_open s),
     gw_db := mark_offline a (gw_db s)\<rparr>"

text \<open>A frame; the flag tells whether the loop goes on. A heartbeat of an agent that is not registered is a
  \<open>KeyError\<close>, which ends the loop.\<close>

definition handle_frame ::
  "env \<Rightarrow> string \<Rightarrow> agent_frame \<Rightarrow> 'z exec_db_scheme gateway \<Rightarrow> bool \<times> 'z exec_db_scheme gateway" where
  "handle_frame e a f s =
     (case f of
        Hello d \<Rightarrow> (True, s\<lparr>gw_db := mark_online e a d (bind_host a d (gw_db s))\<rparr>)
      | Heartbeat d \<Rightarrow>
          (case gw_agents s a of
             None \<Rightarrow> (False, s)
           | Some (c, t) \<Rightarrow> (True, s\<lparr>gw_agents := (gw_agents s)(a := Some (c, now e)), gw_db := mark_online e a d (gw_db s)\<rparr>))
      | ExecLog items \<Rightarrow> (True, s\<lparr>gw_db := persist_logs items (gw_db s)\<rparr>)
      | ExecResult thid status code \<Rightarrow> (True, s\<lparr>gw_db := persist_result e thid status code (gw_db s)\<rparr>)
      | _ \<Rightarrow> (True, s))"

definition gw_frame ::
  "env \<Rightarrow> int \<Rightarrow> agent_frame \<Rightarrow> 'z exec_db_scheme gateway \<Rightarrow> 'z exec_db_scheme gateway" where
  "gw_frame e c f s =
     (case map_of (gw_open s) c of
        None \<Rightarrow> s
      | Some a \<Rightarrow> (case handle_frame e a f s of (True, s') \<Rightarrow> s' | (False, s') \<Rightarrow> gw_close c a s'))"

definition gw_disconnect :: "int \<Rightarrow> 'z exec_db_scheme gateway \<Rightarrow> 'z exec_db_scheme gateway" where
  "gw_disconnect c s = (case map_of (gw_open s) c of None \<Rightarrow> s | Some a \<Rightarrow> gw_close c a s)"

end
