(* ===== verification/Script_Service.thy ===== *)
theory Script_Service
  imports Schedule_Service
begin

text \<open>
  The script library (\<open>script_service.py\<close>, \<open>ScriptRepository\<close>, \<open>ScriptVersionRepository\<close>): every edit is a
  new version, a rollback points the script back at an old one, and a script that a task or a
  schedule still needs is not deleted. The permission of each endpoint (\<open>api/v1/endpoints/script.py\<close>)
  is part of its operation. Remarks, change logs and authors are stored and shown only.
\<close>

section \<open>Versions\<close>

definition versions_of :: "'z exec_db_scheme \<Rightarrow> int \<Rightarrow> int list" where
  "versions_of w sid = map (\<lambda>(i, r). sv_version r) (tselect (\<lambda>r. sv_script_id r = sid) (script_versions w))"

text \<open>\<open>int(max(version) or 0) + 1\<close>\<close>

definition version_no :: "'z exec_db_scheme \<Rightarrow> int \<Rightarrow> int" where
  "version_no w sid = (case versions_of w sid of [] \<Rightarrow> 0 | v # vs \<Rightarrow> fold max vs v) + 1"

text \<open>\<open>ORDER BY version DESC\<close>\<close>

definition list_versions_rows :: "'z exec_db_scheme \<Rightarrow> int \<Rightarrow> (int \<times> script_version) list" where
  "list_versions_rows w sid = sort_key (\<lambda>(i, r). - sv_version r) (tselect (\<lambda>r. sv_script_id r = sid) (script_versions w))"

definition live_task_status :: "exec_status \<Rightarrow> bool" where
  "live_task_status s = (s \<in> {XCreated, XAwaitingApproval, XApproved, XRunning})"

definition script_referenced_count :: "'z sched_db_scheme \<Rightarrow> int \<Rightarrow> nat" where
  "script_referenced_count w sid =
     length (tselect (\<lambda>t. xt_script_id t = Some sid \<and> live_task_status (xt_status t)) (exec_tasks w)) +
     length (tselect (\<lambda>s. sd_script_id s = Some sid) (schedules w))"

section \<open>Operations\<close>

definition script_not_found :: app_error where
  "script_not_found = NotFoundError ''script not found''"

definition version_not_found :: app_error where
  "version_not_found = NotFoundError ''script version not found''"

definition list_scripts ::
  "current_user \<Rightarrow> string option \<Rightarrow> string option \<Rightarrow> int \<Rightarrow> int \<Rightarrow> 'z exec_db_scheme \<Rightarrow> ((int \<times> script) list \<times> nat) res" where
  "list_scripts u name stype page sz w =
     (if \<not> has_perm u ''script:list'' then Inl (perm_denied ''script:list'')
      else let rs = rev (tselect (\<lambda>s. (str_truthy name \<longrightarrow> sql_like (lower (''%'' @ the name @ ''%'')) (lower (sc_name s))) \<and>
                                      (str_truthy stype \<longrightarrow> sc_type s = the stype)) (scripts w))
           in Inr (page_of page sz rs, length rs))"

text \<open>The answer: the row, the content and the parameters of the version, and which version it is.\<close>

definition get_script ::
  "current_user \<Rightarrow> int \<Rightarrow> int option \<Rightarrow> 'z exec_db_scheme \<Rightarrow> (script \<times> string \<times> dict option \<times> int) res" where
  "get_script u sid version w =
     (if \<not> has_perm u ''script:list'' then Inl (perm_denied ''script:list'')
      else case tget (scripts w) sid of
             None \<Rightarrow> Inl script_not_found
           | Some s \<Rightarrow>
               (let v = (if int_truthy version then the version else sc_current_version s)
                in case by_script_version w sid v of
                     None \<Rightarrow> Inl version_not_found
                   | Some sv \<Rightarrow>
                       Inr (s, sv_content sv,
                            if sv_params_def sv \<noteq> None \<and> sv_params_def sv \<noteq> Some [] then sv_params_def sv else sc_params_def s, v)))"

record script_create =
  scq_name :: string
  scq_type :: string
  scq_content :: string
  scq_params_def :: "dict option"

definition create_script ::
  "current_user \<Rightarrow> script_create \<Rightarrow> 'z exec_db_scheme \<Rightarrow> (int \<times> 'z exec_db_scheme) res" where
  "create_script u d w =
     (if \<not> has_perm u ''script:add'' then Inl (perm_denied ''script:add'')
      else if scq_type d \<notin> {''shell'', ''powershell'', ''python''} then Inl (BadRequestError ''invalid script type'')
      else let sid = next_id (scripts w)
           in Inr (sid, w\<lparr>scripts := tadd \<lparr>sc_name = scq_name d, sc_type = scq_type d, sc_current_version = 1,
                                           sc_params_def = scq_params_def d\<rparr> (scripts w),
                          script_versions := tadd \<lparr>sv_script_id = sid, sv_version = 1, sv_content = scq_content d,
                                                   sv_params_def = scq_params_def d\<rparr> (script_versions w)\<rparr>))"

record script_update =
  scu_content :: "string option"
  scu_params_def :: "dict option"

definition update_script ::
  "current_user \<Rightarrow> int \<Rightarrow> script_update \<Rightarrow> 'z exec_db_scheme \<Rightarrow> (int \<times> 'z exec_db_scheme) res" where
  "update_script u sid d w =
     (if \<not> has_perm u ''script:edit'' then Inl (perm_denied ''script:edit'')
      else case tget (scripts w) sid of
             None \<Rightarrow> Inl script_not_found
           | Some s \<Rightarrow>
               if \<not> str_truthy (scu_content d) then Inl (BadRequestError ''content required for new version'')
               else let v = version_no w sid; pd = upd_opt (scu_params_def d) (sc_params_def s)
                    in Inr (v, w\<lparr>script_versions := tadd \<lparr>sv_script_id = sid, sv_version = v, sv_content = the (scu_content d),
                                                          sv_params_def = pd\<rparr> (script_versions w),
                                 scripts := tupd sid (\<lambda>r. r\<lparr>sc_current_version := v, sc_params_def := pd\<rparr>) (scripts w)\<rparr>))"

text \<open>The versions go with the script (\<open>ondelete="CASCADE"\<close>). A task of any status holds the script by a
  plain foreign key, so the database refuses where only finished tasks are left.\<close>

definition delete_script :: "current_user \<Rightarrow> int \<Rightarrow> 'z sched_db_scheme \<Rightarrow> (unit \<times> 'z sched_db_scheme) res" where
  "delete_script u sid w =
     (if \<not> has_perm u ''script:del'' then Inl (perm_denied ''script:del'')
      else case tget (scripts w) sid of
             None \<Rightarrow> Inl script_not_found
           | Some s \<Rightarrow>
               if script_referenced_count w sid > 0 then Inl (ConflictError ''script referenced by tasks or schedules'')
               else if texists (\<lambda>t. xt_script_id t = Some sid) (exec_tasks w) then Inl (IntegrityError ''exec_task.script_id'')
               else Inr ((), w\<lparr>scripts := tdel sid (scripts w),
                     script_versions := fold (\<lambda>(i, r). tdel i) (tselect (\<lambda>r. sv_script_id r = sid) (script_versions w)) (script_versions w)\<rparr>))"

definition list_script_versions ::
  "current_user \<Rightarrow> int \<Rightarrow> 'z exec_db_scheme \<Rightarrow> ((int \<times> script_version) list \<times> nat) res" where
  "list_script_versions u sid w =
     (if \<not> has_perm u ''script:version'' then Inl (perm_denied ''script:version'')
      else case tget (scripts w) sid of
             None \<Rightarrow> Inl script_not_found
           | Some s \<Rightarrow> (let vs = list_versions_rows w sid in Inr (vs, length vs)))"

definition get_version :: "current_user \<Rightarrow> int \<Rightarrow> int \<Rightarrow> 'z exec_db_scheme \<Rightarrow> script_version res" where
  "get_version u sid version w =
     (if \<not> has_perm u ''script:version'' then Inl (perm_denied ''script:version'')
      else case by_script_version w sid version of None \<Rightarrow> Inl version_not_found | Some sv \<Rightarrow> Inr sv)"

definition rollback_script ::
  "current_user \<Rightarrow> int \<Rightarrow> int \<Rightarrow> 'z exec_db_scheme \<Rightarrow> (int \<times> 'z exec_db_scheme) res" where
  "rollback_script u sid version w =
     (if \<not> has_perm u ''script:rollback'' then Inl (perm_denied ''script:rollback'')
      else case tget (scripts w) sid of
             None \<Rightarrow> Inl script_not_found
           | Some s \<Rightarrow>
               (case by_script_version w sid version of
                  None \<Rightarrow> Inl version_not_found
                | Some sv \<Rightarrow>
                    Inr (version, w\<lparr>scripts := tupd sid (\<lambda>r. r\<lparr>sc_current_version := version,
                           sc_params_def := upd_opt (sv_params_def sv) (sc_params_def s)\<rparr>) (scripts w)\<rparr>)))"

text \<open>\<open>spec.get("required", False)\<close> of a parameter that is described by an object.\<close>

definition param_required :: "json \<Rightarrow> bool" where
  "param_required spec = (case spec of JObj d \<Rightarrow> truthy (dget d ''required'') | _ \<Rightarrow> False)"

text \<open>\<open>(sv.params_def if sv else None) or script.params_def or {}\<close>\<close>

definition effective_params_def :: "script_version option \<Rightarrow> script \<Rightarrow> dict" where
  "effective_params_def sv s =
     (let d = (case sv of None \<Rightarrow> [] | Some v \<Rightarrow> (case sv_params_def v of None \<Rightarrow> [] | Some d \<Rightarrow> d))
      in if d \<noteq> [] then d else case sc_params_def s of None \<Rightarrow> [] | Some d \<Rightarrow> d)"

definition missing_params :: "dict \<Rightarrow> dict option \<Rightarrow> string list" where
  "missing_params pdef params =
     map fst (filter (\<lambda>(name, spec). param_required spec \<and>
       (case params of None \<Rightarrow> True | Some p \<Rightarrow> p = [] \<or> \<not> dhas p name)) pdef)"

definition test_params ::
  "current_user \<Rightarrow> int \<Rightarrow> dict option \<Rightarrow> 'z exec_db_scheme \<Rightarrow> (bool \<times> string list) res" where
  "test_params u sid params w =
     (if \<not> has_perm u ''script:list'' then Inl (perm_denied ''script:list'')
      else case tget (scripts w) sid of
             None \<Rightarrow> Inl script_not_found
           | Some s \<Rightarrow>
               (let errs = map (\<lambda>n. ''missing required param: '' @ n)
                      (missing_params (effective_params_def (by_script_version w sid (sc_current_version s)) s) params)
                in Inr (errs = [], errs)))"

end
