(* ===== verification/Asset_Facts.thy ===== *)
theory Asset_Facts
  imports Agent_Gateway Script_Service
begin

text \<open>
  The invariant of the asset tables and of the script library, kept by every handler, agent frame and step
  of the execution core that touches them, and the shape of the group tree.
\<close>

section \<open>Unique columns\<close>

text \<open>No two rows agree on the column; a null counts for none.\<close>

definition unique_by :: "('r \<Rightarrow> 'k option) \<Rightarrow> 'r table \<Rightarrow> bool" where
  "unique_by key t = (\<forall>i j r s. tget t i = Some r \<longrightarrow> tget t j = Some s \<longrightarrow> key r = key s \<longrightarrow> key r \<noteq> None \<longrightarrow> i = j)"

lemma unique_byD: "unique_by key t \<Longrightarrow> tget t i = Some r \<Longrightarrow> tget t j = Some s \<Longrightarrow> key r = Some k \<Longrightarrow> key s = Some k \<Longrightarrow> i = j"
  by (auto simp: unique_by_def)

lemma unique_tadd:
  assumes "unique_by key t" and "table_ok t" and "\<And>i s. tget t i = Some s \<Longrightarrow> key s = key r \<Longrightarrow> key r = None"
  shows "unique_by key (tadd r t)"
  using assms unfolding unique_by_def by (auto simp: tget_tadd split: if_splits)

lemma unique_tupd:
  assumes "unique_by key t" and "\<And>r. tget t i = Some r \<Longrightarrow> key (f r) = key r \<or>
    (\<forall>j s. tget t j = Some s \<longrightarrow> key s = key (f r) \<longrightarrow> j = i)"
  shows "unique_by key (tupd i f t)"
proof -
  have one: "j = i" if "tget t i = Some r" "tget t j = Some s" "key (f r) = key s" "key s \<noteq> None" for r j s
    using assms(2) [OF that(1)] that assms(1) unfolding unique_by_def by metis
  show ?thesis unfolding unique_by_def
  proof (intro allI impI)
    fix a b r s
    assume g: "tget (tupd i f t) a = Some r" "tget (tupd i f t) b = Some s" and k: "key r = key s" "key r \<noteq> None"
    show "a = b"
    proof (cases "a = i \<or> b = i")
      case True
      with g k one show ?thesis by (auto split: if_splits)
    next
      case False
      with g k assms(1) show ?thesis unfolding unique_by_def by simp
    qed
  qed
qed

lemma unique_tdel: "unique_by key t \<Longrightarrow> unique_by key (tdel i t)"
  unfolding unique_by_def by (auto simp: tget_tdel split: if_splits)

text \<open>Deleting the selected rows.\<close>

lemma fold_tdel: "tget (fold (\<lambda>(i, r). tdel i) xs t) k = (if k \<in> fst ` set xs then None else tget t k)"
proof (induction xs arbitrary: t)
  case (Cons x xs)
  then show ?case by (cases x) (simp add: tget_tdel)
qed simp

lemma fold_tdel_ok: "table_ok t \<Longrightarrow> table_ok (fold (\<lambda>(i, r). tdel i) xs t)"
proof (induction xs arbitrary: t)
  case (Cons x xs)
  then show ?case by (cases x) simp
qed simp

lemma tget_drop_rows:
  assumes "table_ok t"
  shows "tget (drop_rows P t) k = (case tget t k of None \<Rightarrow> None | Some r \<Rightarrow> if P r then None else Some r)"
proof -
  have "k \<in> fst ` set (tselect P t) \<longleftrightarrow> (\<exists>r. tget t k = Some r \<and> P r)"
  proof
    assume "k \<in> fst ` set (tselect P t)"
    then obtain r where "(k, r) \<in> set (tselect P t)" by fastforce
    then show "\<exists>r. tget t k = Some r \<and> P r" using in_tselect [OF assms, of k r P] by blast
  next
    assume "\<exists>r. tget t k = Some r \<and> P r"
    then obtain r where "(k, r) \<in> set (tselect P t)" using in_tselect [OF assms] by blast
    then show "k \<in> fst ` set (tselect P t)" by (rule image_eqI [rotated]) simp
  qed
  then show ?thesis by (auto simp: drop_rows_def fold_tdel split: option.splits)
qed

lemma drop_rows_ok [simp, intro]: "table_ok t \<Longrightarrow> table_ok (drop_rows P t)"
  by (simp add: drop_rows_def fold_tdel_ok)

lemma unique_drop_rows: "table_ok t \<Longrightarrow> unique_by key t \<Longrightarrow> unique_by key (drop_rows P t)"
  unfolding unique_by_def by (auto simp: tget_drop_rows split: option.splits if_splits)

section \<open>Rows that last\<close>

text \<open>The contract of a table whose keys come from a sequence: a key that is free and was given out stays
  free. What each step keeps of a row that is still there then holds for as long as the row exists.\<close>

locale lasting_rows =
  fixes step :: "'w \<Rightarrow> 'w \<Rightarrow> bool"
    and t :: "'w \<Rightarrow> 'r table"
    and ok :: "'w \<Rightarrow> bool"
  assumes step_ok: "step w w' \<Longrightarrow> ok w \<Longrightarrow> ok w'"
    and ok_table: "ok w \<Longrightarrow> table_ok (t w)"
    and step_seq: "step w w' \<Longrightarrow> ok w \<Longrightarrow> seq (t w) \<le> seq (t w')"
    and step_gone: "step w w' \<Longrightarrow> ok w \<Longrightarrow> tget (t w) i = None \<Longrightarrow> i \<le> seq (t w) \<Longrightarrow> tget (t w') i = None"
begin

lemma reach_ok: "step\<^sup>*\<^sup>* w w' \<Longrightarrow> ok w \<Longrightarrow> ok w'"
  by (induction rule: rtranclp_induct) (auto intro: step_ok)

lemma key_known: "ok w \<Longrightarrow> tget (t w) i \<noteq> None \<Longrightarrow> i \<le> seq (t w)"
  using next_id_fresh_le [OF ok_table] by (fastforce simp: next_id_def)

lemma lasts:
  assumes "step\<^sup>*\<^sup>* w w'" and ok: "ok w" and "tget (t w) i \<noteq> None" and "P w" and "tget (t w') i \<noteq> None"
    and keep: "\<And>w w'. step w w' \<Longrightarrow> ok w \<Longrightarrow> P w \<Longrightarrow> tget (t w) i \<noteq> None \<Longrightarrow> tget (t w') i \<noteq> None \<Longrightarrow> P w'"
  shows "P w'"
proof -
  have "i \<le> seq (t w') \<and> (tget (t w') i \<noteq> None \<longrightarrow> P w')" using assms(1)
  proof (induction rule: rtranclp_induct)
    case base
    then show ?case using key_known [OF ok assms(3)] assms(4) by simp
  next
    case (step w1 w2)
    have o: "ok w1" using reach_ok [OF step(1) ok] .
    moreover have i: "i \<le> seq (t w1)" using step.IH by blast
    moreover have "tget (t w1) i \<noteq> None" if "tget (t w2) i \<noteq> None"
      using step_gone [OF step(2) o _ i] that by metis
    ultimately have "P w2" if "tget (t w2) i \<noteq> None"
      using keep [OF step(2)] step.IH that by metis
    with step_seq [OF step(2) o] i show ?case by auto
  qed
  with assms(5) show ?thesis by blast
qed

end

section \<open>The asset invariant\<close>

text \<open>A password credential has a secret and no key; a key credential has a key.\<close>

definition credential_ok :: "credential \<Rightarrow> bool" where
  "credential_ok c = (cd_type c = ''password'' \<and> cd_secret_enc c \<noteq> None \<and> cd_key_enc c = None \<or>
     cd_type c = ''key'' \<and> cd_key_enc c \<noteq> None)"

definition hosts_ok :: "asset_group table \<Rightarrow> host table \<Rightarrow> bool" where
  "hosts_ok gs hs = (table_ok hs \<and> unique_by (\<lambda>h. Some (h_ip h)) hs \<and> unique_by h_agent_id hs \<and>
     (\<forall>i h g. tget hs i = Some h \<longrightarrow> h_group_id h = Some g \<longrightarrow> tget gs g \<noteq> None))"

definition creds_ok :: "host table \<Rightarrow> credential table \<Rightarrow> bool" where
  "creds_ok hs cs = (table_ok cs \<and> unique_by (\<lambda>c. Some (cd_host_id c)) cs \<and>
     (\<forall>i c. tget cs i = Some c \<longrightarrow> credential_ok c \<and> tget hs (cd_host_id c) \<noteq> None))"

definition assets_ok :: "'z asset_db_scheme \<Rightarrow> bool" where
  "assets_ok w = (table_ok (asset_groups w) \<and> hosts_ok (asset_groups w) (hosts w) \<and> creds_ok (hosts w) (credentials w))"

lemma assets_okD:
  assumes "assets_ok w"
  shows "table_ok (asset_groups w)" "table_ok (hosts w)" "table_ok (credentials w)"
    "unique_by (\<lambda>h. Some (h_ip h)) (hosts w)" "unique_by h_agent_id (hosts w)"
    "\<And>i h g. tget (hosts w) i = Some h \<Longrightarrow> h_group_id h = Some g \<Longrightarrow> tget (asset_groups w) g \<noteq> None"
    "unique_by (\<lambda>c. Some (cd_host_id c)) (credentials w)"
    "\<And>i c. tget (credentials w) i = Some c \<Longrightarrow> credential_ok c \<and> tget (hosts w) (cd_host_id c) \<noteq> None"
  using assms unfolding assets_ok_def hosts_ok_def creds_ok_def by blast+

lemma assets_ok_frame:
  "hosts w' = hosts w \<Longrightarrow> asset_groups w' = asset_groups w \<Longrightarrow> credentials w' = credentials w \<Longrightarrow> assets_ok w \<Longrightarrow> assets_ok w'"
  by (simp add: assets_ok_def)

text \<open>Rows that come or change: the address and the agent stay unique, the group exists.\<close>

lemma assets_ok_hosts_tupd:
  assumes ok: "assets_ok w"
    and ip: "\<And>h j s. tget (hosts w) i = Some h \<Longrightarrow> tget (hosts w) j = Some s \<Longrightarrow> h_ip s = h_ip (f h) \<Longrightarrow> h_ip (f h) \<noteq> h_ip h \<Longrightarrow> j = i"
    and ag: "\<And>h j s. tget (hosts w) i = Some h \<Longrightarrow> tget (hosts w) j = Some s \<Longrightarrow> h_agent_id s = h_agent_id (f h) \<Longrightarrow>
      h_agent_id (f h) \<noteq> h_agent_id h \<Longrightarrow> j = i"
    and gr: "\<And>h g. tget (hosts w) i = Some h \<Longrightarrow> h_group_id (f h) = Some g \<Longrightarrow> h_group_id h = Some g \<or> tget (asset_groups w) g \<noteq> None"
  shows "assets_ok (w\<lparr>hosts := tupd i f (hosts w)\<rparr>)"
proof -
  note o = assets_okD [OF ok]
  have "unique_by (\<lambda>h. Some (h_ip h)) (tupd i f (hosts w))" "unique_by h_agent_id (tupd i f (hosts w))"
    using ip ag by (auto intro!: unique_tupd o(4,5))
  moreover have "tget (asset_groups w) g \<noteq> None" if "tget (tupd i f (hosts w)) k = Some h" "h_group_id h = Some g" for k h g
  proof (cases "k = i")
    case True
    with that obtain z where "tget (hosts w) i = Some z" "h_group_id (f z) = Some g" by auto
    with gr [of z g] o(6) [of i z g] show ?thesis by blast
  next
    case False
    with that o(6) [of k h g] show ?thesis by simp
  qed
  moreover have "tget (tupd i f (hosts w)) k = None \<longleftrightarrow> tget (hosts w) k = None" for k by simp
  ultimately show ?thesis
    using o unfolding assets_ok_def hosts_ok_def creds_ok_def by simp
qed

lemma assets_ok_hosts_tadd:
  assumes ok: "assets_ok w" and "h_agent_id h = None"
    and ip: "\<And>j s. tget (hosts w) j = Some s \<Longrightarrow> h_ip s \<noteq> h_ip h"
    and gr: "\<And>g. h_group_id h = Some g \<Longrightarrow> tget (asset_groups w) g \<noteq> None"
  shows "assets_ok (w\<lparr>hosts := tadd h (hosts w)\<rparr>)"
proof -
  note o = assets_okD [OF ok]
  have "unique_by (\<lambda>h. Some (h_ip h)) (tadd h (hosts w))" "unique_by h_agent_id (tadd h (hosts w))"
    using ip assms(2) by (auto intro!: unique_tadd o(2,4,5))
  moreover have "tget (asset_groups w) g \<noteq> None" if "tget (tadd h (hosts w)) k = Some r" "h_group_id r = Some g" for k r g
    using that o(6) gr by (auto simp: tget_tadd [OF o(2)] split: if_splits)
  moreover have "tget (tadd h (hosts w)) k \<noteq> None" if "tget (hosts w) k \<noteq> None" for k
    using that by (simp add: tget_tadd [OF o(2)])
  ultimately show ?thesis
    using o unfolding assets_ok_def hosts_ok_def creds_ok_def by simp
qed

lemma assets_ok_hosts_tadds:
  assumes "assets_ok w" and "distinct (map h_ip hs)"
    and "\<And>h. h \<in> set hs \<Longrightarrow> h_agent_id h = None"
    and "\<And>h j s. h \<in> set hs \<Longrightarrow> tget (hosts w) j = Some s \<Longrightarrow> h_ip s \<noteq> h_ip h"
    and "\<And>h g. h \<in> set hs \<Longrightarrow> h_group_id h = Some g \<Longrightarrow> tget (asset_groups w) g \<noteq> None"
  shows "assets_ok (w\<lparr>hosts := fold tadd hs (hosts w)\<rparr>)"
  using assms
proof (induction hs arbitrary: w)
  case Nil
  then show ?case by simp
next
  case (Cons h hs)
  let ?w = "w\<lparr>hosts := tadd h (hosts w)\<rparr>"
  have ok: "assets_ok ?w"
    by (rule assets_ok_hosts_tadd [OF Cons.prems(1)]) (use Cons.prems(3,4,5) [of h] in \<open>simp_all del: not_None_eq\<close>)
  have "h_ip s \<noteq> h_ip g" if "g \<in> set hs" "tget (hosts ?w) j = Some s" for g j s
    using that Cons.prems(2) Cons.prems(4) [of g] by (auto simp: tget_tadd [OF assets_okD(2) [OF Cons.prems(1)]] split: if_splits)
  moreover have "tget (asset_groups ?w) k \<noteq> None" if "g \<in> set hs" "h_group_id g = Some k" for g k
    using Cons.prems(5) [of g k] that by simp
  ultimately show ?case using Cons.IH [OF ok] Cons.prems(2,3) by (simp del: not_None_eq)
qed

lemma assets_ok_creds:
  assumes ok: "assets_ok w" and "table_ok cs" and "unique_by (\<lambda>c. Some (cd_host_id c)) cs"
    and "\<And>i c. tget cs i = Some c \<Longrightarrow> credential_ok c \<and> tget (hosts w) (cd_host_id c) \<noteq> None"
  shows "assets_ok (w\<lparr>credentials := cs\<rparr>)"
  using assms unfolding assets_ok_def creds_ok_def by simp

lemma assets_ok_groups:
  assumes ok: "assets_ok w" and "table_ok gs"
    and "\<And>i h g. tget (hosts w) i = Some h \<Longrightarrow> h_group_id h = Some g \<Longrightarrow> tget gs g \<noteq> None"
  shows "assets_ok (w\<lparr>asset_groups := gs\<rparr>)"
  using assms unfolding assets_ok_def hosts_ok_def by simp

section \<open>Steps\<close>

text \<open>One handler, one agent frame or one step of the execution core.\<close>

inductive asset_step :: "'z asset_db_scheme \<Rightarrow> 'z asset_db_scheme \<Rightarrow> bool" where
  as_create_group: "create_group u gd w = Inr (i, w') \<Longrightarrow> asset_step w w'"
| as_update_group: "update_group u i gu w = Inr (x, w') \<Longrightarrow> asset_step w w'"
| as_delete_group: "delete_group u i w = Inr (x, w') \<Longrightarrow> asset_step w w'"
| as_create_host: "create_host u hq w = Inr (i, w') \<Longrightarrow> asset_step w w'"
| as_update_host: "update_host u i hu w = Inr (x, w') \<Longrightarrow> asset_step w w'"
| as_delete_host: "delete_host u i w = Inr (x, w') \<Longrightarrow> asset_step w w'"
| as_import: "import_hosts u txt w = Inr (out, w') \<Longrightarrow> asset_step w w'"
| as_check: "connectivity_check e u i w = Inr (ck, w') \<Longrightarrow> asset_step w w'"
| as_connector: "update_connector u i c w = Inr (x, w') \<Longrightarrow> asset_step w w'"
| as_create_cred: "create_credential e u cq w = Inr (i, w') \<Longrightarrow> asset_step w w'"
| as_update_cred: "update_credential e u i cu w = Inr (x, w') \<Longrightarrow> asset_step w w'"
| as_delete_cred: "delete_credential u i w = Inr (x, w') \<Longrightarrow> asset_step w w'"
| as_bind: "w' = bind_host a d w \<Longrightarrow> asset_step w w'"
| as_online: "w' = mark_online e a d w \<Longrightarrow> asset_step w w'"
| as_offline: "w' = mark_offline a w \<Longrightarrow> asset_step w w'"
| as_exec: "exec_step w w' \<Longrightarrow> asset_step w w'"

lemma asset_perm_Inr: "asset_perm u code r = Inr x \<longleftrightarrow> has_perm u code \<and> r = Inr x"
  by (simp add: asset_perm_def)

lemma fetch_host_Inr: "fetch_host u i w = Inr h \<longleftrightarrow> tget (hosts w) i = Some h \<and> asset_host_visible u h"
  by (auto simp: fetch_host_def split: option.splits if_splits)

text \<open>A change of a host that leaves address, agent and group alone.\<close>

lemma assets_ok_plain:
  "assets_ok w \<Longrightarrow> (\<And>h. h_ip (f h) = h_ip h \<and> h_agent_id (f h) = h_agent_id h \<and> h_group_id (f h) = h_group_id h) \<Longrightarrow>
     assets_ok (w\<lparr>hosts := tupd i f (hosts w)\<rparr>)"
  by (rule assets_ok_hosts_tupd) simp_all

lemma keep_create_group:
  assumes ok: "assets_ok w" and "create_group u d w = Inr (i, w')"
  shows "assets_ok w'"
proof -
  note o = assets_okD [OF ok]
  obtain g where w': "w' = w\<lparr>asset_groups := tadd g (asset_groups w)\<rparr>"
    using assms(2) by (auto simp: create_group_def asset_perm_Inr split: if_splits)
  have "tget (tadd g (asset_groups w)) k \<noteq> None" if "tget (asset_groups w) k \<noteq> None" for k
    using that by (simp add: tget_tadd [OF o(1)])
  then show ?thesis unfolding w' using o(1,6) by (intro assets_ok_groups [OF ok]) blast+
qed

lemma keep_update_group: "assets_ok w \<Longrightarrow> update_group u i d w = Inr (x, w') \<Longrightarrow> assets_ok w'"
proof -
  assume ok: "assets_ok w" and "update_group u i d w = Inr (x, w')"
  then obtain f where w': "w' = w\<lparr>asset_groups := tupd i f (asset_groups w)\<rparr>"
    by (auto simp: update_group_def asset_perm_Inr split: if_splits option.splits)
  show ?thesis unfolding w' using assets_okD(1,6) [OF ok] by (intro assets_ok_groups [OF ok]) auto
qed

lemma keep_delete_group:
  assumes ok: "assets_ok w" and "delete_group u i w = Inr (x, w')"
  shows "assets_ok w'"
proof -
  note o = assets_okD [OF ok]
  have w': "w' = w\<lparr>asset_groups := tdel i (asset_groups w)\<rparr>" and n: "\<not> texists (\<lambda>h. h_group_id h = Some i) (hosts w)"
    using assms(2) by (auto simp: delete_group_def asset_perm_Inr split: if_splits)
  have "g \<noteq> i" if "tget (hosts w) k = Some h" "h_group_id h = Some g" for k h g
    using n that by (auto simp: texists_iff [OF o(2)])
  then show ?thesis unfolding w' using o(1,6) by (intro assets_ok_groups [OF ok]) (auto simp: tget_tdel)
qed

lemma host_by_ip_None: "table_ok (hosts w) \<Longrightarrow> host_by_ip w ip = None \<Longrightarrow> tget (hosts w) j = Some s \<Longrightarrow> h_ip s \<noteq> ip"
  unfolding host_by_ip_def by (blast dest: tfirst_None)

lemma group_fk_Some: "group_fk w g \<Longrightarrow> g = Some i \<Longrightarrow> tget (asset_groups w) i \<noteq> None"
  by (simp add: group_fk_def)

lemma keep_create_host:
  assumes ok: "assets_ok w" and "create_host u d w = Inr (i, w')"
  shows "assets_ok w'"
proof -
  have w': "w' = w\<lparr>hosts := tadd (new_host d) (hosts w)\<rparr>" and ip: "host_by_ip w (hq_ip d) = None" and g: "group_fk w (hq_group_id d)"
    using assms(2) by (auto simp: create_host_def asset_perm_Inr simp del: not_None_eq split: if_splits)
  show ?thesis unfolding w'
  proof (rule assets_ok_hosts_tadd [OF ok])
    show "h_ip s \<noteq> h_ip (new_host d)" if "tget (hosts w) j = Some s" for j s
      using host_by_ip_None [OF assets_okD(2) [OF ok] ip that] by (simp add: new_host_def)
    show "tget (asset_groups w) k \<noteq> None" if "h_group_id (new_host d) = Some k" for k
      using group_fk_Some [OF g] that by (simp add: new_host_def)
  qed (simp add: new_host_def)
qed

lemma keep_update_host:
  assumes ok: "assets_ok w" and "update_host u i d w = Inr (x, w')"
  shows "assets_ok w'"
proof -
  obtain h where w': "w' = w\<lparr>hosts := tupd i (apply_host_update d) (hosts w)\<rparr>" and h: "tget (hosts w) i = Some h"
    and ip: "\<And>ip j s. hu_ip d = Some ip \<Longrightarrow> ip \<noteq> h_ip h \<Longrightarrow> host_by_ip w ip = Some (j, s) \<Longrightarrow> j = i" and g: "group_fk w (hu_group_id d)"
    using assms(2) by (fastforce simp: update_host_def asset_perm_Inr fetch_host_Inr split: if_splits option.splits sum.splits)
  note o = assets_okD [OF ok]
  show ?thesis unfolding w'
  proof (rule assets_ok_hosts_tupd [OF ok])
    fix h' j s
    assume a: "tget (hosts w) i = Some h'" "tget (hosts w) j = Some s"
    show "j = i" if "h_ip s = h_ip (apply_host_update d h')" "h_ip (apply_host_update d h') \<noteq> h_ip h'"
    proof -
      have d: "hu_ip d = Some (h_ip s)" "h_ip s \<noteq> h_ip h"
        using that a h by (auto simp: apply_host_update_def upd_field_def split: option.splits)
      show ?thesis
      proof (cases "host_by_ip w (h_ip s)")
        case None
        then show ?thesis using host_by_ip_None [OF o(2) None a(2)] by simp
      next
        case (Some x)
        obtain k r where x: "x = (k, r)" by fastforce
        with Some have "tget (hosts w) k = Some r" "h_ip r = h_ip s"
          unfolding host_by_ip_def by (blast dest: tfirst_Some [OF o(2)])+
        with a(2) have "k = j" using unique_byD [OF o(4)] by blast
        with ip [OF d] Some x show ?thesis by blast
      qed
    qed
    show "j = i" if "h_agent_id s = h_agent_id (apply_host_update d h')" "h_agent_id (apply_host_update d h') \<noteq> h_agent_id h'"
      using that by (simp add: apply_host_update_def)
  next
    fix h' k
    assume "tget (hosts w) i = Some h'" "h_group_id (apply_host_update d h') = Some k"
    then show "h_group_id h' = Some k \<or> tget (asset_groups w) k \<noteq> None"
      using group_fk_Some [OF g] by (auto simp: apply_host_update_def upd_opt_def split: option.splits)
  qed
qed

lemma keep_delete_host:
  assumes ok: "assets_ok w" and "delete_host u i w = Inr (x, w')"
  shows "assets_ok w'"
proof -
  note o = assets_okD [OF ok]
  have eq: "hosts w' = tdel i (hosts w)" "credentials w' = drop_rows (\<lambda>c. cd_host_id c = i) (credentials w)" "asset_groups w' = asset_groups w"
    using assms(2) by (auto simp: delete_host_def asset_perm_Inr split: if_splits sum.splits)
  have "credential_ok c \<and> tget (tdel i (hosts w)) (cd_host_id c) \<noteq> None" if "tget (credentials w') k = Some c" for k c
    using that o(8) [of k c] by (auto simp: eq tget_drop_rows [OF o(3)] tget_tdel split: option.splits if_splits)
  moreover have "tget (asset_groups w) g \<noteq> None" if "tget (tdel i (hosts w)) k = Some h" "h_group_id h = Some g" for k h g
    using that o(6) [of k h g] by (auto simp: tget_tdel split: if_splits)
  ultimately show ?thesis
    unfolding assets_ok_def hosts_ok_def creds_ok_def eq
    using o by (auto intro: unique_tdel unique_drop_rows simp: eq)
qed

lemma import_new_in: "h \<in> set (import_new xs) \<longleftrightarrow> Inr h \<in> set xs"
  by (induction xs rule: import_new.induct) auto

lemma keep_import:
  assumes ok: "assets_ok w" and "import_hosts u txt w = Inr (out, w')"
  shows "assets_ok w'"
proof -
  note o = assets_okD [OF ok]
  obtain rs where w': "w' = w\<lparr>hosts := fold tadd (import_new (map (import_row w) rs)) (hosts w)\<rparr>"
    and d: "distinct (map h_ip (import_new (map (import_row w) rs)))"
    using assms(2) by (auto simp: import_hosts_def asset_perm_Inr Let_def split: option.splits if_splits)
  have row: "h_agent_id h = None \<and> host_by_ip w (h_ip h) = None \<and> (\<forall>g. h_group_id h = Some g \<longrightarrow> tget (asset_groups w) g \<noteq> None)"
    if "import_row w r = Inr h" for r h
  proof -
    have "h_agent_id h = None" "host_by_ip w (h_ip h) = None" "h_group_id h = group_by_name w (strip (cell r ''group''))"
      using that by (auto simp: import_row_def Let_def simp del: not_None_eq split: if_splits)
    moreover have "tget (asset_groups w) g \<noteq> None" if "group_by_name w n = Some g" for n g
      using that by (auto simp: group_by_name_def split: if_splits dest: tfirst_Some [OF o(1)])
    ultimately show ?thesis by simp
  qed
  have new: "\<exists>r. import_row w r = Inr h" if "h \<in> set (import_new (map (import_row w) rs))" for h
    using that by (auto simp: import_new_in)
  show ?thesis unfolding w'
  proof (rule assets_ok_hosts_tadds [OF ok d])
    fix h
    assume "h \<in> set (import_new (map (import_row w) rs))"
    with new obtain r where "import_row w r = Inr h" by blast
    from row [OF this] show "h_agent_id h = None"
      "\<And>j s. tget (hosts w) j = Some s \<Longrightarrow> h_ip s \<noteq> h_ip h"
      "\<And>g. h_group_id h = Some g \<Longrightarrow> tget (asset_groups w) g \<noteq> None"
      using host_by_ip_None [OF o(2)] by blast+
  qed
qed

lemma keep_host_status:
  assumes "assets_ok w"
  shows "connectivity_check e u i w = Inr (r, w1) \<Longrightarrow> assets_ok w1"
    and "update_connector u i c w = Inr (x, w2) \<Longrightarrow> assets_ok w2"
    and "assets_ok (mark_online e a d w)"
    and "assets_ok (mark_offline a w)"
  using assms by (auto simp: connectivity_check_def update_connector_def mark_online_def mark_offline_def asset_perm_Inr Let_def
      split: if_splits sum.splits option.splits intro!: assets_ok_plain)

lemma bind_candidates_in:
  assumes "table_ok (hosts w)" and "bind_candidates d w = [(i, h)]"
  shows "tget (hosts w) i = Some h \<and> h_agent_id h = None"
proof -
  obtain P where P: "bind_candidates d w = tselect (\<lambda>h. h_agent_id h = None \<and> P h) (hosts w)"
    by (simp add: bind_candidates_def Let_def)
  have "(i, h) \<in> set (tselect (\<lambda>h. h_agent_id h = None \<and> P h) (hosts w))"
    using assms(2) unfolding P by simp
  then show ?thesis using in_tselect [OF assms(1), of i h "\<lambda>h. h_agent_id h = None \<and> P h"] by blast
qed

lemma keep_bind:
  assumes ok: "assets_ok w"
  shows "assets_ok (bind_host a d w)"
proof (cases "bind_host a d w = w")
  case False
  note o = assets_okD [OF ok]
  from False obtain i h where b: "bind_host a d w = w\<lparr>hosts := tupd i (\<lambda>h. h\<lparr>h_agent_id := Some a\<rparr>) (hosts w)\<rparr>"
    and free: "\<not> texists (\<lambda>h. h_agent_id h = Some a) (hosts w)"
    unfolding bind_host_def by (auto split: if_splits list.splits)
  have "h_agent_id s \<noteq> Some a" if "tget (hosts w) j = Some s" for j s
    using free that by (auto simp: texists_iff [OF o(2)])
  then show ?thesis unfolding b by (intro assets_ok_hosts_tupd [OF ok]) auto
qed (simp add: ok)

lemma cred_columns_ok:
  assumes "cred_columns e ty sec k p = Inr (se, ke)" and "ty \<in> {''password'', ''key''}"
  shows "credential_ok \<lparr>cd_host_id = h, cd_type = ty, cd_username = n, cd_secret_enc = se, cd_key_enc = ke\<rparr>"
  using assms by (auto simp: cred_columns_def credential_ok_def split: if_splits)

lemma cred_by_host_None:
  "table_ok (credentials w) \<Longrightarrow> cred_by_host w i = None \<Longrightarrow> tget (credentials w) j = Some c \<Longrightarrow> cd_host_id c \<noteq> i"
  unfolding cred_by_host_def by (blast dest: tfirst_None)

lemma keep_create_cred:
  assumes ok: "assets_ok w" and "create_credential e u d w = Inr (i, w')"
  shows "assets_ok w'"
proof -
  note o = assets_okD [OF ok]
  obtain h where h: "fetch_host u (cq_host_id d) w = Inr h"
    using assms(2) by (auto simp: create_credential_def asset_perm_Inr split: sum.splits)
  define ty where "ty = or_str (cq_type d) ''password''"
  obtain se ke where col: "cred_columns e ty (given (cq_secret d)) (given (cq_key d)) (given (cq_passphrase d)) = Inr (se, ke)"
    and ty: "ty \<in> {''password'', ''key''}" and n: "cred_by_host w (cq_host_id d) = None"
    and w': "w' = w\<lparr>credentials := tadd \<lparr>cd_host_id = cq_host_id d, cd_type = ty, cd_username = cq_username d, cd_secret_enc = se, cd_key_enc = ke\<rparr> (credentials w)\<rparr>"
    using assms(2) by (simp add: create_credential_def asset_perm_Inr h ty_def [symmetric] Let_def del: not_None_eq split: if_splits sum.splits prod.splits)
  define c where "c = \<lparr>cd_host_id = cq_host_id d, cd_type = ty, cd_username = cq_username d, cd_secret_enc = se, cd_key_enc = ke\<rparr>"
  have c: "credential_ok c" "tget (hosts w) (cd_host_id c) \<noteq> None" "cred_by_host w (cd_host_id c) = None"
    using cred_columns_ok [OF col ty] h n by (simp_all add: c_def fetch_host_Inr)
  show ?thesis unfolding w' c_def [symmetric]
  proof (rule assets_ok_creds [OF ok])
    show "unique_by (\<lambda>c. Some (cd_host_id c)) (tadd c (credentials w))"
      using cred_by_host_None [OF o(3) c(3)] by (intro unique_tadd o(3,7)) auto
    show "credential_ok r \<and> tget (hosts w) (cd_host_id r) \<noteq> None" if "tget (tadd c (credentials w)) k = Some r" for k r
      using that c o(8) [of k r] by (auto simp: tget_tadd [OF o(3)] split: if_splits)
  qed (simp add: o(3))
qed

lemma changed_columns_ok:
  assumes "changed_columns e (cd_type c) ty sec k p c = Inr (se, ke)" and "credential_ok c" and "ty = cd_type c \<or> ty \<in> {''password'', ''key''}"
  shows "credential_ok (c\<lparr>cd_type := ty, cd_username := n, cd_secret_enc := se, cd_key_enc := ke\<rparr>)"
  using assms by (auto simp: changed_columns_def credential_ok_def split: if_splits option.splits)

lemma keep_update_cred:
  assumes ok: "assets_ok w" and "update_credential e u i d w = Inr (x, w')"
  shows "assets_ok w'"
proof -
  note o = assets_okD [OF ok]
  obtain c where f: "fetch_cred u i w = Inr c"
    using assms(2) by (auto simp: update_credential_def asset_perm_Inr split: sum.splits)
  then have c: "tget (credentials w) i = Some c" by (simp add: fetch_cred_def split: option.splits if_splits)
  define ty where "ty = (case given (cu_type d) of None \<Rightarrow> cd_type c | Some t \<Rightarrow> t)"
  define n :: "credential \<Rightarrow> string" where "n = (\<lambda>c. case given (cu_username d) of None \<Rightarrow> cd_username c | Some n \<Rightarrow> n)"
  obtain se ke where col: "changed_columns e (cd_type c) ty (given (cu_secret d)) (given (cu_key d)) (given (cu_passphrase d)) c = Inr (se, ke)"
    and t: "given (cu_type d) = None \<or> the (given (cu_type d)) \<in> {''password'', ''key''}"
    and w': "w' = w\<lparr>credentials := tupd i (\<lambda>c. c\<lparr>cd_type := ty, cd_username := n c, cd_secret_enc := se, cd_key_enc := ke\<rparr>) (credentials w)\<rparr>"
    using assms(2) unfolding n_def
    by (auto simp: update_credential_def asset_perm_Inr f ty_def [symmetric] Let_def simp del: not_None_eq split: if_splits sum.splits)
  have ty: "ty = cd_type c \<or> ty \<in> {''password'', ''key''}"
    using t unfolding ty_def by (auto split: option.splits)
  show ?thesis unfolding w'
  proof (rule assets_ok_creds [OF ok])
    show "unique_by (\<lambda>c. Some (cd_host_id c)) (tupd i (\<lambda>c. c\<lparr>cd_type := ty, cd_username := n c, cd_secret_enc := se, cd_key_enc := ke\<rparr>) (credentials w))"
      by (intro unique_tupd o(7)) simp
    fix k r
    assume "tget (tupd i (\<lambda>c. c\<lparr>cd_type := ty, cd_username := n c, cd_secret_enc := se, cd_key_enc := ke\<rparr>) (credentials w)) k = Some r"
    then show "credential_ok r \<and> tget (hosts w) (cd_host_id r) \<noteq> None"
      using c o(8) [of k] changed_columns_ok [OF col _ ty] o(8) [OF c] by (auto split: if_splits)
  qed (simp add: o(3))
qed

lemma keep_delete_cred: "assets_ok w \<Longrightarrow> delete_credential u i w = Inr (x, w') \<Longrightarrow> assets_ok w'"
proof -
  assume ok: "assets_ok w" and "delete_credential u i w = Inr (x, w')"
  then have w': "w' = w\<lparr>credentials := tdel i (credentials w)\<rparr>"
    by (auto simp: delete_credential_def asset_perm_Inr split: sum.splits)
  note o = assets_okD [OF ok]
  show ?thesis unfolding w' using o(3,7,8) by (intro assets_ok_creds [OF ok] unique_tdel) (auto simp: tget_tdel split: if_splits)
qed

lemma rest_of_more:
  fixes w w' :: "'z asset_db_scheme"
  assumes "exec_db.more w' = exec_db.more w"
  shows "asset_groups w' = asset_groups w" "credentials w' = credentials w"
  using assms by (cases w; cases w'; simp)+

lemma keep_exec: "assets_ok w \<Longrightarrow> exec_step w w' \<Longrightarrow> assets_ok w'"
proof -
  assume ok: "assets_ok w" and "exec_step w w'"
  then have r: "exec_rest w' = exec_rest w" by (blast intro: rest_step)
  then have "hosts w' = hosts w" "exec_db.more w' = exec_db.more w" by (simp_all add: exec_rest_def)
  moreover have "asset_groups w' = asset_groups w" "credentials w' = credentials w"
    by (rule rest_of_more(1) [OF calculation(2)], rule rest_of_more(2) [OF calculation(2)])
  ultimately show ?thesis using ok by (rule_tac assets_ok_frame)
qed

lemma asset_step_keeps:
  assumes "asset_step w w'" and "assets_ok w"
  shows "assets_ok w'"
  using assms(1)
proof cases
  case as_create_group
  with assms(2) show ?thesis by (rule keep_create_group)
next
  case as_update_group
  with assms(2) show ?thesis by (rule keep_update_group)
next
  case as_delete_group
  with assms(2) show ?thesis by (rule keep_delete_group)
next
  case as_create_host
  with assms(2) show ?thesis by (rule keep_create_host)
next
  case as_update_host
  with assms(2) show ?thesis by (rule keep_update_host)
next
  case as_delete_host
  with assms(2) show ?thesis by (rule keep_delete_host)
next
  case as_import
  with assms(2) show ?thesis by (rule keep_import)
next
  case as_create_cred
  with assms(2) show ?thesis by (rule keep_create_cred)
next
  case as_update_cred
  with assms(2) show ?thesis by (rule keep_update_cred)
next
  case as_delete_cred
  with assms(2) show ?thesis by (rule keep_delete_cred)
next
  case as_exec
  with assms(2) show ?thesis by (rule keep_exec)
next
  case as_check
  then show ?thesis by (rule keep_host_status(1) [OF assms(2)])
next
  case as_connector
  then show ?thesis by (rule keep_host_status(2) [OF assms(2)])
next
  case as_bind
  then show ?thesis using keep_bind [OF assms(2)] by simp
next
  case as_online
  then show ?thesis using keep_host_status(3) [OF assms(2)] by simp
next
  case as_offline
  then show ?thesis using keep_host_status(4) [OF assms(2)] by simp
qed

section \<open>What the steps do to a host\<close>

lemma seq_fold_tadd: "seq t \<le> seq (fold tadd hs t)"
proof (induction hs arbitrary: t)
  case (Cons h hs)
  have "seq t \<le> seq (tadd h t)" by (simp add: tadd_def next_id_def)
  with Cons.IH [of "tadd h t"] show ?case by simp
qed simp

lemma tget_tadd_known: "i \<le> seq t \<Longrightarrow> tget (tadd r t) i = tget t i"
  by (simp add: tadd_def tget_def next_id_def map_add_def split: option.splits)

lemma tget_fold_tadd_known: "i \<le> seq t \<Longrightarrow> tget (fold tadd hs t) i = tget t i"
proof (induction hs arbitrary: t)
  case (Cons h hs)
  have "seq t \<le> seq (tadd h t)" by (simp add: tadd_def next_id_def)
  with Cons.prems have "i \<le> seq (tadd h t)" by simp
  from Cons.IH [OF this] Cons.prems show ?case by (simp add: tget_tadd_known)
qed simp

text \<open>New rows at the end, one row changed without letting go of its agent, one row deleted, or none.\<close>

lemma asset_step_hosts:
  assumes "asset_step w w'" and ok: "table_ok (hosts w)"
  obtains (same) "hosts w' = hosts w"
  | (new) hs where "hosts w' = fold tadd hs (hosts w)"
  | (change) i f where "hosts w' = tupd i f (hosts w)"
      "\<And>h a. tget (hosts w) i = Some h \<Longrightarrow> h_agent_id h = Some a \<Longrightarrow> h_agent_id (f h) = Some a"
  | (gone) i where "hosts w' = tdel i (hosts w)"
  using assms(1)
proof cases
  case as_create_group
  then show ?thesis by (intro same) (auto simp: create_group_def asset_perm_Inr split: if_splits)
next
  case as_update_group
  then show ?thesis by (intro same) (auto simp: update_group_def asset_perm_Inr split: if_splits option.splits)
next
  case as_delete_group
  then show ?thesis by (intro same) (auto simp: delete_group_def asset_perm_Inr split: if_splits)
next
  case (as_create_host u d i)
  then have "hosts w' = fold tadd [new_host d] (hosts w)" by (auto simp: create_host_def asset_perm_Inr split: if_splits)
  then show ?thesis by (rule new)
next
  case (as_update_host u i d x)
  then have "hosts w' = tupd i (apply_host_update d) (hosts w)"
    by (auto simp: update_host_def asset_perm_Inr split: if_splits option.splits sum.splits)
  then show ?thesis by (rule change) (simp add: apply_host_update_def)
next
  case (as_delete_host u i x)
  then have "hosts w' = tdel i (hosts w)" by (auto simp: delete_host_def asset_perm_Inr split: if_splits sum.splits)
  then show ?thesis by (rule gone)
next
  case as_import
  then show ?thesis by (auto simp: import_hosts_def asset_perm_Inr Let_def split: option.splits if_splits intro: new)
next
  case (as_check e u i)
  then show ?thesis by (auto simp: connectivity_check_def asset_perm_Inr Let_def split: sum.splits intro: change)
next
  case (as_connector u i)
  then show ?thesis by (auto simp: update_connector_def asset_perm_Inr split: if_splits sum.splits intro: change)
next
  case as_create_cred
  then show ?thesis by (intro same) (auto simp: create_credential_def asset_perm_Inr Let_def split: if_splits sum.splits)
next
  case as_update_cred
  then show ?thesis by (intro same) (auto simp: update_credential_def asset_perm_Inr Let_def split: if_splits sum.splits)
next
  case as_delete_cred
  then show ?thesis by (intro same) (auto simp: delete_credential_def asset_perm_Inr split: sum.splits)
next
  case (as_bind a d)
  show ?thesis
  proof (cases "bind_host a d w = w")
    case True
    then show ?thesis using as_bind by (intro same) simp
  next
    case False
    then obtain i h where b: "bind_candidates d w = [(i, h)]" "bind_host a d w = w\<lparr>hosts := tupd i (\<lambda>h. h\<lparr>h_agent_id := Some a\<rparr>) (hosts w)\<rparr>"
      unfolding bind_host_def by (auto split: if_splits list.splits)
    from bind_candidates_in [OF ok b(1)] b(2) show ?thesis using as_bind by (intro change [of i]) auto
  qed
next
  case (as_online e a d)
  then show ?thesis by (cases "host_of_agent w a") (auto simp: mark_online_def intro: same change)
next
  case (as_offline a)
  then show ?thesis by (cases "host_of_agent w a") (auto simp: mark_offline_def intro: same change)
next
  case as_exec
  from rest_step [OF this] show ?thesis by (intro same) (simp add: exec_rest_def)
qed

lemma seq_tdel: "seq (tdel i t) = seq t"
  by (simp add: tdel_def)

interpretation hst: lasting_rows asset_step hosts assets_ok
proof
  fix w w' :: "'z asset_db_scheme" and i
  assume st: "asset_step w w'" and ok: "assets_ok w"
  show "assets_ok w'" using st ok by (rule asset_step_keeps)
  show "seq (hosts w) \<le> seq (hosts w')" using st assets_okD(2) [OF ok]
    by (cases rule: asset_step_hosts) (simp_all add: seq_fold_tadd seq_tdel)
  show "tget (hosts w') i = None" if "tget (hosts w) i = None" "i \<le> seq (hosts w)" using st assets_okD(2) [OF ok]
    by (cases rule: asset_step_hosts) (use that in \<open>auto simp: tget_fold_tadd_known tget_tdel\<close>)
qed (rule assets_okD(2))

text \<open>A host keeps its agent.\<close>

lemma agent_kept_step:
  assumes "asset_step w w'" and ok: "assets_ok w" and "map_option h_agent_id (tget (hosts w) i) = Some (Some a)" and "tget (hosts w') i \<noteq> None"
  shows "map_option h_agent_id (tget (hosts w') i) = Some (Some a)"
proof -
  have i: "i \<le> seq (hosts w)" by (rule hst.key_known [OF ok]) (use assms(3) in auto)
  show ?thesis using assms(1) assets_okD(2) [OF ok]
  proof (cases rule: asset_step_hosts)
    case (new hs)
    then show ?thesis using assms(3) tget_fold_tadd_known [OF i] by simp
  next
    case (change j f)
    then show ?thesis using assms(3) by auto
  next
    case (gone j)
    then show ?thesis using assms(3,4) by (auto simp: tget_tdel split: if_splits)
  qed (use assms(3) in simp)
qed

section \<open>The approval gate beside asset administration\<close>

text \<open>An asset handler leaves the tables of the gate alone, but for the sessions that go with a host.\<close>

definition beside_gate :: "'z exec_db_scheme \<Rightarrow> 'z exec_db_scheme \<Rightarrow> bool" where
  "beside_gate w w' = (exec_tasks w' = exec_tasks w \<and> exec_task_hosts w' = exec_task_hosts w \<and> approvals w' = approvals w \<and>
     config_rules w' = config_rules w \<and> scripts w' = scripts w \<and> script_versions w' = script_versions w \<and>
     (table_ok (terminals w) \<longrightarrow> table_ok (terminals w') \<and> (\<forall>i s. tget (terminals w') i = Some s \<longrightarrow> tget (terminals w) i = Some s)))"

lemma beside_gate_refl [simp]: "beside_gate w w"
  by (simp add: beside_gate_def)

lemma beside_gate_upd [simp]:
  "beside_gate w (hosts_update f w)"
  "beside_gate w (asset_groups_update g (w :: 'z asset_db_scheme))"
  "beside_gate w (credentials_update c (w :: 'z asset_db_scheme))"
  by (simp_all add: beside_gate_def)

lemma gate_beside:
  assumes b: "beside_gate w w'" and ok: "gate_ok S w"
  shows "gate_ok S w'"
proof -
  note d = b [unfolded beside_gate_def]
  have t: "table_ok (terminals w)" using ok by (simp add: gate_ok_def exec_tables_ok_def)
  have "exec_tables_ok w'" using ok d t by (simp add: gate_ok_def exec_tables_ok_def biz_unique_def)
  moreover have "session_good w' i s = session_good w i s" for i s
    using d by (simp add: session_good_def session_linked_def session_granted_def)
  then have "sessions_ok w'" using ok d t unfolding gate_ok_def sessions_ok_def by blast
  moreover have "recheck_sensitive w' x = recheck_sensitive w x" for x using d by (intro recheck_cong) auto
  then have "\<And>i x. task_good w' i x = task_good w i x"
    using d by (simp add: task_good_def linked_def granted_def harmless_def)
  ultimately show ?thesis using ok d by (simp add: gate_ok_def)
qed

lemma beside_delete_host: "delete_host u i w = Inr (x, w') \<Longrightarrow> beside_gate w w'"
  by (auto simp: delete_host_def asset_perm_Inr beside_gate_def tget_drop_rows split: if_splits sum.splits option.splits)

lemma asset_step_gate:
  assumes "asset_step w w'" and "gate_ok {} w"
  shows "gate_ok {} w'"
proof (cases "exec_step w w'")
  case True
  then show ?thesis using assms(2) by (rule gate_step)
next
  case False
  with assms(1) have "beside_gate w w'"
  proof cases
    case as_delete_host
    then show ?thesis by (rule beside_delete_host)
  qed (auto simp: create_group_def update_group_def delete_group_def create_host_def update_host_def import_hosts_def connectivity_check_def
      update_connector_def create_credential_def update_credential_def delete_credential_def bind_host_def mark_online_def mark_offline_def
      asset_perm_Inr Let_def split: if_splits option.splits sum.splits list.splits prod.splits)
  then show ?thesis using assms(2) by (rule gate_beside)
qed

end
