(* ===== verification/Script_Facts.thy ===== *)
theory Script_Facts
  imports Asset_Facts
begin

text \<open>
  The script library keeps its history: every script has its current version, a version is never
  written twice and never changes while its script exists.
\<close>

section \<open>The invariant\<close>

definition version_key :: "script_version \<Rightarrow> (int \<times> int) option" where
  "version_key r = Some (sv_script_id r, sv_version r)"

definition scripts_ok :: "'z exec_db_scheme \<Rightarrow> bool" where
  "scripts_ok w = (table_ok (scripts w) \<and> table_ok (script_versions w) \<and> unique_by version_key (script_versions w) \<and>
     (\<forall>i s. tget (scripts w) i = Some s \<longrightarrow> by_script_version w i (sc_current_version s) \<noteq> None) \<and>
     (\<forall>k r. tget (script_versions w) k = Some r \<longrightarrow> tget (scripts w) (sv_script_id r) \<noteq> None))"

lemma scripts_okD:
  assumes "scripts_ok w"
  shows "table_ok (scripts w)" "table_ok (script_versions w)" "unique_by version_key (script_versions w)"
    "\<And>i s. tget (scripts w) i = Some s \<Longrightarrow> by_script_version w i (sc_current_version s) \<noteq> None"
    "\<And>k r. tget (script_versions w) k = Some r \<Longrightarrow> tget (scripts w) (sv_script_id r) \<noteq> None"
  using assms unfolding scripts_ok_def by blast+

text \<open>Reading a version, where the pair of script and number is unique.\<close>

lemma by_version_iff:
  assumes "table_ok (script_versions w)" and "unique_by version_key (script_versions w)"
  shows "by_script_version w i v = Some r \<longleftrightarrow>
    (\<exists>k. tget (script_versions w) k = Some r \<and> sv_script_id r = i \<and> sv_version r = v)" (is "?L = ?R")
proof
  assume ?L
  then obtain k where "tfirst (\<lambda>r. sv_script_id r = i \<and> sv_version r = v) (script_versions w) = Some (k, r)"
    by (auto simp: by_script_version_def)
  from tfirst_Some [OF assms(1) this] show ?R by blast
next
  assume ?R
  then obtain k where k: "tget (script_versions w) k = Some r" "sv_script_id r = i" "sv_version r = v" by blast
  show ?L
  proof (cases "tfirst (\<lambda>r. sv_script_id r = i \<and> sv_version r = v) (script_versions w)")
    case None
    from tfirst_None [OF this assms(1) k(1)] k(2,3) show ?thesis by blast
  next
    case (Some x)
    obtain j s where x: "x = (j, s)" by fastforce
    from tfirst_Some [OF assms(1)] Some x have j: "tget (script_versions w) j = Some s" "sv_script_id s = i" "sv_version s = v" by blast+
    then have "j = k" using unique_byD [OF assms(2) j(1) k(1)] k(2,3) by (simp add: version_key_def)
    with j(1) k(1) Some x show ?thesis by (simp add: by_script_version_def)
  qed
qed

lemma by_version_mono:
  assumes "table_ok (script_versions w)" "unique_by version_key (script_versions w)"
    and "table_ok (script_versions w')" "unique_by version_key (script_versions w')"
    and "by_script_version w i v = Some r" and "\<And>k. tget (script_versions w) k = Some r \<Longrightarrow> tget (script_versions w') k = Some r"
  shows "by_script_version w' i v = Some r"
  using assms(5,6) unfolding by_version_iff [OF assms(1,2)] by_version_iff [OF assms(3,4)] by blast

lemma by_version_None:
  assumes "table_ok (script_versions w)" and "unique_by version_key (script_versions w)"
  shows "by_script_version w i v = None \<longleftrightarrow> (\<forall>k r. tget (script_versions w) k = Some r \<longrightarrow> sv_script_id r = i \<longrightarrow> sv_version r \<noteq> v)"
  using by_version_iff [OF assms, of i v] by (metis not_None_eq)

lemma version_no_fresh:
  assumes "table_ok (script_versions w)" and "tget (script_versions w) k = Some r"
  shows "sv_version r < version_no w (sv_script_id r)"
proof -
  have "(k, r) \<in> set (tselect (\<lambda>x. sv_script_id x = sv_script_id r) (script_versions w))"
    using in_tselect [OF assms(1)] assms(2) by blast
  then have "sv_version r \<in> set (versions_of w (sv_script_id r))" by (force simp: versions_of_def)
  then show ?thesis
    using fold_max_ge [of "sv_version r"] by (fastforce simp: version_no_def split: list.splits)
qed

section \<open>Steps\<close>

inductive script_step :: "'z sched_db_scheme \<Rightarrow> 'z sched_db_scheme \<Rightarrow> bool" where
  ss_create: "create_script u d w = Inr (i, w') \<Longrightarrow> script_step w w'"
| ss_update: "update_script u i su w = Inr (v, w') \<Longrightarrow> script_step w w'"
| ss_delete: "delete_script u i w = Inr (x, w') \<Longrightarrow> script_step w w'"
| ss_rollback: "rollback_script u i v w = Inr (x', w') \<Longrightarrow> script_step w w'"
| ss_exec: "exec_step w w' \<Longrightarrow> script_step w w'"

text \<open>What a step does to the two tables.\<close>

lemma script_step_cases:
  assumes "script_step w w'"
  obtains (same) "scripts w' = scripts w" "script_versions w' = script_versions w"
  | (create) s r where "scripts w' = tadd s (scripts w)" "script_versions w' = tadd r (script_versions w)"
      "sv_script_id r = next_id (scripts w)" "sv_version r = sc_current_version s"
  | (update) i s f r where "tget (scripts w) i = Some s" "scripts w' = tupd i f (scripts w)" "script_versions w' = tadd r (script_versions w)"
      "sv_script_id r = i" "sv_version r = version_no w i" "\<And>x. sc_current_version (f x) = version_no w i"
  | (delete) i where "scripts w' = tdel i (scripts w)" "script_versions w' = drop_rows (\<lambda>r. sv_script_id r = i) (script_versions w)"
  | (rollback) i f v where "scripts w' = tupd i f (scripts w)" "script_versions w' = script_versions w"
      "\<And>x. sc_current_version (f x) = v" "by_script_version w i v \<noteq> None"
  using assms
proof cases
  case ss_create
  then show ?thesis by (auto simp: create_script_def Let_def split: if_splits intro: create)
next
  case ss_update
  then show ?thesis by (auto simp: update_script_def Let_def split: if_splits option.splits intro: update)
next
  case ss_delete
  then show ?thesis by (auto simp: delete_script_def drop_rows_def [symmetric] split: if_splits option.splits intro: delete)
next
  case ss_rollback
  then show ?thesis by (auto simp: rollback_script_def split: if_splits option.splits intro: rollback)
next
  case ss_exec
  from rest_step [OF this] show ?thesis by (auto simp: exec_rest_def intro: same)
qed

lemma script_step_keeps:
  assumes "script_step w w'" and ok: "scripts_ok w"
  shows "scripts_ok w'"
proof -
  note o = scripts_okD [OF ok]
  have key: "unique_by version_key (tadd r (script_versions w))"
    if "\<And>k s. tget (script_versions w) k = Some s \<Longrightarrow> sv_script_id s = sv_script_id r \<Longrightarrow> sv_version s \<noteq> sv_version r" for r
    using that by (intro unique_tadd o(2,3)) (auto simp: version_key_def)
  show ?thesis using assms(1)
  proof (cases rule: script_step_cases)
    case same
    with ok show ?thesis by (simp add: scripts_ok_def by_script_version_def)
  next
    case (create s r)
    have fresh: "sv_script_id x \<noteq> next_id (scripts w)" if "tget (script_versions w) k = Some x" for k x
      using o(5) [OF that] table_ok_fresh [OF o(1)] by metis
    have u: "unique_by version_key (tadd r (script_versions w))" by (rule key) (use fresh create(3) in auto)
    have t: "table_ok (tadd r (script_versions w))" using o(2) by simp
    note iff = by_version_iff [of w', unfolded create(2), OF t u] by_version_iff [OF o(2,3)]
    have "by_script_version w' i (sc_current_version x) \<noteq> None" if "tget (scripts w') i = Some x" for i x
    proof (cases "i = next_id (scripts w)")
      case True
      with that create have "x = s" by (simp add: tget_tadd [OF o(1)])
      then have "by_script_version w' i (sc_current_version x) = Some r"
        using True create(3,4) by (auto simp: iff(1) tget_tadd [OF o(2)])
      then show ?thesis by simp
    next
      case False
      with that create have "tget (scripts w) i = Some x" by (simp add: tget_tadd [OF o(1)])
      from o(4) [OF this] obtain sv where "by_script_version w i (sc_current_version x) = Some sv" by blast
      then have "by_script_version w' i (sc_current_version x) = Some sv"
        by (rule by_version_mono [OF o(2,3), of w', unfolded create(2), OF t u]) (rule tbl.add_keeps [OF o(2)])
      then show ?thesis by simp
    qed
    moreover have "tget (scripts w') (sv_script_id x) \<noteq> None" if "tget (script_versions w') k = Some x" for k x
      using that o(5) [of k x] create by (auto simp: tget_tadd [OF o(1)] tget_tadd [OF o(2)] split: if_splits)
    ultimately show ?thesis using u t o(1) unfolding scripts_ok_def create(1,2) by simp
  next
    case (update i s f r)
    have u: "unique_by version_key (tadd r (script_versions w))"
      by (rule key) (use version_no_fresh [OF o(2)] update(4,5) in fastforce)
    have t: "table_ok (tadd r (script_versions w))" using o(2) by simp
    note iff = by_version_iff [of w', unfolded update(3), OF t u] by_version_iff [OF o(2,3)]
    have "by_script_version w' j (sc_current_version x) \<noteq> None" if "tget (scripts w') j = Some x" for j x
    proof (cases "j = i")
      case True
      with that update have "sc_current_version x = version_no w i" by auto
      then have "by_script_version w' j (sc_current_version x) = Some r"
        using True update(4,5) by (auto simp: iff(1) tget_tadd [OF o(2)])
      then show ?thesis by simp
    next
      case False
      with that update have "tget (scripts w) j = Some x" by simp
      from o(4) [OF this] obtain sv where "by_script_version w j (sc_current_version x) = Some sv" by blast
      then have "by_script_version w' j (sc_current_version x) = Some sv"
        by (rule by_version_mono [OF o(2,3), of w', unfolded update(3), OF t u]) (rule tbl.add_keeps [OF o(2)])
      then show ?thesis by simp
    qed
    moreover have "tget (scripts w') (sv_script_id x) \<noteq> None" if "tget (script_versions w') k = Some x" for k x
      using that o(5) [of k x] update by (auto simp: tget_tadd [OF o(2)] split: if_splits)
    ultimately show ?thesis using u t o(1) unfolding scripts_ok_def update(2,3) by simp
  next
    case (delete i)
    have u: "unique_by version_key (script_versions w')" unfolding delete by (intro unique_drop_rows o)
    have t: "table_ok (script_versions w')" unfolding delete using o(2) by simp
    note iff = by_version_iff [OF t u] by_version_iff [OF o(2,3)]
    have "by_script_version w' j (sc_current_version x) \<noteq> None" if "tget (scripts w') j = Some x" for j x
    proof -
      from that have j: "j \<noteq> i" "tget (scripts w) j = Some x" by (auto simp: delete tget_tdel split: if_splits)
      from o(4) [OF j(2)] obtain sv where "by_script_version w j (sc_current_version x) = Some sv" by blast
      moreover have "sv_script_id sv = j" using calculation unfolding iff(2) by blast
      ultimately have "by_script_version w' j (sc_current_version x) = Some sv"
        using j(1) by (intro by_version_mono [OF o(2,3) t u]) (auto simp: delete tget_drop_rows [OF o(2)])
      then show ?thesis by simp
    qed
    moreover have "tget (scripts w') (sv_script_id x) \<noteq> None" if "tget (script_versions w') k = Some x" for k x
      using that o(5) [of k x] by (auto simp: delete tget_tdel tget_drop_rows [OF o(2)] split: if_splits option.splits)
    ultimately show ?thesis using u t o(1) unfolding scripts_ok_def by (simp add: delete(1))
  next
    case (rollback i f v)
    have b: "by_script_version w' = by_script_version w" by (simp add: fun_eq_iff by_script_version_def rollback)
    show ?thesis
      unfolding scripts_ok_def b rollback(1,2) using o rollback(3,4) by (auto split: if_splits)
  qed
qed

text \<open>A key of the script table is never given again.\<close>

lemma script_step_seq: "script_step w w' \<Longrightarrow> scripts_ok w \<Longrightarrow> seq (scripts w) \<le> seq (scripts w')"
  by (erule script_step_cases) (simp_all add: tadd_def tdel_def next_id_def)

lemma script_gone:
  assumes "script_step w w'" and "scripts_ok w" and "tget (scripts w) i = None" and "i \<le> seq (scripts w)"
  shows "tget (scripts w') i = None"
  using assms(1)
proof (cases rule: script_step_cases)
  case (create s r)
  have "map_of (rows (scripts w) @ [(next_id (scripts w), s)]) i = None"
    using assms(3,4) by (simp add: tget_def next_id_def map_add_def)
  then show ?thesis by (simp add: create(1) tadd_def tget_def)
next
  case (update j s f r)
  then show ?thesis using assms(3) by auto
next
  case (rollback j f v)
  then show ?thesis using assms(3) by auto
qed (use assms(3) in \<open>simp_all add: tget_tdel\<close>)

lemma version_kept_step:
  assumes "script_step w w'" and ok: "scripts_ok w" and r: "by_script_version w i v = Some r" and "tget (scripts w') i \<noteq> None"
  shows "by_script_version w' i v = Some r"
proof -
  note o = scripts_okD [OF ok]
  note ok' = script_step_keeps [OF assms(1) ok]
  note iff = by_version_iff [OF scripts_okD(2,3) [OF ok']] by_version_iff [OF o(2,3)]
  obtain k where k: "tget (script_versions w) k = Some r" "sv_script_id r = i" "sv_version r = v"
    using r unfolding iff(2) by blast
  have "tget (script_versions w') k = Some r" using assms(1)
  proof (cases rule: script_step_cases)
    case (create s r')
    then show ?thesis using k next_id_fresh_le [OF o(2) k(1)] by (simp add: tget_tadd [OF o(2)])
  next
    case (update i' s f r')
    then show ?thesis using k next_id_fresh_le [OF o(2) k(1)] by (simp add: tget_tadd [OF o(2)])
  next
    case (delete i')
    then have "i' \<noteq> i" using assms(4) by (auto simp: tget_tdel)
    with delete show ?thesis using k by (simp add: tget_drop_rows [OF o(2)])
  qed (use k in simp_all)
  with k(2,3) show ?thesis unfolding iff(1) by blast
qed

interpretation scr: lasting_rows script_step scripts scripts_ok
  by unfold_locales (fact script_step_keeps scripts_okD(1) script_step_seq script_gone)+

lemma version_kept:
  assumes "script_step\<^sup>*\<^sup>* w w'" and ok: "scripts_ok w" and r: "by_script_version w i v = Some r" and "tget (scripts w') i \<noteq> None"
  shows "by_script_version w' i v = Some r"
proof -
  obtain k where "tget (script_versions w) k = Some r" "sv_script_id r = i"
    using r unfolding by_version_iff [OF scripts_okD(2,3) [OF ok]] by blast
  with scripts_okD(5) [OF ok] have i: "tget (scripts w) i \<noteq> None" by blast
  show ?thesis
    by (rule scr.lasts [where P = "\<lambda>w. by_script_version w i v = Some r", OF assms(1) ok i r assms(4)]) (rule version_kept_step)
qed

end
