(* ===== verification/Group_Tree.thy ===== *)
theory Group_Tree
  imports Asset_Service
begin

text \<open>
  The group tree lists every shown group whose chain of parents ends, once each and below its parent.
\<close>

section \<open>Chains of parents\<close>

definition parent_of :: "(int \<times> asset_group) list \<Rightarrow> (int \<times> int) set" where
  "parent_of gs = {(i, p). \<exists>g. (i, g) \<in> set gs \<and> p = ag_parent_id g \<and> p \<noteq> 0 \<and> p \<in> fst ` set gs}"

text \<open>The groups whose chain of parents inside the list ends.\<close>

definition rooted :: "(int \<times> asset_group) list \<Rightarrow> int set" where
  "rooted gs = {i \<in> fst ` set gs. \<exists>r. (i, r) \<in> (parent_of gs)\<^sup>* \<and> r \<in> fst ` set gs \<and> r \<notin> Domain (parent_of gs)}"

fun flat_ids :: "group_node \<Rightarrow> int list" where
  "flat_ids (GroupNode i g cs) = i # concat (map flat_ids cs)"

fun well_nested :: "group_node \<Rightarrow> bool" where
  "well_nested (GroupNode i g cs) = (\<forall>c \<in> set cs. ag_parent_id (gn_group c) = i \<and> well_nested c)"

lemma card_parent_of: "finite (parent_of gs)" "card (parent_of gs) \<le> length gs"
proof -
  have sub: "parent_of gs \<subseteq> (\<lambda>(i, g). (i, ag_parent_id g)) ` set gs" by (auto simp: parent_of_def)
  then show "finite (parent_of gs)" by (rule finite_subset) simp
  have "card (parent_of gs) \<le> card ((\<lambda>(i, g). (i, ag_parent_id g)) ` set gs)" by (rule card_mono [OF _ sub]) simp
  also have "\<dots> \<le> card (set gs)" by (rule card_image_le) simp
  also have "\<dots> \<le> length gs" by (rule card_length)
  finally show "card (parent_of gs) \<le> length gs" .
qed

lemma single_valued_parent: "distinct (map fst gs) \<Longrightarrow> single_valued (parent_of gs)"
  unfolding single_valued_def parent_of_def by (auto dest: eq_key_imp_eq_value)

lemma child_groups_in: "(i, g) \<in> set gs \<Longrightarrow> (c, h) \<in> set (child_groups gs i) \<longleftrightarrow> (c, h) \<in> set gs \<and> ag_parent_id h = i \<and> i \<noteq> 0"
  by (auto simp: child_groups_def)

lemma child_step: "(i, g) \<in> set gs \<Longrightarrow> (c, h) \<in> set (child_groups gs i) \<Longrightarrow> (c, i) \<in> parent_of gs"
proof -
  assume i: "(i, g) \<in> set gs" and "(c, h) \<in> set (child_groups gs i)"
  then have "(c, h) \<in> set gs" "ag_parent_id h = i" "i \<noteq> 0" by (auto simp: child_groups_def)
  moreover have "i \<in> fst ` set gs" using i by (rule rev_image_eqI) simp
  ultimately show ?thesis unfolding parent_of_def by blast
qed

lemma step_child: "(c, i) \<in> parent_of gs \<Longrightarrow> \<exists>h. (c, h) \<in> set (child_groups gs i)"
  unfolding parent_of_def by (auto simp: child_groups_def)

lemma set_item:
  "(i, g) \<in> set gs \<Longrightarrow> set (flat_ids (group_item n gs (i, g))) = {j. \<exists>k \<le> n. (j, i) \<in> parent_of gs ^^ k}"
proof (induction n arbitrary: i g)
  case 0
  then show ?case by simp
next
  case (Suc n)
  have kids: "set (flat_ids (group_item n gs (c, h))) = {j. \<exists>k \<le> n. (j, c) \<in> parent_of gs ^^ k}" if "(c, h) \<in> set (child_groups gs i)" for c h
    using Suc.IH [of c h] that Suc.prems child_groups_in by blast
  have "set (flat_ids (group_item (Suc n) gs (i, g))) = insert i (\<Union>(c, h) \<in> set (child_groups gs i). {j. \<exists>k \<le> n. (j, c) \<in> parent_of gs ^^ k})"
    using kids by fastforce
  also have "\<dots> = {j. \<exists>k \<le> Suc n. (j, i) \<in> parent_of gs ^^ k}" (is "?L = ?R")
  proof
    show "?L \<subseteq> ?R"
    proof
      fix j
      assume "j \<in> ?L"
      then consider "j = i" | c h k where "(c, h) \<in> set (child_groups gs i)" "k \<le> n" "(j, c) \<in> parent_of gs ^^ k" by auto
      then show "j \<in> ?R"
      proof cases
        case 1
        then have "(j, i) \<in> parent_of gs ^^ 0" by simp
        then show ?thesis by blast
      next
        case 2
        then have "(j, i) \<in> parent_of gs ^^ Suc k" using child_step [OF Suc.prems] by auto
        with 2(2) show ?thesis using Suc_le_mono by blast
      qed
    qed
    show "?R \<subseteq> ?L"
    proof
      fix j
      assume "j \<in> ?R"
      then obtain k where k: "k \<le> Suc n" "(j, i) \<in> parent_of gs ^^ k" by blast
      show "j \<in> ?L"
      proof (cases k)
        case 0
        with k show ?thesis by simp
      next
        case (Suc m)
        with k(2) obtain c where c: "(j, c) \<in> parent_of gs ^^ m" "(c, i) \<in> parent_of gs" by auto
        from step_child [OF c(2)] obtain h where "(c, h) \<in> set (child_groups gs i)" by blast
        with c(1) k(1) Suc show ?thesis by auto
      qed
    qed
  qed
  finally show ?case .
qed

lemma set_item_all:
  assumes "(i, g) \<in> set gs"
  shows "set (flat_ids (group_item (length gs) gs (i, g))) = {j. (j, i) \<in> (parent_of gs)\<^sup>*}"
proof -
  have "\<exists>k \<le> length gs. (j, i) \<in> parent_of gs ^^ k" if j: "(j, i) \<in> (parent_of gs)\<^sup>*" for j
  proof -
    obtain k where "(j, i) \<in> parent_of gs ^^ k" using j unfolding rtrancl_power by blast
    then have "(j, i) \<in> (\<Union>n \<in> {n. n \<le> card (parent_of gs)}. parent_of gs ^^ n)"
      using relpow_finite_bounded [OF card_parent_of(1)] by blast
    then obtain n where "n \<le> card (parent_of gs)" "(j, i) \<in> parent_of gs ^^ n" by blast
    moreover have "n \<le> length gs" using calculation(1) card_parent_of(2) by (rule le_trans)
    ultimately show ?thesis by blast
  qed
  then have "{j. \<exists>k \<le> length gs. (j, i) \<in> parent_of gs ^^ k} = {j. (j, i) \<in> (parent_of gs)\<^sup>*}"
    using relpow_imp_rtrancl by blast
  then show ?thesis using set_item [OF assms, of "length gs"] by (rule subst)
qed

section \<open>Once each\<close>

lemma rooted_no_cycle:
  assumes "single_valued R" and "(x, r) \<in> R\<^sup>*" and "r \<notin> Domain R"
  shows "(x, x) \<notin> R\<^sup>+"
  using assms(2)
proof (induction rule: converse_rtrancl_induct)
  case base
  show ?case using assms(3) by (auto dest: tranclD)
next
  case (step x y)
  show ?case
  proof
    assume "(x, x) \<in> R\<^sup>+"
    then obtain z where z: "(x, z) \<in> R" "(z, x) \<in> R\<^sup>*" by (blast dest: tranclD)
    with step(1) assms(1) have "z = y" by (auto dest: single_valuedD)
    with z(2) step(1) have "(y, y) \<in> R\<^sup>+" by (simp add: rtrancl_into_trancl1)
    with step.IH show False by blast
  qed
qed

text \<open>Two nodes with a common descendant lie on one chain.\<close>

lemma common_below:
  assumes "single_valued R" and "(j, a) \<in> R\<^sup>*" and "(j, b) \<in> R\<^sup>*"
  shows "(a, b) \<in> R\<^sup>* \<or> (b, a) \<in> R\<^sup>*"
  using single_valued_confluent [OF assms] by blast

lemma siblings_apart:
  assumes sv: "single_valued R" and ab: "(a, x) \<in> R" "(b, x) \<in> R" "a \<noteq> b" and nc: "(x, x) \<notin> R\<^sup>+"
  shows "\<not> ((j, a) \<in> R\<^sup>* \<and> (j, b) \<in> R\<^sup>*)"
proof
  have no: "(c, d) \<notin> R\<^sup>*" if "(c, x) \<in> R" "(d, x) \<in> R" "c \<noteq> d" for c d
  proof
    assume "(c, d) \<in> R\<^sup>*"
    with that(3) obtain z where z: "(c, z) \<in> R" "(z, d) \<in> R\<^sup>*" by (blast elim: converse_rtranclE)
    with that(1) sv have "z = x" by (auto dest: single_valuedD)
    with z(2) that(2) nc show False by (meson rtrancl_into_trancl1)
  qed
  assume "(j, a) \<in> R\<^sup>* \<and> (j, b) \<in> R\<^sup>*"
  with common_below [OF sv] no [OF ab] no [OF ab(2,1)] ab(3) show False by blast
qed

lemma distinct_concat_ids:
  assumes "distinct xs" and "\<And>x. x \<in> set xs \<Longrightarrow> distinct (f x)"
    and "\<And>x y. x \<in> set xs \<Longrightarrow> y \<in> set xs \<Longrightarrow> x \<noteq> y \<Longrightarrow> set (f x) \<inter> set (f y) = {}"
  shows "distinct (concat (map f xs))"
  using assms by (induction xs) auto

lemma set_item_sub: "(i, g) \<in> set gs \<Longrightarrow> set (flat_ids (group_item n gs (i, g))) \<subseteq> {j. (j, i) \<in> (parent_of gs)\<^sup>*}"
  by (auto simp: set_item dest: relpow_imp_rtrancl)

lemma distinct_item:
  assumes d: "distinct (map fst gs)" and "(i, g) \<in> set gs" and "(i, r) \<in> (parent_of gs)\<^sup>*" and r: "r \<notin> Domain (parent_of gs)"
  shows "distinct (flat_ids (group_item n gs (i, g)))"
  using assms(2,3)
proof (induction n arbitrary: i g)
  case (Suc n)
  note sv = single_valued_parent [OF d]
  have nc: "(i, i) \<notin> (parent_of gs)\<^sup>+" by (rule rooted_no_cycle [OF sv Suc.prems(2) r])
  have st: "(c, i) \<in> parent_of gs" "(c, h) \<in> set gs" if "(c, h) \<in> set (child_groups gs i)" for c h
    using child_step [OF Suc.prems(1) that] child_groups_in [OF Suc.prems(1)] that by blast+
  have dc: "distinct (map fst (child_groups gs i))"
    unfolding child_groups_def using d by (rule distinct_map_filter)
  have sub: "set (flat_ids (group_item n gs (c, h))) \<subseteq> {j. (j, c) \<in> (parent_of gs)\<^sup>*}" if "(c, h) \<in> set (child_groups gs i)" for c h
    using set_item_sub [OF st(2) [OF that]] .
  have "distinct (concat (map (\<lambda>x. flat_ids (group_item n gs x)) (child_groups gs i)))"
  proof (rule distinct_concat_ids)
    show "distinct (child_groups gs i)" using dc by (simp add: distinct_map)
    fix x
    assume x: "x \<in> set (child_groups gs i)"
    obtain c h where xc: "x = (c, h)" by fastforce
    have "(c, r) \<in> (parent_of gs)\<^sup>*" using st(1) x xc Suc.prems(2) by (meson converse_rtrancl_into_rtrancl)
    with Suc.IH st(2) x xc show "distinct (flat_ids (group_item n gs x))" by blast
    fix y
    assume y: "y \<in> set (child_groups gs i)" "x \<noteq> y"
    obtain c' h' where yc: "y = (c', h')" by fastforce
    have "c \<noteq> c'" using eq_key_imp_eq_value [OF dc] x y xc yc by blast
    then have "\<not> ((j, c) \<in> (parent_of gs)\<^sup>* \<and> (j, c') \<in> (parent_of gs)\<^sup>*)" for j
      using siblings_apart [OF sv st(1) st(1) _ nc] x y xc yc by blast
    then show "set (flat_ids (group_item n gs x)) \<inter> set (flat_ids (group_item n gs y)) = {}"
      using sub [of c h] sub [of c' h'] x y(1) xc yc by blast
  qed
  moreover have "i \<notin> set (flat_ids (group_item n gs (c, h)))" if "(c, h) \<in> set (child_groups gs i)" for c h
  proof
    assume "i \<in> set (flat_ids (group_item n gs (c, h)))"
    with sub [OF that] have "(i, c) \<in> (parent_of gs)\<^sup>*" by blast
    with st(1) [OF that] nc show False by (meson rtrancl_into_trancl1)
  qed
  ultimately show ?case by (auto simp: comp_def)
qed simp

lemma well_nested_item: "well_nested (group_item n gs x) \<and> gn_group (group_item n gs x) = snd x"
proof (induction n arbitrary: x)
  case (Suc n)
  obtain i g where x: "x = (i, g)" by fastforce
  show ?case using Suc unfolding x by (auto simp: child_groups_def)
next
  case 0
  show ?case by (cases x) simp
qed

section \<open>The forest\<close>

lemma root_iff: "(i, g) \<in> set gs \<Longrightarrow> distinct (map fst gs) \<Longrightarrow> is_root_in gs (i, g) \<longleftrightarrow> i \<notin> Domain (parent_of gs)"
  unfolding is_root_in_def parent_of_def by (auto dest: eq_key_imp_eq_value)

lemma forest_ids:
  assumes d: "distinct (map fst gs)"
  shows "set (concat (map flat_ids (group_forest gs))) = rooted gs \<and> distinct (concat (map flat_ids (group_forest gs))) \<and>
    list_all well_nested (group_forest gs)"
proof (intro conjI)
  note sv = single_valued_parent [OF d]
  let ?rs = "filter (is_root_in gs) gs"
  have root: "(i, g) \<in> set ?rs \<longleftrightarrow> (i, g) \<in> set gs \<and> i \<notin> Domain (parent_of gs)" for i g
    using root_iff [OF _ d] by auto
  have ids: "set (flat_ids (group_item (length gs) gs (i, g))) = {j. (j, i) \<in> (parent_of gs)\<^sup>*}" if "(i, g) \<in> set ?rs" for i g
    using set_item_all that by simp
  have low: "j \<in> fst ` set gs" if "(j, i) \<in> (parent_of gs)\<^sup>*" "i \<in> fst ` set gs" for j i
    using that by (induction rule: converse_rtrancl_induct) (auto simp: parent_of_def intro: rev_image_eqI)
  have "set (concat (map flat_ids (group_forest gs))) = (\<Union>(i, g) \<in> set ?rs. {j. (j, i) \<in> (parent_of gs)\<^sup>*})"
    unfolding group_forest_def using ids by fastforce
  also have "\<dots> = rooted gs"
  proof
    show "(\<Union>(i, g) \<in> set ?rs. {j. (j, i) \<in> (parent_of gs)\<^sup>*}) \<subseteq> rooted gs"
    proof
      fix j
      assume "j \<in> (\<Union>(i, g) \<in> set ?rs. {j. (j, i) \<in> (parent_of gs)\<^sup>*})"
      then obtain i g where ig: "(i, g) \<in> set ?rs" "(j, i) \<in> (parent_of gs)\<^sup>*" by blast
      then have i: "i \<in> fst ` set gs" "i \<notin> Domain (parent_of gs)" using root [of i g] by (auto intro: rev_image_eqI)
      with low [OF ig(2)] ig(2) show "j \<in> rooted gs" unfolding rooted_def by blast
    qed
    show "rooted gs \<subseteq> (\<Union>(i, g) \<in> set ?rs. {j. (j, i) \<in> (parent_of gs)\<^sup>*})"
    proof
      fix j
      assume "j \<in> rooted gs"
      then obtain r where r: "(j, r) \<in> (parent_of gs)\<^sup>*" "r \<in> fst ` set gs" "r \<notin> Domain (parent_of gs)" unfolding rooted_def by blast
      then obtain g where "(r, g) \<in> set ?rs" using root by fastforce
      with r(1) show "j \<in> (\<Union>(i, g) \<in> set ?rs. {j. (j, i) \<in> (parent_of gs)\<^sup>*})" by blast
    qed
  qed
  finally show "set (concat (map flat_ids (group_forest gs))) = rooted gs" .
  have "distinct (concat (map (\<lambda>x. flat_ids (group_item (length gs) gs x)) ?rs))"
  proof (rule distinct_concat_ids)
    show "distinct ?rs" using d by (simp add: distinct_map)
    fix x
    assume x: "x \<in> set ?rs"
    obtain i g where xi: "x = (i, g)" by fastforce
    have i: "(i, g) \<in> set gs" "i \<notin> Domain (parent_of gs)" using x xi root by blast+
    show "distinct (flat_ids (group_item (length gs) gs x))" unfolding xi by (rule distinct_item [OF d i(1) _ i(2)]) simp
    fix y
    assume y: "y \<in> set ?rs" "x \<noteq> y"
    obtain i' g' where yi: "y = (i', g')" by fastforce
    have i': "(i', g') \<in> set gs" "i' \<notin> Domain (parent_of gs)" using y yi root by blast+
    have "i \<noteq> i'" using eq_key_imp_eq_value [OF d] i(1) i'(1) y(2) xi yi by blast
    then have "(i, i') \<notin> (parent_of gs)\<^sup>*" "(i', i) \<notin> (parent_of gs)\<^sup>*" using i(2) i'(2) by (blast elim: converse_rtranclE)+
    then have "\<not> ((j, i) \<in> (parent_of gs)\<^sup>* \<and> (j, i') \<in> (parent_of gs)\<^sup>*)" for j using common_below [OF sv] by blast
    then show "set (flat_ids (group_item (length gs) gs x)) \<inter> set (flat_ids (group_item (length gs) gs y)) = {}"
      using ids [of i g] ids [of i' g'] x y(1) xi yi by blast
  qed
  then show "distinct (concat (map flat_ids (group_forest gs)))" by (simp add: group_forest_def comp_def)
  show "list_all well_nested (group_forest gs)"
    by (auto simp: group_forest_def list_all_iff well_nested_item)
qed

lemma groups_shown_distinct: "table_ok (asset_groups w) \<Longrightarrow> distinct (map fst (groups_shown u w))"
proof -
  assume "table_ok (asset_groups w)"
  then have "distinct (map fst (rows (asset_groups w)))" by (simp add: table_ok_def)
  then have "distinct (map fst (all_tree w))" by (simp add: all_tree_def distinct_map)
  then show ?thesis by (simp add: groups_shown_def distinct_map_filter)
qed

end
