(* ===== verification/Cmdb_Service.thy ===== *)
theory Cmdb_Service
  imports Asset_Service
begin

text \<open>
  The configuration graph (\<open>cmdb_service.py\<close>, \<open>db/models/cmdb.py\<close>): directed relations between hosts and
  host groups, and the two searches over them, the topology around an entity and the entities a
  failure of it affects. The search goes level by level over all relations; what the caller
  may not see is cut from the answer afterwards.
\<close>

section \<open>Relations\<close>

record entity_relation =
  er_src_type :: string
  er_src_id :: int
  er_dst_type :: string
  er_dst_id :: int
  er_rel_type :: string
  er_properties :: "dict option"
  er_remark :: string

record cmdb_db = asset_db +
  relations :: "entity_relation table"

type_synonym entity = "string \<times> int"

definition er_src :: "entity_relation \<Rightarrow> entity" where
  "er_src r = (er_src_type r, er_src_id r)"

definition er_dst :: "entity_relation \<Rightarrow> entity" where
  "er_dst r = (er_dst_type r, er_dst_id r)"

type_synonym edge_key = "entity \<times> entity \<times> string"

definition er_key :: "entity_relation \<Rightarrow> edge_key" where
  "er_key r = (er_src r, er_dst r, er_rel_type r)"

definition ENTITY_TYPES :: "string list" where
  "ENTITY_TYPES = [''host'', ''host_group'']"

definition REL_TYPES :: "string list" where
  "REL_TYPES = [''depends_on'', ''runs_on'', ''connects_to'', ''member_of'', ''hosts'']"

section \<open>What a caller sees\<close>

text \<open>The identifiers of the hosts in some groups: address, name and key as text.\<close>

definition host_entity_ids :: "int list \<Rightarrow> 'z exec_db_scheme \<Rightarrow> string list" where
  "host_entity_ids groups w =
     concat (map (\<lambda>(i, h). (if h_ip h \<noteq> [] then [h_ip h] else []) @ (if h_hostname h \<noteq> [] then [h_hostname h] else []) @ [show_int i])
       (tselect (\<lambda>h. case h_group_id h of None \<Rightarrow> False | Some g \<Rightarrow> g \<in> set groups) (hosts w)))"

type_synonym scope = "string list option \<times> int list option"

definition visible_scope :: "current_user \<Rightarrow> 'z exec_db_scheme \<Rightarrow> scope" where
  "visible_scope u w =
     (if is_admin u then (None, None) else (Some (host_entity_ids (visible_group_ids u) w), Some (visible_group_ids u)))"

definition entity_visible :: "scope \<Rightarrow> entity \<Rightarrow> bool" where
  "entity_visible sc x =
     (case (sc, x) of ((hs, gs), (etype, eid)) \<Rightarrow>
        if etype = ''host'' then (case hs of None \<Rightarrow> True | Some ids \<Rightarrow> show_int eid \<in> set ids)
        else if etype = ''host_group'' then (case gs of None \<Rightarrow> True | Some ids \<Rightarrow> eid \<in> set ids)
        else hs = None \<and> gs = None)"

definition both_visible :: "scope \<Rightarrow> entity_relation \<Rightarrow> bool" where
  "both_visible sc r = (entity_visible sc (er_src r) \<and> entity_visible sc (er_dst r))"

section \<open>The gate and the checks\<close>

definition cmdb_gate :: "string \<Rightarrow> current_user \<Rightarrow> 'z sys_db_scheme \<Rightarrow> 'o res \<Rightarrow> 'o res" where
  "cmdb_gate perm u w r =
     (if \<not> feature_on w ''feature.cmdb_topology'' then Inl feature_disabled
      else if \<not> has_perm u perm then Inl (perm_denied perm) else r)"

definition clamp_depth :: "int option \<Rightarrow> nat res" where
  "clamp_depth depth = (case depth of None \<Rightarrow> Inr 2
     | Some d \<Rightarrow> if d < 0 \<or> d > 3 then Inl (ValidationError ''depth must be 0..3'') else Inr (nat d))"

definition check_direction :: "string option \<Rightarrow> string res" where
  "check_direction direction =
     (let d = (case direction of None \<Rightarrow> ''both'' | Some s \<Rightarrow> or_str s ''both'')
      in if d \<notin> {''up'', ''down'', ''both''} then Inl (ValidationError ''direction must be one of both, down, up'') else Inr d)"

definition validate_relation :: "entity_relation \<Rightarrow> unit res" where
  "validate_relation d =
     (if er_src_type d \<notin> set ENTITY_TYPES \<or> er_dst_type d \<notin> set ENTITY_TYPES then Inl (ValidationError ''entity_type must be one of host, host_group'')
      else if er_rel_type d \<notin> set REL_TYPES then Inl (ValidationError ''rel_type'')
      else if er_src d = er_dst d then Inl (ValidationError ''self relation is not allowed'')
      else Inr ())"

section \<open>Operations on relations\<close>

record relation_filters =
  rf_src_type :: "string option"
  rf_src_id :: "int option"
  rf_dst_type :: "string option"
  rf_dst_id :: "int option"
  rf_rel_type :: "string option"

definition is_opt :: "'a option \<Rightarrow> 'a \<Rightarrow> bool" where
  "is_opt x v = (case x of None \<Rightarrow> True | Some y \<Rightarrow> v = y)"

definition relation_matches :: "relation_filters \<Rightarrow> entity_relation \<Rightarrow> bool" where
  "relation_matches f r = (is_opt (rf_src_type f) (er_src_type r) \<and> is_opt (rf_src_id f) (er_src_id r) \<and>
     is_opt (rf_dst_type f) (er_dst_type r) \<and> is_opt (rf_dst_id f) (er_dst_id r) \<and> is_opt (rf_rel_type f) (er_rel_type r))"

definition list_relations ::
  "relation_filters \<Rightarrow> int \<Rightarrow> int \<Rightarrow> current_user \<Rightarrow> 'z cmdb_db_scheme \<Rightarrow> ((int \<times> entity_relation) list \<times> nat) res" where
  "list_relations f page sz u w = cmdb_gate ''asset:relation:list'' u w
     (let rs = filter (\<lambda>(i, r). both_visible (visible_scope u w) r) (rev (tselect (relation_matches f) (relations w)))
      in Inr (page_of page sz rs, length rs))"

text \<open>The body of the request has the fields of the row.\<close>

definition create_relation ::
  "entity_relation \<Rightarrow> current_user \<Rightarrow> 'z cmdb_db_scheme \<Rightarrow> ((int \<times> entity_relation) \<times> 'z cmdb_db_scheme) res" where
  "create_relation d u w = cmdb_gate ''asset:relation:add'' u w
     (case validate_relation d of
        Inl er \<Rightarrow> Inl er
      | Inr _ \<Rightarrow>
          if \<not> both_visible (visible_scope u w) d then Inl (ForbiddenError ''relation endpoints not visible to caller'')
          else (case tfirst (\<lambda>r. er_key r = er_key d) (relations w) of
                  Some x \<Rightarrow> Inr (x, w)
                | None \<Rightarrow> Inr ((next_id (relations w), d), w\<lparr>relations := tadd d (relations w)\<rparr>)))"

definition delete_relation :: "int \<Rightarrow> current_user \<Rightarrow> 'z cmdb_db_scheme \<Rightarrow> (unit \<times> 'z cmdb_db_scheme) res" where
  "delete_relation rid u w = cmdb_gate ''asset:relation:del'' u w
     (case tget (relations w) rid of
        None \<Rightarrow> Inl (NotFoundError ''relation not found'')
      | Some r \<Rightarrow>
          if \<not> both_visible (visible_scope u w) r then Inl (ForbiddenError ''relation endpoints not visible to caller'')
          else Inr ((), w\<lparr>relations := tdel rid (relations w)\<rparr>))"

section \<open>Search\<close>

definition edges_for :: "'z cmdb_db_scheme \<Rightarrow> string \<Rightarrow> string list \<Rightarrow> entity \<Rightarrow> entity_relation list" where
  "edges_for w direction rel_types node =
     map snd (tselect (\<lambda>r. (rel_types \<noteq> [] \<longrightarrow> er_rel_type r \<in> set rel_types) \<and>
       (if direction = ''down'' then er_src r = node
        else if direction = ''up'' then er_dst r = node
        else er_src r = node \<or> er_dst r = node)) (relations w))"

definition other_end :: "entity \<Rightarrow> entity_relation \<Rightarrow> entity" where
  "other_end node r = (if er_src r = node then er_dst r else er_src r)"

text \<open>The state of the topology search: the role of each node, in the order of discovery (\<open>node_role\<close> and
  \<open>order\<close> grow together), the edges met, and the nodes found on this level.\<close>

record topo =
  tp_role :: "(entity \<times> string) list"
  tp_edges :: "edge_key list"
  tp_next :: "entity list"

definition topo_edge :: "entity \<Rightarrow> entity_relation \<Rightarrow> topo \<Rightarrow> topo" where
  "topo_edge node r t =
     (let t1 = (if er_key r \<in> set (tp_edges t) then t else t\<lparr>tp_edges := tp_edges t @ [er_key r]\<rparr>);
          x = other_end node r
      in if x \<in> fst ` set (tp_role t) then t1
         else t1\<lparr>tp_role := tp_role t @ [(x, if er_src r = node then ''down'' else ''up'')], tp_next := tp_next t @ [x]\<rparr>)"

definition topo_node :: "'z cmdb_db_scheme \<Rightarrow> string \<Rightarrow> string list \<Rightarrow> entity \<Rightarrow> topo \<Rightarrow> topo" where
  "topo_node w direction rels node t = fold (topo_edge node) (edges_for w direction rels node) t"

definition topo_level :: "'z cmdb_db_scheme \<Rightarrow> string \<Rightarrow> string list \<Rightarrow> topo \<Rightarrow> topo" where
  "topo_level w direction rels t = fold (topo_node w direction rels) (tp_next t) (t\<lparr>tp_next := []\<rparr>)"

text \<open>The levels that are left; the flag is \<open>truncated\<close>.\<close>

fun topo_levels :: "'z cmdb_db_scheme \<Rightarrow> string \<Rightarrow> string list \<Rightarrow> nat \<Rightarrow> topo \<Rightarrow> topo \<times> bool" where
  "topo_levels w direction rels 0 t = (t, False)"
| "topo_levels w direction rels (Suc n) t =
     (let t' = topo_level w direction rels t
      in if tp_next t' = [] then (t', False) else if n = 0 then (t', True) else topo_levels w direction rels n t')"

definition topo_start :: "entity \<Rightarrow> topo" where
  "topo_start origin = \<lparr>tp_role = [(origin, ''root'')], tp_edges = [], tp_next = [origin]\<rparr>"

definition label_of :: "'z cmdb_db_scheme \<Rightarrow> entity \<Rightarrow> string" where
  "label_of w x =
     (if fst x = ''host'' then (case tget (hosts w) (snd x) of None \<Rightarrow> [] | Some h \<Rightarrow> or_str (h_hostname h) (h_ip h))
      else if fst x = ''host_group'' then (case tget (asset_groups w) (snd x) of None \<Rightarrow> [] | Some g \<Rightarrow> ag_name g)
      else [])"

record topology_out =
  to_nodes :: "(entity \<times> string \<times> string) list" \<comment> \<open>entity, label, role\<close>
  to_edges :: "edge_key list"
  to_truncated :: bool

definition topology ::
  "entity \<Rightarrow> string option \<Rightarrow> int option \<Rightarrow> string list \<Rightarrow> current_user \<Rightarrow> 'z cmdb_db_scheme \<Rightarrow> topology_out res" where
  "topology origin direction depth rels u w = cmdb_gate ''asset:topo:view'' u w
     (case check_direction direction of
        Inl er \<Rightarrow> Inl er
      | Inr dir \<Rightarrow>
          (case clamp_depth depth of
             Inl er \<Rightarrow> Inl er
           | Inr n \<Rightarrow>
               (case topo_levels w dir rels n (topo_start origin) of
                  (t, truncated) \<Rightarrow>
                    (let sc = visible_scope u w
                     in Inr \<lparr>to_nodes = map (\<lambda>(x, role). (x, label_of w x, role)) (filter (\<lambda>(x, role). entity_visible sc x) (tp_role t)),
                             to_edges = filter (\<lambda>(s, d, _). entity_visible sc s \<and> entity_visible sc d) (tp_edges t),
                             to_truncated = truncated\<rparr>))))"

text \<open>The impact search keeps the nodes only: the ones seen, with the origin first, and the ones found on
  this level.\<close>

definition impact_node :: "'z cmdb_db_scheme \<Rightarrow> string \<Rightarrow> string list \<Rightarrow> entity \<Rightarrow> entity list \<times> entity list \<Rightarrow> entity list \<times> entity list" where
  "impact_node w direction rels node st =
     fold (\<lambda>r (seen, nxt). let x = other_end node r in if x \<in> set seen then (seen, nxt) else (seen @ [x], nxt @ [x]))
       (edges_for w direction rels node) st"

definition impact_level :: "'z cmdb_db_scheme \<Rightarrow> string \<Rightarrow> string list \<Rightarrow> entity list \<times> entity list \<Rightarrow> entity list \<times> entity list" where
  "impact_level w direction rels st = fold (impact_node w direction rels) (snd st) (fst st, [])"

fun impact_levels :: "'z cmdb_db_scheme \<Rightarrow> string \<Rightarrow> string list \<Rightarrow> nat \<Rightarrow> entity list \<times> entity list \<Rightarrow> (entity list \<times> entity list) \<times> bool" where
  "impact_levels w direction rels 0 st = (st, False)"
| "impact_levels w direction rels (Suc n) st =
     (let st' = impact_level w direction rels st
      in if snd st' = [] then (st', False) else if n = 0 then (st', True) else impact_levels w direction rels n st')"

record impact_out =
  io_root :: "entity \<times> string"
  io_affected :: "(entity \<times> string) list"
  io_count :: nat
  io_truncated :: bool

definition impact ::
  "entity \<Rightarrow> string option \<Rightarrow> int option \<Rightarrow> string list \<Rightarrow> current_user \<Rightarrow> 'z cmdb_db_scheme \<Rightarrow> impact_out res" where
  "impact origin direction depth rels u w = cmdb_gate ''asset:topo:view'' u w
     (case check_direction (case direction of None \<Rightarrow> Some ''down'' | Some d \<Rightarrow> Some d) of
        Inl er \<Rightarrow> Inl er
      | Inr dir \<Rightarrow>
          (case clamp_depth depth of
             Inl er \<Rightarrow> Inl er
           | Inr n \<Rightarrow>
               (case impact_levels w dir rels n ([origin], [origin]) of
                  ((seen, _), truncated) \<Rightarrow>
                    (let affected = filter (entity_visible (visible_scope u w)) (tl seen)
                     in Inr \<lparr>io_root = (origin, label_of w origin), io_affected = map (\<lambda>x. (x, label_of w x)) affected,
                             io_count = length affected, io_truncated = truncated\<rparr>))))"

section \<open>The search reaches what lies within the depth\<close>

text \<open>One step along a relation in the direction of the search.\<close>

definition graph_step :: "'z cmdb_db_scheme \<Rightarrow> string \<Rightarrow> string list \<Rightarrow> entity \<Rightarrow> entity \<Rightarrow> bool" where
  "graph_step w direction rels x y = (y \<in> other_end x ` set (edges_for w direction rels x))"

definition in_range :: "('a \<Rightarrow> 'a \<Rightarrow> bool) \<Rightarrow> nat \<Rightarrow> 'a \<Rightarrow> 'a set" where
  "in_range adj n x = {y. \<exists>k \<le> n. (adj ^^ k) x y}"

lemma in_range_0 [simp]: "in_range adj 0 x = {x}"
  by (auto simp: in_range_def)

lemma in_range_Suc: "in_range adj (Suc n) x = in_range adj n x \<union> {z. \<exists>y \<in> in_range adj n x. adj y z}"
proof
  show "in_range adj (Suc n) x \<subseteq> in_range adj n x \<union> {z. \<exists>y \<in> in_range adj n x. adj y z}"
  proof
    fix z
    assume "z \<in> in_range adj (Suc n) x"
    then obtain k where k: "k \<le> Suc n" "(adj ^^ k) x z" by (auto simp: in_range_def)
    show "z \<in> in_range adj n x \<union> {z. \<exists>y \<in> in_range adj n x. adj y z}"
    proof (cases k)
      case 0
      with k show ?thesis by (auto simp: in_range_def)
    next
      case (Suc m)
      with k obtain y where "(adj ^^ m) x y" "adj y z" by (auto elim: relcomppE)
      moreover have "m \<le> n" using k Suc by simp
      ultimately show ?thesis by (auto simp: in_range_def)
    qed
  qed
next
  show "in_range adj n x \<union> {z. \<exists>y \<in> in_range adj n x. adj y z} \<subseteq> in_range adj (Suc n) x"
  proof
    fix z
    assume "z \<in> in_range adj n x \<union> {z. \<exists>y \<in> in_range adj n x. adj y z}"
    then consider "z \<in> in_range adj n x" | y where "y \<in> in_range adj n x" "adj y z" by auto
    then show "z \<in> in_range adj (Suc n) x"
    proof cases
      case 1
      then show ?thesis using le_SucI unfolding in_range_def by blast
    next
      case 2
      then obtain k where "k \<le> n" "(adj ^^ k) x y" by (auto simp: in_range_def)
      with 2 have "Suc k \<le> Suc n" "(adj ^^ Suc k) x z" by auto
      then show ?thesis unfolding in_range_def by blast
    qed
  qed
qed

lemma in_range_stable: "in_range adj (Suc n) x = in_range adj n x \<Longrightarrow> in_range adj (n + k) x = in_range adj n x"
proof (induction k)
  case (Suc k)
  have "in_range adj (Suc (n + k)) x = in_range adj n x \<union> {z. \<exists>y \<in> in_range adj n x. adj y z}"
    using Suc by (simp add: in_range_Suc)
  with Suc.prems show ?case by (simp add: in_range_Suc)
qed simp

text \<open>The first \<open>k\<close> levels are done: \<open>seen\<close> are the nodes within the distance \<open>k\<close>, and only the ones of the
  last level may have neighbours that are not among them.\<close>

definition levels_done :: "('a \<Rightarrow> 'a \<Rightarrow> bool) \<Rightarrow> nat \<Rightarrow> 'a \<Rightarrow> 'a list \<Rightarrow> 'a list \<Rightarrow> bool" where
  "levels_done adj k origin seen front \<longleftrightarrow> set seen = in_range adj k origin \<and> set front \<subseteq> set seen \<and>
     (\<forall>y x. x \<in> set seen \<longrightarrow> x \<notin> set front \<longrightarrow> adj x y \<longrightarrow> y \<in> set seen)"

text \<open>The interface of a search by levels: \<open>seen\<close> are the nodes found so far in order, \<open>front\<close> the ones
  found on the last level, and a level finds the neighbours of the front that are new.\<close>

locale level_search =
  fixes adj :: "'a \<Rightarrow> 'a \<Rightarrow> bool"
    and seen :: "'s \<Rightarrow> 'a list"
    and front :: "'s \<Rightarrow> 'a list"
    and level :: "'s \<Rightarrow> 's"
    and levels :: "nat \<Rightarrow> 's \<Rightarrow> 's \<times> bool"
  assumes level_seen: "seen (level s) = seen s @ front (level s)"
    and level_front: "set (front (level s)) = {y. \<exists>x \<in> set (front s). adj x y} - set (seen s)"
    and level_distinct: "distinct (seen s) \<Longrightarrow> distinct (seen (level s))"
    and levels_0: "levels 0 s = (s, False)"
    and levels_Suc: "levels (Suc n) s =
      (if front (level s) = [] then (level s, False) else if n = 0 then (level s, True) else levels n (level s))"
begin

lemma reached_level: "levels_done adj k origin (seen s) (front s) \<Longrightarrow> levels_done adj (Suc k) origin (seen (level s)) (front (level s))"
proof -
  assume r: "levels_done adj k origin (seen s) (front s)"
  have "set (seen (level s)) = set (seen s) \<union> {y. \<exists>x \<in> set (front s). adj x y}"
    using level_front [of s] by (auto simp: level_seen)
  also have "\<dots> = set (seen s) \<union> {y. \<exists>x \<in> set (seen s). adj x y}"
    using r unfolding levels_done_def by blast
  finally have s: "set (seen (level s)) = in_range adj (Suc k) origin"
    using r unfolding in_range_Suc levels_done_def by simp
  have "y \<in> set (seen (level s))" if "x \<in> set (seen (level s))" "x \<notin> set (front (level s))" "adj x y" for x y
  proof -
    have "x \<in> in_range adj k origin" using that r by (auto simp: level_seen levels_done_def)
    with that(3) show ?thesis unfolding s in_range_Suc by blast
  qed
  with s show ?thesis unfolding levels_done_def by (auto simp: level_seen)
qed

lemma levels_reach:
  assumes "levels_done adj k origin (seen s) (front s)" and "levels n s = (s', tr)"
  shows "set (seen s') = in_range adj (k + n) origin"
  using assms
proof (induction n arbitrary: k s)
  case 0
  then show ?case by (simp add: levels_0 levels_done_def)
next
  case (Suc n)
  note r = reached_level [OF Suc.prems(1)]
  consider (fin) "front (level s) = []" "s' = level s" | (cut) "n = 0" "s' = level s" | (more) "levels n (level s) = (s', tr)"
    using Suc.prems(2) by (auto simp: levels_Suc split: if_splits)
  then show ?case
  proof cases
    case fin
    then have "in_range adj (Suc k) origin = in_range adj k origin"
      using r Suc.prems(1) by (simp add: levels_done_def level_seen)
    then have "in_range adj (k + Suc n) origin = in_range adj k origin" by (rule in_range_stable)
    with fin Suc.prems(1) show ?thesis by (simp add: levels_done_def level_seen)
  next
    case cut
    then show ?thesis using r by (simp add: levels_done_def)
  next
    case more
    from Suc.IH [OF r more] show ?thesis by simp
  qed
qed

lemma levels_distinct: "distinct (seen s) \<Longrightarrow> levels n s = (s', tr) \<Longrightarrow> distinct (seen s')"
proof (induction n arbitrary: s)
  case (Suc n)
  then show ?case using level_distinct [of s] by (auto simp: levels_Suc split: if_splits)
qed (simp add: levels_0)

lemma levels_first: "seen s \<noteq> [] \<Longrightarrow> levels n s = (s', tr) \<Longrightarrow> seen s' \<noteq> [] \<and> hd (seen s') = hd (seen s)"
proof (induction n arbitrary: s)
  case (Suc n)
  have "seen (level s) \<noteq> []" "hd (seen (level s)) = hd (seen s)" using Suc.prems(1) by (simp_all add: level_seen)
  with Suc show ?case by (auto simp: levels_Suc split: if_splits)
qed (simp add: levels_0)

lemma not_truncated:
  assumes "levels_done adj k origin (seen s) (front s)" and "levels n s = (s', False)" and "0 < n"
  shows "in_range adj (k + n + m) origin = in_range adj (k + n) origin"
  using assms
proof (induction n arbitrary: k s)
  case (Suc n)
  note r = reached_level [OF Suc.prems(1)]
  show ?case
  proof (cases "front (level s) = []")
    case True
    then have st: "in_range adj (Suc k) origin = in_range adj k origin"
      using r Suc.prems(1) by (simp add: levels_done_def level_seen)
    have "in_range adj (k + (Suc n + m)) origin = in_range adj (k + Suc n) origin"
      unfolding in_range_stable [OF st] ..
    then show ?thesis by (simp add: add.assoc)
  next
    case False
    then have "levels n (level s) = (s', False)" "n \<noteq> 0" using Suc.prems(2) by (auto simp: levels_Suc split: if_splits)
    from Suc.IH [OF r this(1)] this(2) show ?thesis by simp
  qed
qed simp

end

text \<open>What a pass over some edges finds.\<close>

definition discover :: "entity \<Rightarrow> entity_relation \<Rightarrow> entity list \<times> entity list \<Rightarrow> entity list \<times> entity list" where
  "discover node r st = (let x = other_end node r in if x \<in> set (fst st) then st else (fst st @ [x], snd st @ [x]))"

lemma impact_node_discover: "impact_node w dir rels node st = fold (discover node) (edges_for w dir rels node) st"
proof -
  have "(\<lambda>r (seen, nxt). let x = other_end node r in if x \<in> set seen then (seen, nxt) else (seen @ [x], nxt @ [x])) = discover node"
    by (auto simp: fun_eq_iff discover_def Let_def)
  then show ?thesis by (simp add: impact_node_def)
qed

text \<open>\<open>found ys st st'\<close>: going from \<open>st\<close> to \<open>st'\<close> adds the new ones of \<open>ys\<close>, each once.\<close>

definition found :: "entity set \<Rightarrow> entity list \<times> entity list \<Rightarrow> entity list \<times> entity list \<Rightarrow> bool" where
  "found ys st st' = (\<exists>d. st' = (fst st @ d, snd st @ d) \<and> set d = ys - set (fst st) \<and> distinct d)"

lemma found_refl: "ys \<subseteq> set (fst st) \<Longrightarrow> found ys st st"
  by (cases st) (auto simp: found_def)

lemma found_trans: "found xs st1 st2 \<Longrightarrow> found ys st2 st3 \<Longrightarrow> found (xs \<union> ys) st1 st3"
  unfolding found_def
proof (elim exE conjE)
  fix d d'
  assume "st2 = (fst st1 @ d, snd st1 @ d)" "set d = xs - set (fst st1)" "distinct d"
    and "st3 = (fst st2 @ d', snd st2 @ d')" "set d' = ys - set (fst st2)" "distinct d'"
  then show "\<exists>d. st3 = (fst st1 @ d, snd st1 @ d) \<and> set d = xs \<union> ys - set (fst st1) \<and> distinct d"
    by (intro exI [of _ "d @ d'"]) auto
qed

lemma found_discover: "found {other_end node r} st (discover node r st)"
proof (cases "other_end node r \<in> set (fst st)")
  case True
  then show ?thesis by (simp add: discover_def found_refl)
next
  case False
  then show ?thesis unfolding found_def by (intro exI [of _ "[other_end node r]"]) (auto simp: discover_def Let_def)
qed

lemma found_fold:
  assumes "\<And>x st. x \<in> set xs \<Longrightarrow> found (N x) st (f x st)"
  shows "found (\<Union>x \<in> set xs. N x) st (fold f xs st)"
  using assms
proof (induction xs arbitrary: st)
  case Nil
  then show ?case by (simp add: found_refl)
next
  case (Cons x xs)
  have "found (N x) st (f x st)" using Cons.prems by simp
  moreover have "found (\<Union>x \<in> set xs. N x) (f x st) (fold f xs (f x st))" using Cons by simp
  ultimately have "found (N x \<union> (\<Union>x \<in> set xs. N x)) st (fold f xs (f x st))" by (rule found_trans)
  then show ?case by simp
qed

lemma found_level: "found {y. \<exists>x \<in> set (snd st). graph_step w dir rels x y} (fst st, []) (impact_level w dir rels st)"
proof -
  have "found {y. graph_step w dir rels x y} s (impact_node w dir rels x s)" for x s
  proof -
    have "found (\<Union>r \<in> set (edges_for w dir rels x). {other_end x r}) s (fold (discover x) (edges_for w dir rels x) s)"
      by (intro found_fold found_discover)
    moreover have "(\<Union>r \<in> set (edges_for w dir rels x). {other_end x r}) = {y. graph_step w dir rels x y}" by (auto simp: graph_step_def)
    ultimately show ?thesis by (simp add: impact_node_discover)
  qed
  then have "found (\<Union>x \<in> set (snd st). {y. graph_step w dir rels x y}) (fst st, []) (fold (impact_node w dir rels) (snd st) (fst st, []))"
    by (intro found_fold)
  moreover have "(\<Union>x \<in> set (snd st). {y. graph_step w dir rels x y}) = {y. \<exists>x \<in> set (snd st). graph_step w dir rels x y}" by auto
  ultimately show ?thesis by (simp add: impact_level_def)
qed

text \<open>The nodes of the topology search are the ones of the impact search.\<close>

definition topo_nodes :: "topo \<Rightarrow> entity list \<times> entity list" where
  "topo_nodes t = (map fst (tp_role t), tp_next t)"

lemma topo_nodes_edge: "topo_nodes (topo_edge node r t) = discover node r (topo_nodes t)"
  by (auto simp: topo_nodes_def topo_edge_def discover_def Let_def)

lemma topo_nodes_node: "topo_nodes (topo_node w dir rels node t) = impact_node w dir rels node (topo_nodes t)"
proof -
  have "topo_nodes (fold (topo_edge node) es t) = fold (discover node) es (topo_nodes t)" for es
    by (induction es arbitrary: t) (simp_all add: topo_nodes_edge)
  then show ?thesis by (simp add: topo_node_def impact_node_discover)
qed

lemma topo_nodes_level: "topo_nodes (topo_level w dir rels t) = impact_level w dir rels (topo_nodes t)"
proof -
  have "topo_nodes (fold (topo_node w dir rels) fs t) = fold (impact_node w dir rels) fs (topo_nodes t)" for fs t
    by (induction fs arbitrary: t) (simp_all add: topo_nodes_node)
  then show ?thesis by (simp add: topo_level_def impact_level_def topo_nodes_def)
qed

interpretation imp: level_search "graph_step w dir rels" fst snd "impact_level w dir rels" "impact_levels w dir rels" for w dir rels
proof
  fix s :: "entity list \<times> entity list"
  from found_level [of s w dir rels] show "fst (impact_level w dir rels s) = fst s @ snd (impact_level w dir rels s)"
    "set (snd (impact_level w dir rels s)) = {y. \<exists>x \<in> set (snd s). graph_step w dir rels x y} - set (fst s)"
    by (auto simp: found_def)
  from found_level [of s w dir rels] show "distinct (fst (impact_level w dir rels s))" if "distinct (fst s)"
    using that by (auto simp: found_def)
qed (simp_all add: Let_def)

interpretation top: level_search "graph_step w dir rels" "\<lambda>t. map fst (tp_role t)" tp_next "topo_level w dir rels" "topo_levels w dir rels" for w dir rels
proof
  fix t :: topo
  have eq: "map fst (tp_role (topo_level w dir rels t)) = fst (impact_level w dir rels (topo_nodes t))"
    "tp_next (topo_level w dir rels t) = snd (impact_level w dir rels (topo_nodes t))"
    using topo_nodes_level [of w dir rels t] by (auto simp: topo_nodes_def prod_eq_iff)
  have n: "fst (topo_nodes t) = map fst (tp_role t)" "snd (topo_nodes t) = tp_next t" by (simp_all add: topo_nodes_def)
  show "map fst (tp_role (topo_level w dir rels t)) = map fst (tp_role t) @ tp_next (topo_level w dir rels t)"
    using imp.level_seen [of w dir rels "topo_nodes t"] by (simp add: eq n)
  show "set (tp_next (topo_level w dir rels t)) = {y. \<exists>x \<in> set (tp_next t). graph_step w dir rels x y} - set (map fst (tp_role t))"
    using imp.level_front [of w dir rels "topo_nodes t"] by (simp add: eq n)
  show "distinct (map fst (tp_role (topo_level w dir rels t)))" if "distinct (map fst (tp_role t))"
    using imp.level_distinct [of "topo_nodes t" w dir rels] that by (simp add: eq n)
qed (simp_all add: Let_def)

lemma search_start: "levels_done (graph_step w dir rels) 0 origin [origin] [origin]"
  by (auto simp: levels_done_def)

section \<open>Gates\<close>

text \<open>Every operation asks for the feature first and for its permission next.\<close>

interpretation relation_list_gate: gated_op "''feature.cmdb_topology''" "''asset:relation:list''" "list_relations f page sz" for f page sz
  by unfold_locales (simp_all add: list_relations_def cmdb_gate_def)

interpretation relation_add_gate: gated_op "''feature.cmdb_topology''" "''asset:relation:add''" "create_relation d" for d
  by unfold_locales (simp_all add: create_relation_def cmdb_gate_def)

interpretation relation_del_gate: gated_op "''feature.cmdb_topology''" "''asset:relation:del''" "delete_relation rid" for rid
  by unfold_locales (simp_all add: delete_relation_def cmdb_gate_def)

interpretation topology_gate: gated_op "''feature.cmdb_topology''" "''asset:topo:view''" "topology origin dir depth rels" for origin dir depth rels
  by unfold_locales (simp_all add: topology_def cmdb_gate_def)

interpretation impact_gate: gated_op "''feature.cmdb_topology''" "''asset:topo:view''" "impact origin dir depth rels" for origin dir depth rels
  by unfold_locales (simp_all add: impact_def cmdb_gate_def)

end
