(* ===== verification/Asset_Properties.thy ===== *)
theory Asset_Properties
  imports Script_Facts Group_Tree Cmdb_Service Samples
begin

text \<open>
  Properties of the inventory: hosts and their agents, groups, credentials, the CSV files, the script
  library and the configuration graph.
\<close>

section \<open>A small inventory\<close>

definition new_box :: "string \<Rightarrow> string \<Rightarrow> int option \<Rightarrow> host_create" where
  "new_box name ip g = \<lparr>hq_hostname = name, hq_ip = ip, hq_os_type = ''linux'', hq_os_version = [], hq_group_id = g, hq_env = ''prod'',
     hq_tags = Some [''web''], hq_connector = ''agent'', hq_sensitivity_level = ''normal'', hq_remark = ''a,b''\<rparr>"

definition empty_cmdb :: cmdb_db where
  "empty_cmdb = \<lparr>config_rules = [(''feature.cmdb_topology'', [(''value'', JBool True)])], hosts = empty_table,
     scripts = empty_table, script_versions = empty_table, exec_tasks = empty_table, exec_task_hosts = empty_table,
     exec_logs = empty_table, approvals = empty_table, approval_records = empty_table, terminals = empty_table,
     auto_levels = empty_table, policies = empty_table, whitelist = empty_table, breakers = empty_table,
     ai_actions = empty_table, seq_exec_no = 0, seq_approval_no = 0, sems = (\<lambda>_. 0), outbox = [],
     schedules = empty_table, schedule_runs = empty_table, asset_groups = empty_table, credentials = empty_table, relations = empty_table\<rparr>"

definition with_group :: cmdb_db where
  "with_group = after (create_group sample_user \<lparr>gc_parent_id = None, gc_name = ''all'', gc_sort = 0\<rparr> empty_cmdb) empty_cmdb"

definition with_child :: cmdb_db where
  "with_child = after (create_group sample_user \<lparr>gc_parent_id = Some 1, gc_name = ''web'', gc_sort = 0\<rparr> with_group) with_group"

definition with_host :: cmdb_db where
  "with_host = after (create_host sample_user (new_box ''web1'' ''10.0.0.1'' (Some 2)) with_child) with_child"

definition with_bound :: cmdb_db where
  "with_bound = bind_host ''a1'' \<lparr>ai_hostname = Some ''web1'', ai_ip = None, ai_os_type = None, ai_os_version = None\<rparr> with_host"

section \<open>Hosts, agents and credentials\<close>


lemma empty_inventory: "assets_ok empty_cmdb" "gate_ok {} empty_cmdb"
  by (simp_all add: empty_cmdb_def assets_ok_def hosts_ok_def creds_ok_def unique_by_def fresh_gate fresh_install_def)

lemma inventory_steps: "asset_step\<^sup>*\<^sup>* empty_cmdb with_host" "asset_step with_host with_bound"
proof -
  have r: "\<not> isl (create_group sample_user \<lparr>gc_parent_id = None, gc_name = ''all'', gc_sort = 0\<rparr> empty_cmdb)"
    "\<not> isl (create_group sample_user \<lparr>gc_parent_id = Some 1, gc_name = ''web'', gc_sort = 0\<rparr> with_group)"
    "\<not> isl (create_host sample_user (new_box ''web1'' ''10.0.0.1'' (Some 2)) with_child)" by code_simp+
  have "asset_step empty_cmdb with_group" "asset_step with_group with_child" "asset_step with_child with_host"
    unfolding with_group_def with_child_def with_host_def
    by (rule as_create_group, rule after_eq, rule r(1) [unfolded with_group_def])
       (rule as_create_group, rule after_eq, rule r(2) [unfolded with_group_def],
        rule as_create_host, rule after_eq, rule r(3) [unfolded with_child_def with_group_def])
  then show "asset_step\<^sup>*\<^sup>* empty_cmdb with_host" by (meson rtranclp.rtrancl_into_rtrancl rtranclp.rtrancl_refl)
  show "asset_step with_host with_bound" by (rule as_bind) (simp add: with_bound_def)
qed


text \<open>C34: the first agent that says hello for a host keeps it: for as long as the host exists, through whatever
  handlers, imports, agent frames and executions, it is bound to that agent, and no other host is.\<close>

theorem host_keeps_its_agent:
  assumes "asset_step\<^sup>*\<^sup>* w w'" and "assets_ok w" and "tget (hosts w) i = Some h" and "h_agent_id h = Some a"
    and "tget (hosts w') j = Some g" and "tget (hosts w') i \<noteq> None"
  shows "h_agent_id g = Some a \<longleftrightarrow> j = i"
proof -
  have "map_option h_agent_id (tget (hosts w') i) = Some (Some a)"
    by (rule hst.lasts [where P = "\<lambda>w. map_option h_agent_id (tget (hosts w) i) = Some (Some a)", OF assms(1,2) _ _ assms(6)])
       (use assms(3,4) in simp, use assms(3,4) in simp, rule agent_kept_step)
  then obtain h' where h': "tget (hosts w') i = Some h'" "h_agent_id h' = Some a" by auto
  have "unique_by h_agent_id (hosts w')" using assets_okD(5) [OF hst.reach_ok [OF assms(1,2)]] .
  with h' assms(5) show ?thesis unfolding unique_by_def by (metis option.distinct(1) option.inject)
qed

theorem host_keeps_its_agent_witness:
  "h_agent_id (the (tget (hosts (after (update_connector sample_user 1 ''ssh'' with_bound) with_bound)) 1)) = Some ''a1''"
proof -
  let ?w = "after (update_connector sample_user 1 ''ssh'' with_bound) with_bound"
  have ok: "assets_ok with_bound"
    using asset_step_keeps [OF inventory_steps(2)] hst.reach_ok [OF inventory_steps(1) empty_inventory(1)] by blast
  have u: "\<not> isl (update_connector sample_user 1 ''ssh'' with_bound)"
    "tget (hosts with_bound) 1 = Some (the (tget (hosts with_bound) 1))" "h_agent_id (the (tget (hosts with_bound) 1)) = Some ''a1''"
    "tget (hosts ?w) 1 = Some (the (tget (hosts ?w) 1))"
    by code_simp+
  have "asset_step\<^sup>*\<^sup>* with_bound ?w" by (rule r_into_rtranclp, rule as_connector, rule after_eq, rule u(1))
  have "tget (hosts ?w) 1 \<noteq> None" by (subst u(4)) simp
  from host_keeps_its_agent [OF \<open>asset_step\<^sup>*\<^sup>* with_bound ?w\<close> ok u(2,3,4) this] show ?thesis by blast
qed

text \<open>What is stored for a new credential decrypts to what was sent, in the columns of its type: the secret
  of a password credential, and the key and, if there is one, the passphrase of a key credential; nothing else is
  stored.\<close>

lemma credential_stored:
  assumes "\<And>s. unseal e (seal e s) = Some s" and "table_ok (credentials w)" and "create_credential e u d w = Inr (cid, w')"
  shows "\<exists>c. tget (credentials w') cid = Some c \<and> cd_host_id c = cq_host_id d \<and>
    (if or_str (cq_type d) ''password'' = ''password''
     then cd_type c = ''password'' \<and> map_option (decrypt_secret e) (cd_secret_enc c) = Some (given (cq_secret d)) \<and> cd_key_enc c = None
     else cd_type c = ''key'' \<and> map_option (decrypt_secret e) (cd_key_enc c) = Some (given (cq_key d)) \<and>
       map_option (decrypt_secret e) (cd_secret_enc c) = map_option Some (given (cq_passphrase d)))"
proof -
  define ty where "ty = or_str (cq_type d) ''password''"
  obtain h where h: "fetch_host u (cq_host_id d) w = Inr h"
    using assms(3) by (auto simp: create_credential_def asset_perm_Inr split: sum.splits)
  obtain se ke where col: "cred_columns e ty (given (cq_secret d)) (given (cq_key d)) (given (cq_passphrase d)) = Inr (se, ke)"
    and ty: "ty \<in> {''password'', ''key''}" and cid: "cid = next_id (credentials w)"
    and w': "credentials w' = tadd \<lparr>cd_host_id = cq_host_id d, cd_type = ty, cd_username = cq_username d, cd_secret_enc = se, cd_key_enc = ke\<rparr> (credentials w)"
    using assms(3) by (auto simp: create_credential_def asset_perm_Inr h ty_def [symmetric] Let_def simp del: not_None_eq split: if_splits sum.splits prod.splits)
  have dec: "decrypt_secret e (encrypt_secret e 1 s) = Some s" for s by (rule decrypt_encrypt) (rule assms(1))
  have "map_option (decrypt_secret e) (map_option (encrypt_secret e 1) x) = map_option Some x" for x
    by (cases x) (simp_all add: dec)
  with col ty dec show ?thesis unfolding w' cid ty_def [symmetric]
    by (auto simp: tget_tadd [OF assms(2)] cred_columns_def split: if_splits)
qed

lemma credential_stored_witness:
  "\<exists>c. tget (credentials (after (create_credential sample_env sample_user
      \<lparr>cq_host_id = 1, cq_type = ''key'', cq_username = ''ops'', cq_secret = None, cq_key = Some ''pk'', cq_passphrase = Some ''pw''\<rparr> with_host) with_host)) 1
    = Some c \<and> map_option (decrypt_secret sample_env) (cd_key_enc c) = Some (Some ''pk'')"
proof -
  let ?d = "\<lparr>cq_host_id = 1, cq_type = ''key'', cq_username = ''ops'', cq_secret = None, cq_key = Some ''pk'', cq_passphrase = Some ''pw''\<rparr>"
  let ?w = "after (create_credential sample_env sample_user ?d with_host) with_host"
  have c: "\<not> isl (create_credential sample_env sample_user ?d with_host)" "fst (projr (create_credential sample_env sample_user ?d with_host)) = 1" "table_ok (credentials with_host)"
    "or_str (cq_type ?d) ''password'' \<noteq> ''password''" "given (cq_key ?d) = Some ''pk''"
    by code_simp+
  then have r: "create_credential sample_env sample_user ?d with_host = Inr (1, ?w)" using after_eq [OF c(1)] by simp
  have "unseal sample_env (seal sample_env s) = Some s" for s by (simp add: sample_env_def)
  from credential_stored [OF this c(3) r] c(4,5) show ?thesis by auto
qed

text \<open>The group tree lists exactly the shown groups whose chain of parents inside the list ends, each once and
  each below its parent. A group on a cycle of parents, and every group below it, is left out.\<close>

lemma group_tree_complete:
  assumes "table_ok (asset_groups w)" and "has_perm u ''asset:group:list''"
  shows "\<exists>t. group_tree u w = Inr t \<and> set (concat (map flat_ids t)) = rooted (groups_shown u w) \<and>
    distinct (concat (map flat_ids t)) \<and> list_all well_nested t"
  using forest_ids [OF groups_shown_distinct [OF assms(1), of u]] assms(2) by (simp add: group_tree_def asset_perm_def)

lemma group_tree_complete_witness: "\<exists>t. group_tree sample_user with_child = Inr t \<and> distinct (concat (map flat_ids t))"
proof -
  have "table_ok (asset_groups with_child)" "has_perm sample_user ''asset:group:list''" by code_simp+
  from group_tree_complete [OF this] show ?thesis by blast
qed

section \<open>The CSV files\<close>








section \<open>Scripts\<close>

text \<open>C22: the history of a script is permanent: whatever creations, edits, rollbacks, deletions and executions follow,
  for as long as the script exists each of its versions stays what it was, and its current version is one of
  them, so that it can be read.\<close>

theorem script_history_permanent:
  assumes "script_step\<^sup>*\<^sup>* w w'" and "scripts_ok w" and "by_script_version w sid v = Some r" and "tget (scripts w') sid = Some s"
    and "has_perm u ''script:list''"
  shows "by_script_version w' sid v = Some r \<and> (\<exists>out. get_script u sid None w' = Inr out)"
proof -
  have "by_script_version w' sid v = Some r" using version_kept [OF assms(1-3)] assms(4) by simp
  moreover have "by_script_version w' sid (sc_current_version s) \<noteq> None"
    using scripts_okD(4) [OF scr.reach_ok [OF assms(1,2)]] assms(4) by blast
  ultimately show ?thesis using assms(4,5) by (auto simp: get_script_def Let_def int_truthy_def)
qed

definition script_v1 :: cmdb_db where
  "script_v1 = after (create_script sample_user \<lparr>scq_name = ''clean'', scq_type = ''shell'', scq_content = ''ls'', scq_params_def = None\<rparr> empty_cmdb) empty_cmdb"

definition script_v2 :: cmdb_db where
  "script_v2 = after (update_script sample_user 1 \<lparr>scu_content = Some ''df'', scu_params_def = None\<rparr> script_v1) script_v1"

theorem script_history_permanent_witness:
  "map_option sv_content (by_script_version script_v2 1 1) = Some ''ls''"
proof -
  have r: "\<not> isl (create_script sample_user \<lparr>scq_name = ''clean'', scq_type = ''shell'', scq_content = ''ls'', scq_params_def = None\<rparr> empty_cmdb)"
    "\<not> isl (update_script sample_user 1 \<lparr>scu_content = Some ''df'', scu_params_def = None\<rparr> script_v1)" by code_simp+
  have "scripts_ok empty_cmdb" by (simp add: empty_cmdb_def scripts_ok_def unique_by_def)
  moreover have "script_step empty_cmdb script_v1" unfolding script_v1_def by (rule ss_create, rule after_eq, rule r(1))
  ultimately have ok: "scripts_ok script_v1" by (rule_tac script_step_keeps)
  have "script_step\<^sup>*\<^sup>* script_v1 script_v2"
    unfolding script_v2_def by (rule r_into_rtranclp, rule ss_update, rule after_eq, rule r(2))
  moreover have f: "by_script_version script_v1 1 1 = Some (the (by_script_version script_v1 1 1))"
    "tget (scripts script_v2) 1 = Some (the (tget (scripts script_v2) 1))" "has_perm sample_user ''script:list''"
    "sv_content (the (by_script_version script_v1 1 1)) = ''ls''" by code_simp+
  ultimately show ?thesis using script_history_permanent [OF _ ok f(1,2,3)] f(4) by auto
qed

text \<open>A rollback makes the old version the current one again, content and number, and leaves every version in place.\<close>

lemma rollback_restores:
  assumes "rollback_script u sid v w = Inr (v', w')" and "has_perm u ''script:list''"
  shows "\<exists>s sv pd. get_script u sid None w' = Inr (s, sv_content sv, pd, v) \<and> by_script_version w sid v = Some sv \<and> script_versions w' = script_versions w"
proof -
  obtain s sv f where s: "tget (scripts w) sid = Some s" "by_script_version w sid v = Some sv"
    and w': "w' = w\<lparr>scripts := tupd sid (\<lambda>r. r\<lparr>sc_current_version := v, sc_params_def := f\<rparr>) (scripts w)\<rparr>"
    using assms(1) by (auto simp: rollback_script_def split: if_splits option.splits)
  have "by_script_version w' sid v = Some sv" using s(2) by (simp add: by_script_version_def w')
  with s assms(2) show ?thesis by (auto simp: get_script_def w' Let_def int_truthy_def)
qed

section \<open>The configuration graph\<close>

text \<open>C19: the topology around an entity lists exactly the entities the caller may see within the depth, counted along
  relations of the given types in the given direction, each once; the path may lead through entities that the caller
  may not see.\<close>

theorem topology_exact:
  assumes "topology x dir depth rels u w = Inr out" and "check_direction dir = Inr d" and "clamp_depth depth = Inr n"
  shows "set (map fst (to_nodes out)) = {y \<in> in_range (graph_step w d rels) n x. entity_visible (visible_scope u w) y} \<and>
    distinct (map fst (to_nodes out))"
proof -
  obtain t tr where t: "topo_levels w d rels n (topo_start x) = (t, tr)" by fastforce
  have out: "map fst (to_nodes out) = filter (entity_visible (visible_scope u w)) (map fst (tp_role t))"
    using assms t by (auto simp: topology_def cmdb_gate_def Let_def filter_map comp_def case_prod_unfold split: if_splits)
  have "levels_done (graph_step w d rels) 0 x (map fst (tp_role (topo_start x))) (tp_next (topo_start x))"
    by (simp add: topo_start_def search_start)
  from top.levels_reach [OF this t] have "set (map fst (tp_role t)) = in_range (graph_step w d rels) n x" by simp
  moreover have "distinct (map fst (tp_role t))" by (rule top.levels_distinct [OF _ t]) (simp add: topo_start_def)
  ultimately show ?thesis unfolding out by auto
qed

definition link :: "entity \<Rightarrow> entity \<Rightarrow> entity_relation" where
  "link a b = \<lparr>er_src_type = fst a, er_src_id = snd a, er_dst_type = fst b, er_dst_id = snd b, er_rel_type = ''depends_on'',
     er_properties = None, er_remark = []\<rparr>"

definition graph_db :: cmdb_db where
  "graph_db = empty_cmdb\<lparr>relations := Table [(1, link (''host'', 1) (''host'', 2)), (2, link (''host'', 2) (''host'', 3)), (3, link (''host'', 3) (''host'', 4))] 3\<rparr>"

theorem topology_exact_witness:
  "set (map fst (to_nodes (projr (topology (''host'', 1) (Some ''down'') (Some 2) [] sample_user graph_db)))) =
   {y \<in> in_range (graph_step graph_db ''down'' []) 2 (''host'', 1). entity_visible (visible_scope sample_user graph_db) y}"
proof -
  have "\<not> isl (topology (''host'', 1) (Some ''down'') (Some 2) [] sample_user graph_db)" by code_simp
  then have t: "topology (''host'', 1) (Some ''down'') (Some 2) [] sample_user graph_db =
    Inr (projr (topology (''host'', 1) (Some ''down'') (Some 2) [] sample_user graph_db))" by simp
  have "check_direction (Some ''down'') = Inr ''down''" "clamp_depth (Some 2) = Inr 2" by code_simp+
  from topology_exact [OF t this] show ?thesis by blast
qed



text \<open>The graph keeps its shape: every relation is valid, none joins an entity to itself, and no edge is stored twice.\<close>

definition relations_ok :: "'z cmdb_db_scheme \<Rightarrow> bool" where
  "relations_ok w = (table_ok (relations w) \<and> unique_by (\<lambda>r. Some (er_key r)) (relations w) \<and>
     (\<forall>i r. tget (relations w) i = Some r \<longrightarrow> validate_relation r = Inr ()))"

lemma relations_stay_ok:
  assumes ok: "relations_ok w"
  shows "create_relation d u w = Inr (x, w') \<Longrightarrow> relations_ok w' \<and> tget (relations w') (fst x) = Some (snd x) \<and> er_key (snd x) = er_key d"
    and "delete_relation i u w = Inr (y, w') \<Longrightarrow> relations_ok w'"
proof -
  have t: "table_ok (relations w)" and q: "unique_by (\<lambda>r. Some (er_key r)) (relations w)"
    and v: "\<And>i r. tget (relations w) i = Some r \<Longrightarrow> validate_relation r = Inr ()" using ok by (simp_all add: relations_ok_def)
  show "relations_ok w' \<and> tget (relations w') (fst x) = Some (snd x) \<and> er_key (snd x) = er_key d" if c: "create_relation d u w = Inr (x, w')"
  proof -
    consider (old) "tfirst (\<lambda>r. er_key r = er_key d) (relations w) = Some x" "w' = w"
      | (new) "tfirst (\<lambda>r. er_key r = er_key d) (relations w) = None" "validate_relation d = Inr ()"
        "x = (next_id (relations w), d)" "relations w' = tadd d (relations w)"
      using c by (auto simp: create_relation_def cmdb_gate_def split: if_splits sum.splits option.splits)
    then show ?thesis
    proof cases
      case old
      obtain k r where x: "x = (k, r)" by fastforce
      from tfirst_Some [OF t old(1) [unfolded x]] ok old(2) x show ?thesis by simp
    next
      case new
      have "unique_by (\<lambda>r. Some (er_key r)) (tadd d (relations w))"
        using tfirst_None [OF new(1) t] by (intro unique_tadd q t) auto
      with new t v show ?thesis by (auto simp: relations_ok_def tget_tadd [OF t] split: if_splits)
    qed
  qed
  show "relations_ok w'" if "delete_relation i u w = Inr (y, w')"
    using that t q v by (auto simp: delete_relation_def cmdb_gate_def relations_ok_def tget_tdel intro: unique_tdel
        split: if_splits sum.splits option.splits)
qed

section \<open>The agent registry\<close>











section \<open>Findings\<close>

text \<open>Two groups that are made each other's parent both vanish from the tree.\<close>

lemma cyclic_groups_vanish:
  "group_tree sample_user (after (update_group sample_user 1 \<lparr>gu_name = None, gu_parent_id = Some 2, gu_sort = None\<rparr> with_child) with_child) = Inr []"
proof -
  let ?w = "after (update_group sample_user 1 \<lparr>gu_name = None, gu_parent_id = Some 2, gu_sort = None\<rparr> with_child) with_child"
  have "isl (group_tree sample_user ?w) = False" "length (projr (group_tree sample_user ?w)) = 0" by code_simp+
  then show ?thesis by (cases "group_tree sample_user ?w") simp_all
qed

text \<open>A host cannot be deleted while a schedule targets a host whose number contains its own.\<close>

lemma schedule_of_other_host_blocks: "sd_target_host_ids s = [12] \<Longrightarrow> schedule_mentions 2 s"
proof -
  have "sql_like (''%'' @ show_int 2 @ ''%'') (ids_text [12])" by code_simp
  then show "sd_target_host_ids s = [12] \<Longrightarrow> schedule_mentions 2 s" by (simp add: schedule_mentions_def)
qed

text \<open>A file that names one new address twice is refused as a whole, with the unique index of the database as the answer.\<close>

definition twice_csv :: string where
  "twice_csv = ''hostname,ip'' @ [CHR 0x0A] @ ''a,10.0.0.9'' @ [CHR 0x0A] @ ''b,10.0.0.9'' @ [CHR 0x0A]"

lemma import_duplicate_fails: "import_hosts sample_user twice_csv with_host = Inl (IntegrityError ''asset_host.ip'')"
proof -
  have "isl (import_hosts sample_user twice_csv with_host)" "projl (import_hosts sample_user twice_csv with_host) = IntegrityError ''asset_host.ip''"
    by code_simp+
  then show ?thesis by (cases "import_hosts sample_user twice_csv with_host") simp_all
qed

text \<open>A host whose name is the number of another makes that other one visible in the graph.\<close>

lemma hostname_grants_visibility:
  assumes "table_ok (hosts w)" and "tget (hosts w) i = Some h" and "h_group_id h = Some g" and "g \<in> set (visible_group_ids u)"
    and "h_hostname h = show_int j"
  shows "entity_visible (visible_scope u w) (''host'', j)"
proof (cases "is_admin u")
  case False
  let ?P = "\<lambda>h. case h_group_id h of None \<Rightarrow> False | Some g \<Rightarrow> g \<in> set (visible_group_ids u)"
  have "show_int j \<noteq> []" unfolding show_int_def using digits_Cons by (metis list.distinct(1))
  then have n: "show_int j \<in> set ((\<lambda>(i, h). (if h_ip h \<noteq> [] then [h_ip h] else []) @ (if h_hostname h \<noteq> [] then [h_hostname h] else []) @ [show_int i]) (i, h))"
    using assms(5) by simp
  have "(i, h) \<in> set (tselect ?P (hosts w))" using in_tselect [OF assms(1), of i h ?P] assms(2-4) by simp
  with n have "show_int j \<in> set (host_entity_ids (visible_group_ids u) w)" unfolding host_entity_ids_def by fastforce
  with False show ?thesis by (simp add: visible_scope_def entity_visible_def)
qed (simp add: visible_scope_def entity_visible_def)

text \<open>The label of the centre of an impact search is shown to a caller who may not see the entity.\<close>

lemma impact_shows_centre: "impact x dir depth rels u w = Inr out \<Longrightarrow> io_root out = (x, label_of w x)"
  by (auto simp: impact_def cmdb_gate_def Let_def split: if_splits sum.splits prod.splits)

text \<open>A script that only finished tasks used passes the reference check and is then refused by the database.\<close>

lemma delete_used_script_fails:
  assumes "has_perm u ''script:del''" and "tget (scripts w) sid = Some s" and "script_referenced_count w sid = 0"
    and "texists (\<lambda>t. xt_script_id t = Some sid) (exec_tasks w)"
  shows "delete_script u sid w = Inl (IntegrityError ''exec_task.script_id'')"
  using assms by (simp add: delete_script_def)

text \<open>A caller may move a host into a group that the caller may not see, and then no longer sees the host.\<close>

lemma host_moved_out_of_sight:
  assumes "has_perm u ''asset:host:edit''" and "\<not> is_admin u" and "tget (hosts w) i = Some h" and "asset_host_visible u h"
    and "tget (asset_groups w) g \<noteq> None" and "g \<notin> set (visible_group_ids u)"
    and d: "d = \<lparr>hu_hostname = None, hu_ip = None, hu_os_type = None, hu_os_version = None, hu_group_id = Some g, hu_env = None,
        hu_tags = None, hu_connector = None, hu_sensitivity_level = None, hu_remark = None\<rparr>"
  shows "\<exists>w'. update_host u i d w = Inr ((), w') \<and> fetch_host u i w' = Inl host_forbidden"
proof -
  have "fetch_host u i w = Inr h" using assms(3,4) by (simp add: fetch_host_def)
  then show ?thesis using assms by (auto simp: update_host_def asset_perm_def group_fk_def fetch_host_def apply_host_update_def
        upd_opt_def asset_host_visible_def)
qed

text \<open>Deleting a host deletes the records of its terminal sessions.\<close>

lemma delete_host_drops_sessions:
  assumes "table_ok (terminals w)" and "delete_host u i w = Inr (x, w')" and "tget (terminals w') k = Some t"
  shows "ts_host_id t \<noteq> i"
  using assms by (auto simp: delete_host_def asset_perm_Inr tget_drop_rows split: if_splits sum.splits option.splits)

end
