(* ===== verification/Sso_Service.thy ===== *)
theory Sso_Service
  imports Identity_Service
begin

text \<open>
  Single sign-on (\<open>sso_service.py\<close>, \<open>AuthProviderRepository\<close>, the OAuth state of \<open>core/redis_helper.py\<close>):
  identity providers and their encrypted configuration, LDAP and OAuth2 login, mapping an external
  identity to a local user, and provisioning with default roles. Operations carry the permission their
  endpoint asks for (\<open>api/v1/endpoints/auth.py\<close>).

  The directory and the HTTP endpoints of a provider are the record \<open>idp\<close>; \<open>None\<close> is an exception of the
  library. The text of \<open>config_enc\<close> is only ever written by \<open>_dump_config\<close> and is kept as the dict it
  encodes. \<open>external_id\<close> and \<open>last_external_login_at\<close> are stored only; the length of the former is checked
  by the database.
\<close>

section \<open>Rows and the outside\<close>

record auth_provider =
  av_code :: string
  av_name :: string
  av_type :: string
  av_config_enc :: dict
  av_enabled :: int

record privileged_grant =
  pg_user_id :: int
  pg_provider_code :: string
  pg_role_codes :: "string list"

record sso_db = id_db +
  auth_providers :: "auth_provider table"
  grant_audits :: "privileged_grant list" \<comment> \<open>the rows of \<open>audit_log\<close> with action \<open>sso.provider.privileged_roles\<close>\<close>

record idp =
  ldap_bind :: "json \<Rightarrow> json \<Rightarrow> json \<Rightarrow> bool option" \<comment> \<open>server, name, password\<close>
  ldap_search :: "json \<Rightarrow> string \<Rightarrow> json \<Rightarrow> json \<Rightarrow> dict list option" \<comment> \<open>server, bound name, base, filter\<close>
  http_post :: "json \<Rightarrow> (string \<times> json) list \<Rightarrow> json option"
  http_get :: "json \<Rightarrow> json \<Rightarrow> json option" \<comment> \<open>address, bearer token\<close>
  http_get_status :: "json \<Rightarrow> int option"
  repr_of :: "json \<Rightarrow> string" \<comment> \<open>\<open>str\<close> of a list or a dict\<close>
  token_urlsafe :: string \<comment> \<open>what \<open>secrets.token_urlsafe\<close> draws\<close>
  frontend_setting :: string \<comment> \<open>\<open>settings.sso_frontend_callback_url\<close>\<close>
  api_prefix :: string

fun py_str :: "env \<Rightarrow> idp \<Rightarrow> json \<Rightarrow> string" where
  "py_str e x (JStr s) = s"
| "py_str e x (JInt n) = show_int n"
| "py_str e x (JBool b) = (if b then ''True'' else ''False'')"
| "py_str e x (JFloat r) = float_repr e r"
| "py_str e x JNull = ''None''"
| "py_str e x v = repr_of x v"

section \<open>Flags and rules\<close>

text \<open>\<open>== 0\<close> also holds of \<open>False\<close>.\<close>

definition is_zero :: "json \<Rightarrow> bool" where
  "is_zero j = (j = JInt 0 \<or> j = JFloat 0 \<or> j = JBool False)"

definition sso_enabled :: "'z sys_db_scheme \<Rightarrow> bool" where
  "sso_enabled w = (case by_key w ''feature.sso'' of None \<Rightarrow> True | Some rv \<Rightarrow> \<not> is_zero (dget rv ''enabled''))"

definition sso_disabled :: app_error where
  "sso_disabled = BadRequestError ''sso feature disabled''"

definition config_rule :: "'z sys_db_scheme \<Rightarrow> string \<Rightarrow> json \<Rightarrow> json" where
  "config_rule w key dflt = (case by_key w key of None \<Rightarrow> dflt | Some rv \<Rightarrow> (case map_of rv ''value'' of None \<Rightarrow> dflt | Some v \<Rightarrow> v))"

section \<open>Configuration\<close>

definition SSO_SECRET_KEYS :: "string list" where
  "SSO_SECRET_KEYS = [''password'', ''client_secret'', ''secret'', ''token'']"

definition enc_prefixed :: "string \<Rightarrow> bool" where
  "enc_prefixed s = (take 4 s = ''enc:'')"

definition masked_secret :: "string \<Rightarrow> bool" where
  "masked_secret s = (CHR ''*'' \<in> set s)"

fun decrypt_val :: "env \<Rightarrow> json \<Rightarrow> json"
  and sso_decrypt_config :: "env \<Rightarrow> dict \<Rightarrow> dict" where
  "decrypt_val e (JStr s) = (if enc_prefixed s then JStr (case decrypt_secret e (drop 4 s) of None \<Rightarrow> [] | Some p \<Rightarrow> p) else JStr s)"
| "decrypt_val e (JObj d) = JObj (sso_decrypt_config e d)"
| "decrypt_val e v = v"
| "sso_decrypt_config e [] = []"
| "sso_decrypt_config e ((k, v) # d) = (k, decrypt_val e v) # sso_decrypt_config e d"

text \<open>\<open>merged\<close> starts as a copy of the stored configuration; \<open>config_val\<close> is what one key of the new one
  puts there.\<close>

fun config_val :: "env \<Rightarrow> string \<Rightarrow> json \<Rightarrow> json option \<Rightarrow> json"
  and sso_encrypt_config :: "env \<Rightarrow> dict \<Rightarrow> dict \<Rightarrow> dict" where
  "config_val e k (JStr s) old =
     (if k \<in> set SSO_SECRET_KEYS
      then (if enc_prefixed s \<or> masked_secret s then (case old of None \<Rightarrow> JStr s | Some v \<Rightarrow> v) else JStr (''enc:'' @ encrypt_secret e 1 s))
      else JStr s)"
| "config_val e k (JObj d) old = JObj (sso_encrypt_config e d (case old of Some (JObj m) \<Rightarrow> m | _ \<Rightarrow> []))"
| "config_val e k v old = v"
| "sso_encrypt_config e [] merged = merged"
| "sso_encrypt_config e ((k, v) # d) merged = sso_encrypt_config e d (dset merged k (config_val e k v (map_of merged k)))"

fun mask_cval :: "env \<Rightarrow> json \<Rightarrow> json"
  and sso_mask_config :: "env \<Rightarrow> dict \<Rightarrow> dict" where
  "mask_cval e (JStr s) = (if enc_prefixed s then (case mask_secret e (Some (drop 4 s)) of None \<Rightarrow> JNull | Some m \<Rightarrow> JStr m) else JStr s)"
| "mask_cval e (JObj d) = JObj (sso_mask_config e d)"
| "mask_cval e v = v"
| "sso_mask_config e [] = []"
| "sso_mask_config e ((k, v) # d) = (k, mask_cval e v) # sso_mask_config e d"

section \<open>Codes\<close>

definition code_char :: "char \<Rightarrow> bool" where
  "code_char c = (let n = of_char c :: nat in (97 \<le> n \<and> n \<le> 122) \<or> (48 \<le> n \<and> n \<le> 57))"

text \<open>\<open>re.sub(r"[^a-z0-9]+", "-", s)\<close>; the flag tells that the run before was replaced.\<close>

fun dash_runs :: "bool \<Rightarrow> string \<Rightarrow> string" where
  "dash_runs inside [] = []"
| "dash_runs inside (c # cs) =
     (if code_char c then c # dash_runs False cs else if inside then dash_runs True cs else CHR ''-'' # dash_runs True cs)"

definition strip_dashes :: "string \<Rightarrow> string" where
  "strip_dashes s = rev (dropWhile (\<lambda>c. c = CHR ''-'') (rev (dropWhile (\<lambda>c. c = CHR ''-'') s)))"

text \<open>\<open>^[a-z0-9][a-z0-9_-]{0,63}$\<close>\<close>

definition code_ok :: "string \<Rightarrow> bool" where
  "code_ok s = (case s of [] \<Rightarrow> False
     | c # cs \<Rightarrow> code_char c \<and> length cs \<le> 63 \<and> list_all (\<lambda>c. code_char c \<or> c = CHR ''_'' \<or> c = CHR ''-'') cs)"

definition normalize_code :: "string option \<Rightarrow> string \<Rightarrow> string res" where
  "normalize_code raw name =
     (let given = lower (strip (case raw of None \<Rightarrow> [] | Some s \<Rightarrow> s));
          candidate = (if given = [] then strip_dashes (dash_runs False (lower (strip name))) else given)
      in if code_ok candidate then Inr candidate else Inl (BadRequestError ''invalid provider code (expected [a-z0-9_-], <=64)''))"

definition av_by_code :: "'z sso_db_scheme \<Rightarrow> string \<Rightarrow> (int \<times> auth_provider) option" where
  "av_by_code w code = tfirst (\<lambda>p. av_code p = code) (auth_providers w)"

definition list_enabled :: "'z sso_db_scheme \<Rightarrow> auth_provider list" where
  "list_enabled w = map snd (tselect (\<lambda>p. av_enabled p = 1) (auth_providers w))"

definition av_not_found :: app_error where
  "av_not_found = NotFoundError ''provider not found''"

definition get_enabled_by_code :: "'z sso_db_scheme \<Rightarrow> string \<Rightarrow> string \<Rightarrow> auth_provider res" where
  "get_enabled_by_code w code expected =
     (case av_by_code w code of
        None \<Rightarrow> Inl (NotFoundError ''provider not found or disabled'')
      | Some (_, p) \<Rightarrow>
          if av_enabled p \<noteq> 1 then Inl (NotFoundError ''provider not found or disabled'')
          else if av_type p \<noteq> expected then Inl (BadRequestError (''provider '' @ code @ '' is not a '' @ expected @ '' provider''))
          else Inr p)"

section \<open>Role codes\<close>

definition PRIVILEGED_ROLE_CODES :: "string list" where
  "PRIVILEGED_ROLE_CODES = [''admin'', ''superadmin'', ''super_admin'', ''super'']"

definition is_privileged :: "string \<Rightarrow> bool" where
  "is_privileged code = (lower (strip code) \<in> set PRIVILEGED_ROLE_CODES)"

definition role_by_code :: "'z id_db_scheme \<Rightarrow> string \<Rightarrow> (int \<times> role) option" where
  "role_by_code w code = tfirst (\<lambda>r. ro_code r = code) (roles w)"

text \<open>The codes a configuration declares are not checked by the form: any JSON value is iterated. An
  element that is no text is refused by the database.\<close>

fun check_codes :: "'z id_db_scheme \<Rightarrow> json list \<Rightarrow> string list res" where
  "check_codes w [] = Inr []"
| "check_codes w (JStr c # cs) =
     (if role_by_code w c = None then Inl (ValidationError (''unknown role code: '' @ c))
      else (case check_codes w cs of Inl er \<Rightarrow> Inl er | Inr ps \<Rightarrow> Inr (if is_privileged c then c # ps else ps)))"
| "check_codes w (_ # cs) = Inl TypeError"

definition validate_role_codes :: "'z id_db_scheme \<Rightarrow> json \<Rightarrow> string list res" where
  "validate_role_codes w codes =
     (if \<not> truthy codes then Inr []
      else (case py_iter codes of None \<Rightarrow> Inl TypeError | Some xs \<Rightarrow> check_codes w xs))"

definition audit_privileged_grant :: "current_user \<Rightarrow> string \<Rightarrow> string list \<Rightarrow> 'z sso_db_scheme \<Rightarrow> 'z sso_db_scheme" where
  "audit_privileged_grant actor code codes w =
     (if codes = [] then w
      else w\<lparr>grant_audits := grant_audits w @ [\<lparr>pg_user_id = uid actor, pg_provider_code = code, pg_role_codes = codes\<rparr>]\<rparr>)"

section \<open>Provider administration\<close>

record auth_provider_create =
  ac_name :: string
  ac_type :: string
  ac_code :: "string option"
  ac_config :: dict
  ac_enabled :: int

record auth_provider_update =
  au_name :: "string option"
  au_config :: "dict option"
  au_enabled :: "int option"

text \<open>\<open>_provider_out\<close>: the row with its configuration masked.\<close>

definition auth_provider_out :: "env \<Rightarrow> auth_provider \<Rightarrow> auth_provider" where
  "auth_provider_out e p = p\<lparr>av_config_enc := sso_mask_config e (av_config_enc p)\<rparr>"

definition local_name :: string where
  "local_name = [CHR 0xE8, CHR 0xB4, CHR 0xA6, CHR 0xE5, CHR 0x8F, CHR 0xB7, CHR 0xE5, CHR 0xAF, CHR 0x86, CHR 0xE7, CHR 0xA0, CHR 0x81]"

definition login_methods :: "'z sso_db_scheme \<Rightarrow> (string \<times> string \<times> string) list" where
  "login_methods w = (''local'', ''local'', local_name) # map (\<lambda>p. (av_code p, av_type p, av_name p)) (list_enabled w)"

definition list_auth_providers ::
  "env \<Rightarrow> current_user option \<Rightarrow> 'z sso_db_scheme \<Rightarrow> (int \<times> auth_provider) list + (string \<times> string \<times> string) list" where
  "list_auth_providers e u w =
     (case u of
        None \<Rightarrow> Inr (login_methods w)
      | Some x \<Rightarrow> if has_perm x ''system:auth:provider''
                  then Inl (map (\<lambda>(i, p). (i, auth_provider_out e p)) (rows (auth_providers w))) else Inr (login_methods w))"

definition create_auth_provider ::
  "env \<Rightarrow> current_user \<Rightarrow> auth_provider_create \<Rightarrow> 'z sso_db_scheme \<Rightarrow> ((int \<times> auth_provider) \<times> 'z sso_db_scheme) res" where
  "create_auth_provider e u d w =
     (case require_perm u ''system:auth:provider:add'' of
        Inl er \<Rightarrow> Inl er
      | Inr _ \<Rightarrow>
          if \<not> sso_enabled w then Inl sso_disabled
          else if ac_type d \<notin> {''ldap'', ''oauth2''} then Inl (ValidationError (''invalid provider type: '' @ ac_type d))
          else (case normalize_code (ac_code d) (ac_name d) of
                  Inl er \<Rightarrow> Inl er
                | Inr code \<Rightarrow>
                    if av_by_code w code \<noteq> None then Inl (BadRequestError (''provider code already exists: '' @ code))
                    else (case validate_role_codes w (dget (ac_config d) ''default_role_codes'') of
                            Inl er \<Rightarrow> Inl er
                          | Inr privileged \<Rightarrow>
                              (let p = \<lparr>av_code = code, av_name = ac_name d, av_type = ac_type d,
                                        av_config_enc = sso_encrypt_config e (ac_config d) [], av_enabled = ac_enabled d\<rparr>
                               in Inr ((next_id (auth_providers w), auth_provider_out e p),
                                       audit_privileged_grant u code privileged (w\<lparr>auth_providers := tadd p (auth_providers w)\<rparr>))))))"

definition put_provider :: "int \<Rightarrow> (auth_provider \<Rightarrow> auth_provider) \<Rightarrow> 'z sso_db_scheme \<Rightarrow> 'z sso_db_scheme" where
  "put_provider i f w = w\<lparr>auth_providers := tupd i f (auth_providers w)\<rparr>"

definition update_auth_provider ::
  "env \<Rightarrow> current_user \<Rightarrow> int \<Rightarrow> auth_provider_update \<Rightarrow> 'z sso_db_scheme \<Rightarrow> (auth_provider \<times> 'z sso_db_scheme) res" where
  "update_auth_provider e u i d w =
     (case require_perm u ''system:auth:provider:edit'' of
        Inl er \<Rightarrow> Inl er
      | Inr _ \<Rightarrow>
          (case tget (auth_providers w) i of
             None \<Rightarrow> Inl av_not_found
           | Some p \<Rightarrow>
               (let p1 = p\<lparr>av_name := keep (au_name d) (av_name p), av_enabled := keep (au_enabled d) (av_enabled p)\<rparr>
                in case au_config d of
                     None \<Rightarrow> Inr (auth_provider_out e p1, put_provider i (\<lambda>_. p1) w)
                   | Some c \<Rightarrow>
                       (case validate_role_codes w (dget c ''default_role_codes'') of
                          Inl er \<Rightarrow> Inl er
                        | Inr privileged \<Rightarrow>
                            (let p2 = p1\<lparr>av_config_enc := sso_encrypt_config e c (av_config_enc p)\<rparr>
                             in Inr (auth_provider_out e p2, audit_privileged_grant u (av_code p) privileged (put_provider i (\<lambda>_. p2) w)))))))"

definition delete_auth_provider :: "current_user \<Rightarrow> int \<Rightarrow> 'z sso_db_scheme \<Rightarrow> (unit \<times> 'z sso_db_scheme) res" where
  "delete_auth_provider u i w =
     (case require_perm u ''system:auth:provider:del'' of
        Inl er \<Rightarrow> Inl er
      | Inr _ \<Rightarrow> if tget (auth_providers w) i = None then Inl av_not_found
                  else Inr ((), w\<lparr>auth_providers := tdel i (auth_providers w)\<rparr>))"

definition set_auth_provider_status :: "current_user \<Rightarrow> int \<Rightarrow> int \<Rightarrow> 'z sso_db_scheme \<Rightarrow> (unit \<times> 'z sso_db_scheme) res" where
  "set_auth_provider_status u i enabled w =
     (case require_perm u ''system:auth:provider:edit'' of
        Inl er \<Rightarrow> Inl er
      | Inr _ \<Rightarrow> if tget (auth_providers w) i = None then Inl av_not_found
                  else Inr ((), put_provider i (\<lambda>p. p\<lparr>av_enabled := enabled\<rparr>) w))"

definition REQUIRED_CONFIG :: "string \<Rightarrow> string list" where
  "REQUIRED_CONFIG ty =
     (if ty = ''ldap'' then [''server_uri'', ''bind_dn'', ''bind_dn_template'', ''base_dn'', ''password'']
      else if ty = ''oauth2'' then [''authorization_endpoint'', ''token_endpoint'', ''client_id'', ''client_secret'', ''redirect_uri'']
      else [])"

definition config_required_present :: "auth_provider \<Rightarrow> dict \<Rightarrow> string option" where
  "config_required_present p config = find (\<lambda>k. \<not> truthy (dget config k)) (REQUIRED_CONFIG (av_type p))"

datatype test_result = MissingConfig string | Tested bool

text \<open>An exception of either library is the answer \<open>ok: False\<close>.\<close>

definition test_auth_provider :: "env \<Rightarrow> idp \<Rightarrow> current_user \<Rightarrow> int \<Rightarrow> 'z sso_db_scheme \<Rightarrow> test_result res" where
  "test_auth_provider e x u i w =
     (case require_perm u ''system:auth:provider:test'' of
        Inl er \<Rightarrow> Inl er
      | Inr _ \<Rightarrow>
          (case tget (auth_providers w) i of
             None \<Rightarrow> Inl av_not_found
           | Some p \<Rightarrow>
               (let config = sso_decrypt_config e (av_config_enc p)
                in case config_required_present p config of
                     Some k \<Rightarrow> Inr (MissingConfig k)
                   | None \<Rightarrow>
                       if av_type p = ''ldap''
                       then Inr (Tested (ldap_bind x (dget config ''server_uri'') (dget config ''bind_dn'') (dget config ''password'') = Some True))
                       else Inr (Tested (case http_get_status x (dget config ''token_endpoint'') of None \<Rightarrow> False | Some n \<Rightarrow> n < 500)))))"

section \<open>Mapping and provisioning\<close>

record profile =
  pf_map_key :: json
  pf_email :: json
  pf_display_name :: json
  pf_external_id :: json
  pf_auto_provision :: json
  pf_default_role_codes :: json
  pf_claim_roles :: json

text \<open>\<open>(j or "username").lower()\<close>\<close>

definition map_key_of :: "json \<Rightarrow> string res" where
  "map_key_of j = (case jor j (JStr ''username'') of JStr s \<Rightarrow> Inr (lower s) | _ \<Rightarrow> Inl TypeError)"

text \<open>\<open>attrs.get(claim)\<close>: a list or a dict is not hashable, a number or a truth value is no key.\<close>

definition claim_roles :: "env \<Rightarrow> idp \<Rightarrow> dict \<Rightarrow> dict \<Rightarrow> json res" where
  "claim_roles e x config attrs =
     (let claim = dget config ''roles_claim''
      in if \<not> truthy claim then Inr JNull
         else (case claim of
                 JStr k \<Rightarrow> (case dget attrs k of
                              JNull \<Rightarrow> Inr JNull
                            | JList vs \<Rightarrow> Inr (JList (map (\<lambda>v. JStr (py_str e x v)) vs))
                            | v \<Rightarrow> Inr (JList [JStr (py_str e x v)]))
               | JList _ \<Rightarrow> Inl TypeError
               | JObj _ \<Rightarrow> Inl TypeError
               | _ \<Rightarrow> Inr JNull))"

fun str_elems :: "json list \<Rightarrow> string list res" where
  "str_elems [] = Inr []"
| "str_elems (JStr c # cs) = (case str_elems cs of Inl er \<Rightarrow> Inl er | Inr xs \<Rightarrow> Inr (c # xs))"
| "str_elems (_ # cs) = Inl TypeError"

definition codes_list :: "json \<Rightarrow> string list res" where
  "codes_list j = (if \<not> truthy j then Inr [] else (case py_iter j of None \<Rightarrow> Inl TypeError | Some xs \<Rightarrow> str_elems xs))"

text \<open>The codes to bind: those of the provider as they are, or else those of the response or of the
  platform, without the privileged ones.\<close>

definition default_codes :: "profile \<Rightarrow> 'z sys_db_scheme \<Rightarrow> string list res" where
  "default_codes pf w =
     (if pf_default_role_codes pf \<noteq> JNull then codes_list (pf_default_role_codes pf)
      else (let codes = (if pf_claim_roles pf \<noteq> JNull then pf_claim_roles pf else config_rule w ''sso.default_role_codes'' (JList []))
            in case codes_list codes of Inl er \<Rightarrow> Inl er | Inr cs \<Rightarrow> Inr (filter (\<lambda>c. \<not> is_privileged c) cs)))"

text \<open>The role rows are added and not flushed.\<close>

definition bind_default_roles :: "int \<Rightarrow> profile \<Rightarrow> 'z id_db_scheme \<Rightarrow> user_role list res" where
  "bind_default_roles i pf w =
     (case default_codes pf w of
        Inl er \<Rightarrow> Inl er
      | Inr cs \<Rightarrow> Inr (concat (map (\<lambda>c. case role_by_code w c of None \<Rightarrow> [] | Some (rid, _) \<Rightarrow> [\<lparr>ur_user_id = i, ur_role_id = rid\<rparr>]) cs)))"

definition by_email :: "'z id_db_scheme \<Rightarrow> string \<Rightarrow> (int \<times> sys_user) option" where
  "by_email w email = tfirst (\<lambda>u. us_email u = email) (users w)"

text \<open>What the columns take: at most 128 characters for \<open>email\<close> and \<open>external_id\<close>; an absent address
  is stored as the default of its column. The display name is sliced, which a number does not allow and
  which leaves a list a list.\<close>

definition email_column :: "json \<Rightarrow> string res" where
  "email_column j = (if \<not> truthy j then Inr []
     else (case j of JStr s \<Rightarrow> if length s \<le> 128 then Inr s else Inl (IntegrityError ''sys_user.email'') | _ \<Rightarrow> Inl TypeError))"

definition name_column :: "json \<Rightarrow> string \<Rightarrow> string res" where
  "name_column j dflt = (case jor j (JStr dflt) of JStr s \<Rightarrow> Inr (take 64 s) | _ \<Rightarrow> Inl TypeError)"

definition external_id_fits :: "env \<Rightarrow> idp \<Rightarrow> profile \<Rightarrow> string \<Rightarrow> bool" where
  "external_id_fits e x pf map_value = (length (py_str e x (jor (pf_external_id pf) (JStr map_value))) \<le> 128)"

definition new_external_user :: "pwd_context \<Rightarrow> idp \<Rightarrow> string \<Rightarrow> string \<Rightarrow> string \<Rightarrow> string \<Rightarrow> sys_user" where
  "new_external_user pw x source name real_name email =
     \<lparr>us_username = take 64 name, us_password_hash = pw_hash pw (token_urlsafe x), us_real_name = real_name, us_phone = [],
      us_email = email, us_status = 1, us_last_login_at = None, us_is_admin = 0, us_auth_source = source, us_deleted = 0\<rparr>"

definition auto_provision_on :: "profile \<Rightarrow> 'z sys_db_scheme \<Rightarrow> bool" where
  "auto_provision_on pf w =
     truthy (if pf_auto_provision pf = JNull then config_rule w ''sso.auto_provision'' (JBool False) else pf_auto_provision pf)"

text \<open>The user, the rows that wait for the commit, and the database after the flush. A user name that is
  taken fails at the flush.\<close>

definition provision_user ::
  "pwd_context \<Rightarrow> env \<Rightarrow> idp \<Rightarrow> auth_provider \<Rightarrow> string \<Rightarrow> profile \<Rightarrow> 'z id_db_scheme \<Rightarrow> (int \<times> user_role list \<times> 'z id_db_scheme) res" where
  "provision_user pw e x p map_value pf w =
     (case name_column (pf_display_name pf) map_value of
        Inl er \<Rightarrow> Inl er
      | Inr real_name \<Rightarrow>
          (case email_column (pf_email pf) of
             Inl er \<Rightarrow> Inl er
           | Inr email \<Rightarrow>
               if \<not> external_id_fits e x pf map_value then Inl (IntegrityError ''sys_user.external_id'')
               else if by_username w (take 64 map_value) \<noteq> None then Inl (IntegrityError ''sys_user.username'')
               else (let i = next_id (users w);
                         w1 = w\<lparr>users := tadd (new_external_user pw x (av_type p) map_value real_name email) (users w)\<rparr>
                     in case bind_default_roles i pf w1 of Inl er \<Rightarrow> Inl er | Inr rs \<Rightarrow> Inr (i, rs, w1))))"

definition resolve_external_user ::
  "pwd_context \<Rightarrow> env \<Rightarrow> idp \<Rightarrow> auth_provider \<Rightarrow> string \<Rightarrow> profile \<Rightarrow> 'z id_db_scheme \<Rightarrow> (int \<times> user_role list \<times> 'z id_db_scheme) res" where
  "resolve_external_user pw e x p map_value pf w =
     (if map_value = [] then Inl (UnauthorizedError ''identity provider returned no subject'')
      else (case map_key_of (pf_map_key pf) of
              Inl er \<Rightarrow> Inl er
            | Inr map_key \<Rightarrow>
                (case (if map_key = ''email'' then by_email w map_value else by_username w map_value) of
                   None \<Rightarrow> if \<not> auto_provision_on pf w then Inl (UnauthorizedError ''user not provisioned'')
                           else provision_user pw e x p map_value pf w
                 | Some (i, u) \<Rightarrow>
                     if us_deleted u \<noteq> 0 \<or> us_status u \<noteq> 1 then Inl (UnauthorizedError ''user disabled or missing'')
                     else Inr (i, [], w\<lparr>users := tupd i (\<lambda>r. r\<lparr>us_auth_source := av_type p\<rparr>) (users w)\<rparr>))))"

text \<open>Mapping and the tail of both logins. The roles in the answer are read before the new ones are
  written. What is written to Redis stays when the commit fails: on a role twice in the list, or on an
  identifier of an existing user that is too long.\<close>

definition external_login ::
  "pwd_context \<Rightarrow> env \<Rightarrow> idp \<Rightarrow> string \<Rightarrow> auth_provider \<Rightarrow> string \<Rightarrow> profile \<Rightarrow> string \<Rightarrow> 'z id_db_scheme \<Rightarrow> token_pair res \<times> 'z id_db_scheme" where
  "external_login pw e x jti2 p map_value pf login_name w =
     (case resolve_external_user pw e x p map_value pf w of
        Inl er \<Rightarrow> (Inl er, w)
      | Inr (i, pending, w1) \<Rightarrow>
          (let name = (if login_name = [] then us_username (the (tget (users w1) i)) else login_name);
               w2 = clear_login_failures e name w1
           in case issue_tokens e jti2 i (the (tget (users w2) i)) w2 of
                Inl er \<Rightarrow> (Inl er, w\<lparr>redis := redis w2\<rparr>)
              | Inr (out, w3) \<Rightarrow>
                  if \<not> distinct (map ur_role_id pending) then (Inl (IntegrityError ''sys_user_role''), w\<lparr>redis := redis w3\<rparr>)
                  else if \<not> external_id_fits e x pf map_value then (Inl (IntegrityError ''sys_user.external_id''), w\<lparr>redis := redis w3\<rparr>)
                  else (Inr out, w3\<lparr>users := tupd i (\<lambda>r. r\<lparr>us_last_login_at := Some (now e)\<rparr>) (users w3),
                                    user_roles := fold tadd pending (user_roles w3)\<rparr>)))"

section \<open>LDAP\<close>

text \<open>\<open>template.format(username=name)\<close>: doubled braces and the field \<open>username\<close>; any other field is an error
  here (conversions and format specifications of that field are not modelled).\<close>

fun format_username :: "string \<Rightarrow> string \<Rightarrow> string option" where
  "format_username name [] = Some []"
| "format_username name (c # cs) =
     (if c = CHR ''{'' then
        (if take 1 cs = ''{'' then map_option (\<lambda>r. CHR ''{'' # r) (format_username name (drop 1 cs))
         else if take 9 cs = ''username}'' then map_option (\<lambda>r. name @ r) (format_username name (drop 9 cs))
         else None)
      else if c = CHR ''}'' then
        (if take 1 cs = ''}'' then map_option (\<lambda>r. CHR ''}'' # r) (format_username name (drop 1 cs)) else None)
      else map_option (\<lambda>r. c # r) (format_username name cs))"

definition dget_or :: "dict \<Rightarrow> string \<Rightarrow> json \<Rightarrow> json" where
  "dget_or d k dflt = (case map_of d k of None \<Rightarrow> dflt | Some v \<Rightarrow> v)"

text \<open>The attributes of the entry; \<open>None\<close> is any of the exceptions, all of which mean the next provider.\<close>

definition ldap_attributes :: "env \<Rightarrow> idp \<Rightarrow> auth_provider \<Rightarrow> string \<Rightarrow> string \<Rightarrow> dict option" where
  "ldap_attributes e x p name password =
     (let config = sso_decrypt_config e (av_config_enc p)
      in if \<not> dhas config ''server_uri'' then None
         else (case dget config ''bind_dn_template'' of
                 JStr template \<Rightarrow>
                   (case format_username name template of
                      None \<Rightarrow> None
                    | Some dn \<Rightarrow>
                        if ldap_bind x (dget config ''server_uri'') (JStr dn) (JStr password) \<noteq> Some True then None
                        else (case ldap_search x (dget config ''server_uri'') dn (dget_or config ''base_dn'' (JStr []))
                                     (dget_or config ''filter'' (JStr ''(objectClass=person)'')) of
                                Some (attrs # _) \<Rightarrow> Some attrs
                              | _ \<Rightarrow> None))
               | _ \<Rightarrow> None))"

definition ldap_map_value :: "env \<Rightarrow> idp \<Rightarrow> dict \<Rightarrow> dict \<Rightarrow> string \<Rightarrow> string res" where
  "ldap_map_value e x config attrs name =
     (case map_key_of (dget config ''map_key'') of
        Inl er \<Rightarrow> Inl er
      | Inr k \<Rightarrow>
          if k = ''email'' then Inr (py_str e x (jor (dget attrs ''mail'') (jor (dget attrs ''email'') (JStr []))))
          else Inr (py_str e x (jor (dget attrs ''uid'') (jor (dget attrs ''sAMAccountName'') (JStr name)))))"

definition ldap_profile :: "dict \<Rightarrow> dict \<Rightarrow> string \<Rightarrow> json \<Rightarrow> profile" where
  "ldap_profile config attrs map_value claims =
     \<lparr>pf_map_key = dget_or config ''map_key'' (JStr ''username''),
      pf_email = jor (dget attrs ''mail'') (dget attrs ''email''),
      pf_display_name = jor (dget attrs ''displayName'') (jor (dget attrs ''cn'') (JStr map_value)),
      pf_external_id = jor (dget attrs ''uid'') (jor (dget attrs ''sAMAccountName'') (JStr map_value)),
      pf_auto_provision = dget config ''auto_provision'',
      pf_default_role_codes = dget config ''default_role_codes'',
      pf_claim_roles = claims\<rparr>"

definition ldap_enter ::
  "pwd_context \<Rightarrow> env \<Rightarrow> idp \<Rightarrow> string \<Rightarrow> auth_provider \<Rightarrow> dict \<Rightarrow> string \<Rightarrow> 'z id_db_scheme \<Rightarrow> token_pair res \<times> 'z id_db_scheme" where
  "ldap_enter pw e x jti2 p attrs name w =
     (let config = sso_decrypt_config e (av_config_enc p)
      in case ldap_map_value e x config attrs name of
           Inl er \<Rightarrow> (Inl er, w)
         | Inr map_value \<Rightarrow>
             (case claim_roles e x config attrs of
                Inl er \<Rightarrow> (Inl er, w)
              | Inr claims \<Rightarrow> external_login pw e x jti2 p map_value (ldap_profile config attrs map_value claims) name w))"

fun ldap_try ::
  "pwd_context \<Rightarrow> env \<Rightarrow> idp \<Rightarrow> string \<Rightarrow> auth_provider list \<Rightarrow> string \<Rightarrow> string \<Rightarrow> 'z id_db_scheme \<Rightarrow> token_pair res \<times> 'z id_db_scheme" where
  "ldap_try pw e x jti2 [] name password w = (Inl bad_login, snd (record_login_failure e name w))"
| "ldap_try pw e x jti2 (p # ps) name password w =
     (case ldap_attributes e x p name password of
        None \<Rightarrow> ldap_try pw e x jti2 ps name password w
      | Some attrs \<Rightarrow> ldap_enter pw e x jti2 p attrs name w)"

definition ldap_login ::
  "pwd_context \<Rightarrow> env \<Rightarrow> idp \<Rightarrow> string \<Rightarrow> string \<Rightarrow> string \<Rightarrow> 'z sso_db_scheme \<Rightarrow> token_pair res \<times> 'z sso_db_scheme" where
  "ldap_login pw e x jti2 name password w =
     (if \<not> sso_enabled w then (Inl sso_disabled, w)
      else (let ps = filter (\<lambda>p. av_type p = ''ldap'') (list_enabled w)
            in if ps = [] then (Inl (BadRequestError ''ldap not configured''), w) else ldap_try pw e x jti2 ps name password w))"

definition ldap_login_endpoint ::
  "pwd_context \<Rightarrow> env \<Rightarrow> idp \<Rightarrow> string \<Rightarrow> string \<Rightarrow> string \<Rightarrow> 'z sso_db_scheme \<Rightarrow> token_pair res \<times> 'z sso_db_scheme" where
  "ldap_login_endpoint pw e x jti2 name password w =
     (if \<not> login_rate_limit e name w then (Inl (RateLimitError ''too many login attempts, account locked''), w)
      else ldap_login pw e x jti2 name password w)"

section \<open>OAuth2\<close>

definition OAUTH_STATE_TTL :: int where
  "OAUTH_STATE_TTL = 300"

definition store_oauth_state :: "env \<Rightarrow> string \<Rightarrow> dict \<Rightarrow> int \<Rightarrow> 'z id_db_scheme \<Rightarrow> 'z id_db_scheme" where
  "store_oauth_state e st payload ttl w =
     (if \<not> redis_up e then w else rset (OAuthState st) (RObj payload) (Some (now e + seconds ttl)) w)"

definition consume_oauth_state :: "env \<Rightarrow> string \<Rightarrow> 'z id_db_scheme \<Rightarrow> dict option \<times> 'z id_db_scheme" where
  "consume_oauth_state e st w =
     (if \<not> redis_up e then (None, w)
      else ((case rget e (OAuthState st) w of Some (RObj d) \<Rightarrow> Some d | _ \<Rightarrow> None), rdel (OAuthState st) w))"

text \<open>\<open>urllib.parse.urlencode\<close>: \<open>quote_plus\<close> of names and values.\<close>

definition url_safe :: "char \<Rightarrow> bool" where
  "url_safe c = (let n = of_char c :: nat in (48 \<le> n \<and> n \<le> 57) \<or> (65 \<le> n \<and> n \<le> 90) \<or> (97 \<le> n \<and> n \<le> 122) \<or> c \<in> set ''_.-~'')"

definition upper_hex_digit :: "nat \<Rightarrow> char" where
  "upper_hex_digit n = (if n < 10 then char_of (48 + n) else char_of (55 + n))"

definition quote_plus :: "string \<Rightarrow> string" where
  "quote_plus s = concat (map (\<lambda>c. if url_safe c then [c] else if c = CHR '' '' then ''+''
     else [CHR ''%'', upper_hex_digit (of_char c div 16), upper_hex_digit (of_char c mod 16)]) s)"

fun join_amp :: "string list \<Rightarrow> string" where
  "join_amp [] = []"
| "join_amp [x] = x"
| "join_amp (x # xs) = x @ ''&'' @ join_amp xs"

definition urlencode :: "(string \<times> string) list \<Rightarrow> string" where
  "urlencode ps = join_amp (map (\<lambda>(k, v). quote_plus k @ ''='' @ quote_plus v) ps)"

definition redirect_uri_of :: "idp \<Rightarrow> string \<Rightarrow> string \<Rightarrow> string" where
  "redirect_uri_of x base code =
     rev (dropWhile (\<lambda>c. c = CHR ''/'') (rev base)) @ api_prefix x @ ''/auth/oauth/'' @ code @ ''/callback''"

text \<open>The state is stored before the rest of the configuration is read.\<close>

definition oauth_authorize_url ::
  "env \<Rightarrow> idp \<Rightarrow> string \<Rightarrow> string \<Rightarrow> 'z sso_db_scheme \<Rightarrow> string res \<times> 'z sso_db_scheme" where
  "oauth_authorize_url e x code base w =
     (case get_enabled_by_code w code ''oauth2'' of
        Inl er \<Rightarrow> (Inl er, w)
      | Inr p \<Rightarrow>
          (let config = sso_decrypt_config e (av_config_enc p);
               redirect = jor (dget config ''redirect_uri'') (JStr (redirect_uri_of x base code));
               st = token_urlsafe x;
               w1 = store_oauth_state e st [(''code'', JStr code), (''redirect_uri'', redirect)] OAUTH_STATE_TTL w
           in if \<not> dhas config ''client_id'' then (Inl TypeError, w1)
              else (case dget config ''authorization_endpoint'' of
                      JStr ep \<Rightarrow>
                        (let params = [(''response_type'', ''code''), (''client_id'', py_str e x (dget config ''client_id'')),
                                       (''redirect_uri'', py_str e x redirect), (''state'', st)]
                                      @ (if truthy (dget config ''scope'') then [(''scope'', py_str e x (dget config ''scope''))] else [])
                         in (Inr (ep @ (if CHR ''?'' \<in> set ep then ''&'' else ''?'') @ urlencode params), w1))
                    | _ \<Rightarrow> (Inl TypeError, w1))))"

definition oauth_exchange :: "idp \<Rightarrow> dict \<Rightarrow> string \<Rightarrow> json \<Rightarrow> json res" where
  "oauth_exchange x config code redirect =
     (if \<not> dhas config ''client_id'' \<or> \<not> dhas config ''token_endpoint'' then Inl TypeError
      else (case http_post x (dget config ''token_endpoint'')
                   [(''grant_type'', JStr ''authorization_code''), (''code'', JStr code), (''redirect_uri'', redirect),
                    (''client_id'', dget config ''client_id''), (''client_secret'', dget_or config ''client_secret'' (JStr []))] of
              Some (JObj payload) \<Rightarrow>
                (let token = dget payload ''access_token''
                 in if truthy token then Inr token else Inl (UnauthorizedError ''token endpoint returned no access_token''))
            | _ \<Rightarrow> Inl TypeError))"

definition oauth_profile :: "idp \<Rightarrow> dict \<Rightarrow> json \<Rightarrow> dict res" where
  "oauth_profile x config token =
     (let url = dget config ''userinfo_endpoint''
      in if \<not> truthy url then Inl (BadRequestError ''oauth2 provider missing userinfo_endpoint'')
         else (case http_get x url token of Some (JObj raw) \<Rightarrow> Inr raw | _ \<Rightarrow> Inl TypeError))"

definition frontend_callback_url :: "idp \<Rightarrow> dict \<Rightarrow> 'z sys_db_scheme \<Rightarrow> json" where
  "frontend_callback_url x config w =
     (if truthy (dget config ''redirect_after'') then dget config ''redirect_after''
      else jor (config_rule w ''sso.frontend_callback_url'' JNull) (if frontend_setting x \<noteq> [] then JStr (frontend_setting x) else JNull))"

definition oauth_claims :: "dict \<Rightarrow> dict" where
  "oauth_claims raw = (case dget raw ''data'' of JObj d \<Rightarrow> d | _ \<Rightarrow> raw)"

definition oauth_user_profile :: "dict \<Rightarrow> dict \<Rightarrow> string \<Rightarrow> string \<Rightarrow> json \<Rightarrow> profile" where
  "oauth_user_profile config attrs map_key map_value claims =
     \<lparr>pf_map_key = JStr map_key, pf_email = dget attrs ''email'',
      pf_display_name = jor (dget attrs ''name'') (jor (dget attrs ''display_name'') (JStr map_value)),
      pf_external_id = jor (dget attrs ''sub'') (JStr map_value),
      pf_auto_provision = dget config ''auto_provision'',
      pf_default_role_codes = dget config ''default_role_codes'',
      pf_claim_roles = claims\<rparr>"

definition oauth_enter ::
  "pwd_context \<Rightarrow> env \<Rightarrow> idp \<Rightarrow> string \<Rightarrow> auth_provider \<Rightarrow> dict \<Rightarrow> 'z id_db_scheme \<Rightarrow> token_pair res \<times> 'z id_db_scheme" where
  "oauth_enter pw e x jti2 p raw w =
     (let config = sso_decrypt_config e (av_config_enc p); attrs = oauth_claims raw
      in case map_key_of (dget config ''map_key'') of
           Inl er \<Rightarrow> (Inl er, w)
         | Inr map_key \<Rightarrow>
             (let map_value = py_str e x (jor (dget attrs map_key) (jor (dget attrs ''email'') (jor (dget attrs ''sub'') (JStr []))))
              in case claim_roles e x config attrs of
                   Inl er \<Rightarrow> (Inl er, w)
                 | Inr claims \<Rightarrow>
                     external_login pw e x jti2 p map_value (oauth_user_profile config attrs map_key map_value claims) map_value w))"

text \<open>The state is consumed before anything can still fail. The answer has the target of the redirect.\<close>

definition oauth_callback ::
  "pwd_context \<Rightarrow> env \<Rightarrow> idp \<Rightarrow> string \<Rightarrow> string \<Rightarrow> string \<Rightarrow> string \<Rightarrow> 'z sso_db_scheme \<Rightarrow> (token_pair \<times> json) res \<times> 'z sso_db_scheme" where
  "oauth_callback pw e x jti2 code auth_code st w =
     (if \<not> sso_enabled w then (Inl sso_disabled, w)
      else (case get_enabled_by_code w code ''oauth2'' of
              Inl er \<Rightarrow> (Inl er, w)
            | Inr p \<Rightarrow>
                (case consume_oauth_state e st w of
                   (cached, w1) \<Rightarrow>
                     if cached = None \<or> the cached = [] \<or> dget (the cached) ''code'' \<noteq> JStr code
                     then (Inl (BadRequestError ''invalid or expired state''), w1)
                     else (let config = sso_decrypt_config e (av_config_enc p);
                               redirect = jor (dget (the cached) ''redirect_uri'') (jor (dget config ''redirect_uri'') (JStr []))
                           in case oauth_exchange x config auth_code redirect of
                                Inl er \<Rightarrow> (Inl er, w1)
                              | Inr token \<Rightarrow>
                                  (case oauth_profile x config token of
                                     Inl er \<Rightarrow> (Inl er, w1)
                                   | Inr raw \<Rightarrow>
                                       (case oauth_enter pw e x jti2 p raw w1 of
                                          (Inl er, w2) \<Rightarrow> (Inl er, w2)
                                        | (Inr out, w2) \<Rightarrow> (Inr (out, frontend_callback_url x config w2), w2)))))))"

end
