(* ===== verification/Sso_Facts.thy ===== *)
theory Sso_Facts
  imports Sso_Service
begin

text \<open>
  Lemmas on single sign-on: the configuration of a provider with its secrets, where the roles of a new
  user come from, and the steps of the component with what each leaves alone.
\<close>

section \<open>Secrets in a configuration\<close>

text \<open>A configuration as it comes in: keys once, no secret that counts as a mask, no other text that counts
  as encrypted. A configuration as it is stored: every secret text is encrypted, no other text counts as
  encrypted.\<close>

fun plain_cval :: "string \<Rightarrow> json \<Rightarrow> bool" and plain_cfg :: "dict \<Rightarrow> bool" where
  "plain_cval k (JStr s) = (\<not> enc_prefixed s \<and> (k \<in> set SSO_SECRET_KEYS \<longrightarrow> \<not> masked_secret s))"
| "plain_cval k (JObj d) = plain_cfg d"
| "plain_cval k v = True"
| "plain_cfg [] = True"
| "plain_cfg ((k, v) # d) = (k \<notin> fst ` set d \<and> plain_cval k v \<and> plain_cfg d)"

fun stored_cval :: "string \<Rightarrow> json \<Rightarrow> bool" and stored_cfg :: "dict \<Rightarrow> bool" where
  "stored_cval k (JStr s) = (if k \<in> set SSO_SECRET_KEYS then enc_prefixed s \<and> drop 4 s \<noteq> [] else \<not> enc_prefixed s)"
| "stored_cval k (JObj d) = stored_cfg d"
| "stored_cval k v = True"
| "stored_cfg [] = True"
| "stored_cfg ((k, v) # d) = (k \<notin> fst ` set d \<and> stored_cval k v \<and> stored_cfg d)"

lemma plain_cfg_all: "plain_cfg d \<longleftrightarrow> distinct (map fst d) \<and> (\<forall>(k, v) \<in> set d. plain_cval k v)"
  by (induction d) force+

lemma stored_cfg_all: "stored_cfg d \<longleftrightarrow> distinct (map fst d) \<and> (\<forall>(k, v) \<in> set d. stored_cval k v)"
  by (induction d) force+

lemma decrypt_config_map: "sso_decrypt_config e d = map (\<lambda>(k, v). (k, decrypt_val e v)) d"
  by (induction d) auto

lemma mask_config_map: "sso_mask_config e d = map (\<lambda>(k, v). (k, mask_cval e v)) d"
  by (induction d) auto

lemma encrypt_config_fresh:
  "distinct (map fst d) \<Longrightarrow> fst ` set d \<inter> fst ` set merged = {} \<Longrightarrow>
     sso_encrypt_config e d merged = merged @ map (\<lambda>(k, v). (k, config_val e k v None)) d"
proof (induction d arbitrary: merged)
  case (Cons x d)
  obtain k v where x: "x = (k, v)" by fastforce
  have new: "k \<notin> fst ` set merged" using Cons.prems(2) by (auto simp: x)
  then have "map_of merged k = None" by (simp add: map_of_eq_None_iff)
  with Cons new show ?case by (simp add: x dset_new)
qed simp

lemma encrypt_config_map: "distinct (map fst d) \<Longrightarrow> sso_encrypt_config e d [] = map (\<lambda>(k, v). (k, config_val e k v None)) d"
  using encrypt_config_fresh [of d "[]" e] by simp

lemma decrypt_encrypt_mutual:
  assumes "\<And>p. unseal e (seal e p) = Some p"
  shows "plain_cval k v \<Longrightarrow> decrypt_val e (config_val e k v None) = v"
    and "plain_cfg d \<Longrightarrow> \<forall>(k, v) \<in> set d. decrypt_val e (config_val e k v None) = v"
proof (induction k v and d rule: plain_cval_plain_cfg.induct)
  case (1 k s)
  then show ?case using decrypt_encrypt [OF assms] by (auto simp: enc_prefixed_def)
next
  case (2 k d)
  then have "distinct (map fst d)" by (simp add: plain_cfg_all)
  with 2 show ?case by (auto simp: encrypt_config_map decrypt_config_map case_prod_unfold intro!: map_idI)
qed auto

lemma decrypt_encrypt_config:
  assumes "\<And>p. unseal e (seal e p) = Some p" and "plain_cfg d"
  shows "sso_decrypt_config e (sso_encrypt_config e d []) = d"
  using decrypt_encrypt_mutual(2) [OF assms] assms(2)
  by (auto simp: encrypt_config_map plain_cfg_all decrypt_config_map case_prod_unfold intro!: map_idI)

lemma stored_cval_encrypted:
  "plain_cval k v \<Longrightarrow> stored_cval k (config_val e k v None)"
  "plain_cfg d \<Longrightarrow> \<forall>(k, v) \<in> set d. stored_cval k (config_val e k v None)"
proof (induction k v and d rule: plain_cval_plain_cfg.induct)
  case (1 k s)
  then show ?case by (auto simp: enc_prefixed_def encrypt_secret_def)
next
  case (2 k d)
  then have "distinct (map fst d)" by (simp add: plain_cfg_all)
  with 2 show ?case by (auto simp: encrypt_config_map stored_cfg_all case_prod_unfold comp_def)
qed auto

lemma stored_cfg_encrypted: "plain_cfg d \<Longrightarrow> stored_cfg (sso_encrypt_config e d [])"
  using stored_cval_encrypted(2) [of d e] by (auto simp: encrypt_config_map stored_cfg_all plain_cfg_all case_prod_unfold comp_def)

text \<open>The mask of a secret always has an asterisk, so a form that sends it back changes nothing.\<close>

lemma mask_starred: "s \<noteq> [] \<Longrightarrow> \<exists>m. mask_secret e (Some s) = Some m \<and> masked_secret m"
  by (auto simp: mask_secret_def str_truthy_def masked_secret_def split: option.splits)

lemma echo_mutual:
  "stored_cval k v \<Longrightarrow> config_val e' k (mask_cval e v) (Some v) = v"
  "stored_cfg d \<Longrightarrow> (\<forall>(k, v) \<in> set d. map_of m k = Some v) \<Longrightarrow> sso_encrypt_config e' (sso_mask_config e d) m = m"
proof (induction k v and d arbitrary: and m rule: stored_cval_stored_cfg.induct)
  case (1 k s)
  show ?case
  proof (cases "k \<in> set SSO_SECRET_KEYS")
    case True
    with 1 obtain m where "mask_secret e (Some (drop 4 s)) = Some m" "masked_secret m" using mask_starred [of "drop 4 s" e] by auto
    with 1 True show ?thesis by simp
  qed (use 1 in simp)
next
  case (2 k d)
  then show ?case by (auto simp: stored_cfg_all)
next
  case (5 k v d)
  then show ?case by (simp add: dset_same)
qed auto

lemma mask_echo_config: "stored_cfg d \<Longrightarrow> sso_encrypt_config e' (sso_mask_config e d) d = d"
  by (rule echo_mutual(2)) (auto simp: stored_cfg_all)

section \<open>Role codes\<close>

text \<open>The texts that a loop over a JSON value gives.\<close>

definition codes_in :: "json \<Rightarrow> string set" where
  "codes_in j = {c. \<exists>xs. py_iter j = Some xs \<and> JStr c \<in> set xs}"

lemma codes_in_simps [simp]:
  "codes_in (JList xs) = {c. JStr c \<in> set xs}" "codes_in (JStr s) = (\<lambda>c. [c]) ` set s" "codes_in (JObj d) = fst ` set d"
  "codes_in JNull = {}" "codes_in (JInt n) = {}" "codes_in (JBool b) = {}" "codes_in (JFloat r) = {}"
  by (force simp: codes_in_def)+

lemma codes_in_falsy: "\<not> truthy j \<Longrightarrow> codes_in j = {}"
  by (cases j) auto

lemma check_codes_privileged: "check_codes w xs = Inr ps \<Longrightarrow> JStr c \<in> set xs \<Longrightarrow> is_privileged c \<Longrightarrow> c \<in> set ps"
proof (induction xs arbitrary: ps)
  case (Cons x xs)
  then show ?case by (cases x) (auto split: if_splits sum.splits)
qed simp

lemma validate_privileged:
  assumes "validate_role_codes w j = Inr ps" and "c \<in> codes_in j" and "is_privileged c"
  shows "c \<in> set ps"
proof -
  have "truthy j" using assms(2) codes_in_falsy by blast
  with assms obtain xs where "py_iter j = Some xs" "check_codes w xs = Inr ps"
    by (auto simp: validate_role_codes_def split: option.splits)
  with assms check_codes_privileged [of w xs ps c] show ?thesis by (auto simp: codes_in_def)
qed

lemma str_elems_in: "str_elems xs = Inr cs \<Longrightarrow> c \<in> set cs \<Longrightarrow> JStr c \<in> set xs"
proof (induction xs arbitrary: cs)
  case (Cons x xs)
  then show ?case by (cases x) (auto split: sum.splits)
qed simp

lemma codes_list_in: "codes_list j = Inr cs \<Longrightarrow> c \<in> set cs \<Longrightarrow> c \<in> codes_in j"
  by (auto simp: codes_list_def codes_in_def dest: str_elems_in split: if_splits option.splits)

lemma privileged_long: "is_privileged [c] = False"
proof -
  have "length (lower (strip [c])) \<le> 1" by (simp add: lower_def strip_def)
  then show ?thesis by (auto simp: is_privileged_def PRIVILEGED_ROLE_CODES_def)
qed

lemma map_of_decrypt: "map_of (sso_decrypt_config e d) k = map_option (decrypt_val e) (map_of d k)"
  by (induction d) auto

text \<open>Decryption adds no privileged code: a text is iterated by characters, and the keys of a dict stay.\<close>

lemma codes_decrypted:
  assumes "c \<in> codes_in (dget (sso_decrypt_config e d) k)" and "is_privileged c"
  shows "c \<in> codes_in (dget d k)"
proof (cases "map_of d k")
  case None
  with assms show ?thesis by (simp add: dget_def map_of_decrypt)
next
  case (Some v)
  have "c \<in> codes_in (decrypt_val e v)" using assms(1) Some by (simp add: dget_def map_of_decrypt)
  then have "c \<in> codes_in v"
    using assms(2) by (cases v) (auto simp: privileged_long decrypt_config_map image_image case_prod_unfold split: if_splits)
  with Some show ?thesis by (simp add: dget_def)
qed

lemma map_of_encrypt:
  "distinct (map fst d) \<Longrightarrow> map_of (sso_encrypt_config e d m) k =
     (case map_of d k of None \<Rightarrow> map_of m k | Some v \<Rightarrow> Some (config_val e k v (map_of m k)))"
proof (induction d arbitrary: m)
  case (Cons x d)
  obtain k0 v0 where x: "x = (k0, v0)" by fastforce
  have "map_of d k0 = None" using Cons.prems by (simp add: x map_of_eq_None_iff)
  with Cons show ?case by (auto simp: x split: option.splits)
qed simp

lemma fst_dset: "fst ` set (dset d k v) = insert k (fst ` set d)"
proof (induction d)
  case (Cons x d)
  then show ?case by (cases x) (simp only: dset.simps image_insert list.set if_distrib fst_conv split: if_splits, auto)
qed simp

lemma keys_encrypt: "fst ` set (sso_encrypt_config e d m) = fst ` set d \<union> fst ` set m"
proof (induction d arbitrary: m)
  case (Cons x d)
  obtain k v where "x = (k, v)" by fastforce
  with Cons show ?case by (simp add: fst_dset)
qed simp

lemma codes_encrypted:
  assumes "distinct (map fst d)" and "k \<notin> set SSO_SECRET_KEYS"
  shows "codes_in (dget (sso_encrypt_config e d m) k) \<subseteq> codes_in (dget d k) \<union> codes_in (dget m k)"
proof (cases "map_of d k")
  case None
  then show ?thesis by (simp add: dget_def map_of_encrypt [OF assms(1)])
next
  case (Some v)
  have old: "fst ` set (case o' of Some (JObj m') \<Rightarrow> m' | _ \<Rightarrow> []) \<subseteq> codes_in (case o' of None \<Rightarrow> JNull | Some u \<Rightarrow> u)" for o' :: "json option"
  proof (cases o')
    case (Some a)
    then show ?thesis by (cases a) simp_all
  qed simp
  show ?thesis using assms(2) Some old [of "map_of m k"]
    by (cases v) (auto simp: dget_def map_of_encrypt [OF assms(1)] keys_encrypt)
qed

section \<open>Logging in\<close>

lemma links_fold_tadd: "links (fold tadd rs t) = links t \<union> set rs"
proof -
  have "links (fold (\<lambda>r. tadd (id r)) rs t) = links t \<union> set rs"
    unfolding links_def rows_fold_tadd by (simp add: image_Un flip: set_map)
  then show ?thesis by simp
qed

lemma role_by_code_Some: "table_ok (roles w) \<Longrightarrow> role_by_code w c = Some (i, r) \<Longrightarrow> tget (roles w) i = Some r \<and> ro_code r = c"
  unfolding role_by_code_def by (drule (1) tfirst_Some) simp

lemma default_codes_in:
  "default_codes pf w = Inr cs \<Longrightarrow> c \<in> set cs \<Longrightarrow> is_privileged c \<Longrightarrow> c \<in> codes_in (pf_default_role_codes pf)"
  by (auto simp: default_codes_def Let_def dest: codes_list_in split: if_splits sum.splits)

text \<open>Each role row of a new user: its role exists, and if its code is privileged the provider declares it.\<close>

lemma bind_default_rolesD:
  assumes "bind_default_roles i pf w = Inr rs" and "r \<in> set rs" and "table_ok (roles w)"
  shows "ur_user_id r = i \<and> (\<exists>ro. tget (roles w) (ur_role_id r) = Some ro \<and>
    (is_privileged (ro_code ro) \<longrightarrow> ro_code ro \<in> codes_in (pf_default_role_codes pf)))"
proof -
  from assms(1) obtain cs where cs: "default_codes pf w = Inr cs"
    and rs: "rs = concat (map (\<lambda>c. case role_by_code w c of None \<Rightarrow> [] | Some (rid, _) \<Rightarrow> [\<lparr>ur_user_id = i, ur_role_id = rid\<rparr>]) cs)"
    by (auto simp: bind_default_roles_def split: sum.splits)
  from assms(2) obtain c rid ro where c: "c \<in> set cs" "role_by_code w c = Some (rid, ro)" "r = \<lparr>ur_user_id = i, ur_role_id = rid\<rparr>"
    by (force simp: rs split: option.splits dest: sym)
  with role_by_code_Some [OF assms(3) c(2)] default_codes_in [OF cs c(1)] show ?thesis by auto
qed

text \<open>The two ways to a user.\<close>

lemma resolve_external_userE:
  assumes "resolve_external_user pw e x p mv pf w = Inr (i, rs, w1)"
  obtains (known) u where "(if map_key_of (pf_map_key pf) = Inr ''email'' then by_email w mv else by_username w mv) = Some (i, u)"
      and "us_deleted u = 0" and "us_status u = 1" and "rs = []"
      and "w1 = w\<lparr>users := tupd i (\<lambda>r. r\<lparr>us_auth_source := av_type p\<rparr>) (users w)\<rparr>"
  | (fresh) real_name email where "auto_provision_on pf w" and "i = next_id (users w)" and "by_username w (take 64 mv) = None"
      and "w1 = w\<lparr>users := tadd (new_external_user pw x (av_type p) mv real_name email) (users w)\<rparr>"
      and "bind_default_roles i pf w1 = Inr rs"
proof -
  from assms obtain k where k: "map_key_of (pf_map_key pf) = Inr k" and mv: "mv \<noteq> []"
    by (auto simp: resolve_external_user_def split: if_splits sum.splits)
  have sel: "(if k = ''email'' then by_email w mv else by_username w mv) =
    (if map_key_of (pf_map_key pf) = Inr ''email'' then by_email w mv else by_username w mv)" by (simp add: k)
  show thesis
  proof (cases "if k = ''email'' then by_email w mv else by_username w mv")
    case None
    with assms k mv have a: "auto_provision_on pf w" and pr: "provision_user pw e x p mv pf w = Inr (i, rs, w1)"
      by (auto simp: resolve_external_user_def split: if_splits)
    from pr obtain n em where "i = next_id (users w)" "by_username w (take 64 mv) = None"
      "w1 = w\<lparr>users := tadd (new_external_user pw x (av_type p) mv n em) (users w)\<rparr>" "bind_default_roles i pf w1 = Inr rs"
      unfolding provision_user_def Let_def by (auto simp del: not_None_eq split: sum.splits if_splits)
    with a show thesis by (rule fresh)
  next
    case (Some q)
    obtain j u where q: "q = (j, u)" by fastforce
    from assms k mv Some q have "us_deleted u = 0" "us_status u = 1" "i = j" "rs = []"
      "w1 = w\<lparr>users := tupd i (\<lambda>r. r\<lparr>us_auth_source := av_type p\<rparr>) (users w)\<rparr>"
      by (auto simp: resolve_external_user_def split: if_splits)
    with Some q sel show thesis by (intro known) simp_all
  qed
qed

lemma users_clear [simp]: "users (clear_login_failures e n w) = users w" "roles (clear_login_failures e n w) = roles w"
  "user_roles (clear_login_failures e n w) = user_roles w"
  by (simp_all add: clear_login_failures_def rdel_def)

text \<open>The operations on tokens and failures write other keys of Redis than those of OAuth states.\<close>

definition keeps_states :: "(redis_key \<Rightarrow> (redis_val \<times> time option) option) \<Rightarrow> (redis_key \<Rightarrow> (redis_val \<times> time option) option) \<Rightarrow> bool" where
  "keeps_states r r' = (\<forall>st. r' (OAuthState st) = r (OAuthState st))"

lemma keeps_states_refl [simp]: "keeps_states r r"
  by (simp add: keeps_states_def)

lemma clear_frame: "\<exists>r. clear_login_failures e n w = w\<lparr>redis := r\<rparr> \<and> keeps_states (redis w) r"
  by (cases "redis_up e") (auto simp: clear_login_failures_def rdel_def keeps_states_def intro: exI [of _ "redis w"])

lemma redis_frame_trans:
  assumes "\<exists>r. w1 = w\<lparr>redis := r\<rparr> \<and> keeps_states (redis w) r" and "\<exists>r. w2 = w1\<lparr>redis := r\<rparr> \<and> keeps_states (redis w1) r"
  shows "\<exists>r. w2 = (w :: 'z id_db_scheme)\<lparr>redis := r\<rparr> \<and> keeps_states (redis w) r"
proof -
  from assms obtain r r2 where "w2 = w\<lparr>redis := r2\<rparr>" and "keeps_states (redis w) r2" by (auto simp: keeps_states_def)
  then show ?thesis by (intro exI conjI)
qed

lemma count_frames:
  "\<exists>r. snd (rincr e (LoginFail n) w) = w\<lparr>redis := r\<rparr> \<and> keeps_states (redis w) r"
  "\<exists>r. rexpire e (LoginFail n) ttl w = w\<lparr>redis := r\<rparr> \<and> keeps_states (redis w) r"
  "\<exists>r. rset (LoginLock n) v t w = w\<lparr>redis := r\<rparr> \<and> keeps_states (redis w) r"
proof -
  have set_fail: "\<exists>r. rset (LoginFail n) v t w = w\<lparr>redis := r\<rparr> \<and> keeps_states (redis w) r" for v t
    by (rule exI [of _ "(redis w)(LoginFail n := Some (v, t))"]) (simp add: rset_def keeps_states_def)
  show "\<exists>r. snd (rincr e (LoginFail n) w) = w\<lparr>redis := r\<rparr> \<and> keeps_states (redis w) r"
    using set_fail by (simp add: rincr_def split: option.split redis_val.split)
  show "\<exists>r. rexpire e (LoginFail n) ttl w = w\<lparr>redis := r\<rparr> \<and> keeps_states (redis w) r"
  proof (cases "rget e (LoginFail n) w")
    case None
    then show ?thesis by (intro exI [of _ "redis w"]) (simp add: rexpire_def)
  qed (simp add: rexpire_def set_fail)
  show "\<exists>r. rset (LoginLock n) v t w = w\<lparr>redis := r\<rparr> \<and> keeps_states (redis w) r"
    by (rule exI [of _ "(redis w)(LoginLock n := Some (v, t))"]) (simp add: rset_def keeps_states_def)
qed

lemma record_frame: "\<exists>r. snd (record_login_failure e n w) = w\<lparr>redis := r\<rparr> \<and> keeps_states (redis w) r"
proof (cases "redis_up e")
  case True
  note two = redis_frame_trans [OF count_frames(1) [of e n w] count_frames(2) [of e n 60 "snd (rincr e (LoginFail n) w)"]]
  note three = redis_frame_trans [OF two count_frames(3) [of n "RStr ''1''" "Some (now e + seconds (login_lock_minutes * 60))"]]
  show ?thesis
    by (cases "login_max_failures \<le> fst (rincr e (LoginFail n) w)")
      (simp_all only: record_login_failure_def True Let_def case_prod_unfold snd_conv if_True if_False not_True_eq_False two three)
qed (intro exI [of _ "redis w"], simp add: record_login_failure_def)

lemma issue_pair_frame:
  assumes "issue_pair e j ty i u w = Inr (out, w')"
  shows "\<exists>r. w' = w\<lparr>redis := r\<rparr> \<and> keeps_states (redis w) r" and "ub_id (tp_user out) = i"
proof -
  from assms obtain jti where "w' = store_refresh e i jti w" "tp_user out = build_user_brief w i u"
    by (auto simp: issue_pair_def Let_def split: option.splits json.splits)
  moreover have "\<exists>r. store_refresh e i jti w = w\<lparr>redis := r\<rparr> \<and> keeps_states (redis w) r"
    by (cases "redis_up e") (auto simp: store_refresh_def rset_def keeps_states_def intro: exI [of _ "redis w"])
  ultimately show "\<exists>r. w' = w\<lparr>redis := r\<rparr> \<and> keeps_states (redis w) r" "ub_id (tp_user out) = i" by (simp_all add: build_user_brief_def)
qed

text \<open>A refused login leaves the database as it was; a login that succeeds has resolved a user, stamped it
  and written the rows that waited.\<close>

lemma external_login_cases:
  assumes "external_login pw e x j p mv pf n w = (res, w')"
  obtains (refused) er r where "res = Inl er" and "w' = w\<lparr>redis := r\<rparr>" and "keeps_states (redis w) r"
  | (entered) out i rs w1 r where "res = Inr out" and "resolve_external_user pw e x p mv pf w = Inr (i, rs, w1)"
      and "distinct (map ur_role_id rs)" and "ub_id (tp_user out) = i" and "keeps_states (redis w) r"
      and "w' = w1\<lparr>redis := r, users := tupd i (\<lambda>r. r\<lparr>us_last_login_at := Some (now e)\<rparr>) (users w1),
                   user_roles := fold tadd rs (user_roles w1)\<rparr>"
proof (cases "resolve_external_user pw e x p mv pf w")
  case (Inl er)
  with assms show thesis by (intro refused [of er "redis w"]) (simp_all add: external_login_def)
next
  case (Inr q)
  obtain i rs w1 where q: "q = (i, rs, w1)" by (metis prod_cases3)
  have r1: "redis w1 = redis w" using Inr q by (auto elim!: resolve_external_userE)
  define m where "m = (if n = [] then us_username (the (tget (users w1) i)) else n)"
  obtain r2 where w2: "clear_login_failures e m w1 = w1\<lparr>redis := r2\<rparr>" and r2: "keeps_states (redis w) r2"
    using clear_frame [of e m w1] r1 by auto
  show thesis
  proof (cases "issue_tokens e j i (the (tget (users w1) i)) (w1\<lparr>redis := r2\<rparr>)")
    case (Inl er)
    with assms Inr q w2 r2 show thesis by (intro refused [of er r2]) (simp_all add: external_login_def Let_def flip: m_def)
  next
    case Inr': (Inr o')
    obtain out w3 where o': "o' = (out, w3)" by fastforce
    obtain r3 where w3: "w3 = w1\<lparr>redis := r3\<rparr>" and r3: "keeps_states (redis w) r3" and id: "ub_id (tp_user out) = i"
      using issue_pair_frame [OF Inr' [unfolded o' issue_tokens_def]] r2 by (auto simp: keeps_states_def)
    have eq: "(res, w') = (if \<not> distinct (map ur_role_id rs) then (Inl (IntegrityError ''sys_user_role''), w\<lparr>redis := r3\<rparr>)
       else if \<not> external_id_fits e x pf mv then (Inl (IntegrityError ''sys_user.external_id''), w\<lparr>redis := r3\<rparr>)
       else (Inr out, w1\<lparr>redis := r3, users := tupd i (\<lambda>r. r\<lparr>us_last_login_at := Some (now e)\<rparr>) (users w1), user_roles := fold tadd rs (user_roles w1)\<rparr>))"
      using assms Inr q w2 Inr' o' w3 by (auto simp: external_login_def Let_def simp flip: m_def split: if_splits)
    show thesis
    proof (cases "distinct (map ur_role_id rs) \<and> external_id_fits e x pf mv")
      case True
      with eq Inr q id r3 show thesis by (intro entered [of out i rs w1 r3]) simp_all
    next
      case False
      with eq r3 show thesis by (cases res) (auto intro: refused split: if_splits)
    qed
  qed
qed

text \<open>What a login may change, and where its new role rows come from.\<close>

lemma external_login_frame:
  fixes w :: "'z sso_db_scheme"
  assumes "external_login pw e x j p mv pf n w = (res, w')"
  shows "roles w' = roles w \<and> auth_providers w' = auth_providers w \<and> grant_audits w' = grant_audits w \<and> keeps_states (redis w) (redis w')"
  using assms by (cases rule: external_login_cases) (auto elim!: resolve_external_userE)

lemma external_login_links:
  assumes "external_login pw e x j p mv pf n w = (res, w')" and "table_ok (roles w)" and "rl \<in> links (user_roles w')"
  shows "rl \<in> links (user_roles w) \<or> (\<exists>ro. tget (roles w) (ur_role_id rl) = Some ro \<and>
    (is_privileged (ro_code ro) \<longrightarrow> ro_code ro \<in> codes_in (pf_default_role_codes pf)))"
  using assms(1)
proof (cases rule: external_login_cases)
  case (entered out i rs w1 r)
  from entered(2) show ?thesis
  proof (cases rule: resolve_external_userE)
    case (fresh rn em)
    then have w1: "roles w1 = roles w" "user_roles w1 = user_roles w" by simp_all
    with assms(3) entered have "rl \<in> links (user_roles w) \<or> rl \<in> set rs" by (simp add: links_fold_tadd)
    then show ?thesis
    proof
      assume "rl \<in> set rs"
      with bind_default_rolesD [OF fresh(5)] assms(2) w1 show ?thesis by metis
    qed simp
  qed (use assms(3) entered in simp)
qed (use assms(3) in simp)

section \<open>Steps\<close>

text \<open>One call of the component or of the local login beside it; the list has the OAuth state the call
  issued. A configuration that comes in as a JSON object has each key once.\<close>

inductive sso_step :: "string list \<Rightarrow> sso_db \<Rightarrow> sso_db \<Rightarrow> bool" where
  create: "distinct (map fst (ac_config d)) \<Longrightarrow> create_auth_provider e u d w = Inr (out, w') \<Longrightarrow> sso_step [] w w'"
| update: "\<forall>c. au_config d = Some c \<longrightarrow> distinct (map fst c) \<Longrightarrow> update_auth_provider e u i d w = Inr (shown, w') \<Longrightarrow> sso_step [] w w'"
| delete: "delete_auth_provider u i w = Inr ((), w') \<Longrightarrow> sso_step [] w w'"
| status: "set_auth_provider_status u i on w = Inr ((), w') \<Longrightarrow> sso_step [] w w'"
| ldap: "ldap_login_endpoint pw e x j n password w = (res, w') \<Longrightarrow> sso_step [] w w'"
| authorize: "oauth_authorize_url e x code base w = (url, w') \<Longrightarrow> sso_step [token_urlsafe x] w w'"
| callback: "oauth_callback pw e x j code auth_code st w = (ans, w') \<Longrightarrow> sso_step [] w w'"
| local: "login_endpoint pw e j n password w = (res, w') \<Longrightarrow> sso_step [] w w'"
| refresh: "refresh_tokens e j tok w = Inr (pair, w') \<Longrightarrow> sso_step [] w w'"
| logout: "logout e tok w = (done', w') \<Longrightarrow> sso_step [] w w'"

definition explicit_codes :: "auth_provider \<Rightarrow> string set" where
  "explicit_codes p = codes_in (dget (av_config_enc p) ''default_role_codes'')"

text \<open>What the two logins come down to: Redis only, or an external login through an enabled provider whose
  declared codes are those of its configuration.\<close>

definition logged_in :: "'z sso_db_scheme \<Rightarrow> 'z sso_db_scheme \<Rightarrow> bool" where
  "logged_in w w' = (\<exists>pw e x j p mv pf n res r. p \<in> set (list_enabled w) \<and>
     external_login pw e x j p mv pf n (w\<lparr>redis := r\<rparr>) = (res, w') \<and> (\<forall>st. r (OAuthState st) \<in> {None, redis w (OAuthState st)}) \<and>
     (\<forall>c. is_privileged c \<longrightarrow> c \<in> codes_in (pf_default_role_codes pf) \<longrightarrow> c \<in> explicit_codes p))"

lemma logged_inI:
  assumes "external_login pw e x j p mv pf n (w\<lparr>redis := r\<rparr>) = (res, w')" and "p \<in> set (list_enabled w)"
    and "\<And>st. r (OAuthState st) \<in> {None, redis w (OAuthState st)}"
    and "pf_default_role_codes pf = dget (sso_decrypt_config e (av_config_enc p)) ''default_role_codes''"
  shows "logged_in w w'"
proof -
  have "\<forall>c. is_privileged c \<longrightarrow> c \<in> codes_in (pf_default_role_codes pf) \<longrightarrow> c \<in> explicit_codes p"
    using codes_decrypted by (auto simp: explicit_codes_def assms(4))
  with assms(1-3) show ?thesis unfolding logged_in_def by blast
qed

definition only_redis :: "'z id_db_scheme \<Rightarrow> 'z id_db_scheme \<Rightarrow> bool" where
  "only_redis w w' = (\<exists>r. w' = w\<lparr>redis := r\<rparr> \<and> (\<forall>st. r (OAuthState st) \<in> {None, redis w (OAuthState st)}))"

lemma only_redis_refl [simp]: "only_redis w w"
  by (auto simp: only_redis_def intro: exI [of _ "redis w"])

lemma ldap_enter_login:
  assumes "ldap_enter pw e x j p attrs n w = (res, w')" and "p \<in> set (list_enabled w)"
  shows "only_redis w w' \<or> logged_in w w'"
proof -
  from assms(1) consider "w' = w"
    | mv cl where "external_login pw e x j p mv (ldap_profile (sso_decrypt_config e (av_config_enc p)) attrs mv cl) n w = (res, w')"
    by (auto simp: ldap_enter_def Let_def split: sum.splits)
  then show ?thesis
  proof cases
    case 2
    then have "external_login pw e x j p mv (ldap_profile (sso_decrypt_config e (av_config_enc p)) attrs mv cl) n (w\<lparr>redis := redis w\<rparr>) = (res, w')" by simp
    from logged_inI [OF this assms(2)] show ?thesis by (simp add: ldap_profile_def)
  qed simp
qed

lemma ldap_try_login:
  assumes "ldap_try pw e x j ps n password w = (res, w')" and "set ps \<subseteq> set (list_enabled w)"
  shows "only_redis w w' \<or> logged_in w w'"
  using assms
proof (induction ps)
  case Nil
  then show ?case using record_frame [of e n w] by (auto simp: only_redis_def keeps_states_def)
next
  case (Cons p ps)
  show ?case
  proof (cases "ldap_attributes e x p n password")
    case None
    with Cons show ?thesis by simp
  next
    case (Some attrs)
    with Cons.prems have "ldap_enter pw e x j p attrs n w = (res, w')" by simp
    from ldap_enter_login [OF this] Cons.prems(2) show ?thesis by simp
  qed
qed

lemma ldap_login_login: "ldap_login_endpoint pw e x j n password w = (res, w') \<Longrightarrow> only_redis w w' \<or> logged_in w w'"
  by (auto simp: ldap_login_endpoint_def ldap_login_def Let_def dest: ldap_try_login split: if_splits)

lemma enabled_by_code:
  assumes "get_enabled_by_code w code ty = Inr p"
  shows "p \<in> set (list_enabled w)"
proof -
  from assms obtain i where "av_by_code w code = Some (i, p)" and "av_enabled p = 1"
    by (auto simp: get_enabled_by_code_def split: option.splits if_splits)
  then have "(i, p) \<in> set (tselect (\<lambda>p. av_enabled p = 1) (auth_providers w))"
    by (auto simp: av_by_code_def tfirst_def tselect_def split: list.splits dest: filter_eq_ConsD)
  then show ?thesis by (force simp: list_enabled_def)
qed

lemma oauth_enter_login:
  assumes "oauth_enter pw e x j p raw (w\<lparr>redis := r\<rparr>) = (res, w')" and "p \<in> set (list_enabled w)"
    and "\<And>st. r (OAuthState st) \<in> {None, redis w (OAuthState st)}"
  shows "only_redis w w' \<or> logged_in w w'"
proof -
  from assms(1) consider "w' = w\<lparr>redis := r\<rparr>"
    | mv pf where "external_login pw e x j p mv pf mv (w\<lparr>redis := r\<rparr>) = (res, w')"
        "pf_default_role_codes pf = dget (sso_decrypt_config e (av_config_enc p)) ''default_role_codes''"
    by (auto simp: oauth_enter_def oauth_user_profile_def Let_def split: sum.splits)
  then show ?thesis
    by cases (use assms(3) in \<open>auto simp: only_redis_def\<close>, metis logged_inI assms(2,3))
qed

text \<open>A callback whose state was found has consumed it, whatever comes after.\<close>

lemma consume_frame:
  "snd (consume_oauth_state e st w) = w\<lparr>redis := if redis_up e then (redis w)(OAuthState st := None) else redis w\<rparr>"
  by (simp add: consume_oauth_state_def rdel_def)

lemma oauth_callbackE:
  assumes "oauth_callback pw e x j code auth_code st w = (res, w')"
  obtains (early) er where "res = Inl er" and "w' = w"
  | (late) p r where "get_enabled_by_code w code ''oauth2'' = Inr p"
      and "r = (if redis_up e then (redis w)(OAuthState st := None) else redis w)"
      and "w' = w\<lparr>redis := r\<rparr> \<and> isl res \<or> (\<exists>raw res'. oauth_enter pw e x j p raw (w\<lparr>redis := r\<rparr>) = (res', w') \<and> isl res' = isl res)"
      and "\<not> isl res \<Longrightarrow> redis_up e \<and> (\<exists>d. rget e (OAuthState st) w = Some (RObj d) \<and> dget d ''code'' = JStr code)"
proof (cases "sso_enabled w \<and> \<not> isl (get_enabled_by_code w code ''oauth2'')")
  case True
  then obtain p where p: "get_enabled_by_code w code ''oauth2'' = Inr p" by (cases "get_enabled_by_code w code ''oauth2''") auto
  define r where "r = (if redis_up e then (redis w)(OAuthState st := None) else redis w)"
  obtain cached where c: "consume_oauth_state e st w = (cached, w\<lparr>redis := r\<rparr>)"
    using consume_frame [of e st w] unfolding r_def by (cases "consume_oauth_state e st w") simp
  have found: "redis_up e \<and> rget e (OAuthState st) w = Some (RObj d)" if "cached = Some d" for d
    using c that by (auto simp: consume_oauth_state_def split: if_splits option.splits redis_val.splits)
  define config redirect where "config = sso_decrypt_config e (av_config_enc p)"
    and "redirect = jor (dget (the cached) ''redirect_uri'') (jor (dget config ''redirect_uri'') (JStr []))"
  define bad where "bad = (cached = None \<or> the cached = [] \<or> dget (the cached) ''code'' \<noteq> JStr code)"
  have eq: "(if bad then (Inl (BadRequestError ''invalid or expired state''), w\<lparr>redis := r\<rparr>)
      else case oauth_exchange x config auth_code redirect of Inl er \<Rightarrow> (Inl er, w\<lparr>redis := r\<rparr>)
        | Inr token \<Rightarrow> (case oauth_profile x config token of Inl er \<Rightarrow> (Inl er, w\<lparr>redis := r\<rparr>)
           | Inr raw \<Rightarrow> (case oauth_enter pw e x j p raw (w\<lparr>redis := r\<rparr>) of (Inl er, w2) \<Rightarrow> (Inl er, w2)
               | (Inr out, w2) \<Rightarrow> (Inr (out, frontend_callback_url x config w2), w2)))) = (res, w')"
    using assms True by (simp only: oauth_callback_def p c Let_def bad_def config_def redirect_def sum.case prod.case if_False simp_thms)
  have "w' = w\<lparr>redis := r\<rparr> \<and> isl res \<or> (\<exists>raw res'. oauth_enter pw e x j p raw (w\<lparr>redis := r\<rparr>) = (res', w') \<and> isl res' = isl res)"
  proof (cases "bad \<or> isl (oauth_exchange x config auth_code redirect) \<or> isl (oauth_profile x config (projr (oauth_exchange x config auth_code redirect)))")
    case True
    with eq show ?thesis by (auto split: if_splits sum.splits)
  next
    case False
    then obtain token raw where t: "\<not> bad" "oauth_exchange x config auth_code redirect = Inr token" "oauth_profile x config token = Inr raw"
      by (cases "oauth_exchange x config auth_code redirect"; cases "oauth_profile x config (projr (oauth_exchange x config auth_code redirect))") auto
    obtain res' w2 where "oauth_enter pw e x j p raw (w\<lparr>redis := r\<rparr>) = (res', w2)" by fastforce
    with eq t show ?thesis by (intro disjI2 exI [of _ raw] exI [of _ res']) (cases res'; auto)
  qed
  moreover have "redis_up e \<and> (\<exists>d. rget e (OAuthState st) w = Some (RObj d) \<and> dget d ''code'' = JStr code)" if "\<not> isl res"
  proof -
    have "\<not> bad" using eq that by auto
    then show ?thesis using found by (auto simp: bad_def)
  qed
  ultimately show thesis by (rule late [OF p r_def])
next
  case False
  then show thesis using assms
    by (cases "get_enabled_by_code w code ''oauth2''") (auto simp: oauth_callback_def intro: early split: if_splits)
qed

lemma oauth_callback_login:
  assumes "oauth_callback pw e x j code auth_code st w = (res, w')"
  shows "only_redis w w' \<or> logged_in w w'"
  using assms
proof (cases rule: oauth_callbackE)
  case (late p r)
  have "\<And>st'. r (OAuthState st') \<in> {None, redis w (OAuthState st')}" by (simp add: late(2))
  with late(3) oauth_enter_login [OF _ enabled_by_code [OF late(1)], of pw e x j _ r] show ?thesis
    by (auto simp: only_redis_def)
qed simp

section \<open>The audit of privileged grants\<close>

text \<open>A privileged code that a provider declares has a row in the audit log under the code of the provider.\<close>

definition audited :: "'z sso_db_scheme \<Rightarrow> string \<Rightarrow> string \<Rightarrow> bool" where
  "audited w code c = (\<exists>g \<in> set (grant_audits w). pg_provider_code g = code \<and> c \<in> set (pg_role_codes g))"

definition sso_ok :: "'z sso_db_scheme \<Rightarrow> bool" where
  "sso_ok w = (table_ok (auth_providers w) \<and> table_ok (roles w) \<and>
     (\<forall>i p. tget (auth_providers w) i = Some p \<longrightarrow> (\<forall>c \<in> explicit_codes p. is_privileged c \<longrightarrow> audited w (av_code p) c)))"

lemma audited_mono: "set (grant_audits w) \<subseteq> set (grant_audits w') \<Longrightarrow> audited w code c \<Longrightarrow> audited w' code c"
  by (auto simp: audited_def)

lemma audit_grant:
  "grant_audits (audit_privileged_grant u code ps w) = grant_audits w @ (if ps = [] then [] else [\<lparr>pg_user_id = uid u, pg_provider_code = code, pg_role_codes = ps\<rparr>])"
  "auth_providers (audit_privileged_grant u code ps w) = auth_providers w" "roles (audit_privileged_grant u code ps w) = roles w"
  "user_roles (audit_privileged_grant u code ps w) = user_roles w" "redis (audit_privileged_grant u code ps w) = redis w"
  by (simp_all add: audit_privileged_grant_def)

lemma explicit_encrypted:
  assumes "distinct (map fst c)"
  shows "explicit_codes (p\<lparr>av_config_enc := sso_encrypt_config e c m\<rparr>) \<subseteq> codes_in (dget c ''default_role_codes'') \<union> codes_in (dget m ''default_role_codes'')"
  unfolding explicit_codes_def using codes_encrypted [OF assms, of "''default_role_codes''" e m] by (simp add: SSO_SECRET_KEYS_def)

lemma sso_ok_put:
  assumes "sso_ok w" and "table_ok (auth_providers w')" and "roles w' = roles w" and "set (grant_audits w) \<subseteq> set (grant_audits w')"
    and "\<And>k. k \<noteq> i \<Longrightarrow> tget (auth_providers w') k = tget (auth_providers w) k"
    and "\<And>p c. tget (auth_providers w') i = Some p \<Longrightarrow> c \<in> explicit_codes p \<Longrightarrow> is_privileged c \<Longrightarrow> audited w' (av_code p) c"
  shows "sso_ok w'"
  unfolding sso_ok_def
proof (intro conjI allI impI ballI)
  fix k p c
  assume k: "tget (auth_providers w') k = Some p" "c \<in> explicit_codes p" "is_privileged c"
  show "audited w' (av_code p) c"
  proof (cases "k = i")
    case False
    with k assms(1,5) have "audited w (av_code p) c" by (simp add: sso_ok_def)
    then show ?thesis by (rule audited_mono [OF assms(4)])
  qed (use k assms(6) in simp)
qed (use assms in \<open>simp_all add: sso_ok_def\<close>)

lemma create_ok:
  assumes "sso_ok w" and "distinct (map fst (ac_config d))" and "create_auth_provider e u d w = Inr (out, w')"
  shows "sso_ok w'"
proof -
  from assms(3) obtain code ps where v: "validate_role_codes w (dget (ac_config d) ''default_role_codes'') = Inr ps"
    and w': "w' = audit_privileged_grant u code ps (w\<lparr>auth_providers := tadd
        \<lparr>av_code = code, av_name = ac_name d, av_type = ac_type d, av_config_enc = sso_encrypt_config e (ac_config d) [], av_enabled = ac_enabled d\<rparr> (auth_providers w)\<rparr>)"
    by (auto simp: create_auth_provider_def Let_def split: sum.splits if_splits)
  let ?p = "\<lparr>av_code = code, av_name = ac_name d, av_type = ac_type d, av_config_enc = sso_encrypt_config e (ac_config d) [], av_enabled = ac_enabled d\<rparr>"
  have t: "table_ok (auth_providers w)" using assms(1) by (simp add: sso_ok_def)
  have "explicit_codes ?p \<subseteq> codes_in (dget (ac_config d) ''default_role_codes'')"
    using explicit_encrypted [OF assms(2), where p = ?p and e = e and m = "[]"] by (simp add: dget_def)
  with validate_privileged [OF v] have "c \<in> set ps" if "c \<in> explicit_codes ?p" "is_privileged c" for c using that by blast
  then have "audited w' code c" if "c \<in> explicit_codes ?p" "is_privileged c" for c using that by (fastforce simp: w' audited_def audit_grant)
  then show ?thesis
    by (intro sso_ok_put [OF assms(1), where i = "next_id (auth_providers w)"])
      (use t in \<open>auto simp: w' audit_grant tget_tadd split: if_splits\<close>)
qed

lemma update_ok:
  assumes "sso_ok w" and "\<forall>c. au_config d = Some c \<longrightarrow> distinct (map fst c)" and "update_auth_provider e u i d w = Inr (out, w')"
  shows "sso_ok w'"
proof -
  from assms(3) obtain p where p: "tget (auth_providers w) i = Some p"
    by (auto simp: update_auth_provider_def split: sum.splits option.splits)
  define p1 where "p1 = p\<lparr>av_name := keep (au_name d) (av_name p), av_enabled := keep (au_enabled d) (av_enabled p)\<rparr>"
  have t: "table_ok (auth_providers w)" and old: "\<And>c. c \<in> explicit_codes p \<Longrightarrow> is_privileged c \<Longrightarrow> audited w (av_code p) c"
    using assms(1) p by (auto simp: sso_ok_def)
  show ?thesis
  proof (cases "au_config d")
    case None
    with assms(3) p have "w' = put_provider i (\<lambda>_. p1) w"
      by (auto simp: update_auth_provider_def Let_def p1_def split: sum.splits)
    then show ?thesis
      by (intro sso_ok_put [OF assms(1), where i = i]) (use t old p in \<open>auto simp: put_provider_def p1_def explicit_codes_def audited_def\<close>)
  next
    case (Some c)
    define p2 where "p2 = p1\<lparr>av_config_enc := sso_encrypt_config e c (av_config_enc p)\<rparr>"
    from assms(3) p Some obtain ps where v: "validate_role_codes w (dget c ''default_role_codes'') = Inr ps"
      and w': "w' = audit_privileged_grant u (av_code p) ps (put_provider i (\<lambda>_. p2) w)"
      by (auto simp: update_auth_provider_def Let_def p1_def p2_def split: sum.splits)
    have sub: "explicit_codes p2 \<subseteq> codes_in (dget c ''default_role_codes'') \<union> explicit_codes p"
      using explicit_encrypted [where c = c and p = p1 and e = e and m = "av_config_enc p"] assms(2) Some by (simp add: p2_def explicit_codes_def)
    have new: "audited w' (av_code p) k" if "k \<in> explicit_codes p2" "is_privileged k" for k
    proof (cases "k \<in> explicit_codes p")
      case True
      with old that show ?thesis by (auto simp: audited_def w' audit_grant put_provider_def)
    next
      case False
      with sub that have "k \<in> set ps" using validate_privileged [OF v] by blast
      then show ?thesis by (auto simp: audited_def w' audit_grant)
    qed
    have "av_code p2 = av_code p" by (simp add: p2_def p1_def)
    with new t p show ?thesis
      by (intro sso_ok_put [OF assms(1), where i = i]) (auto simp: w' audit_grant put_provider_def)
  qed
qed

section \<open>What the steps keep\<close>

lemma logged_in_frame:
  "logged_in w w' \<Longrightarrow> roles w' = roles w \<and> auth_providers w' = auth_providers w \<and> grant_audits w' = grant_audits w \<and>
     (redis w' (OAuthState st) \<in> {None, redis w (OAuthState st)})"
  unfolding logged_in_def by (auto dest!: external_login_frame simp: keeps_states_def)

lemma only_redis_frame:
  fixes w :: "'z sso_db_scheme"
  shows "only_redis w w' \<Longrightarrow> roles w' = roles w \<and> auth_providers w' = auth_providers w \<and> grant_audits w' = grant_audits w \<and>
     user_roles w' = user_roles w \<and> (redis w' (OAuthState st) \<in> {None, redis w (OAuthState st)})"
  by (auto simp: only_redis_def)

text \<open>The steps of the local login touch users and Redis.\<close>

definition user_entry :: "'z id_db_scheme \<Rightarrow> 'z id_db_scheme \<Rightarrow> bool" where
  "user_entry w w' = (\<exists>us r. w' = w\<lparr>users := us, redis := r\<rparr> \<and> keeps_states (redis w) r)"

lemma user_entry_redis: "keeps_states (redis w) r \<Longrightarrow> user_entry w (w\<lparr>redis := r\<rparr>)"
  unfolding user_entry_def by (rule exI [of _ "users w"]) auto

lemma user_entry_refl [simp]: "user_entry w w"
  using user_entry_redis [of w "redis w"] by simp

lemma login_entry:
  assumes "login_endpoint pw e j n password w = (res, w')"
  shows "user_entry w w'"
proof -
  consider "w' = w" | "w' = snd (record_login_failure e n w)" | "w' = clear_login_failures e n w"
    | i u out w2 where "issue_pair e j None i u (clear_login_failures e n w) = Inr (out, w2)"
        "w' = w2\<lparr>users := tupd i (\<lambda>r. r\<lparr>us_last_login_at := Some (now e)\<rparr>) (users w2)\<rparr>"
    using assms by (auto simp: login_endpoint_def login_def Let_def issue_tokens_def split: if_splits option.splits sum.splits)
  then show ?thesis
  proof cases
    case 2
    then show ?thesis using record_frame [of e n w] user_entry_redis by metis
  next
    case 3
    then show ?thesis using clear_frame [of e n w] user_entry_redis by metis
  next
    case 4
    obtain r1 where "clear_login_failures e n w = w\<lparr>redis := r1\<rparr>" "keeps_states (redis w) r1" using clear_frame [of e n w] by auto
    moreover from this obtain r2 where "w2 = w\<lparr>redis := r2\<rparr>" "keeps_states (redis w) r2"
      using issue_pair_frame(1) [OF 4(1)] by (auto simp: keeps_states_def)
    ultimately show ?thesis
      unfolding user_entry_def
      by (intro exI [of _ "tupd i (\<lambda>r. r\<lparr>us_last_login_at := Some (now e)\<rparr>) (users w)"] exI [of _ r2]) (simp add: 4(2))
  qed simp
qed

lemma refresh_entry: "refresh_tokens e j tok w = Inr (out, w') \<Longrightarrow> user_entry w w'"
  by (elim refresh_tokensE) (metis issue_pair_frame(1) user_entry_redis)

lemma logout_entry:
  assumes "logout e tok w = (res, w')"
  shows "user_entry w w'"
proof -
  have "user_entry w (blacklist_access e jti w)" "user_entry w (revoke_refresh e i (blacklist_access e jti w))" for jti i
    by (cases "redis_up e"; auto simp: blacklist_access_def revoke_refresh_def rset_def rdel_def keeps_states_def intro!: user_entry_redis)+
  with assms show ?thesis by (auto simp: logout_def Let_def split: option.splits json.splits)
qed

lemma user_entry_frame:
  fixes w :: "'z sso_db_scheme"
  shows "user_entry w w' \<Longrightarrow> roles w' = roles w \<and> auth_providers w' = auth_providers w \<and> grant_audits w' = grant_audits w \<and>
     user_roles w' = user_roles w \<and> (redis w' (OAuthState st) \<in> {None, redis w (OAuthState st)})"
  by (auto simp: user_entry_def keeps_states_def)

text \<open>Every step: roles stay, the audit log grows, the invariant is kept, an OAuth state that the step did not
  issue is the same or gone, and a new role row is one of a declared code if its role is privileged.\<close>

lemma admin_frame:
  "create_auth_provider e u d w = Inr (out, w') \<Longrightarrow>
     roles w' = roles w \<and> user_roles w' = user_roles w \<and> redis w' = redis w \<and> (\<exists>new. grant_audits w' = grant_audits w @ new)"
  "update_auth_provider e u i d' w = Inr (out', w') \<Longrightarrow>
     roles w' = roles w \<and> user_roles w' = user_roles w \<and> redis w' = redis w \<and> (\<exists>new. grant_audits w' = grant_audits w @ new)"
  "delete_auth_provider u i w = Inr ((), w') \<Longrightarrow>
     roles w' = roles w \<and> user_roles w' = user_roles w \<and> redis w' = redis w \<and> (\<exists>new. grant_audits w' = grant_audits w @ new)"
  "set_auth_provider_status u i on w = Inr ((), w') \<Longrightarrow>
     roles w' = roles w \<and> user_roles w' = user_roles w \<and> redis w' = redis w \<and> (\<exists>new. grant_audits w' = grant_audits w @ new)"
  by (auto simp: create_auth_provider_def update_auth_provider_def delete_auth_provider_def set_auth_provider_status_def Let_def
      audit_grant put_provider_def split: sum.splits option.splits if_splits)

lemma authorize_frame:
  assumes "oauth_authorize_url e x code base w = (res, w')"
  shows "roles w' = roles w \<and> auth_providers w' = auth_providers w \<and> grant_audits w' = grant_audits w \<and>
     user_roles w' = user_roles w \<and> (st \<noteq> token_urlsafe x \<longrightarrow> redis w' (OAuthState st) \<in> {None, redis w (OAuthState st)})"
  using assms by (auto simp: oauth_authorize_url_def store_oauth_state_def rset_def Let_def split: sum.splits if_splits json.splits)

lemmas login_dests = ldap_login_login oauth_callback_login
lemmas entry_dests = login_entry refresh_entry logout_entry

lemma sso_step_frame:
  assumes "sso_step iss w w'"
  shows "roles w' = roles w \<and> (\<exists>new. grant_audits w' = grant_audits w @ new) \<and>
     (st \<notin> set iss \<longrightarrow> redis w' (OAuthState st) \<in> {None, redis w (OAuthState st)})"
  using assms
proof cases
  case (ldap pw e x j n password res)
  then show ?thesis using ldap_login_login only_redis_frame [of w w' st] logged_in_frame [of w w' st] by fastforce
next
  case (callback pw e x j code auth_code st' ans)
  then show ?thesis using oauth_callback_login only_redis_frame [of w w' st] logged_in_frame [of w w' st] by fastforce
next
  case (authorize e x code base url)
  then show ?thesis using authorize_frame [of e x code base w url w' st] by auto
qed (auto dest!: admin_frame entry_dests dest: user_entry_frame [where st = st])

lemma sso_ok_same:
  "sso_ok w \<Longrightarrow> roles w' = roles w \<Longrightarrow> auth_providers w' = auth_providers w \<Longrightarrow> grant_audits w' = grant_audits w \<Longrightarrow> sso_ok w'"
  by (simp add: sso_ok_def audited_def)

lemma sso_step_ok:
  assumes "sso_step iss w w'" and "sso_ok w"
  shows "sso_ok w'"
  using assms(1)
proof cases
  case (create d e u out)
  then show ?thesis using create_ok assms(2) by blast
next
  case (update d e u i shown)
  then show ?thesis using update_ok assms(2) by blast
next
  case (delete u i)
  then have "w' = w\<lparr>auth_providers := tdel i (auth_providers w)\<rparr>" by (auto simp: delete_auth_provider_def split: sum.splits if_splits)
  with assms(2) show ?thesis by (intro sso_ok_put [OF assms(2), where i = i]) (auto simp: sso_ok_def tget_tdel)
next
  case (status u i on)
  then have "w' = put_provider i (\<lambda>p. p\<lparr>av_enabled := on\<rparr>) w" by (auto simp: set_auth_provider_status_def split: sum.splits if_splits)
  with assms(2) show ?thesis
    by (intro sso_ok_put [OF assms(2), where i = i]) (auto simp: sso_ok_def put_provider_def explicit_codes_def audited_def)
next
  case (ldap pw e x j n password res)
  then show ?thesis using ldap_login_login only_redis_frame [of w w'] logged_in_frame [of w w'] sso_ok_same [OF assms(2)] by metis
next
  case (callback pw e x j code auth_code st' ans)
  then show ?thesis using oauth_callback_login only_redis_frame [of w w'] logged_in_frame [of w w'] sso_ok_same [OF assms(2)] by metis
next
  case (authorize e x code base url)
  then show ?thesis using authorize_frame [of e x code base w url w'] sso_ok_same [OF assms(2)] by metis
qed (metis entry_dests user_entry_frame sso_ok_same [OF assms(2)])+

lemma logged_in_links:
  assumes "logged_in w w'" and "sso_ok w" and "rl \<in> links (user_roles w')" and "rl \<notin> links (user_roles w)"
    and "tget (roles w) (ur_role_id rl) = Some ro" and "is_privileged (ro_code ro)"
  shows "\<exists>code. audited w code (ro_code ro)"
proof -
  from assms(1) obtain pw e x j p mv pf n res r where p: "p \<in> set (list_enabled w)"
    and l: "external_login pw e x j p mv pf n (w\<lparr>redis := r\<rparr>) = (res, w')"
    and c: "\<forall>c. is_privileged c \<longrightarrow> c \<in> codes_in (pf_default_role_codes pf) \<longrightarrow> c \<in> explicit_codes p"
    unfolding logged_in_def by blast
  have "ro_code ro \<in> codes_in (pf_default_role_codes pf)"
    using external_login_links [OF l _ assms(3)] assms(2,4-6) by (auto simp: sso_ok_def)
  with c assms(6) have e: "ro_code ro \<in> explicit_codes p" by blast
  from p obtain i where "(i, p) \<in> set (rows (auth_providers w))" by (auto simp: list_enabled_def tselect_def)
  then have "tget (auth_providers w) i = Some p" using assms(2) by (simp add: sso_ok_def tget_in_rows)
  with e assms(2,6) show ?thesis by (auto simp: sso_ok_def)
qed

lemma sso_step_links:
  assumes "sso_step iss w w'" and "sso_ok w" and "rl \<in> links (user_roles w')" and "rl \<notin> links (user_roles w)"
    and "tget (roles w) (ur_role_id rl) = Some ro" and "is_privileged (ro_code ro)"
  shows "\<exists>code. audited w code (ro_code ro)"
proof -
  have "logged_in w w' \<or> user_roles w' = user_roles w"
    using assms(1)
  proof cases
    case (ldap pw e x j n password res)
    then show ?thesis using ldap_login_login only_redis_frame [of w w'] by blast
  next
    case (callback pw e x j code auth_code st' ans)
    then show ?thesis using oauth_callback_login only_redis_frame [of w w'] by blast
  next
    case (authorize e x code base url)
    then show ?thesis using authorize_frame [of e x code base w url w'] by blast
  qed (auto dest!: admin_frame entry_dests dest: user_entry_frame)
  with assms(3,4) have "logged_in w w'" by auto
  from logged_in_links [OF this assms(2-6)] show ?thesis .
qed

definition sso_any :: "sso_db \<Rightarrow> sso_db \<Rightarrow> bool" where
  "sso_any w w' = (\<exists>iss. sso_step iss w w')"

interpretation aud: append_only sso_any grant_audits
  by unfold_locales (auto simp: sso_any_def dest: sso_step_frame)

lemma sso_any_ok: "sso_any\<^sup>*\<^sup>* w w' \<Longrightarrow> sso_ok w \<Longrightarrow> sso_ok w' \<and> roles w' = roles w"
  by (induction rule: rtranclp_induct) (auto simp: sso_any_def dest: sso_step_ok sso_step_frame)

text \<open>The steps that do not issue a given OAuth state.\<close>

definition sso_but :: "string \<Rightarrow> sso_db \<Rightarrow> sso_db \<Rightarrow> bool" where
  "sso_but st w w' = (\<exists>iss. sso_step iss w w' \<and> st \<notin> set iss)"

lemma state_stays_gone: "(sso_but st)\<^sup>*\<^sup>* w w' \<Longrightarrow> redis w (OAuthState st) = None \<Longrightarrow> redis w' (OAuthState st) = None"
  by (induction rule: rtranclp_induct) (auto simp: sso_but_def dest: sso_step_frame)

end
