(* ===== verification/Sso_Properties.thy ===== *)
theory Sso_Properties
  imports Identity_Properties Sso_Facts
begin

text \<open>
  What single sign-on promises: no privileged role without an audited declaration, one login per OAuth state,
  tokens only for an active user that the external identity maps to, and secrets of a provider that survive
  storing and editing.
\<close>

section \<open>A small installation\<close>

definition sso_start :: sso_db where
  "sso_start = \<lparr>config_rules = [], users = Table [(1, alice)] 1,
     roles = Table [(1, \<lparr>ro_code = ''ops'', ro_name = ''ops'', ro_remark = []\<rparr>), (2, \<lparr>ro_code = ''admin'', ro_name = ''admin'', ro_remark = []\<rparr>)] 2,
     user_roles = empty_table, sys_permissions = empty_table, role_permissions = empty_table, role_groups = empty_table, group_ids = [],
     redis = (\<lambda>_. None), auth_providers = empty_table, grant_audits = []\<rparr>"

definition sample_idp :: idp where
  "sample_idp = \<lparr>ldap_bind = (\<lambda>_ _ _. Some True), ldap_search = (\<lambda>_ _ _ _. Some [[(''uid'', JStr ''alice'')]]),
     http_post = (\<lambda>_ _. Some (JObj [(''access_token'', JStr ''t'')])), http_get = (\<lambda>_ _. Some (JObj [(''username'', JStr ''carol'')])),
     http_get_status = (\<lambda>_. Some 200), repr_of = (\<lambda>_. []), token_urlsafe = ''s1'', frontend_setting = [], api_prefix = ''/api/v1''\<rparr>"

definition corp_config :: dict where
  "corp_config = [(''client_id'', JStr ''lark''), (''client_secret'', JStr ''hush''), (''authorization_endpoint'', JStr ''https://idp/auth''),
     (''token_endpoint'', JStr ''https://idp/token''), (''userinfo_endpoint'', JStr ''https://idp/me''), (''auto_provision'', JBool True),
     (''default_role_codes'', JList [JStr ''admin''])]"

definition corp_create :: "((int \<times> auth_provider) \<times> sso_db) res" where
  "corp_create = create_auth_provider (id_env 1000000) sample_user
     \<lparr>ac_name = ''Corp Login'', ac_type = ''oauth2'', ac_code = None, ac_config = corp_config, ac_enabled = 1\<rparr> sso_start"

definition with_corp :: sso_db where
  "with_corp = snd (projr corp_create)"

definition sent_away :: sso_db where
  "sent_away = snd (oauth_authorize_url (id_env 1000000) sample_idp ''corp-login'' ''https://lark/'' with_corp)"

definition came_back :: sso_db where
  "came_back = snd (oauth_callback sample_pw (id_env 1000000) sample_idp ''r2'' ''corp-login'' ''c'' ''s1'' sent_away)"

section \<open>Privileged roles\<close>

text \<open>C11: over any sequence of provider changes and logins, a user comes to hold a privileged role only if some provider
  declared that role explicitly and the declaration is in the audit log; neither the claims of an identity provider nor
  the default of the platform can grant one.\<close>

theorem privileged_grants_audited:
  assumes "sso_ok w" and "sso_any\<^sup>*\<^sup>* w w'" and "rl \<in> links (user_roles w')" and "rl \<notin> links (user_roles w)"
    and "tget (roles w) (ur_role_id rl) = Some ro" and "is_privileged (ro_code ro)"
  shows "\<exists>g \<in> set (grant_audits w'). ro_code ro \<in> set (pg_role_codes g)"
  using assms(2,3)
proof (induction rule: rtranclp_induct)
  case (step w1 w2)
  show ?case
  proof (cases "rl \<in> links (user_roles w1)")
    case True
    with step.IH obtain g where "g \<in> set (grant_audits w1)" "ro_code ro \<in> set (pg_role_codes g)" by blast
    then show ?thesis using aud.entry_kept [OF r_into_rtranclp [of sso_any, OF step.hyps(2)]] by blast
  next
    case False
    have "sso_ok w1" "roles w1 = roles w" using sso_any_ok [OF step.hyps(1) assms(1)] by simp_all
    with step False assms(5,6) obtain code where "audited w1 code (ro_code ro)"
      using sso_step_links [of _ w1 w2 rl ro] by (auto simp: sso_any_def)
    then show ?thesis using aud.entry_kept [OF r_into_rtranclp [of sso_any, OF step.hyps(2)]] by (auto simp: audited_def)
  qed
qed (use assms(4) in simp)

lemma corp_steps: "sso_any\<^sup>*\<^sup>* sso_start came_back" "sso_any\<^sup>*\<^sup>* sso_start sent_away"
proof -
  have "\<not> isl corp_create" by code_simp
  then have "create_auth_provider (id_env 1000000) sample_user
     \<lparr>ac_name = ''Corp Login'', ac_type = ''oauth2'', ac_code = None, ac_config = corp_config, ac_enabled = 1\<rparr> sso_start = Inr (fst (projr corp_create), with_corp)"
    by (auto simp: with_corp_def corp_create_def)
  from sso_step.create [OF _ this] have "sso_any sso_start with_corp" by (auto simp: sso_any_def corp_config_def)
  moreover have "sso_any with_corp sent_away"
    unfolding sso_any_def sent_away_def by (metis prod.collapse sso_step.authorize)
  ultimately show "sso_any\<^sup>*\<^sup>* sso_start sent_away" by (simp add: converse_rtranclp_into_rtranclp)
  moreover have "sso_any sent_away came_back"
    unfolding sso_any_def came_back_def by (metis prod.collapse sso_step.callback)
  ultimately show "sso_any\<^sup>*\<^sup>* sso_start came_back" by (rule rtranclp.rtrancl_into_rtrancl)
qed

theorem privileged_grants_audited_witness:
  "\<lparr>ur_user_id = 2, ur_role_id = 2\<rparr> \<in> links (user_roles came_back) \<and> (\<exists>g \<in> set (grant_audits came_back). ''admin'' \<in> set (pg_role_codes g))"
proof -
  have "sso_ok sso_start" by (simp add: sso_ok_def sso_start_def table_ok_def empty_table_def tget_def)
  moreover have "\<lparr>ur_user_id = 2, ur_role_id = 2\<rparr> \<in> links (user_roles came_back)" by code_simp
  moreover have "\<lparr>ur_user_id = 2, ur_role_id = 2\<rparr> \<notin> links (user_roles sso_start)" by (simp add: links_def sso_start_def empty_table_def)
  moreover have "tget (roles sso_start) (ur_role_id \<lparr>ur_user_id = 2, ur_role_id = 2\<rparr>) = Some \<lparr>ro_code = ''admin'', ro_name = ''admin'', ro_remark = []\<rparr>"
    by (simp add: sso_start_def tget_def)
  moreover have "is_privileged (ro_code \<lparr>ro_code = ''admin'', ro_name = ''admin'', ro_remark = []\<rparr>)" by code_simp
  ultimately show ?thesis using privileged_grants_audited [OF _ corp_steps(1)] by fastforce
qed

section \<open>OAuth states\<close>

text \<open>C30: a callback succeeds only with a state that is stored, not expired and issued for the provider it names, and such a
  state works once: as long as it is not drawn again, no later callback with it succeeds, whatever happens in between.\<close>

theorem oauth_state_once:
  assumes "oauth_callback pw e x j code auth_code st w = (Inr out, w1)" and "(sso_but st)\<^sup>*\<^sup>* w1 w2"
  shows "(\<exists>d. rget e (OAuthState st) w = Some (RObj d) \<and> dget d ''code'' = JStr code) \<and>
    isl (fst (oauth_callback pw' e' x' j' code' auth_code' st w2))"
proof -
  from assms(1) have found: "redis_up e \<and> (\<exists>d. rget e (OAuthState st) w = Some (RObj d) \<and> dget d ''code'' = JStr code)"
    by (cases rule: oauth_callbackE) simp_all
  from assms(1) have "redis w1 (OAuthState st) = None"
  proof (cases rule: oauth_callbackE)
    case (late p r)
    then obtain raw res' where o: "oauth_enter pw e x j p raw (w\<lparr>redis := r\<rparr>) = (res', w1)" by auto
    have "redis (w\<lparr>redis := r\<rparr>) (OAuthState st) = None" using found late(2) by simp
    moreover have "w1 = w\<lparr>redis := r\<rparr> \<or> (\<exists>mv pf. external_login pw e x j p mv pf mv (w\<lparr>redis := r\<rparr>) = (res', w1))"
      using o by (auto simp: oauth_enter_def Let_def split: sum.splits)
    ultimately show ?thesis using external_login_frame [of pw e x j p _ _ _ "w\<lparr>redis := r\<rparr>" res' w1] by (auto simp: keeps_states_def)
  qed simp
  with state_stays_gone [OF assms(2)] have gone: "rget e' (OAuthState st) w2 = None" by (simp add: rget_def)
  obtain res w3 where c: "oauth_callback pw' e' x' j' code' auth_code' st w2 = (res, w3)" by fastforce
  then have "isl res" by (cases rule: oauth_callbackE) (use gone in auto)
  with found c show ?thesis by simp
qed

theorem oauth_state_once_witness:
  "isl (fst (oauth_callback sample_pw (id_env 2000000) sample_idp ''r2'' ''corp-login'' ''c'' ''s1'' came_back))"
proof -
  have "\<not> isl (fst (oauth_callback sample_pw (id_env 1000000) sample_idp ''r2'' ''corp-login'' ''c'' ''s1'' sent_away))" by code_simp
  then obtain out where "oauth_callback sample_pw (id_env 1000000) sample_idp ''r2'' ''corp-login'' ''c'' ''s1'' sent_away = (Inr out, came_back)"
    by (metis came_back_def isl_def old.sum.exhaust prod.collapse)
  from oauth_state_once [OF this rtranclp.rtrancl_refl] show ?thesis by blast
qed

section \<open>Identities\<close>

text \<open>C31: an external login that succeeds is one of an active user: a user who was there and is named by the external
  identity keeps password, administrator flag and roles; another one is only made when provisioning is on, and is no
  administrator. Nobody else's account changes.\<close>

theorem external_login_identity:
  assumes "external_login pw e x j p mv pf n w = (Inr out, w')" and "table_ok (users w)"
  shows "\<exists>u. tget (users w') (ub_id (tp_user out)) = Some u \<and> usable (Some u) \<and> us_auth_source u = av_type p \<and>
    (case tget (users w) (ub_id (tp_user out)) of
       Some old \<Rightarrow> (us_username old = mv \<or> us_email old = mv) \<and> us_password_hash u = us_password_hash old \<and>
                   us_is_admin u = us_is_admin old \<and> user_roles w' = user_roles w
     | None \<Rightarrow> auto_provision_on pf w \<and> us_username u = take 64 mv \<and> us_is_admin u = 0) \<and>
    (\<forall>k. k \<noteq> ub_id (tp_user out) \<longrightarrow> tget (users w') k = tget (users w) k)"
  using assms(1)
proof (cases rule: external_login_cases)
  case (entered out' i rs w1 r)
  then have id: "ub_id (tp_user out) = i" by simp
  from entered(2) show ?thesis
  proof (cases rule: resolve_external_userE)
    case (known u)
    then have "tget (users w) i = Some u \<and> (us_username u = mv \<or> us_email u = mv)"
      using tfirst_Some [OF assms(2)] by (auto simp: by_email_def by_username_def split: if_splits)
    with known entered show ?thesis unfolding id by (simp add: usable_def)
  next
    case (fresh rn em)
    with table_ok_fresh [OF assms(2)] entered show ?thesis unfolding id
      by (auto simp: tget_tadd assms(2) usable_def new_external_user_def)
  qed
qed simp

definition carol_profile :: profile where
  "carol_profile = oauth_user_profile corp_config [(''username'', JStr ''carol'')] ''username'' ''carol'' JNull"

definition corp :: auth_provider where
  "corp = \<lparr>av_code = ''corp-login'', av_name = ''Corp Login'', av_type = ''oauth2'', av_config_enc = corp_config, av_enabled = 1\<rparr>"

definition carol_login :: "token_pair res \<times> sso_db" where
  "carol_login = external_login sample_pw (id_env 1000000) sample_idp ''r2'' corp ''carol'' carol_profile ''carol'' sso_start"

theorem external_login_identity_witness:
  "\<exists>u. tget (users (snd carol_login)) (ub_id (tp_user (projr (fst carol_login)))) = Some u \<and> usable (Some u) \<and> us_auth_source u = ''oauth2''"
proof -
  have "\<not> isl (fst carol_login)" by code_simp
  then have "external_login sample_pw (id_env 1000000) sample_idp ''r2'' corp ''carol'' carol_profile ''carol'' sso_start =
    (Inr (projr (fst carol_login)), snd carol_login)"
    by (metis carol_login_def prod.collapse sum.collapse(2))
  moreover have "table_ok (users sso_start)" by (simp add: sso_start_def table_ok_def)
  ultimately show ?thesis using external_login_identity by (fastforce simp: corp_def)
qed

section \<open>Configuration\<close>

text \<open>What is stored for a new provider decrypts to the configuration that was sent, so the login uses it, and saving the
  masked configuration that a form was shown leaves the stored one as it is.\<close>

lemma provider_config_kept:
  assumes "create_auth_provider e u d w = Inr ((i, shown), w1)" and "table_ok (auth_providers w)"
    and "plain_cfg (ac_config d)" and "\<And>q. unseal e (seal e q) = Some q"
  shows "\<exists>p. tget (auth_providers w1) i = Some p \<and> sso_decrypt_config e (av_config_enc p) = ac_config d \<and>
    (\<forall>e' u' s w2. update_auth_provider e' u' i \<lparr>au_name = None, au_config = Some (av_config_enc shown), au_enabled = None\<rparr> w1 = Inr (s, w2) \<longrightarrow>
       tget (auth_providers w2) i = Some p)"
proof -
  from assms(1,2) obtain p where p: "tget (auth_providers w1) i = Some p" "av_config_enc p = sso_encrypt_config e (ac_config d) []" "shown = auth_provider_out e p"
    by (auto simp: create_auth_provider_def audit_grant tget_tadd Let_def split: sum.splits if_splits)
  have echo: "sso_encrypt_config e' (av_config_enc shown) (av_config_enc p) = av_config_enc p" for e'
    using mask_echo_config [OF stored_cfg_encrypted [OF assms(3)]] by (simp add: p auth_provider_out_def)
  have "tget (auth_providers w2) i = Some p"
    if "update_auth_provider e' u' i \<lparr>au_name = None, au_config = Some (av_config_enc shown), au_enabled = None\<rparr> w1 = Inr (s, w2)" for e' u' s w2
    using that p(1) by (auto simp: update_auth_provider_def Let_def keep_def echo audit_grant put_provider_def split: sum.splits)
  with p decrypt_encrypt_config [OF assms(4,3)] show ?thesis by auto
qed

lemma provider_config_kept_witness:
  "\<exists>p. tget (auth_providers with_corp) 1 = Some p \<and> sso_decrypt_config (id_env 1000000) (av_config_enc p) = corp_config"
proof -
  have "\<not> isl corp_create" "fst (fst (projr corp_create)) = 1" by code_simp+
  then have c: "create_auth_provider (id_env 1000000) sample_user
     \<lparr>ac_name = ''Corp Login'', ac_type = ''oauth2'', ac_code = None, ac_config = corp_config, ac_enabled = 1\<rparr> sso_start =
     Inr ((1, snd (fst (projr corp_create))), with_corp)"
    by (metis corp_create_def prod.collapse sum.collapse(2) with_corp_def)
  have "table_ok (auth_providers sso_start)" by (simp add: sso_start_def)
  moreover have "plain_cfg corp_config" by code_simp
  ultimately show ?thesis using provider_config_kept [OF c] by (fastforce simp: id_env_def sample_env_def)
qed

section \<open>Cases the code does not handle\<close>

text \<open>The search for the entry does not use the name of the user who logged in: with the default filter everybody
  who can bind becomes the first person of the directory.\<close>

definition directory :: auth_provider where
  "directory = \<lparr>av_code = ''ldap'', av_name = ''ldap'', av_type = ''ldap'', av_config_enc = [(''server_uri'', JStr ''ldap://d''),
     (''bind_dn_template'', JStr ''uid={username},dc=x''), (''base_dn'', JStr ''dc=x'')], av_enabled = 1\<rparr>"

lemma ldap_login_takes_first_entry:
  "(let w = sso_start\<lparr>auth_providers := Table [(1, directory)] 1\<rparr>
    in map_sum id (\<lambda>t. ub_username (tp_user t)) (fst (ldap_login_endpoint sample_pw (id_env 1000000) sample_idp ''r2'' ''mallory'' ''own'' w))) = Inr ''alice''"
  by code_simp

text \<open>A subject of more than 64 characters is stored cut off and not found again: its second login violates the
  unique name.\<close>

lemma long_subject_logs_in_once:
  assumes "table_ok (users w)" and "tget (users w) i = Some u" and "us_username u = take 64 mv" and "by_username w mv = None" and "mv \<noteq> []"
    and "map_key_of (pf_map_key pf) = Inr ''username''"
  shows "isl (resolve_external_user pw e x p mv pf w)"
proof -
  have "by_username w (take 64 mv) \<noteq> None"
    using tfirst_None [OF _ assms(1,2), of "\<lambda>u. us_username u = take 64 mv"] assms(3) unfolding by_username_def by blast
  then have "isl (provision_user pw e x p mv pf w)" by (simp add: provision_user_def split: sum.splits)
  with assms(4-6) show ?thesis by (simp add: resolve_external_user_def)
qed

text \<open>The role rows of a new user are not flushed when the answer is made: it shows none.\<close>

lemma first_login_shows_no_roles: "ub_roles (tp_user (projr (fst carol_login))) = [] \<and> role_ids (snd carol_login) 2 = [2]"
  by code_simp

end
