(* ===== verification/Kb_Service.thy ===== *)
theory Kb_Service
  imports Ticket_Service Cmdb_Service
begin

text \<open>
  The knowledge base (\<open>kb_service.py\<close>, \<open>db/models/kb.py\<close>): a tree of categories of bounded depth, articles
  whose every edit is a new version, and the index of embedded chunks that follows them
  (\<open>kb_ingestion.py\<close>, the store selection of \<open>embedding_store.py\<close>). The embedding of a text is a parameter:
  the client behind it is exchangeable and its arithmetic is in floats.
\<close>

section \<open>Rows\<close>

definition KB_VISIBILITIES :: "string list" where
  "KB_VISIBILITIES = [''public'', ''internal'', ''classified'']"

record kb_category =
  kg_parent_id :: int
  kg_name :: string
  kg_sort :: int

record kb_article =
  ka_title :: string
  ka_category_id :: "int option"
  ka_visibility :: string
  ka_current_version :: int
  ka_author_id :: "int option"
  ka_summary :: string

record kb_version =
  kv_article_id :: int
  kv_version :: int
  kv_title :: string
  kv_content :: string
  kv_change_log :: string
  kv_editor_id :: "int option"

record kb_tag =
  kt_article_id :: int
  kt_tag :: string

record kb_embedding =
  ke_doc_ref :: string
  ke_chunk_ref :: string
  ke_embedding :: "rat list"
  ke_entity_scope :: "string list"

record kb_db = ticket_db +
  kb_categories :: "kb_category table"
  kb_articles :: "kb_article table"
  kb_versions :: "kb_version table"
  kb_tags :: "kb_tag table"
  kb_embeddings :: "kb_embedding table"

record kb_env =
  embed_one :: "string \<Rightarrow> rat list"
  cosine :: "rat list \<Rightarrow> rat list \<Rightarrow> rat"
  app_env_prod :: bool \<comment> \<open>\<open>settings.app_env == "prod"\<close>\<close>

definition flag_gate :: "string \<Rightarrow> string \<Rightarrow> current_user \<Rightarrow> 'z sys_db_scheme \<Rightarrow> 'o res \<Rightarrow> 'o res" where
  "flag_gate flag perm u w r =
     (if \<not> feature_on w flag then Inl feature_disabled else if \<not> has_perm u perm then Inl (perm_denied perm) else r)"

definition kb_gate :: "string \<Rightarrow> current_user \<Rightarrow> 'z sys_db_scheme \<Rightarrow> 'o res \<Rightarrow> 'o res" where
  "kb_gate = flag_gate ''feature.kb''"

section \<open>Categories\<close>

definition KB_CATEGORY_MAX_DEPTH :: nat where
  "KB_CATEGORY_MAX_DEPTH = 3"

text \<open>The loop up to a root. It stops at a category it has seen, so it ends on any table.\<close>

definition unseen :: "kb_category table \<Rightarrow> int list \<Rightarrow> nat" where
  "unseen t seen = card {i. tget t i \<noteq> None \<and> i \<notin> set seen}"

lemma finite_tget: "finite {i. tget t i \<noteq> None}"
proof (rule finite_subset)
  show "{i. tget t i \<noteq> None} \<subseteq> fst ` set (rows t)" by (auto dest: tget_SomeD simp: image_iff) (metis fst_conv tget_SomeD)
qed simp

lemma unseen_less:
  assumes "tget t cur = Some c" and "cur \<notin> set seen"
  shows "unseen t (cur # seen) < unseen t seen"
  unfolding unseen_def
  by (rule psubset_card_mono [OF finite_subset [OF _ finite_tget [of t]]]) (use assms in auto)

function depth_from :: "kb_category table \<Rightarrow> int list \<Rightarrow> int \<Rightarrow> nat" where
  "depth_from t seen cur =
     (if cur = 0 \<or> cur \<in> set seen then 0
      else (case tget t cur of None \<Rightarrow> 0 | Some c \<Rightarrow> Suc (depth_from t (cur # seen) (kg_parent_id c))))"
  by auto
termination by (relation "measure (\<lambda>(t, seen, cur). unseen t seen)") (auto simp: unseen_less)

declare depth_from.simps [simp del]

definition category_depth :: "kb_category table \<Rightarrow> int \<Rightarrow> nat" where
  "category_depth t i = depth_from t [] i"

function descends :: "kb_category table \<Rightarrow> int \<Rightarrow> int list \<Rightarrow> int \<Rightarrow> bool" where
  "descends t ancestor seen cur =
     (if cur = 0 \<or> cur \<in> set seen then False
      else if cur = ancestor then True
      else (case tget t cur of None \<Rightarrow> False | Some c \<Rightarrow> descends t ancestor (cur # seen) (kg_parent_id c)))"
  by auto
termination by (relation "measure (\<lambda>(t, a, seen, cur). unseen t seen)") (auto simp: unseen_less)

declare descends.simps [simp del]

definition is_descendant :: "kb_category table \<Rightarrow> int \<Rightarrow> int \<Rightarrow> bool" where
  "is_descendant t ancestor node = descends t ancestor [] node"

text \<open>The recursion down has no such guard: on a cycle it ends in a \<open>RecursionError\<close>, which is \<open>None\<close> here. It gets more
  levels than there are categories, so \<open>None\<close> is only a cycle.\<close>

definition max_opt :: "nat option list \<Rightarrow> nat option" where
  "max_opt hs = (if None \<in> set hs then None else Some (fold max (map the hs) 0))"

fun height_to :: "nat \<Rightarrow> kb_category table \<Rightarrow> int \<Rightarrow> nat option" where
  "height_to 0 t i = None"
| "height_to (Suc n) t i =
     (case tselect (\<lambda>c. kg_parent_id c = i) t of
        [] \<Rightarrow> Some 0
      | cs \<Rightarrow> map_option Suc (max_opt (map (\<lambda>(j, c). height_to n t j) cs)))"

definition subtree_height :: "kb_category table \<Rightarrow> int \<Rightarrow> nat option" where
  "subtree_height t i = height_to (length (rows t) + KB_CATEGORY_MAX_DEPTH + 1) t i"

record kb_category_create =
  gc_name :: string
  gc_parent_id :: "int option"
  gc_sort :: int

record kb_category_update =
  gu_name :: "string option"
  gu_parent_id :: "int option"
  gu_sort :: "int option"

definition opt_id :: "int option \<Rightarrow> int" where
  "opt_id x = (case x of None \<Rightarrow> 0 | Some n \<Rightarrow> n)"

definition create_category ::
  "kb_category_create \<Rightarrow> current_user \<Rightarrow> 'z kb_db_scheme \<Rightarrow> (int \<times> 'z kb_db_scheme) res" where
  "create_category d u w = kb_gate ''kb:category:add'' u w
     (let parent = opt_id (gc_parent_id d);
          depth = (if parent \<noteq> 0 then category_depth (kb_categories w) parent + 1 else 1)
      in if parent \<noteq> 0 \<and> tget (kb_categories w) parent = None then Inl (ValidationError ''parent category not found'')
         else if depth > KB_CATEGORY_MAX_DEPTH then Inl (ValidationError ''category depth exceeds max'')
         else Inr (next_id (kb_categories w),
                   w\<lparr>kb_categories := tadd \<lparr>kg_parent_id = parent, kg_name = gc_name d, kg_sort = gc_sort d\<rparr> (kb_categories w)\<rparr>))"

datatype kb_node = KbNode (kn_id: int) (kn_category: kb_category) (kn_children: "kb_node list")

definition sorted_categories :: "kb_category table \<Rightarrow> (int \<times> kb_category) list" where
  "sorted_categories t = sort_key (\<lambda>(i, c). kg_sort c) (rows t)"

text \<open>The nodes are linked in one pass; the depth of the tree built from them is at most their number.\<close>

fun category_item :: "nat \<Rightarrow> (int \<times> kb_category) list \<Rightarrow> int \<times> kb_category \<Rightarrow> kb_node" where
  "category_item 0 cs (i, c) = KbNode i c []"
| "category_item (Suc n) cs (i, c) = KbNode i c (map (category_item n cs) (filter (\<lambda>(j, x). kg_parent_id x = i \<and> i \<noteq> 0) cs))"

definition list_categories :: "current_user \<Rightarrow> 'z kb_db_scheme \<Rightarrow> (kb_node list \<times> nat) res" where
  "list_categories u w = kb_gate ''kb:category:list'' u w
     (let cs = sorted_categories (kb_categories w)
      in Inr (map (category_item (length cs) cs) (filter (\<lambda>(i, c). kg_parent_id c = 0 \<or> kg_parent_id c \<notin> set (map fst cs)) cs), length cs))"

definition upd_category :: "int \<Rightarrow> kb_category_update \<Rightarrow> int \<Rightarrow> 'z kb_db_scheme \<Rightarrow> 'z kb_db_scheme" where
  "upd_category i d parent w = w\<lparr>kb_categories := tupd i (\<lambda>c. \<lparr>kg_parent_id = parent,
     kg_name = (case gu_name d of None \<Rightarrow> kg_name c | Some s \<Rightarrow> s), kg_sort = (case gu_sort d of None \<Rightarrow> kg_sort c | Some n \<Rightarrow> n)\<rparr>) (kb_categories w)\<rparr>"

definition update_category ::
  "int \<Rightarrow> kb_category_update \<Rightarrow> current_user \<Rightarrow> 'z kb_db_scheme \<Rightarrow> (unit \<times> 'z kb_db_scheme) res" where
  "update_category i d u w = kb_gate ''kb:category:edit'' u w
     (let t = kb_categories w
      in case tget t i of
           None \<Rightarrow> Inl (NotFoundError ''category not found'')
         | Some c \<Rightarrow>
             (case gu_parent_id d of
                None \<Rightarrow> Inr ((), upd_category i d (kg_parent_id c) w)
              | Some p \<Rightarrow>
                  if p \<noteq> 0 \<and> tget t p = None then Inl (ValidationError ''parent category not found'')
                  else if p \<noteq> 0 \<and> is_descendant t i p then Inl (ValidationError ''cannot move a category into itself or a descendant'')
                  else (case subtree_height t i of
                          None \<Rightarrow> Inl TypeError
                        | Some h \<Rightarrow>
                            if (if p \<noteq> 0 then category_depth t p + 1 else 1) + h > KB_CATEGORY_MAX_DEPTH
                            then Inl (ValidationError ''category depth exceeds max'')
                            else Inr ((), upd_category i d p w))))"

definition delete_category :: "int \<Rightarrow> current_user \<Rightarrow> 'z kb_db_scheme \<Rightarrow> (unit \<times> 'z kb_db_scheme) res" where
  "delete_category i u w = kb_gate ''kb:category:del'' u w
     (if tget (kb_categories w) i = None then Inl (NotFoundError ''category not found'')
      else if texists (\<lambda>c. kg_parent_id c = i) (kb_categories w) then Inl (ConflictError ''category has child categories'')
      else if texists (\<lambda>a. ka_category_id a = Some i) (kb_articles w) then Inl (ConflictError ''category has articles'')
      else Inr ((), w\<lparr>kb_categories := tdel i (kb_categories w)\<rparr>))"

section \<open>The index\<close>

definition EMBED_CHUNK_SIZE :: nat where
  "EMBED_CHUNK_SIZE = 512"

definition MAX_EMBED_CHUNKS :: nat where
  "MAX_EMBED_CHUNKS = 200"

function chunk_text_by :: "nat \<Rightarrow> string \<Rightarrow> string list" where
  "chunk_text_by sz s = (if s = [] then [] else take (max 1 sz) s # chunk_text_by sz (drop (max 1 sz) s))"
  by auto
termination by (relation "measure (\<lambda>(sz, s). length s)") auto

declare chunk_text_by.simps [simp del]

definition GLOBAL_SCOPE_TOKEN :: string where
  "GLOBAL_SCOPE_TOKEN = ''__public__''"

text \<open>Sorted: digits come before the underscore.\<close>

definition entity_scope :: "int \<Rightarrow> kb_article \<Rightarrow> string list" where
  "entity_scope i a = show_int i # (if ka_visibility a = ''public'' then [GLOBAL_SCOPE_TOKEN] else [])"

text \<open>\<open>resolve_store_config\<close>; a \<open>ValueError\<close> is not caught.\<close>

definition resolve_store_config :: "kb_env \<Rightarrow> 'z sys_db_scheme \<Rightarrow> string res" where
  "resolve_store_config k w =
     (let chosen = jor (case by_key w ''ai.embedding_store'' of None \<Rightarrow> JNull | Some rv \<Rightarrow> dget rv ''value'') (JStr ''pg_array'')
      in if chosen = JStr ''pg_array'' then Inr ''pg_array''
         else if chosen = JStr ''in_memory'' then (if app_env_prod k then Inl TypeError else Inr ''in_memory'')
         else Inl TypeError)"

definition drop_chunks :: "string \<Rightarrow> 'z kb_db_scheme \<Rightarrow> 'z kb_db_scheme" where
  "drop_chunks doc_ref w = w\<lparr>kb_embeddings := fold (\<lambda>(i, r). tdel i) (tselect (\<lambda>r. ke_doc_ref r = doc_ref) (kb_embeddings w)) (kb_embeddings w)\<rparr>"

definition chunk_rows :: "kb_env \<Rightarrow> int \<Rightarrow> kb_article \<Rightarrow> string list \<Rightarrow> kb_embedding list" where
  "chunk_rows k i a chunks = map (\<lambda>(n, c). \<lparr>ke_doc_ref = show_int i, ke_chunk_ref = ''article:'' @ show_int i @ '':'' @ show_int (int n),
     ke_embedding = embed_one k c, ke_entity_scope = entity_scope i a\<rparr>) (enumerate 0 chunks)"

text \<open>The store in memory is made anew for each call, so what it is given is gone.\<close>

definition ingest_article :: "kb_env \<Rightarrow> int \<Rightarrow> kb_article \<Rightarrow> string \<Rightarrow> 'z kb_db_scheme \<Rightarrow> 'z kb_db_scheme res" where
  "ingest_article k i a content w =
     (let w1 = drop_chunks (show_int i) w;
          chunks = take MAX_EMBED_CHUNKS (chunk_text_by EMBED_CHUNK_SIZE content)
      in if chunks = [] then Inr w1
         else (case resolve_store_config k w of
                 Inl er \<Rightarrow> Inl er
               | Inr store \<Rightarrow>
                   if store = ''in_memory'' then Inr w1
                   else Inr (w1\<lparr>kb_embeddings := fold tadd (chunk_rows k i a chunks) (kb_embeddings w1)\<rparr>)))"

definition maybe_ingest :: "kb_env \<Rightarrow> int \<Rightarrow> kb_article \<Rightarrow> string \<Rightarrow> 'z kb_db_scheme \<Rightarrow> 'z kb_db_scheme res" where
  "maybe_ingest k i a content w = (if \<not> feature_on w ''ai.kb_assist'' then Inr w else ingest_article k i a content w)"

section \<open>Articles\<close>

definition article_not_found :: app_error where
  "article_not_found = NotFoundError ''article not found''"

definition article_hidden :: "current_user \<Rightarrow> kb_article \<Rightarrow> bool" where
  "article_hidden u a = (ka_visibility a = ''classified'' \<and> \<not> is_admin u)"

text \<open>\<open>_get_article\<close> followed by \<open>_visible\<close>.\<close>

definition visible_article :: "current_user \<Rightarrow> int \<Rightarrow> 'z kb_db_scheme \<Rightarrow> kb_article res" where
  "visible_article u i w =
     (case tget (kb_articles w) i of None \<Rightarrow> Inl article_not_found
      | Some a \<Rightarrow> if article_hidden u a then Inl article_not_found else Inr a)"

definition kb_version_row :: "'z kb_db_scheme \<Rightarrow> int \<Rightarrow> int \<Rightarrow> (int \<times> kb_version) option" where
  "kb_version_row w i v = tfirst (\<lambda>r. kv_article_id r = i \<and> kv_version r = v) (kb_versions w)"

definition current_content :: "'z kb_db_scheme \<Rightarrow> int \<Rightarrow> kb_article \<Rightarrow> string" where
  "current_content w i a = (case kb_version_row w i (ka_current_version a) of None \<Rightarrow> [] | Some (_, r) \<Rightarrow> kv_content r)"

record kb_article_create =
  an_title :: string
  an_category_id :: "int option"
  an_visibility :: string
  an_content :: string
  an_summary :: string
  an_tags :: "string list"

record kb_article_update =
  ae_title :: "string option"
  ae_category_id :: "int option"
  ae_visibility :: "string option"
  ae_content :: "string option"
  ae_summary :: "string option"
  ae_change_log :: string

definition category_missing :: "'z kb_db_scheme \<Rightarrow> int option \<Rightarrow> bool" where
  "category_missing w c = (int_truthy c \<and> tget (kb_categories w) (the c) = None)"

text \<open>The unique constraint on the tags of an article fails at the flush.\<close>

definition create_article ::
  "kb_env \<Rightarrow> kb_article_create \<Rightarrow> current_user \<Rightarrow> 'z kb_db_scheme \<Rightarrow> ((int \<times> kb_article) \<times> 'z kb_db_scheme) res" where
  "create_article k d u w = kb_gate ''kb:article:add'' u w
     (if an_visibility d \<notin> set KB_VISIBILITIES then Inl (ValidationError (''invalid visibility: '' @ an_visibility d))
      else if category_missing w (an_category_id d) then Inl (ValidationError ''category not found'')
      else if \<not> distinct (an_tags d) then Inl (IntegrityError ''kb_article_tag'')
      else (let i = next_id (kb_articles w);
                a = \<lparr>ka_title = an_title d, ka_category_id = an_category_id d, ka_visibility = an_visibility d, ka_current_version = 1,
                     ka_author_id = Some (uid u), ka_summary = an_summary d\<rparr>;
                w1 = w\<lparr>kb_articles := tadd a (kb_articles w),
                       kb_versions := tadd \<lparr>kv_article_id = i, kv_version = 1, kv_title = an_title d, kv_content = an_content d,
                                            kv_change_log = ''initial'', kv_editor_id = Some (uid u)\<rparr> (kb_versions w),
                       kb_tags := fold tadd (map (\<lambda>t. \<lparr>kt_article_id = i, kt_tag = t\<rparr>) (an_tags d)) (kb_tags w)\<rparr>
            in case maybe_ingest k i a (an_content d) w1 of Inl er \<Rightarrow> Inl er | Inr w2 \<Rightarrow> Inr ((i, a), w2)))"

text \<open>The next version of an article: \<open>update_article\<close> and \<open>rollback_article\<close> end with it. A version number that is
  taken violates the unique constraint.\<close>

definition publish_version ::
  "kb_env \<Rightarrow> int \<Rightarrow> kb_article \<Rightarrow> string \<Rightarrow> string \<Rightarrow> current_user \<Rightarrow> 'z kb_db_scheme \<Rightarrow> ((int \<times> kb_article) \<times> 'z kb_db_scheme) res" where
  "publish_version k i a content change_log u w =
     (let v = ka_current_version a + 1;
          a1 = a\<lparr>ka_current_version := v\<rparr>
      in if kb_version_row w i v \<noteq> None then Inl (IntegrityError ''kb_article_version'')
         else (let w1 = w\<lparr>kb_articles := tupd i (\<lambda>_. a1) (kb_articles w),
                          kb_versions := tadd \<lparr>kv_article_id = i, kv_version = v, kv_title = ka_title a, kv_content = content,
                                               kv_change_log = change_log, kv_editor_id = Some (uid u)\<rparr> (kb_versions w)\<rparr>
               in case maybe_ingest k i a1 content w1 of Inl er \<Rightarrow> Inl er | Inr w2 \<Rightarrow> Inr ((i, a1), w2)))"

definition edited_article :: "kb_article_update \<Rightarrow> kb_article \<Rightarrow> kb_article" where
  "edited_article d a = a\<lparr>ka_title := (case ae_title d of None \<Rightarrow> ka_title a | Some s \<Rightarrow> s),
     ka_category_id := (case ae_category_id d of None \<Rightarrow> ka_category_id a | Some c \<Rightarrow> Some c),
     ka_visibility := (case ae_visibility d of None \<Rightarrow> ka_visibility a | Some s \<Rightarrow> s),
     ka_summary := (case ae_summary d of None \<Rightarrow> ka_summary a | Some s \<Rightarrow> s)\<rparr>"

definition update_article ::
  "kb_env \<Rightarrow> int \<Rightarrow> kb_article_update \<Rightarrow> current_user \<Rightarrow> 'z kb_db_scheme \<Rightarrow> ((int \<times> kb_article) \<times> 'z kb_db_scheme) res" where
  "update_article k i d u w = kb_gate ''kb:article:edit'' u w
     (case visible_article u i w of
        Inl er \<Rightarrow> Inl er
      | Inr a \<Rightarrow>
          if ae_visibility d \<noteq> None \<and> the (ae_visibility d) \<notin> set KB_VISIBILITIES then Inl (ValidationError ''invalid visibility'')
          else if category_missing w (ae_category_id d) then Inl (ValidationError ''category not found'')
          else publish_version k i (edited_article d a) (case ae_content d of None \<Rightarrow> current_content w i a | Some s \<Rightarrow> s) (ae_change_log d) u w)"

definition rollback_article ::
  "kb_env \<Rightarrow> int \<Rightarrow> int \<Rightarrow> current_user \<Rightarrow> 'z kb_db_scheme \<Rightarrow> ((int \<times> kb_article) \<times> 'z kb_db_scheme) res" where
  "rollback_article k i v u w = kb_gate ''kb:article:rollback'' u w
     (case visible_article u i w of
        Inl er \<Rightarrow> Inl er
      | Inr a \<Rightarrow>
          (case kb_version_row w i v of
             None \<Rightarrow> Inl (NotFoundError ''article version not found'')
           | Some (_, r) \<Rightarrow> publish_version k i a (kv_content r) (''rollback to v'' @ show_int (kv_version r)) u w))"

text \<open>Versions and tags go with the article (\<open>ondelete="CASCADE"\<close>); its chunks have no foreign key.\<close>

definition delete_article :: "int \<Rightarrow> current_user \<Rightarrow> 'z kb_db_scheme \<Rightarrow> (unit \<times> 'z kb_db_scheme) res" where
  "delete_article i u w = kb_gate ''kb:article:del'' u w
     (if tget (kb_articles w) i = None then Inl article_not_found
      else if texists (\<lambda>r. tr_ref_type r = ''kb_article'' \<and> tr_ref_id r = i) (ticket_refs w) then Inl (ConflictError ''article is referenced by a ticket'')
      else Inr ((), w\<lparr>kb_articles := tdel i (kb_articles w),
                      kb_versions := fold (\<lambda>(j, r). tdel j) (tselect (\<lambda>r. kv_article_id r = i) (kb_versions w)) (kb_versions w),
                      kb_tags := fold (\<lambda>(j, r). tdel j) (tselect (\<lambda>r. kt_article_id r = i) (kb_tags w)) (kb_tags w)\<rparr>))"

record article_filters =
  af2_keyword :: "string option"
  af2_category_id :: "int option"
  af2_visibility :: "string option"
  af2_tag :: "string option"

definition list_articles ::
  "article_filters \<Rightarrow> int \<Rightarrow> int \<Rightarrow> current_user \<Rightarrow> 'z kb_db_scheme \<Rightarrow> ((int \<times> kb_article) list \<times> nat) res" where
  "list_articles f page sz u w = kb_gate ''kb:article:list'' u w
     (let rs = rev (filter (\<lambda>(i, a). like_opt (af2_keyword f) (ka_title a) \<and>
                 (int_truthy (af2_category_id f) \<longrightarrow> ka_category_id a = af2_category_id f) \<and>
                 (str_truthy (af2_visibility f) \<longrightarrow> ka_visibility a = the (af2_visibility f)) \<and>
                 (\<not> is_admin u \<longrightarrow> ka_visibility a \<noteq> ''classified'') \<and>
                 (str_truthy (af2_tag f) \<longrightarrow> texists (\<lambda>t. kt_article_id t = i \<and> kt_tag t = the (af2_tag f)) (kb_tags w)))
               (rows (kb_articles w)))
      in Inr (page_of page sz rs, length rs))"

definition get_article :: "int \<Rightarrow> current_user \<Rightarrow> 'z kb_db_scheme \<Rightarrow> (kb_article \<times> string \<times> string list) res" where
  "get_article i u w = kb_gate ''kb:article:list'' u w
     (case visible_article u i w of
        Inl er \<Rightarrow> Inl er
      | Inr a \<Rightarrow> Inr (a, current_content w i a, map (\<lambda>(j, t). kt_tag t) (tselect (\<lambda>t. kt_article_id t = i) (kb_tags w))))"

definition list_article_versions :: "int \<Rightarrow> current_user \<Rightarrow> 'z kb_db_scheme \<Rightarrow> (int \<times> (int \<times> kb_version) list) res" where
  "list_article_versions i u w = kb_gate ''kb:article:version'' u w
     (case visible_article u i w of
        Inl er \<Rightarrow> Inl er
      | Inr a \<Rightarrow> Inr (ka_current_version a, sort_key (\<lambda>(j, r). - kv_version r) (tselect (\<lambda>r. kv_article_id r = i) (kb_versions w))))"

definition get_article_version :: "int \<Rightarrow> int \<Rightarrow> current_user \<Rightarrow> 'z kb_db_scheme \<Rightarrow> kb_version res" where
  "get_article_version i v u w = kb_gate ''kb:article:version'' u w
     (case visible_article u i w of
        Inl er \<Rightarrow> Inl er
      | Inr a \<Rightarrow> (case kb_version_row w i v of None \<Rightarrow> Inl (NotFoundError ''article version not found'') | Some (_, r) \<Rightarrow> Inr r))"

text \<open>The outer join with the current version: without one only the title can match.\<close>

definition article_matches :: "string option \<Rightarrow> 'z kb_db_scheme \<Rightarrow> int \<Rightarrow> kb_article \<Rightarrow> bool" where
  "article_matches q w i a = (like_opt q (ka_title a) \<or>
     (case kb_version_row w i (ka_current_version a) of None \<Rightarrow> False | Some (_, r) \<Rightarrow> like_opt q (kv_content r)))"

definition search_articles ::
  "string option \<Rightarrow> int \<Rightarrow> int \<Rightarrow> current_user \<Rightarrow> 'z kb_db_scheme \<Rightarrow> ((int \<times> kb_article) list \<times> nat) res" where
  "search_articles q page sz u w = kb_gate ''kb:search'' u w
     (let rs = rev (filter (\<lambda>(i, a). article_matches q w i a \<and> (\<not> is_admin u \<longrightarrow> ka_visibility a \<noteq> ''classified'')) (rows (kb_articles w)))
      in Inr (page_of page sz rs, length rs))"

end
