(* ===== verification/Ai_Search.thy ===== *)
theory Ai_Search
  imports Kb_Service
begin

text \<open>
  Scoped retrieval over the index of the knowledge base (\<open>ai_scope.py\<close>, \<open>embedding_store.py\<close> and the search of
  \<open>ai_service.py\<close>): the entities a caller may retrieve, the two stores behind one interface, and the search that
  joins vector and title hits; the assistance on tickets of the same service. Scores are rounded by the caller
  and compared only.
\<close>

section \<open>Scopes\<close>

definition KNOWN_ENTITY_TYPES :: "string list" where
  "KNOWN_ENTITY_TYPES = [''host'', ''ticket'', ''kb'', ''audit'']"

definition visible_hosts_of :: "current_user \<Rightarrow> 'z exec_db_scheme \<Rightarrow> string list" where
  "visible_hosts_of u w =
     (if is_admin u
      then concat (map (\<lambda>(i, h). (if h_ip h \<noteq> [] then [h_ip h] else []) @ (if h_hostname h \<noteq> [] then [h_hostname h] else []) @ [show_int i])
             (rows (hosts w)))
      else host_entity_ids (visible_group_ids u) w)"

text \<open>No code sets \<open>team_id\<close>, the third way to see a ticket.\<close>

definition ticket_allowed :: "current_user \<Rightarrow> ticket \<Rightarrow> bool" where
  "ticket_allowed u t = (is_admin u \<or> tk_requester_id t = Some (uid u) \<or> tk_assignee_id t = Some (uid u))"

definition visible_tickets_of :: "current_user \<Rightarrow> 'z ticket_db_scheme \<Rightarrow> string list" where
  "visible_tickets_of u w = map (\<lambda>(i, t). show_int i) (tselect (ticket_allowed u) (tickets w))"

definition article_retrievable :: "current_user \<Rightarrow> kb_article \<Rightarrow> bool" where
  "article_retrievable u a = (is_admin u \<or> ka_visibility a = ''public'' \<or> ka_visibility a = ''internal'' \<or> ka_author_id a = Some (uid u))"

definition visible_kb_of :: "current_user \<Rightarrow> 'z kb_db_scheme \<Rightarrow> string list" where
  "visible_kb_of u w = map (\<lambda>(i, a). show_int i) (tselect (article_retrievable u) (kb_articles w)) @ [GLOBAL_SCOPE_TOKEN]"

definition visible_entity_ids_for :: "string \<Rightarrow> current_user \<Rightarrow> 'z kb_db_scheme \<Rightarrow> string list" where
  "visible_entity_ids_for ty u w =
     (if ty = ''host'' then visible_hosts_of u w
      else if ty = ''ticket'' then visible_tickets_of u w
      else if ty = ''kb'' then visible_kb_of u w
      else if ty = ''audit'' then (if is_admin u then [''*''] else [])
      else [])"

text \<open>\<open>None\<close> is the scope of an administrator; an unknown type is an empty scope for everybody.\<close>

definition scope_for :: "string \<Rightarrow> current_user \<Rightarrow> 'z kb_db_scheme \<Rightarrow> string list option" where
  "scope_for ty u w =
     (if ty \<notin> set KNOWN_ENTITY_TYPES then Some []
      else if is_admin u then None else Some (visible_entity_ids_for ty u w))"

section \<open>Stores\<close>

definition overlaps :: "string list \<Rightarrow> string list option \<Rightarrow> bool" where
  "overlaps rec scope = (case scope of None \<Rightarrow> True | Some ids \<Rightarrow> ids \<noteq> [] \<and> (\<exists>x \<in> set rec. x \<in> set ids))"

record embedding_hit =
  eh_doc_ref :: string
  eh_chunk_ref :: string
  eh_score :: rat

definition hit_of :: "kb_env \<Rightarrow> rat list \<Rightarrow> kb_embedding \<Rightarrow> embedding_hit" where
  "hit_of k qvec r = \<lparr>eh_doc_ref = ke_doc_ref r, eh_chunk_ref = ke_chunk_ref r, eh_score = cosine k qvec (ke_embedding r)\<rparr>"

definition best :: "nat \<Rightarrow> embedding_hit list \<Rightarrow> embedding_hit list" where
  "best limit hits = take limit (sort_key (\<lambda>h. - eh_score h) hits)"

text \<open>The loop over the rows in memory, and the query whose predicate is evaluated by the database.\<close>

fun memory_candidates :: "kb_env \<Rightarrow> rat list \<Rightarrow> string list option \<Rightarrow> kb_embedding list \<Rightarrow> embedding_hit list" where
  "memory_candidates k qvec scope [] = []"
| "memory_candidates k qvec scope (r # rs) =
     (if \<not> overlaps (ke_entity_scope r) scope then memory_candidates k qvec scope rs
      else hit_of k qvec r # memory_candidates k qvec scope rs)"

definition memory_query :: "kb_env \<Rightarrow> rat list \<Rightarrow> string list option \<Rightarrow> nat \<Rightarrow> kb_embedding list \<Rightarrow> embedding_hit list" where
  "memory_query k qvec scope limit rs = best limit (best limit (memory_candidates k qvec scope rs))"

definition pg_candidates :: "kb_env \<Rightarrow> rat list \<Rightarrow> string list option \<Rightarrow> nat \<Rightarrow> 'z kb_db_scheme \<Rightarrow> embedding_hit list" where
  "pg_candidates k qvec scope limit w =
     (case scope of
        None \<Rightarrow> best limit (map (\<lambda>(i, r). hit_of k qvec r) (rows (kb_embeddings w)))
      | Some ids \<Rightarrow> if ids = [] then []
          else best limit (map (\<lambda>(i, r). hit_of k qvec r) (tselect (\<lambda>r. \<exists>x \<in> set (ke_entity_scope r). x \<in> set ids) (kb_embeddings w))))"

definition pg_query :: "kb_env \<Rightarrow> rat list \<Rightarrow> string list option \<Rightarrow> nat \<Rightarrow> 'z kb_db_scheme \<Rightarrow> embedding_hit list" where
  "pg_query k qvec scope limit w = best limit (pg_candidates k qvec scope limit w)"

definition store_query :: "kb_env \<Rightarrow> rat list \<Rightarrow> string list option \<Rightarrow> nat \<Rightarrow> 'z kb_db_scheme \<Rightarrow> embedding_hit list res" where
  "store_query k qvec scope limit w =
     (case resolve_store_config k w of
        Inl er \<Rightarrow> Inl er
      | Inr store \<Rightarrow> Inr (if store = ''in_memory'' then memory_query k qvec scope limit [] else pg_query k qvec scope limit w))"

section \<open>Search\<close>

record kb_hit =
  kh_doc_ref :: string
  kh_chunk_ref :: string
  kh_score :: rat
  kh_branch :: string

text \<open>\<open>int(raw)\<close> of the ids of the scope; those that are no numbers are left out.\<close>

definition numeric_ids :: "string list \<Rightarrow> int list" where
  "numeric_ids ids = concat (map (\<lambda>s. case parse_int s of None \<Rightarrow> [] | Some n \<Rightarrow> [n]) ids)"

definition fts_hits :: "string \<Rightarrow> string list option \<Rightarrow> string \<Rightarrow> nat \<Rightarrow> 'z kb_db_scheme \<Rightarrow> kb_hit list" where
  "fts_hits q scope ty limit w =
     (if ty \<noteq> ''kb'' then []
      else map (\<lambda>(i, a). \<lparr>kh_doc_ref = show_int i, kh_chunk_ref = ''article:'' @ show_int i, kh_score = 0, kh_branch = ''fts''\<rparr>)
             (take limit (rev (filter (\<lambda>(i, a). sql_like (lower (''%'' @ q @ ''%'')) (lower (ka_title a)) \<and>
                (case scope of None \<Rightarrow> True | Some ids \<Rightarrow> i \<in> set (numeric_ids ids))) (rows (kb_articles w))))))"

text \<open>\<open>dedup.setdefault(item["chunk_ref"], item)\<close>: the first of each chunk stays.\<close>

fun dedup_hits :: "string list \<Rightarrow> kb_hit list \<Rightarrow> kb_hit list" where
  "dedup_hits seen [] = []"
| "dedup_hits seen (h # hs) = (if kh_chunk_ref h \<in> set seen then dedup_hits seen hs else h # dedup_hits (kh_chunk_ref h # seen) hs)"

definition ai_gate :: "string \<Rightarrow> current_user \<Rightarrow> 'z sys_db_scheme \<Rightarrow> 'o res \<Rightarrow> 'o res" where
  "ai_gate flag = flag_gate flag ''ai:use''"

definition kb_semantic_search ::
  "kb_env \<Rightarrow> string \<Rightarrow> string \<Rightarrow> nat \<Rightarrow> string option \<Rightarrow> current_user \<Rightarrow> 'z kb_db_scheme \<Rightarrow> kb_hit list res" where
  "kb_semantic_search k q mode limit entity_type u w = ai_gate ''ai.kb_assist'' u w
     (let ty = (if str_truthy entity_type then the entity_type else ''kb'');
          scope = scope_for ty u w
      in if scope = Some [] then Inr []
         else (case store_query k (embed_one k q) scope limit w of
                 Inl er \<Rightarrow> Inl er
               | Inr hits \<Rightarrow>
                   (let vector = map (\<lambda>h. \<lparr>kh_doc_ref = eh_doc_ref h, kh_chunk_ref = eh_chunk_ref h, kh_score = eh_score h, kh_branch = ''vector''\<rparr>) hits;
                        fts = (if mode = ''hybrid'' \<or> mode = ''fts'' then fts_hits q scope ty limit w else [])
                    in Inr (take limit (dedup_hits [] (vector @ fts))))))"

text \<open>The citations of an answer; its text is made by the language model.\<close>

definition kb_answer_citations ::
  "kb_env \<Rightarrow> string \<Rightarrow> nat \<Rightarrow> string option \<Rightarrow> current_user \<Rightarrow> 'z kb_db_scheme \<Rightarrow> embedding_hit list res" where
  "kb_answer_citations k q limit entity_type u w = ai_gate ''ai.kb_assist'' u w
     (let ty = (if str_truthy entity_type then the entity_type else ''kb'');
          scope = scope_for ty u w
      in if scope = Some [] then Inr [] else store_query k (embed_one k q) scope limit w)"

section \<open>Tickets\<close>

definition get_visible_ticket :: "current_user \<Rightarrow> int \<Rightarrow> 'z ticket_db_scheme \<Rightarrow> ticket res" where
  "get_visible_ticket u i w =
     (case tget (tickets w) i of
        None \<Rightarrow> Inl (NotFoundError ''ticket not found'')
      | Some t \<Rightarrow> if ticket_allowed u t then Inr t else Inl (NotFoundError ''ticket not found''))"

definition ticket_similar :: "int \<Rightarrow> nat \<Rightarrow> current_user \<Rightarrow> 'z ticket_db_scheme \<Rightarrow> (int \<times> ticket) list res" where
  "ticket_similar i limit u w = ai_gate ''ai.ticket_assist'' u w
     (case get_visible_ticket u i w of
        Inl er \<Rightarrow> Inl er
      | Inr t \<Rightarrow> Inr (take limit (rev (filter (\<lambda>(j, r). tk_category r = tk_category t \<and> j \<noteq> i) (rows (tickets w))))))"

section \<open>The two stores agree\<close>

lemma memory_candidates_filter: "memory_candidates k qvec scope rs = map (hit_of k qvec) (filter (\<lambda>r. overlaps (ke_entity_scope r) scope) rs)"
  by (induction rs) auto

lemma sort_key_take_sorted: "sort_key f (take n (sort_key f xs)) = take n (sort_key f xs)" for f :: "'a \<Rightarrow> 'b :: linorder"
  by (rule sort_key_id_if_sorted) (simp add: take_map [symmetric] sorted_wrt_take)

lemma best_best: "best n (best n hs) = best n hs"
  by (simp add: best_def sort_key_take_sorted)

lemma pg_query_memory: "pg_query k qvec scope limit w = memory_query k qvec scope limit (map snd (rows (kb_embeddings w)))"
proof -
  have e: "best n [] = []" for n by (simp add: best_def)
  show ?thesis
    unfolding pg_query_def memory_query_def pg_candidates_def memory_candidates_filter tselect_def overlaps_def
    by (cases scope) (auto simp: best_best e filter_map comp_def case_prod_unfold)
qed

lemma in_memory_query: "h \<in> set (memory_query k qvec scope limit rs) \<Longrightarrow> \<exists>r \<in> set rs. h = hit_of k qvec r \<and> overlaps (ke_entity_scope r) scope"
  by (auto simp: memory_query_def best_def memory_candidates_filter dest!: in_set_takeD)

lemma set_dedup_hits: "set (dedup_hits seen hs) \<subseteq> set hs"
  by (induction seen hs rule: dedup_hits.induct) auto

end
