(* ===== verification/Kb_Facts.thy ===== *)
theory Kb_Facts
  imports Ai_Search Asset_Facts
begin

text \<open>
  Lemmas on the knowledge base: the depth of the category tree, the version list of an article, and what the index
  says about the visibility of an article; the steps of the component keep all three.
\<close>

section \<open>The category tree\<close>

text \<open>From a category to its parent. Keys are positive, so a chain that ends at 0 is one that ends at a root.\<close>

definition up :: "kb_category table \<Rightarrow> (int \<times> int) set" where
  "up t = {(i, kg_parent_id c) | i c. tget t i = Some c}"

definition cats_ok :: "kb_category table \<Rightarrow> bool" where
  "cats_ok t = (table_ok t \<and> (\<forall>i. tget t i \<noteq> None \<longrightarrow> (\<exists>d \<le> KB_CATEGORY_MAX_DEPTH. (i, 0) \<in> up t ^^ d)))"

lemma up_iff: "(i, p) \<in> up t \<longleftrightarrow> (\<exists>c. tget t i = Some c \<and> p = kg_parent_id c)"
  by (auto simp: up_def)

lemma table_key_pos: "table_ok t \<Longrightarrow> tget t i = Some r \<Longrightarrow> 0 < i"
  using tget_in_rows [of t i r] by (force simp: table_ok_def)

lemma zero_top: "table_ok t \<Longrightarrow> (0, p) \<notin> up t"
  using table_key_pos by (fastforce simp: up_iff)

lemma relpow_first: "(x, z) \<in> R ^^ Suc n \<longleftrightarrow> (\<exists>y. (x, y) \<in> R \<and> (y, z) \<in> R ^^ n)"
  by (metis relpow_Suc_D2 relpow_Suc_I2)

text \<open>The loops of the code, on a chain that ends.\<close>

lemma chain_len_unique: "table_ok t \<Longrightarrow> (i, 0) \<in> up t ^^ d \<Longrightarrow> (i, 0) \<in> up t ^^ d' \<Longrightarrow> d' = d"
proof (induction d arbitrary: i d')
  case 0
  then show ?case using zero_top by (cases d') (auto simp: relpow_first simp del: relpow.simps(2))
next
  case (Suc d)
  from Suc.prems(2) obtain p where p: "(i, p) \<in> up t" "(p, 0) \<in> up t ^^ d" by (auto simp: relpow_first simp del: relpow.simps(2))
  show ?case
  proof (cases d')
    case 0
    with Suc.prems(1,3) p(1) zero_top show ?thesis by auto
  next
    case (Suc e)
    with Suc.prems(3) obtain q where "(i, q) \<in> up t" "(q, 0) \<in> up t ^^ e" by (auto simp: relpow_first simp del: relpow.simps(2))
    moreover from this(1) p(1) have "q = p" by (auto simp: up_iff)
    ultimately show ?thesis using Suc.IH [OF Suc.prems(1) p(2)] \<open>d' = Suc e\<close> by simp
  qed
qed

text \<open>The categories seen on the way are those with a longer chain.\<close>

definition longer :: "kb_category table \<Rightarrow> nat \<Rightarrow> int list \<Rightarrow> bool" where
  "longer t d seen = (\<forall>s \<in> set seen. \<exists>e > d. (s, 0) \<in> up t ^^ e)"

lemma chain_step:
  assumes "table_ok t" and "(i, 0) \<in> up t ^^ Suc d" and "longer t (Suc d) seen"
  obtains c where "tget t i = Some c" and "(kg_parent_id c, 0) \<in> up t ^^ d" and "i \<noteq> 0" and "i \<notin> set seen" and "longer t d (i # seen)"
proof -
  from assms(2) obtain p where p: "(i, p) \<in> up t" "(p, 0) \<in> up t ^^ d" unfolding relpow_first by blast
  then obtain c where c: "tget t i = Some c" "p = kg_parent_id c" by (auto simp: up_iff)
  have "i \<notin> set seen"
  proof
    assume "i \<in> set seen"
    with assms(3) obtain e where "Suc d < e" "(i, 0) \<in> up t ^^ e" unfolding longer_def by blast
    with chain_len_unique [OF assms(1,2)] show False by blast
  qed
  moreover have "longer t d (i # seen)"
    unfolding longer_def
  proof
    fix s
    assume "s \<in> set (i # seen)"
    then consider "s = i" | "s \<in> set seen" by auto
    then show "\<exists>e > d. (s, 0) \<in> up t ^^ e"
    proof cases
      case 1
      with assms(2) show ?thesis by blast
    next
      case 2
      with assms(3) show ?thesis unfolding longer_def using Suc_lessD by blast
    qed
  qed
  moreover have "i \<noteq> 0" using table_key_pos [OF assms(1) c(1)] by simp
  ultimately show thesis using that c p(2) by blast
qed

lemma depth_from_chain: "table_ok t \<Longrightarrow> (i, 0) \<in> up t ^^ d \<Longrightarrow> longer t d seen \<Longrightarrow> depth_from t seen i = d"
proof (induction d arbitrary: i seen)
  case 0
  then show ?case by (simp add: depth_from.simps)
next
  case (Suc d)
  from chain_step [OF Suc.prems] obtain c where "tget t i = Some c" "(kg_parent_id c, 0) \<in> up t ^^ d" "i \<noteq> 0" "i \<notin> set seen" "longer t d (i # seen)" .
  with Suc.IH [OF Suc.prems(1)] show ?case by (subst depth_from.simps) simp
qed

lemma category_depth_chain: "table_ok t \<Longrightarrow> (i, 0) \<in> up t ^^ d \<Longrightarrow> category_depth t i = d"
  unfolding category_depth_def by (rule depth_from_chain) (simp_all add: longer_def)

lemma descends_chain:
  "table_ok t \<Longrightarrow> (i, 0) \<in> up t ^^ d \<Longrightarrow> longer t d seen \<Longrightarrow> (i, a) \<in> up t ^^ n \<Longrightarrow> a \<noteq> 0 \<Longrightarrow> descends t a seen i"
proof (induction d arbitrary: i seen n)
  case 0
  then have i: "i = 0" by simp
  show ?case
  proof (cases n)
    case (Suc m)
    from 0(4) show ?thesis unfolding Suc relpow_first i using zero_top [OF 0(1)] by blast
  qed (use 0 i in simp)
next
  case (Suc d)
  from chain_step [OF Suc.prems(1-3)] obtain c where c: "tget t i = Some c" "(kg_parent_id c, 0) \<in> up t ^^ d" "i \<noteq> 0" "i \<notin> set seen" "longer t d (i # seen)" .
  show ?case
  proof (cases "i = a")
    case False
    with Suc.prems(4) obtain m where m: "n = Suc m" by (cases n) auto
    with Suc.prems(4) obtain q where "(i, q) \<in> up t" "(q, a) \<in> up t ^^ m" unfolding m relpow_first by blast
    with c(1) have "(kg_parent_id c, a) \<in> up t ^^ m" by (simp add: up_iff)
    from Suc.IH [OF Suc.prems(1) c(2,5) this Suc.prems(5)] c False show ?thesis by (subst descends.simps) simp
  qed (use c in \<open>simp add: descends.simps\<close>)
qed

lemma not_descendant: "table_ok t \<Longrightarrow> (p, 0) \<in> up t ^^ d \<Longrightarrow> \<not> is_descendant t i p \<Longrightarrow> i \<noteq> 0 \<Longrightarrow> (p, i) \<notin> up t ^^ n"
  unfolding is_descendant_def using descends_chain [of t p d "[]" i n] by (auto simp: longer_def)

lemma height_bounds: "table_ok t \<Longrightarrow> height_to n t i = Some h \<Longrightarrow> (y, i) \<in> up t ^^ e \<Longrightarrow> e \<le> h"
proof (induction n arbitrary: i h e)
  case (Suc n)
  show ?case
  proof (cases e)
    case (Suc m)
    with Suc.prems(3) obtain c where c: "(y, c) \<in> up t ^^ m" "(c, i) \<in> up t" by auto
    then obtain k where "tget t c = Some k" "kg_parent_id k = i" by (auto simp: up_iff)
    then have child: "(c, k) \<in> set (tselect (\<lambda>c. kg_parent_id c = i) t)" using in_tselect [OF Suc.prems(1)] by simp
    with Suc.prems(2) obtain m' where m': "max_opt (map (\<lambda>(j, c). height_to n t j) (tselect (\<lambda>c. kg_parent_id c = i) t)) = Some m'" "h = Suc m'"
      by (cases "tselect (\<lambda>c. kg_parent_id c = i) t") auto
    have mem: "height_to n t c \<in> set (map (\<lambda>(j, c). height_to n t j) (tselect (\<lambda>c. kg_parent_id c = i) t))" using child by force
    with m'(1) obtain hc where hc: "height_to n t c = Some hc" by (cases "height_to n t c") (auto simp: max_opt_def split: if_splits)
    have "hc \<in> set (map the (map (\<lambda>(j, c). height_to n t j) (tselect (\<lambda>c. kg_parent_id c = i) t)))"
      unfolding set_map [of the] by (rule image_eqI [OF _ mem]) (simp add: hc)
    from fold_max_ge [OF disjI1 [OF this], of 0] m'(1) have "hc \<le> m'" by (simp add: max_opt_def del: set_map map_map split: if_splits)
    moreover have "m \<le> hc" using Suc.IH [OF Suc.prems(1) hc c(1)] .
    ultimately show ?thesis using m'(2) \<open>e = Suc m\<close> by simp
  qed simp
qed simp

lemma height_total:
  assumes "cats_ok t"
  shows "(i, 0) \<in> up t ^^ d \<Longrightarrow> KB_CATEGORY_MAX_DEPTH < d + n \<Longrightarrow> d \<le> KB_CATEGORY_MAX_DEPTH \<Longrightarrow> height_to n t i \<noteq> None"
proof (induction n arbitrary: i d)
  case (Suc n)
  have t: "table_ok t" using assms by (simp add: cats_ok_def)
  have kid: "height_to n t c \<noteq> None" if k: "(c, k) \<in> set (tselect (\<lambda>c. kg_parent_id c = i) t)" for c k
  proof -
    have c: "tget t c = Some k" "kg_parent_id k = i" using k in_tselect [OF t] by simp_all
    then have "(c, i) \<in> up t" by (simp add: up_iff)
    then have "(c, 0) \<in> up t ^^ Suc d" using Suc.prems(1) by (rule relpow_Suc_I2)
    moreover from assms c(1) obtain d' where "d' \<le> KB_CATEGORY_MAX_DEPTH" "(c, 0) \<in> up t ^^ d'" by (auto simp: cats_ok_def)
    ultimately have "Suc d \<le> KB_CATEGORY_MAX_DEPTH" using chain_len_unique [OF t] by blast
    then show ?thesis using Suc.IH [OF \<open>(c, 0) \<in> up t ^^ Suc d\<close>] Suc.prems(2) by simp
  qed
  show ?case
  proof (cases "tselect (\<lambda>c. kg_parent_id c = i) t")
    case (Cons x xs)
    have "height_to n t (fst y) \<noteq> None" if "y \<in> set (x # xs)" for y using kid [of "fst y" "snd y"] that Cons by simp
    then have "None \<notin> (\<lambda>y. height_to n t (fst y)) ` set (x # xs)" unfolding image_iff by metis
    then have "None \<notin> set (map (\<lambda>(j, c). height_to n t j) (x # xs))" unfolding set_map case_prod_unfold .
    with Cons show ?thesis by (simp add: max_opt_def)
  qed simp
qed simp

text \<open>A path in a relation that is changed at one place: it reaches that place, or it is a path of the new one.\<close>

lemma path_changed:
  assumes "\<And>a b. a \<noteq> x \<Longrightarrow> (a, b) \<in> R \<Longrightarrow> (a, b) \<in> R'"
  shows "(y, z) \<in> R ^^ d \<Longrightarrow> (\<exists>e \<le> d. (y, x) \<in> R ^^ e \<and> (y, x) \<in> R' ^^ e) \<or> (y, z) \<in> R' ^^ d"
proof (induction d arbitrary: y)
  case (Suc d)
  then obtain y' where y': "(y, y') \<in> R" "(y', z) \<in> R ^^ d" by (auto simp: relpow_first simp del: relpow.simps(2))
  show ?case
  proof (cases "y = x")
    case True
    then show ?thesis by (intro disjI1 exI [of _ 0]) simp
  next
    case False
    with assms y'(1) have r: "(y, y') \<in> R'" by blast
    from Suc.IH [OF y'(2)] show ?thesis
    proof
      assume "\<exists>e \<le> d. (y', x) \<in> R ^^ e \<and> (y', x) \<in> R' ^^ e"
      then obtain e where "e \<le> d" "(y', x) \<in> R ^^ e" "(y', x) \<in> R' ^^ e" by blast
      with y'(1) r have "(y, x) \<in> R ^^ Suc e" "(y, x) \<in> R' ^^ Suc e" by (auto simp: relpow_first simp del: relpow.simps(2))
      with \<open>e \<le> d\<close> show ?thesis using Suc_le_mono by blast
    next
      assume "(y', z) \<in> R' ^^ d"
      with r show ?thesis by (auto simp: relpow_first simp del: relpow.simps(2))
    qed
  qed
qed simp

lemma cats_ok_table: "cats_ok t \<Longrightarrow> table_ok t"
  by (simp add: cats_ok_def)

lemma cats_chain: "cats_ok t \<Longrightarrow> tget t i \<noteq> None \<Longrightarrow> \<exists>d \<le> KB_CATEGORY_MAX_DEPTH. (i, 0) \<in> up t ^^ d"
  by (simp add: cats_ok_def)

lemma relpow_mono_sub: "R \<subseteq> S \<Longrightarrow> R ^^ n \<subseteq> S ^^ n" for R S :: "('a \<times> 'a) set"
  by (induction n) auto

lemma cats_ok_add:
  assumes "cats_ok t" and "kg_parent_id c = 0 \<or> (tget t (kg_parent_id c) \<noteq> None \<and> category_depth t (kg_parent_id c) < KB_CATEGORY_MAX_DEPTH)"
  shows "cats_ok (tadd c t)"
proof -
  have t: "table_ok t" using assms(1) by (rule cats_ok_table)
  have sub: "up t \<subseteq> up (tadd c t)" using table_ok_fresh [OF t] by (auto simp: up_def tget_tadd t)
  have new: "(next_id t, kg_parent_id c) \<in> up (tadd c t)" by (auto simp: up_iff tget_tadd t)
  obtain d where d: "d < KB_CATEGORY_MAX_DEPTH" "(kg_parent_id c, 0) \<in> up t ^^ d"
  proof (cases "kg_parent_id c = 0")
    case True
    then have "(kg_parent_id c, 0) \<in> up t ^^ 0" by simp
    then show thesis using that [of 0] by (simp add: KB_CATEGORY_MAX_DEPTH_def)
  next
    case False
    with assms(2) cats_chain [OF assms(1)] category_depth_chain [OF t] that show thesis by metis
  qed
  have "(next_id t, 0) \<in> up (tadd c t) ^^ Suc d"
    using new d(2) relpow_mono_sub [OF sub, of d] unfolding relpow_first by blast
  moreover have "\<exists>d \<le> KB_CATEGORY_MAX_DEPTH. (i, 0) \<in> up (tadd c t) ^^ d" if "tget t i \<noteq> None" for i
    using cats_chain [OF assms(1) that] relpow_mono_sub [OF sub] by blast
  ultimately show ?thesis using d(1) t by (auto simp: cats_ok_def tget_tadd simp del: not_None_eq relpow.simps split: if_splits intro: Suc_leI)
qed

lemma cats_ok_del:
  assumes "cats_ok t" and "\<not> texists (\<lambda>c. kg_parent_id c = i) t" and "tget t i \<noteq> None"
  shows "cats_ok (tdel i t)"
proof -
  have t: "table_ok t" using assms(1) by (rule cats_ok_table)
  have "i \<noteq> 0" using assms(3) table_key_pos [OF t] by fastforce
  have keep: "(a, b) \<in> up (tdel i t)" if "a \<noteq> i" "(a, b) \<in> up t" for a b using that by (auto simp: up_iff tget_tdel)
  have none: "(a, i) \<notin> up t" for a using assms(2) by (auto simp: up_iff texists_iff [OF t])
  have "(y, 0) \<in> up (tdel i t) ^^ d" if "(y, 0) \<in> up t ^^ d" "y \<noteq> i" for y d
  proof -
    have "(y, i) \<notin> up t ^^ e" for e using that(2) none by (cases e) auto
    with path_changed [of i "up t" "up (tdel i t)", OF keep that(1)] show ?thesis by blast
  qed
  moreover have "y \<noteq> i \<and> tget t y \<noteq> None" if "tget (tdel i t) y \<noteq> None" for y using that by (auto simp: tget_tdel split: if_splits)
  ultimately show ?thesis using cats_chain [OF assms(1)] t unfolding cats_ok_def by (metis table_ok_tdel)
qed

lemma cats_ok_same_parent:
  assumes "cats_ok t" and "\<And>c. tget t i = Some c \<Longrightarrow> kg_parent_id (f c) = kg_parent_id c"
  shows "cats_ok (tupd i f t)"
proof -
  have "up (tupd i f t) = up t" using assms(2) by (auto simp: up_def split: if_splits) (metis option.simps(9))
  with assms(1) show ?thesis by (auto simp: cats_ok_def)
qed

lemma cats_ok_move:
  assumes "cats_ok t" and "tget t i = Some c" and "\<And>c. kg_parent_id (f c) = p"
    and "p \<noteq> 0 \<Longrightarrow> tget t p \<noteq> None \<and> \<not> is_descendant t i p" and "subtree_height t i = Some h"
    and "(if p \<noteq> 0 then category_depth t p + 1 else 1) + h \<le> KB_CATEGORY_MAX_DEPTH"
  shows "cats_ok (tupd i f t)"
proof -
  have t: "table_ok t" using assms(1) by (rule cats_ok_table)
  have i: "i \<noteq> 0" using table_key_pos [OF t assms(2)] by simp
  let ?R = "up (tupd i f t)"
  have keep: "(a, b) \<in> ?R" if "a \<noteq> i" "(a, b) \<in> up t" for a b using that by (auto simp: up_iff)
  have "(i, p) \<in> ?R" using assms(2,3) by (auto simp: up_iff)
  moreover obtain dp where dp: "(p, 0) \<in> ?R ^^ dp" "dp + 1 + h \<le> KB_CATEGORY_MAX_DEPTH"
  proof (cases "p = 0")
    case True
    then have "(p, 0) \<in> ?R ^^ 0" by simp
    with that [of 0] assms(6) True show thesis by simp
  next
    case False
    with assms(4) obtain d where d: "(p, 0) \<in> up t ^^ d" using cats_chain [OF assms(1)] by blast
    have "(p, i) \<notin> up t ^^ e" for e using not_descendant [OF t d _ i] assms(4) False by blast
    with path_changed [of i "up t" ?R, OF keep d] have "(p, 0) \<in> ?R ^^ d" by blast
    with that [of d] assms(6) False category_depth_chain [OF t d] show thesis by simp
  qed
  ultimately have top: "(i, 0) \<in> ?R ^^ Suc dp" unfolding relpow_first by blast
  have "\<exists>d' \<le> KB_CATEGORY_MAX_DEPTH. (y, 0) \<in> ?R ^^ d'" if y: "(y, 0) \<in> up t ^^ d" "d \<le> KB_CATEGORY_MAX_DEPTH" for y d
    using path_changed [of i "up t" ?R, OF keep y(1)]
  proof
    assume "\<exists>e \<le> d. (y, i) \<in> up t ^^ e \<and> (y, i) \<in> ?R ^^ e"
    then obtain e where e: "(y, i) \<in> up t ^^ e" "(y, i) \<in> ?R ^^ e" by blast
    have "e \<le> h" using height_bounds [OF t assms(5) [unfolded subtree_height_def] e(1)] .
    moreover have "(y, 0) \<in> ?R ^^ (e + Suc dp)" using e(2) top unfolding relpow_add by blast
    ultimately show ?thesis using dp(2) by (intro exI [of _ "e + Suc dp"]) simp
  next
    assume "(y, 0) \<in> ?R ^^ d"
    with y(2) show ?thesis by (intro exI [of _ d] conjI)
  qed
  then show ?thesis using assms(1) t unfolding cats_ok_def by (auto simp del: not_None_eq split: if_splits)
qed

lemma create_category_ok: "create_category d u w = Inr (i, w') \<Longrightarrow> cats_ok (kb_categories w) \<Longrightarrow> cats_ok (kb_categories w')"
  by (auto simp: create_category_def kb_gate_def flag_gate_def Let_def simp del: not_None_eq intro!: cats_ok_add split: if_splits)

lemma update_category_ok:
  assumes "update_category i d u w = Inr (x, w')" and "cats_ok (kb_categories w)"
  shows "cats_ok (kb_categories w')"
proof -
  from assms(1) obtain c where c: "tget (kb_categories w) i = Some c"
    by (auto simp: update_category_def kb_gate_def flag_gate_def Let_def split: if_splits option.splits)
  show ?thesis
  proof (cases "gu_parent_id d")
    case None
    with assms(1) c show ?thesis
      by (auto simp: update_category_def kb_gate_def flag_gate_def Let_def upd_category_def intro!: cats_ok_same_parent [OF assms(2)] split: if_splits)
  next
    case (Some p)
    with assms(1) c obtain h where w': "w' = upd_category i d p w" and "subtree_height (kb_categories w) i = Some h"
      and "p \<noteq> 0 \<Longrightarrow> tget (kb_categories w) p \<noteq> None \<and> \<not> is_descendant (kb_categories w) i p"
      and "(if p \<noteq> 0 then category_depth (kb_categories w) p + 1 else 1) + h \<le> KB_CATEGORY_MAX_DEPTH"
      by (auto simp: update_category_def kb_gate_def flag_gate_def Let_def simp del: not_None_eq split: if_splits option.splits)
    then show ?thesis
      unfolding w' upd_category_def by (simp, intro cats_ok_move [OF assms(2) c]) simp_all
  qed
qed

lemma delete_category_ok: "delete_category i u w = Inr (x, w') \<Longrightarrow> cats_ok (kb_categories w) \<Longrightarrow> cats_ok (kb_categories w')"
  by (auto simp: delete_category_def kb_gate_def flag_gate_def simp del: not_None_eq intro!: cats_ok_del split: if_splits)

section \<open>What a publication changes\<close>

lemma kb_gate_Inr: "kb_gate perm u w r = Inr x \<longleftrightarrow> feature_on w ''feature.kb'' \<and> has_perm u perm \<and> r = Inr x"
  by (auto simp: kb_gate_def flag_gate_def)

lemma kb_links_rows: "table_ok t \<Longrightarrow> rows (fold (\<lambda>(i, r). tdel i) (tselect P t) t) = filter (\<lambda>(i, r). \<not> P r) (rows t)"
proof -
  assume ok: "table_ok t"
  have fold: "rows (fold (\<lambda>(i, r). tdel i) xs t) = filter (\<lambda>(i, r). i \<notin> fst ` set xs) (rows t)" for xs :: "(int \<times> 'a) list"
  proof (induction xs arbitrary: t)
    case (Cons x xs)
    obtain k s where x: "x = (k, s)" by fastforce
    show ?case using Cons [of "tdel k t"] by (auto simp: x tdel_def filter_filter intro!: filter_cong)
  qed auto
  have "i \<notin> fst ` set (tselect P t) \<longleftrightarrow> \<not> P r" if "(i, r) \<in> set (rows t)" for i r
    using that in_tselect [OF ok] tget_in_rows [OF ok] by (auto simp: image_iff) (metis fst_conv option.inject)
  then show ?thesis unfolding fold by (auto intro!: filter_cong)
qed

lemma table_ok_drop: "table_ok t \<Longrightarrow> table_ok (fold (\<lambda>(i, r). tdel i) xs t)" for xs :: "(int \<times> 'a) list"
  by (induction xs arbitrary: t) auto

lemma seq_drop: "seq (fold (\<lambda>(i, r). tdel i) xs t) = seq t" for xs :: "(int \<times> 'a) list"
  by (induction xs arbitrary: t) (auto simp: tdel_def)

lemma table_ok_adds: "table_ok t \<Longrightarrow> table_ok (fold tadd rs t)"
  by (induction rs arbitrary: t) auto

lemma set_adds: "snd ` set (rows (fold tadd rs t)) = snd ` set (rows t) \<union> set rs"
  by (induction rs arbitrary: t) (auto simp: tadd_def)

text \<open>The index after an article was ingested: its old chunks are gone, what is there instead carries its scope.\<close>

definition index_rows :: "'z kb_db_scheme \<Rightarrow> kb_embedding set" where
  "index_rows w = snd ` set (rows (kb_embeddings w))"

lemma drop_chunks_rows: "table_ok (kb_embeddings w) \<Longrightarrow> index_rows (drop_chunks doc w) = {r \<in> index_rows w. ke_doc_ref r \<noteq> doc}"
  by (force simp: index_rows_def drop_chunks_def kb_links_rows)

lemma chunk_rows_scope: "r \<in> set (chunk_rows k i a cs) \<Longrightarrow> ke_doc_ref r = show_int i \<and> ke_entity_scope r = entity_scope i a"
  by (auto simp: chunk_rows_def)

lemma ingest_frame:
  assumes "ingest_article k i a content w = Inr w'"
  shows "\<exists>t. w' = w\<lparr>kb_embeddings := t\<rparr>"
  using assms by (auto simp: ingest_article_def drop_chunks_def Let_def split: if_splits sum.splits)

lemma maybe_ingest_frame:
  assumes "maybe_ingest k i a content w = Inr w'"
  shows "\<exists>t. w' = w\<lparr>kb_embeddings := t\<rparr>"
  using assms ingest_frame [of k i a content w w'] by (cases "feature_on w ''ai.kb_assist''") (auto simp: maybe_ingest_def intro: exI [of _ "kb_embeddings w"])

lemma ingest_index:
  assumes "ingest_article k i a content w = Inr w'" and "table_ok (kb_embeddings w)"
  shows "table_ok (kb_embeddings w')"
    and "r \<in> index_rows w' \<Longrightarrow> (r \<in> index_rows w \<and> ke_doc_ref r \<noteq> show_int i) \<or> (ke_doc_ref r = show_int i \<and> ke_entity_scope r = entity_scope i a)"
proof -
  let ?w = "drop_chunks (show_int i) w"
  have t: "table_ok (kb_embeddings ?w)" using assms(2) by (simp add: drop_chunks_def table_ok_drop)
  obtain rs where w': "kb_embeddings w' = fold tadd rs (kb_embeddings ?w)" and rs: "\<forall>r \<in> set rs. ke_doc_ref r = show_int i \<and> ke_entity_scope r = entity_scope i a"
  proof -
    have "kb_embeddings w' = fold tadd [] (kb_embeddings ?w) \<or>
      kb_embeddings w' = fold tadd (chunk_rows k i a (take MAX_EMBED_CHUNKS (chunk_text_by EMBED_CHUNK_SIZE content))) (kb_embeddings ?w)"
      using assms(1) by (auto simp: ingest_article_def Let_def split: if_splits sum.splits)
    then show thesis using that [of "[]"] that chunk_rows_scope [of _ k i a] by fastforce
  qed
  show "table_ok (kb_embeddings w')" unfolding w' by (rule table_ok_adds [OF t])
  assume "r \<in> index_rows w'"
  then have "r \<in> index_rows ?w \<or> r \<in> set rs" by (simp add: index_rows_def w' set_adds)
  with rs drop_chunks_rows [OF assms(2)] show "(r \<in> index_rows w \<and> ke_doc_ref r \<noteq> show_int i) \<or> (ke_doc_ref r = show_int i \<and> ke_entity_scope r = entity_scope i a)"
    by auto
qed

section \<open>Steps\<close>

text \<open>\<open>published k i a w w'\<close>: an article was written with one more version and, if ingestion is on, indexed.\<close>

definition publishes :: "kb_env \<Rightarrow> int \<Rightarrow> kb_article \<Rightarrow> string \<Rightarrow> 'z kb_db_scheme \<Rightarrow> 'z kb_db_scheme \<Rightarrow> bool" where
  "publishes k i a content w w' = (\<exists>w1 r. maybe_ingest k i a content w1 = Inr w' \<and> config_rules w1 = config_rules w \<and>
     kb_categories w1 = kb_categories w \<and> kb_embeddings w1 = kb_embeddings w \<and>
     kb_versions w1 = tadd r (kb_versions w) \<and> kv_article_id r = i \<and> kv_version r = ka_current_version a \<and> kv_content r = content \<and>
     ((i = next_id (kb_articles w) \<and> kb_articles w1 = tadd a (kb_articles w) \<and> ka_current_version a = 1) \<or>
      (\<exists>b. tget (kb_articles w) i = Some b \<and> kb_articles w1 = tupd i (\<lambda>_. a) (kb_articles w) \<and> ka_current_version a = ka_current_version b + 1)))"

lemma publishes_new:
  assumes "maybe_ingest k i a (kv_content r) (w\<lparr>kb_articles := tadd a (kb_articles w), kb_versions := tadd r (kb_versions w), kb_tags := t\<rparr>) = Inr w'"
    and "i = next_id (kb_articles w)" and "kv_article_id r = i" and "kv_version r = 1" and "ka_current_version a = 1"
  shows "publishes k i a (kv_content r) w w'"
  unfolding publishes_def
  by (rule exI [of _ "w\<lparr>kb_articles := tadd a (kb_articles w), kb_versions := tadd r (kb_versions w), kb_tags := t\<rparr>"], rule exI [of _ r])
    (use assms in simp)

lemma publishes_next:
  assumes "maybe_ingest k i a (kv_content r) (w\<lparr>kb_articles := tupd i (\<lambda>_. a) (kb_articles w), kb_versions := tadd r (kb_versions w)\<rparr>) = Inr w'"
    and "kv_article_id r = i" and "kv_version r = ka_current_version a" and "tget (kb_articles w) i = Some b" and "ka_current_version a = ka_current_version b + 1"
  shows "publishes k i a (kv_content r) w w'"
  unfolding publishes_def
  by (rule exI [of _ "w\<lparr>kb_articles := tupd i (\<lambda>_. a) (kb_articles w), kb_versions := tadd r (kb_versions w)\<rparr>"], rule exI [of _ r])
    (use assms in simp)

lemma create_publishes:
  assumes "create_article k d u w = Inr ((i, a), w')"
  shows "publishes k i a (an_content d) w w'"
proof -
  define r where "r = \<lparr>kv_article_id = i, kv_version = 1, kv_title = an_title d, kv_content = an_content d,
     kv_change_log = ''initial'', kv_editor_id = Some (uid u)\<rparr>"
  from assms have i: "i = next_id (kb_articles w)" and a: "ka_current_version a = 1"
    and m: "\<exists>t. maybe_ingest k i a (an_content d) (w\<lparr>kb_articles := tadd a (kb_articles w), kb_versions := tadd r (kb_versions w), kb_tags := t\<rparr>) = Inr w'"
    unfolding create_article_def kb_gate_Inr Let_def r_def by (auto split: if_splits sum.splits)
  then show ?thesis using publishes_new [where k = k and i = i and a = a and r = r and w = w and w' = w'] by (auto simp: r_def)
qed

lemma publish_publishes:
  assumes "publish_version k i a content cl u w = Inr ((j, a1), w')" and "tget (kb_articles w) i = Some b" and "ka_current_version a = ka_current_version b"
  shows "publishes k i a1 content w w'"
proof -
  define r where "r = \<lparr>kv_article_id = i, kv_version = ka_current_version a1, kv_title = ka_title a, kv_content = content,
     kv_change_log = cl, kv_editor_id = Some (uid u)\<rparr>"
  from assms(1) have a1: "a1 = a\<lparr>ka_current_version := ka_current_version a + 1\<rparr>"
    and m: "maybe_ingest k i a1 content (w\<lparr>kb_articles := tupd i (\<lambda>_. a1) (kb_articles w), kb_versions := tadd r (kb_versions w)\<rparr>) = Inr w'"
    by (auto simp: publish_version_def Let_def r_def split: if_splits sum.splits)
  from publishes_next [of k i a1 r w w' b] m a1 assms(2,3) show ?thesis by (simp add: r_def)
qed

lemma update_publishes:
  assumes "update_article k i d u w = Inr ((j, a1), w')"
  shows "\<exists>content. publishes k i a1 content w w'"
proof -
  from assms obtain a content where "visible_article u i w = Inr a" and p: "publish_version k i (edited_article d a) content (ae_change_log d) u w = Inr ((j, a1), w')"
    unfolding update_article_def kb_gate_Inr by (auto split: if_splits sum.splits)
  then have "tget (kb_articles w) i = Some a" by (auto simp: visible_article_def split: option.splits if_splits)
  with publish_publishes [OF p] show ?thesis by (auto simp: edited_article_def)
qed

lemma rollback_publishes:
  assumes "rollback_article k i v u w = Inr ((j, a1), w')"
  shows "\<exists>q r. kb_version_row w i v = Some (q, r) \<and> publishes k i a1 (kv_content r) w w'"
proof -
  from assms obtain a q r where "visible_article u i w = Inr a" and v: "kb_version_row w i v = Some (q, r)"
    and p: "publish_version k i a (kv_content r) (''rollback to v'' @ show_int (kv_version r)) u w = Inr ((j, a1), w')"
    unfolding rollback_article_def kb_gate_Inr by (auto split: if_splits sum.splits option.splits)
  then have "tget (kb_articles w) i = Some a" by (auto simp: visible_article_def split: option.splits if_splits)
  with publish_publishes [OF p] v show ?thesis by blast
qed

inductive kb_edit :: "kb_db \<Rightarrow> kb_db \<Rightarrow> bool" where
  cat_add: "create_category d u w = Inr (i, w') \<Longrightarrow> kb_edit w w'"
| cat_edit: "update_category i c u w = Inr ((), w') \<Longrightarrow> kb_edit w w'"
| cat_del: "delete_category i u w = Inr ((), w') \<Longrightarrow> kb_edit w w'"
| add: "create_article k n u w = Inr (out, w') \<Longrightarrow> kb_edit w w'"
| edit: "update_article k i e u w = Inr (out, w') \<Longrightarrow> kb_edit w w'"
| rollback: "rollback_article k i v u w = Inr (out, w') \<Longrightarrow> kb_edit w w'"

inductive kb_step :: "kb_db \<Rightarrow> kb_db \<Rightarrow> bool" where
  edit_step: "kb_edit w w' \<Longrightarrow> kb_step w w'"
| delete_step: "delete_article i u w = Inr ((), w') \<Longrightarrow> kb_step w w'"

lemma category_frames:
  "create_category d u w = Inr (i, w') \<Longrightarrow> \<exists>t. w' = w\<lparr>kb_categories := t\<rparr>"
  "update_category i c u w = Inr ((), w') \<Longrightarrow> \<exists>t. w' = w\<lparr>kb_categories := t\<rparr>"
  "delete_category i u w = Inr ((), w') \<Longrightarrow> \<exists>t. w' = w\<lparr>kb_categories := t\<rparr>"
  by (auto simp: create_category_def update_category_def delete_category_def kb_gate_Inr Let_def upd_category_def split: if_splits option.splits)

text \<open>An edit is one of the category tree or a publication.\<close>

lemma kb_edit_cases:
  assumes "kb_edit w w'"
  obtains (tree) t where "w' = w\<lparr>kb_categories := t\<rparr>" and "cats_ok (kb_categories w) \<Longrightarrow> cats_ok t"
  | (published) k i a content where "publishes k i a content w w'"
proof -
  have cat: thesis if "\<exists>t. w' = w\<lparr>kb_categories := t\<rparr>" and "cats_ok (kb_categories w) \<Longrightarrow> cats_ok (kb_categories w')"
    using that by (elim exE) (rule tree, assumption, simp)
  from assms show thesis
  proof cases
    case (cat_add d u i)
    show thesis by (rule cat [OF category_frames(1) [OF cat_add] create_category_ok [OF cat_add]])
  next
    case (cat_edit i c u)
    show thesis by (rule cat [OF category_frames(2) [OF cat_edit] update_category_ok [OF cat_edit]])
  next
    case (cat_del i u)
    show thesis by (rule cat [OF category_frames(3) [OF cat_del] delete_category_ok [OF cat_del]])
  next
    case (add k n u out)
    show thesis by (rule published [OF create_publishes [of k n u w "fst out" "snd out" w']]) (simp add: add)
  next
    case (edit k i e u out)
    then obtain content where "publishes k i (snd out) content w w'" using update_publishes [of k i e u w "fst out" "snd out" w'] by auto
    then show thesis by (rule published)
  next
    case (rollback k i v u out)
    then obtain content where "publishes k i (snd out) content w w'" using rollback_publishes [of k i v u w "fst out" "snd out" w'] by auto
    then show thesis by (rule published)
  qed
qed

section \<open>Versions\<close>

definition listing :: "'z kb_db_scheme \<Rightarrow> int \<Rightarrow> int list" where
  "listing w i = map (\<lambda>(j, r). kv_version r) (tselect (\<lambda>r. kv_article_id r = i) (kb_versions w))"

text \<open>The versions of an article, in the order of their keys, are the numbers up to the current one.\<close>

definition versions_ok :: "'z kb_db_scheme \<Rightarrow> bool" where
  "versions_ok w = (table_ok (kb_articles w) \<and> table_ok (kb_versions w) \<and>
     (\<forall>i. listing w i = (case tget (kb_articles w) i of None \<Rightarrow> [] | Some a \<Rightarrow> [1..ka_current_version a])) \<and>
     (\<forall>i a. tget (kb_articles w) i = Some a \<longrightarrow> 1 \<le> ka_current_version a))"

lemma tselect_tadd: "tselect P (tadd r t) = tselect P t @ (if P r then [(next_id t, r)] else [])"
  by (simp add: tselect_def tadd_def next_id_def)

lemma publishes_tables:
  assumes "publishes k i a content w w'"
  obtains r where "kb_versions w' = tadd r (kb_versions w)" and "kv_article_id r = i" and "kv_version r = ka_current_version a"
    and "kv_content r = content" and "kb_categories w' = kb_categories w" and "config_rules w' = config_rules w"
    and "i = next_id (kb_articles w) \<and> kb_articles w' = tadd a (kb_articles w) \<and> ka_current_version a = 1 \<or>
      (\<exists>b. tget (kb_articles w) i = Some b \<and> kb_articles w' = tupd i (\<lambda>_. a) (kb_articles w) \<and> ka_current_version a = ka_current_version b + 1)"
proof -
  from assms obtain w1 r where "maybe_ingest k i a content w1 = Inr w'" and rest: "config_rules w1 = config_rules w" "kb_categories w1 = kb_categories w"
    "kb_versions w1 = tadd r (kb_versions w)" "kv_article_id r = i" "kv_version r = ka_current_version a" "kv_content r = content"
    "i = next_id (kb_articles w) \<and> kb_articles w1 = tadd a (kb_articles w) \<and> ka_current_version a = 1 \<or>
      (\<exists>b. tget (kb_articles w) i = Some b \<and> kb_articles w1 = tupd i (\<lambda>_. a) (kb_articles w) \<and> ka_current_version a = ka_current_version b + 1)"
    unfolding publishes_def by blast
  from maybe_ingest_frame [OF this(1)] obtain t where "w' = w1\<lparr>kb_embeddings := t\<rparr>" by blast
  with rest show thesis by (intro that [of r]) simp_all
qed

lemma publishes_article:
  assumes "publishes k i a content w w'" and "table_ok (kb_articles w)"
  shows "tget (kb_articles w') j = (if j = i then Some a else tget (kb_articles w) j)" and "table_ok (kb_articles w')"
  by (rule publishes_tables [OF assms(1)], use assms(2) in \<open>auto simp: tget_tadd\<close>)+

lemma publishes_versions_ok:
  assumes "publishes k i a content w w'" and "versions_ok w"
  shows "versions_ok w'"
proof -
  have t: "table_ok (kb_articles w)" "table_ok (kb_versions w)" using assms(2) by (simp_all add: versions_ok_def)
  from assms(1) show ?thesis
  proof (rule publishes_tables)
    fix r
    assume r: "kb_versions w' = tadd r (kb_versions w)" "kv_article_id r = i" "kv_version r = ka_current_version a"
      and c: "i = next_id (kb_articles w) \<and> kb_articles w' = tadd a (kb_articles w) \<and> ka_current_version a = 1 \<or>
        (\<exists>b. tget (kb_articles w) i = Some b \<and> kb_articles w' = tupd i (\<lambda>_. a) (kb_articles w) \<and> ka_current_version a = ka_current_version b + 1)"
    have l: "listing w' j = listing w j @ (if j = i then [ka_current_version a] else [])" for j
      using r by (simp add: listing_def tselect_tadd)
    have "listing w i @ [ka_current_version a] = [1..ka_current_version a] \<and> 1 \<le> ka_current_version a"
      using c
    proof
      assume "i = next_id (kb_articles w) \<and> kb_articles w' = tadd a (kb_articles w) \<and> ka_current_version a = 1"
      with assms(2) table_ok_fresh [OF t(1)] show ?thesis by (simp add: versions_ok_def)
    next
      assume "\<exists>b. tget (kb_articles w) i = Some b \<and> kb_articles w' = tupd i (\<lambda>_. a) (kb_articles w) \<and> ka_current_version a = ka_current_version b + 1"
      with assms(2) show ?thesis by (force simp: versions_ok_def upto_rec2)
    qed
    then show "versions_ok w'"
      using assms(2) publishes_article [OF assms(1) t(1)] t(2) r(1) by (auto simp: versions_ok_def l)
  qed
qed

lemma delete_tables:
  assumes "delete_article i u w = Inr ((), w')"
  shows "kb_articles w' = tdel i (kb_articles w)" and "kb_categories w' = kb_categories w"
    and "kb_versions w' = fold (\<lambda>(j, r). tdel j) (tselect (\<lambda>r. kv_article_id r = i) (kb_versions w)) (kb_versions w)"
    and "kb_embeddings w' = kb_embeddings w"
  using assms by (auto simp: delete_article_def kb_gate_Inr split: if_splits)

lemma delete_versions_ok:
  assumes "delete_article i u w = Inr ((), w')" and "versions_ok w"
  shows "versions_ok w'"
proof -
  have t: "table_ok (kb_versions w)" using assms(2) by (simp add: versions_ok_def)
  have "listing w' j = (if j = i then [] else listing w j)" for j
    unfolding listing_def tselect_def delete_tables(3) [OF assms(1)] kb_links_rows [OF t, of "\<lambda>r. kv_article_id r = i", unfolded tselect_def]
    by (auto simp: filter_empty_conv intro!: arg_cong [where f = "map _"] filter_cong)
  then show ?thesis
    using assms(2) delete_tables(1,3) [OF assms(1)] by (auto simp: versions_ok_def tget_tdel table_ok_drop)
qed

lemma kb_edit_versions_ok: "kb_edit w w' \<Longrightarrow> versions_ok w \<Longrightarrow> versions_ok w'"
  by (erule kb_edit_cases) (simp add: versions_ok_def listing_def, rule publishes_versions_ok)

lemma kb_step_versions_ok: "kb_step w w' \<Longrightarrow> versions_ok w \<Longrightarrow> versions_ok w'"
  by (induction rule: kb_step.induct) (auto intro: kb_edit_versions_ok delete_versions_ok)

text \<open>Articles come with a new key each, and one that is gone stays gone.\<close>

lemma kb_step_articles:
  assumes "kb_step w w'" and "versions_ok w"
  shows "seq (kb_articles w) \<le> seq (kb_articles w')"
    and "tget (kb_articles w) i = None \<Longrightarrow> i \<le> seq (kb_articles w) \<Longrightarrow> tget (kb_articles w') i = None"
proof -
  have t: "table_ok (kb_articles w)" using assms(2) by (simp add: versions_ok_def)
  have "seq (kb_articles w) \<le> seq (kb_articles w') \<and> (tget (kb_articles w) i = None \<longrightarrow> i \<le> seq (kb_articles w) \<longrightarrow> tget (kb_articles w') i = None)"
    using assms(1)
  proof cases
    case edit_step
    then show ?thesis
    proof (cases rule: kb_edit_cases)
      case (published k j a content)
      have "seq (kb_articles w) \<le> seq (kb_articles w') \<and> (j = next_id (kb_articles w) \<or> tget (kb_articles w) j \<noteq> None)"
        by (rule publishes_tables [OF published]) (auto simp: tadd_def next_id_def)
      then show ?thesis using publishes_article(1) [OF published t] by (auto simp: next_id_def)
    qed simp
  next
    case (delete_step j u)
    then show ?thesis using delete_tables(1) [OF delete_step] by (simp add: tget_tdel) (simp add: tdel_def)
  qed
  then show "seq (kb_articles w) \<le> seq (kb_articles w')"
    "tget (kb_articles w) i = None \<Longrightarrow> i \<le> seq (kb_articles w) \<Longrightarrow> tget (kb_articles w') i = None" by blast+
qed

interpretation arts: lasting_rows kb_step kb_articles versions_ok
  by unfold_locales (auto simp: kb_step_versions_ok versions_ok_def [THEN iffD1] kb_step_articles)

lemma step_keeps_version:
  assumes "kb_step w w'" and "versions_ok w" and "tget (kb_versions w) j = Some r" and "tget (kb_articles w') (kv_article_id r) \<noteq> None"
  shows "tget (kb_versions w') j = Some r"
  using assms(1)
proof cases
  case edit_step
  have t: "table_ok (kb_versions w)" using assms(2) by (simp add: versions_ok_def)
  from edit_step show ?thesis
  proof (cases rule: kb_edit_cases)
    case (published k i a content)
    show ?thesis by (rule publishes_tables [OF published]) (use t assms(3) table_ok_fresh [OF t] in \<open>auto simp: tget_tadd\<close>)
  qed (use assms(3) in simp)
next
  case (delete_step i u)
  have t: "table_ok (kb_versions w)" using assms(2) by (simp add: versions_ok_def)
  have "kv_article_id r \<noteq> i" using assms(4) delete_tables(1) [OF delete_step] by (auto simp: tget_tdel)
  moreover have "(j, r) \<in> set (rows (kb_versions w))" using assms(3) tget_in_rows [OF t] by blast
  ultimately have "(j, r) \<in> set (rows (kb_versions w'))"
    unfolding delete_tables(3) [OF delete_step] kb_links_rows [OF t] by simp
  moreover have "table_ok (kb_versions w')" using table_ok_drop [OF t] by (simp add: delete_tables(3) [OF delete_step])
  ultimately show ?thesis using tget_in_rows [of "kb_versions w'" j r] by simp
qed

section \<open>The index\<close>

text \<open>A chunk belongs to an article and is scoped to it, and to everybody only while the article is public.\<close>

definition index_ok :: "'z kb_db_scheme \<Rightarrow> bool" where
  "index_ok w = (table_ok (kb_articles w) \<and> table_ok (kb_embeddings w) \<and>
     (\<forall>r \<in> index_rows w. \<exists>i a. tget (kb_articles w) i = Some a \<and> ke_doc_ref r = show_int i \<and> set (ke_entity_scope r) \<subseteq> set (entity_scope i a)))"

lemma show_int_inject: "show_int i = show_int j \<longleftrightarrow> i = j"
  by (metis option.inject parse_show_int)

lemma publishes_index_ok:
  assumes "publishes k i a content w w'" and "index_ok w" and "feature_on w ''ai.kb_assist''"
  shows "index_ok w'"
proof -
  from assms(1) obtain w1 where m: "maybe_ingest k i a content w1 = Inr w'" and w1: "config_rules w1 = config_rules w" "kb_embeddings w1 = kb_embeddings w"
    unfolding publishes_def by blast
  have t: "table_ok (kb_articles w)" "table_ok (kb_embeddings w1)" using assms(2) w1(2) by (simp_all add: index_ok_def)
  have g: "ingest_article k i a content w1 = Inr w'"
    using m assms(3) feature_on_cong [OF w1(1)] by (simp add: maybe_ingest_def)
  have rows1: "index_rows w1 = index_rows w" by (simp add: index_rows_def w1(2))
  have "\<exists>j b. tget (kb_articles w') j = Some b \<and> ke_doc_ref r = show_int j \<and> set (ke_entity_scope r) \<subseteq> set (entity_scope j b)" if r: "r \<in> index_rows w'" for r
    using ingest_index(2) [OF g t(2) r]
  proof
    assume "r \<in> index_rows w1 \<and> ke_doc_ref r \<noteq> show_int i"
    then have o: "r \<in> index_rows w" "ke_doc_ref r \<noteq> show_int i" using rows1 by simp_all
    with assms(2) obtain j b where j: "tget (kb_articles w) j = Some b" "ke_doc_ref r = show_int j" "set (ke_entity_scope r) \<subseteq> set (entity_scope j b)"
      unfolding index_ok_def by blast
    with o(2) have "j \<noteq> i" by auto
    with j show ?thesis using publishes_article(1) [OF assms(1) t(1)] by (intro exI [of _ j] exI [of _ b]) simp
  next
    assume "ke_doc_ref r = show_int i \<and> ke_entity_scope r = entity_scope i a"
    then show ?thesis using publishes_article(1) [OF assms(1) t(1)] by (intro exI [of _ i] exI [of _ a]) simp
  qed
  then show ?thesis using publishes_article(2) [OF assms(1) t(1)] ingest_index(1) [OF g t(2)] by (auto simp: index_ok_def)
qed

lemma kb_edit_index_ok:
  assumes "kb_edit w w'" and "index_ok w" and "feature_on w ''ai.kb_assist''"
  shows "index_ok w' \<and> feature_on w' ''ai.kb_assist''"
  using assms(1)
proof (cases rule: kb_edit_cases)
  case (tree t)
  with assms(2,3) show ?thesis by (simp add: index_ok_def index_rows_def feature_on_def by_key_def)
next
  case (published k i a content)
  have "config_rules w' = config_rules w" by (rule publishes_tables [OF published])
  then show ?thesis using publishes_index_ok [OF published assms(2,3)] assms(3) feature_on_cong by blast
qed

lemma kb_edits_index_ok: "kb_edit\<^sup>*\<^sup>* w w' \<Longrightarrow> index_ok w \<Longrightarrow> feature_on w ''ai.kb_assist'' \<Longrightarrow> index_ok w' \<and> feature_on w' ''ai.kb_assist''"
  by (induction rule: rtranclp_induct) (auto dest: kb_edit_index_ok)

text \<open>A chunk that a scope of the knowledge base reaches is one of an article in that scope.\<close>

lemma token_no_id: "GLOBAL_SCOPE_TOKEN \<noteq> show_int i"
proof
  assume "GLOBAL_SCOPE_TOKEN = show_int i"
  then have "parse_int GLOBAL_SCOPE_TOKEN = Some i" by (metis parse_show_int)
  then show False unfolding GLOBAL_SCOPE_TOKEN_def by code_simp
qed

lemma in_visible_kb: "table_ok (kb_articles w) \<Longrightarrow> show_int i \<in> set (visible_kb_of u w) \<longleftrightarrow> (\<exists>a. tget (kb_articles w) i = Some a \<and> article_retrievable u a)"
  using token_no_id [of i] in_tselect [of "kb_articles w" _ _ "article_retrievable u"]
  by (auto simp: visible_kb_of_def show_int_inject image_iff) (metis (no_types, lifting) case_prod_conv)

lemma chunk_in_scope:
  assumes "index_ok w" and "r \<in> index_rows w" and "overlaps (ke_entity_scope r) (Some (visible_kb_of u w))"
  shows "\<exists>i a. tget (kb_articles w) i = Some a \<and> ke_doc_ref r = show_int i \<and> article_retrievable u a"
proof -
  from assms(1,2) obtain i a where a: "tget (kb_articles w) i = Some a" "ke_doc_ref r = show_int i" "set (ke_entity_scope r) \<subseteq> set (entity_scope i a)"
    by (auto simp: index_ok_def)
  from assms(3) obtain x where x: "x \<in> set (ke_entity_scope r)" "x \<in> set (visible_kb_of u w)" by (auto simp: overlaps_def)
  have "article_retrievable u a"
  proof (cases "x = show_int i")
    case True
    with x(2) in_visible_kb [of w i u] assms(1) a(1) show ?thesis by (auto simp: index_ok_def)
  next
    case False
    with x(1) a(3) show ?thesis by (auto simp: entity_scope_def article_retrievable_def split: if_splits)
  qed
  with a show ?thesis by blast
qed

lemma fts_in_scope:
  assumes "table_ok (kb_articles w)" and "h \<in> set (fts_hits q (Some (visible_kb_of u w)) ty limit w)"
  shows "\<exists>i a. tget (kb_articles w) i = Some a \<and> kh_doc_ref h = show_int i \<and> article_retrievable u a"
proof -
  from assms(2) obtain i a where a: "(i, a) \<in> set (rows (kb_articles w))" "i \<in> set (numeric_ids (visible_kb_of u w))" "kh_doc_ref h = show_int i"
    by (auto simp: fts_hits_def dest!: in_set_takeD split: if_splits)
  then obtain s where s: "s \<in> set (visible_kb_of u w)" "parse_int s = Some i" by (auto simp: numeric_ids_def split: option.splits)
  have "parse_int GLOBAL_SCOPE_TOKEN = None" unfolding GLOBAL_SCOPE_TOKEN_def by code_simp
  with s obtain j b where "s = show_int j" "tget (kb_articles w) j = Some b" "article_retrievable u b"
    using in_tselect [OF assms(1)] by (auto simp: visible_kb_of_def)
  with s(2) a show ?thesis by auto
qed

end
