(* ===== verification/Kb_Properties.thy ===== *)
theory Kb_Properties
  imports Samples Kb_Facts
begin

text \<open>
  What the knowledge base promises: a category tree of bounded depth, a complete history of every article, and a search
  that stays inside what its caller may read.
\<close>

section \<open>A small installation\<close>

definition kb_start :: kb_db where
  "kb_start = ticket_db.extend (sample_db\<lparr>config_rules := [(''feature.kb'', [(''value'', JBool True)]), (''ai.kb_assist'', [(''value'', JBool True)])]\<rparr>)
     (kb_db.fields empty_table empty_table empty_table empty_table empty_table)"

definition sample_kb :: kb_env where
  "sample_kb = \<lparr>embed_one = (\<lambda>s. [of_nat (length s)]), cosine = (\<lambda>_ _. 1), app_env_prod = True\<rparr>"

definition reader :: current_user where
  "reader = \<lparr>uid = 9, username = ''reader'', is_admin = False, permissions = [''ai:use'', ''kb:article:list'', ''kb:article:del'', ''kb:search''], visible_group_ids = [1]\<rparr>"

definition kb_tree_add :: "(int \<times> kb_db) res" where
  "kb_tree_add = create_category \<lparr>gc_name = ''guides'', gc_parent_id = None, gc_sort = 0\<rparr> sample_user kb_start"

definition kb_tree :: kb_db where
  "kb_tree = after kb_tree_add kb_start"

definition note_new :: "string \<Rightarrow> kb_article_create" where
  "note_new vis = \<lparr>an_title = ''note'', an_category_id = None, an_visibility = vis, an_content = ''text'', an_summary = [], an_tags = []\<rparr>"

definition note_add :: "((int \<times> kb_article) \<times> kb_db) res" where
  "note_add = create_article sample_kb (note_new ''public'') sample_user kb_start"

definition kb_note :: kb_db where
  "kb_note = after note_add kb_start"

definition note_hide :: kb_article_update where
  "note_hide = \<lparr>ae_title = None, ae_category_id = None, ae_visibility = Some ''classified'', ae_content = None, ae_summary = None, ae_change_log = []\<rparr>"

definition note_edit :: "((int \<times> kb_article) \<times> kb_db) res" where
  "note_edit = update_article sample_kb 1 (note_hide\<lparr>ae_visibility := Some ''internal''\<rparr>) sample_user kb_note"

definition kb_edited :: kb_db where
  "kb_edited = after note_edit kb_note"

lemma kb_samples: "kb_edit kb_start kb_tree" "kb_edit kb_start kb_note" "kb_edit kb_note kb_edited"
proof -
  have "\<not> isl kb_tree_add" "\<not> isl note_add" "\<not> isl note_edit" by code_simp+
  from this [THEN after_eq] show "kb_edit kb_start kb_tree" "kb_edit kb_start kb_note" "kb_edit kb_note kb_edited"
    unfolding kb_tree_add_def kb_tree_def note_add_def kb_note_def note_edit_def kb_edited_def by (blast intro: kb_edit.intros)+
qed

section \<open>Categories\<close>

text \<open>C25: over any sequence of edits a category has a depth of at most three, as the loop of the code computes it, and the
  recursion over a subtree ends: no move can make a cycle or a tree that is too deep.\<close>

theorem categories_stay_shallow:
  assumes "cats_ok (kb_categories w)" and "kb_step\<^sup>*\<^sup>* w w'" and "tget (kb_categories w') i \<noteq> None"
  shows "1 \<le> category_depth (kb_categories w') i \<and> category_depth (kb_categories w') i \<le> KB_CATEGORY_MAX_DEPTH \<and>
    subtree_height (kb_categories w') i \<noteq> None"
proof -
  have "cats_ok (kb_categories w2)" if "kb_step w1 w2" "cats_ok (kb_categories w1)" for w1 w2
    using that(1)
  proof cases
    case edit_step
    then show ?thesis
    proof (cases rule: kb_edit_cases)
      case (published k j a content)
      have "kb_categories w2 = kb_categories w1" by (rule publishes_tables [OF published])
      with that(2) show ?thesis by simp
    qed (use that(2) in simp)
  qed (use that(2) delete_tables(2) in metis)
  with assms(2,1) have ok: "cats_ok (kb_categories w')" by (induction rule: rtranclp_induct) blast+
  have t: "table_ok (kb_categories w')" using ok by (rule cats_ok_table)
  from cats_chain [OF ok assms(3)] obtain d where d: "d \<le> KB_CATEGORY_MAX_DEPTH" "(i, 0) \<in> up (kb_categories w') ^^ d" by blast
  have "d \<noteq> 0" using d(2) assms(3) table_key_pos [OF t] by (metis less_irrefl option.exhaust relpow_0_E)
  moreover have "subtree_height (kb_categories w') i \<noteq> None"
    unfolding subtree_height_def by (rule height_total [OF ok d(2)]) (use d(1) in simp_all)
  ultimately show ?thesis using d(1) category_depth_chain [OF t d(2)] by simp
qed

theorem categories_stay_shallow_witness:
  "1 \<le> category_depth (kb_categories kb_tree) 1 \<and> category_depth (kb_categories kb_tree) 1 \<le> KB_CATEGORY_MAX_DEPTH"
proof -
  have "cats_ok (kb_categories kb_start)" by (simp add: cats_ok_def kb_start_def ticket_db.defs kb_db.defs)
  moreover have "kb_step\<^sup>*\<^sup>* kb_start kb_tree" using kb_samples(1) by (blast intro: edit_step)
  moreover have "tget (kb_categories kb_tree) 1 \<noteq> None" by code_simp
  ultimately show ?thesis using categories_stay_shallow by blast
qed

section \<open>Versions\<close>

text \<open>C24: the versions of an article are the numbers from one to the current one, each once, over any sequence of edits, and a
  version that was written is never changed as long as its article exists.\<close>

theorem article_history_complete:
  assumes "versions_ok w" and "kb_step\<^sup>*\<^sup>* w w'" and "tget (kb_articles w') i = Some a"
  shows "listing w' i = [1..ka_current_version a] \<and>
    (\<forall>j r. tget (kb_versions w) j = Some r \<and> kv_article_id r = i \<longrightarrow> tget (kb_versions w') j = Some r)"
proof -
  have ok: "versions_ok w'" by (rule arts.reach_ok [OF assms(2,1)])
  have "tget (kb_versions w') j = Some r" if r: "tget (kb_versions w) j = Some r" "kv_article_id r = i" for j r
  proof (rule arts.lasts [OF assms(2,1), where i = i and P = "\<lambda>w. tget (kb_versions w) j = Some r"])
    have t: "table_ok (kb_versions w)" using assms(1) by (simp add: versions_ok_def)
    have "(j, r) \<in> set (tselect (\<lambda>r. kv_article_id r = i) (kb_versions w))" using r in_tselect [OF t] by simp
    then have "listing w i \<noteq> []" unfolding listing_def by (cases "tselect (\<lambda>r. kv_article_id r = i) (kb_versions w)") auto
    with assms(1) show "tget (kb_articles w) i \<noteq> None" by (auto simp: versions_ok_def split: option.splits)
  qed (use assms(3) r step_keeps_version in auto)
  with ok assms(3) show ?thesis by (auto simp: versions_ok_def)
qed

theorem article_history_complete_witness: "listing kb_edited 1 = [1..2]"
proof -
  have "versions_ok kb_start"
    by (simp add: versions_ok_def listing_def kb_start_def ticket_db.defs kb_db.defs tselect_def empty_table_def tget_def table_ok_def)
  moreover have "kb_step\<^sup>*\<^sup>* kb_start kb_edited" using kb_samples(2,3) by (meson edit_step r_into_rtranclp rtranclp_trans)
  moreover obtain a where "tget (kb_articles kb_edited) 1 = Some a" "ka_current_version a = 2"
  proof -
    have "map_option ka_current_version (tget (kb_articles kb_edited) 1) = Some 2" by code_simp
    then show thesis using that by auto
  qed
  ultimately show ?thesis using article_history_complete [of kb_start kb_edited 1] by metis
qed

text \<open>A rollback shows the content of the version it goes back to.\<close>

lemma rollback_shows_content:
  assumes "rollback_article k i v u w = Inr (out, w')" and "versions_ok w" and "kb_version_row w i v = Some (q, r)"
    and "get_article i u' w' = Inr (a, content, tags)"
  shows "content = kv_content r"
proof -
  obtain j a1 where out: "out = (j, a1)" by fastforce
  from rollback_publishes [OF assms(1) [unfolded out]] assms(3) have p: "publishes k i a1 (kv_content r) w w'" by auto
  have ok: "versions_ok w'" by (rule publishes_versions_ok [OF p assms(2)])
  have t: "table_ok (kb_articles w)" "table_ok (kb_versions w)" "table_ok (kb_versions w')" using assms(2) ok by (simp_all add: versions_ok_def)
  have a1: "tget (kb_articles w') i = Some a1" using publishes_article(1) [OF p t(1)] by simp
  then have a: "a = a1" "content = current_content w' i a1"
    using assms(4) by (auto simp: get_article_def kb_gate_Inr visible_article_def split: if_splits)
  from p obtain r' where r': "kb_versions w' = tadd r' (kb_versions w)" "kv_article_id r' = i" "kv_version r' = ka_current_version a1" "kv_content r' = kv_content r"
    by (rule publishes_tables)
  have "listing w' i = [1..ka_current_version a1]" using ok a1 by (simp add: versions_ok_def)
  moreover have "listing w' i = listing w i @ [ka_current_version a1]" using r' by (simp add: listing_def tselect_tadd)
  ultimately have "ka_current_version a1 \<notin> set (listing w i)" by (metis distinct_append distinct_upto disjoint_insert(1) list.simps(15))
  then have "filter (\<lambda>(j, r). kv_article_id r = i \<and> kv_version r = ka_current_version a1) (rows (kb_versions w)) = []"
    by (force simp: filter_empty_conv listing_def tselect_def)
  then have "kb_version_row w' i (ka_current_version a1) = Some (next_id (kb_versions w), r')"
    using r' by (simp add: kb_version_row_def tfirst_def tselect_def tadd_def next_id_def)
  with a r'(4) show ?thesis by (simp add: current_content_def)
qed

section \<open>Reading\<close>



text \<open>List, search and detail show no classified article to a user who is no administrator.\<close>

lemma classified_hidden:
  assumes "\<not> is_admin u"
  shows "list_articles f page sz u w = Inr (xs, n) \<Longrightarrow> (i, a) \<in> set xs \<Longrightarrow> ka_visibility a \<noteq> ''classified''"
    and "search_articles q page sz u w = Inr (xs, n) \<Longrightarrow> (i, a) \<in> set xs \<Longrightarrow> ka_visibility a \<noteq> ''classified''"
    and "get_article i u w = Inr (a, content, tags) \<Longrightarrow> ka_visibility a \<noteq> ''classified''"
  using assms
  by (auto simp: list_articles_def search_articles_def get_article_def kb_gate_Inr Let_def visible_article_def article_hidden_def
      dest!: set_mp [OF set_page_of] split: option.splits if_splits)

text \<open>The chunks of a text put together are the text.\<close>

lemma concat_chunks: "concat (chunk_text_by sz s) = s"
proof (induction s rule: chunk_text_by.induct)
  case (1 sz s)
  then show ?case by (subst chunk_text_by.simps) auto
qed

section \<open>Cases the code does not handle\<close>

text \<open>The chunks of a deleted article stay and are found.\<close>

lemma deleted_article_still_found:
  "(let w = after (delete_article 1 sample_user kb_note) kb_note
    in (tget (kb_articles w) 1 = None, map_sum id (map kh_doc_ref) (kb_semantic_search sample_kb ''x'' ''vector'' 5 None reader w))) = (True, Inr [''1''])"
  by code_simp

text \<open>With ingestion off an article that is reclassified keeps its public chunks.\<close>

lemma reclassified_while_off:
  "(let off = kb_note\<lparr>config_rules := [(''feature.kb'', [(''value'', JBool True)])]\<rparr>;
        w = (after (update_article sample_kb 1 note_hide sample_user off) off)\<lparr>config_rules := config_rules kb_note\<rparr>
    in (map_option ka_visibility (tget (kb_articles w) 1), map_sum id (map kh_doc_ref) (kb_semantic_search sample_kb ''x'' ''vector'' 5 None reader w))) =
   (Some ''classified'', Inr [''1''])"
  by code_simp

text \<open>The caller chooses the kind of entity, and the ids of all kinds are one name space: a visible host makes the article of
  the same number visible.\<close>

lemma host_scope_finds_classified:
  "(let w = (after (create_article sample_kb (note_new ''classified'') sample_user kb_start) kb_start)\<lparr>hosts := Table [(1, sample_host\<lparr>h_group_id := Some 1\<rparr>)] 1\<rparr>
    in (map_sum id (map kh_doc_ref) (kb_semantic_search sample_kb ''x'' ''vector'' 5 None reader w),
        map_sum id (map kh_doc_ref) (kb_semantic_search sample_kb ''x'' ''vector'' 5 (Some ''host'') reader w))) = (Inr [], Inr [''1''])"
  by code_simp

text \<open>A user who may not see an article may delete it.\<close>

lemma hidden_article_deleted:
  "(let w = after (create_article sample_kb (note_new ''classified'') sample_user kb_start) kb_start
    in (isl (get_article 1 reader w), isl (delete_article 1 reader w))) = (True, False)"
  by code_simp

text \<open>Similar tickets are those of the category, also the ones the caller may not see.\<close>

lemma similar_tickets_unfiltered:
  assumes "feature_on w ''ai.ticket_assist''" and "has_perm u ''ai:use''" and "table_ok (tickets w)" and "tget (tickets w) i = Some t"
    and "ticket_allowed u t" and "tget (tickets w) j = Some s" and "tk_category s = tk_category t" and "j \<noteq> i" and "length (rows (tickets w)) \<le> n"
  shows "\<exists>xs. ticket_similar i n u w = Inr xs \<and> (j, s) \<in> set xs"
proof -
  let ?xs = "rev (filter (\<lambda>(j, r). tk_category r = tk_category t \<and> j \<noteq> i) (rows (tickets w)))"
  have "length ?xs \<le> n" using order_trans [OF length_filter_le assms(9)] by simp
  then have "take n ?xs = ?xs" by simp
  moreover have "(j, s) \<in> set ?xs" using assms(6-8) tget_SomeD by fastforce
  ultimately show ?thesis using assms(1,2,4,5) by (simp add: ticket_similar_def ai_gate_def flag_gate_def get_visible_ticket_def)
qed

end
