(* ===== verification/Spec2Isabelle.thy ===== *)
theory Spec2Isabelle
  imports Exec_Properties Workflow_Properties Delivery_Properties Schedule_Properties Identity_Properties Monitor_Properties Terminal_Properties Transfer_Properties Asset_Properties Sso_Properties Kb_Properties
begin

text \<open>
  A verification library for lark-plat, an operations platform: remote execution with approvals,
  workflows, releases, tickets, schedules, monitoring, file transfer, a web terminal, the inventory of
  hosts, scripts and relations they work on, and a knowledge base, written in Python over a relational
  database. The library models the services under \<open>src/backend/app\<close> as HOL functions on a database record and
  proves what they promise.

  \<^bold>\<open>The program.\<close> HTTP handlers and worker tasks call the services; a service reads and writes rows
  through the repositories and commits. Four services form one domain around the task: the execution
  service creates a task, checks its content against the sensitivity rules and either starts it or
  opens an approval request; the approval service decides the request and starts or cancels the
  task; the dispatcher runs a started task on its hosts under two kinds of Redis semaphores; agents
  report back, a sweep times out what is overdue. On top of that domain the workflow engine walks a
  graph of nodes (some of which are tasks or approvals), the delivery service runs releases as
  workflows, the scheduler starts tasks on a clock, tickets link to all of them. A terminal session on a
  sensitive host waits for an approval of the same domain. Monitoring takes events, evaluates rules
  into alerts and notifies; transfers move files through the same agents; the identity services give
  every handler its principal. Hosts come from the asset service or register themselves through the
  agent gateway, scripts are kept with all their versions, and the CMDB relates hosts and groups.
  Users may also come from LDAP and OAuth providers, which bring roles with them. Articles of the
  knowledge base are cut into chunks that a semantic search retrieves within the scope of the caller.

  \<^bold>\<open>Theories.\<close>
  \<^item> \<open>Prelude\<close>: Python values (\<open>json\<close>, truthiness, \<open>dict\<close> access, string search, SQL \<open>LIKE\<close>, decimal
    and integer parsing), the error classes of \<open>core/exceptions.py\<close>, tables with sequence-drawn keys,
    the compare-and-set update of the repositories, action-keyed transition tables. Locales:
    \<open>row_store\<close> (the laws of a table), \<open>versioned_row\<close> (a row under optimistic locking: one winner),
    \<open>action_machine\<close> (absorbing and live statuses of a transition table), \<open>append_only\<close> (a log that every
    step of a service leaves and extends).
  \<^item> \<open>Access\<close>: \<open>api/deps.py\<close> and \<open>services/ai_gate.py\<close>: principal, permissions, visible groups, feature
    flags. Locale \<open>gated_op\<close>: a handler that refuses without the feature and the permission, before
    anything else.
  \<^item> \<open>Exec_Model\<close>: the rows of the execution domain (\<open>db/models/exec.py\<close>, \<open>schedule.py\<close>, \<open>asset.py\<close>,
    \<open>script.py\<close>, \<open>terminal.py\<close>, \<open>ai_automation.py\<close>, \<open>ai.py\<close>) in the record \<open>exec_db\<close>, the environment
    \<open>env\<close>, and the repository operations.
  \<^item> \<open>Exec_Sensitive\<close>: sensitivity rules and detector, parameter rendering, the content a task runs.
  \<^item> \<open>AI_Policy\<close>: automation levels, remediation policies, circuit breaker.
  \<^item> \<open>Exec_Dispatch\<close>: \<open>tasks/exec_tasks.py\<close>, \<open>services/executors\<close>, the semaphores of
    \<open>core/redis_helper.py\<close>, the result frames of \<open>ws/agent_ws.py\<close>.
  \<^item> \<open>Exec_Service\<close>, \<open>Approval_Service\<close>: the handlers of \<open>exec_service.py\<close> and \<open>approval_service.py\<close>.
  \<^item> \<open>Exec_Invariants\<close>: the step relation of the domain and the preservation of the approval gate, of
    tasks and of terminal sessions, by each operation; that the domain leaves the tables of other
    components alone.
  \<^item> \<open>Schedule_Service\<close>: \<open>schedule_service.py\<close>, the gate for scheduled runs, what the sweep does.
  \<^item> \<open>Workflow_Definition\<close>: validation of a definition, the cycle check.
  \<^item> \<open>Security\<close>: tokens and stored secrets (\<open>core/security.py\<close>).
  \<^item> \<open>Workflow_Model\<close>, \<open>Workflow_Engine\<close>, \<open>Workflow_Service\<close>: rows, the step and the driver, the
    handlers. \<open>Workflow_Props\<close>: lemmas on a step.
  \<^item> \<open>Cicd_Service\<close>: providers, releases, webhook. \<open>Ticket_Service\<close>: tickets.
  \<^item> \<open>Identity_Service\<close>: \<open>auth_service.py\<close>, the stores of \<open>core/redis_helper.py\<close> (locale \<open>ttl_store\<close>),
    \<open>api/deps.py\<close> and \<open>system_service.py\<close>: login with its lock, tokens, the principal, users and roles.
  \<^item> \<open>Sso_Service\<close>: \<open>sso_service.py\<close>: providers and their secrets, LDAP login, OAuth, provisioning.
    \<open>Sso_Facts\<close>: its step relation and what each step does to roles, states and the audit log.
  \<^item> \<open>Kb_Service\<close>: \<open>kb_service.py\<close>, \<open>kb_ingestion.py\<close>: categories, articles with their versions, the chunks
    of the index. \<open>Ai_Search\<close>: \<open>ai_scope.py\<close>, \<open>embedding_store.py\<close> and the search of \<open>ai_service.py\<close>, with the two
    stores proved to answer alike. \<open>Kb_Facts\<close>: the step relation, chains of categories, histories, the index.
  \<^item> \<open>Notify_Service\<close>: \<open>notify_service.py\<close>: channels and sending.
  \<^item> \<open>Monitor_Engine\<close>, \<open>Monitor_Ingest\<close>, \<open>Monitor_Service\<close>, \<open>Monitor_Adapter\<close>: \<open>monitor_service.py\<close>: the rule
    engine and the sweep; the external formats, the inbox, samples and daily rows; the handlers;
    adapters and their secrets. \<open>Monitor_Lifecycle\<close> has the step relation with its invariant,
    \<open>Monitor_Facts\<close> the lemmas, with alert log and inbox as instances of \<open>append_only\<close>.
  \<^item> \<open>Terminal_Service\<close>, \<open>Terminal_Facts\<close>: \<open>terminal_service.py\<close> and the loop of \<open>ws/terminal_ws.py\<close>; the steps
    of the terminal on top of the execution domain, recordings as an instance of \<open>append_only\<close>.
  \<^item> \<open>Transfer_Paths\<close>, \<open>Transfer_Service\<close>, \<open>Transfer_Facts\<close>: \<open>transfer_service.py\<close>, \<open>transfer_tasks.py\<close>,
    \<open>transfer_channels.py\<close> and the transfer frames of \<open>ws/agent_ws.py\<close>.
  \<^item> \<open>Csv_Format\<close>: the writer and the reader of Python's \<open>csv\<close>, and that reading inverts writing.
  \<^item> \<open>Asset_Service\<close>: \<open>asset_service.py\<close> and \<open>schemas/asset.py\<close>: groups, hosts, import and export,
    credentials. \<open>Group_Tree\<close>: the forest of groups. \<open>Cmdb_Service\<close>: \<open>cmdb_service.py\<close>, with the search
    of both queries in the locale \<open>level_search\<close>. \<open>Agent_Gateway\<close>: connections, \<open>hello\<close> and heartbeat of
    \<open>ws/agent_ws.py\<close>. \<open>Script_Service\<close>: \<open>script_service.py\<close>.
  \<^item> \<open>Asset_Facts\<close>, \<open>Script_Facts\<close>: the step relations of inventory and scripts on top of the execution
    domain, their invariants, and the locale \<open>lasting_rows\<close> (rows that keep a column once it is set).
  \<^item> \<open>Samples\<close>: a small installation on which witnesses evaluate.
  \<^item> \<open>Exec_Properties\<close>, \<open>Workflow_Properties\<close>, \<open>Delivery_Properties\<close>, \<open>Schedule_Properties\<close>,
    \<open>Identity_Properties\<close>, \<open>Monitor_Properties\<close>, \<open>Terminal_Properties\<close>, \<open>Transfer_Properties\<close>,
    \<open>Asset_Properties\<close>, \<open>Sso_Properties\<close>, \<open>Kb_Properties\<close>: the properties, each under its number.

  \<^bold>\<open>State and operations.\<close> The database is a record of tables, extended per component
  (\<open>sys_db\<close>, \<open>exec_db\<close>, \<open>wf_db\<close>, \<open>cicd_db\<close>, \<open>ticket_db\<close>, \<open>transfer_db\<close>; \<open>exec_db\<close>, \<open>sched_db\<close>, \<open>asset_db\<close>, \<open>cmdb_db\<close>; \<open>exec_db\<close>,
  \<open>term_db\<close>; \<open>notify_db\<close>, \<open>mon_db\<close>; \<open>id_db\<close>, \<open>sso_db\<close>; \<open>ticket_db\<close>, \<open>kb_db\<close>), so an operation of a lower component is
  applied unchanged in a higher one and the frame is part of its type. A handler is one definition: a
  chain of the guards of the code in their order, returning an error on the left (the session is
  rolled back, nothing changes) or the answer and the new database on the right; a handler that can
  still fail after it has committed returns the database beside its answer. Effects outside the
  database (broker messages, agent frames, driver starts) go to the list \<open>outbox\<close>. What a handler
  reads from outside (clock, broker, Redis, sockets, token and cipher libraries, cron library) is an
  argument. Property hypotheses on such an argument state the documented behaviour they need
  (decryption inverts encryption, the next cron occurrence is later than its base).

  \<^bold>\<open>Conventions.\<close> One reading of the clock per handler. A handler is atomic: interleaving is between
  handlers, as sequences of steps; the compare-and-set of the repositories is modelled and proved to
  have one winner. A \<open>SELECT\<close> without \<open>ORDER BY\<close> returns rows in key order. Columns that are only
  shown are left out. Sessions do not flush by themselves; where a handler queries what it has added
  and not flushed (the log rows of a transfer dispatch) the session is modelled, elsewhere the handlers
  flush before they query. A batch of monitoring events that fails in the middle may have been committed
  in part by the notifications it sent; its error carries no state. Integers are unbounded as in Python; floats of JSON are rationals, without NaN. Strings are
  lists of bytes; \<open>lower\<close> acts on ASCII letters.

  \<^bold>\<open>Termination and fuel.\<close> Every definition is total. The depth-first search of the cycle check gets as
  much depth as there are keys, and is proved never to run out. The tree of
  groups is built to the depth of the number of groups, which no path to a root exceeds. The loops from a
  category to its root terminate because they never visit one twice; the recursion over a subtree gets
  more levels than there are categories, and is proved to end on every table the service can make. The driver of a workflow run may
  loop forever in the code; \<open>driver_loop\<close> takes the list of the environments of its turns, and
  properties speak of every such list. A web-socket connection is the finite list of messages it
  receives.

  \<^bold>\<open>What is shown.\<close> Execution and approval: nothing sensitive starts without its approval, over any
  sequence of calls, also through the scheduler; a frame is only sent for a running task; the
  semaphores balance; a request is decided once; cancelling settles task, hosts and request; the
  sweep times out exactly what is overdue; the detector finds every configured word; automatic
  approval needs level, policy, whitelist and breaker. Workflows: validation accepts exactly the
  well-formed definitions, the cycle check is exact, a step keeps finished nodes and starts only
  enabled ones, runs are finalised by their nodes, dependency graphs do not deadlock, callbacks are
  accepted once, cancelled runs stay. Delivery: releases follow their runs, settled ones stay,
  provider secrets round-trip and are not shown, the webhook checks its token. Tickets: the history
  of a ticket is a path of the transition table. Schedules: a due schedule leaves one run per sweep
  and is not started twice in its interval. Identity: the principal has exactly the permissions and
  groups of its roles, refresh tokens rotate, logout revokes, failed logins lock. Single sign-on: a
  privileged role comes only from a declaration that is in the audit log, a state of OAuth works once, a
  login changes nobody else's account, what is stored of a provider decrypts to what was sent. Monitoring: the log of
  an alert is a path of its life cycle that ends in its status, one alert is active per rule and entity,
  an event resolves only alerts of its own entity and rule, redelivered events are duplicates, normalised
  events pass the validation, a daily row is the summary of its samples, adapter secrets round-trip.
  Terminal: a session on a sensitive host is open only with its approved request, over any sequence of
  steps; what is recorded is replayed in order. Transfer: the white-list check is exact for the meaning
  of paths, a stream delivers the file slice by slice, tasks are finalised by their hosts, stopping
  settles. Inventory: addresses, agents and names stay unique and the approval gate holds while hosts
  come and go, a host keeps the agent it was bound to, every group with a way to a root is in the tree
  once, an export is read back row by row, credentials round-trip. Scripts: no step changes a version
  that exists, and a script points at one of its versions. CMDB: topology and impact are exactly the
  entities within the given distance. Knowledge base: categories stay within their depth and free of
  cycles, an article has all its versions and none of them changes, a search shows what the caller may
  read at that moment. A last group states what the code does in cases it does
  not handle (livelocks, lost retries, a cron schedule that never starts); the manifest lists them as
  findings.

  \<^bold>\<open>Not modelled.\<close> Sockets, HTTP routing and field validation by the framework, database locking
  below statement level, background threads and their registry, migrations and seed data, prompts to
  language models. The LDAP and OAuth servers, the embedding of a text and the cosine of two embeddings
  (floating point with square roots) are arguments. The event service, evaluation and root-cause analysis
  are not modelled; the manifest says of every part what is.
\<close>

end
